(* ===== verification/Prelude.thy ===== *)
theory Prelude
  imports Complex_Main "HOL-Library.AList" "HOL-Library.Word"
begin

text \<open>
  Shared vocabulary of the development: the JavaScript values the program handles where its
  TypeScript types say \<open>unknown\<close>, the numbers and strings they contain, \<open>Map\<close> objects as
  association lists, results with errors as sums, and the generic lemmas on them that the
  component theories share.

  Strings are lists of code units. Identifiers and messages are \<^typ>\<open>string\<close> (code units
  below 256); the canonical JSON component works on full 16-bit code units, and
  \<open>'s jsval\<close> is therefore polymorphic in the type of its strings.
\<close>

named_theorems obj_simps \<open>looking up and spreading object properties\<close>
named_theorems res_simps \<open>sequencing of results that may be errors\<close>

section \<open>Numbers\<close>

text \<open>
  A JavaScript number is NaN, an infinity or a finite value. Finite values are rationals:
  comparisons of doubles are comparisons of the rationals they denote, and the arithmetic
  the program does (differences of millisecond timestamps) is exact on them.
\<close>

datatype jsnum = NaN | PosInf | NegInf | Fin rat

fun num_ge :: "jsnum \<Rightarrow> jsnum \<Rightarrow> bool" where
  "num_ge NaN _ = False"
| "num_ge _ NaN = False"
| "num_ge PosInf _ = True"
| "num_ge _ NegInf = True"
| "num_ge (Fin a) (Fin b) = (b \<le> a)"
| "num_ge _ _ = False"

fun num_gt :: "jsnum \<Rightarrow> jsnum \<Rightarrow> bool" where
  "num_gt NaN _ = False"
| "num_gt _ NaN = False"
| "num_gt PosInf PosInf = False"
| "num_gt PosInf _ = True"
| "num_gt NegInf _ = False"
| "num_gt _ NegInf = True"
| "num_gt (Fin a) (Fin b) = (b < a)"
| "num_gt _ _ = False"

fun num_neg :: "jsnum \<Rightarrow> jsnum" where
  "num_neg NaN = NaN"
| "num_neg PosInf = NegInf"
| "num_neg NegInf = PosInf"
| "num_neg (Fin a) = Fin (- a)"

fun num_add :: "jsnum \<Rightarrow> jsnum \<Rightarrow> jsnum" where
  "num_add NaN _ = NaN"
| "num_add _ NaN = NaN"
| "num_add PosInf NegInf = NaN"
| "num_add NegInf PosInf = NaN"
| "num_add PosInf _ = PosInf"
| "num_add _ PosInf = PosInf"
| "num_add NegInf _ = NegInf"
| "num_add _ NegInf = NegInf"
| "num_add (Fin a) (Fin b) = Fin (a + b)"

definition num_sub :: "jsnum \<Rightarrow> jsnum \<Rightarrow> jsnum" where
  "num_sub a b = num_add a (num_neg b)"

text \<open>\<open>Math.max(0, x)\<close>: NaN if an argument is.\<close>

fun num_max0 :: "jsnum \<Rightarrow> jsnum" where
  "num_max0 NaN = NaN"
| "num_max0 PosInf = PosInf"
| "num_max0 NegInf = Fin 0"
| "num_max0 (Fin a) = Fin (max 0 a)"

fun is_finite :: "jsnum \<Rightarrow> bool" where
  "is_finite (Fin _) = True"
| "is_finite _ = False"

fun is_integer :: "jsnum \<Rightarrow> bool" where
  "is_integer (Fin a) = (a = of_int \<lfloor>a\<rfloor>)"
| "is_integer _ = False"

lemma num_sub_Fin [simp]: "num_sub (Fin a) (Fin b) = Fin (a - b)"
  by (simp add: num_sub_def)

lemma num_sub_NaN [simp]: "num_sub NaN b = NaN" "num_sub a NaN = NaN"
  by (cases a; simp add: num_sub_def)+

lemma num_max0_nonneg: "num_max0 x \<noteq> NaN \<Longrightarrow> num_ge (num_max0 x) (Fin 0)"
  by (cases x) auto

section \<open>Values\<close>

text \<open>
  The values a field of type \<open>unknown\<close> can hold. An object is the list of its own
  enumerable properties in insertion order. Symbols are not modelled.
\<close>

datatype 's jsval =
    JUndef
  | JNull
  | JBool bool
  | JNum jsnum
  | JBigInt int
  | JStr 's
  | JDate jsnum
  | JFun
  | JArr "'s jsval list"
  | JObj "('s \<times> 's jsval) list"

type_synonym js = "string jsval"
type_synonym jobj = "(string \<times> js) list"

fun is_plain_object :: "'s jsval \<Rightarrow> bool" where
  "is_plain_object (JObj _) = True"
| "is_plain_object (JDate _) = True"
| "is_plain_object _ = False"

text \<open>
  A property read \<open>o.k\<close>: \<open>undefined\<close> for a missing property. The property names the
  program reads from such values are not names of \<open>Object.prototype\<close>.
\<close>

definition obj_get :: "('s \<times> 's jsval) list \<Rightarrow> 's \<Rightarrow> 's jsval" where
  "obj_get ob k = (case map_of ob k of None \<Rightarrow> JUndef | Some v \<Rightarrow> v)"

fun js_get :: "'s jsval \<Rightarrow> 's \<Rightarrow> 's jsval" where
  "js_get (JObj ob) k = obj_get ob k"
| "js_get _ k = JUndef"

text \<open>Optional chaining on an optional object: \<open>o?.k\<close>.\<close>

definition opt_get :: "('s \<times> 's jsval) list option \<Rightarrow> 's \<Rightarrow> 's jsval" where
  "opt_get ob k = (case ob of None \<Rightarrow> JUndef | Some kvs \<Rightarrow> obj_get kvs k)"

text \<open>\<open>{...a, ...b}\<close>: the properties of \<open>b\<close> win, positions follow first insertion.\<close>

definition obj_spread :: "('s \<times> 'a) list \<Rightarrow> ('s \<times> 'a) list \<Rightarrow> ('s \<times> 'a) list" where
  "obj_spread a b = fold (\<lambda>(k, v) ob. AList.update k v ob) b a"

text \<open>The strings among the elements of an array.\<close>

definition string_items :: "'s jsval list \<Rightarrow> 's list" where
  "string_items vs = List.map_filter (\<lambda>v. case v of JStr s \<Rightarrow> Some s | _ \<Rightarrow> None) vs"

text \<open>\<open>a ?? b\<close>.\<close>

fun nullish :: "'s jsval \<Rightarrow> 's jsval \<Rightarrow> 's jsval" where
  "nullish JUndef b = b"
| "nullish JNull b = b"
| "nullish a _ = a"

text \<open>
  \<open>k in o\<close> also sees what every object inherits from \<open>Object.prototype\<close>.
\<close>

definition object_prototype_keys :: "string list" where
  "object_prototype_keys =
     [''constructor'', ''__defineGetter__'', ''__defineSetter__'', ''hasOwnProperty'',
      ''__lookupGetter__'', ''__lookupSetter__'', ''isPrototypeOf'',
      ''propertyIsEnumerable'', ''toString'', ''valueOf'', ''__proto__'',
      ''toLocaleString'']"

definition js_in :: "string \<Rightarrow> jobj \<Rightarrow> bool" where
  "js_in k ob \<longleftrightarrow> k \<in> set (map fst ob) \<or> k \<in> set object_prototype_keys"

lemma obj_get_update [obj_simps]:
  "obj_get (AList.update k v ob) k' = (if k' = k then v else obj_get ob k')"
  by (simp add: obj_get_def update_conv')

lemma map_of_spread [obj_simps]:
  "map_of (obj_spread a b) = map_of a ++ map_of (rev b)"
proof (induction b arbitrary: a)
  case Nil
  then show ?case by (simp add: obj_spread_def)
next
  case (Cons kv b)
  have "map_of (obj_spread a (kv # b)) =
      map_of (obj_spread (AList.update (fst kv) (snd kv) a) b)"
    by (simp add: obj_spread_def split_beta)
  then show ?case
    by (auto simp: Cons.IH update_conv' map_add_def fun_eq_iff split: option.splits)
qed

lemma obj_get_spread [obj_simps]:
  "obj_get (obj_spread a b) k = (case map_of (rev b) k of None \<Rightarrow> obj_get a k | Some v \<Rightarrow> v)"
  by (simp add: obj_get_def map_of_spread map_add_def split: option.splits)

lemma obj_spread_Nil [simp]: "obj_spread a [] = a"
  by (simp add: obj_spread_def)

section \<open>The host\<close>

text \<open>
  What the program uses of its JavaScript engine and that the engine, not the program,
  determines: the decimal text of a finite number (\<open>Number::toString\<close>), \<open>Number(s)\<close>,
  \<open>Date.parse(s)\<close>, and the text of a date or a function. They are arguments of the
  definitions that use them.
\<close>

record host =
  show_num :: "rat \<Rightarrow> string"
  parse_num :: "string \<Rightarrow> jsnum"
  parse_date :: "string \<Rightarrow> jsnum"
  show_date :: "jsnum \<Rightarrow> string"
  show_fun :: string

fun num_text :: "host \<Rightarrow> jsnum \<Rightarrow> string" where
  "num_text h NaN = ''NaN''"
| "num_text h PosInf = ''Infinity''"
| "num_text h NegInf = ''-Infinity''"
| "num_text h (Fin a) = show_num h a"

section \<open>Strings\<close>

text \<open>White space that \<open>trim\<close> removes, among the code units below 256.\<close>

definition js_space :: "char \<Rightarrow> bool" where
  "js_space c \<longleftrightarrow> (of_char c :: nat) \<in> {9, 10, 11, 12, 13, 32, 160}"

definition trim_start :: "string \<Rightarrow> string" where
  "trim_start s = dropWhile js_space s"

definition trim :: "string \<Rightarrow> string" where
  "trim s = rev (dropWhile js_space (rev (trim_start s)))"

fun join :: "'a list \<Rightarrow> 'a list list \<Rightarrow> 'a list" where
  "join sep [] = []"
| "join sep [x] = x"
| "join sep (x # y # xs) = x @ sep @ join sep (y # xs)"

definition lower_char :: "char \<Rightarrow> char" where
  "lower_char c =
     (let n = (of_char c :: nat)
      in if (65 \<le> n \<and> n \<le> 90) \<or> (192 \<le> n \<and> n \<le> 222 \<and> n \<noteq> 215)
         then char_of (n + 32) else c)"

definition lower :: "string \<Rightarrow> string" where
  "lower s = map lower_char s"

text \<open>\<open>String.prototype.split\<close> on single separators.\<close>

fun split_on :: "(char \<Rightarrow> bool) \<Rightarrow> string \<Rightarrow> string list" where
  "split_on P [] = [[]]"
| "split_on P (c # cs) =
     (if P c then [] # split_on P cs
      else (case split_on P cs of [] \<Rightarrow> [[c]] | s # ss \<Rightarrow> (c # s) # ss))"

fun show_nat :: "nat \<Rightarrow> string" where
  "show_nat n = (if n < 10 then [char_of (48 + n)]
                 else show_nat (n div 10) @ [char_of (48 + n mod 10)])"

declare show_nat.simps [simp del]

lemma trim_Nil [simp]: "trim [] = []"
  by (simp add: trim_def trim_start_def)

lemma trim_eq_Nil_iff: "trim s = [] \<longleftrightarrow> (\<forall>c \<in> set s. js_space c)"
proof -
  have "trim s = [] \<longleftrightarrow> (\<forall>c \<in> set (dropWhile js_space s). js_space c)"
    by (simp add: trim_def trim_start_def dropWhile_eq_Nil_conv)
  also have "\<dots> \<longleftrightarrow> (\<forall>c \<in> set s. js_space c)"
    by (metis (no_types, lifting) UnCI UnE dropWhile_eq_Nil_conv list.set_sel(1)
        hd_dropWhile set_append set_takeWhileD takeWhile_dropWhile_id)
  finally show ?thesis .
qed

fun js_to_string :: "host \<Rightarrow> js \<Rightarrow> string" where
  "js_to_string h JUndef = ''undefined''"
| "js_to_string h JNull = ''null''"
| "js_to_string h (JBool b) = (if b then ''true'' else ''false'')"
| "js_to_string h (JNum n) = num_text h n"
| "js_to_string h (JBigInt i) = show_num h (of_int i)"
| "js_to_string h (JStr s) = s"
| "js_to_string h (JDate d) = show_date h d"
| "js_to_string h JFun = show_fun h"
| "js_to_string h (JArr vs) =
     join '','' (map (\<lambda>v. case v of JUndef \<Rightarrow> [] | JNull \<Rightarrow> [] | _ \<Rightarrow> js_to_string h v) vs)"
| "js_to_string h (JObj _) = ''[object Object]''"

fun js_to_number :: "host \<Rightarrow> js \<Rightarrow> jsnum" where
  "js_to_number h JUndef = NaN"
| "js_to_number h JNull = Fin 0"
| "js_to_number h (JBool b) = Fin (if b then 1 else 0)"
| "js_to_number h (JNum n) = n"
| "js_to_number h (JBigInt i) = Fin (of_int i)"
| "js_to_number h (JStr s) = parse_num h s"
| "js_to_number h (JDate d) = d"
| "js_to_number h JFun = NaN"
| "js_to_number h (JArr vs) = parse_num h (js_to_string h (JArr vs))"
| "js_to_number h (JObj _) = NaN"

section \<open>Results\<close>

text \<open>
  What the program throws: an \<open>Error\<close> with its message, the \<open>ZodError\<close> of a schema that
  rejects its input (with the name of the schema), or the \<open>CanonicalizationError\<close> of
  \<open>packages/canonical-json\<close> (reason and path).
\<close>

datatype js_error = Error string | ZodError string | CanonError string string

text \<open>A thrown exception is \<^const>\<open>Inl\<close>; sequencing stops at the first one.\<close>

definition res_bind :: "'e + 'a \<Rightarrow> ('a \<Rightarrow> 'e + 'b) \<Rightarrow> 'e + 'b" where
  "res_bind r f = (case r of Inl e \<Rightarrow> Inl e | Inr x \<Rightarrow> f x)"

lemma res_bind_simps [simp]:
  "res_bind (Inl e) f = Inl e"
  "res_bind (Inr x) f = f x"
  by (simp_all add: res_bind_def)

lemma res_bind_Inr_iff [res_simps]:
  "res_bind r f = Inr y \<longleftrightarrow> (\<exists>x. r = Inr x \<and> f x = Inr y)"
  by (cases r) auto

lemma res_bind_Inl_iff [res_simps]:
  "res_bind r f = Inl e \<longleftrightarrow> r = Inl e \<or> (\<exists>x. r = Inr x \<and> f x = Inl e)"
  by (cases r) auto

text \<open>
  An asynchronous method as a state transformer: it returns or throws, and what it wrote
  before throwing stays written.
\<close>

type_synonym ('e, 'w, 'a) eop = "'w \<Rightarrow> ('e + 'a) \<times> 'w"
type_synonym ('w, 'a) op = "(js_error, 'w, 'a) eop"

definition op_return :: "'a \<Rightarrow> ('e, 'w, 'a) eop" where
  "op_return x w = (Inr x, w)"

definition op_throw :: "'e \<Rightarrow> ('e, 'w, 'a) eop" where
  "op_throw e w = (Inl e, w)"

definition op_bind ::
    "('e, 'w, 'a) eop \<Rightarrow> ('a \<Rightarrow> ('e, 'w, 'b) eop) \<Rightarrow> ('e, 'w, 'b) eop" where
  "op_bind m f w = (case m w of (Inl e, w') \<Rightarrow> (Inl e, w') | (Inr x, w') \<Rightarrow> f x w')"

text \<open>\<open>try \<dots> catch\<close>: the handler sees the error in the state reached when it was thrown.\<close>

definition op_catch :: "('e, 'w, 'a) eop \<Rightarrow> ('e \<Rightarrow> ('f, 'w, 'a) eop) \<Rightarrow> ('f, 'w, 'a) eop" where
  "op_catch m f w = (case m w of (Inl e, w') \<Rightarrow> f e w' | (Inr x, w') \<Rightarrow> (Inr x, w'))"

text \<open>\<open>for (const x of xs) await f(x)\<close>.\<close>

fun op_each :: "('a \<Rightarrow> ('e, 'w, 'b) eop) \<Rightarrow> 'a list \<Rightarrow> ('e, 'w, unit) eop" where
  "op_each f [] = op_return ()"
| "op_each f (x # xs) = op_bind (f x) (\<lambda>_. op_each f xs)"

lemma op_simps [simp]:
  "op_return x w = (Inr x, w)"
  "op_throw e w = (Inl e, w)"
  by (simp_all add: op_return_def op_throw_def)

lemma op_bind_Inr: "m w = (Inr x, w') \<Longrightarrow> op_bind m f w = f x w'"
  by (simp add: op_bind_def)

lemma op_bind_cases:
  assumes "op_bind m f w = (r, w')"
  obtains (throw) e where "m w = (Inl e, w')" "r = Inl e"
    | (cont) x w1 where "m w = (Inr x, w1)" "f x w1 = (r, w')"
  using assms by (auto simp: op_bind_def split: prod.splits sum.splits)

text \<open>A property of the state that an operation, however it ends, does not change.\<close>

definition op_keeps :: "('w \<Rightarrow> 'v) \<Rightarrow> ('e, 'w, 'a) eop \<Rightarrow> bool" where
  "op_keeps g m \<longleftrightarrow> (\<forall>w r w'. m w = (r, w') \<longrightarrow> g w' = g w)"

named_theorems keeps \<open>operations that keep a part of the state\<close>

lemma op_keepsD: "op_keeps g m \<Longrightarrow> m w = (r, w') \<Longrightarrow> g w' = g w"
  by (auto simp: op_keeps_def)

lemma op_keeps_return [keeps]: "op_keeps g (op_return x)"
  by (simp add: op_keeps_def)

lemma op_keeps_throw [keeps]: "op_keeps g (op_throw e)"
  by (simp add: op_keeps_def)

lemma op_keeps_bind [keeps]:
  "op_keeps g m \<Longrightarrow> (\<And>x. op_keeps g (f x)) \<Longrightarrow> op_keeps g (op_bind m f)"
  by (auto simp: op_keeps_def elim!: op_bind_cases)

lemma op_keeps_each [keeps]: "(\<And>x. op_keeps g (f x)) \<Longrightarrow> op_keeps g (op_each f xs)"
  by (induction xs) (auto intro!: keeps)

text \<open>
  An operation that keeps an invariant of the state and returns, if it returns, a value with a
  property.
\<close>

definition op_ensures :: "('w \<Rightarrow> bool) \<Rightarrow> ('e, 'w, 'a) eop \<Rightarrow> ('a \<Rightarrow> bool) \<Rightarrow> bool" where
  "op_ensures I m Q \<longleftrightarrow> (\<forall>w r w'. I w \<longrightarrow> m w = (r, w') \<longrightarrow> I w' \<and> (\<forall>x. r = Inr x \<longrightarrow> Q x))"

named_theorems ensures \<open>operations that keep an invariant and what they return\<close>

lemma op_ensuresD: "op_ensures I m Q \<Longrightarrow> I w \<Longrightarrow> m w = (r, w') \<Longrightarrow> I w' \<and> (\<forall>x. r = Inr x \<longrightarrow> Q x)"
  by (auto simp: op_ensures_def)

lemma op_ensures_return [ensures]: "Q x \<Longrightarrow> op_ensures I (op_return x) Q"
  by (simp add: op_ensures_def)

lemma op_ensures_throw [ensures]: "op_ensures I (op_throw e) Q"
  by (simp add: op_ensures_def)

lemma op_ensures_bind:
  assumes m: "op_ensures I m P" and f: "\<And>x. P x \<Longrightarrow> op_ensures I (f x) Q"
  shows "op_ensures I (op_bind m f) Q"
  unfolding op_ensures_def
proof (intro allI impI)
  fix w r w'
  assume w: "I w" and run: "op_bind m f w = (r, w')"
  from run show "I w' \<and> (\<forall>x. r = Inr x \<longrightarrow> Q x)"
  proof (cases rule: op_bind_cases)
    case (throw e)
    with op_ensuresD[OF m w throw(1)] show ?thesis by simp
  next
    case (cont x w1)
    from op_ensuresD[OF m w cont(1)] have "I w1" "P x" by simp_all
    from op_ensuresD[OF f[OF this(2)] this(1) cont(2)] show ?thesis .
  qed
qed

lemma op_ensures_any:
  "op_ensures I m (\<lambda>_. True) \<Longrightarrow> (\<And>x. op_ensures I (f x) Q) \<Longrightarrow> op_ensures I (op_bind m f) Q"
  by (rule op_ensures_bind)

section \<open>Lists and Map objects\<close>

text \<open>
  \<open>Array.prototype.find\<close>; the Map objects of the program are association lists with
  \<^const>\<open>AList.update\<close> for \<open>set\<close> and \<^const>\<open>map_of\<close> for \<open>get\<close>.
\<close>

lemma find_Some_iff':
  "List.find P xs = Some x \<Longrightarrow> P x \<and> x \<in> set xs"
  by (induction xs) (auto split: if_splits)

lemma concat_map_none: "concat (map f xs) = [] \<longleftrightarrow> (\<forall>x \<in> set xs. f x = [])"
  by (induction xs) auto

lemma ex_value_iff_key: "(\<exists>v. (k, v) \<in> set al) \<longleftrightarrow> k \<in> set (map fst al)"
  by (induction al) auto

lemma set_alist_update_subset:
  "set (AList.update k v al) \<subseteq> insert (k, v) (set al)"
  by (induction al) auto

lemma map_of_update_eq [obj_simps]:
  "map_of (AList.update k v al) k' = (if k' = k then Some v else map_of al k')"
  by (simp add: update_conv')

lemma map_of_SomeI_set: "map_of al k = Some v \<Longrightarrow> v \<in> snd ` set al"
  by (force dest: map_of_SomeD)

end
