(* ===== verification/Core.thy ===== *)
theory Core
  imports Prelude
begin

text \<open>
  The data model of \<open>packages/core\<close>: the identifier types are strings
  (\<open>schemas.ts\<close> brands them at the type level only), statuses and actor types are
  datatypes, the specifications of a loop definition and the runtime instance and transition
  record are records. The schema transform that fills a missing transition signal, the
  authoring defaults of \<open>packages/loop-definition\<close> that repeat it, the schema of a whole
  definition as a decoder of untyped values, and the redaction walk of
  \<open>toolAdapter.ts\<close> are functions on them.
\<close>

section \<open>Statuses, actors and guards\<close>

datatype loop_status = Pending | Active | Completed | Failed | Cancelled | Suspended

datatype actor_type = Human | Automation | AiAgent | System

datatype severity = Hard | Soft

datatype evaluated_by = Runtime | Module | External

record actor_ref =
  actor_id :: string
  actor_type :: actor_type
  actor_displayName :: "string option"
  actor_metadata :: "jobj option"

record guard_spec =
  guard_id :: string
  guard_description :: string
  guard_severity :: severity
  guard_evaluatedBy :: evaluated_by
  guard_failureMessage :: "string option"
  guard_parameters :: "jobj option"

fun actor_type_name :: "actor_type \<Rightarrow> string" where
  "actor_type_name Human = ''human''"
| "actor_type_name Automation = ''automation''"
| "actor_type_name AiAgent = ''ai-agent''"
| "actor_type_name System = ''system''"

section \<open>Loop definitions\<close>

text \<open>
  A transition is generic in its signal: an authored transition has
  \<open>string option\<close> (the schema's input type), a parsed one has \<open>string\<close> (its output
  type). The same holds of a definition.
\<close>

record 'sg transition_gen =
  tr_id :: string
  tr_from :: string
  tr_to :: string
  tr_signal :: 'sg
  tr_actors :: "actor_type list"
  tr_guards :: "guard_spec list option"
  tr_description :: "string option"
  tr_metadata :: "jobj option"

record state_spec =
  st_id :: string
  st_label :: string
  st_isTerminal :: "bool option"
  st_isError :: "bool option"
  st_description :: "string option"

record business_metric =
  bm_id :: string
  bm_label :: string
  bm_unit :: string
  bm_improvableByAI :: "bool option"

record outcome_spec =
  oc_id :: "string option"
  oc_description :: string
  oc_valueUnit :: string
  oc_measurable :: "bool option"
  oc_businessMetrics :: "business_metric list"

record 'sg definition_gen =
  def_id :: string
  def_version :: string
  def_name :: string
  def_description :: string
  def_domain :: "string option"
  def_states :: "state_spec list"
  def_initialState :: string
  def_transitions :: "'sg transition_gen list"
  def_outcome :: "outcome_spec option"
  def_tags :: "string list option"
  def_metadata :: "jobj option"

type_synonym transition_spec = "string transition_gen"
type_synonym loop_definition = "string definition_gen"
type_synonym authored_transition = "string option transition_gen"
type_synonym authored_definition = "string option definition_gen"

text \<open>A definition names only states it declares.\<close>

definition declared :: "loop_definition \<Rightarrow> string \<Rightarrow> bool" where
  "declared d sid \<longleftrightarrow> sid \<in> set (map st_id (def_states d))"

definition definition_wf :: "loop_definition \<Rightarrow> bool" where
  "definition_wf d \<longleftrightarrow> declared d (def_initialState d) \<and>
     (\<forall>t \<in> set (def_transitions d). declared d (tr_from t) \<and> declared d (tr_to t))"

text \<open>The \<open>.transform\<close> of \<open>TransitionSpecSchema\<close>: \<open>signal := signal ?? id\<close>.\<close>

definition transform_transition :: "authored_transition \<Rightarrow> transition_spec" where
  "transform_transition t =
     \<lparr>tr_id = tr_id t, tr_from = tr_from t, tr_to = tr_to t,
      tr_signal = (case tr_signal t of None \<Rightarrow> tr_id t | Some s \<Rightarrow> s),
      tr_actors = tr_actors t, tr_guards = tr_guards t,
      tr_description = tr_description t, tr_metadata = tr_metadata t\<rparr>"

definition transform_definition :: "authored_definition \<Rightarrow> loop_definition" where
  "transform_definition d =
     \<lparr>def_id = def_id d, def_version = def_version d, def_name = def_name d,
      def_description = def_description d, def_domain = def_domain d,
      def_states = def_states d, def_initialState = def_initialState d,
      def_transitions = map transform_transition (def_transitions d),
      def_outcome = def_outcome d, def_tags = def_tags d, def_metadata = def_metadata d\<rparr>"

text \<open>
  \<open>applyAuthoringDefaults\<close> of \<open>packages/loop-definition\<close>: it works on a definition that
  may still lack signals and returns its argument when nothing is missing.
\<close>

definition default_signal :: "authored_transition \<Rightarrow> authored_transition" where
  "default_signal t =
     (case tr_signal t of Some _ \<Rightarrow> t | None \<Rightarrow> t\<lparr>tr_signal := Some (tr_id t)\<rparr>)"

definition applyAuthoringDefaults :: "authored_definition \<Rightarrow> authored_definition" where
  "applyAuthoringDefaults d =
     (if list_ex (\<lambda>t. tr_signal t = None) (def_transitions d)
      then d\<lparr>def_transitions := map default_signal (def_transitions d)\<rparr>
      else d)"

lemma transform_transition_sel [simp]:
  "tr_id (transform_transition t) = tr_id t"
  "tr_from (transform_transition t) = tr_from t"
  "tr_to (transform_transition t) = tr_to t"
  "tr_actors (transform_transition t) = tr_actors t"
  "tr_guards (transform_transition t) = tr_guards t"
  "tr_metadata (transform_transition t) = tr_metadata t"
  by (simp_all add: transform_transition_def)

lemma default_signal_fills: "tr_signal (default_signal t) \<noteq> None"
  by (simp add: default_signal_def split: option.splits)

lemma default_signal_idem: "tr_signal t \<noteq> None \<Longrightarrow> default_signal t = t"
  by (auto simp: default_signal_def split: option.splits)

lemma transform_default: "transform_transition (default_signal t) = transform_transition t"
  by (simp add: transform_transition_def default_signal_def split: option.splits)

lemma applyAuthoringDefaults_alt:
  "applyAuthoringDefaults d = d\<lparr>def_transitions := map default_signal (def_transitions d)\<rparr>"
proof (cases "list_ex (\<lambda>t. tr_signal t = None) (def_transitions d)")
  case True
  then show ?thesis by (simp add: applyAuthoringDefaults_def)
next
  case False
  then have "map default_signal (def_transitions d) = def_transitions d"
    by (auto intro!: map_idI default_signal_idem simp: list_ex_iff)
  with False show ?thesis by (simp add: applyAuthoringDefaults_def)
qed

lemma applyAuthoringDefaults_unchanged:
  "applyAuthoringDefaults d = d \<longleftrightarrow> list_all (\<lambda>t. tr_signal t \<noteq> None) (def_transitions d)"
proof
  assume "applyAuthoringDefaults d = d"
  then have "map default_signal (def_transitions d) = def_transitions d"
    by (metis applyAuthoringDefaults_alt definition_gen.simps(8) definition_gen.select_convs(8)
        definition_gen.surjective definition_gen.update_convs(8))
  then have "set (def_transitions d) \<subseteq> range default_signal" by (metis image_mono image_set subset_UNIV)
  then show "list_all (\<lambda>t. tr_signal t \<noteq> None) (def_transitions d)"
    using default_signal_fills by (auto simp: list_all_iff)
next
  assume "list_all (\<lambda>t. tr_signal t \<noteq> None) (def_transitions d)"
  then show "applyAuthoringDefaults d = d"
    by (auto simp: applyAuthoringDefaults_def list_all_iff list_ex_iff)
qed

section \<open>Runtime records\<close>

record loop_instance =
  inst_loopId :: string
  inst_aggregateId :: string
  inst_currentState :: string
  inst_status :: loop_status
  inst_startedAt :: string
  inst_updatedAt :: string
  inst_correlationId :: "string option"
  inst_completedAt :: "string option"
  inst_metadata :: "jobj option"

record transition_record =
  rec_aggregateId :: string
  rec_loopId :: string
  rec_transitionId :: string
  rec_signal :: string
  rec_fromState :: string
  rec_toState :: string
  rec_actor :: actor_ref
  rec_occurredAt :: string
  rec_evidence :: "jobj option"

section \<open>Redaction of evidence payloads\<close>

text \<open>
  \<open>guardEvidence\<close>: every object loses the keys of \<open>stripFields\<close> (compared in lower case)
  and every string has each mask pattern replaced, in order. A mask is the string function
  \<open>s => s.replace(pattern, "[REDACTED]")\<close> of a regular expression the caller supplies.
  A key that occurs once in the source occurs once in the copy, so writing \<open>out[k]\<close> is
  appending.
\<close>

record evidence_options =
  stripFields :: "string list"
  maskPatterns :: "(string \<Rightarrow> string) list"

definition normalizeKey :: "string \<Rightarrow> string" where
  "normalizeKey k = lower k"

definition strip_set :: "evidence_options \<Rightarrow> string set" where
  "strip_set opts = set (map normalizeKey (stripFields opts))"

fun guard_walk :: "evidence_options \<Rightarrow> js \<Rightarrow> js" where
  "guard_walk opts (JStr s) = JStr (fold (\<lambda>m t. m t) (maskPatterns opts) s)"
| "guard_walk opts (JArr vs) = JArr (map (guard_walk opts) vs)"
| "guard_walk opts (JObj kvs) =
     JObj (map (\<lambda>(k, v). (k, guard_walk opts v))
             (filter (\<lambda>(k, v). normalizeKey k \<notin> strip_set opts) kvs))"
| "guard_walk opts v = v"

definition guardEvidence :: "evidence_options option \<Rightarrow> js \<Rightarrow> js" where
  "guardEvidence opts v =
     guard_walk (case opts of None \<Rightarrow> \<lparr>stripFields = [], maskPatterns = []\<rparr> | Some x \<Rightarrow> x) v"

text \<open>All property names and all strings that occur anywhere in a value.\<close>

fun js_keys :: "js \<Rightarrow> string set" where
  "js_keys (JArr vs) = (\<Union>v \<in> set vs. js_keys v)"
| "js_keys (JObj kvs) = (\<Union>(k, v) \<in> set kvs. insert k (js_keys v))"
| "js_keys _ = {}"

fun js_strings :: "js \<Rightarrow> string set" where
  "js_strings (JStr s) = {s}"
| "js_strings (JArr vs) = (\<Union>v \<in> set vs. js_strings v)"
| "js_strings (JObj kvs) = (\<Union>(k, v) \<in> set kvs. js_strings v)"
| "js_strings _ = {}"

lemma guard_walk_keys:
  "js_keys (guard_walk opts v) \<subseteq> {k \<in> js_keys v. normalizeKey k \<notin> strip_set opts}"
proof (induction opts v rule: guard_walk.induct)
  case (3 opts kvs)
  then show ?case by (fastforce)
qed auto

lemma guard_walk_strings:
  "js_strings (guard_walk opts v) \<subseteq> (\<lambda>s. fold (\<lambda>m t. m t) (maskPatterns opts) s) ` js_strings v"
proof (induction opts v rule: guard_walk.induct)
  case (2 opts vs)
  then show ?case by fastforce
next
  case (3 opts kvs)
  then show ?case by fastforce
qed auto

lemma guard_walk_no_options:
  "guard_walk \<lparr>stripFields = [], maskPatterns = []\<rparr> v = v"
proof (induction v)
  case (JArr vs)
  then show ?case by (simp add: map_idI)
next
  case (JObj kvs)
  then show ?case by (auto simp: strip_set_def intro!: map_idI)
qed auto

end
