(* ===== verification/Actors.thy ===== *)
theory Actors
  imports Core
begin

text \<open>
  \<open>packages/actors\<close>: the authorization decision of \<open>authorization.ts\<close> and the evidence
  an AI actor submits (\<open>ai-evidence.ts\<close>).
\<close>

section \<open>Authorization\<close>

record ai_constraints =
  requiresHumanApprovalFor :: "string list option"

record authorization_result =
  authorized :: bool
  requiresApproval :: bool
  auth_reason :: "string option"

definition canActorExecuteTransition ::
    "actor_ref \<Rightarrow> transition_spec \<Rightarrow> ai_constraints option \<Rightarrow> authorization_result" where
  "canActorExecuteTransition actor t constraints =
     (if actor_type actor \<notin> set (tr_actors t)
      then \<lparr>authorized = False, requiresApproval = False,
            auth_reason = Some ''Actor type not allowed for this transition''\<rparr>
      else if actor_type actor = AiAgent \<and>
              (case constraints of
                 None \<Rightarrow> False
               | Some c \<Rightarrow> (case requiresHumanApprovalFor c of
                    None \<Rightarrow> False | Some ids \<Rightarrow> tr_id t \<in> set ids))
      then \<lparr>authorized = True, requiresApproval = True, auth_reason = None\<rparr>
      else \<lparr>authorized = True, requiresApproval = False, auth_reason = None\<rparr>)"

text \<open>The transitions an AI actor may not take by itself.\<close>

definition approval_list :: "ai_constraints option \<Rightarrow> string set" where
  "approval_list constraints =
     (case constraints of None \<Rightarrow> {}
      | Some c \<Rightarrow> (case requiresHumanApprovalFor c of None \<Rightarrow> {} | Some ids \<Rightarrow> set ids))"

lemma authorized_iff:
  "authorized (canActorExecuteTransition a t c) \<longleftrightarrow> actor_type a \<in> set (tr_actors t)"
  by (simp add: canActorExecuteTransition_def)

lemma requiresApproval_iff:
  "requiresApproval (canActorExecuteTransition a t c) \<longleftrightarrow>
     actor_type a \<in> set (tr_actors t) \<and> actor_type a = AiAgent \<and> tr_id t \<in> approval_list c"
  by (auto simp: canActorExecuteTransition_def approval_list_def split: option.splits)

lemmas authorization_iffs = authorized_iff requiresApproval_iff

section \<open>Evidence of an AI actor\<close>

record ai_evidence_params =
  aep_modelId :: string
  aep_provider :: string
  aep_reasoning :: string
  aep_confidence :: jsnum
  aep_dataPoints :: "jobj option"
  aep_rawResponse :: js
  aep_prompt :: "string option"

text \<open>
  \<open>sha256\<close> stands for the digest of the host's \<open>crypto.subtle\<close>. An empty prompt is falsy,
  so it is not hashed; an absent \<open>rawResponse\<close> is \<^const>\<open>JUndef\<close>.
\<close>

definition buildAIActorEvidence ::
    "host \<Rightarrow> (string \<Rightarrow> string) \<Rightarrow> ai_evidence_params \<Rightarrow> js_error + jobj" where
  "buildAIActorEvidence h sha256 p =
     (if num_gt (Fin 0) (aep_confidence p) \<or> num_gt (aep_confidence p) (Fin 1)
      then Inl (Error (''confidence must be between 0 and 1, got '' @ num_text h (aep_confidence p)))
      else
        let promptHash = (case aep_prompt p of
              None \<Rightarrow> None
            | Some s \<Rightarrow> if s = [] then None else Some (sha256 s))
        in Inr (
          [(''reasoning'', JStr (aep_reasoning p)), (''confidence'', JNum (aep_confidence p))] @
          (case aep_dataPoints p of None \<Rightarrow> [] | Some d \<Rightarrow> [(''dataPoints'', JObj d)]) @
          (if aep_rawResponse p = JUndef then [] else [(''modelResponse'', aep_rawResponse p)]) @
          [(''modelId'', JStr (aep_modelId p)), (''provider'', JStr (aep_provider p))] @
          (case promptHash of None \<Rightarrow> [] | Some x \<Rightarrow> if x = [] then [] else [(''promptHash'', JStr x)])))"

text \<open>
  The range check rejects what lies outside \<open>[0, 1]\<close>; NaN compares false with both bounds
  and passes it.
\<close>

lemma buildAIActorEvidence_confidence:
  "buildAIActorEvidence h sha p = Inr ev \<Longrightarrow>
     aep_confidence p = NaN \<or> (\<exists>c. aep_confidence p = Fin c \<and> 0 \<le> c \<and> c \<le> 1)"
  by (cases "aep_confidence p") (auto simp: buildAIActorEvidence_def split: if_splits)

lemma buildAIActorEvidence_get:
  assumes "buildAIActorEvidence h sha p = Inr ev"
  shows "obj_get ev ''confidence'' = JNum (aep_confidence p)"
    and "obj_get ev ''modelId'' = JStr (aep_modelId p)"
  using assms
  by (auto simp: buildAIActorEvidence_def obj_get_def Let_def map_add_def
      split: if_splits option.splits)

end
