(* ===== verification/Guards.thy ===== *)
theory Guards
  imports Core
begin

text \<open>
  \<open>packages/guards\<close>: the guard registry (\<open>registry.ts\<close>), the four built-in evaluators
  (\<open>built-in/\<close>) and the evaluation pipeline (\<open>pipeline.ts\<close>). An evaluator is a function of
  the host, the time in milliseconds when it runs, the guard context and the parameters of the
  guard specification; it returns a result or throws.
\<close>

section \<open>Contexts, results, evaluators\<close>

record guard_context =
  gc_actor :: actor_ref
  gc_loopId :: string
  gc_aggregateId :: string
  gc_fromState :: string
  gc_toState :: string
  gc_signal :: string
  gc_evidence :: "jobj option"
  gc_loopData :: "jobj option"

record guard_result =
  gr_passed :: bool
  gr_code :: "string option"
  gr_message :: "string option"
  gr_metadata :: "jobj option"

type_synonym guard_evaluator =
  "host \<Rightarrow> int \<Rightarrow> guard_context \<Rightarrow> jobj option \<Rightarrow> js_error + guard_result"

record guard_evaluation =
  ge_guardId :: string
  ge_severity :: severity
  ge_passed :: bool
  ge_code :: "string option"
  ge_message :: string
  ge_metadata :: "jobj option"

record guard_summary =
  hardFailures :: "guard_evaluation list"
  softFailures :: "guard_evaluation list"
  allPassed :: bool

section \<open>Built-in guards\<close>

definition confidence_threshold :: guard_evaluator where
  "confidence_threshold h now ctx params =
     (let threshold = (case opt_get params ''threshold'' of JNum n \<Rightarrow> n | _ \<Rightarrow> Fin (7 / 10));
          conf = opt_get (gc_evidence ctx) ''confidence'';
          actual = (case conf of JNum n \<Rightarrow> n
                    | _ \<Rightarrow> js_to_number h (nullish conf (JNum (Fin 0))));
          passed = num_ge actual threshold
      in Inr \<lparr>gr_passed = passed,
              gr_code = (if passed then None else Some ''confidence_below_threshold''),
              gr_message = Some (if passed then ''Confidence threshold met''
                else ''AI confidence '' @ num_text h actual @ '' below required threshold '' @
                     num_text h threshold),
              gr_metadata = None\<rparr>)"

definition human_only :: guard_evaluator where
  "human_only h now ctx params =
     (let passed = (actor_type (gc_actor ctx) = Human)
      in Inr \<lparr>gr_passed = passed,
              gr_code = (if passed then None else Some ''human_actor_required''),
              gr_message = Some (if passed then ''Human actor requirement satisfied''
                else ''This transition requires a human actor''),
              gr_metadata = None\<rparr>)"

definition required_fields :: "jobj option \<Rightarrow> string list" where
  "required_fields params =
     (case opt_get params ''requiredFields'' of
        JArr vs \<Rightarrow> List.map_filter (\<lambda>v. case v of JStr s \<Rightarrow> Some s | _ \<Rightarrow> None) vs
      | _ \<Rightarrow> [])"

definition evidence_required :: guard_evaluator where
  "evidence_required h now ctx params =
     (let requiredFields = required_fields params;
          evidence = (case gc_evidence ctx of None \<Rightarrow> [] | Some e \<Rightarrow> e);
          missing = filter (\<lambda>f. \<not> js_in f evidence) requiredFields;
          passed = (missing = [])
      in Inr \<lparr>gr_passed = passed,
              gr_code = (if passed then None else Some ''missing_evidence_fields''),
              gr_message = Some (if passed then ''Required evidence present''
                else ''Missing required evidence fields: '' @ join '', '' missing),
              gr_metadata = None\<rparr>)"

definition cooldown :: guard_evaluator where
  "cooldown h now ctx params =
     (let cooldownMs = (case opt_get params ''cooldownMs'' of JNum n \<Rightarrow> n | _ \<Rightarrow> Fin 0);
          raw = opt_get (gc_loopData ctx) ''lastTransitionAt'';
          lastTransitionAt = (case raw of JStr s \<Rightarrow> parse_date h s | _ \<Rightarrow> js_to_number h raw)
      in if \<not> is_finite lastTransitionAt
         then Inr \<lparr>gr_passed = True, gr_code = None,
                   gr_message = Some ''No prior transition timestamp; cooldown not applicable'',
                   gr_metadata = None\<rparr>
         else
           let elapsedMs = num_sub (Fin (of_int now)) lastTransitionAt;
               passed = num_gt elapsedMs cooldownMs
           in Inr \<lparr>gr_passed = passed,
                   gr_code = (if passed then None else Some ''cooldown_not_elapsed''),
                   gr_message = Some (if passed then ''Cooldown elapsed''
                     else ''Transition blocked: cooldown period not elapsed''),
                   gr_metadata = Some [(''elapsedMs'', JNum elapsedMs),
                                       (''cooldownMs'', JNum cooldownMs)]\<rparr>)"

section \<open>Registry\<close>

type_synonym guard_registry = "(string \<times> guard_evaluator) list"

definition register_guard :: "guard_registry \<Rightarrow> string \<Rightarrow> guard_evaluator \<Rightarrow> guard_registry" where
  "register_guard r gid ev = AList.update gid ev r"

definition get_guard :: "guard_registry \<Rightarrow> string \<Rightarrow> guard_evaluator option" where
  "get_guard r gid = map_of r gid"

definition registerBuiltIns :: "guard_registry \<Rightarrow> guard_registry" where
  "registerBuiltIns r =
     register_guard
       (register_guard
          (register_guard
             (register_guard r ''confidence-threshold'' confidence_threshold)
             ''human-only'' human_only)
          ''evidence-required'' evidence_required)
       ''cooldown'' cooldown"

definition defaultRegistry :: guard_registry where
  "defaultRegistry = registerBuiltIns []"

section \<open>The pipeline\<close>

text \<open>
  Guards run in order; an unknown guard and a throwing evaluator abort the evaluation. \<open>now\<close>
  is the time at which the guards run.
\<close>

definition guard_evaluation_of :: "guard_spec \<Rightarrow> guard_result \<Rightarrow> guard_evaluation" where
  "guard_evaluation_of g r =
     \<lparr>ge_guardId = guard_id g, ge_severity = guard_severity g, ge_passed = gr_passed r,
      ge_code = gr_code r, ge_message = (case gr_message r of None \<Rightarrow> [] | Some m \<Rightarrow> m),
      ge_metadata = gr_metadata r\<rparr>"

fun run_guards ::
    "host \<Rightarrow> int \<Rightarrow> guard_registry \<Rightarrow> guard_context \<Rightarrow> guard_spec list \<Rightarrow>
     js_error + guard_evaluation list" where
  "run_guards h now reg ctx [] = Inr []"
| "run_guards h now reg ctx (g # gs) =
     (case get_guard reg (guard_id g) of
        None \<Rightarrow> Inl (Error (''Unknown guard: '' @ guard_id g))
      | Some ev \<Rightarrow>
          res_bind (ev h now ctx (guard_parameters g)) (\<lambda>r.
          res_bind (run_guards h now reg ctx gs) (\<lambda>rs.
          Inr (guard_evaluation_of g r # rs))))"

definition evaluateGuards ::
    "host \<Rightarrow> int \<Rightarrow> guard_spec list \<Rightarrow> guard_context \<Rightarrow> guard_registry \<Rightarrow>
     js_error + guard_summary" where
  "evaluateGuards h now gs ctx reg =
     res_bind (run_guards h now reg ctx gs) (\<lambda>results.
       let hard = filter (\<lambda>r. \<not> ge_passed r \<and> ge_severity r = Hard) results;
           soft = filter (\<lambda>r. \<not> ge_passed r \<and> ge_severity r = Soft) results
       in Inr \<lparr>hardFailures = hard, softFailures = soft, allPassed = (hard = [])\<rparr>)"

section \<open>Lemmas\<close>

lemma get_guard_register [simp]:
  "get_guard (register_guard r g ev) g' = (if g' = g then Some ev else get_guard r g')"
  by (simp add: get_guard_def register_guard_def obj_simps)

lemma get_guard_builtIns:
  "get_guard (registerBuiltIns r) g =
     (if g = ''cooldown'' then Some cooldown
      else if g = ''evidence-required'' then Some evidence_required
      else if g = ''human-only'' then Some human_only
      else if g = ''confidence-threshold'' then Some confidence_threshold
      else get_guard r g)"
  by (simp add: registerBuiltIns_def)

text \<open>What a guard specification evaluates to, when its evaluator returns.\<close>

definition guard_outcome ::
    "host \<Rightarrow> int \<Rightarrow> guard_registry \<Rightarrow> guard_context \<Rightarrow> guard_spec \<Rightarrow> guard_result option" where
  "guard_outcome h now reg ctx g =
     (case get_guard reg (guard_id g) of
        None \<Rightarrow> None
      | Some ev \<Rightarrow> (case ev h now ctx (guard_parameters g) of Inl _ \<Rightarrow> None | Inr r \<Rightarrow> Some r))"

definition guard_passes ::
    "host \<Rightarrow> int \<Rightarrow> guard_registry \<Rightarrow> guard_context \<Rightarrow> guard_spec \<Rightarrow> bool" where
  "guard_passes h now reg ctx g =
     (case guard_outcome h now reg ctx g of None \<Rightarrow> False | Some r \<Rightarrow> gr_passed r)"

lemma run_guards_Inr:
  assumes "run_guards h now reg ctx gs = Inr rs"
  shows run_guards_outcomes: "\<forall>g \<in> set gs. \<exists>r. guard_outcome h now reg ctx g = Some r"
    and run_guards_map:
      "rs = map (\<lambda>g. guard_evaluation_of g (the (guard_outcome h now reg ctx g))) gs"
  using assms
  by (induction gs arbitrary: rs)
     (auto simp: res_simps guard_outcome_def split: option.splits)

lemma run_guards_total:
  "(\<And>g. g \<in> set gs \<Longrightarrow> guard_outcome h now reg ctx g \<noteq> None) \<Longrightarrow>
     \<exists>rs. run_guards h now reg ctx gs = Inr rs"
proof (induction gs)
  case Nil
  then show ?case by simp
next
  case (Cons g gs)
  from Cons.prems[of g] obtain ev r where
    "get_guard reg (guard_id g) = Some ev" "ev h now ctx (guard_parameters g) = Inr r"
    by (auto simp: guard_outcome_def split: option.splits sum.splits)
  moreover from Cons obtain rs where "run_guards h now reg ctx gs = Inr rs" by auto
  ultimately show ?case by simp
qed

lemma run_guards_unknown:
  assumes "g \<in> set gs" and "get_guard reg (guard_id g) = None"
  shows "\<exists>e. run_guards h now reg ctx gs = Inl e"
proof (cases "run_guards h now reg ctx gs")
  case (Inr rs)
  with assms show ?thesis
    using run_guards_outcomes[OF Inr] by (auto simp: guard_outcome_def)
qed simp

text \<open>The summary in terms of the outcomes of the single guards.\<close>

definition failing :: "host \<Rightarrow> int \<Rightarrow> guard_registry \<Rightarrow> guard_context \<Rightarrow> severity \<Rightarrow> guard_spec \<Rightarrow> bool" where
  "failing h now reg ctx sev g \<longleftrightarrow>
     guard_severity g = sev \<and> \<not> guard_passes h now reg ctx g"

lemma evaluateGuards_Inr:
  assumes "evaluateGuards h now gs ctx reg = Inr s"
  shows evaluateGuards_outcomes: "\<forall>g \<in> set gs. \<exists>r. guard_outcome h now reg ctx g = Some r"
    and evaluateGuards_hard: "hardFailures s =
      map (\<lambda>g. guard_evaluation_of g (the (guard_outcome h now reg ctx g)))
        (filter (failing h now reg ctx Hard) gs)"
    and evaluateGuards_soft: "softFailures s =
      map (\<lambda>g. guard_evaluation_of g (the (guard_outcome h now reg ctx g)))
        (filter (failing h now reg ctx Soft) gs)"
    and evaluateGuards_allPassed: "allPassed s \<longleftrightarrow>
      (\<forall>g \<in> set gs. guard_severity g = Hard \<longrightarrow> guard_passes h now reg ctx g)"
proof -
  from assms obtain rs where rs: "run_guards h now reg ctx gs = Inr rs"
    and hard: "hardFailures s = filter (\<lambda>r. \<not> ge_passed r \<and> ge_severity r = Hard) rs"
    and soft: "softFailures s = filter (\<lambda>r. \<not> ge_passed r \<and> ge_severity r = Soft) rs"
    and all: "allPassed s \<longleftrightarrow> hardFailures s = []"
    by (auto simp: evaluateGuards_def res_simps Let_def)
  show outcomes: "\<forall>g \<in> set gs. \<exists>r. guard_outcome h now reg ctx g = Some r"
    by (rule run_guards_outcomes[OF rs])
  have select: "filter (\<lambda>r. \<not> ge_passed r \<and> ge_severity r = sev) rs =
      map (\<lambda>g. guard_evaluation_of g (the (guard_outcome h now reg ctx g)))
        (filter (failing h now reg ctx sev) gs)" for sev
    unfolding run_guards_map[OF rs] filter_map
    by (rule arg_cong[where f = "map _"], rule filter_cong)
       (use outcomes in \<open>auto simp: failing_def guard_passes_def guard_evaluation_of_def\<close>)
  show hard': "hardFailures s =
      map (\<lambda>g. guard_evaluation_of g (the (guard_outcome h now reg ctx g)))
        (filter (failing h now reg ctx Hard) gs)"
    unfolding hard by (rule select)
  show "softFailures s =
      map (\<lambda>g. guard_evaluation_of g (the (guard_outcome h now reg ctx g)))
        (filter (failing h now reg ctx Soft) gs)"
    unfolding soft by (rule select)
  show "allPassed s \<longleftrightarrow>
      (\<forall>g \<in> set gs. guard_severity g = Hard \<longrightarrow> guard_passes h now reg ctx g)"
    unfolding all hard' by (auto simp: failing_def filter_empty_conv)
qed

end
