(* ===== verification/Events.thy ===== *)
theory Events
  imports Core
begin

text \<open>
  \<open>packages/events\<close>: the events of \<open>events.ts\<close>, the factories of \<open>factory.ts\<close> with the
  schema checks of \<open>schemas.ts\<close> they run, the in-memory bus of \<open>bus.ts\<close> and the learning
  signal of \<open>learning.ts\<close>; also the signal registry of \<open>packages/signals\<close>.
\<close>

section \<open>Events\<close>

record event_base =
  ev_eventId :: string
  ev_loopId :: string
  ev_aggregateId :: string
  ev_occurredAt :: string
  ev_correlationId :: "string option"
  ev_causationId :: "string option"

record guard_note =
  note_guardId :: string
  note_message :: string

record loop_started =
  ls_initialState :: string
  ls_actor :: actor_ref
  ls_defLoopId :: string
  ls_version :: string
  ls_name :: string

record loop_completed =
  lc_finalState :: string
  lc_actor :: actor_ref
  lc_durationMs :: jsnum
  lc_outcomeValueUnit :: "string option" \<comment> \<open>\<open>outcome.valueUnit\<close>; its metrics are always empty\<close>

record loop_cancelled =
  lx_fromState :: string
  lx_actor :: actor_ref
  lx_reason :: "string option"

record loop_failed =
  lf_fromState :: string
  lf_code :: string
  lf_message :: string
  lf_stack :: "string option"

record transition_requested =
  rq_transitionId :: string
  rq_fromState :: string
  rq_toState :: string
  rq_signal :: string
  rq_actor :: actor_ref
  rq_evidence :: "jobj option"

record transition_executed =
  ex_transitionId :: string
  ex_fromState :: string
  ex_toState :: string
  ex_signal :: string
  ex_actor :: actor_ref
  ex_evidence :: "jobj option"
  ex_softGuardWarnings :: "guard_note list option"

record transition_blocked =
  bl_transitionId :: string
  bl_fromState :: string
  bl_attemptedToState :: string
  bl_actor :: actor_ref
  bl_guardFailures :: "guard_note list"

record guard_failed =
  gf_transitionId :: string
  gf_fromState :: string
  gf_guardId :: string
  gf_severity :: severity
  gf_actor :: actor_ref
  gf_message :: string
  gf_metadata :: "jobj option"

record signal_received =
  sr_signal :: string
  sr_fromState :: string
  sr_actor :: actor_ref
  sr_payload :: "jobj option"

datatype loop_event =
    LoopStarted event_base loop_started
  | LoopCompleted event_base loop_completed
  | LoopCancelled event_base loop_cancelled
  | LoopFailed event_base loop_failed
  | TransitionRequested event_base transition_requested
  | TransitionExecuted event_base transition_executed
  | TransitionBlocked event_base transition_blocked
  | GuardFailed event_base guard_failed
  | SignalReceived event_base signal_received

fun event_type :: "loop_event \<Rightarrow> string" where
  "event_type (LoopStarted _ _) = ''loop.started''"
| "event_type (LoopCompleted _ _) = ''loop.completed''"
| "event_type (LoopCancelled _ _) = ''loop.cancelled''"
| "event_type (LoopFailed _ _) = ''loop.failed''"
| "event_type (TransitionRequested _ _) = ''loop.transition.requested''"
| "event_type (TransitionExecuted _ _) = ''loop.transition.executed''"
| "event_type (TransitionBlocked _ _) = ''loop.transition.blocked''"
| "event_type (GuardFailed _ _) = ''loop.guard.failed''"
| "event_type (SignalReceived _ _) = ''loop.signal.received''"

definition loop_event_types :: "string list" where
  "loop_event_types =
     [''loop.started'', ''loop.completed'', ''loop.cancelled'', ''loop.failed'',
      ''loop.transition.requested'', ''loop.transition.executed'',
      ''loop.transition.blocked'', ''loop.guard.failed'', ''loop.signal.received'']"

lemma event_type_listed: "event_type e \<in> set loop_event_types"
  by (cases e) (simp_all add: loop_event_types_def)

section \<open>Schemas and factories\<close>

text \<open>
  What the event schemas demand of values that already have the declared types: the
  \<open>min(1)\<close> strings and the non-negative duration (\<open>z.number()\<close> rejects NaN). The
  identifier and time of an event are produced by the factory itself
  (\<open>crypto.randomUUID\<close> and \<open>toISOString\<close>) and pass their schemas.
\<close>

definition guard_note_ok :: "guard_note \<Rightarrow> bool" where
  "guard_note_ok n \<longleftrightarrow> note_message n \<noteq> []"

fun event_schema :: "loop_event \<Rightarrow> bool" where
  "event_schema (LoopStarted _ p) = (ls_version p \<noteq> [] \<and> ls_name p \<noteq> [])"
| "event_schema (LoopCompleted _ p) =
     (num_ge (lc_durationMs p) (Fin 0) \<and> lc_outcomeValueUnit p \<noteq> Some [])"
| "event_schema (LoopFailed _ p) = (lf_code p \<noteq> [] \<and> lf_message p \<noteq> [])"
| "event_schema (TransitionExecuted _ p) =
     (case ex_softGuardWarnings p of None \<Rightarrow> True | Some ns \<Rightarrow> list_all guard_note_ok ns)"
| "event_schema (TransitionBlocked _ p) = list_all guard_note_ok (bl_guardFailures p)"
| "event_schema (GuardFailed _ p) = (gf_message p \<noteq> [])"
| "event_schema _ = True"

definition parse_event :: "loop_event \<Rightarrow> js_error + loop_event" where
  "parse_event e = (if event_schema e then Inr e else Inl (ZodError (event_type e)))"

text \<open>
  The clock and identifier source of the process: the \<open>n\<close>-th use gives the \<open>n\<close>-th value.
\<close>

record env =
  uuid :: "nat \<Rightarrow> string"
  iso_now :: "nat \<Rightarrow> string"
  date_now :: "nat \<Rightarrow> int"

definition build_base :: "env \<Rightarrow> nat \<Rightarrow> string \<Rightarrow> string \<Rightarrow> string option \<Rightarrow> event_base" where
  "build_base en n lid aid corr =
     \<lparr>ev_eventId = uuid en n, ev_loopId = lid, ev_aggregateId = aid,
      ev_occurredAt = iso_now en n, ev_correlationId = corr, ev_causationId = None\<rparr>"

definition createLoopStartedEvent :: "event_base \<Rightarrow> loop_started \<Rightarrow> js_error + loop_event" where
  "createLoopStartedEvent b p = parse_event (LoopStarted b p)"

definition createLoopCompletedEvent :: "event_base \<Rightarrow> loop_completed \<Rightarrow> js_error + loop_event" where
  "createLoopCompletedEvent b p = parse_event (LoopCompleted b p)"

definition createLoopCancelledEvent :: "event_base \<Rightarrow> loop_cancelled \<Rightarrow> js_error + loop_event" where
  "createLoopCancelledEvent b p = parse_event (LoopCancelled b p)"

definition createLoopFailedEvent :: "event_base \<Rightarrow> loop_failed \<Rightarrow> js_error + loop_event" where
  "createLoopFailedEvent b p = parse_event (LoopFailed b p)"

definition createLoopTransitionRequestedEvent ::
    "event_base \<Rightarrow> transition_requested \<Rightarrow> js_error + loop_event" where
  "createLoopTransitionRequestedEvent b p = parse_event (TransitionRequested b p)"

definition createLoopTransitionExecutedEvent ::
    "event_base \<Rightarrow> transition_executed \<Rightarrow> js_error + loop_event" where
  "createLoopTransitionExecutedEvent b p = parse_event (TransitionExecuted b p)"

definition createLoopTransitionBlockedEvent ::
    "event_base \<Rightarrow> transition_blocked \<Rightarrow> js_error + loop_event" where
  "createLoopTransitionBlockedEvent b p = parse_event (TransitionBlocked b p)"

definition createLoopGuardFailedEvent ::
    "event_base \<Rightarrow> guard_failed \<Rightarrow> js_error + loop_event" where
  "createLoopGuardFailedEvent b p = parse_event (GuardFailed b p)"

definition createLoopSignalReceivedEvent ::
    "event_base \<Rightarrow> signal_received \<Rightarrow> js_error + loop_event" where
  "createLoopSignalReceivedEvent b p = parse_event (SignalReceived b p)"

lemmas create_event_defs =
  createLoopStartedEvent_def createLoopCompletedEvent_def createLoopCancelledEvent_def
  createLoopFailedEvent_def createLoopTransitionRequestedEvent_def
  createLoopTransitionExecutedEvent_def createLoopTransitionBlockedEvent_def
  createLoopGuardFailedEvent_def createLoopSignalReceivedEvent_def

lemma parse_event_Inr [simp]: "parse_event e = Inr e' \<longleftrightarrow> event_schema e \<and> e' = e"
  by (auto simp: parse_event_def)

lemma parse_event_Inl: "parse_event e = Inl x \<longleftrightarrow> \<not> event_schema e \<and> x = ZodError (event_type e)"
  by (auto simp: parse_event_def)

section \<open>The in-memory event bus\<close>

text \<open>
  Handlers are a \<open>Set\<close>: a handler (identified by its key) is added once and they run in
  insertion order. A handler changes a world of any type and may throw; the bus drops what
  it throws.
\<close>

type_synonym 'w handler = "loop_event \<Rightarrow> 'w \<Rightarrow> (js_error option) \<times> 'w"
type_synonym 'w bus = "(nat \<times> 'w handler) list"

definition bus_subscribe :: "'w bus \<Rightarrow> nat \<Rightarrow> 'w handler \<Rightarrow> 'w bus" where
  "bus_subscribe b k hdl = (if k \<in> fst ` set b then b else b @ [(k, hdl)])"

definition bus_unsubscribe :: "'w bus \<Rightarrow> nat \<Rightarrow> 'w bus" where
  "bus_unsubscribe b k = filter (\<lambda>kh. fst kh \<noteq> k) b"

fun bus_emit :: "'w bus \<Rightarrow> loop_event \<Rightarrow> 'w \<Rightarrow> 'w" where
  "bus_emit [] e w = w"
| "bus_emit ((k, hdl) # b) e w = bus_emit b e (snd (hdl e w))"

lemma bus_emit_append: "bus_emit (a @ b) e w = bus_emit b e (bus_emit a e w)"
  by (induction a e w rule: bus_emit.induct) auto

lemma bus_emit_ignores_errors:
  "bus_emit (map (\<lambda>(k, hdl). (k, \<lambda>e w. (f k e w, snd (hdl e w)))) b) e w = bus_emit b e w"
  by (induction b e w rule: bus_emit.induct) auto

lemma bus_unsubscribe_subscribe:
  "k \<notin> fst ` set b \<Longrightarrow> bus_unsubscribe (bus_subscribe b k hdl) k = b"
  by (force simp: bus_subscribe_def bus_unsubscribe_def filter_id_conv)

section \<open>The learning signal\<close>

record learning_signal =
  lsig_loopId :: string
  lsig_aggregateId :: string
  lsig_loopName :: string
  lsig_completedAt :: string
  lsig_durationMs :: jsnum
  lsig_transitionCount :: nat
  lsig_businessMetricIds :: "string list"
  lsig_predicted :: "(string \<times> jsnum) list option"
  lsig_actual :: "(string \<times> jsnum) list option"
  lsig_delta :: "(string \<times> jsnum) list option"
  lsig_actorSummary :: "(actor_type \<times> nat) list"

fun num_scale_down :: "jsnum \<Rightarrow> rat \<Rightarrow> jsnum" where
  "num_scale_down (Fin a) d = Fin (a / d)"
| "num_scale_down x d = x"

definition count_actor :: "actor_type \<Rightarrow> (actor_type \<times> nat) list \<Rightarrow> (actor_type \<times> nat) list" where
  "count_actor t counts =
     AList.update t ((case map_of counts t of None \<Rightarrow> 0 | Some n \<Rightarrow> n) + 1) counts"

definition actor_summary :: "transition_executed list \<Rightarrow> (actor_type \<times> nat) list" where
  "actor_summary hist = fold (\<lambda>t. count_actor (actor_type (ex_actor t))) hist []"

definition metric_delta ::
    "(string \<times> jsnum) list \<Rightarrow> (string \<times> jsnum) list \<Rightarrow> (string \<times> jsnum) list" where
  "metric_delta predicted actual =
     List.map_filter (\<lambda>(k, pred). case map_of actual k of
        None \<Rightarrow> None | Some act \<Rightarrow> Some (k, num_sub act pred)) predicted"

text \<open>
  \<open>durationMs / 86_400_000\<close> is the only metric the code measures; the delta is reported only
  when some metric was both predicted and measured.
\<close>

definition extractLearningSignal ::
    "event_base \<Rightarrow> loop_completed \<Rightarrow> transition_executed list \<Rightarrow> loop_definition \<Rightarrow>
     (string \<times> jsnum) list option \<Rightarrow> learning_signal" where
  "extractLearningSignal b completed hist d predicted =
     (let ids = (case def_outcome d of None \<Rightarrow> []
                 | Some oc \<Rightarrow> map bm_id (oc_businessMetrics oc));
          filteredPredicted = map_option (filter (\<lambda>(k, v). k \<in> set ids)) predicted;
          actual = (if ids = [] then None
                    else Some (if ''cycle_time_days'' \<in> set ids
                      then [(''cycle_time_days'', num_scale_down (lc_durationMs completed) 86400000)]
                      else []));
          delta = (case (filteredPredicted, actual) of
                     (Some fp, Some ac) \<Rightarrow>
                       (let dl = metric_delta fp ac in if dl = [] then None else Some dl)
                   | _ \<Rightarrow> None)
      in \<lparr>lsig_loopId = ev_loopId b, lsig_aggregateId = ev_aggregateId b,
          lsig_loopName = def_name d, lsig_completedAt = ev_occurredAt b,
          lsig_durationMs = lc_durationMs completed, lsig_transitionCount = length hist,
          lsig_businessMetricIds = ids, lsig_predicted = filteredPredicted,
          lsig_actual = (case actual of None \<Rightarrow> None | Some ac \<Rightarrow> if ac = [] then None else Some ac),
          lsig_delta = delta, lsig_actorSummary = actor_summary hist\<rparr>)"

lemma count_actor_sum:
  "distinct (map fst c) \<Longrightarrow> sum_list (map snd (count_actor t c)) = sum_list (map snd c) + 1"
proof (induction c)
  case Nil
  then show ?case by (simp add: count_actor_def)
next
  case (Cons p c)
  then show ?case by (cases p) (auto simp: count_actor_def split: option.splits)
qed

lemma count_actor_distinct:
  "distinct (map fst c) \<Longrightarrow> distinct (map fst (count_actor t c))"
  by (simp add: count_actor_def distinct_update)

lemma count_actor_get:
  "map_of (count_actor t c) t' =
     (if t' = t then Some ((case map_of c t of None \<Rightarrow> 0 | Some n \<Rightarrow> n) + 1) else map_of c t')"
  by (simp add: count_actor_def obj_simps)

lemma actor_summary_gen:
  assumes "distinct (map fst c)"
  shows "distinct (map fst (fold (\<lambda>t. count_actor (actor_type (ex_actor t))) hist c))"
    and "sum_list (map snd (fold (\<lambda>t. count_actor (actor_type (ex_actor t))) hist c)) =
         sum_list (map snd c) + length hist"
  using assms
  by (induction hist arbitrary: c) (simp_all add: count_actor_distinct count_actor_sum)

lemma actor_summary_counts_gen:
  "(case map_of (fold (\<lambda>t. count_actor (actor_type (ex_actor t))) hist c) ty of
      None \<Rightarrow> 0 | Some n \<Rightarrow> n) =
   (case map_of c ty of None \<Rightarrow> 0 | Some n \<Rightarrow> n) +
   length (filter (\<lambda>t. actor_type (ex_actor t) = ty) hist)"
  by (induction hist arbitrary: c) (auto simp: count_actor_get)

section \<open>The signal registry\<close>

text \<open>
  \<open>packages/signals/src/registry.ts\<close>. A signal's schema is the validator the caller supplies:
  it accepts a payload or gives its issues, each a path and a message.
\<close>

type_synonym payload_schema = "js \<Rightarrow> (string list \<times> string) list + unit"

record signal_spec =
  sig_signalId :: string
  sig_name :: string
  sig_schema :: "payload_schema option"

type_synonym signal_registry = "(string \<times> signal_spec) list"

definition signal_register :: "signal_registry \<Rightarrow> signal_spec \<Rightarrow> signal_registry" where
  "signal_register r s = AList.update (sig_signalId s) s r"

definition signal_list :: "signal_registry \<Rightarrow> signal_spec list" where
  "signal_list r = map snd r"

definition validatePayload :: "signal_registry \<Rightarrow> string \<Rightarrow> js \<Rightarrow> string + unit" where
  "validatePayload r sid payload =
     (case map_of r sid of
        None \<Rightarrow> Inl (''Signal not registered: '' @ sid)
      | Some spec \<Rightarrow>
          (case sig_schema spec of
             None \<Rightarrow> Inr ()
           | Some schema \<Rightarrow>
               (case schema payload of
                  Inr _ \<Rightarrow> Inr ()
                | Inl [] \<Rightarrow> Inl ''Invalid payload''
                | Inl ((path, msg) # _) \<Rightarrow>
                    Inl ((let p = join ''.'' path in if p = [] then ''payload'' else p) @
                         '': '' @ msg))))"

lemma validatePayload_register:
  "validatePayload (signal_register r s) sid payload =
     (if sid = sig_signalId s then validatePayload [(sid, s)] sid payload
      else validatePayload r sid payload)"
  by (simp add: validatePayload_def signal_register_def obj_simps)

lemma validatePayload_ok_iff:
  "validatePayload r sid payload = Inr () \<longleftrightarrow>
     (\<exists>s. map_of r sid = Some s \<and>
        (case sig_schema s of None \<Rightarrow> True | Some sch \<Rightarrow> sch payload = Inr ()))"
  by (auto simp: validatePayload_def split: option.splits sum.splits list.splits)

end
