(* ===== verification/Canonical_Json.thy ===== *)
theory Canonical_Json
  imports Prelude "HOL-Library.Multiset" "HOL-Library.List_Lexorder" "HOL-Library.Char_ord"
begin

text \<open>
  \<open>packages/canonical-json/src/canonical-hash.ts\<close>: which values have a canonical form and
  what it is. Strings are sequences of 16-bit code units, as in the language, because the
  check for lone surrogates and the order of the keys are defined on code units.
\<close>

type_synonym ustr = "16 word list"
type_synonym ujs = "ustr jsval"

text \<open>A narrow string as code units, and a narrow value as a value over code units.\<close>

definition wide :: "string \<Rightarrow> ustr" where
  "wide s = map (\<lambda>c. of_nat (of_char c)) s"

definition widen :: "js \<Rightarrow> ujs" where
  "widen v = map_jsval wide v"

definition narrow :: "ustr \<Rightarrow> string" where
  "narrow u = map (\<lambda>c. char_of (unat c)) u"

lemma unat_wide_char: "unat (of_nat (of_char (c :: char)) :: 16 word) = of_char c"
proof -
  have "(of_char c :: nat) < 256"
    by (metis mod_less_divisor of_char_mod_256 zero_less_numeral)
  then have "(of_char c :: nat) < 65536" by linarith
  then have "of_char c mod 65536 = (of_char c :: nat)" by (rule mod_less)
  then show ?thesis by (simp add: unat_of_nat)
qed

lemma narrow_wide [simp]: "narrow (wide s) = s"
  by (induction s) (simp_all add: narrow_def wide_def unat_wide_char)

lemma wide_inject [simp]: "wide s = wide t \<longleftrightarrow> s = t"
  by (metis narrow_wide)

lemma wide_append [simp]: "wide (s @ t) = wide s @ wide t"
  by (simp add: wide_def)

section \<open>Code units\<close>

definition is_surrogate :: "16 word \<Rightarrow> bool" where
  "is_surrogate c \<longleftrightarrow> 0xD800 \<le> c \<and> c \<le> 0xDFFF"

definition is_high :: "16 word \<Rightarrow> bool" where
  "is_high c \<longleftrightarrow> 0xD800 \<le> c \<and> c \<le> 0xDBFF"

definition is_low :: "16 word \<Rightarrow> bool" where
  "is_low c \<longleftrightarrow> 0xDC00 \<le> c \<and> c \<le> 0xDFFF"

text \<open>
  The loop over a string: a surrogate must be a high one followed by a low one, and the pair
  is skipped. Past the end \<open>charCodeAt\<close> is NaN, which is in no range.
\<close>

fun surrogates_ok :: "ustr \<Rightarrow> bool" where
  "surrogates_ok [] = True"
| "surrogates_ok [c] = (\<not> is_surrogate c)"
| "surrogates_ok (c # n # cs) =
     (if is_surrogate c
      then (if is_high c \<and> is_low n then surrogates_ok cs else False)
      else surrogates_ok (n # cs))"

section \<open>Which values are canonicalizable\<close>

datatype canon_error = CanonicalizationError string ustr

definition canon_message :: "canon_error \<Rightarrow> string" where
  "canon_message e = (case e of CanonicalizationError m p \<Rightarrow> m @ '' (at '' @ narrow p @ '')'')"

fun first_error :: "'e option list \<Rightarrow> 'e option" where
  "first_error [] = None"
| "first_error (Some e # es) = Some e"
| "first_error (None # es) = first_error es"

lemma first_error_cong [fundef_cong]: "es = es' \<Longrightarrow> first_error es = first_error es'"
  by simp

lemma first_error_None: "first_error es = None \<longleftrightarrow> (\<forall>e \<in> set es. e = None)"
  by (induction es rule: first_error.induct) auto

lemma first_error_enumerate:
  "first_error (map (\<lambda>(i, c). P i c) (enumerate n cs)) = None \<longleftrightarrow>
     (\<forall>i < length cs. P (n + i) (cs ! i) = None)"
proof (induction cs arbitrary: n)
  case (Cons c cs)
  then show ?case
    by (cases "P n c") (auto simp: less_Suc_eq_0_disj nth_Cons split: nat.splits)
qed simp

definition max_safe_integer :: rat where
  "max_safe_integer = 9007199254740991"

fun number_error :: "jsnum \<Rightarrow> ustr \<Rightarrow> canon_error option" where
  "number_error (Fin a) path =
     (if is_integer (Fin a) \<and> max_safe_integer < \<bar>a\<bar>
      then Some (CanonicalizationError
        ''integer exceeds Number.MAX_SAFE_INTEGER; pass a string to preserve precision'' path)
      else None)"
| "number_error n path =
     Some (CanonicalizationError
       (''non-finite number ('' @ (case n of NaN \<Rightarrow> ''NaN'' | PosInf \<Rightarrow> ''Infinity'' | _ \<Rightarrow> ''-Infinity'') @
        '') is not canonicalizable; pass a string instead'') path)"

definition type_error :: "string \<Rightarrow> ustr \<Rightarrow> canon_error option" where
  "type_error ty path =
     Some (CanonicalizationError (''value of type '' @ ty @ '' is not canonicalizable'') path)"

text \<open>
  \<open>assertCanonicalizable(value, path)\<close> throws the first error it meets; a date is an object
  without own properties.
\<close>

fun assertCanonicalizable :: "ujs \<Rightarrow> ustr \<Rightarrow> canon_error option" where
  "assertCanonicalizable JNull = (\<lambda>path. None)"
| "assertCanonicalizable (JBool b) = (\<lambda>path. None)"
| "assertCanonicalizable (JStr s) = (\<lambda>path.
     if surrogates_ok s then None
     else Some (CanonicalizationError ''lone surrogate in string is not canonicalizable'' path))"
| "assertCanonicalizable (JNum n) = (\<lambda>path. number_error n path)"
| "assertCanonicalizable (JArr vs) = (\<lambda>path.
     first_error (map (\<lambda>(i, check). check (path @ wide (''['' @ show_nat i @ '']'')))
       (enumerate 0 (map assertCanonicalizable vs))))"
| "assertCanonicalizable (JObj kvs) = (\<lambda>path.
     first_error (map (\<lambda>(k, check). check (path @ wide ''.'' @ k))
       (map (\<lambda>(k, v). (k, assertCanonicalizable v)) kvs)))"
| "assertCanonicalizable (JDate d) = (\<lambda>path. None)"
| "assertCanonicalizable JUndef = (\<lambda>path. type_error ''undefined'' path)"
| "assertCanonicalizable (JBigInt i) = (\<lambda>path. type_error ''bigint'' path)"
| "assertCanonicalizable JFun = (\<lambda>path. type_error ''function'' path)"

section \<open>Serialization\<close>

text \<open>\<open>JSON.stringify\<close> of a string: the escapes of the language's \<open>QuoteJSONString\<close>.\<close>

definition hex_digit :: "nat \<Rightarrow> 16 word" where
  "hex_digit n = of_nat (if n < 10 then 48 + n else 87 + n)"

definition hex4 :: "16 word \<Rightarrow> ustr" where
  "hex4 c = [hex_digit (unat c div 4096), hex_digit (unat c div 256 mod 16),
             hex_digit (unat c div 16 mod 16), hex_digit (unat c mod 16)]"

definition unicode_escape :: "16 word \<Rightarrow> ustr" where
  "unicode_escape c = 92 # 117 # hex4 c"

definition escape_unit :: "16 word \<Rightarrow> ustr" where
  "escape_unit c =
     (if c = 8 then [92, 98] else if c = 9 then [92, 116] else if c = 10 then [92, 110]
      else if c = 12 then [92, 102] else if c = 13 then [92, 114]
      else if c = 34 then [92, 34] else if c = 92 then [92, 92]
      else if c < 32 then unicode_escape c else [c])"

fun escape :: "ustr \<Rightarrow> ustr" where
  "escape [] = []"
| "escape [c] = (if is_surrogate c then unicode_escape c else escape_unit c)"
| "escape (c # n # cs) =
     (if is_high c \<and> is_low n then c # n # escape cs
      else if is_surrogate c then unicode_escape c @ escape (n # cs)
      else escape_unit c @ escape (n # cs))"

definition stringify_string :: "ustr \<Rightarrow> ustr" where
  "stringify_string s = 34 # escape s @ [34]"

definition stringify_number :: "host \<Rightarrow> jsnum \<Rightarrow> ustr" where
  "stringify_number h n = (case n of Fin a \<Rightarrow> wide (show_num h a) | _ \<Rightarrow> wide ''null'')"

text \<open>
  \<open>canonicalSerialize\<close>: the keys of an object are sorted by code units. It is only applied to
  canonicalizable values; the values \<open>JSON\<close> has no text for give nothing here.
\<close>

fun canonicalSerialize :: "host \<Rightarrow> ujs \<Rightarrow> ustr" where
  "canonicalSerialize h JNull = wide ''null''"
| "canonicalSerialize h (JBool b) = (if b then wide ''true'' else wide ''false'')"
| "canonicalSerialize h (JNum n) = stringify_number h n"
| "canonicalSerialize h (JStr s) = stringify_string s"
| "canonicalSerialize h (JArr vs) =
     wide ''['' @ join (wide '','') (map (canonicalSerialize h) vs) @ wide '']''"
| "canonicalSerialize h (JObj kvs) =
     wide ''{'' @
     join (wide '','')
       (map (\<lambda>(k, t). stringify_string k @ wide '':'' @ t)
          (sort_key fst (map (\<lambda>(k, v). (k, canonicalSerialize h v)) kvs))) @
     wide ''}''"
| "canonicalSerialize h (JDate d) = wide ''{}''"
| "canonicalSerialize h JUndef = []"
| "canonicalSerialize h (JBigInt i) = []"
| "canonicalSerialize h JFun = []"

definition canonicalize :: "host \<Rightarrow> ujs \<Rightarrow> canon_error + ustr" where
  "canonicalize h v =
     (case assertCanonicalizable v (wide ''$'') of
        Some e \<Rightarrow> Inl e
      | None \<Rightarrow> Inr (canonicalSerialize h v))"

text \<open>\<open>sha256\<close> is the digest of \<open>node:crypto\<close> in hexadecimal.\<close>

definition sha256CanonicalHex :: "host \<Rightarrow> (ustr \<Rightarrow> string) \<Rightarrow> ujs \<Rightarrow> canon_error + string" where
  "sha256CanonicalHex h sha256 v = map_sum id sha256 (canonicalize h v)"

section \<open>What is accepted\<close>

text \<open>
  The values with a canonical form: every string value well formed, every number finite and
  every integer safe, no \<open>undefined\<close>, big integer or function anywhere. Keys are not checked.
\<close>

fun number_canonical :: "jsnum \<Rightarrow> bool" where
  "number_canonical (Fin a) = (is_integer (Fin a) \<longrightarrow> \<bar>a\<bar> \<le> max_safe_integer)"
| "number_canonical _ = False"

fun canonicalizable :: "ujs \<Rightarrow> bool" where
  "canonicalizable JNull = True"
| "canonicalizable (JBool b) = True"
| "canonicalizable (JStr s) = surrogates_ok s"
| "canonicalizable (JNum n) = number_canonical n"
| "canonicalizable (JArr vs) = list_all canonicalizable vs"
| "canonicalizable (JObj kvs) = list_all (\<lambda>(k, v). canonicalizable v) kvs"
| "canonicalizable (JDate d) = True"
| "canonicalizable _ = False"

lemma number_error_None: "number_error n path = None \<longleftrightarrow> number_canonical n"
  by (cases n) auto

lemma assertCanonicalizable_None:
  "assertCanonicalizable v path = None \<longleftrightarrow> canonicalizable v"
proof (induction v arbitrary: path)
  case (JArr vs)
  then show ?case
    by (simp add: first_error_enumerate list_all_length)
next
  case (JObj kvs)
  then show ?case
    by (fastforce simp: first_error_None list_all_iff)
qed (simp_all add: number_error_None type_error_def)

lemma canonicalize_Inr_iff:
  "canonicalize h v = Inr t \<longleftrightarrow> canonicalizable v \<and> t = canonicalSerialize h v"
  by (cases "assertCanonicalizable v (wide ''$'')")
     (use assertCanonicalizable_None[of v "wide ''$''"] in \<open>auto simp: canonicalize_def\<close>)

lemma canonicalize_Inl_iff: "(\<exists>e. canonicalize h v = Inl e) \<longleftrightarrow> \<not> canonicalizable v"
  by (cases "assertCanonicalizable v (wide ''$'')")
     (use assertCanonicalizable_None[of v "wide ''$''"] in \<open>auto simp: canonicalize_def\<close>)

lemma canonicalize_eq:
  "canonicalizable v \<Longrightarrow> canonicalize h v = Inr (canonicalSerialize h v)"
  by (simp add: canonicalize_Inr_iff)

lemma sha256CanonicalHex_Inr:
  "sha256CanonicalHex h sha v = Inr x \<longleftrightarrow> canonicalizable v \<and> x = sha (canonicalSerialize h v)"
proof (cases "canonicalizable v")
  case True
  then show ?thesis by (auto simp: sha256CanonicalHex_def canonicalize_eq)
next
  case False
  then obtain e where "canonicalize h v = Inl e" using canonicalize_Inl_iff by blast
  with False show ?thesis by (simp add: sha256CanonicalHex_def)
qed

section \<open>Independence of the order of properties\<close>

text \<open>
  Two values are equivalent when they differ only in the order of properties, at any depth.
  A JavaScript object has each property name once.
\<close>

inductive obj_equiv :: "'s jsval \<Rightarrow> 's jsval \<Rightarrow> bool" where
  atom: "obj_equiv v v"
| arr: "list_all2 obj_equiv vs ws \<Longrightarrow> obj_equiv (JArr vs) (JArr ws)"
| obj: "distinct (map fst a) \<Longrightarrow> distinct (map fst b) \<Longrightarrow> set (map fst a) = set (map fst b) \<Longrightarrow>
    \<forall>k v w. (k, v) \<in> set a \<longrightarrow> (k, w) \<in> set b \<longrightarrow> obj_equiv v w \<Longrightarrow>
    obj_equiv (JObj a) (JObj b)"
  monos list_all2_mono

lemma canonicalSerialize_obj_sorted:
  assumes "distinct (map fst a)" "distinct (map fst b)" "set (map fst a) = set (map fst b)"
    and "\<And>k x y. (k, x) \<in> set a \<Longrightarrow> (k, y) \<in> set b \<Longrightarrow> x = y"
  shows "sort_key fst a = sort_key fst (b :: ('k::linorder \<times> 'v) list)"
proof -
  have "set a = set b"
  proof -
    have "set a \<subseteq> set b" if "set (map fst a) = set (map fst b)"
      "\<And>k x y. (k, x) \<in> set a \<Longrightarrow> (k, y) \<in> set b \<Longrightarrow> x = y" for a b :: "('k \<times> 'v) list"
    proof
      fix p assume p: "p \<in> set a"
      obtain k x where kx: "p = (k, x)" by fastforce
      with p that(1) have "k \<in> set (map fst b)" by (force simp: image_iff)
      then obtain y where "(k, y) \<in> set b" by auto
      with that(2) p kx show "p \<in> set b" by blast
    qed
    from this[of a b] this[of b a] assms(3,4) show ?thesis by (metis subset_antisym)
  qed
  then have sets: "set (sort_key fst a) = set (sort_key fst b)" by simp
  have "map fst (sort_key fst a) = map fst (sort_key fst b)"
    using assms(1-3)
    by (intro sorted_distinct_set_unique) (auto simp: distinct_map)
  then show ?thesis
    by (rule map_inj_on) (use sets assms(2) in \<open>simp add: distinct_map\<close>)
qed

text \<open>
  Equivalent values have the same canonical text: \<open>canonicalize\<close> does not depend on the order
  in which the properties of an object were written.
\<close>

lemma obj_equiv_serialize: "obj_equiv v w \<Longrightarrow> canonicalSerialize h v = canonicalSerialize h w"
proof (induction rule: obj_equiv.induct)
  case (arr vs ws)
  then have "map (canonicalSerialize h) vs = map (canonicalSerialize h) ws"
    by (auto simp: list_all2_conv_all_nth intro: nth_equalityI)
  then show ?case by simp
next
  case (obj a b)
  have "sort_key fst (map (\<lambda>(k, v). (k, canonicalSerialize h v)) a) =
        sort_key fst (map (\<lambda>(k, v). (k, canonicalSerialize h v)) b)"
    by (rule canonicalSerialize_obj_sorted)
       (use obj in \<open>auto simp: comp_def split_beta\<close>)
  then show ?case by simp
qed simp

lemma obj_equiv_canonicalizable: "obj_equiv v w \<Longrightarrow> canonicalizable v \<longleftrightarrow> canonicalizable w"
proof (induction rule: obj_equiv.induct)
  case (arr vs ws)
  then show ?case by (auto simp: list_all_length list_all2_conv_all_nth)
next
  case (obj a b)
  have keys: "(\<exists>x. (k, x) \<in> set a) \<longleftrightarrow> (\<exists>y. (k, y) \<in> set b)" for k
    by (simp only: ex_value_iff_key obj(3))
  have "canonicalizable v \<longleftrightarrow> canonicalizable w" if "(k, v) \<in> set a" "(k, w) \<in> set b" for k v w
    using obj(4) that by blast
  then have "(\<forall>k v. (k, v) \<in> set a \<longrightarrow> canonicalizable v) \<longleftrightarrow>
      (\<forall>k w. (k, w) \<in> set b \<longrightarrow> canonicalizable w)"
    using keys by meson
  then show ?case by (auto simp: list_all_iff)
qed simp

end
