(* ===== verification/Evidence.thy ===== *)
theory Evidence
  imports Core Canonical_Json
begin

text \<open>
  \<open>packages/evidence\<close>: structural validation of evidence snapshots
  (\<open>validate-evidence-snapshot.ts\<close>), the qualification rungs (\<open>qualification.ts\<close>), the
  provider contract (\<open>validate-provider-snapshot.ts\<close>) and the commit of governed evidence
  (\<open>governed-evidence-commit.ts\<close>). Snapshots arrive as untyped values.
\<close>

section \<open>Validation results\<close>

record ev_error =
  ee_code :: string
  ee_message :: string
  ee_path :: string

text \<open>A result is its list of errors; it is valid when the list is empty.\<close>

type_synonym validation = "ev_error list"

definition ev_fail :: "string \<Rightarrow> string \<Rightarrow> string \<Rightarrow> validation" where
  "ev_fail code msg path = [\<lparr>ee_code = code, ee_message = msg, ee_path = path\<rparr>]"

definition ev_when :: "bool \<Rightarrow> validation \<Rightarrow> validation" where
  "ev_when b v = (if b then v else [])"

lemma ev_when_Nil [simp]: "ev_when b v = [] \<longleftrightarrow> \<not> b \<or> v = []"
  by (simp add: ev_when_def)

lemma ev_fail_not_Nil [simp]: "ev_fail c m p \<noteq> []"
  by (simp add: ev_fail_def)

definition non_empty_string :: "js \<Rightarrow> bool" where
  "non_empty_string v = (case v of JStr s \<Rightarrow> trim s \<noteq> [] | _ \<Rightarrow> False)"

definition isIso8601Timestamp :: "host \<Rightarrow> string \<Rightarrow> bool" where
  "isIso8601Timestamp h s = is_finite (parse_date h s)"

definition childPath :: "string \<Rightarrow> string \<Rightarrow> string" where
  "childPath base key = (if base = ''$'' then ''$.'' @ key else base @ ''.'' @ key)"

definition is_one :: "js \<Rightarrow> bool" where
  "is_one v \<longleftrightarrow> v = JNum (Fin 1)"

definition is_lower_hex :: "char \<Rightarrow> bool" where
  "is_lower_hex c \<longleftrightarrow> (let n = (of_char c :: nat) in (48 \<le> n \<and> n \<le> 57) \<or> (97 \<le> n \<and> n \<le> 102))"

definition is_sha256_hex :: "string \<Rightarrow> bool" where
  "is_sha256_hex s \<longleftrightarrow> length s = 64 \<and> list_all is_lower_hex s"

section \<open>Snapshot validation\<close>

definition validateDecisionRecordVersions :: "js \<Rightarrow> string \<Rightarrow> validation" where
  "validateDecisionRecordVersions versions path =
     (if \<not> is_plain_object versions
      then ev_fail ''invalid_versions'' ''versions must be an object'' path
      else
        ev_when (\<not> is_one (js_get versions ''decisionRecordVersion''))
          (ev_fail ''unsupported_decision_record_version'' ''decisionRecordVersion must be 1''
             (childPath path ''decisionRecordVersion'')) @
        ev_when (\<not> is_one (js_get versions ''invariantVersion''))
          (ev_fail ''unsupported_invariant_version'' ''invariantVersion must be 1''
             (childPath path ''invariantVersion'')) @
        ev_when (\<not> is_one (js_get versions ''canonicalVersion''))
          (ev_fail ''unsupported_canonical_version'' ''canonicalVersion must be 1''
             (childPath path ''canonicalVersion'')))"

definition validateEvidenceLineageRef :: "js \<Rightarrow> string \<Rightarrow> validation" where
  "validateEvidenceLineageRef ref path =
     (if \<not> is_plain_object ref
      then ev_fail ''invalid_lineage_ref'' ''lineage entry must be an object'' path
      else
        ev_when (js_get ref ''kind'' \<noteq> JStr ''source'' \<and> js_get ref ''kind'' \<noteq> JStr ''derived-input'')
          (ev_fail ''invalid_lineage_kind'' ''lineage kind must be \"source\" or \"derived-input\"''
             (childPath path ''kind'')) @
        ev_when (\<not> non_empty_string (js_get ref ''ref''))
          (ev_fail ''missing_lineage_ref'' ''lineage ref must be a non-empty string''
             (childPath path ''ref'')))"

definition validate_required :: "host \<Rightarrow> js \<Rightarrow> string \<Rightarrow> string \<times> string \<Rightarrow> validation" where
  "validate_required h snapshot path km =
     (let key = fst km; value = js_get snapshot key in
      if \<not> non_empty_string value
      then ev_fail ''missing_provenance'' (snd km) (childPath path key)
      else ev_when (key = ''capturedAt'' \<and>
             (case value of JStr s \<Rightarrow> \<not> isIso8601Timestamp h s | _ \<Rightarrow> False))
        (ev_fail ''invalid_captured_at'' ''capturedAt must be a parseable ISO-8601 timestamp''
           (childPath path ''capturedAt'')))"

definition required_strings :: "(string \<times> string) list" where
  "required_strings =
     [(''snapshotKey'', ''snapshotKey must be a non-empty string''),
      (''sourceSystem'', ''sourceSystem must be a non-empty string''),
      (''capturedAt'', ''capturedAt must be a non-empty ISO-8601 timestamp''),
      (''capturedBy'', ''capturedBy must be a non-empty string'')]"

definition validate_lineage :: "js \<Rightarrow> string \<Rightarrow> validation" where
  "validate_lineage lineage path =
     (case lineage of
        JUndef \<Rightarrow> []
      | JArr entries \<Rightarrow>
          concat (map (\<lambda>(i, e). validateEvidenceLineageRef e
            (childPath (childPath path ''lineage'') (show_nat i))) (enumerate 0 entries))
      | _ \<Rightarrow> ev_fail ''invalid_lineage'' ''lineage must be an array when present''
               (childPath path ''lineage''))"

definition sequence_ok :: "js \<Rightarrow> bool" where
  "sequence_ok v = (case v of JUndef \<Rightarrow> True
      | JNum n \<Rightarrow> is_integer n \<and> num_ge n (Fin 0) | _ \<Rightarrow> False)"

definition content_hash_ok :: "js \<Rightarrow> bool" where
  "content_hash_ok v = (case v of JUndef \<Rightarrow> True | JStr s \<Rightarrow> is_sha256_hex s | _ \<Rightarrow> False)"

definition validateEvidenceSnapshotCommitInput :: "host \<Rightarrow> js \<Rightarrow> string \<Rightarrow> validation" where
  "validateEvidenceSnapshotCommitInput h input path =
     (if \<not> is_plain_object input
      then ev_fail ''invalid_snapshot'' ''evidence snapshot must be an object'' path
      else
        concat (map (validate_required h input path) required_strings) @
        ev_when (\<not> is_plain_object (js_get input ''values''))
          (ev_fail ''invalid_values'' ''values must be a plain object'' (childPath path ''values'')) @
        validateDecisionRecordVersions (js_get input ''versions'') (childPath path ''versions'') @
        validate_lineage (js_get input ''lineage'') path @
        ev_when (\<not> sequence_ok (js_get input ''sequence''))
          (ev_fail ''invalid_sequence'' ''sequence must be a non-negative integer when present''
             (childPath path ''sequence'')) @
        ev_when (\<not> content_hash_ok (js_get input ''contentSha256''))
          (ev_fail ''invalid_content_sha256''
             ''contentSha256 must be lowercase hex SHA-256 when present''
             (childPath path ''contentSha256'')))"

definition snapshot_key :: "js \<Rightarrow> string option" where
  "snapshot_key v =
     (if is_plain_object v
      then (case js_get v ''snapshotKey'' of JStr s \<Rightarrow> if trim s = [] then None else Some s | _ \<Rightarrow> None)
      else None)"

text \<open>The loop of the batch validation: the keys seen so far and the index of the snapshot.\<close>

fun validate_batch_from :: "host \<Rightarrow> string list \<Rightarrow> nat \<Rightarrow> js list \<Rightarrow> validation" where
  "validate_batch_from h keys i [] = []"
| "validate_batch_from h keys i (s # ss) =
     (let path = ''$['' @ show_nat i @ '']'' in
      validateEvidenceSnapshotCommitInput h s path @
      (case snapshot_key s of
         None \<Rightarrow> validate_batch_from h keys (Suc i) ss
       | Some k \<Rightarrow>
           if k \<in> set keys
           then ev_fail ''duplicate_snapshot_key'' (''duplicate snapshotKey: '' @ k)
                  (childPath path ''snapshotKey'') @ validate_batch_from h keys (Suc i) ss
           else validate_batch_from h (k # keys) (Suc i) ss))"

definition validateEvidenceSnapshotCommitBatch :: "host \<Rightarrow> js \<Rightarrow> validation" where
  "validateEvidenceSnapshotCommitBatch h snapshots =
     (case snapshots of
        JArr ss \<Rightarrow> validate_batch_from h [] 0 ss
      | _ \<Rightarrow> ev_fail ''invalid_snapshot_batch'' ''evidenceSnapshots must be an array'' ''$'')"

definition validateGovernedEvidencePresent :: "js \<Rightarrow> validation" where
  "validateGovernedEvidencePresent snapshots =
     (case snapshots of
        JArr (s # ss) \<Rightarrow> []
      | _ \<Rightarrow> ev_fail ''evidence_required''
          ''governed consequential transition requires at least one evidence snapshot''
          ''$.evidenceSnapshots'')"

definition validateEvidenceSnapshotPersisted :: "host \<Rightarrow> js \<Rightarrow> string \<Rightarrow> validation" where
  "validateEvidenceSnapshotPersisted h snapshot path =
     (let commitResult = validateEvidenceSnapshotCommitInput h snapshot path in
      if commitResult \<noteq> [] then commitResult
      else
        ev_when (\<not> non_empty_string (js_get snapshot ''id''))
          (ev_fail ''missing_snapshot_id'' ''id must be a non-empty string'' (childPath path ''id'')) @
        ev_when (\<not> (case js_get snapshot ''contentSha256'' of JStr s \<Rightarrow> is_sha256_hex s | _ \<Rightarrow> False))
          (ev_fail ''missing_content_sha256'' ''contentSha256 must be lowercase hex SHA-256''
             (childPath path ''contentSha256'')))"

definition validateEvidenceSnapshotPersistedBatch :: "host \<Rightarrow> js \<Rightarrow> validation" where
  "validateEvidenceSnapshotPersistedBatch h snapshots =
     (case snapshots of
        JArr ss \<Rightarrow> concat (map (\<lambda>(i, s).
          validateEvidenceSnapshotPersisted h s (''$['' @ show_nat i @ '']'')) (enumerate 0 ss))
      | _ \<Rightarrow> ev_fail ''invalid_snapshot_batch'' ''snapshots must be an array'' ''$'')"

section \<open>What validation establishes\<close>

definition snapshot_well_formed :: "host \<Rightarrow> js \<Rightarrow> bool" where
  "snapshot_well_formed h s \<longleftrightarrow>
     is_plain_object s \<and>
     (\<forall>k \<in> {''snapshotKey'', ''sourceSystem'', ''capturedAt'', ''capturedBy''}.
        non_empty_string (js_get s k)) \<and>
     (\<forall>t. js_get s ''capturedAt'' = JStr t \<longrightarrow> isIso8601Timestamp h t) \<and>
     is_plain_object (js_get s ''values'') \<and>
     is_plain_object (js_get s ''versions'') \<and>
     (\<forall>k \<in> {''decisionRecordVersion'', ''invariantVersion'', ''canonicalVersion''}.
        is_one (js_get (js_get s ''versions'') k)) \<and>
     (js_get s ''lineage'' = JUndef \<or>
      (\<exists>es. js_get s ''lineage'' = JArr es \<and>
         (\<forall>e \<in> set es. is_plain_object e \<and>
            js_get e ''kind'' \<in> {JStr ''source'', JStr ''derived-input''} \<and>
            non_empty_string (js_get e ''ref'')))) \<and>
     sequence_ok (js_get s ''sequence'') \<and> content_hash_ok (js_get s ''contentSha256'')"

lemma validateDecisionRecordVersions_ok:
  "validateDecisionRecordVersions v path = [] \<longleftrightarrow>
     is_plain_object v \<and>
     (\<forall>k \<in> {''decisionRecordVersion'', ''invariantVersion'', ''canonicalVersion''}. is_one (js_get v k))"
  by (auto simp: validateDecisionRecordVersions_def)

lemma validateEvidenceLineageRef_ok:
  "validateEvidenceLineageRef e path = [] \<longleftrightarrow>
     is_plain_object e \<and> js_get e ''kind'' \<in> {JStr ''source'', JStr ''derived-input''} \<and>
     non_empty_string (js_get e ''ref'')"
  by (auto simp: validateEvidenceLineageRef_def)

lemma ball_enumerate: "(\<forall>(i, x) \<in> set (enumerate n xs). P x) \<longleftrightarrow> (\<forall>x \<in> set xs. P x)"
  by (induction xs arbitrary: n) auto

lemma validate_lineage_ok:
  "validate_lineage v path = [] \<longleftrightarrow>
     v = JUndef \<or> (\<exists>es. v = JArr es \<and> (\<forall>e \<in> set es. validateEvidenceLineageRef e path = []))"
  (is "_ \<longleftrightarrow> ?R")
proof (cases v)
  case (JArr es)
  have "validate_lineage v path = [] \<longleftrightarrow>
      (\<forall>(i, e) \<in> set (enumerate 0 es). validateEvidenceLineageRef e path = [])"
    by (auto simp: validate_lineage_def JArr validateEvidenceLineageRef_ok)
  also have "\<dots> \<longleftrightarrow> ?R"
    unfolding ball_enumerate by (simp add: JArr)
  finally show ?thesis .
qed (simp_all add: validate_lineage_def)

lemma validateEvidenceSnapshotCommitInput_ok:
  "validateEvidenceSnapshotCommitInput h s path = [] \<longleftrightarrow> snapshot_well_formed h s"
proof (cases "is_plain_object s")
  case True
  have req: "concat (map (validate_required h s path) required_strings) = [] \<longleftrightarrow>
      (\<forall>k \<in> {''snapshotKey'', ''sourceSystem'', ''capturedAt'', ''capturedBy''}.
         non_empty_string (js_get s k)) \<and>
      (\<forall>t. js_get s ''capturedAt'' = JStr t \<longrightarrow> isIso8601Timestamp h t)"
    by (auto simp: validate_required_def required_strings_def Let_def non_empty_string_def
        split: jsval.splits)
  from True show ?thesis
    by (simp only: validateEvidenceSnapshotCommitInput_def snapshot_well_formed_def append_is_Nil_conv
        req ev_when_Nil ev_fail_not_Nil validateDecisionRecordVersions_ok validate_lineage_ok
        validateEvidenceLineageRef_ok simp_thms if_False conj_assoc)
next
  case False
  then show ?thesis
    by (simp add: validateEvidenceSnapshotCommitInput_def snapshot_well_formed_def)
qed

lemma snapshot_key_well_formed:
  assumes "snapshot_well_formed h s"
  obtains k where "snapshot_key s = Some k" "js_get s ''snapshotKey'' = JStr k"
  using assms
  by (auto simp: snapshot_well_formed_def snapshot_key_def non_empty_string_def split: jsval.splits)

lemma validate_batch_from_ok:
  "validate_batch_from h keys i ss = [] \<longleftrightarrow>
     (\<forall>s \<in> set ss. snapshot_well_formed h s) \<and>
     distinct (map snapshot_key ss) \<and> (\<forall>k \<in> set keys. Some k \<notin> set (map snapshot_key ss))"
proof (induction h keys i ss rule: validate_batch_from.induct)
  case (2 h keys i s ss)
  show ?case
  proof (cases "snapshot_well_formed h s")
    case True
    then obtain k where k: "snapshot_key s = Some k" by (rule snapshot_key_well_formed)
    with 2 True show ?thesis
      by (auto simp: Let_def validateEvidenceSnapshotCommitInput_ok)
  next
    case False
    then show ?thesis
      by (simp add: Let_def validateEvidenceSnapshotCommitInput_ok)
  qed
qed simp

lemma validateEvidenceSnapshotCommitBatch_ok:
  "validateEvidenceSnapshotCommitBatch h v = [] \<longleftrightarrow>
     (\<exists>ss. v = JArr ss \<and> (\<forall>s \<in> set ss. snapshot_well_formed h s) \<and>
        distinct (map snapshot_key ss))"
  by (cases v) (simp_all add: validateEvidenceSnapshotCommitBatch_def validate_batch_from_ok)

lemma validateGovernedEvidencePresent_ok:
  "validateGovernedEvidencePresent v = [] \<longleftrightarrow> (\<exists>s ss. v = JArr (s # ss))"
  by (auto simp: validateGovernedEvidencePresent_def split: jsval.splits list.splits)

section \<open>Qualification rungs\<close>

datatype provenance_rung = ProvUnknown | SystemAttested | OriginAttested

datatype definition_rung = NotApplicable | Unreviewed | Certified | Governed

datatype freshness_verdict = Fresh | Stale | VerdictUnknown

datatype binding_clock = SnapshotFrozenAt | ValueAsOf | SourceDataFreshness

record freshness_facts =
  fr_snapshotFrozenAt :: string
  fr_valueAsOf :: string
  fr_sourceDataFreshness :: "string option"
  fr_freshnessSla :: "string option"
  fr_freshnessVerdict :: "freshness_verdict option"
  fr_bindingClock :: "binding_clock option"

datatype freshness_qualification = FreshnessNotApplicable | FreshnessApplicable freshness_facts

record qualification_vector =
  q_provenance :: provenance_rung
  q_definition :: definition_rung
  q_freshness :: freshness_qualification

definition provenance_order :: "provenance_rung list" where
  "provenance_order = [ProvUnknown, SystemAttested, OriginAttested]"

definition definition_order :: "definition_rung list" where
  "definition_order = [NotApplicable, Unreviewed, Certified, Governed]"

text \<open>\<open>Array.prototype.indexOf\<close>.\<close>

fun index_from :: "int \<Rightarrow> 'a list \<Rightarrow> 'a \<Rightarrow> int" where
  "index_from i [] x = -1"
| "index_from i (y # ys) x = (if y = x then i else index_from (i + 1) ys x)"

definition provenanceMeetsMinimum :: "provenance_rung \<Rightarrow> provenance_rung \<Rightarrow> bool" where
  "provenanceMeetsMinimum actual required \<longleftrightarrow>
     index_from 0 provenance_order actual \<ge> index_from 0 provenance_order required"

definition definitionMeetsMinimum :: "definition_rung \<Rightarrow> definition_rung \<Rightarrow> bool" where
  "definitionMeetsMinimum actual required \<longleftrightarrow>
     (if actual = NotApplicable \<or> required = NotApplicable then True
      else index_from 0 definition_order actual \<ge> index_from 0 definition_order required)"

definition isFreshnessApplicable :: "freshness_qualification \<Rightarrow> bool" where
  "isFreshnessApplicable f = (case f of FreshnessNotApplicable \<Rightarrow> False | FreshnessApplicable _ \<Rightarrow> True)"

text \<open>The rungs as linear orders; meeting a minimum is being above it.\<close>

fun provenance_rank :: "provenance_rung \<Rightarrow> nat" where
  "provenance_rank ProvUnknown = 0"
| "provenance_rank SystemAttested = 1"
| "provenance_rank OriginAttested = 2"

fun definition_rank :: "definition_rung \<Rightarrow> nat" where
  "definition_rank NotApplicable = 0"
| "definition_rank Unreviewed = 1"
| "definition_rank Certified = 2"
| "definition_rank Governed = 3"

instantiation provenance_rung :: linorder
begin

definition less_eq_provenance_rung :: "provenance_rung \<Rightarrow> provenance_rung \<Rightarrow> bool" where
  "less_eq_provenance_rung a b \<longleftrightarrow> provenance_rank a \<le> provenance_rank b"

definition less_provenance_rung :: "provenance_rung \<Rightarrow> provenance_rung \<Rightarrow> bool" where
  "less_provenance_rung a b \<longleftrightarrow> provenance_rank a < provenance_rank b"

instance
proof
  fix a b :: provenance_rung
  show "a \<le> b \<Longrightarrow> b \<le> a \<Longrightarrow> a = b"
    by (cases a; cases b) (simp_all add: less_eq_provenance_rung_def)
qed (auto simp: less_eq_provenance_rung_def less_provenance_rung_def)

end

instantiation definition_rung :: linorder
begin

definition less_eq_definition_rung :: "definition_rung \<Rightarrow> definition_rung \<Rightarrow> bool" where
  "less_eq_definition_rung a b \<longleftrightarrow> definition_rank a \<le> definition_rank b"

definition less_definition_rung :: "definition_rung \<Rightarrow> definition_rung \<Rightarrow> bool" where
  "less_definition_rung a b \<longleftrightarrow> definition_rank a < definition_rank b"

instance
proof
  fix a b :: definition_rung
  show "a \<le> b \<Longrightarrow> b \<le> a \<Longrightarrow> a = b"
    by (cases a; cases b) (simp_all add: less_eq_definition_rung_def)
qed (auto simp: less_eq_definition_rung_def less_definition_rung_def)

end

lemma provenanceMeetsMinimum_le: "provenanceMeetsMinimum a r \<longleftrightarrow> r \<le> a"
  by (cases a; cases r)
     (simp_all add: provenanceMeetsMinimum_def provenance_order_def less_eq_provenance_rung_def)

lemma definitionMeetsMinimum_le:
  "definitionMeetsMinimum a r \<longleftrightarrow> a = NotApplicable \<or> r \<le> a"
  by (cases a; cases r)
     (simp_all add: definitionMeetsMinimum_def definition_order_def less_eq_definition_rung_def)

section \<open>The provider contract\<close>

definition provenance_names :: "string list" where
  "provenance_names = [''unknown'', ''system-attested'', ''origin-attested'']"

definition definition_names :: "string list" where
  "definition_names = [''not-applicable'', ''unreviewed'', ''certified'', ''governed'']"

definition named_in :: "string list \<Rightarrow> js \<Rightarrow> bool" where
  "named_in names v = (case v of JStr s \<Rightarrow> s \<in> set names | _ \<Rightarrow> False)"

definition validateQualificationVector :: "js \<Rightarrow> string \<Rightarrow> validation" where
  "validateQualificationVector q path =
     (if \<not> is_plain_object q
      then ev_fail ''invalid_qualification'' ''qualification must be an object'' path
      else
        ev_when (\<not> named_in provenance_names (js_get q ''provenance''))
          (ev_fail ''invalid_provenance_rung''
             (''provenance must be one of '' @ join '', '' provenance_names) (path @ ''.provenance'')) @
        ev_when (\<not> named_in definition_names (js_get q ''definition''))
          (ev_fail ''invalid_definition_rung''
             (''definition must be one of '' @ join '', '' definition_names) (path @ ''.definition'')) @
        (let freshness = js_get q ''freshness''; applicable = js_get freshness ''applicable'' in
         if \<not> is_plain_object freshness
         then ev_fail ''invalid_freshness'' ''freshness must be an object'' (path @ ''.freshness'')
         else if applicable = JStr ''not-applicable'' then []
         else if applicable = JStr ''applicable'' then
           ev_when (\<not> non_empty_string (js_get freshness ''snapshotFrozenAt''))
             (ev_fail ''missing_snapshot_frozen_at''
                ''snapshotFrozenAt required when freshness is applicable''
                (path @ ''.freshness.snapshotFrozenAt'')) @
           ev_when (\<not> non_empty_string (js_get freshness ''valueAsOf''))
             (ev_fail ''missing_value_as_of''
                ''valueAsOf required when freshness is applicable''
                (path @ ''.freshness.valueAsOf''))
         else ev_fail ''invalid_freshness_applicable''
                ''freshness.applicable must be \"not-applicable\" or \"applicable\"''
                (path @ ''.freshness.applicable'')))"

definition optional_object :: "js \<Rightarrow> bool" where
  "optional_object v \<longleftrightarrow> v = JUndef \<or> is_plain_object v"

definition validateEvidenceSnapshotProposed :: "js \<Rightarrow> validation" where
  "validateEvidenceSnapshotProposed input =
     (if \<not> is_plain_object input
      then ev_fail ''invalid_snapshot'' ''snapshot must be an object'' ''$''
      else
        concat (map (\<lambda>field. ev_when (\<not> non_empty_string (js_get input field))
            (ev_fail ''missing_field'' (field @ '' is required'') (''$.'' @ field)))
          [''snapshotKey'', ''sourceSystem'', ''capturedAt'', ''capturedBy'']) @
        ev_when (\<not> is_plain_object (js_get input ''values''))
          (ev_fail ''invalid_values'' ''values must be an object'' ''$.values'') @
        validateDecisionRecordVersions (js_get input ''versions'') ''$.versions'' @
        validateQualificationVector (js_get input ''qualification'') ''$.qualification'' @
        ev_when (\<not> optional_object (js_get input ''measurements''))
          (ev_fail ''invalid_measurements'' ''measurements must be an object when present''
             ''$.measurements'') @
        ev_when (\<not> optional_object (js_get input ''nativeMetadata''))
          (ev_fail ''invalid_native_metadata'' ''nativeMetadata must be an object when present''
             ''$.nativeMetadata'') @
        (let version = js_get input ''version'' in
         if version = JUndef then []
         else if \<not> is_plain_object version
         then ev_fail ''invalid_version_constraint'' ''version must be an object when present''
                ''$.version''
         else ev_when (js_get version ''kind'' \<notin> {JStr ''must_equal'', JStr ''must_be_in''})
           (ev_fail ''invalid_version_kind''
              ''version.kind must be \"must_equal\" or \"must_be_in\"'' ''$.version.kind'')))"

definition assertEvidenceSnapshotProposed :: "js \<Rightarrow> js_error + js" where
  "assertEvidenceSnapshotProposed s =
     (let errors = validateEvidenceSnapshotProposed s in
      if errors \<noteq> [] then Inl (Error (join ''; '' (map ee_message errors))) else Inr s)"

definition assertQualificationVector :: "js \<Rightarrow> js_error + js" where
  "assertQualificationVector q =
     (let errors = validateQualificationVector q ''$.qualification'' in
      if errors \<noteq> [] then Inl (Error (join ''; '' (map ee_message errors))) else Inr q)"

text \<open>Reading the rungs and the freshness of a validated vector.\<close>

definition qualification_well_formed :: "js \<Rightarrow> bool" where
  "qualification_well_formed q \<longleftrightarrow>
     is_plain_object q \<and>
     named_in provenance_names (js_get q ''provenance'') \<and>
     named_in definition_names (js_get q ''definition'') \<and>
     is_plain_object (js_get q ''freshness'') \<and>
     (js_get (js_get q ''freshness'') ''applicable'' = JStr ''not-applicable'' \<or>
      js_get (js_get q ''freshness'') ''applicable'' = JStr ''applicable'' \<and>
      non_empty_string (js_get (js_get q ''freshness'') ''snapshotFrozenAt'') \<and>
      non_empty_string (js_get (js_get q ''freshness'') ''valueAsOf''))"

lemma validateQualificationVector_ok:
  "validateQualificationVector q path = [] \<longleftrightarrow> qualification_well_formed q"
  by (auto simp: validateQualificationVector_def qualification_well_formed_def Let_def)

section \<open>Committing governed evidence\<close>

datatype rejection = EvidenceRequired | InvalidEvidenceSnapshot | SnapshotStoreRequired

fun rejection_text :: "rejection \<Rightarrow> string" where
  "rejection_text EvidenceRequired = ''evidence_required''"
| "rejection_text InvalidEvidenceSnapshot = ''invalid_evidence_snapshot''"
| "rejection_text SnapshotStoreRequired = ''snapshot_store_required''"

datatype commit_result =
    CommitOk "string list" "jobj list"
  | CommitFail rejection string

definition launch_versions :: js where
  "launch_versions = JObj [(''decisionRecordVersion'', JNum (Fin 1)),
     (''invariantVersion'', JNum (Fin 1)), (''canonicalVersion'', JNum (Fin 1))]"

definition requiresGovernedEvidence :: "jobj option \<Rightarrow> jobj option \<Rightarrow> bool" where
  "requiresGovernedEvidence loopMetadata transitionMetadata \<longleftrightarrow>
     opt_get loopMetadata ''governedEvidence'' = JBool True \<or>
     opt_get transitionMetadata ''governedEvidence'' = JBool True"

text \<open>
  The hash of a snapshot's semantic values; \<open>sha\<close> is the digest of the host.
\<close>

definition snapshotContentHash :: "host \<Rightarrow> (ustr \<Rightarrow> string) \<Rightarrow> js \<Rightarrow> canon_error + string" where
  "snapshotContentHash h sha values = sha256CanonicalHex h sha (widen values)"

text \<open>
  The loop over the snapshots: hash the values, compare with a hash the caller supplied, take
  the next identifier. The \<open>n\<close>-th identifier of the process is \<open>newId n\<close>.
\<close>

fun hash_snapshots ::
    "host \<Rightarrow> (ustr \<Rightarrow> string) \<Rightarrow> (nat \<Rightarrow> string) \<Rightarrow> nat \<Rightarrow> js list \<Rightarrow> string + jobj list" where
  "hash_snapshots h sha newId n [] = Inr []"
| "hash_snapshots h sha newId n (s # ss) =
     (case snapshotContentHash h sha (js_get s ''values'') of
        Inl e \<Rightarrow> Inl (canon_message e)
      | Inr contentSha256 \<Rightarrow>
          if js_get s ''contentSha256'' \<noteq> JUndef \<and> js_get s ''contentSha256'' \<noteq> JStr contentSha256
          then Inl (''contentSha256 mismatch for snapshotKey '' @
                 (case snapshot_key s of None \<Rightarrow> [] | Some k \<Rightarrow> k))
          else res_bind (hash_snapshots h sha newId (Suc n) ss) (\<lambda>rest.
            Inr (obj_spread (case s of JObj kvs \<Rightarrow> kvs | _ \<Rightarrow> [])
              [(''id'', JStr (newId n)), (''contentSha256'', JStr contentSha256)] # rest)))"

text \<open>
  \<open>insertSnapshots\<close> of the store a deployment supplies: tenant, aggregate and rows; it gives
  the identifiers of the stored rows or fails, and changes the state of the store.
\<close>

type_synonym 'p snapshot_store =
  "string \<Rightarrow> string \<Rightarrow> jobj list \<Rightarrow> 'p \<Rightarrow> (js_error + string list) \<times> 'p"

definition commitGovernedEvidenceSnapshots ::
    "host \<Rightarrow> (ustr \<Rightarrow> string) \<Rightarrow> (nat \<Rightarrow> string) \<Rightarrow> nat \<Rightarrow> 'p snapshot_store option \<Rightarrow>
     string \<Rightarrow> string \<Rightarrow> js \<Rightarrow> 'p \<Rightarrow> (js_error + commit_result) \<times> 'p" where
  "commitGovernedEvidenceSnapshots h sha newId n store tenantId aggregateId snapshots p =
     (case validateGovernedEvidencePresent snapshots of
        e # _ \<Rightarrow> (Inr (CommitFail EvidenceRequired (ee_message e)), p)
      | [] \<Rightarrow>
        (case validateEvidenceSnapshotCommitBatch h snapshots of
           e # es \<Rightarrow>
             (Inr (CommitFail InvalidEvidenceSnapshot (join ''; '' (map ee_message (e # es)))), p)
         | [] \<Rightarrow>
           (case hash_snapshots h sha newId n (case snapshots of JArr ss \<Rightarrow> ss | _ \<Rightarrow> []) of
              Inl msg \<Rightarrow> (Inr (CommitFail InvalidEvidenceSnapshot msg), p)
            | Inr persisted \<Rightarrow>
              (case store of
                 None \<Rightarrow> (Inr (CommitFail SnapshotStoreRequired
                   ''governed evidence transition requires a SnapshotStore''), p)
               | Some ins \<Rightarrow>
                 (case ins tenantId aggregateId persisted p of
                    (Inl e, p') \<Rightarrow> (Inl e, p')
                  | (Inr ids, p') \<Rightarrow> (Inr (CommitOk ids persisted), p'))))))"

section \<open>What a commit establishes\<close>

definition persisted_of ::
    "host \<Rightarrow> (ustr \<Rightarrow> string) \<Rightarrow> js \<Rightarrow> string \<Rightarrow> jobj \<Rightarrow> bool" where
  "persisted_of h sha s i row \<longleftrightarrow>
     (\<exists>t. canonicalizable (widen (js_get s ''values'')) \<and>
        t = canonicalSerialize h (widen (js_get s ''values'')) \<and>
        obj_get row ''contentSha256'' = JStr (sha t) \<and> obj_get row ''id'' = JStr i \<and>
        (js_get s ''contentSha256'' = JUndef \<or> js_get s ''contentSha256'' = JStr (sha t)) \<and>
        (\<forall>k. k \<noteq> ''id'' \<longrightarrow> k \<noteq> ''contentSha256'' \<longrightarrow> obj_get row k = js_get s k))"

lemma snapshotContentHash_Inr:
  "snapshotContentHash h sha v = Inr x \<longleftrightarrow>
     canonicalizable (widen v) \<and> x = sha (canonicalSerialize h (widen v))"
  by (simp add: snapshotContentHash_def sha256CanonicalHex_Inr)

lemma hash_snapshots_Inr:
  assumes "hash_snapshots h sha newId n ss = Inr rows"
  shows "length rows = length ss \<and>
    (\<forall>i < length ss. persisted_of h sha (ss ! i) (newId (n + i)) (rows ! i))"
  using assms
proof (induction ss arbitrary: n rows)
  case Nil
  then show ?case by simp
next
  case (Cons s ss)
  from Cons.prems obtain x rest where
    x: "snapshotContentHash h sha (js_get s ''values'') = Inr x" and
    match: "js_get s ''contentSha256'' = JUndef \<or> js_get s ''contentSha256'' = JStr x" and
    rest: "hash_snapshots h sha newId (Suc n) ss = Inr rest" and
    rows: "rows = obj_spread (case s of JObj kvs \<Rightarrow> kvs | _ \<Rightarrow> [])
       [(''id'', JStr (newId n)), (''contentSha256'', JStr x)] # rest"
    by (auto simp: res_simps split: sum.splits if_splits)
  have "js_get s k = obj_get (case s of JObj kvs \<Rightarrow> kvs | _ \<Rightarrow> []) k" for k
    by (cases s) (simp_all add: obj_get_def)
  then have "persisted_of h sha s (newId n) (hd rows)"
    using x match by (auto simp: rows persisted_of_def snapshotContentHash_Inr obj_simps)
  with Cons.IH[OF rest] show ?case
    by (auto simp: rows nth_Cons split: nat.splits)
qed

lemma hash_snapshots_snapshot_canonical:
  "hash_snapshots h sha newId n ss = Inr rows \<Longrightarrow> s \<in> set ss \<Longrightarrow>
     canonicalizable (widen (js_get s ''values''))"
  by (frule hash_snapshots_Inr) (auto simp: in_set_conv_nth persisted_of_def)

text \<open>A commit that fails leaves the store as it was.\<close>

lemma commit_fail_no_write:
  "commitGovernedEvidenceSnapshots h sha newId n store tid aid v p = (Inr (CommitFail r m), p') \<Longrightarrow>
     p' = p"
  by (auto simp: commitGovernedEvidenceSnapshots_def split: list.splits sum.splits option.splits prod.splits)

lemma commit_ok:
  assumes "commitGovernedEvidenceSnapshots h sha newId n store tid aid v p = (Inr (CommitOk ids rows), p')"
  obtains ss ins where "v = JArr ss" "ss \<noteq> []" "\<forall>s \<in> set ss. snapshot_well_formed h s"
    "distinct (map snapshot_key ss)" "store = Some ins" "ins tid aid rows p = (Inr ids, p')"
    "hash_snapshots h sha newId n ss = Inr rows"
proof -
  from assms have present: "validateGovernedEvidencePresent v = []"
    and batch: "validateEvidenceSnapshotCommitBatch h v = []"
    by (auto simp: commitGovernedEvidenceSnapshots_def split: list.splits)
  from present obtain s ss where v: "v = JArr (s # ss)"
    by (auto simp: validateGovernedEvidencePresent_ok)
  from assms present batch obtain ins where
    "hash_snapshots h sha newId n (s # ss) = Inr rows" "store = Some ins"
    "ins tid aid rows p = (Inr ids, p')"
    by (auto simp: commitGovernedEvidenceSnapshots_def v split: sum.splits option.splits prod.splits)
  moreover from batch have "\<forall>x \<in> set (s # ss). snapshot_well_formed h x"
    "distinct (map snapshot_key (s # ss))"
    by (auto simp: validateEvidenceSnapshotCommitBatch_ok v)
  ultimately show thesis using that v by blast
qed

end
