(* ===== verification/Memory_Store.thy ===== *)
theory Memory_Store
  imports Core
begin

text \<open>
  The interface \<open>LoopStore\<close> of \<open>packages/runtime/src/interfaces.ts\<close> as a record of operations
  over a state, the contract the engine relies on as the locale \<open>loop_store\<close>, and the
  in-memory implementation of \<open>packages/adapter-memory\<close>, which meets it.
\<close>

section \<open>The interface\<close>

record 's store_ops =
  getInstance :: "'s \<Rightarrow> string \<Rightarrow> loop_instance option"
  saveInstance :: "loop_instance \<Rightarrow> 's \<Rightarrow> 's"
  getTransitionHistory :: "'s \<Rightarrow> string \<Rightarrow> transition_record list"
  saveTransitionRecord :: "transition_record \<Rightarrow> 's \<Rightarrow> 's"
  listOpenInstances :: "'s \<Rightarrow> string \<Rightarrow> loop_instance list"

text \<open>
  The contract: an instance is found under its own aggregate identifier after it was saved and
  replaces what was there; histories only grow, at the end; neither write affects the other
  kind of data or another aggregate. \<open>wf\<close> is the invariant of the implementation.
\<close>

locale loop_store =
  fixes ops :: "'s store_ops" and wf :: "'s \<Rightarrow> bool" and emp :: 's
  assumes wf_empty: "wf emp"
    and get_empty: "getInstance ops emp a = None"
    and history_empty: "getTransitionHistory ops emp a = []"
    and wf_save: "wf s \<Longrightarrow> wf (saveInstance ops i s)"
    and wf_record: "wf s \<Longrightarrow> wf (saveTransitionRecord ops r s)"
    and get_save: "getInstance ops (saveInstance ops i s) a =
      (if a = inst_aggregateId i then Some i else getInstance ops s a)"
    and get_record: "getInstance ops (saveTransitionRecord ops r s) a = getInstance ops s a"
    and history_save: "getTransitionHistory ops (saveInstance ops i s) a = getTransitionHistory ops s a"
    and history_record: "getTransitionHistory ops (saveTransitionRecord ops r s) a =
      (if a = rec_aggregateId r then getTransitionHistory ops s a @ [r]
       else getTransitionHistory ops s a)"
    and get_keyed: "wf s \<Longrightarrow> getInstance ops s a = Some i \<Longrightarrow> inst_aggregateId i = a"
    and list_open: "wf s \<Longrightarrow> set (listOpenInstances ops s l) =
      {i. getInstance ops s (inst_aggregateId i) = Some i \<and> inst_loopId i = l \<and> inst_status i = Active}"
    and list_open_distinct: "wf s \<Longrightarrow> distinct (map inst_aggregateId (listOpenInstances ops s l))"
begin

lemmas store_simps = get_save get_record history_save history_record

text \<open>A save followed by a record write, as the engine does on a transition.\<close>

lemma get_commit:
  "getInstance ops (saveTransitionRecord ops r (saveInstance ops i s)) a =
     (if a = inst_aggregateId i then Some i else getInstance ops s a)"
  by (simp add: store_simps)

lemma history_commit:
  "getTransitionHistory ops (saveTransitionRecord ops r (saveInstance ops i s)) a =
     (if a = rec_aggregateId r then getTransitionHistory ops s a @ [r]
      else getTransitionHistory ops s a)"
  by (simp add: store_simps)

lemma wf_commit: "wf s \<Longrightarrow> wf (saveTransitionRecord ops r (saveInstance ops i s))"
  by (simp add: wf_save wf_record)

text \<open>An instance that stops being active leaves the list of open instances.\<close>

lemma list_open_save:
  assumes "wf s"
  shows "set (listOpenInstances ops (saveInstance ops i s) l) =
    {j \<in> set (listOpenInstances ops s l). inst_aggregateId j \<noteq> inst_aggregateId i} \<union>
    (if inst_loopId i = l \<and> inst_status i = Active then {i} else {})"
  using assms by (auto simp: list_open wf_save get_save)

end

section \<open>The in-memory store\<close>

text \<open>Two \<open>Map\<close> objects: instances by aggregate, and the growing array of records by aggregate.\<close>

record memory_store =
  ms_loops :: "(string \<times> loop_instance) list"
  ms_transitions :: "(string \<times> transition_record list) list"

definition ms_empty :: memory_store where
  "ms_empty = \<lparr>ms_loops = [], ms_transitions = []\<rparr>"

definition ms_getInstance :: "memory_store \<Rightarrow> string \<Rightarrow> loop_instance option" where
  "ms_getInstance s a = map_of (ms_loops s) a"

definition ms_saveInstance :: "loop_instance \<Rightarrow> memory_store \<Rightarrow> memory_store" where
  "ms_saveInstance i s = s\<lparr>ms_loops := AList.update (inst_aggregateId i) i (ms_loops s)\<rparr>"

definition ms_getTransitionHistory :: "memory_store \<Rightarrow> string \<Rightarrow> transition_record list" where
  "ms_getTransitionHistory s a =
     (case map_of (ms_transitions s) a of None \<Rightarrow> [] | Some rs \<Rightarrow> rs)"

definition ms_saveTransitionRecord :: "transition_record \<Rightarrow> memory_store \<Rightarrow> memory_store" where
  "ms_saveTransitionRecord r s =
     (let current = (case map_of (ms_transitions s) (rec_aggregateId r) of None \<Rightarrow> [] | Some rs \<Rightarrow> rs)
      in s\<lparr>ms_transitions := AList.update (rec_aggregateId r) (current @ [r]) (ms_transitions s)\<rparr>)"

definition ms_listOpenInstances :: "memory_store \<Rightarrow> string \<Rightarrow> loop_instance list" where
  "ms_listOpenInstances s l =
     filter (\<lambda>i. inst_loopId i = l \<and> inst_status i = Active) (map snd (ms_loops s))"

definition memory_ops :: "memory_store store_ops" where
  "memory_ops =
     \<lparr>getInstance = ms_getInstance, saveInstance = ms_saveInstance,
      getTransitionHistory = ms_getTransitionHistory,
      saveTransitionRecord = ms_saveTransitionRecord,
      listOpenInstances = ms_listOpenInstances\<rparr>"

text \<open>Every instance is stored under its own identifier, once.\<close>

definition ms_wf :: "memory_store \<Rightarrow> bool" where
  "ms_wf s \<longleftrightarrow> distinct (map fst (ms_loops s)) \<and> (\<forall>(a, i) \<in> set (ms_loops s). inst_aggregateId i = a)"

lemmas memory_defs = ms_empty_def ms_getInstance_def ms_saveInstance_def
  ms_getTransitionHistory_def ms_saveTransitionRecord_def ms_listOpenInstances_def

lemma memory_ops_sel [simp]:
  "getInstance memory_ops = ms_getInstance"
  "saveInstance memory_ops = ms_saveInstance"
  "getTransitionHistory memory_ops = ms_getTransitionHistory"
  "saveTransitionRecord memory_ops = ms_saveTransitionRecord"
  "listOpenInstances memory_ops = ms_listOpenInstances"
  by (simp_all add: memory_ops_def)

lemma ms_wf_save: "ms_wf s \<Longrightarrow> ms_wf (ms_saveInstance i s)"
  using set_alist_update_subset[of "inst_aggregateId i" i "ms_loops s"]
  by (auto simp: ms_wf_def ms_saveInstance_def distinct_update)

lemma ms_listOpen_set:
  assumes "ms_wf s"
  shows "set (ms_listOpenInstances s l) =
    {i. ms_getInstance s (inst_aggregateId i) = Some i \<and> inst_loopId i = l \<and> inst_status i = Active}"
proof -
  have "i \<in> snd ` set (ms_loops s) \<longleftrightarrow> map_of (ms_loops s) (inst_aggregateId i) = Some i" for i
    using assms by (force simp: ms_wf_def map_of_eq_Some_iff)
  then show ?thesis by (auto simp: ms_listOpenInstances_def ms_getInstance_def)
qed

lemma ms_listOpen_distinct:
  assumes "ms_wf s"
  shows "distinct (map inst_aggregateId (ms_listOpenInstances s l))"
proof -
  have "map inst_aggregateId (map snd (ms_loops s)) = map fst (ms_loops s)"
    using assms by (auto simp: ms_wf_def)
  then have "distinct (map inst_aggregateId (map snd (ms_loops s)))"
    using assms by (simp only: ms_wf_def)
  then show ?thesis unfolding ms_listOpenInstances_def by (rule distinct_map_filter)
qed

text \<open>The laws of single reads and writes.\<close>

lemma ms_basic:
  "ms_wf ms_empty" "ms_getInstance ms_empty a = None" "ms_getTransitionHistory ms_empty a = []"
  "ms_getInstance (ms_saveInstance i s) a =
     (if a = inst_aggregateId i then Some i else ms_getInstance s a)"
  "ms_getInstance (ms_saveTransitionRecord r s) a = ms_getInstance s a"
  "ms_getTransitionHistory (ms_saveInstance i s) a = ms_getTransitionHistory s a"
  "ms_getTransitionHistory (ms_saveTransitionRecord r s) a =
     (if a = rec_aggregateId r then ms_getTransitionHistory s a @ [r]
      else ms_getTransitionHistory s a)"
  "ms_wf (ms_saveTransitionRecord r s) = ms_wf s"
  by (simp_all add: memory_defs obj_simps ms_wf_def Let_def split: option.splits)

interpretation mem: loop_store memory_ops ms_wf ms_empty
proof unfold_locales
  fix s a i
  assume "ms_wf s" "getInstance memory_ops s a = Some i"
  then show "inst_aggregateId i = a"
    by (auto simp: ms_wf_def ms_getInstance_def dest: map_of_SomeD)
qed (simp_all add: ms_basic ms_wf_save ms_listOpen_set ms_listOpen_distinct)

end
