(* ===== verification/Engine.thy ===== *)
theory Engine
  imports Actors Guards Events Evidence Memory_Store
begin

text \<open>
  \<open>packages/runtime/src/engine.ts\<close>: the class \<open>LoopEngine\<close>. Its options are a record of the
  store operations, the definition registry, the optional event bus, guard registry, snapshot
  store and clock; its methods are state transformers over a world that holds the state of the
  store, of the snapshot store, the events handed to the bus and the number of uses of the
  clock and identifier source so far.

  The store's operations return; a bus and a snapshot store may reject.
\<close>

section \<open>Options and world\<close>

record ('s, 'p) engine =
  eng_store :: "'s store_ops"
  eng_registry :: "string \<Rightarrow> loop_definition option"
  eng_eventBus :: "(nat \<Rightarrow> loop_event \<Rightarrow> js_error option) option"
  eng_guardRegistry :: "guard_registry option"
  eng_snapshotStore :: "'p snapshot_store option"
  eng_now :: "(nat \<Rightarrow> string) option"
  eng_host :: host
  eng_env :: env
  eng_sha256 :: "ustr \<Rightarrow> string"

record ('s, 'p) world =
  w_store :: 's
  w_snap :: 'p
  w_emitted :: "loop_event list"
  w_tick :: nat

record start_params =
  sp_loopId :: string
  sp_aggregateId :: string
  sp_actor :: actor_ref
  sp_correlationId :: "string option"
  sp_metadata :: "jobj option"

record transition_params =
  tp_aggregateId :: string
  tp_transitionId :: string
  tp_actor :: actor_ref
  tp_evidence :: "jobj option"
  tp_evidenceSnapshots :: js
  tp_tenantId :: "string option"
  tp_correlationId :: "string option"
  tp_constraints :: "ai_constraints option"

datatype transition_status = Executed | GuardsFailed | Rejected | PendingApproval

record guard_failure =
  fl_guardId :: string
  fl_message :: string
  fl_severity :: severity

record transition_result =
  res_status :: transition_status
  res_fromState :: string
  res_toState :: "string option"
  res_guardFailures :: "guard_failure list option"
  res_rejectionReason :: "string option"
  res_event :: "loop_event option"

section \<open>Private methods\<close>

definition engine_guards :: "('s, 'p) engine \<Rightarrow> guard_registry" where
  "engine_guards eng = (case eng_guardRegistry eng of None \<Rightarrow> defaultRegistry | Some r \<Rightarrow> r)"

text \<open>One use of the clock or identifier source.\<close>

definition fresh :: "(('s, 'p) world, nat) op" where
  "fresh w = (Inr (w_tick w), w\<lparr>w_tick := Suc (w_tick w)\<rparr>)"

definition engine_now :: "('s, 'p) engine \<Rightarrow> (('s, 'p) world, string) op" where
  "engine_now eng = op_bind fresh (\<lambda>n. op_return
     (case eng_now eng of Some f \<Rightarrow> f n | None \<Rightarrow> iso_now (eng_env eng) n))"

definition engine_emit :: "('s, 'p) engine \<Rightarrow> loop_event \<Rightarrow> (('s, 'p) world, unit) op" where
  "engine_emit eng e w =
     (case eng_eventBus eng of
        None \<Rightarrow> (Inr (), w)
      | Some bus \<Rightarrow>
          (case bus (length (w_emitted w)) e of
             None \<Rightarrow> (Inr (), w\<lparr>w_emitted := w_emitted w @ [e]\<rparr>)
           | Some err \<Rightarrow> (Inl err, w\<lparr>w_emitted := w_emitted w @ [e]\<rparr>)))"

definition isTerminal :: "loop_definition \<Rightarrow> string \<Rightarrow> bool" where
  "isTerminal d sid = list_ex (\<lambda>st. st_id st = sid \<and> st_isTerminal st = Some True) (def_states d)"

text \<open>Build an event of an instance with a factory and hand it to the bus.\<close>

definition emit_new ::
    "('s, 'p) engine \<Rightarrow> string \<Rightarrow> string \<Rightarrow> string option \<Rightarrow>
     (event_base \<Rightarrow> js_error + loop_event) \<Rightarrow> (('s, 'p) world, loop_event) op" where
  "emit_new eng lid aid corr create =
     op_bind fresh (\<lambda>n.
       case create (build_base (eng_env eng) n lid aid corr) of
         Inl err \<Rightarrow> op_throw err
       | Inr e \<Rightarrow> op_bind (engine_emit eng e) (\<lambda>_. op_return e))"

definition save_instance :: "('s, 'p) engine \<Rightarrow> loop_instance \<Rightarrow> (('s, 'p) world, unit) op" where
  "save_instance eng i w = (Inr (), w\<lparr>w_store := saveInstance (eng_store eng) i (w_store w)\<rparr>)"

definition save_record :: "('s, 'p) engine \<Rightarrow> transition_record \<Rightarrow> (('s, 'p) world, unit) op" where
  "save_record eng r w = (Inr (), w\<lparr>w_store := saveTransitionRecord (eng_store eng) r (w_store w)\<rparr>)"

section \<open>start\<close>

definition initial_instance :: "loop_definition \<Rightarrow> start_params \<Rightarrow> string \<Rightarrow> loop_instance" where
  "initial_instance d p now =
     \<lparr>inst_loopId = def_id d, inst_aggregateId = sp_aggregateId p,
      inst_currentState = def_initialState d, inst_status = Active,
      inst_startedAt = now, inst_updatedAt = now,
      inst_correlationId = (if sp_correlationId p = Some [] then None else sp_correlationId p),
      inst_completedAt = None, inst_metadata = sp_metadata p\<rparr>"

definition start :: "('s, 'p) engine \<Rightarrow> start_params \<Rightarrow> (('s, 'p) world, loop_instance) op" where
  "start eng p w =
     (case eng_registry eng (sp_loopId p) of
        None \<Rightarrow> op_throw (Error (''Loop definition not found for '' @ sp_loopId p)) w
      | Some d \<Rightarrow>
          if (case getInstance (eng_store eng) (w_store w) (sp_aggregateId p) of
                None \<Rightarrow> False | Some existing \<Rightarrow> inst_status existing = Active)
          then op_throw (Error (''Active loop already exists for aggregateId '' @ sp_aggregateId p)) w
          else
            op_bind (engine_now eng) (\<lambda>now.
            op_bind (save_instance eng (initial_instance d p now)) (\<lambda>_.
            op_bind (emit_new eng (def_id d) (sp_aggregateId p) (sp_correlationId p)
              (\<lambda>b. createLoopStartedEvent b
                 \<lparr>ls_initialState = def_initialState d, ls_actor = sp_actor p,
                  ls_defLoopId = def_id d, ls_version = def_version d, ls_name = def_name d\<rparr>)) (\<lambda>_.
            op_return (initial_instance d p now)))) w)"

section \<open>transition\<close>

definition rejected :: "loop_instance \<Rightarrow> string \<Rightarrow> transition_result" where
  "rejected inst reason =
     \<lparr>res_status = Rejected, res_fromState = inst_currentState inst, res_toState = None,
      res_guardFailures = None, res_rejectionReason = Some reason, res_event = None\<rparr>"

text \<open>The checks before anything is emitted: a result to return, or the transition to attempt.\<close>

definition precheck ::
    "loop_definition \<Rightarrow> loop_instance \<Rightarrow> transition_params \<Rightarrow> transition_result + transition_spec" where
  "precheck d inst p =
     (if inst_status inst = Completed \<or> isTerminal d (inst_currentState inst)
      then Inl (rejected inst ''loop_closed'')
      else
        (case List.find (\<lambda>c. tr_id c = tp_transitionId p \<and> tr_from c = inst_currentState inst)
                (def_transitions d) of
           None \<Rightarrow> Inl (rejected inst ''invalid_transition'')
         | Some t \<Rightarrow>
             (let authorization = canActorExecuteTransition (tp_actor p) t (tp_constraints p) in
              if \<not> authorized authorization then Inl (rejected inst ''unauthorized_actor'')
              else if requiresApproval authorization
              then Inl \<lparr>res_status = PendingApproval, res_fromState = inst_currentState inst,
                        res_toState = None, res_guardFailures = None,
                        res_rejectionReason = None, res_event = None\<rparr>
              else Inr t)))"

definition option_or :: "'a option \<Rightarrow> 'a option \<Rightarrow> 'a option" where
  "option_or a b = (case a of None \<Rightarrow> b | Some _ \<Rightarrow> a)"

definition evidence_of :: "transition_params \<Rightarrow> jobj" where
  "evidence_of p = (case tp_evidence p of None \<Rightarrow> [] | Some e \<Rightarrow> e)"

text \<open>An event about the instance: its correlation is the caller's, else the instance's.\<close>

definition emit_about ::
    "('s, 'p) engine \<Rightarrow> loop_instance \<Rightarrow> transition_params \<Rightarrow>
     (event_base \<Rightarrow> js_error + loop_event) \<Rightarrow> (('s, 'p) world, loop_event) op" where
  "emit_about eng inst p create =
     emit_new eng (inst_loopId inst) (inst_aggregateId inst)
       (option_or (tp_correlationId p) (inst_correlationId inst)) create"

definition emit_requested ::
    "('s, 'p) engine \<Rightarrow> loop_instance \<Rightarrow> transition_spec \<Rightarrow> transition_params \<Rightarrow>
     (('s, 'p) world, loop_event) op" where
  "emit_requested eng inst t p =
     emit_about eng inst p (\<lambda>b. createLoopTransitionRequestedEvent b
       \<lparr>rq_transitionId = tr_id t, rq_fromState = inst_currentState inst, rq_toState = tr_to t,
        rq_signal = tr_signal t, rq_actor = tp_actor p, rq_evidence = Some (evidence_of p)\<rparr>)"

definition guard_context_of ::
    "loop_instance \<Rightarrow> transition_spec \<Rightarrow> transition_params \<Rightarrow> guard_context" where
  "guard_context_of inst t p =
     \<lparr>gc_actor = tp_actor p, gc_loopId = inst_loopId inst, gc_aggregateId = inst_aggregateId inst,
      gc_fromState = inst_currentState inst, gc_toState = tr_to t, gc_signal = tr_signal t,
      gc_evidence = Some (evidence_of p), gc_loopData = inst_metadata inst\<rparr>"

definition guards_of :: "transition_spec \<Rightarrow> guard_spec list" where
  "guards_of t = (case tr_guards t of None \<Rightarrow> [] | Some gs \<Rightarrow> gs)"

definition check_guards ::
    "('s, 'p) engine \<Rightarrow> loop_instance \<Rightarrow> transition_spec \<Rightarrow> transition_params \<Rightarrow>
     (('s, 'p) world, guard_summary) op" where
  "check_guards eng inst t p =
     op_bind fresh (\<lambda>n.
       case evaluateGuards (eng_host eng) (date_now (eng_env eng) n) (guards_of t)
              (guard_context_of inst t p) (engine_guards eng) of
         Inl err \<Rightarrow> op_throw err
       | Inr s \<Rightarrow> op_return s)"

definition emit_guard_failed ::
    "('s, 'p) engine \<Rightarrow> loop_instance \<Rightarrow> transition_spec \<Rightarrow> transition_params \<Rightarrow> severity \<Rightarrow>
     guard_evaluation \<Rightarrow> (('s, 'p) world, loop_event) op" where
  "emit_guard_failed eng inst t p sev failure =
     emit_about eng inst p (\<lambda>b. createLoopGuardFailedEvent b
       \<lparr>gf_transitionId = tr_id t, gf_fromState = inst_currentState inst,
        gf_guardId = ge_guardId failure, gf_severity = sev, gf_actor = tp_actor p,
        gf_message = ge_message failure, gf_metadata = ge_metadata failure\<rparr>)"

definition notes_of :: "guard_evaluation list \<Rightarrow> guard_note list" where
  "notes_of fs = map (\<lambda>f. \<lparr>note_guardId = ge_guardId f, note_message = ge_message f\<rparr>) fs"

definition failures_of :: "severity \<Rightarrow> guard_evaluation list \<Rightarrow> guard_failure list" where
  "failures_of sev fs =
     map (\<lambda>f. \<lparr>fl_guardId = ge_guardId f, fl_message = ge_message f, fl_severity = sev\<rparr>) fs"

text \<open>Hard failures: one event each, then the blocked event and the result.\<close>

definition block ::
    "('s, 'p) engine \<Rightarrow> loop_instance \<Rightarrow> transition_spec \<Rightarrow> transition_params \<Rightarrow> guard_summary \<Rightarrow>
     (('s, 'p) world, transition_result) op" where
  "block eng inst t p s =
     op_bind (op_each (emit_guard_failed eng inst t p Hard) (hardFailures s)) (\<lambda>_.
     op_bind (emit_about eng inst p (\<lambda>b. createLoopTransitionBlockedEvent b
       \<lparr>bl_transitionId = tr_id t, bl_fromState = inst_currentState inst,
        bl_attemptedToState = tr_to t, bl_actor = tp_actor p,
        bl_guardFailures = notes_of (hardFailures s)\<rparr>)) (\<lambda>ev.
     op_return
       \<lparr>res_status = GuardsFailed, res_fromState = inst_currentState inst, res_toState = None,
        res_guardFailures = Some (failures_of Hard (hardFailures s)),
        res_rejectionReason = None, res_event = Some ev\<rparr>))"

definition soft_evidence :: "jobj \<Rightarrow> guard_evaluation list \<Rightarrow> jobj" where
  "soft_evidence evidence soft =
     (if soft = [] then evidence
      else obj_spread evidence
        [(''_softGuardWarnings'', JArr (map (\<lambda>f.
           JObj [(''guardId'', JStr (ge_guardId f)), (''message'', JStr (ge_message f))]) soft))])"

definition tenant_of :: "host \<Rightarrow> loop_instance \<Rightarrow> transition_params \<Rightarrow> string" where
  "tenant_of h inst p =
     (case tp_tenantId p of
        Some t \<Rightarrow> t
      | None \<Rightarrow> js_to_string h
          (nullish (opt_get (inst_metadata inst) ''tenantId'')
            (nullish (opt_get (inst_metadata inst) ''organizationId'')
              (JStr (inst_aggregateId inst)))))"

definition governed :: "loop_definition \<Rightarrow> transition_spec \<Rightarrow> bool" where
  "governed d t = requiresGovernedEvidence (def_metadata d) (tr_metadata t)"

text \<open>
  The evidence to record: for a governed transition the snapshots are committed first and
  their references added, and a failed commit is a reason to reject.
\<close>

definition collect_evidence ::
    "('s, 'p) engine \<Rightarrow> loop_definition \<Rightarrow> loop_instance \<Rightarrow> transition_spec \<Rightarrow> transition_params \<Rightarrow>
     guard_summary \<Rightarrow> (('s, 'p) world, string + jobj) op" where
  "collect_evidence eng d inst t p s w =
     (let committed = soft_evidence (evidence_of p) (softFailures s) in
      if \<not> governed d t then (Inr (Inr committed), w)
      else
        (let n = w_tick w;
             w' = w\<lparr>w_tick := n + length (case tp_evidenceSnapshots p of JArr ss \<Rightarrow> ss | _ \<Rightarrow> [])\<rparr>
         in
         case commitGovernedEvidenceSnapshots (eng_host eng) (eng_sha256 eng) (uuid (eng_env eng)) n
                (eng_snapshotStore eng) (tenant_of (eng_host eng) inst p) (tp_aggregateId p)
                (tp_evidenceSnapshots p) (w_snap w) of
           (Inl err, sn) \<Rightarrow> (Inl err, w'\<lparr>w_snap := sn\<rparr>)
         | (Inr (CommitFail r m), sn) \<Rightarrow> (Inr (Inl (rejection_text r)), w'\<lparr>w_snap := sn\<rparr>)
         | (Inr (CommitOk ids rows), sn) \<Rightarrow>
             (Inr (Inr (obj_spread committed
                [(''snapshotIds'', JArr (map JStr ids)), (''versions'', launch_versions)])),
              w'\<lparr>w_snap := sn\<rparr>)))"

definition updated_instance ::
    "loop_definition \<Rightarrow> loop_instance \<Rightarrow> transition_spec \<Rightarrow> string \<Rightarrow> loop_instance" where
  "updated_instance d inst t now =
     (let updated = inst\<lparr>inst_currentState := tr_to t, inst_updatedAt := now\<rparr> in
      if isTerminal d (tr_to t)
      then updated\<lparr>inst_status := Completed, inst_completedAt := Some now\<rparr>
      else updated)"

definition record_of ::
    "loop_instance \<Rightarrow> transition_spec \<Rightarrow> transition_params \<Rightarrow> string \<Rightarrow> jobj \<Rightarrow> transition_record" where
  "record_of inst t p now evidence =
     \<lparr>rec_aggregateId = inst_aggregateId inst, rec_loopId = inst_loopId inst,
      rec_transitionId = tr_id t, rec_signal = tr_signal t,
      rec_fromState = inst_currentState inst, rec_toState = tr_to t,
      rec_actor = tp_actor p, rec_occurredAt = now, rec_evidence = Some evidence\<rparr>"

text \<open>After the writes: the executed event, the completed event of a closed loop, the result.\<close>

definition announce ::
    "('s, 'p) engine \<Rightarrow> loop_definition \<Rightarrow> loop_instance \<Rightarrow> transition_spec \<Rightarrow> transition_params \<Rightarrow>
     guard_summary \<Rightarrow> loop_instance \<Rightarrow> transition_record \<Rightarrow> string \<Rightarrow>
     (('s, 'p) world, transition_result) op" where
  "announce eng d inst t p s updated rec now =
     op_bind (emit_about eng updated p (\<lambda>b. createLoopTransitionExecutedEvent b
       \<lparr>ex_transitionId = tr_id t, ex_fromState = inst_currentState inst, ex_toState = tr_to t,
        ex_signal = tr_signal t, ex_actor = rec_actor rec, ex_evidence = rec_evidence rec,
        ex_softGuardWarnings = Some (notes_of (softFailures s))\<rparr>)) (\<lambda>ev.
     op_bind
       (if inst_status updated = Completed
        then op_bind (emit_about eng updated p (\<lambda>b. createLoopCompletedEvent b
               \<lparr>lc_finalState = inst_currentState updated, lc_actor = rec_actor rec,
                lc_durationMs = num_max0 (num_sub (parse_date (eng_host eng) now)
                  (parse_date (eng_host eng) (inst_startedAt updated))),
                lc_outcomeValueUnit = map_option oc_valueUnit (def_outcome d)\<rparr>))
               (\<lambda>_. op_return ())
        else op_return ()) (\<lambda>_.
     op_return
       \<lparr>res_status = Executed, res_fromState = inst_currentState inst,
        res_toState = Some (tr_to t),
        res_guardFailures =
          (if softFailures s = [] then None else Some (failures_of Soft (softFailures s))),
        res_rejectionReason = None, res_event = Some ev\<rparr>))"

definition commit_transition ::
    "('s, 'p) engine \<Rightarrow> loop_definition \<Rightarrow> loop_instance \<Rightarrow> transition_spec \<Rightarrow> transition_params \<Rightarrow>
     guard_summary \<Rightarrow> jobj \<Rightarrow> (('s, 'p) world, transition_result) op" where
  "commit_transition eng d inst t p s evidence =
     op_bind (engine_now eng) (\<lambda>now.
     let updated = updated_instance d inst t now; rec = record_of inst t p now evidence in
     op_bind (save_instance eng updated) (\<lambda>_.
     op_bind (save_record eng rec) (\<lambda>_.
     announce eng d inst t p s updated rec now)))"

definition attempt ::
    "('s, 'p) engine \<Rightarrow> loop_definition \<Rightarrow> loop_instance \<Rightarrow> transition_spec \<Rightarrow> transition_params \<Rightarrow>
     (('s, 'p) world, transition_result) op" where
  "attempt eng d inst t p =
     op_bind (emit_requested eng inst t p) (\<lambda>_.
     op_bind (check_guards eng inst t p) (\<lambda>s.
     op_bind (op_each (emit_guard_failed eng inst t p Soft) (softFailures s)) (\<lambda>_.
     if \<not> allPassed s then block eng inst t p s
     else op_bind (collect_evidence eng d inst t p s) (\<lambda>c.
       case c of
         Inl reason \<Rightarrow> op_return (rejected inst reason)
       | Inr evidence \<Rightarrow> commit_transition eng d inst t p s evidence))))"

definition transition ::
    "('s, 'p) engine \<Rightarrow> transition_params \<Rightarrow> (('s, 'p) world, transition_result) op" where
  "transition eng p w =
     (case getInstance (eng_store eng) (w_store w) (tp_aggregateId p) of
        None \<Rightarrow> op_throw (Error (''Loop instance not found for aggregateId '' @ tp_aggregateId p)) w
      | Some inst \<Rightarrow>
          (case eng_registry eng (inst_loopId inst) of
             None \<Rightarrow> op_throw (Error (''Loop definition not found for '' @ inst_loopId inst)) w
           | Some d \<Rightarrow>
               (case precheck d inst p of
                  Inl res \<Rightarrow> op_return res w
                | Inr t \<Rightarrow> attempt eng d inst t p w)))"

section \<open>cancelLoop, failLoop and the reads\<close>

definition closed_instance :: "loop_instance \<Rightarrow> loop_status \<Rightarrow> string \<Rightarrow> loop_instance" where
  "closed_instance inst st now =
     inst\<lparr>inst_status := st, inst_completedAt := Some now, inst_updatedAt := now\<rparr>"

definition cancelLoop ::
    "('s, 'p) engine \<Rightarrow> string \<Rightarrow> actor_ref \<Rightarrow> string option \<Rightarrow> (('s, 'p) world, loop_event) op" where
  "cancelLoop eng aid actor reason w =
     (case getInstance (eng_store eng) (w_store w) aid of
        None \<Rightarrow> op_throw (Error (''Loop instance not found for aggregateId '' @ aid)) w
      | Some inst \<Rightarrow>
          op_bind (engine_now eng) (\<lambda>now.
          op_bind (save_instance eng
            (closed_instance inst Cancelled now)) (\<lambda>_.
          emit_new eng (inst_loopId inst) (inst_aggregateId inst) (inst_correlationId inst)
            (\<lambda>b. createLoopCancelledEvent b
               \<lparr>lx_fromState = inst_currentState inst, lx_actor = actor, lx_reason = reason\<rparr>))) w)"

definition failLoop ::
    "('s, 'p) engine \<Rightarrow> string \<Rightarrow> string \<Rightarrow> string \<Rightarrow> string \<Rightarrow> string option \<Rightarrow>
     (('s, 'p) world, loop_event) op" where
  "failLoop eng aid fromState code message stack w =
     (case getInstance (eng_store eng) (w_store w) aid of
        None \<Rightarrow> op_throw (Error (''Loop instance not found for aggregateId '' @ aid)) w
      | Some inst \<Rightarrow>
          op_bind (engine_now eng) (\<lambda>now.
          op_bind (save_instance eng
            (closed_instance inst Failed now)) (\<lambda>_.
          emit_new eng (inst_loopId inst) (inst_aggregateId inst) (inst_correlationId inst)
            (\<lambda>b. createLoopFailedEvent b
               \<lparr>lf_fromState = fromState, lf_code = code, lf_message = message, lf_stack = stack\<rparr>))) w)"

definition getState :: "('s, 'p) engine \<Rightarrow> ('s, 'p) world \<Rightarrow> string \<Rightarrow> loop_instance option" where
  "getState eng w aid = getInstance (eng_store eng) (w_store w) aid"

definition getHistory :: "('s, 'p) engine \<Rightarrow> ('s, 'p) world \<Rightarrow> string \<Rightarrow> transition_record list" where
  "getHistory eng w aid = getTransitionHistory (eng_store eng) (w_store w) aid"

definition listOpen :: "('s, 'p) engine \<Rightarrow> ('s, 'p) world \<Rightarrow> string \<Rightarrow> loop_instance list" where
  "listOpen eng w lid = listOpenInstances (eng_store eng) (w_store w) lid"

section \<open>Frame conditions of the private methods\<close>

lemma fresh_keeps [keeps]:
  "op_keeps w_store fresh" "op_keeps w_snap fresh" "op_keeps w_emitted fresh"
  by (simp_all add: op_keeps_def fresh_def)

lemma engine_now_keeps [keeps]:
  "op_keeps w_store (engine_now eng)" "op_keeps w_snap (engine_now eng)"
  "op_keeps w_emitted (engine_now eng)"
  unfolding engine_now_def by (intro keeps)+

lemma engine_emit_keeps [keeps]:
  "op_keeps w_store (engine_emit eng e)" "op_keeps w_snap (engine_emit eng e)"
  by (auto simp: op_keeps_def engine_emit_def split: option.splits)

lemma emit_new_keeps [keeps]:
  "op_keeps w_store (emit_new eng l a c f)" "op_keeps w_snap (emit_new eng l a c f)"
  unfolding emit_new_def by (intro keeps; simp add: keeps split: sum.split)+

lemma emit_about_keeps [keeps]:
  "op_keeps w_store (emit_about eng i p f)" "op_keeps w_snap (emit_about eng i p f)"
  unfolding emit_about_def by (intro keeps)+

lemma emit_guard_failed_keeps [keeps]:
  "op_keeps w_store (emit_guard_failed eng i t p sev f)"
  "op_keeps w_snap (emit_guard_failed eng i t p sev f)"
  unfolding emit_guard_failed_def by (intro keeps)+

lemma emit_requested_keeps [keeps]:
  "op_keeps w_store (emit_requested eng i t p)" "op_keeps w_snap (emit_requested eng i t p)"
  unfolding emit_requested_def by (intro keeps)+

lemma check_guards_keeps [keeps]:
  "op_keeps w_store (check_guards eng i t p)" "op_keeps w_snap (check_guards eng i t p)"
  "op_keeps w_emitted (check_guards eng i t p)"
  unfolding check_guards_def by (intro keeps; simp add: keeps split: sum.split)+

lemma block_keeps [keeps]:
  "op_keeps w_store (block eng i t p s)" "op_keeps w_snap (block eng i t p s)"
  unfolding block_def by (intro keeps)+

lemma save_instance_keeps [keeps]: "op_keeps w_snap (save_instance eng i)"
  by (simp add: op_keeps_def save_instance_def)

lemma save_record_keeps [keeps]: "op_keeps w_snap (save_record eng r)"
  by (simp add: op_keeps_def save_record_def)

lemma collect_evidence_keeps [keeps]: "op_keeps w_store (collect_evidence eng d i t p s)"
  by (auto simp: op_keeps_def collect_evidence_def Let_def
      split: if_splits prod.splits sum.splits commit_result.splits)

lemma save_instance_simp [simp]:
  "save_instance eng i w = (Inr (), w\<lparr>w_store := saveInstance (eng_store eng) i (w_store w)\<rparr>)"
  by (simp add: save_instance_def)

lemma save_record_simp [simp]:
  "save_record eng r w = (Inr (), w\<lparr>w_store := saveTransitionRecord (eng_store eng) r (w_store w)\<rparr>)"
  by (simp add: save_record_def)

section \<open>What each method does to the stores\<close>

definition final_state :: "loop_definition \<Rightarrow> string \<Rightarrow> bool" where
  "final_state d s \<longleftrightarrow> (\<exists>x \<in> set (def_states d). st_id x = s \<and> st_isTerminal x = Some True)"

lemma isTerminal_final: "isTerminal d s \<longleftrightarrow> final_state d s"
  by (simp add: isTerminal_def final_state_def list_ex_iff)

lemma block_status: "block eng i t p s w = (Inr res, w') \<Longrightarrow> res_status res = GuardsFailed"
  by (auto simp: block_def elim!: op_bind_cases)

lemma announce_keeps [keeps]:
  "op_keeps w_store (announce eng d i t p s u rc now)"
  "op_keeps w_snap (announce eng d i t p s u rc now)"
  unfolding announce_def by (intro keeps; simp add: keeps)+

lemma announce_status:
  "announce eng d i t p s u rc now w = (Inr res, w') \<Longrightarrow>
     res_status res = Executed \<and> res_toState res = Some (tr_to t)"
  by (auto simp: announce_def elim!: op_bind_cases)

lemma engine_now_run:
  obtains now where "engine_now eng w = (Inr now, w\<lparr>w_tick := Suc (w_tick w)\<rparr>)"
  by (auto simp: engine_now_def op_bind_def fresh_def)

text \<open>The two writes happen together, whatever the announcement does afterwards.\<close>

lemma commit_transition_effect:
  assumes "commit_transition eng d inst t p s evidence w = (r, w')"
  obtains now where
    "w_store w' = saveTransitionRecord (eng_store eng) (record_of inst t p now evidence)
       (saveInstance (eng_store eng) (updated_instance d inst t now) (w_store w))"
    "w_snap w' = w_snap w"
    "\<And>res. r = Inr res \<Longrightarrow> res_status res = Executed \<and> res_toState res = Some (tr_to t)"
proof -
  obtain now where now: "engine_now eng w = (Inr now, w\<lparr>w_tick := Suc (w_tick w)\<rparr>)"
    by (rule engine_now_run)
  let ?u = "updated_instance d inst t now" and ?r = "record_of inst t p now evidence"
  let ?w2 = "w\<lparr>w_tick := Suc (w_tick w), w_store := saveTransitionRecord (eng_store eng) ?r
      (saveInstance (eng_store eng) ?u (w_store w))\<rparr>"
  have run: "announce eng d inst t p s ?u ?r now ?w2 = (r, w')"
    using assms by (simp add: commit_transition_def op_bind_def now Let_def)
  have "w_store w' = w_store ?w2" "w_snap w' = w_snap ?w2"
    by (rule op_keepsD[OF announce_keeps(1) run], rule op_keepsD[OF announce_keeps(2) run])
  moreover have "res_status res = Executed \<and> res_toState res = Some (tr_to t)" if "r = Inr res" for res
    using run announce_status that by blast
  ultimately show thesis by (intro that[of now]) simp_all
qed

text \<open>
  What it takes for a transition to be committed, and what the committed stores are: the
  transition is one of the definition from the current state, the actor is of an allowed type
  and needs no approval, every hard guard passed, and for a governed transition the snapshots
  were stored and are referenced by the recorded evidence.
\<close>

definition guards_checked ::
    "('s, 'p) engine \<Rightarrow> loop_instance \<Rightarrow> transition_spec \<Rightarrow> transition_params \<Rightarrow> guard_summary \<Rightarrow> bool" where
  "guards_checked eng inst t p s \<longleftrightarrow>
     (\<exists>n. evaluateGuards (eng_host eng) (date_now (eng_env eng) n) (guards_of t)
        (guard_context_of inst t p) (engine_guards eng) = Inr s)"

definition evidence_collected ::
    "('s, 'p) engine \<Rightarrow> loop_definition \<Rightarrow> loop_instance \<Rightarrow> transition_spec \<Rightarrow> transition_params \<Rightarrow>
     guard_summary \<Rightarrow> 'p \<Rightarrow> jobj \<Rightarrow> 'p \<Rightarrow> bool" where
  "evidence_collected eng d inst t p s sn evidence sn' \<longleftrightarrow>
     (let committed = soft_evidence (evidence_of p) (softFailures s) in
      if governed d t
      then \<exists>n ids rows.
        commitGovernedEvidenceSnapshots (eng_host eng) (eng_sha256 eng) (uuid (eng_env eng)) n
          (eng_snapshotStore eng) (tenant_of (eng_host eng) inst p) (tp_aggregateId p)
          (tp_evidenceSnapshots p) sn = (Inr (CommitOk ids rows), sn') \<and>
        evidence = obj_spread committed
          [(''snapshotIds'', JArr (map JStr ids)), (''versions'', launch_versions)]
      else evidence = committed \<and> sn' = sn)"

definition transition_commits ::
    "('s, 'p) engine \<Rightarrow> transition_params \<Rightarrow> ('s, 'p) world \<Rightarrow> ('s, 'p) world \<Rightarrow> loop_definition \<Rightarrow>
     loop_instance \<Rightarrow> transition_spec \<Rightarrow> guard_summary \<Rightarrow> string \<Rightarrow> jobj \<Rightarrow> bool" where
  "transition_commits eng p w w' d inst t s now evidence \<longleftrightarrow>
     getInstance (eng_store eng) (w_store w) (tp_aggregateId p) = Some inst \<and>
     eng_registry eng (inst_loopId inst) = Some d \<and>
     precheck d inst p = Inr t \<and>
     guards_checked eng inst t p s \<and> allPassed s \<and>
     evidence_collected eng d inst t p s (w_snap w) evidence (w_snap w') \<and>
     w_store w' = saveTransitionRecord (eng_store eng) (record_of inst t p now evidence)
       (saveInstance (eng_store eng) (updated_instance d inst t now) (w_store w))"

lemma check_guards_Inr:
  "check_guards eng inst t p w = (Inr s, w') \<Longrightarrow> guards_checked eng inst t p s"
  by (auto simp: check_guards_def guards_checked_def fresh_def elim!: op_bind_cases split: sum.splits)

lemma collect_evidence_Inr:
  "collect_evidence eng d inst t p s w = (Inr (Inr ev), w') \<Longrightarrow>
     evidence_collected eng d inst t p s (w_snap w) ev (w_snap w')"
  unfolding collect_evidence_def evidence_collected_def Let_def
  by (auto split: if_splits prod.splits sum.splits commit_result.splits) blast+

lemma collect_evidence_Inl:
  "collect_evidence eng d inst t p s w = (Inr (Inl reason), w') \<Longrightarrow> w_snap w' = w_snap w"
  by (auto simp: collect_evidence_def Let_def dest!: commit_fail_no_write
      split: if_splits prod.splits sum.splits commit_result.splits)

lemma attempt_effect:
  assumes run: "attempt eng d inst t p w = (r, w')"
  shows "(w_store w' = w_store w \<and>
            (\<forall>res. r = Inr res \<longrightarrow> res_status res \<noteq> Executed \<and> w_snap w' = w_snap w)) \<or>
         (\<exists>s now evidence. guards_checked eng inst t p s \<and> allPassed s \<and>
            evidence_collected eng d inst t p s (w_snap w) evidence (w_snap w') \<and>
            w_store w' = saveTransitionRecord (eng_store eng) (record_of inst t p now evidence)
              (saveInstance (eng_store eng) (updated_instance d inst t now) (w_store w)) \<and>
            (\<forall>res. r = Inr res \<longrightarrow> res_status res = Executed \<and> res_toState res = Some (tr_to t)))"
  (is "?same \<or> ?done")
proof -
  have soft: "op_keeps w_store (op_each (emit_guard_failed eng inst t p Soft) fs)"
    "op_keeps w_snap (op_each (emit_guard_failed eng inst t p Soft) fs)" for fs
    by (intro keeps)+
  note kept = op_keepsD[OF emit_requested_keeps(1)] op_keepsD[OF emit_requested_keeps(2)]
    op_keepsD[OF check_guards_keeps(1)] op_keepsD[OF check_guards_keeps(2)]
    op_keepsD[OF soft(1)] op_keepsD[OF soft(2)]
    op_keepsD[OF block_keeps(1)] op_keepsD[OF block_keeps(2)]
    op_keepsD[OF collect_evidence_keeps]
  from run show ?thesis
    unfolding attempt_def
  proof (cases rule: op_bind_cases)
    case (cont ev w1)
    note w1 = kept(1,2)[OF cont(1)]
    from cont(2) show ?thesis
    proof (cases rule: op_bind_cases)
      case (cont s w2)
      note w2 = kept(3,4)[OF cont(1)] and checked = check_guards_Inr[OF cont(1)]
      from cont(2) show ?thesis
      proof (cases rule: op_bind_cases)
        case (cont u w3)
        note w3 = kept(5,6)[OF cont(1)]
        show ?thesis
        proof (cases "allPassed s")
          case False
          with cont(2) have b: "block eng inst t p s w3 = (r, w')" by simp
          from kept(7,8)[OF b] block_status[of eng inst t p s w3 _ w'] b show ?thesis
            by (auto simp: w1 w2 w3)
        next
          case True
          with cont(2) have "op_bind (collect_evidence eng d inst t p s) (\<lambda>c.
              case c of Inl reason \<Rightarrow> op_return (rejected inst reason)
              | Inr evidence \<Rightarrow> commit_transition eng d inst t p s evidence) w3 = (r, w')"
            by simp
          then show ?thesis
          proof (cases rule: op_bind_cases)
            case (throw e)
            then show ?thesis using kept(9)[OF throw(1)] by (auto simp: w1 w2 w3)
          next
            case (cont c w4)
            note w4 = kept(9)[OF cont(1)]
            show ?thesis
            proof (cases c)
              case (Inl reason)
              with cont have "r = Inr (rejected inst reason)" "w' = w4"
                and "w_snap w4 = w_snap w3"
                by (auto dest: collect_evidence_Inl)
              then have ?same by (simp add: w1 w2 w3 w4 rejected_def)
              then show ?thesis ..
            next
              case (Inr evidence)
              with cont have ev: "evidence_collected eng d inst t p s (w_snap w3) evidence (w_snap w4)"
                and commit: "commit_transition eng d inst t p s evidence w4 = (r, w')"
                by (auto dest: collect_evidence_Inr)
              from commit obtain now where
                "w_store w' = saveTransitionRecord (eng_store eng) (record_of inst t p now evidence)
                   (saveInstance (eng_store eng) (updated_instance d inst t now) (w_store w4))"
                "w_snap w' = w_snap w4"
                "\<And>res. r = Inr res \<Longrightarrow> res_status res = Executed \<and> res_toState res = Some (tr_to t)"
                by (rule commit_transition_effect) blast
              with ev checked True have ?done by (auto simp: w1 w2 w3 w4)
              then show ?thesis ..
            qed
          qed
        qed
      next
        case (throw e)
        then show ?thesis using kept(5)[OF throw(1)] by (auto simp: w1 w2)
      qed
    next
      case (throw e)
      then show ?thesis using kept(3)[OF throw(1)] by (auto simp: w1)
    qed
  next
    case (throw e)
    then show ?thesis using kept(1)[OF throw(1)] by auto
  qed
qed

text \<open>A call of \<open>transition\<close> either leaves the store as it was or commits.\<close>

lemma transition_effect:
  assumes "transition eng p w = (r, w')"
  obtains (unchanged) "w_store w' = w_store w"
      "\<And>res. r = Inr res \<Longrightarrow> res_status res \<noteq> Executed \<and> w_snap w' = w_snap w"
    | (committed) d inst t s now evidence where "transition_commits eng p w w' d inst t s now evidence"
      "\<And>res. r = Inr res \<Longrightarrow> res_status res = Executed \<and> res_toState res = Some (tr_to t)"
proof -
  have pre: "res_status res \<noteq> Executed" if "precheck d inst p = Inl res" for d inst res
    using that by (auto simp: precheck_def rejected_def Let_def split: if_splits option.splits)
  show thesis
  proof (cases "getInstance (eng_store eng) (w_store w) (tp_aggregateId p)")
    case None
    with assms show thesis by (intro unchanged) (auto simp: transition_def)
  next
    case (Some inst)
    show thesis
    proof (cases "eng_registry eng (inst_loopId inst)")
      case None
      with assms Some show thesis by (intro unchanged) (auto simp: transition_def)
    next
      case (Some d)
      show thesis
      proof (cases "precheck d inst p")
        case (Inl res)
        with assms Some \<open>getInstance _ _ _ = Some inst\<close> show thesis
          by (intro unchanged) (auto simp: transition_def pre)
      next
        case (Inr t)
        with assms Some \<open>getInstance _ _ _ = Some inst\<close> have "attempt eng d inst t p w = (r, w')"
          by (simp add: transition_def)
        from attempt_effect[OF this] show thesis
          using unchanged committed Inr Some \<open>getInstance _ _ _ = Some inst\<close>
          unfolding transition_commits_def by metis
      qed
    qed
  qed
qed

text \<open>The other calls that write save one instance and then only emit.\<close>

lemma save_then:
  assumes "op_bind (engine_now eng) (\<lambda>now. op_bind (save_instance eng (f now)) (\<lambda>_. m now)) w = (r, w')"
    and "\<And>now. op_keeps w_store (m now)"
  obtains now w1 where "m now w1 = (r, w')"
    "w_store w' = saveInstance (eng_store eng) (f now) (w_store w)"
proof -
  obtain now where now: "engine_now eng w = (Inr now, w\<lparr>w_tick := Suc (w_tick w)\<rparr>)"
    by (rule engine_now_run)
  with assms(1) have "m now (w\<lparr>w_tick := Suc (w_tick w),
      w_store := saveInstance (eng_store eng) (f now) (w_store w)\<rparr>) = (r, w')"
    by (simp add: op_bind_def)
  from that[OF this] op_keepsD[OF assms(2) this] show thesis by simp
qed

lemma start_effect:
  assumes "start eng p w = (r, w')"
  shows "w_store w' = w_store w \<and> (\<exists>e. r = Inl e) \<or>
    (\<exists>d now. eng_registry eng (sp_loopId p) = Some d \<and>
      (\<forall>i. getInstance (eng_store eng) (w_store w) (sp_aggregateId p) = Some i \<longrightarrow>
         inst_status i \<noteq> Active) \<and>
      w_store w' = saveInstance (eng_store eng) (initial_instance d p now) (w_store w) \<and>
      (\<forall>i. r = Inr i \<longrightarrow> i = initial_instance d p now))"
proof (cases "eng_registry eng (sp_loopId p)")
  case None
  with assms show ?thesis by (auto simp: start_def)
next
  case (Some d)
  show ?thesis
  proof (cases "\<exists>i. getInstance (eng_store eng) (w_store w) (sp_aggregateId p) = Some i \<and> inst_status i = Active")
    case True
    with assms Some show ?thesis by (auto simp: start_def)
  next
    case False
    let ?emit = "emit_new eng (def_id d) (sp_aggregateId p) (sp_correlationId p)
      (\<lambda>b. createLoopStartedEvent b
         \<lparr>ls_initialState = def_initialState d, ls_actor = sp_actor p,
          ls_defLoopId = def_id d, ls_version = def_version d, ls_name = def_name d\<rparr>)"
    from False Some assms have "op_bind (engine_now eng) (\<lambda>now.
        op_bind (save_instance eng (initial_instance d p now)) (\<lambda>_.
        op_bind ?emit (\<lambda>_. op_return (initial_instance d p now)))) w = (r, w')"
      by (auto simp: start_def split: option.splits if_splits)
    then show ?thesis
    proof (rule save_then)
      show "op_keeps w_store (op_bind ?emit (\<lambda>_. op_return (initial_instance d p now)))" for now
        by (intro keeps)
    next
      fix now w1
      assume "op_bind ?emit (\<lambda>_. op_return (initial_instance d p now)) w1 = (r, w')"
        and saved: "w_store w' = saveInstance (eng_store eng) (initial_instance d p now) (w_store w)"
      then have "\<forall>i. r = Inr i \<longrightarrow> i = initial_instance d p now"
        by (auto elim!: op_bind_cases)
      with saved Some False show ?thesis by blast
    qed
  qed
qed

lemma start_saves:
  assumes "eng_registry eng (sp_loopId p) = Some d"
    "\<forall>i. getInstance (eng_store eng) (w_store w) (sp_aggregateId p) = Some i \<longrightarrow> inst_status i \<noteq> Active"
  shows "\<exists>now. w_store (snd (start eng p w)) =
    saveInstance (eng_store eng) (initial_instance d p now) (w_store w)"
proof -
  let ?emit = "emit_new eng (def_id d) (sp_aggregateId p) (sp_correlationId p)
      (\<lambda>b. createLoopStartedEvent b
         \<lparr>ls_initialState = def_initialState d, ls_actor = sp_actor p,
          ls_defLoopId = def_id d, ls_version = def_version d, ls_name = def_name d\<rparr>)"
  obtain r w' where run: "start eng p w = (r, w')" by fastforce
  with assms have "op_bind (engine_now eng) (\<lambda>now.
      op_bind (save_instance eng (initial_instance d p now)) (\<lambda>_.
      op_bind ?emit (\<lambda>_. op_return (initial_instance d p now)))) w = (r, w')"
    by (auto simp: start_def split: option.splits if_splits)
  then show ?thesis using run by (elim save_then) (auto intro: keeps)
qed

lemma cancel_effect:
  assumes "cancelLoop eng a actor reason w = (r, w')"
  shows "w_store w' = w_store w \<and> getInstance (eng_store eng) (w_store w) a = None \<and> (\<exists>e. r = Inl e) \<or>
    (\<exists>inst now. getInstance (eng_store eng) (w_store w) a = Some inst \<and>
      w_store w' = saveInstance (eng_store eng) (closed_instance inst Cancelled now) (w_store w))"
proof (cases "getInstance (eng_store eng) (w_store w) a")
  case None
  with assms show ?thesis by (auto simp: cancelLoop_def)
next
  case (Some inst)
  with assms show ?thesis
    by (auto simp: cancelLoop_def intro: keeps elim!: save_then)
qed

lemma fail_effect:
  assumes "failLoop eng a from code msg stack w = (r, w')"
  shows "w_store w' = w_store w \<and> getInstance (eng_store eng) (w_store w) a = None \<and> (\<exists>e. r = Inl e) \<or>
    (\<exists>inst now. getInstance (eng_store eng) (w_store w) a = Some inst \<and>
      w_store w' = saveInstance (eng_store eng) (closed_instance inst Failed now) (w_store w))"
proof (cases "getInstance (eng_store eng) (w_store w) a")
  case None
  with assms show ?thesis by (auto simp: failLoop_def)
next
  case (Some inst)
  with assms show ?thesis
    by (auto simp: failLoop_def intro: keeps elim!: save_then)
qed

end
