(* ===== verification/Engine_Events.thy ===== *)
theory Engine_Events
  imports Engine
begin

text \<open>
  The events a call of the engine hands to its bus: for each way a call can return, which
  kinds of event in which order.
\<close>

section \<open>Emission of a single event\<close>

text \<open>\<open>emits m F\<close>: when \<open>m\<close> returns, the events it appended satisfy \<open>F\<close> of its result.\<close>

definition emits ::
    "(('s, 'p) world, 'a) op \<Rightarrow> ('a \<Rightarrow> loop_event list \<Rightarrow> bool) \<Rightarrow> bool" where
  "emits m F \<longleftrightarrow>
     (\<forall>w x w'. m w = (Inr x, w') \<longrightarrow> (\<exists>es. w_emitted w' = w_emitted w @ es \<and> F x es))"

lemma emitsD:
  assumes "emits m F" "m w = (Inr x, w')"
  obtains es where "w_emitted w' = w_emitted w @ es" "F x es"
  using assms unfolding emits_def by blast

named_theorems emits_intros \<open>rules that give the events of an operation\<close>

lemma emits_return [emits_intros]: "F x [] \<Longrightarrow> emits (op_return x) F"
  by (simp add: emits_def)

lemma emits_throw [emits_intros]: "emits (op_throw e) F"
  by (simp add: emits_def)

lemma emits_keeps: "op_keeps w_emitted m \<Longrightarrow> (\<And>x. F x []) \<Longrightarrow> emits m F"
  by (auto simp: emits_def op_keeps_def)

lemma emits_mono: "emits m F \<Longrightarrow> (\<And>x es. F x es \<Longrightarrow> G x es) \<Longrightarrow> emits m G"
  unfolding emits_def by blast

lemma emits_bind_checked:
  assumes "emits m F" "\<And>x es. F x es \<Longrightarrow> emits (f x) (G x)"
  shows "emits (op_bind m f) (\<lambda>y es. \<exists>x es1 es2. es = es1 @ es2 \<and> F x es1 \<and> G x y es2)"
  unfolding emits_def
proof (intro allI impI)
  fix w y w'
  assume "op_bind m f w = (Inr y, w')"
  then obtain x w1 where 1: "m w = (Inr x, w1)" and 2: "f x w1 = (Inr y, w')"
    by (auto elim: op_bind_cases)
  from assms(1) 1 obtain es1 where es1: "w_emitted w1 = w_emitted w @ es1" "F x es1" by (rule emitsD)
  from assms(2)[OF es1(2)] 2 obtain es2 where "w_emitted w' = w_emitted w1 @ es2" "G x y es2"
    by (rule emitsD)
  with es1 show "\<exists>es. w_emitted w' = w_emitted w @ es \<and>
      (\<exists>x es1 es2. es = es1 @ es2 \<and> F x es1 \<and> G x y es2)" by auto
qed

lemma emits_bind:
  "emits m F \<Longrightarrow> (\<And>x. emits (f x) (G x)) \<Longrightarrow>
     emits (op_bind m f) (\<lambda>y es. \<exists>x es1 es2. es = es1 @ es2 \<and> F x es1 \<and> G x y es2)"
  by (rule emits_bind_checked)

text \<open>What is told apart of an event: its type, and of a failed guard its identifier and severity.\<close>

type_synonym mark = "string \<times> (string \<times> severity) option"

definition event_mark :: "loop_event \<Rightarrow> mark" where
  "event_mark e = (event_type e,
     case e of GuardFailed b g \<Rightarrow> Some (gf_guardId g, gf_severity g) | _ \<Rightarrow> None)"

definition plain_mark :: "string \<Rightarrow> mark" where
  "plain_mark ty = (ty, None)"

definition guard_mark :: "severity \<Rightarrow> string \<Rightarrow> mark" where
  "guard_mark sev g = (''loop.guard.failed'', Some (g, sev))"

lemmas mark_defs = event_mark_def plain_mark_def guard_mark_def

lemma emits_each:
  assumes "\<And>x. emits (f x) (\<lambda>_ es. map event_mark es = [mk x])"
  shows "emits (op_each f xs) (\<lambda>_ es. map event_mark es = map mk xs)"
proof (induction xs)
  case Nil
  then show ?case by (simp add: emits_def)
next
  case (Cons x xs)
  show ?case
    unfolding op_each.simps
    by (rule emits_mono[OF emits_bind[OF assms Cons]]) auto
qed

definition bus_on :: "('s, 'p) engine \<Rightarrow> bool" where
  "bus_on eng \<longleftrightarrow> eng_eventBus eng \<noteq> None"

lemma emit_new_emits:
  assumes "bus_on eng" "\<And>b e. create b = Inr e \<Longrightarrow> event_mark e = m"
  shows "emits (emit_new eng l a c create) (\<lambda>_ es. map event_mark es = [m])"
  unfolding emits_def
proof (intro allI impI)
  fix w e w'
  assume "emit_new eng l a c create w = (Inr e, w')"
  with assms(1) have made: "create (build_base (eng_env eng) (w_tick w) l a c) = Inr e"
    and "w_emitted w' = w_emitted w @ [e]"
    by (auto simp: emit_new_def fresh_def engine_emit_def bus_on_def elim!: op_bind_cases
        split: sum.splits option.splits)
  with assms(2)[OF made] show "\<exists>es. w_emitted w' = w_emitted w @ es \<and> map event_mark es = [m]" by simp
qed

lemma emit_requested_emits:
  "bus_on eng \<Longrightarrow> emits (emit_requested eng i t p)
     (\<lambda>_ es. map event_mark es = [plain_mark ''loop.transition.requested''])"
  unfolding emit_requested_def emit_about_def
  by (rule emit_new_emits) (auto simp: create_event_defs mark_defs)

lemma emit_guard_failed_emits:
  "bus_on eng \<Longrightarrow> emits (emit_guard_failed eng i t p sev f)
     (\<lambda>_ es. map event_mark es = [guard_mark sev (ge_guardId f)])"
  unfolding emit_guard_failed_def emit_about_def
  by (rule emit_new_emits) (auto simp: create_event_defs mark_defs split: if_splits)

lemma guard_events:
  "bus_on eng \<Longrightarrow> emits (op_each (emit_guard_failed eng i t p sev) fs)
     (\<lambda>_ es. map event_mark es = map (guard_mark sev) (map ge_guardId fs))"
proof -
  assume bus: "bus_on eng"
  show ?thesis
    using emits_each[of "emit_guard_failed eng i t p sev" "\<lambda>f. guard_mark sev (ge_guardId f)" fs,
        OF emit_guard_failed_emits[OF bus]] by (simp add: comp_def)
qed

section \<open>The events of a transition\<close>

text \<open>
  The events, in order, of a call of \<open>transition\<close> that came to the guards, for the identifiers of
  the guards that failed softly and hard: the request, one event for each failed guard, the soft
  ones first, and then the blocked event when one failed hard; else the executed event, and the
  completed event when the target is final, or nothing more when governed evidence is missing.
\<close>

definition failure_count :: "transition_result \<Rightarrow> nat" where
  "failure_count res = (case res_guardFailures res of None \<Rightarrow> 0 | Some fs \<Rightarrow> length fs)"

definition trace_of ::
    "loop_definition \<Rightarrow> transition_spec \<Rightarrow> transition_result \<Rightarrow> string list \<Rightarrow> string list \<Rightarrow> mark list \<Rightarrow> bool" where
  "trace_of d t res soft hard marks \<longleftrightarrow>
     marks = [plain_mark ''loop.transition.requested''] @ map (guard_mark Soft) soft @
       (if hard \<noteq> [] then map (guard_mark Hard) hard @ [plain_mark ''loop.transition.blocked'']
        else if res_status res = Executed
        then [plain_mark ''loop.transition.executed''] @
          (if final_state d (tr_to t) then [plain_mark ''loop.completed''] else [])
        else []) \<and>
     (if hard \<noteq> [] then res_status res = GuardsFailed \<and> failure_count res = length hard
      else res_status res = Executed \<and> res_toState res = Some (tr_to t) \<and> failure_count res = length soft \<or>
        res_status res = Rejected \<and> governed d t)"

text \<open>The marks of an announcement, whose result tells of the soft failures.\<close>

definition announced :: "loop_definition \<Rightarrow> transition_spec \<Rightarrow> guard_summary \<Rightarrow> transition_result \<Rightarrow> mark list \<Rightarrow> bool" where
  "announced d t s res marks \<longleftrightarrow>
     res_status res = Executed \<and> res_toState res = Some (tr_to t) \<and>
     failure_count res = length (softFailures s) \<and>
     marks = [plain_mark ''loop.transition.executed''] @
       (if final_state d (tr_to t) then [plain_mark ''loop.completed''] else [])"

lemma announce_emits:
  assumes "bus_on eng" "inst_status u = Completed \<longleftrightarrow> final_state d (tr_to t)"
  shows "emits (announce eng d i t p s u rc now) (\<lambda>res es. announced d t s res (map event_mark es))"
proof -
  let ?ex = "emit_about eng u p (\<lambda>b. createLoopTransitionExecutedEvent b
       \<lparr>ex_transitionId = tr_id t, ex_fromState = inst_currentState i, ex_toState = tr_to t,
        ex_signal = tr_signal t, ex_actor = rec_actor rc, ex_evidence = rec_evidence rc,
        ex_softGuardWarnings = Some (notes_of (softFailures s))\<rparr>)"
  have ex: "emits ?ex (\<lambda>_ es. map event_mark es = [plain_mark ''loop.transition.executed''])"
    unfolding emit_about_def by (rule emit_new_emits[OF assms(1)]) (auto simp: create_event_defs mark_defs)
  have co: "emits (if inst_status u = Completed
        then op_bind (emit_about eng u p (\<lambda>b. createLoopCompletedEvent b
               \<lparr>lc_finalState = inst_currentState u, lc_actor = rec_actor rc,
                lc_durationMs = num_max0 (num_sub (parse_date (eng_host eng) now)
                  (parse_date (eng_host eng) (inst_startedAt u))),
                lc_outcomeValueUnit = map_option oc_valueUnit (def_outcome d)\<rparr>))
               (\<lambda>_. op_return ())
        else op_return ())
      (\<lambda>_ es. map event_mark es = (if final_state d (tr_to t) then [plain_mark ''loop.completed''] else []))"
  proof (cases "inst_status u = Completed")
    case True
    then show ?thesis
      using assms
      unfolding emit_about_def
      by simp (rule emits_mono[OF emits_bind[OF
            emit_new_emits[OF assms(1), where m = "plain_mark ''loop.completed''"]
            emits_return[where F = "\<lambda>_ es. es = []"]]],
            auto simp: create_event_defs mark_defs)
  next
    case False
    with assms show ?thesis by (simp add: emits_def)
  qed
  show ?thesis
    unfolding announce_def
    by (rule emits_mono[OF emits_bind[OF ex emits_bind[OF co emits_return[where
        F = "\<lambda>res es. es = [] \<and> res_status res = Executed \<and> res_toState res = Some (tr_to t) \<and>
              failure_count res = length (softFailures s)"]]]])
      (auto simp: failure_count_def failures_of_def announced_def)
qed

lemma block_emits:
  assumes "bus_on eng"
  shows "emits (block eng i t p s) (\<lambda>res es.
    res_status res = GuardsFailed \<and> failure_count res = length (hardFailures s) \<and>
    map event_mark es = map (guard_mark Hard) (map ge_guardId (hardFailures s)) @
      [plain_mark ''loop.transition.blocked''])"
  unfolding block_def emit_about_def
  by (rule emits_mono[OF emits_bind[OF guard_events[OF assms] emits_bind[OF
        emit_new_emits[OF assms, where m = "plain_mark ''loop.transition.blocked''"] emits_return[where
        F = "\<lambda>res es. es = [] \<and> res_status res = GuardsFailed \<and>
          failure_count res = length (hardFailures s)"]]]])
    (auto simp: create_event_defs mark_defs failure_count_def failures_of_def)

lemma commit_transition_emits:
  assumes "bus_on eng" "inst_status i \<noteq> Completed"
  shows "emits (commit_transition eng d i t p s ev) (\<lambda>res es. announced d t s res (map event_mark es))"
proof -
  have announce: "emits (announce eng d i t p s (updated_instance d i t now) rc now)
      (\<lambda>res es. announced d t s res (map event_mark es))" for now rc
    using assms by (intro announce_emits) (auto simp: updated_instance_def Let_def isTerminal_final)
  have save: "emits (save_instance eng u) (\<lambda>_ es. es = [])"
    "emits (save_record eng rc) (\<lambda>_ es. es = [])" for u rc
    by (auto simp: emits_def)
  have now: "emits (engine_now eng) (\<lambda>_ es. es = [])"
    by (rule emits_keeps[OF engine_now_keeps(3)]) simp
  show ?thesis
    unfolding commit_transition_def Let_def
    by (rule emits_mono[OF emits_bind[OF now emits_bind[OF save(1) emits_bind[OF save(2) announce]]]])
      auto
qed

text \<open>The checked guards give a summary whose verdict is that no hard guard failed.\<close>

lemma check_guards_verdict:
  "check_guards eng i t p w = (Inr s, w') \<Longrightarrow> allPassed s \<longleftrightarrow> hardFailures s = []"
  by (auto simp: check_guards_def evaluateGuards_def res_bind_def Let_def fresh_def
      elim!: op_bind_cases split: sum.splits)

lemma collect_evidence_emits:
  "emits (collect_evidence eng d i t p s) (\<lambda>c es. es = [] \<and> (\<forall>reason. c = Inl reason \<longrightarrow> governed d t))"
  by (auto simp: emits_def collect_evidence_def Let_def
      split: if_splits prod.splits sum.splits commit_result.splits)

text \<open>What follows the guards and the soft warnings.\<close>

lemma verdict_emits:
  assumes "bus_on eng" "inst_status i \<noteq> Completed" "allPassed s \<longleftrightarrow> hardFailures s = []"
  shows "emits
    (if \<not> allPassed s then block eng i t p s
     else op_bind (collect_evidence eng d i t p s) (\<lambda>c.
       case c of
         Inl reason \<Rightarrow> op_return (rejected i reason)
       | Inr evidence \<Rightarrow> commit_transition eng d i t p s evidence))
    (\<lambda>res es. trace_of d t res (map ge_guardId (softFailures s)) (map ge_guardId (hardFailures s))
      ([plain_mark ''loop.transition.requested''] @
        map (guard_mark Soft) (map ge_guardId (softFailures s)) @ map event_mark es))"
proof (cases "allPassed s")
  case False
  with assms(3) show ?thesis
    by simp (rule emits_mono[OF block_emits[OF assms(1)]], auto simp: trace_of_def)
next
  case True
  have rest: "emits (case c of Inl reason \<Rightarrow> op_return (rejected i reason)
       | Inr evidence \<Rightarrow> commit_transition eng d i t p s evidence)
     (\<lambda>res es. (case c of Inl reason \<Rightarrow> es = [] \<and> res = rejected i reason
        | Inr evidence \<Rightarrow> announced d t s res (map event_mark es)))" for c
    by (cases c) (auto intro: emits_return emits_mono[OF commit_transition_emits[OF assms(1,2)]])
  have "trace_of d t res (map ge_guardId (softFailures s)) (map ge_guardId (hardFailures s))
      ([plain_mark ''loop.transition.requested''] @
        map (guard_mark Soft) (map ge_guardId (softFailures s)) @ map event_mark (es1 @ es2))"
    if "es1 = []" "\<forall>reason. c = Inl reason \<longrightarrow> governed d t"
      "case c of Inl reason \<Rightarrow> es2 = [] \<and> res = rejected i reason
        | Inr evidence \<Rightarrow> announced d t s res (map event_mark es2)"
    for c :: "string + jobj" and res and es1 es2 :: "loop_event list"
    using that assms(3) True by (cases c) (auto simp: trace_of_def announced_def rejected_def)
  with True show ?thesis
    unfolding if_not_P[OF not_not[THEN iffD2, OF True]]
    by (intro emits_mono[OF emits_bind[OF collect_evidence_emits rest]]) blast
qed

text \<open>The events of a call of \<open>transition\<close> that returns, with a bus connected.\<close>

definition attempt_trace ::
    "('s, 'p) engine \<Rightarrow> loop_definition \<Rightarrow> loop_instance \<Rightarrow> transition_spec \<Rightarrow> transition_params \<Rightarrow>
     transition_result \<Rightarrow> mark list \<Rightarrow> bool" where
  "attempt_trace eng d i t p res marks \<longleftrightarrow>
     (\<exists>n. let failed = (\<lambda>sev. map guard_id (filter (failing (eng_host eng) (date_now (eng_env eng) n)
             (engine_guards eng) (guard_context_of i t p) sev) (guards_of t)))
          in trace_of d t res (failed Soft) (failed Hard) marks)"

lemma guards_checked_trace:
  assumes "guards_checked eng i t p s"
    and "trace_of d t res (map ge_guardId (softFailures s)) (map ge_guardId (hardFailures s)) marks"
  shows "attempt_trace eng d i t p res marks"
proof -
  from assms(1) obtain n where n: "evaluateGuards (eng_host eng) (date_now (eng_env eng) n) (guards_of t)
      (guard_context_of i t p) (engine_guards eng) = Inr s" by (auto simp: guards_checked_def)
  from assms(2) show ?thesis
    unfolding attempt_trace_def Let_def evaluateGuards_hard[OF n] evaluateGuards_soft[OF n]
    by (intro exI[of _ n]) (simp add: comp_def guard_evaluation_of_def)
qed

lemma attempt_emits:
  assumes "bus_on eng" "inst_status i \<noteq> Completed"
  shows "emits (attempt eng d i t p) (\<lambda>res es. attempt_trace eng d i t p res (map event_mark es))"
proof -
  let ?checked = "\<lambda>s es. es = [] \<and> guards_checked eng i t p s \<and> (allPassed s \<longleftrightarrow> hardFailures s = [])"
  have checked: "emits (check_guards eng i t p) ?checked"
    unfolding emits_def
    by (metis append_Nil2 check_guards_Inr check_guards_keeps(3) check_guards_verdict op_keepsD)
  let ?rest = "\<lambda>s. if \<not> allPassed s then block eng i t p s
     else op_bind (collect_evidence eng d i t p s) (\<lambda>c.
       case c of
         Inl reason \<Rightarrow> op_return (rejected i reason)
       | Inr evidence \<Rightarrow> commit_transition eng d i t p s evidence)"
  have rest: "emits (op_bind (op_each (emit_guard_failed eng i t p Soft) (softFailures s)) (\<lambda>_. ?rest s))
      (\<lambda>res es. attempt_trace eng d i t p res ([plain_mark ''loop.transition.requested''] @ map event_mark es))"
    if "?checked s es" for s and es :: "loop_event list"
  proof (rule emits_mono[OF emits_bind[OF guard_events[OF assms(1)] verdict_emits[OF assms]]])
    show "allPassed s \<longleftrightarrow> hardFailures s = []" using that by simp
  qed (use that in \<open>auto intro: guards_checked_trace\<close>)
  show ?thesis
    unfolding attempt_def
    by (rule emits_mono[OF emits_bind[OF emit_requested_emits[OF assms(1)] emits_bind_checked[OF checked rest]]])
      auto
qed

lemma transition_trace:
  assumes "bus_on eng" "transition eng p w = (Inr res, w')"
  obtains inst d es where "getInstance (eng_store eng) (w_store w) (tp_aggregateId p) = Some inst"
    "eng_registry eng (inst_loopId inst) = Some d" "w_emitted w' = w_emitted w @ es"
    "case precheck d inst p of Inl res' \<Rightarrow> es = [] \<and> res' = res
     | Inr t \<Rightarrow> attempt_trace eng d inst t p res (map event_mark es)"
proof -
  from assms(2) obtain inst d where i: "getInstance (eng_store eng) (w_store w) (tp_aggregateId p) = Some inst"
    and d: "eng_registry eng (inst_loopId inst) = Some d"
    and run: "(case precheck d inst p of Inl res \<Rightarrow> op_return res w | Inr t \<Rightarrow> attempt eng d inst t p w)
      = (Inr res, w')"
    by (auto simp: transition_def split: option.splits)
  show thesis
  proof (cases "precheck d inst p")
    case (Inl res')
    with run show thesis by (intro that[OF i d, of "[]"]) auto
  next
    case (Inr t)
    then have "inst_status inst \<noteq> Completed" by (auto simp: precheck_def split: if_splits)
    from emitsD[OF attempt_emits[OF assms(1) this, of d t p], of w res w'] Inr run
    obtain es where "w_emitted w' = w_emitted w @ es" "attempt_trace eng d inst t p res (map event_mark es)"
      by auto
    with Inr show thesis by (intro that[OF i d, of es]) simp_all
  qed
qed

end
