(* ===== verification/Lifecycle.thy ===== *)
theory Lifecycle
  imports Engine
begin

text \<open>
  Sequences of engine calls. The abstract lifecycle is a step relation on what a store shows
  (the instance and the history of every aggregate); inside the store contract each call of
  \<open>LoopEngine\<close>, also one that throws half-way, is one step of it. The invariants of instances
  and histories are proved on the relation, by rule induction, and hold of every store that
  meets the contract.
\<close>

section \<open>Calls\<close>

datatype call =
    CallStart start_params
  | CallTransition transition_params
  | CallCancel string actor_ref "string option"
  | CallFail string string string string "string option"

fun engine_call :: "('s, 'p) engine \<Rightarrow> call \<Rightarrow> ('s, 'p) world \<Rightarrow> ('s, 'p) world" where
  "engine_call eng (CallStart p) w = snd (start eng p w)"
| "engine_call eng (CallTransition p) w = snd (transition eng p w)"
| "engine_call eng (CallCancel a actor reason) w = snd (cancelLoop eng a actor reason w)"
| "engine_call eng (CallFail a from code msg stack) w = snd (failLoop eng a from code msg stack w)"

definition run_calls :: "('s, 'p) engine \<Rightarrow> call list \<Rightarrow> ('s, 'p) world \<Rightarrow> ('s, 'p) world" where
  "run_calls eng cs w = fold (engine_call eng) cs w"

fun call_aggregate :: "call \<Rightarrow> string" where
  "call_aggregate (CallStart p) = sp_aggregateId p"
| "call_aggregate (CallTransition p) = tp_aggregateId p"
| "call_aggregate (CallCancel a _ _) = a"
| "call_aggregate (CallFail a _ _ _ _) = a"

section \<open>The abstract lifecycle\<close>

record view =
  vw_inst :: "string \<Rightarrow> loop_instance option"
  vw_hist :: "string \<Rightarrow> transition_record list"

definition view_empty :: view where
  "view_empty = \<lparr>vw_inst = (\<lambda>_. None), vw_hist = (\<lambda>_. [])\<rparr>"

definition view_save :: "loop_instance \<Rightarrow> view \<Rightarrow> view" where
  "view_save i v = v\<lparr>vw_inst := (vw_inst v)(inst_aggregateId i \<mapsto> i)\<rparr>"

definition view_record :: "transition_record \<Rightarrow> view \<Rightarrow> view" where
  "view_record r v = v\<lparr>vw_hist := (vw_hist v)(rec_aggregateId r := vw_hist v (rec_aggregateId r) @ [r])\<rparr>"

type_synonym definitions = "string \<Rightarrow> loop_definition option"

text \<open>
  The steps are stated on the fields of instances and records, without the functions of the engine.
  How a call ends: it is done, it returns without having been done, or it throws.
\<close>

datatype outcome = Done | Refused | Threw

text \<open>The instance a start makes.\<close>

definition instance_started :: "loop_definition \<Rightarrow> start_params \<Rightarrow> loop_instance \<Rightarrow> bool" where
  "instance_started d p i \<longleftrightarrow>
     inst_loopId i = def_id d \<and> inst_aggregateId i = sp_aggregateId p \<and>
     inst_currentState i = def_initialState d \<and> inst_status i = Active \<and>
     inst_updatedAt i = inst_startedAt i \<and> inst_completedAt i = None \<and> inst_metadata i = sp_metadata p \<and>
     (\<forall>c. inst_correlationId i = Some c \<longleftrightarrow> sp_correlationId p = Some c \<and> c \<noteq> [])"

text \<open>
  The transition a call asks for may be taken: the loop is open, and of the transitions of its
  definition from the current state the first with the identifier allows the actor; an AI actor
  needs no approval for it.
\<close>

definition permits :: "loop_definition \<Rightarrow> loop_instance \<Rightarrow> transition_params \<Rightarrow> transition_spec \<Rightarrow> bool" where
  "permits d i p t \<longleftrightarrow>
     inst_status i \<noteq> Completed \<and> \<not> final_state d (inst_currentState i) \<and>
     (\<exists>earlier later. def_transitions d = earlier @ t # later \<and>
        (\<forall>c \<in> set earlier. tr_id c = tp_transitionId p \<longrightarrow> tr_from c \<noteq> inst_currentState i)) \<and>
     tr_id t = tp_transitionId p \<and> tr_from t = inst_currentState i \<and>
     actor_type (tp_actor p) \<in> set (tr_actors t) \<and>
     (actor_type (tp_actor p) = AiAgent \<longrightarrow>
        (\<forall>c ids. tp_constraints p = Some c \<longrightarrow> requiresHumanApprovalFor c = Some ids \<longrightarrow>
           tp_transitionId p \<notin> set ids))"

text \<open>The instance after a transition: in its target, completed exactly when that is final.\<close>

definition instance_moved ::
    "loop_definition \<Rightarrow> transition_spec \<Rightarrow> string \<Rightarrow> loop_instance \<Rightarrow> loop_instance \<Rightarrow> bool" where
  "instance_moved d t now i i' \<longleftrightarrow>
     inst_currentState i' = tr_to t \<and> inst_updatedAt i' = now \<and>
     (if final_state d (tr_to t)
      then inst_status i' = Completed \<and> inst_completedAt i' = Some now
      else inst_status i' = inst_status i \<and> inst_completedAt i' = inst_completedAt i) \<and>
     inst_loopId i' = inst_loopId i \<and> inst_aggregateId i' = inst_aggregateId i \<and>
     inst_startedAt i' = inst_startedAt i \<and> inst_correlationId i' = inst_correlationId i \<and>
     inst_metadata i' = inst_metadata i"

definition move_recorded ::
    "transition_params \<Rightarrow> transition_spec \<Rightarrow> string \<Rightarrow> loop_instance \<Rightarrow> transition_record \<Rightarrow> bool" where
  "move_recorded p t now i r \<longleftrightarrow>
     rec_aggregateId r = inst_aggregateId i \<and> rec_loopId r = inst_loopId i \<and>
     rec_transitionId r = tp_transitionId p \<and> rec_signal r = tr_signal t \<and>
     rec_fromState r = inst_currentState i \<and> rec_toState r = tr_to t \<and>
     rec_actor r = tp_actor p \<and> rec_occurredAt r = now \<and> rec_evidence r \<noteq> None"

text \<open>The instance after a cancellation or a failure: with that status, else as before.\<close>

definition instance_closed :: "loop_status \<Rightarrow> loop_instance \<Rightarrow> loop_instance \<Rightarrow> bool" where
  "instance_closed st i i' \<longleftrightarrow>
     inst_status i' = st \<and> inst_completedAt i' = Some (inst_updatedAt i') \<and>
     inst_currentState i' = inst_currentState i \<and> inst_loopId i' = inst_loopId i \<and>
     inst_aggregateId i' = inst_aggregateId i \<and> inst_startedAt i' = inst_startedAt i \<and>
     inst_correlationId i' = inst_correlationId i \<and> inst_metadata i' = inst_metadata i"

text \<open>
  Nothing happens only when the loop is not registered or active (start), the aggregate has no
  instance (cancel, fail) or the transition is not done: then it was not permitted, or the guards,
  the evidence or a throw stood against it. A call that throws may have been done before.
\<close>

inductive lifecycle :: "definitions \<Rightarrow> call \<Rightarrow> outcome \<Rightarrow> view \<Rightarrow> view \<Rightarrow> bool" for reg where
  started: "reg (sp_loopId p) = Some d \<Longrightarrow>
     (\<And>i. vw_inst v (sp_aggregateId p) = Some i \<Longrightarrow> inst_status i \<noteq> Active) \<Longrightarrow>
     instance_started d p i' \<Longrightarrow> oc \<noteq> Refused \<Longrightarrow>
     lifecycle reg (CallStart p) oc v (view_save i' v)"
| not_started: "reg (sp_loopId p) = None \<or>
       (\<exists>i. vw_inst v (sp_aggregateId p) = Some i \<and> inst_status i = Active) \<Longrightarrow>
     lifecycle reg (CallStart p) Threw v v"
| moved: "vw_inst v (tp_aggregateId p) = Some i \<Longrightarrow> reg (inst_loopId i) = Some d \<Longrightarrow> permits d i p t \<Longrightarrow>
     instance_moved d t now i i' \<Longrightarrow> move_recorded p t now i r \<Longrightarrow> oc \<noteq> Refused \<Longrightarrow>
     lifecycle reg (CallTransition p) oc v (view_record r (view_save i' v))"
| not_taken: "vw_inst v (tp_aggregateId p) = Some i \<Longrightarrow> reg (inst_loopId i) = Some d \<Longrightarrow> permits d i p t \<Longrightarrow>
     oc \<noteq> Done \<Longrightarrow> lifecycle reg (CallTransition p) oc v v"
| not_permitted: "vw_inst v (tp_aggregateId p) = Some i \<Longrightarrow> reg (inst_loopId i) = Some d \<Longrightarrow>
     (\<And>t. \<not> permits d i p t) \<Longrightarrow> lifecycle reg (CallTransition p) Refused v v"
| unknown: "(\<And>i. vw_inst v (tp_aggregateId p) = Some i \<Longrightarrow> reg (inst_loopId i) = None) \<Longrightarrow>
     lifecycle reg (CallTransition p) Threw v v"
| cancelled: "vw_inst v a = Some i \<Longrightarrow> instance_closed Cancelled i i' \<Longrightarrow> oc \<noteq> Refused \<Longrightarrow>
     lifecycle reg (CallCancel a actor reason) oc v (view_save i' v)"
| not_cancelled: "vw_inst v a = None \<Longrightarrow> lifecycle reg (CallCancel a actor reason) Threw v v"
| failed: "vw_inst v a = Some i \<Longrightarrow> instance_closed Failed i i' \<Longrightarrow> oc \<noteq> Refused \<Longrightarrow>
     lifecycle reg (CallFail a src code msg stack) oc v (view_save i' v)"
| not_failed: "vw_inst v a = None \<Longrightarrow> lifecycle reg (CallFail a src code msg stack) Threw v v"

text \<open>A run of the lifecycle over a list of calls and how they ended.\<close>

inductive lifecycle_run :: "definitions \<Rightarrow> (call \<times> outcome) list \<Rightarrow> view \<Rightarrow> view \<Rightarrow> bool" for reg where
  run_nil: "lifecycle_run reg [] v v"
| run_snoc: "lifecycle_run reg cs v v1 \<Longrightarrow> lifecycle reg c oc v1 v2 \<Longrightarrow>
     lifecycle_run reg (cs @ [(c, oc)]) v v2"

text \<open>How the calls of the engine end, as the caller sees it.\<close>

definition returned :: "'e + 'a \<Rightarrow> outcome" where
  "returned r = (case r of Inl _ \<Rightarrow> Threw | Inr _ \<Rightarrow> Done)"

fun call_outcome :: "('s, 'p) engine \<Rightarrow> call \<Rightarrow> ('s, 'p) world \<Rightarrow> outcome" where
  "call_outcome eng (CallStart p) w = returned (fst (start eng p w))"
| "call_outcome eng (CallTransition p) w =
     (case fst (transition eng p w) of
        Inl _ \<Rightarrow> Threw
      | Inr res \<Rightarrow> if res_status res = Executed then Done else Refused)"
| "call_outcome eng (CallCancel a actor reason) w = returned (fst (cancelLoop eng a actor reason w))"
| "call_outcome eng (CallFail a src code msg stack) w = returned (fst (failLoop eng a src code msg stack w))"

fun with_outcomes :: "('s, 'p) engine \<Rightarrow> call list \<Rightarrow> ('s, 'p) world \<Rightarrow> (call \<times> outcome) list" where
  "with_outcomes eng [] w = []"
| "with_outcomes eng (c # cs) w = (c, call_outcome eng c w) # with_outcomes eng cs (engine_call eng c w)"

lemma with_outcomes_append:
  "with_outcomes eng (cs @ cs') w = with_outcomes eng cs w @ with_outcomes eng cs' (run_calls eng cs w)"
  by (induction cs arbitrary: w) (simp_all add: run_calls_def)

lemma with_outcomes_calls [simp]: "map fst (with_outcomes eng cs w) = cs"
  by (induction cs arbitrary: w) simp_all

section \<open>The engine refines the lifecycle\<close>

definition view_of :: "'s store_ops \<Rightarrow> 's \<Rightarrow> view" where
  "view_of ops s = \<lparr>vw_inst = getInstance ops s, vw_hist = getTransitionHistory ops s\<rparr>"

lemma view_of_sel [simp]:
  "vw_inst (view_of ops s) = getInstance ops s"
  "vw_hist (view_of ops s) = getTransitionHistory ops s"
  by (simp_all add: view_of_def)

lemma view_save_sel [simp]:
  "vw_inst (view_save i v) a = (if a = inst_aggregateId i then Some i else vw_inst v a)"
  "vw_hist (view_save i v) = vw_hist v"
  by (simp_all add: view_save_def)

lemma view_record_sel [simp]:
  "vw_inst (view_record r v) = vw_inst v"
  "vw_hist (view_record r v) a =
     (if a = rec_aggregateId r then vw_hist v a @ [r] else vw_hist v a)"
  by (simp_all add: view_record_def)

lemma initial_instance_sel [simp]:
  "inst_aggregateId (initial_instance d p now) = sp_aggregateId p"
  "inst_loopId (initial_instance d p now) = def_id d"
  "inst_currentState (initial_instance d p now) = def_initialState d"
  "inst_status (initial_instance d p now) = Active"
  "inst_completedAt (initial_instance d p now) = None"
  by (simp_all add: initial_instance_def)

lemma updated_instance_sel [simp]:
  "inst_aggregateId (updated_instance d inst t now) = inst_aggregateId inst"
  "inst_loopId (updated_instance d inst t now) = inst_loopId inst"
  "inst_currentState (updated_instance d inst t now) = tr_to t"
  "inst_status (updated_instance d inst t now) =
     (if isTerminal d (tr_to t) then Completed else inst_status inst)"
  "inst_completedAt (updated_instance d inst t now) =
     (if isTerminal d (tr_to t) then Some now else inst_completedAt inst)"
  by (simp_all add: updated_instance_def Let_def)

lemma closed_instance_sel [simp]:
  "inst_aggregateId (closed_instance inst st now) = inst_aggregateId inst"
  "inst_loopId (closed_instance inst st now) = inst_loopId inst"
  "inst_currentState (closed_instance inst st now) = inst_currentState inst"
  "inst_status (closed_instance inst st now) = st"
  "inst_completedAt (closed_instance inst st now) = Some now"
  by (simp_all add: closed_instance_def)

lemma record_of_sel [simp]:
  "rec_aggregateId (record_of inst t p now ev) = inst_aggregateId inst"
  "rec_fromState (record_of inst t p now ev) = inst_currentState inst"
  "rec_toState (record_of inst t p now ev) = tr_to t"
  "rec_actor (record_of inst t p now ev) = tp_actor p"
  "rec_evidence (record_of inst t p now ev) = Some ev"
  by (simp_all add: record_of_def)

text \<open>The functions of the engine against the fields of the lifecycle.\<close>

lemma initial_instance_started: "instance_started d p (initial_instance d p now)"
  by (auto simp: instance_started_def initial_instance_def)

lemma updated_instance_moved: "instance_moved d t now i (updated_instance d i t now)"
  by (auto simp: instance_moved_def updated_instance_def Let_def isTerminal_final)

lemma closed_instance_closed: "instance_closed st i (closed_instance i st now)"
  by (simp add: instance_closed_def closed_instance_def)

text \<open>The facts \<open>transition\<close> has checked when it goes on to the guards.\<close>

lemma precheck_Inr:
  "precheck d inst p = Inr t \<longleftrightarrow>
     inst_status inst \<noteq> Completed \<and> \<not> isTerminal d (inst_currentState inst) \<and>
     List.find (\<lambda>c. tr_id c = tp_transitionId p \<and> tr_from c = inst_currentState inst)
       (def_transitions d) = Some t \<and>
     actor_type (tp_actor p) \<in> set (tr_actors t) \<and>
     \<not> (actor_type (tp_actor p) = AiAgent \<and> tr_id t \<in> approval_list (tp_constraints p))"
  by (auto simp: precheck_def Let_def authorization_iffs split: option.splits)

lemma precheck_InrD:
  assumes "precheck d inst p = Inr t"
  shows "t \<in> set (def_transitions d)" "tr_id t = tp_transitionId p" "tr_from t = inst_currentState inst"
    "actor_type (tp_actor p) \<in> set (tr_actors t)"
    "inst_status inst \<noteq> Completed" "\<not> isTerminal d (inst_currentState inst)"
  using assms find_Some_iff'[of _ "def_transitions d" t] by (auto simp: precheck_Inr)

lemma find_first:
  "List.find P xs = Some x \<longleftrightarrow> (\<exists>ys zs. xs = ys @ x # zs \<and> P x \<and> (\<forall>y \<in> set ys. \<not> P y))"
proof (induction xs)
  case (Cons a xs)
  show ?case
  proof (cases "P a")
    case True
    then show ?thesis by (auto simp: Cons_eq_append_conv intro: exI[of _ "[]"])
  next
    case False
    with Cons show ?thesis
      by (auto simp: Cons_eq_append_conv) (metis append_Cons set_ConsD)+
  qed
qed simp

lemma precheck_permits: "precheck d i p = Inr t \<longleftrightarrow> permits d i p t"
  unfolding precheck_Inr permits_def find_first isTerminal_final approval_list_def
  by (auto split: option.splits)

lemma record_of_recorded: "precheck d i p = Inr t \<Longrightarrow> move_recorded p t now i (record_of i t p now ev)"
  by (auto simp: move_recorded_def record_of_def dest: precheck_InrD(2))

text \<open>The warning about a soft guard that failed, and the evidence that is recorded.\<close>

definition guard_warning :: "host \<Rightarrow> int \<Rightarrow> guard_registry \<Rightarrow> guard_context \<Rightarrow> guard_spec \<Rightarrow> js" where
  "guard_warning h now reg ctx g =
     JObj [(''guardId'', JStr (guard_id g)),
       (''message'', JStr (case guard_outcome h now reg ctx g of
          Some r \<Rightarrow> (case gr_message r of Some m \<Rightarrow> m | None \<Rightarrow> []) | None \<Rightarrow> []))]"

lemma collected_evidence_get:
  assumes "evidence_collected eng d inst t p s sn ev sn'"
    and n: "evaluateGuards (eng_host eng) now (guards_of t) (guard_context_of inst t p) (engine_guards eng) = Inr s"
    and soft: "soft = filter (failing (eng_host eng) now (engine_guards eng) (guard_context_of inst t p) Soft) (guards_of t)"
    and "\<not> (governed d t \<and> k \<in> {''snapshotIds'', ''versions''})"
  shows "obj_get ev k =
    (if k = ''_softGuardWarnings'' \<and> soft \<noteq> []
     then JArr (map (guard_warning (eng_host eng) now (engine_guards eng) (guard_context_of inst t p)) soft)
     else opt_get (tp_evidence p) k)"
proof -
  have "JObj [(''guardId'', JStr (ge_guardId f)), (''message'', JStr (ge_message f))] =
      guard_warning (eng_host eng) now (engine_guards eng) (guard_context_of inst t p) g"
    if "g \<in> set soft" "f = guard_evaluation_of g (the (guard_outcome (eng_host eng) now (engine_guards eng)
      (guard_context_of inst t p) g))" for f g
    using that evaluateGuards_outcomes[OF n] soft
    by (fastforce simp: guard_warning_def guard_evaluation_of_def)
  then have "obj_get (soft_evidence (evidence_of p) (softFailures s)) k =
    (if k = ''_softGuardWarnings'' \<and> soft \<noteq> []
     then JArr (map (guard_warning (eng_host eng) now (engine_guards eng) (guard_context_of inst t p)) soft)
     else opt_get (tp_evidence p) k)"
    unfolding soft_evidence_def evaluateGuards_soft[OF n] soft[symmetric]
    by (auto simp: obj_simps evidence_of_def opt_get_def obj_get_def comp_def split: option.splits)
  with assms(1,4) show ?thesis
    by (auto simp: evidence_collected_def Let_def obj_simps split: if_splits)
qed

context loop_store
begin

lemma view_of_empty: "view_of ops emp = view_empty"
  by (simp add: view_of_def view_empty_def get_empty history_empty fun_eq_iff)

lemma view_of_save: "view_of ops (saveInstance ops i s) = view_save i (view_of ops s)"
  by (simp add: view_of_def view_save_def store_simps fun_eq_iff)

lemma view_of_record: "view_of ops (saveTransitionRecord ops r s) = view_record r (view_of ops s)"
  by (simp add: view_of_def view_record_def store_simps fun_eq_iff)

lemma start_step:
  assumes "eng_store eng = ops"
  shows "lifecycle (eng_registry eng) (CallStart p) (returned (fst (start eng p w)))
      (view_of ops (w_store w)) (view_of ops (w_store (snd (start eng p w))))
    \<and> (wf (w_store w) \<longrightarrow> wf (w_store (snd (start eng p w))))"
proof (cases "\<exists>d. eng_registry eng (sp_loopId p) = Some d \<and>
    (\<forall>i. getInstance ops (w_store w) (sp_aggregateId p) = Some i \<longrightarrow> inst_status i \<noteq> Active)")
  case True
  then obtain d where d: "eng_registry eng (sp_loopId p) = Some d"
    "\<forall>i. getInstance ops (w_store w) (sp_aggregateId p) = Some i \<longrightarrow> inst_status i \<noteq> Active" by blast
  then obtain now where "w_store (snd (start eng p w)) = saveInstance ops (initial_instance d p now) (w_store w)"
    using start_saves[OF d(1), of w] assms by auto
  with d show ?thesis
    by (auto simp: view_of_save wf_save returned_def intro!: started initial_instance_started split: sum.split)
next
  case False
  with assms have "\<exists>e. start eng p w = (Inl e, w)"
    by (auto simp: start_def split: option.splits)
  with False show ?thesis by (auto simp: returned_def intro!: not_started)
qed

lemma transition_step:
  assumes "eng_store eng = ops"
  shows "lifecycle (eng_registry eng) (CallTransition p) (call_outcome eng (CallTransition p) w)
      (view_of ops (w_store w)) (view_of ops (w_store (snd (transition eng p w))))
    \<and> (wf (w_store w) \<longrightarrow> wf (w_store (snd (transition eng p w))))"
proof (cases "\<exists>i d. getInstance ops (w_store w) (tp_aggregateId p) = Some i \<and> eng_registry eng (inst_loopId i) = Some d")
  case False
  with assms have "\<exists>e. transition eng p w = (Inl e, w)"
    by (auto simp: transition_def split: option.splits)
  with False show ?thesis by (auto intro!: unknown)
next
  case True
  then obtain i d where i: "getInstance ops (w_store w) (tp_aggregateId p) = Some i"
    and d: "eng_registry eng (inst_loopId i) = Some d" by blast
  obtain r w' where run: "transition eng p w = (r, w')" by fastforce
  show ?thesis
  proof (cases "precheck d i p")
    case (Inl res)
    with i d assms have "transition eng p w = (Inr res, w)" by (simp add: transition_def)
    moreover have "res_status res \<noteq> Executed" using Inl
      by (auto simp: precheck_def rejected_def Let_def split: if_splits option.splits)
    moreover have "\<not> permits d i p t" for t using Inl by (simp flip: precheck_permits)
    ultimately show ?thesis using i d by (auto intro!: not_permitted)
  next
    case (Inr t)
    from run show ?thesis
    proof (cases rule: transition_effect)
      case unchanged
      then have "call_outcome eng (CallTransition p) w \<noteq> Done" using run by (auto split: sum.split)
      with i d Inr unchanged run show ?thesis by (auto simp: precheck_permits intro!: not_taken)
    next
      case (committed d' i' t' s now evidence)
      with i d Inr assms have same: "d' = d" "i' = i" "t' = t" by (auto simp: transition_commits_def)
      have "call_outcome eng (CallTransition p) w \<noteq> Refused"
        using run committed(2) by (auto split: sum.split)
      moreover have "w_store w' = saveTransitionRecord ops (record_of i t p now evidence)
          (saveInstance ops (updated_instance d i t now) (w_store w))"
        using committed(1) assms by (simp add: transition_commits_def same)
      ultimately show ?thesis
        using i d Inr run moved[OF _ _ _ updated_instance_moved record_of_recorded[OF Inr]]
        by (simp add: view_of_save view_of_record wf_save wf_record precheck_permits del: call_outcome.simps)
    qed
  qed
qed

lemma close_step:
  assumes "eng_store eng = ops"
  shows "lifecycle (eng_registry eng) (CallCancel a actor reason) (returned (fst (cancelLoop eng a actor reason w)))
      (view_of ops (w_store w)) (view_of ops (w_store (snd (cancelLoop eng a actor reason w))))
      \<and> (wf (w_store w) \<longrightarrow> wf (w_store (snd (cancelLoop eng a actor reason w))))"
    and "lifecycle (eng_registry eng) (CallFail a src code msg stack) (returned (fst (failLoop eng a src code msg stack w)))
      (view_of ops (w_store w)) (view_of ops (w_store (snd (failLoop eng a src code msg stack w))))
      \<and> (wf (w_store w) \<longrightarrow> wf (w_store (snd (failLoop eng a src code msg stack w))))"
proof -
  obtain r w' where run: "cancelLoop eng a actor reason w = (r, w')" by fastforce
  from cancel_effect[OF run] run show "lifecycle (eng_registry eng) (CallCancel a actor reason)
      (returned (fst (cancelLoop eng a actor reason w)))
      (view_of ops (w_store w)) (view_of ops (w_store (snd (cancelLoop eng a actor reason w))))
      \<and> (wf (w_store w) \<longrightarrow> wf (w_store (snd (cancelLoop eng a actor reason w))))"
    unfolding assms
    by (auto simp: view_of_save wf_save returned_def intro!: cancelled closed_instance_closed not_cancelled
        split: sum.split)
next
  obtain r w' where run: "failLoop eng a src code msg stack w = (r, w')" by fastforce
  from fail_effect[OF run] run show "lifecycle (eng_registry eng) (CallFail a src code msg stack)
      (returned (fst (failLoop eng a src code msg stack w)))
      (view_of ops (w_store w)) (view_of ops (w_store (snd (failLoop eng a src code msg stack w))))
      \<and> (wf (w_store w) \<longrightarrow> wf (w_store (snd (failLoop eng a src code msg stack w))))"
    unfolding assms
    by (auto simp: view_of_save wf_save returned_def intro!: failed closed_instance_closed not_failed
        split: sum.split)
qed

lemma call_step:
  assumes "eng_store eng = ops"
  shows "lifecycle (eng_registry eng) c (call_outcome eng c w) (view_of ops (w_store w))
      (view_of ops (w_store (engine_call eng c w)))"
    and "wf (w_store w) \<Longrightarrow> wf (w_store (engine_call eng c w))"
  using start_step[OF assms, of _ w] transition_step[OF assms, of _ w] close_step[OF assms, where w = w]
  by (cases c; simp)+

lemma run_calls_step:
  assumes "eng_store eng = ops"
  shows "lifecycle_run (eng_registry eng) (with_outcomes eng cs w) (view_of ops (w_store w))
      (view_of ops (w_store (run_calls eng cs w)))
    \<and> (wf (w_store w) \<longrightarrow> wf (w_store (run_calls eng cs w)))"
proof (induction cs rule: rev_induct)
  case Nil
  show ?case by (simp add: run_calls_def run_nil)
next
  case (snoc c cs)
  then show ?case
    using call_step[OF assms, where c = c and w = "run_calls eng cs w"]
    by (auto simp: with_outcomes_append run_calls_def intro: run_snoc)
qed

end

section \<open>Invariants of the lifecycle\<close>

text \<open>What the engine needs of a registry: each definition is filed under its own identifier,
  and names only states it declares.\<close>

definition registry_wf :: "definitions \<Rightarrow> bool" where
  "registry_wf reg \<longleftrightarrow> (\<forall>l d. reg l = Some d \<longrightarrow> def_id d = l \<and> definition_wf d)"

text \<open>
  A stored instance is in a declared state of a registered definition; it is completed only in
  a terminal state, an active one is in a terminal state only when the loop starts there; the
  completion time is set exactly when the instance is no longer active.
\<close>

definition instance_ok :: "definitions \<Rightarrow> loop_instance \<Rightarrow> bool" where
  "instance_ok reg i \<longleftrightarrow>
     (case reg (inst_loopId i) of
        None \<Rightarrow> False
      | Some d \<Rightarrow> declared d (inst_currentState i) \<and>
          (inst_status i = Completed \<longrightarrow> isTerminal d (inst_currentState i)) \<and>
          (inst_status i = Active \<and> isTerminal d (inst_currentState i) \<longrightarrow>
             inst_currentState i = def_initialState d)) \<and>
     inst_status i \<in> {Active, Completed, Cancelled, Failed} \<and>
     (inst_completedAt i = None \<longleftrightarrow> inst_status i = Active)"

text \<open>A record follows a declared transition that its actor is allowed to take.\<close>

definition record_ok :: "loop_definition \<Rightarrow> transition_record \<Rightarrow> bool" where
  "record_ok d r \<longleftrightarrow>
     list_ex (\<lambda>t. tr_id t = rec_transitionId r \<and> tr_from t = rec_fromState r \<and>
       tr_to t = rec_toState r \<and> tr_signal t = rec_signal r \<and>
       actor_type (rec_actor r) \<in> set (tr_actors t)) (def_transitions d)"

text \<open>A list of records that leads from one state to another.\<close>

fun path :: "loop_definition \<Rightarrow> string \<Rightarrow> transition_record list \<Rightarrow> string \<Rightarrow> bool" where
  "path d s [] s' = (s' = s)"
| "path d s (r # rs) s' = (rec_fromState r = s \<and> record_ok d r \<and> path d (rec_toState r) rs s')"

lemma path_snoc:
  "path d s (rs @ [r]) s' \<longleftrightarrow> path d s rs (rec_fromState r) \<and> record_ok d r \<and> s' = rec_toState r"
  by (induction rs arbitrary: s) auto

lemma path_declared:
  "path d s rs s' \<Longrightarrow> declared d s \<Longrightarrow> definition_wf d \<Longrightarrow> declared d s'"
  by (induction rs arbitrary: s) (auto simp: record_ok_def definition_wf_def list_ex_iff)

definition view_ok :: "definitions \<Rightarrow> view \<Rightarrow> bool" where
  "view_ok reg v \<longleftrightarrow>
     (\<forall>a i. vw_inst v a = Some i \<longrightarrow> inst_aggregateId i = a \<and> instance_ok reg i \<and>
        (\<exists>d k. reg (inst_loopId i) = Some d \<and>
           path d (def_initialState d) (drop k (vw_hist v a)) (inst_currentState i))) \<and>
     (\<forall>a. vw_inst v a = None \<longrightarrow> vw_hist v a = []) \<and>
     (\<forall>a r. r \<in> set (vw_hist v a) \<longrightarrow> rec_aggregateId r = a)"

lemma permitsD:
  assumes "permits d i p t"
  shows "t \<in> set (def_transitions d)" "tr_id t = tp_transitionId p" "tr_from t = inst_currentState i"
    "actor_type (tp_actor p) \<in> set (tr_actors t)" "inst_status i \<noteq> Completed"
    "\<not> isTerminal d (inst_currentState i)"
  using assms by (auto simp: permits_def isTerminal_final)

lemma permits_recorded: "permits d i p t \<Longrightarrow> move_recorded p t now i r \<Longrightarrow> record_ok d r"
  by (auto simp: record_ok_def move_recorded_def list_ex_iff dest: permitsD(1-4))

lemma view_ok_empty: "view_ok reg view_empty"
  by (simp add: view_ok_def view_empty_def)

lemma view_okD:
  assumes "view_ok reg v" "vw_inst v a = Some i"
  obtains d k where "inst_aggregateId i = a" "instance_ok reg i" "reg (inst_loopId i) = Some d"
    "path d (def_initialState d) (drop k (vw_hist v a)) (inst_currentState i)"
  using assms unfolding view_ok_def by blast

lemma view_ok_save:
  assumes "view_ok reg v" "instance_ok reg i" "reg (inst_loopId i) = Some d"
    "path d (def_initialState d) (drop k (vw_hist v (inst_aggregateId i))) (inst_currentState i)"
  shows "view_ok reg (view_save i v)"
  using assms unfolding view_ok_def by (auto split: if_splits)

lemma view_ok_move:
  assumes ok: "view_ok reg v" and wf: "registry_wf reg"
    and i: "vw_inst v a = Some i" and d: "reg (inst_loopId i) = Some d" and pre: "permits d i p t"
    and moved: "instance_moved d t now i i'" and rec: "move_recorded p t now i r"
  shows "view_ok reg (view_record r (view_save i' v))"
proof -
  from ok i obtain d' k where keyed: "inst_aggregateId i = a" and inst: "instance_ok reg i"
    and "reg (inst_loopId i) = Some d'"
    and "path d' (def_initialState d') (drop k (vw_hist v a)) (inst_currentState i)"
    by (rule view_okD)
  with d have path: "path d (def_initialState d) (drop k (vw_hist v a)) (inst_currentState i)"
    by simp
  from moved rec keyed have same: "inst_aggregateId i' = a" "inst_loopId i' = inst_loopId i"
    "inst_currentState i' = tr_to t" "rec_aggregateId r = a" "rec_fromState r = inst_currentState i"
    "rec_toState r = tr_to t"
    by (simp_all add: instance_moved_def move_recorded_def)
  have k: "\<exists>k. path d (def_initialState d) (drop k (vw_hist v a @ [r])) (tr_to t)"
  proof (intro exI)
    let ?k = "min k (length (vw_hist v a))"
    have "drop ?k (vw_hist v a) = drop k (vw_hist v a)" by (simp add: min_def)
    then show "path d (def_initialState d) (drop ?k (vw_hist v a @ [r])) (tr_to t)"
      using path by (simp add: path_snoc permits_recorded[OF pre rec] same)
  qed
  have "declared d (tr_to t)"
    using wf d permitsD(1)[OF pre] by (auto simp: registry_wf_def definition_wf_def)
  with inst d permitsD(5,6)[OF pre] moved have "instance_ok reg i'"
    by (auto simp: instance_ok_def instance_moved_def isTerminal_final split: if_splits)
  with ok d k same show ?thesis
    unfolding view_ok_def by (auto split: if_splits)
qed

lemma view_ok_close:
  assumes "view_ok reg v" "vw_inst v a = Some i" "instance_closed st i i'" "st \<in> {Cancelled, Failed}"
  shows "view_ok reg (view_save i' v)"
proof -
  from assms(1,2) obtain d k where i: "inst_aggregateId i = a" "instance_ok reg i"
    "reg (inst_loopId i) = Some d"
    "path d (def_initialState d) (drop k (vw_hist v a)) (inst_currentState i)" by (rule view_okD)
  with assms(3,4) show ?thesis
    by (intro view_ok_save[OF assms(1)]) (auto simp: instance_ok_def instance_closed_def)
qed

lemma lifecycle_view_ok:
  assumes "lifecycle reg c oc v v'" "registry_wf reg" "view_ok reg v"
  shows "view_ok reg v'"
  using assms(1)
proof cases
  case (started p d i')
  have d: "def_id d = sp_loopId p" "declared d (def_initialState d)"
    using assms(2) started(3) by (auto simp: registry_wf_def definition_wf_def)
  show ?thesis
    unfolding started(2)
  proof (rule view_ok_save[OF assms(3)])
    show "instance_ok reg i'"
      using d started(3,5) by (auto simp: instance_ok_def instance_started_def)
    show "path d (def_initialState d)
        (drop (length (vw_hist v (inst_aggregateId i'))) (vw_hist v (inst_aggregateId i')))
        (inst_currentState i')"
      using started(5) by (simp add: instance_started_def)
  qed (use d started(3,5) in \<open>simp add: instance_started_def\<close>)
next
  case (moved p i d t now i' r)
  then show ?thesis using view_ok_move[OF assms(3,2)] by blast
qed (use assms(3) in \<open>auto intro: view_ok_close\<close>)

lemma lifecycle_run_view_ok:
  "lifecycle_run reg run v v' \<Longrightarrow> registry_wf reg \<Longrightarrow> view_ok reg v \<Longrightarrow> view_ok reg v'"
  by (induction rule: lifecycle_run.induct) (auto intro: lifecycle_view_ok)

text \<open>A call touches no other aggregate, and histories only grow, by one record at most.\<close>

lemma lifecycle_frame:
  assumes "lifecycle reg c oc v v'" "\<And>a i. vw_inst v a = Some i \<Longrightarrow> inst_aggregateId i = a"
    "a \<noteq> call_aggregate c"
  shows "vw_inst v' a = vw_inst v a \<and> vw_hist v' a = vw_hist v a"
  using assms(1)
  by cases (use assms(2,3) in \<open>auto simp: instance_started_def instance_moved_def move_recorded_def instance_closed_def\<close>)

lemma lifecycle_history:
  assumes "lifecycle reg c oc v v'"
  shows "vw_hist v' a = vw_hist v a \<or> (\<exists>r. vw_hist v' a = vw_hist v a @ [r])"
  using assms by cases auto

lemma lifecycle_run_history:
  "lifecycle_run reg run v v' \<Longrightarrow> \<exists>rs. vw_hist v' a = vw_hist v a @ rs"
proof (induction rule: lifecycle_run.induct)
  case (run_snoc cs v v1 c oc v2)
  then show ?case using lifecycle_history[of reg c oc v1 v2 a] by (metis append.assoc)
qed simp

text \<open>Without restarts the whole history leads from the initial to the current state.\<close>

fun started_aggregates :: "call list \<Rightarrow> string list" where
  "started_aggregates [] = []"
| "started_aggregates (CallStart p # cs) = sp_aggregateId p # started_aggregates cs"
| "started_aggregates (_ # cs) = started_aggregates cs"

lemma started_aggregates_append [simp]:
  "started_aggregates (cs @ cs') = started_aggregates cs @ started_aggregates cs'"
  by (induction cs rule: started_aggregates.induct) auto

definition replayable :: "definitions \<Rightarrow> view \<Rightarrow> string \<Rightarrow> bool" where
  "replayable reg v a \<longleftrightarrow>
     (\<forall>i d. vw_inst v a = Some i \<longrightarrow> reg (inst_loopId i) = Some d \<longrightarrow>
        path d (def_initialState d) (vw_hist v a) (inst_currentState i))"

lemma lifecycle_replayable:
  assumes "lifecycle reg c oc v v'" "view_ok reg v" "registry_wf reg" "replayable reg v a"
    and "\<And>p. c = CallStart p \<Longrightarrow> sp_aggregateId p = a \<Longrightarrow> vw_inst v a = None"
  shows "replayable reg v' a"
  using assms(1)
proof cases
  case (started p d i')
  with assms(2-5) show ?thesis
    by (auto simp: replayable_def view_ok_def registry_wf_def instance_started_def)
next
  case (moved p i d t now i' r)
  from assms(2) moved(3) have "inst_aggregateId i = tp_aggregateId p" by (rule view_okD)
  with moved(6,7) have same: "inst_aggregateId i' = tp_aggregateId p" "inst_loopId i' = inst_loopId i"
    "inst_currentState i' = tr_to t" "rec_aggregateId r = tp_aggregateId p"
    "rec_fromState r = inst_currentState i" "rec_toState r = tr_to t"
    by (simp_all add: instance_moved_def move_recorded_def)
  show ?thesis
    using assms(4) moved(3,4) same permits_recorded[OF moved(5,7)]
    unfolding moved(2) by (auto simp: replayable_def path_snoc)
next
  case (cancelled b i i' actor reason)
  with assms(2,4) show ?thesis by (auto simp: replayable_def instance_closed_def elim: view_okD)
next
  case (failed b i i' src code msg stack)
  with assms(2,4) show ?thesis by (auto simp: replayable_def instance_closed_def elim: view_okD)
qed (use assms(4) in simp_all)

lemma lifecycle_unstarted:
  assumes "lifecycle reg c oc v v'" "view_ok reg v" "vw_inst v a = None" "vw_inst v' a \<noteq> None"
  shows "\<exists>p. c = CallStart p \<and> sp_aggregateId p = a"
  using assms(1)
  by cases (use assms(2-4) in \<open>auto simp: instance_started_def instance_moved_def instance_closed_def
    elim: view_okD split: if_splits\<close>)

lemma lifecycle_run_replayable:
  assumes "lifecycle_run reg run view_empty v" "registry_wf reg" "distinct (started_aggregates (map fst run))"
  shows "replayable reg v a \<and> (a \<notin> set (started_aggregates (map fst run)) \<longrightarrow> vw_inst v a = None)"
  using assms
proof (induction run "view_empty :: view" v rule: lifecycle_run.induct)
  case run_nil
  then show ?case by (simp add: replayable_def view_empty_def)
next
  case (run_snoc cs v1 c oc v2)
  have ok: "view_ok reg v1"
    using run_snoc(1) run_snoc.prems(1) view_ok_empty by (rule lifecycle_run_view_ok)
  from run_snoc have IH: "replayable reg v1 a"
    "a \<notin> set (started_aggregates (map fst cs)) \<Longrightarrow> vw_inst v1 a = None" by auto
  have "vw_inst v1 a = None" if "c = CallStart p" "sp_aggregateId p = a" for p
    using IH(2) that run_snoc.prems(2) by auto
  then have "replayable reg v2 a"
    using lifecycle_replayable[OF run_snoc(3) ok run_snoc.prems(1) IH(1)] by blast
  moreover have "vw_inst v2 a = None" if "a \<notin> set (started_aggregates (map fst (cs @ [(c, oc)])))"
    using lifecycle_unstarted[OF run_snoc(3) ok] IH(2) that by force
  ultimately show ?case by blast
qed

text \<open>Runs of the engine over the in-memory store.\<close>

lemma run_view_ok:
  assumes "eng_store eng = memory_ops" "registry_wf (eng_registry eng)" "w_store w = ms_empty"
  shows "view_ok (eng_registry eng) (view_of memory_ops (w_store (run_calls eng cs w)))"
proof -
  have "lifecycle_run (eng_registry eng) (with_outcomes eng cs w) view_empty (view_of memory_ops (w_store (run_calls eng cs w)))"
    using mem.run_calls_step[OF assms(1), of cs w] by (simp add: assms(3) mem.view_of_empty)
  then show ?thesis using assms(2) view_ok_empty by (rule lifecycle_run_view_ok)
qed

end
