(* ===== verification/Loop_Validator.thy ===== *)
theory Loop_Validator
  imports Core
begin

text \<open>
  \<open>packages/loop-definition/src/validator.ts\<close>: the structural checks of a loop definition.
  The search for a path to a terminal state is the breadth-first loop of the source; it
  terminates and finds exactly the reachable terminal states. The whole validator accepts
  exactly the definitions that satisfy the declarative \<open>definition_valid\<close>.

  \<open>Set\<close> objects whose order is not observed are sets; \<open>visited\<close> is the list of visited states.
\<close>

section \<open>The path search\<close>

record validation_error =
  ve_code :: string
  ve_message :: string
  ve_path :: "string option"

record validation_result =
  vr_valid :: bool
  vr_errors :: "validation_error list"

definition findTerminalStates :: "loop_definition \<Rightarrow> string set" where
  "findTerminalStates d = set (map st_id (filter (\<lambda>st. st_isTerminal st = Some True) (def_states d)))"

type_synonym graph = "(string \<times> string list) list"

text \<open>\<open>Set.add\<close> on the successors in insertion order.\<close>

definition add_edge :: "transition_spec \<Rightarrow> graph \<Rightarrow> graph" where
  "add_edge t g =
     (let old = (case map_of g (tr_from t) of None \<Rightarrow> [] | Some ns \<Rightarrow> ns)
      in AList.update (tr_from t) (if tr_to t \<in> set old then old else old @ [tr_to t]) g)"

definition graph_of :: "loop_definition \<Rightarrow> graph" where
  "graph_of d = fold add_edge (def_transitions d) []"

definition successors :: "graph \<Rightarrow> string \<Rightarrow> string list" where
  "successors g s = (case map_of g s of None \<Rightarrow> [] | Some ns \<Rightarrow> ns)"

function search :: "graph \<Rightarrow> string set \<Rightarrow> string list \<Rightarrow> string list \<Rightarrow> bool" where
  "search g T visited [] = False"
| "search g T visited (c # q) =
     (if c \<in> T then True
      else if c \<in> set visited then search g T visited q
      else search g T (c # visited)
             (q @ filter (\<lambda>n. n \<notin> set (c # visited)) (successors g c)))"
  by pat_completeness auto

text \<open>
  Each step visits a state that has successors, or shortens the queue.
\<close>

definition unvisited :: "graph \<Rightarrow> string list \<Rightarrow> nat" where
  "unvisited g visited = card (fst ` set g - set visited)"

lemma unvisited_visit:
  "unvisited g (c # visited) < unvisited g visited \<or>
   unvisited g (c # visited) = unvisited g visited \<and> (c \<in> set visited \<or> successors g c = [])"
proof (cases "c \<in> fst ` set g - set visited")
  case True
  then have "fst ` set g - set (c # visited) \<subset> fst ` set g - set visited" by auto
  then show ?thesis unfolding unvisited_def by (simp add: psubset_card_mono)
next
  case False
  then have "fst ` set g - set (c # visited) = fst ` set g - set visited" by auto
  moreover from False have "c \<in> set visited \<or> successors g c = []"
    using map_of_eq_None_iff[of g c] by (auto simp: successors_def)
  ultimately show ?thesis by (simp add: unvisited_def)
qed

termination search
proof (relation "(\<lambda>(g, T, visited, q). unvisited g visited) <*mlex*>
    measure (\<lambda>(g, T, visited, q). length q)", goal_cases)
  case 1
  show ?case by (intro wf_mlex wf_measure)
next
  case (2 g T visited c q)
  then show ?case by (intro mlex_leq) auto
next
  case (3 g T visited c q)
  from unvisited_visit[of g c visited] show ?case
  proof
    assume "unvisited g (c # visited) < unvisited g visited"
    then show ?thesis by (intro mlex_less) simp
  next
    assume "unvisited g (c # visited) = unvisited g visited \<and> (c \<in> set visited \<or> successors g c = [])"
    with 3(2) show ?thesis by (intro mlex_leq) auto
  qed
qed

definition hasPathToTerminal :: "loop_definition \<Rightarrow> string set \<Rightarrow> bool" where
  "hasPathToTerminal d T = search (graph_of d) T [] [def_initialState d]"

section \<open>Correctness of the path search\<close>

definition edges :: "loop_definition \<Rightarrow> (string \<times> string) set" where
  "edges d = (\<lambda>t. (tr_from t, tr_to t)) ` set (def_transitions d)"

definition edges_of :: "graph \<Rightarrow> (string \<times> string) set" where
  "edges_of g = {(s, n). n \<in> set (successors g s)}"

lemma successors_add_edge:
  "set (successors (add_edge t g) s) =
     set (successors g s) \<union> (if s = tr_from t then {tr_to t} else {})"
  by (auto simp: successors_def add_edge_def obj_simps Let_def split: option.splits)

lemma edges_graph_of: "edges_of (graph_of d) = edges d"
proof -
  have "edges_of (fold add_edge ts g) = edges_of g \<union> (\<lambda>t. (tr_from t, tr_to t)) ` set ts" for ts g
  proof (induction ts arbitrary: g)
    case (Cons t ts)
    have "edges_of (add_edge t g) = insert (tr_from t, tr_to t) (edges_of g)"
      by (auto simp: edges_of_def successors_add_edge split: if_splits)
    then show ?case by (simp add: Cons.IH)
  qed simp
  moreover have "edges_of [] = {}" by (auto simp: edges_of_def successors_def)
  ultimately show ?thesis by (simp add: graph_of_def edges_def)
qed

text \<open>The states already visited are not terminal, and what follows them is visited or queued.\<close>

definition explored :: "graph \<Rightarrow> string set \<Rightarrow> string set \<Rightarrow> string set \<Rightarrow> bool" where
  "explored g T V Q \<longleftrightarrow> V \<inter> T = {} \<and> edges_of g `` V \<subseteq> V \<union> Q"

definition reaches :: "graph \<Rightarrow> string set \<Rightarrow> string \<Rightarrow> bool" where
  "reaches g T s \<longleftrightarrow> (\<exists>t \<in> T. (s, t) \<in> (edges_of g)\<^sup>*)"

lemma reaches_step: "reaches g T s \<longleftrightarrow> s \<in> T \<or> (\<exists>n \<in> set (successors g s). reaches g T n)"
proof
  assume "reaches g T s"
  then obtain t where "t \<in> T" "(s, t) \<in> (edges_of g)\<^sup>*" by (auto simp: reaches_def)
  from this(2,1) show "s \<in> T \<or> (\<exists>n \<in> set (successors g s). reaches g T n)"
    by (cases rule: converse_rtranclE) (auto simp: reaches_def edges_of_def)
next
  assume "s \<in> T \<or> (\<exists>n \<in> set (successors g s). reaches g T n)"
  then show "reaches g T s"
    by (auto simp: reaches_def edges_of_def intro: converse_rtrancl_into_rtrancl)
qed

lemma explored_exit:
  assumes "explored g T V Q" "s \<in> V" "reaches g T s"
  shows "\<exists>q \<in> Q. reaches g T q"
proof -
  from assms(3) obtain t where t: "t \<in> T" "(s, t) \<in> (edges_of g)\<^sup>*" by (auto simp: reaches_def)
  from t(2,1) assms(2) show ?thesis
  proof (induction rule: converse_rtrancl_induct)
    case base
    with assms(1) show ?case by (auto simp: explored_def)
  next
    case (step a b)
    with assms(1) have "b \<in> V \<or> b \<in> Q" by (auto simp: explored_def)
    then show ?case
    proof
      assume "b \<in> Q"
      moreover from step t(1) have "reaches g T b" by (auto simp: reaches_def)
      ultimately show ?thesis ..
    next
      assume "b \<in> V"
      with step show ?thesis by blast
    qed
  qed
qed

lemma search_iff:
  "explored g T (set V) (set q) \<Longrightarrow> search g T V q \<longleftrightarrow> (\<exists>s \<in> set q. reaches g T s)"
proof (induction g T V q rule: search.induct)
  case (1 g T V)
  then show ?case by simp
next
  case (2 g T V c q)
  show ?case
  proof (cases "c \<in> T")
    case True
    then show ?thesis by (auto simp: reaches_step[of g T c])
  next
    case False
    show ?thesis
    proof (cases "c \<in> set V")
      case True
      with 2(3) have ex: "explored g T (set V) (set q)" by (auto simp: explored_def)
      have "reaches g T c \<Longrightarrow> \<exists>s \<in> set q. reaches g T s"
        using explored_exit[OF ex True] .
      with False True 2(1)[OF False True ex] show ?thesis by auto
    next
      case fresh: False
      let ?q = "q @ filter (\<lambda>n. n \<notin> set (c # V)) (successors g c)"
      from 2(3) False have ex: "explored g T (set (c # V)) (set ?q)"
        by (auto simp: explored_def edges_of_def)
      have "(\<exists>s \<in> set (c # q). reaches g T s) \<longleftrightarrow> (\<exists>s \<in> set ?q. reaches g T s)"
      proof
        assume "\<exists>s \<in> set ?q. reaches g T s"
        then show "\<exists>s \<in> set (c # q). reaches g T s"
          by (auto simp: reaches_step[of g T c])
      next
        assume "\<exists>s \<in> set (c # q). reaches g T s"
        then show "\<exists>s \<in> set ?q. reaches g T s"
          using explored_exit[OF ex, of c] by auto
      qed
      with False fresh 2(2)[OF False fresh ex] show ?thesis by simp
    qed
  qed
qed

lemma hasPathToTerminal_iff:
  "hasPathToTerminal d T \<longleftrightarrow> (\<exists>t \<in> T. (def_initialState d, t) \<in> (edges d)\<^sup>*)"
proof -
  have "explored (graph_of d) T (set []) (set [def_initialState d])" by (simp add: explored_def)
  from search_iff[OF this] show ?thesis
    unfolding hasPathToTerminal_def by (simp only: reaches_def edges_graph_of) simp
qed

section \<open>The other checks\<close>

definition signal_cycle :: "transition_spec list \<Rightarrow> nat \<Rightarrow> nat \<Rightarrow> bool" where
  "signal_cycle ts i j \<longleftrightarrow>
     i \<noteq> j \<and> tr_signal (ts ! j) = tr_signal (ts ! i) \<and>
     tr_from (ts ! j) = tr_to (ts ! i) \<and> tr_to (ts ! j) = tr_from (ts ! i)"

definition cycle_error :: "nat \<Rightarrow> transition_spec \<Rightarrow> validation_error" where
  "cycle_error i a =
     \<lparr>ve_code = ''SIGNAL_CYCLE_DETECTED'',
      ve_message = ''Signal \"'' @ tr_signal a @ ''\" creates a two-way cycle between \"'' @
        tr_from a @ ''\" and \"'' @ tr_to a @ ''\"'',
      ve_path = Some (''transitions.'' @ show_nat i @ ''.signal'')\<rparr>"

definition checkSignalCycles :: "loop_definition \<Rightarrow> validation_error list" where
  "checkSignalCycles d =
     (let ts = def_transitions d in
      concat (map (\<lambda>i. concat (map (\<lambda>j.
          if signal_cycle ts i j then [cycle_error i (ts ! i)] else [])
        [0..<length ts])) [0..<length ts]))"

text \<open>The guard identifiers met before, in the order in which the repetition is noticed.\<close>

fun duplicate_ids :: "string list \<Rightarrow> string list \<Rightarrow> string list \<Rightarrow> string list" where
  "duplicate_ids seen dups [] = dups"
| "duplicate_ids seen dups (g # gs) =
     duplicate_ids (g # seen) (if g \<in> set seen \<and> g \<notin> set dups then dups @ [g] else dups) gs"

definition transition_errors :: "string set \<Rightarrow> nat \<Rightarrow> transition_spec \<Rightarrow> validation_error list" where
  "transition_errors stateIds index t =
     (if tr_from t \<in> stateIds then []
      else [\<lparr>ve_code = ''INVALID_TRANSITION_STATE'',
             ve_message = ''transition.from \"'' @ tr_from t @ ''\" does not exist in states'',
             ve_path = Some (''transitions.'' @ show_nat index @ ''.from'')\<rparr>]) @
     (if tr_to t \<in> stateIds then []
      else [\<lparr>ve_code = ''INVALID_TRANSITION_STATE'',
             ve_message = ''transition.to \"'' @ tr_to t @ ''\" does not exist in states'',
             ve_path = Some (''transitions.'' @ show_nat index @ ''.to'')\<rparr>]) @
     (case tr_guards t of
        None \<Rightarrow> []
      | Some gs \<Rightarrow>
          (let duplicates = duplicate_ids [] [] (map guard_id gs)
           in if duplicates = [] then []
              else [\<lparr>ve_code = ''DUPLICATE_GUARD_ID'',
                     ve_message = ''duplicate guardId(s) in transition \"'' @ tr_id t @ ''\": '' @
                       join '', '' duplicates,
                     ve_path = Some (''transitions.'' @ show_nat index @ ''.guards'')\<rparr>]))"

definition all_transition_errors :: "string set \<Rightarrow> transition_spec list \<Rightarrow> validation_error list" where
  "all_transition_errors stateIds ts =
     concat (map (\<lambda>(t, index). transition_errors stateIds index t) (zip ts [0..<length ts]))"

definition completion_errors :: "loop_definition \<Rightarrow> validation_error list" where
  "completion_errors d =
     (let terminalStates = findTerminalStates d in
      if terminalStates = {}
      then [\<lparr>ve_code = ''NO_TERMINAL_STATE'', ve_message = ''at least one state must be terminal'',
             ve_path = Some ''states''\<rparr>]
      else
        (let hasTerminalInbound = list_ex (\<lambda>t. tr_to t \<in> terminalStates) (def_transitions d)
         in if \<not> hasTerminalInbound \<or> \<not> hasPathToTerminal d terminalStates
            then [\<lparr>ve_code = ''LOOP_NOT_COMPLETABLE'',
                   ve_message = ''loop has no reachable path from initialState to a terminal state'',
                   ve_path = None\<rparr>]
            else []))"

definition outcome_errors :: "loop_definition \<Rightarrow> validation_error list" where
  "outcome_errors d =
     (case def_outcome d of
        None \<Rightarrow> []
      | Some oc \<Rightarrow>
          if oc_businessMetrics oc = []
          then [\<lparr>ve_code = ''OUTCOME_METRICS_REQUIRED'',
                 ve_message = ''outcome.businessMetrics must be non-empty when outcome is defined'',
                 ve_path = Some ''outcome.businessMetrics''\<rparr>]
          else [])"

definition validateLoopDefinition :: "loop_definition \<Rightarrow> validation_result" where
  "validateLoopDefinition d =
     (let stateIds = set (map st_id (def_states d));
          errors =
            (if def_initialState d \<in> stateIds then []
             else [\<lparr>ve_code = ''INVALID_INITIAL_STATE'',
                    ve_message = ''initialState \"'' @ def_initialState d @ ''\" does not exist in states'',
                    ve_path = Some ''initialState''\<rparr>]) @
            all_transition_errors stateIds (def_transitions d) @
            completion_errors d @ checkSignalCycles d @ outcome_errors d
      in \<lparr>vr_valid = (errors = []), vr_errors = errors\<rparr>)"

section \<open>What the validator accepts\<close>

text \<open>
  The declarative reading: states are declared, guards of a transition are distinct, some
  terminal state is reachable from the initial one and entered by a transition, no two
  transitions with the same signal lead back and forth, and an outcome has metrics.
\<close>

definition two_way_cycle :: "transition_spec list \<Rightarrow> bool" where
  "two_way_cycle ts \<longleftrightarrow> (\<exists>i < length ts. \<exists>j < length ts. signal_cycle ts i j)"

definition completable :: "loop_definition \<Rightarrow> bool" where
  "completable d \<longleftrightarrow>
     (\<exists>t \<in> findTerminalStates d. (def_initialState d, t) \<in> (edges d)\<^sup>*) \<and>
     (\<exists>t \<in> set (def_transitions d). tr_to t \<in> findTerminalStates d)"

definition guards_distinct :: "transition_spec \<Rightarrow> bool" where
  "guards_distinct t \<longleftrightarrow>
     (case tr_guards t of None \<Rightarrow> True | Some gs \<Rightarrow> distinct (map guard_id gs))"

definition definition_valid :: "loop_definition \<Rightarrow> bool" where
  "definition_valid d \<longleftrightarrow>
     definition_wf d \<and> (\<forall>t \<in> set (def_transitions d). guards_distinct t) \<and> completable d \<and>
     \<not> two_way_cycle (def_transitions d) \<and>
     (\<forall>oc. def_outcome d = Some oc \<longrightarrow> oc_businessMetrics oc \<noteq> [])"

lemma duplicate_ids_none_gen:
  "duplicate_ids seen dups gs = [] \<longleftrightarrow> dups = [] \<and> distinct gs \<and> set gs \<inter> set seen = {}"
  by (induction gs arbitrary: seen dups) auto

lemma duplicate_ids_none: "duplicate_ids [] [] gs = [] \<longleftrightarrow> distinct gs"
  by (simp add: duplicate_ids_none_gen)

lemma transition_errors_none:
  "transition_errors ids i t = [] \<longleftrightarrow> tr_from t \<in> ids \<and> tr_to t \<in> ids \<and> guards_distinct t"
  by (simp add: transition_errors_def guards_distinct_def duplicate_ids_none Let_def split: option.splits)

lemma completion_errors_none: "completion_errors d = [] \<longleftrightarrow> completable d"
  by (auto simp: completion_errors_def completable_def Let_def hasPathToTerminal_iff list_ex_iff)

lemma checkSignalCycles_none: "checkSignalCycles d = [] \<longleftrightarrow> \<not> two_way_cycle (def_transitions d)"
  by (simp add: checkSignalCycles_def two_way_cycle_def Let_def concat_map_none Ball_def
      del: concat_eq_Nil_conv) blast

lemma outcome_errors_none:
  "outcome_errors d = [] \<longleftrightarrow> (\<forall>oc. def_outcome d = Some oc \<longrightarrow> oc_businessMetrics oc \<noteq> [])"
  by (simp add: outcome_errors_def split: option.splits)

lemma all_transition_errors_none:
  "all_transition_errors ids ts = [] \<longleftrightarrow>
     (\<forall>t \<in> set ts. tr_from t \<in> ids \<and> tr_to t \<in> ids \<and> guards_distinct t)"
proof -
  have ts: "set ts = fst ` set (zip ts [0..<length ts])" by (simp flip: set_map)
  show ?thesis
    by (subst ts) (simp add: all_transition_errors_def concat_map_none transition_errors_none split_beta)
qed

lemma validateLoopDefinition_valid:
  "vr_valid (validateLoopDefinition d) \<longleftrightarrow> definition_valid d"
proof -
  have "vr_valid (validateLoopDefinition d) \<longleftrightarrow> declared d (def_initialState d) \<and>
      all_transition_errors (set (map st_id (def_states d))) (def_transitions d) = [] \<and>
      completion_errors d = [] \<and> checkSignalCycles d = [] \<and> outcome_errors d = []"
    by (simp add: validateLoopDefinition_def Let_def declared_def)
  then show ?thesis
    by (auto simp: all_transition_errors_none completion_errors_none checkSignalCycles_none
        outcome_errors_none definition_valid_def definition_wf_def declared_def)
qed

lemma validateLoopDefinition_errors:
  "vr_valid (validateLoopDefinition d) \<longleftrightarrow> vr_errors (validateLoopDefinition d) = []"
  by (simp add: validateLoopDefinition_def Let_def)

end
