(* ===== verification/Loop_Definition.thy ===== *)
theory Loop_Definition
  imports Loop_Validator
begin

text \<open>
  The rest of \<open>packages/loop-definition\<close> with the schemas of \<open>packages/core\<close> it parses
  with: the fluent \<open>LoopBuilder\<close>, the schema \<open>LoopDefinitionSchema\<close> as a decoder of untyped
  values that collects the issues it finds, the YAML and JSON parsers and the serializer.

  The \<open>yaml\<close> package, \<open>JSON.parse\<close> and \<open>JSON.stringify\<close> are arguments: a parser gives the text
  of its error or a value. So are the texts of schema issues, which the schema library writes.
  Freezing the result of \<open>build\<close> does not change its value.
\<close>

section \<open>The builder\<close>

record transition_input =
  bt_id :: string
  bt_from :: string
  bt_to :: string
  bt_actors :: "actor_type list"
  bt_guards :: "guard_spec list option"

record outcome_input =
  bo_id :: "string option"
  bo_description :: string
  bo_valueUnit :: string
  bo_measurable :: "bool option"
  bo_businessMetrics :: "business_metric list"

record state_input =
  si_id :: string
  si_isTerminal :: "bool option"
  si_isError :: "bool option"

record loop_builder =
  lb_loopId :: string
  lb_domain :: string
  lb_version :: "string option"
  lb_name :: "string option"
  lb_description :: "string option"
  lb_states :: "state_input list"
  lb_transitions :: "transition_input list"
  lb_initialState :: "string option"
  lb_outcome :: "outcome_input option"

definition builder_create :: "string \<Rightarrow> string \<Rightarrow> loop_builder" where
  "builder_create loopId domain =
     \<lparr>lb_loopId = loopId, lb_domain = domain, lb_version = None, lb_name = None,
      lb_description = None, lb_states = [], lb_transitions = [], lb_initialState = None,
      lb_outcome = None\<rparr>"

definition builder_version :: "string \<Rightarrow> loop_builder \<Rightarrow> loop_builder" where
  "builder_version v b = b\<lparr>lb_version := Some v\<rparr>"

definition builder_name :: "string \<Rightarrow> loop_builder \<Rightarrow> loop_builder" where
  "builder_name v b = b\<lparr>lb_name := Some v\<rparr>"

definition builder_description :: "string \<Rightarrow> loop_builder \<Rightarrow> loop_builder" where
  "builder_description v b = b\<lparr>lb_description := Some v\<rparr>"

definition builder_state :: "state_input \<Rightarrow> loop_builder \<Rightarrow> loop_builder" where
  "builder_state s b = b\<lparr>lb_states := lb_states b @ [s]\<rparr>"

definition builder_initialState :: "string \<Rightarrow> loop_builder \<Rightarrow> loop_builder" where
  "builder_initialState s b = b\<lparr>lb_initialState := Some s\<rparr>"

definition builder_transition :: "transition_input \<Rightarrow> loop_builder \<Rightarrow> loop_builder" where
  "builder_transition t b = b\<lparr>lb_transitions := lb_transitions b @ [t]\<rparr>"

definition builder_outcome :: "outcome_input \<Rightarrow> loop_builder \<Rightarrow> loop_builder" where
  "builder_outcome oc b = b\<lparr>lb_outcome := Some oc\<rparr>"

definition normalizeGuards :: "guard_spec list option \<Rightarrow> guard_spec list option" where
  "normalizeGuards gs = (case gs of None \<Rightarrow> None | Some [] \<Rightarrow> None | Some gs \<Rightarrow> Some gs)"

definition normalizeTransition :: "transition_input \<Rightarrow> authored_transition" where
  "normalizeTransition t =
     \<lparr>tr_id = bt_id t, tr_from = bt_from t, tr_to = bt_to t, tr_signal = Some (bt_id t),
      tr_actors = bt_actors t, tr_guards = normalizeGuards (bt_guards t),
      tr_description = None, tr_metadata = None\<rparr>"

definition normalizeState :: "state_input \<Rightarrow> state_spec" where
  "normalizeState s =
     \<lparr>st_id = si_id s, st_label = map (\<lambda>c. if c = CHR ''_'' then CHR '' '' else c) (si_id s),
      st_isTerminal = si_isTerminal s, st_isError = si_isError s, st_description = None\<rparr>"

definition normalizeOutcome :: "outcome_input \<Rightarrow> outcome_spec" where
  "normalizeOutcome oc =
     \<lparr>oc_id = (if bo_id oc = Some [] then None else bo_id oc),
      oc_description = bo_description oc, oc_valueUnit = bo_valueUnit oc,
      oc_measurable = bo_measurable oc, oc_businessMetrics = bo_businessMetrics oc\<rparr>"

text \<open>
  The upper case of the letters of ASCII and of
  the Latin-1 letters that have one in Latin-1; the rest is left as it is.
\<close>

definition upper_char :: "char \<Rightarrow> char" where
  "upper_char c =
     (let n = (of_char c :: nat)
      in if (97 \<le> n \<and> n \<le> 122) \<or> (224 \<le> n \<and> n \<le> 254 \<and> n \<noteq> 247)
         then char_of (n - 32) else c)"

fun capitalize :: "string \<Rightarrow> string" where
  "capitalize [] = []"
| "capitalize (c # cs) = upper_char c # lower cs"

definition deriveName :: "string \<Rightarrow> string" where
  "deriveName loopId =
     (let parts = filter (\<lambda>s. s \<noteq> []) (split_on (\<lambda>c. c \<in> {CHR ''.'', CHR ''/''}) loopId);
          segment = (if parts = [] then loopId else last parts)
      in join '' '' (map capitalize
           (filter (\<lambda>s. s \<noteq> []) (split_on (\<lambda>c. c \<in> {CHR ''-'', CHR ''_''}) segment))))"

definition builder_authored :: "loop_builder \<Rightarrow> string \<Rightarrow> string \<Rightarrow> string \<Rightarrow> authored_definition" where
  "builder_authored b version description initial =
     \<lparr>def_id = lb_loopId b, def_version = version,
      def_name = (case lb_name b of
          None \<Rightarrow> deriveName (lb_loopId b)
        | Some n \<Rightarrow> if n = [] then deriveName (lb_loopId b) else n),
      def_description = description, def_domain = Some (lb_domain b),
      def_states = map normalizeState (lb_states b), def_initialState = initial,
      def_transitions = map normalizeTransition (lb_transitions b),
      def_outcome = map_option normalizeOutcome (lb_outcome b),
      def_tags = Some [lb_domain b], def_metadata = None\<rparr>"

text \<open>
  The input of the schema has the declared types, so the only check that can fail is that
  every transition lists an actor. \<open>zodText\<close> is the message of the schema's error.
\<close>

definition schema_parse_typed :: "authored_definition \<Rightarrow> loop_definition option" where
  "schema_parse_typed d =
     (if list_ex (\<lambda>t. tr_actors t = []) (def_transitions d) then None
      else Some (transform_definition d))"

definition build :: "(authored_definition \<Rightarrow> string) \<Rightarrow> loop_builder \<Rightarrow> js_error + loop_definition" where
  "build zodText b =
     (let ctx = ''loopId='' @ lb_loopId b;
          fail = (\<lambda>msg. Inl (Error (''LoopBuilder: '' @ msg @ '' ('' @ ctx @ '')'')))
      in if lb_version b \<in> {None, Some []} then fail ''.version() is required before .build()''
      else if lb_description b \<in> {None, Some []} then fail ''.description() is required before .build()''
      else if lb_states b = [] then fail ''add at least one .state() before .build()''
      else (case lb_initialState b of
          None \<Rightarrow> fail ''.initialState() is required before .build()''
        | Some initial \<Rightarrow>
            if lb_transitions b = [] then fail ''add at least one .transition() before .build()''
            else if initial \<notin> set (map si_id (lb_states b))
            then fail (''initialState \"'' @ initial @ ''\" was not declared with .state()'')
            else
              (let authored = builder_authored b (the (lb_version b)) (the (lb_description b)) initial
               in case schema_parse_typed authored of
                    None \<Rightarrow> Inl (Error (''LoopBuilder: schema parse failed ('' @ ctx @ ''): '' @ zodText authored))
                  | Some parsed \<Rightarrow>
                      (let checked = validateLoopDefinition parsed
                       in if \<not> vr_valid checked
                          then Inl (Error (''LoopBuilder: validateLoopDefinition failed ('' @ ctx @ ''): '' @
                            join ''; '' (map (\<lambda>e.
                              (case ve_path e of None \<Rightarrow> ''?'' | Some p \<Rightarrow> p) @ '': '' @
                              ve_code e @ '' '' @ ve_message e) (vr_errors checked))))
                          else Inr parsed))))"

lemmas builder_defs = builder_create_def builder_version_def builder_name_def
  builder_description_def builder_state_def builder_initialState_def builder_transition_def
  builder_outcome_def

text \<open>What was built passes the validator and carries what was said.\<close>

lemma build_Inr:
  assumes "build zodText b = Inr d"
  shows "definition_valid d"
    and "\<exists>v desc initial. lb_version b = Some v \<and> lb_description b = Some desc \<and>
      lb_initialState b = Some initial \<and> d = transform_definition (builder_authored b v desc initial)"
    and "\<forall>t \<in> set (def_transitions d). tr_actors t \<noteq> [] \<and> tr_signal t = tr_id t"
proof -
  from assms obtain v desc initial where b: "lb_version b = Some v" "lb_description b = Some desc"
      "lb_initialState b = Some initial"
    and parsed: "schema_parse_typed (builder_authored b v desc initial) = Some d"
    and valid: "vr_valid (validateLoopDefinition d)"
    by (auto simp: build_def Let_def split: if_splits option.splits)
  show "definition_valid d" using valid by (simp add: validateLoopDefinition_valid)
  from parsed have d: "d = transform_definition (builder_authored b v desc initial)"
    and actors: "\<forall>t \<in> set (def_transitions (builder_authored b v desc initial)). tr_actors t \<noteq> []"
    by (auto simp: schema_parse_typed_def list_ex_iff split: if_splits)
  from b d show "\<exists>v desc initial. lb_version b = Some v \<and> lb_description b = Some desc \<and>
      lb_initialState b = Some initial \<and> d = transform_definition (builder_authored b v desc initial)"
    by blast
  from d actors show "\<forall>t \<in> set (def_transitions d). tr_actors t \<noteq> [] \<and> tr_signal t = tr_id t"
    by (auto simp: transform_definition_def builder_authored_def normalizeTransition_def
        transform_transition_def)
qed

lemma build_total:
  assumes "lb_version b = Some v" "v \<noteq> []" "lb_description b = Some desc" "desc \<noteq> []"
    "lb_initialState b = Some initial"
    "\<forall>t \<in> set (lb_transitions b). bt_actors t \<noteq> []"
    and valid: "definition_valid (transform_definition (builder_authored b v desc initial))"
  shows "build zodText b = Inr (transform_definition (builder_authored b v desc initial))"
proof -
  let ?d = "transform_definition (builder_authored b v desc initial)"
  from valid have "initial \<in> set (map si_id (lb_states b))" and "lb_transitions b \<noteq> []"
    by (auto simp: definition_valid_def definition_wf_def declared_def completable_def
        transform_definition_def builder_authored_def normalizeState_def)
  moreover from this have "lb_states b \<noteq> []" by auto
  moreover have "schema_parse_typed (builder_authored b v desc initial) = Some ?d"
    using assms(6) by (auto simp: schema_parse_typed_def builder_authored_def normalizeTransition_def
        list_ex_iff)
  ultimately show ?thesis
    using assms(1-5) valid by (simp add: build_def Let_def validateLoopDefinition_valid)
qed

text \<open>
  What a definition owes to the calls that described it, field by field: every state, transition
  and the outcome as given, in order, with the defaults of the builder (the label of a state, the
  signal of a transition, the name) and nothing that was not said.
\<close>

definition state_carried :: "state_input \<Rightarrow> state_spec \<Rightarrow> bool" where
  "state_carried s st \<longleftrightarrow>
     st_id st = si_id s \<and> st_isTerminal st = si_isTerminal s \<and> st_isError st = si_isError s \<and>
     list_all2 (\<lambda>c l. l = (if c = CHR ''_'' then CHR '' '' else c)) (si_id s) (st_label st) \<and>
     st_description st = None"

definition transition_carried :: "transition_input \<Rightarrow> transition_spec \<Rightarrow> bool" where
  "transition_carried t tr \<longleftrightarrow>
     tr_id tr = bt_id t \<and> tr_from tr = bt_from t \<and> tr_to tr = bt_to t \<and> tr_signal tr = bt_id t \<and>
     tr_actors tr = bt_actors t \<and> (\<forall>gs. tr_guards tr = Some gs \<longleftrightarrow> bt_guards t = Some gs \<and> gs \<noteq> []) \<and>
     tr_description tr = None \<and> tr_metadata tr = None"

definition outcome_carried :: "outcome_input \<Rightarrow> outcome_spec \<Rightarrow> bool" where
  "outcome_carried o' oc \<longleftrightarrow>
     (\<forall>i. oc_id oc = Some i \<longleftrightarrow> bo_id o' = Some i \<and> i \<noteq> []) \<and>
     oc_description oc = bo_description o' \<and> oc_valueUnit oc = bo_valueUnit o' \<and>
     oc_measurable oc = bo_measurable o' \<and> oc_businessMetrics oc = bo_businessMetrics o'"

definition built_from :: "loop_builder \<Rightarrow> loop_definition \<Rightarrow> bool" where
  "built_from b d \<longleftrightarrow>
     def_id d = lb_loopId b \<and> lb_version b = Some (def_version d) \<and>
     lb_description b = Some (def_description d) \<and> lb_initialState b = Some (def_initialState d) \<and>
     (if lb_name b = None \<or> lb_name b = Some [] then def_name d = deriveName (lb_loopId b)
      else lb_name b = Some (def_name d)) \<and>
     list_all2 state_carried (lb_states b) (def_states d) \<and>
     list_all2 transition_carried (lb_transitions b) (def_transitions d) \<and>
     rel_option outcome_carried (lb_outcome b) (def_outcome d) \<and>
     def_domain d = Some (lb_domain b) \<and> def_tags d = Some [lb_domain b] \<and> def_metadata d = None"

lemma list_all2_function: "list_all2 (\<lambda>x y. y = f x) xs ys \<longleftrightarrow> ys = map f xs"
  by (induction xs arbitrary: ys) (auto simp: list_all2_Cons1)

lemma state_carried_iff: "state_carried s st \<longleftrightarrow> st = normalizeState s"
  by (cases st) (auto simp: state_carried_def normalizeState_def list_all2_function)

lemma option_filtered: "(\<forall>x. m = Some x \<longleftrightarrow> n = Some x \<and> x \<noteq> []) \<longleftrightarrow> m = (if n = Some [] then None else n)"
  by (cases m; cases n) auto

lemma transition_carried_iff:
  "transition_carried t tr \<longleftrightarrow> tr = transform_transition (normalizeTransition t)"
proof -
  have guards: "normalizeGuards gs = (if gs = Some [] then None else gs)" for gs
    by (simp add: normalizeGuards_def split: option.splits list.splits)
  show ?thesis
    unfolding transition_carried_def option_filtered
    by (cases tr) (auto simp: transform_transition_def normalizeTransition_def guards)
qed

lemma outcome_carried_iff: "outcome_carried o' oc \<longleftrightarrow> oc = normalizeOutcome o'"
  unfolding outcome_carried_def option_filtered
  by (cases oc) (auto simp: normalizeOutcome_def)

lemma built_from_iff:
  "built_from b d \<longleftrightarrow> (\<exists>v desc initial. lb_version b = Some v \<and> lb_description b = Some desc \<and>
     lb_initialState b = Some initial \<and> d = transform_definition (builder_authored b v desc initial))"
proof -
  have "list_all2 state_carried xs ys \<longleftrightarrow> ys = map normalizeState xs" for xs ys
    unfolding state_carried_iff[abs_def] by (rule list_all2_function)
  moreover have "list_all2 transition_carried xs ys \<longleftrightarrow>
      ys = map (\<lambda>t. transform_transition (normalizeTransition t)) xs" for xs ys
    unfolding transition_carried_iff[abs_def] by (rule list_all2_function)
  moreover have "rel_option outcome_carried m n \<longleftrightarrow> n = map_option normalizeOutcome m" for m n
    by (cases m; cases n) (auto simp: outcome_carried_iff)
  ultimately show ?thesis
    by (cases d) (auto simp: built_from_def transform_definition_def builder_authored_def
        comp_def split: option.splits if_splits)
qed

lemma build_iff:
  "build zodText b = Inr d \<longleftrightarrow> built_from b d \<and> definition_valid d \<and>
     (\<forall>t \<in> set (lb_transitions b). bt_actors t \<noteq> []) \<and> lb_version b \<noteq> Some [] \<and> lb_description b \<noteq> Some []"
proof
  assume built: "build zodText b = Inr d"
  from build_Inr(2)[OF this] obtain v desc initial where
    d: "d = transform_definition (builder_authored b v desc initial)" by blast
  with build_Inr(3)[OF built] have "\<forall>t \<in> set (lb_transitions b). bt_actors t \<noteq> []"
    by (simp add: transform_definition_def builder_authored_def normalizeTransition_def transform_transition_def)
  with built build_Inr[OF built] show "built_from b d \<and> definition_valid d \<and>
     (\<forall>t \<in> set (lb_transitions b). bt_actors t \<noteq> []) \<and> lb_version b \<noteq> Some [] \<and> lb_description b \<noteq> Some []"
    by (auto simp: built_from_iff build_def Let_def split: if_splits)
next
  assume "built_from b d \<and> definition_valid d \<and>
     (\<forall>t \<in> set (lb_transitions b). bt_actors t \<noteq> []) \<and> lb_version b \<noteq> Some [] \<and> lb_description b \<noteq> Some []"
  then show "build zodText b = Inr d"
    by (auto simp: built_from_iff intro!: build_total)
qed

section \<open>The schema\<close>

text \<open>
  A schema gives the issues of a value, each with its path and the value found there, or the
  parsed value. The fields of an object are checked in the order of the schema, all of them;
  unknown fields are dropped.
\<close>

type_synonym issue = "string list \<times> js"
type_synonym 'a schema = "string list \<Rightarrow> js \<Rightarrow> issue list + 'a"

fun both :: "issue list + ('a \<Rightarrow> 'b) \<Rightarrow> issue list + 'a \<Rightarrow> issue list + 'b" where
  "both (Inr f) (Inr x) = Inr (f x)"
| "both (Inr f) (Inl e) = Inl e"
| "both (Inl e) (Inr x) = Inl e"
| "both (Inl e) (Inl e') = Inl (e @ e')"

definition z_string :: "string schema" where
  "z_string p v = (case v of JStr s \<Rightarrow> Inr s | _ \<Rightarrow> Inl [(p, v)])"

definition z_boolean :: "bool schema" where
  "z_boolean p v = (case v of JBool b \<Rightarrow> Inr b | _ \<Rightarrow> Inl [(p, v)])"

definition z_record :: "jobj schema" where
  "z_record p v = (case v of JObj kvs \<Rightarrow> Inr kvs | _ \<Rightarrow> Inl [(p, v)])"

definition z_enum :: "(string \<times> 'a) list \<Rightarrow> 'a schema" where
  "z_enum names p v =
     (case v of
        JStr s \<Rightarrow> (case map_of names s of Some x \<Rightarrow> Inr x | None \<Rightarrow> Inl [(p, v)])
      | _ \<Rightarrow> Inl [(p, v)])"

definition z_optional :: "'a schema \<Rightarrow> 'a option schema" where
  "z_optional sch p v = (if v = JUndef then Inr None else both (Inr Some) (sch p v))"

fun z_items :: "'a schema \<Rightarrow> string list \<Rightarrow> nat \<Rightarrow> js list \<Rightarrow> issue list + 'a list" where
  "z_items sch p i [] = Inr []"
| "z_items sch p i (v # vs) =
     both (both (Inr Cons) (sch (p @ [show_nat i]) v)) (z_items sch p (Suc i) vs)"

definition z_array :: "'a schema \<Rightarrow> 'a list schema" where
  "z_array sch p v = (case v of JArr vs \<Rightarrow> z_items sch p 0 vs | _ \<Rightarrow> Inl [(p, v)])"

definition z_nonempty_array :: "'a schema \<Rightarrow> 'a list schema" where
  "z_nonempty_array sch p v = (if v = JArr [] then Inl [(p, v)] else z_array sch p v)"

definition z_field :: "string \<Rightarrow> 'a schema \<Rightarrow> string list \<Rightarrow> jobj \<Rightarrow> issue list + 'a" where
  "z_field k sch p ob = sch (p @ [k]) (obj_get ob k)"

definition z_object :: "(string list \<Rightarrow> jobj \<Rightarrow> issue list + 'a) \<Rightarrow> 'a schema" where
  "z_object body p v = (case v of JObj ob \<Rightarrow> body p ob | _ \<Rightarrow> Inl [(p, v)])"

lemmas z_defs = z_string_def z_boolean_def z_record_def z_enum_def z_optional_def z_array_def
  z_nonempty_array_def z_field_def z_object_def

text \<open>The schemas of \<open>packages/core/src/schemas.ts\<close>.\<close>

definition actor_types :: "(string \<times> actor_type) list" where
  "actor_types = [(''human'', Human), (''automation'', Automation), (''ai-agent'', AiAgent),
     (''system'', System)]"

definition severities :: "(string \<times> severity) list" where
  "severities = [(''hard'', Hard), (''soft'', Soft)]"

definition evaluators :: "(string \<times> evaluated_by) list" where
  "evaluators = [(''runtime'', Runtime), (''module'', Module), (''external'', External)]"

definition GuardSpecSchema :: "guard_spec schema" where
  "GuardSpecSchema = z_object (\<lambda>p ob.
     both (both (both (both (both (both (Inr guard_spec.make)
       (z_field ''id'' z_string p ob))
       (z_field ''description'' z_string p ob))
       (z_field ''severity'' (z_enum severities) p ob))
       (z_field ''evaluatedBy'' (z_enum evaluators) p ob))
       (z_field ''failureMessage'' (z_optional z_string) p ob))
       (z_field ''parameters'' (z_optional z_record) p ob))"

definition TransitionSpecSchema :: "authored_transition schema" where
  "TransitionSpecSchema = z_object (\<lambda>p ob.
     both (both (both (both (both (both (both (both (Inr transition_gen.make)
       (z_field ''id'' z_string p ob))
       (z_field ''from'' z_string p ob))
       (z_field ''to'' z_string p ob))
       (z_field ''signal'' (z_optional z_string) p ob))
       (z_field ''actors'' (z_nonempty_array (z_enum actor_types)) p ob))
       (z_field ''guards'' (z_optional (z_array GuardSpecSchema)) p ob))
       (z_field ''description'' (z_optional z_string) p ob))
       (z_field ''metadata'' (z_optional z_record) p ob))"

definition StateSpecSchema :: "state_spec schema" where
  "StateSpecSchema = z_object (\<lambda>p ob.
     both (both (both (both (both (Inr state_spec.make)
       (z_field ''id'' z_string p ob))
       (z_field ''label'' z_string p ob))
       (z_field ''isTerminal'' (z_optional z_boolean) p ob))
       (z_field ''isError'' (z_optional z_boolean) p ob))
       (z_field ''description'' (z_optional z_string) p ob))"

definition BusinessMetricSchema :: "business_metric schema" where
  "BusinessMetricSchema = z_object (\<lambda>p ob.
     both (both (both (both (Inr business_metric.make)
       (z_field ''id'' z_string p ob))
       (z_field ''label'' z_string p ob))
       (z_field ''unit'' z_string p ob))
       (z_field ''improvableByAI'' (z_optional z_boolean) p ob))"

definition OutcomeSpecSchema :: "outcome_spec schema" where
  "OutcomeSpecSchema = z_object (\<lambda>p ob.
     both (both (both (both (both (Inr outcome_spec.make)
       (z_field ''id'' (z_optional z_string) p ob))
       (z_field ''description'' z_string p ob))
       (z_field ''valueUnit'' z_string p ob))
       (z_field ''measurable'' (z_optional z_boolean) p ob))
       (z_field ''businessMetrics'' (z_array BusinessMetricSchema) p ob))"

definition LoopDefinitionInput :: "authored_definition schema" where
  "LoopDefinitionInput = z_object (\<lambda>p ob.
     both (both (both (both (both (both (both (both (both (both (both (Inr definition_gen.make)
       (z_field ''id'' z_string p ob))
       (z_field ''version'' z_string p ob))
       (z_field ''name'' z_string p ob))
       (z_field ''description'' z_string p ob))
       (z_field ''domain'' (z_optional z_string) p ob))
       (z_field ''states'' (z_array StateSpecSchema) p ob))
       (z_field ''initialState'' z_string p ob))
       (z_field ''transitions'' (z_array TransitionSpecSchema) p ob))
       (z_field ''outcome'' (z_optional OutcomeSpecSchema) p ob))
       (z_field ''tags'' (z_optional (z_array z_string)) p ob))
       (z_field ''metadata'' (z_optional z_record) p ob))"

definition LoopDefinitionSchema :: "loop_definition schema" where
  "LoopDefinitionSchema p v = both (Inr transform_definition) (LoopDefinitionInput p v)"

section \<open>Parsing and serializing\<close>

text \<open>A parsed definition as an authored one: all its signals are there.\<close>

definition as_authored :: "loop_definition \<Rightarrow> authored_definition" where
  "as_authored d =
     \<lparr>def_id = def_id d, def_version = def_version d, def_name = def_name d,
      def_description = def_description d, def_domain = def_domain d,
      def_states = def_states d, def_initialState = def_initialState d,
      def_transitions = map (\<lambda>t.
        \<lparr>tr_id = tr_id t, tr_from = tr_from t, tr_to = tr_to t, tr_signal = Some (tr_signal t),
         tr_actors = tr_actors t, tr_guards = tr_guards t, tr_description = tr_description t,
         tr_metadata = tr_metadata t\<rparr>) (def_transitions d),
      def_outcome = def_outcome d, def_tags = def_tags d, def_metadata = def_metadata d\<rparr>"

definition formatPath :: "string list \<Rightarrow> string" where
  "formatPath p = (if p \<noteq> [] then join ''.'' p else ''root'')"

definition parse_loop ::
    "string \<Rightarrow> (issue \<Rightarrow> string) \<Rightarrow> (string \<Rightarrow> string + js) \<Rightarrow> string \<Rightarrow> string + authored_definition" where
  "parse_loop format zodMessage parse content =
     (case parse content of
        Inl err \<Rightarrow> Inl (''Invalid '' @ format @ '' syntax: '' @ err)
      | Inr parsed \<Rightarrow>
          (case LoopDefinitionSchema [] parsed of
             Inl issues \<Rightarrow> Inl (''Loop definition validation failed: '' @
               join ''; '' (map (\<lambda>i. formatPath (fst i) @ '': '' @ zodMessage i) issues))
           | Inr d \<Rightarrow> Inr (applyAuthoringDefaults (as_authored d))))"

definition parseLoopYaml ::
    "(issue \<Rightarrow> string) \<Rightarrow> (string \<Rightarrow> string + js) \<Rightarrow> string \<Rightarrow> js_error + authored_definition" where
  "parseLoopYaml zodMessage yaml content =
     (case parse_loop ''YAML'' zodMessage yaml content of Inl m \<Rightarrow> Inl (Error m) | Inr d \<Rightarrow> Inr d)"

definition parseLoopYamlSafe ::
    "(issue \<Rightarrow> string) \<Rightarrow> (string \<Rightarrow> string + js) \<Rightarrow> string \<Rightarrow> string + authored_definition" where
  "parseLoopYamlSafe zodMessage yaml content =
     (case parseLoopYaml zodMessage yaml content of
        Inl (Error m) \<Rightarrow> Inl m | Inl _ \<Rightarrow> Inl ''Unknown parse error'' | Inr d \<Rightarrow> Inr d)"

definition parseLoopJson ::
    "(issue \<Rightarrow> string) \<Rightarrow> (string \<Rightarrow> string + js) \<Rightarrow> string \<Rightarrow> js_error + authored_definition" where
  "parseLoopJson zodMessage json content =
     (case parse_loop ''JSON'' zodMessage json content of Inl m \<Rightarrow> Inl (Error m) | Inr d \<Rightarrow> Inr d)"

text \<open>A definition as the object it is at run time: an absent optional field is no property.\<close>

definition js_field :: "string \<Rightarrow> ('a \<Rightarrow> js) \<Rightarrow> 'a option \<Rightarrow> jobj" where
  "js_field k f x = (case x of None \<Rightarrow> [] | Some y \<Rightarrow> [(k, f y)])"

definition js_array :: "('a \<Rightarrow> js) \<Rightarrow> 'a list \<Rightarrow> js" where
  "js_array f xs = JArr (map f xs)"

fun severity_name :: "severity \<Rightarrow> string" where
  "severity_name Hard = ''hard''"
| "severity_name Soft = ''soft''"

fun evaluated_by_name :: "evaluated_by \<Rightarrow> string" where
  "evaluated_by_name Runtime = ''runtime''"
| "evaluated_by_name Module = ''module''"
| "evaluated_by_name External = ''external''"

definition js_guard :: "guard_spec \<Rightarrow> js" where
  "js_guard g = JObj
     ((''id'', JStr (guard_id g)) # (''description'', JStr (guard_description g)) #
      (''severity'', JStr (severity_name (guard_severity g))) #
      (''evaluatedBy'', JStr (evaluated_by_name (guard_evaluatedBy g))) #
      js_field ''failureMessage'' JStr (guard_failureMessage g) @
      js_field ''parameters'' JObj (guard_parameters g))"

definition js_transition :: "transition_spec \<Rightarrow> js" where
  "js_transition t = JObj
     ((''id'', JStr (tr_id t)) # (''from'', JStr (tr_from t)) # (''to'', JStr (tr_to t)) #
      (''signal'', JStr (tr_signal t)) #
      (''actors'', js_array (\<lambda>a. JStr (actor_type_name a)) (tr_actors t)) #
      js_field ''guards'' (js_array js_guard) (tr_guards t) @
      js_field ''description'' JStr (tr_description t) @
      js_field ''metadata'' JObj (tr_metadata t))"

definition js_state :: "state_spec \<Rightarrow> js" where
  "js_state s = JObj
     ((''id'', JStr (st_id s)) # (''label'', JStr (st_label s)) #
      js_field ''isTerminal'' JBool (st_isTerminal s) @ js_field ''isError'' JBool (st_isError s) @
      js_field ''description'' JStr (st_description s))"

definition js_metric :: "business_metric \<Rightarrow> js" where
  "js_metric m = JObj
     ((''id'', JStr (bm_id m)) # (''label'', JStr (bm_label m)) # (''unit'', JStr (bm_unit m)) #
      js_field ''improvableByAI'' JBool (bm_improvableByAI m))"

definition js_outcome :: "outcome_spec \<Rightarrow> js" where
  "js_outcome oc = JObj
     (js_field ''id'' JStr (oc_id oc) @ (''description'', JStr (oc_description oc)) #
      (''valueUnit'', JStr (oc_valueUnit oc)) #
      js_field ''measurable'' JBool (oc_measurable oc) @
      (''businessMetrics'', js_array js_metric (oc_businessMetrics oc)) # [])"

definition buildCanonical :: "loop_definition \<Rightarrow> jobj" where
  "buildCanonical d =
     (''id'', JStr (def_id d)) # (''version'', JStr (def_version d)) #
     (''name'', JStr (def_name d)) # (''description'', JStr (def_description d)) #
     (''states'', js_array js_state (def_states d)) #
     (''initialState'', JStr (def_initialState d)) #
     (''transitions'', js_array js_transition (def_transitions d)) #
     (''outcome'', (case def_outcome d of None \<Rightarrow> JUndef | Some oc \<Rightarrow> js_outcome oc)) #
     js_field ''domain'' JStr (if def_domain d = Some [] then None else def_domain d) @
     js_field ''tags'' (js_array JStr) (def_tags d)"

definition serializeLoopYaml :: "(js \<Rightarrow> string) \<Rightarrow> loop_definition \<Rightarrow> string" where
  "serializeLoopYaml stringify d = stringify (JObj (buildCanonical d))"

definition serializeLoopJson :: "(js \<Rightarrow> string) \<Rightarrow> loop_definition \<Rightarrow> string" where
  "serializeLoopJson stringify d = stringify (JObj (buildCanonical d))"

section \<open>Parsing what was serialized\<close>

named_theorems decodes \<open>a schema reads back what it describes\<close>

lemma js_field_get [simp]:
  "obj_get (js_field k f x @ ob) k' =
     (if k' = k then (case x of None \<Rightarrow> obj_get ob k' | Some y \<Rightarrow> f y) else obj_get ob k')"
  "obj_get (js_field k f x) k' =
     (if k' = k then (case x of None \<Rightarrow> JUndef | Some y \<Rightarrow> f y) else JUndef)"
  by (simp_all add: js_field_def obj_get_def split: option.splits)

lemma obj_get_Cons [simp]:
  "obj_get ((k, v) # ob) k' = (if k' = k then v else obj_get ob k')"
  "obj_get [] k' = JUndef"
  by (simp_all add: obj_get_def)

lemma z_items_map:
  "(\<And>x p. x \<in> set xs \<Longrightarrow> sch p (f x) = Inr (g x)) \<Longrightarrow> z_items sch p i (map f xs) = Inr (map g xs)"
  by (induction xs arbitrary: i) auto

lemma z_array_map:
  "(\<And>x p. x \<in> set xs \<Longrightarrow> sch p (f x) = Inr (g x)) \<Longrightarrow> z_array sch p (js_array f xs) = Inr (map g xs)"
  by (simp add: z_array_def js_array_def z_items_map)

lemma z_simps [simp]:
  "z_string p (JStr s) = Inr s" "z_boolean p (JBool b) = Inr b" "z_record p (JObj kvs) = Inr kvs"
  "z_optional sch p JUndef = Inr None"
  "v \<noteq> JUndef \<Longrightarrow> z_optional sch p v = both (Inr Some) (sch p v)"
  by (simp_all add: z_defs)

lemma z_optional_case:
  assumes "\<And>y p. x = Some y \<Longrightarrow> sch p (f y) = Inr y" "\<And>y. f y \<noteq> JUndef"
  shows "z_optional sch p (case x of None \<Rightarrow> JUndef | Some y \<Rightarrow> f y) = Inr x"
  using assms by (cases x) (auto simp: z_optional_def)

lemma z_enum_names [simp]:
  "z_enum actor_types p (JStr (actor_type_name a)) = Inr a"
  "z_enum severities p (JStr (severity_name sv)) = Inr sv"
  "z_enum evaluators p (JStr (evaluated_by_name ev)) = Inr ev"
proof -
  show "z_enum actor_types p (JStr (actor_type_name a)) = Inr a"
    by (cases a) (simp_all add: z_enum_def actor_types_def)
  show "z_enum severities p (JStr (severity_name sv)) = Inr sv"
    by (cases sv) (simp_all add: z_enum_def severities_def)
  show "z_enum evaluators p (JStr (evaluated_by_name ev)) = Inr ev"
    by (cases ev) (simp_all add: z_enum_def evaluators_def)
qed

lemma js_not_undefined [simp]:
  "js_array f xs \<noteq> JUndef" "js_outcome oc \<noteq> JUndef"
  by (simp_all add: js_array_def js_outcome_def)

lemmas decode_defs = z_object_def z_field_def z_optional_case

lemma js_array_decodes: "(\<And>x p. x \<in> set xs \<Longrightarrow> sch p (f x) = Inr x) \<Longrightarrow>
    z_array sch p (js_array f xs) = Inr xs"
  using z_array_map[of xs sch f "\<lambda>x. x" p] by simp

lemma js_guard_decodes: "GuardSpecSchema p (js_guard g) = Inr g"
  by (simp add: GuardSpecSchema_def js_guard_def decode_defs guard_spec.make_def cong: option.case_cong)

lemma js_actors_decode: "as \<noteq> [] \<Longrightarrow>
    z_nonempty_array (z_enum actor_types) p (js_array (\<lambda>a. JStr (actor_type_name a)) as) = Inr as"
  by (simp add: z_nonempty_array_def js_array_decodes) (simp add: js_array_def)

lemma js_transition_decodes:
  "tr_actors t \<noteq> [] \<Longrightarrow> TransitionSpecSchema p (js_transition t) =
     Inr \<lparr>tr_id = tr_id t, tr_from = tr_from t, tr_to = tr_to t, tr_signal = Some (tr_signal t),
          tr_actors = tr_actors t, tr_guards = tr_guards t, tr_description = tr_description t,
          tr_metadata = tr_metadata t\<rparr>"
  by (simp add: TransitionSpecSchema_def js_transition_def decode_defs js_actors_decode
      js_array_decodes js_guard_decodes transition_gen.make_def cong: option.case_cong)

lemma js_state_decodes: "StateSpecSchema p (js_state s) = Inr s"
  by (simp add: StateSpecSchema_def js_state_def decode_defs state_spec.make_def cong: option.case_cong)

lemma js_metric_decodes: "BusinessMetricSchema p (js_metric m) = Inr m"
  by (simp add: BusinessMetricSchema_def js_metric_def decode_defs business_metric.make_def cong: option.case_cong)

lemma js_outcome_decodes: "OutcomeSpecSchema p (js_outcome oc) = Inr oc"
  by (simp add: OutcomeSpecSchema_def js_outcome_def decode_defs js_array_decodes js_metric_decodes
      outcome_spec.make_def cong: option.case_cong)

text \<open>What the canonical object keeps: all but the metadata and an empty domain.\<close>

definition canonical_part :: "loop_definition \<Rightarrow> loop_definition" where
  "canonical_part d =
     d\<lparr>def_domain := (if def_domain d = Some [] then None else def_domain d), def_metadata := None\<rparr>"

text \<open>Text formats have no \<open>undefined\<close>: a property with that value is not written.\<close>

definition defined_props :: "jobj \<Rightarrow> jobj" where
  "defined_props kvs = filter (\<lambda>(k, v). v \<noteq> JUndef) kvs"

lemma obj_get_defined: "distinct (map fst kvs) \<Longrightarrow> obj_get (defined_props kvs) = obj_get kvs"
proof (induction kvs)
  case (Cons kv kvs)
  have "obj_get kvs (fst kv) = JUndef"
    using Cons.prems by (auto simp: obj_get_def split: option.splits dest: map_of_SomeD intro: rev_image_eqI)
  with Cons show ?case by (cases kv) (auto simp: defined_props_def fun_eq_iff)
qed (simp add: defined_props_def)

lemma buildCanonical_keys: "distinct (map fst (buildCanonical d))"
  by (simp add: buildCanonical_def js_field_def split: option.splits)

lemma buildCanonical_decodes:
  assumes "\<forall>t \<in> set (def_transitions d). tr_actors t \<noteq> []"
  shows "LoopDefinitionInput [] (JObj (defined_props (buildCanonical d))) = Inr (as_authored (canonical_part d))"
proof -
  have transitions: "z_array TransitionSpecSchema p (js_array js_transition (def_transitions d)) =
      Inr (def_transitions (as_authored d))" for p
    unfolding as_authored_def using assms by (auto intro!: z_array_map js_transition_decodes)
  have get: "obj_get (defined_props (buildCanonical d)) = obj_get (buildCanonical d)"
    using obj_get_defined buildCanonical_keys by blast
  show ?thesis
    unfolding LoopDefinitionInput_def z_object_def z_field_def jsval.case get
    by (simp add: buildCanonical_def decode_defs js_array_decodes
        js_state_decodes transitions js_outcome_decodes definition_gen.make_def cong: option.case_cong)
      (simp add: as_authored_def canonical_part_def)
qed

lemma transform_as_authored [simp]: "transform_definition (as_authored d) = d"
proof -
  have "transform_transition \<lparr>tr_id = tr_id t, tr_from = tr_from t, tr_to = tr_to t,
      tr_signal = Some (tr_signal t), tr_actors = tr_actors t, tr_guards = tr_guards t,
      tr_description = tr_description t, tr_metadata = tr_metadata t\<rparr> = t" for t :: transition_spec
    by (cases t) (simp add: transform_transition_def)
  then show ?thesis
    by (cases d) (simp add: transform_definition_def as_authored_def comp_def)
qed

lemma as_authored_defaults [simp]: "applyAuthoringDefaults (as_authored d) = as_authored d"
  by (simp add: applyAuthoringDefaults_def as_authored_def list_ex_iff)

lemma parse_loop_canonical:
  assumes "\<forall>t \<in> set (def_transitions d). tr_actors t \<noteq> []"
    and "parse (stringify (JObj (buildCanonical d))) = Inr (JObj (defined_props (buildCanonical d)))"
  shows "parse_loop format msg parse (stringify (JObj (buildCanonical d))) =
    Inr (as_authored (canonical_part d))"
  using assms by (simp add: parse_loop_def LoopDefinitionSchema_def buildCanonical_decodes)

end
