(* ===== verification/Observability.thy ===== *)
theory Observability
  imports Core "HOL-Library.Multiset"
begin

text \<open>
  \<open>packages/observability\<close> on loop instances and their histories: the replay check
  (\<open>replay.ts\<close>), the timeline and state residency of an instance (\<open>timeline.ts\<close>) and the
  metrics of a population (\<open>metrics.ts\<close>).

  Quotients are exact rationals where the program rounds to a double. Dates are read by the
  host; the order of records with unreadable dates is left to the JavaScript engine, an
  argument of \<open>sort_by_date\<close>.
\<close>

section \<open>Replay\<close>

record replay_result =
  rp_valid :: bool
  rp_errors :: "string list"

definition replay_matches :: "loop_definition \<Rightarrow> string \<Rightarrow> transition_record \<Rightarrow> bool" where
  "replay_matches d state r =
     list_ex (\<lambda>t. tr_id t = rec_transitionId r \<and> tr_from t = state \<and> tr_to t = rec_toState r)
       (def_transitions d)"

fun replay_errors :: "loop_definition \<Rightarrow> string \<Rightarrow> transition_record list \<Rightarrow> string list" where
  "replay_errors d state [] = []"
| "replay_errors d state (r # rs) =
     (if \<not> replay_matches d state r
      then (''Invalid transition '' @ rec_transitionId r @ '' from '' @ state @ '' to '' @ rec_toState r)
           # replay_errors d state rs
      else replay_errors d (rec_toState r) rs)"

definition replayLoop :: "loop_definition \<Rightarrow> transition_record list \<Rightarrow> replay_result" where
  "replayLoop d history =
     (let errors = replay_errors d (def_initialState d) history
      in \<lparr>rp_valid = (errors = []), rp_errors = errors\<rparr>)"

text \<open>A history the replay accepts is a walk through the definition.\<close>

fun walk :: "loop_definition \<Rightarrow> string \<Rightarrow> transition_record list \<Rightarrow> bool" where
  "walk d state [] = True"
| "walk d state (r # rs) = (replay_matches d state r \<and> walk d (rec_toState r) rs)"

lemma replay_errors_none: "replay_errors d s rs = [] \<longleftrightarrow> walk d s rs"
  by (induction rs arbitrary: s) auto

lemma replayLoop_valid: "rp_valid (replayLoop d h) \<longleftrightarrow> walk d (def_initialState d) h"
  by (simp add: replayLoop_def Let_def replay_errors_none)

text \<open>One error for each record that does not fit, none more.\<close>

lemma replay_errors_length: "length (replay_errors d s rs) \<le> length rs"
  by (induction d s rs rule: replay_errors.induct) auto

section \<open>Timeline and residency\<close>

definition date_of :: "host \<Rightarrow> string \<Rightarrow> rat" where
  "date_of h s = (case parse_date h s of Fin a \<Rightarrow> a | _ \<Rightarrow> 0)"

definition readable :: "host \<Rightarrow> string \<Rightarrow> bool" where
  "readable h s = is_finite (parse_date h s)"

text \<open>The stable sort by \<open>Date.parse(left) - Date.parse(right)\<close>.\<close>

definition sort_by_date ::
    "host \<Rightarrow> ('a list \<Rightarrow> 'a list) \<Rightarrow> ('a \<Rightarrow> string) \<Rightarrow> 'a list \<Rightarrow> 'a list" where
  "sort_by_date h engineOrder f xs =
     (if list_all (\<lambda>x. readable h (f x)) xs then sort_key (\<lambda>x. date_of h (f x)) xs
      else engineOrder xs)"

record loop_timeline =
  tl_aggregateId :: string
  tl_loopId :: string
  tl_instance :: loop_instance
  tl_transitions :: "transition_record list"
  tl_durationMs :: jsnum
  tl_isComplete :: bool

record state_residency =
  sr_stateId :: string
  sr_enteredAt :: string
  sr_exitedAt :: "string option"
  sr_durationMs :: "jsnum option"

definition elapsed :: "host \<Rightarrow> string \<Rightarrow> string \<Rightarrow> jsnum" where
  "elapsed h from to = num_max0 (num_sub (parse_date h to) (parse_date h from))"

definition buildTimeline ::
    "host \<Rightarrow> (transition_record list \<Rightarrow> transition_record list) \<Rightarrow> string \<Rightarrow>
     loop_instance \<Rightarrow> transition_record list \<Rightarrow> loop_timeline" where
  "buildTimeline h engineOrder now i history =
     (let end = (case inst_completedAt i of Some t \<Rightarrow> t | None \<Rightarrow> now)
      in \<lparr>tl_aggregateId = inst_aggregateId i, tl_loopId = inst_loopId i, tl_instance = i,
          tl_transitions = sort_by_date h engineOrder rec_occurredAt history,
          tl_durationMs = elapsed h (inst_startedAt i) end,
          tl_isComplete = (inst_status i = Completed)\<rparr>)"

text \<open>The residency before each transition, and the one after the last.\<close>

fun residencies ::
    "host \<Rightarrow> string option \<Rightarrow> string \<Rightarrow> string \<Rightarrow> transition_record list \<Rightarrow> state_residency list" where
  "residencies h completedAt current enteredAt [] =
     [\<lparr>sr_stateId = current, sr_enteredAt = enteredAt, sr_exitedAt = completedAt,
       sr_durationMs = map_option (elapsed h enteredAt) completedAt\<rparr>]"
| "residencies h completedAt current enteredAt (t # ts) =
     \<lparr>sr_stateId = current, sr_enteredAt = enteredAt, sr_exitedAt = Some (rec_occurredAt t),
      sr_durationMs = Some (elapsed h enteredAt (rec_occurredAt t))\<rparr>
     # residencies h completedAt (rec_toState t) (rec_occurredAt t) ts"

definition getStateResidency :: "host \<Rightarrow> loop_timeline \<Rightarrow> state_residency list" where
  "getStateResidency h timeline =
     residencies h (if inst_completedAt (tl_instance timeline) = Some [] then None
                    else inst_completedAt (tl_instance timeline))
       (inst_currentState (tl_instance timeline)) (inst_startedAt (tl_instance timeline)) (tl_transitions timeline)"

text \<open>A residency list has no gap: each state is left at the moment the following one is entered.\<close>

fun contiguous :: "state_residency list \<Rightarrow> bool" where
  "contiguous (a # b # rs) = (sr_exitedAt a = Some (sr_enteredAt b) \<and> contiguous (b # rs))"
| "contiguous _ = True"

lemma residencies_Cons:
  "\<exists>r rs. residencies h c cur ent ts = r # rs \<and> sr_enteredAt r = ent \<and> sr_stateId r = cur"
  by (cases ts) auto

lemma residencies_contiguous: "contiguous (residencies h c cur ent ts)"
proof (induction ts arbitrary: cur ent)
  case (Cons t ts)
  obtain r rs where "residencies h c (rec_toState t) (rec_occurredAt t) ts = r # rs"
    "sr_enteredAt r = rec_occurredAt t"
    using residencies_Cons by blast
  with Cons[of "rec_toState t" "rec_occurredAt t"] show ?case by simp
qed simp

lemma residencies_states:
  "map sr_stateId (residencies h c cur ent ts) = cur # map rec_toState ts"
  by (induction ts arbitrary: cur ent) auto

lemma sort_by_date_sorted:
  "list_all (\<lambda>x. readable h (f x)) xs \<Longrightarrow>
     sorted (map (\<lambda>x. date_of h (f x)) (sort_by_date h o' f xs)) \<and> mset (sort_by_date h o' f xs) = mset xs"
  by (simp add: sort_by_date_def)

text \<open>A history whose times do not decrease keeps its order.\<close>

lemma sort_by_date_id:
  "list_all (\<lambda>x. readable h (f x)) xs \<Longrightarrow> sorted (map (\<lambda>x. date_of h (f x)) xs) \<Longrightarrow>
     sort_by_date h o' f xs = xs"
  by (simp add: sort_by_date_def sorted_sort_id sort_key_id_if_sorted)

section \<open>Metrics\<close>

record loop_metrics =
  mt_loopId :: string
  mt_totalInstances :: nat
  mt_openInstances :: nat
  mt_closedInstances :: nat
  mt_errorInstances :: nat
  mt_avgDurationMs :: rat
  mt_medianDurationMs :: rat
  mt_p95DurationMs :: rat
  mt_completionRate :: rat
  mt_guardFailureRate :: rat
  mt_aiActorRate :: rat
  mt_humanActorRate :: rat
  mt_avgTransitionCount :: rat

definition percentile_index :: "nat \<Rightarrow> rat \<Rightarrow> int" where
  "percentile_index n p = min (int n - 1) \<lfloor>(p / 100) * of_nat n\<rfloor>"

definition percentile :: "rat list \<Rightarrow> rat \<Rightarrow> rat" where
  "percentile values p =
     (if values = [] then 0
      else
        (let sorted = sort values;
             idx = percentile_index (length sorted) p
         in if 0 \<le> idx then sorted ! nat idx else 0))"

text \<open>\<open>xs.reduce((a, b) => a + b, 0) / xs.length\<close>, guarded against no elements.\<close>

definition average :: "rat list \<Rightarrow> rat" where
  "average xs = (if xs = [] then 0 else fold (\<lambda>b a. a + b) xs 0 / of_nat (length xs))"

definition ratio :: "nat \<Rightarrow> nat \<Rightarrow> rat" where
  "ratio a n = (if n > 0 then of_nat a / of_nat n else 0)"

definition positive_duration :: "host \<Rightarrow> loop_instance \<Rightarrow> rat option" where
  "positive_duration h i =
     (case inst_completedAt i of
        None \<Rightarrow> None
      | Some t \<Rightarrow>
          if t = [] then None
          else (case num_sub (parse_date h t) (parse_date h (inst_startedAt i)) of
                  Fin a \<Rightarrow> if a > 0 then Some a else None
                | _ \<Rightarrow> None))"

definition count_by_aggregate :: "transition_record list \<Rightarrow> (string \<times> nat) list" where
  "count_by_aggregate history =
     fold (\<lambda>r m. AList.update (rec_aggregateId r)
        ((case map_of m (rec_aggregateId r) of None \<Rightarrow> 0 | Some n \<Rightarrow> n) + 1) m) history []"

definition count_if :: "('a \<Rightarrow> bool) \<Rightarrow> 'a list \<Rightarrow> nat" where
  "count_if P xs = length (filter P xs)"

definition computeMetrics ::
    "host \<Rightarrow> loop_instance list \<Rightarrow> transition_record list \<Rightarrow> loop_metrics" where
  "computeMetrics h instances history =
     (let closed = count_if (\<lambda>i. inst_status i = Completed) instances;
          error = count_if (\<lambda>i. inst_status i = Failed) instances;
          durations = List.map_filter (positive_duration h) instances;
          byAggregate = count_by_aggregate history
      in \<lparr>mt_loopId = (case instances of [] \<Rightarrow> ''unknown.loop'' | i # _ \<Rightarrow> inst_loopId i),
          mt_totalInstances = length instances,
          mt_openInstances = count_if (\<lambda>i. inst_status i = Active) instances,
          mt_closedInstances = closed, mt_errorInstances = error,
          mt_avgDurationMs = average durations,
          mt_medianDurationMs = percentile durations 50,
          mt_p95DurationMs = percentile durations 95,
          mt_completionRate = ratio closed (closed + error),
          mt_guardFailureRate = 0,
          mt_aiActorRate =
            ratio (count_if (\<lambda>r. actor_type (rec_actor r) = AiAgent) history) (length history),
          mt_humanActorRate =
            ratio (count_if (\<lambda>r. actor_type (rec_actor r) = Human) history) (length history),
          mt_avgTransitionCount = average (map (\<lambda>(a, n). of_nat n) byAggregate)\<rparr>)"

lemma ratio_bounds: "a \<le> n \<Longrightarrow> 0 \<le> ratio a n \<and> ratio a n \<le> 1"
  by (simp add: ratio_def divide_le_eq)

lemma count_le: "count_if P xs \<le> length xs"
  by (simp add: count_if_def)

lemma count_disjoint:
  "(\<And>x. \<not> (P x \<and> Q x)) \<Longrightarrow> count_if P xs + count_if Q xs \<le> length xs"
  by (induction xs) (auto simp: count_if_def)

text \<open>The index the percentile reads is one of the list.\<close>

lemma percentile_index_range:
  assumes "0 < n" "0 \<le> p"
  shows "0 \<le> percentile_index n p" "nat (percentile_index n p) < n"
proof -
  from assms have "0 \<le> (p / 100) * of_nat n" by simp
  then have "0 \<le> \<lfloor>(p / 100) * of_nat n\<rfloor>" by simp
  with assms(1) show "0 \<le> percentile_index n p" by (simp add: percentile_index_def)
  have "percentile_index n p \<le> int n - 1" by (simp add: percentile_index_def)
  with assms(1) show "nat (percentile_index n p) < n" by arith
qed

lemma percentile_eq:
  "values \<noteq> [] \<Longrightarrow> 0 \<le> p \<Longrightarrow>
     percentile values p = sort values ! nat (percentile_index (length values) p)"
  using percentile_index_range[of "length values" p]
  by (simp add: percentile_def Let_def flip: percentile_index_def)

text \<open>A percentile is one of the values, and grows with \<open>p\<close>.\<close>

lemma percentile_member:
  assumes "values \<noteq> []" "0 \<le> p"
  shows "percentile values p \<in> set values"
proof -
  have "nat (percentile_index (length values) p) < length (sort values)"
    using assms percentile_index_range[of "length values" p] by simp
  then have "sort values ! nat (percentile_index (length values) p) \<in> set (sort values)"
    by (rule nth_mem)
  with assms show ?thesis by (simp add: percentile_eq)
qed

lemma percentile_mono:
  assumes "0 \<le> p" "p \<le> q"
  shows "percentile values p \<le> percentile values q"
proof (cases "values = []")
  case False
  let ?n = "length values"
  from assms have "(p / 100) * of_nat ?n \<le> (q / 100) * of_nat ?n"
    by (simp add: mult_right_mono)
  then have "percentile_index ?n p \<le> percentile_index ?n q"
    unfolding percentile_index_def by (intro min.mono order_refl floor_mono)
  moreover have "nat (percentile_index ?n q) < length (sort values)"
    using False assms percentile_index_range[of ?n q] by simp
  ultimately have "sort values ! nat (percentile_index ?n p) \<le> sort values ! nat (percentile_index ?n q)"
    by (intro sorted_nth_mono) auto
  with False assms show ?thesis by (simp add: percentile_eq)
qed (simp add: percentile_def)

lemma positive_duration_pos: "positive_duration h i = Some x \<Longrightarrow> 0 < x"
  by (auto simp: positive_duration_def split: option.splits jsnum.splits if_splits)

lemma positive_durations_pos:
  "x \<in> set (List.map_filter (positive_duration h) instances) \<Longrightarrow> 0 < x"
  by (auto simp: map_filter_def dest: positive_duration_pos)

end
