(* ===== verification/Samples.thy ===== *)
theory Samples
  imports Engine_Events Lifecycle Loop_Definition Observability
begin

text \<open>
  A small approval loop with its engine over the in-memory store, on which the witnesses of the
  properties are evaluated: a draft is submitted by a person or an AI actor, then approved by a
  person, whose approval is final.
\<close>

definition sample_host :: host where
  "sample_host =
     \<lparr>show_num = (\<lambda>_. ''1''), parse_num = (\<lambda>_. NaN), parse_date = (\<lambda>_. Fin 0),
      show_date = (\<lambda>_. ''date''), show_fun = ''function''\<rparr>"

definition sample_env :: env where
  "sample_env = \<lparr>uuid = (\<lambda>_. ''id''), iso_now = (\<lambda>_. ''now''), date_now = (\<lambda>_. 0)\<rparr>"

definition sample_state :: "string \<Rightarrow> bool \<Rightarrow> state_spec" where
  "sample_state s terminal =
     \<lparr>st_id = s, st_label = s, st_isTerminal = (if terminal then Some True else None),
      st_isError = None, st_description = None\<rparr>"

definition sample_guard :: "string \<Rightarrow> severity \<Rightarrow> guard_spec" where
  "sample_guard g sev =
     \<lparr>guard_id = g, guard_description = ''guard'', guard_severity = sev,
      guard_evaluatedBy = Runtime, guard_failureMessage = None, guard_parameters = None\<rparr>"

definition submit :: transition_spec where
  "submit =
     \<lparr>tr_id = ''submit'', tr_from = ''draft'', tr_to = ''review'', tr_signal = ''submit'',
      tr_actors = [Human, AiAgent], tr_guards = Some [sample_guard ''human-only'' Soft],
      tr_description = None, tr_metadata = None\<rparr>"

definition approve :: transition_spec where
  "approve =
     \<lparr>tr_id = ''approve'', tr_from = ''review'', tr_to = ''approved'', tr_signal = ''approve'',
      tr_actors = [Human, Automation], tr_guards = Some [sample_guard ''human-only'' Hard],
      tr_description = None, tr_metadata = None\<rparr>"

definition sample_loop :: loop_definition where
  "sample_loop =
     \<lparr>def_id = ''doc.approval'', def_version = ''1.0.0'', def_name = ''Approval'',
      def_description = ''approval of a document'', def_domain = Some ''doc'',
      def_states = [sample_state ''draft'' False, sample_state ''review'' False,
        sample_state ''approved'' True],
      def_initialState = ''draft'', def_transitions = [submit, approve], def_outcome = None,
      def_tags = Some [''doc''], def_metadata = None\<rparr>"

definition sample_registry :: definitions where
  "sample_registry l = (if l = ''doc.approval'' then Some sample_loop else None)"

type_synonym sample_world = "(memory_store, jobj list) world"

definition sample_engine :: "(memory_store, jobj list) engine" where
  "sample_engine =
     \<lparr>eng_store = memory_ops, eng_registry = sample_registry,
      eng_eventBus = Some (\<lambda>_ _. None), eng_guardRegistry = None,
      eng_snapshotStore = Some (\<lambda>tenant aggregate rows p. (Inr (map (\<lambda>_. ''snap'') rows), p @ rows)),
      eng_now = None, eng_host = sample_host, eng_env = sample_env, eng_sha256 = (\<lambda>_. ''hash'')\<rparr>"

definition sample_world :: sample_world where
  "sample_world = \<lparr>w_store = ms_empty, w_snap = [], w_emitted = [], w_tick = 0\<rparr>"

definition actor :: "string \<Rightarrow> actor_type \<Rightarrow> actor_ref" where
  "actor i t = \<lparr>actor_id = i, actor_type = t, actor_displayName = None, actor_metadata = None\<rparr>"

definition start_doc :: "string \<Rightarrow> start_params" where
  "start_doc a =
     \<lparr>sp_loopId = ''doc.approval'', sp_aggregateId = a, sp_actor = actor ''ann'' Human,
      sp_correlationId = None, sp_metadata = None\<rparr>"

definition take_step :: "string \<Rightarrow> string \<Rightarrow> actor_type \<Rightarrow> transition_params" where
  "take_step a t ty =
     \<lparr>tp_aggregateId = a, tp_transitionId = t, tp_actor = actor ''bob'' ty, tp_evidence = None,
      tp_evidenceSnapshots = JUndef, tp_tenantId = None, tp_correlationId = None,
      tp_constraints = None\<rparr>"

definition sample_calls :: "call list" where
  "sample_calls =
     [CallStart (start_doc ''d1''), CallTransition (take_step ''d1'' ''submit'' AiAgent),
      CallTransition (take_step ''d1'' ''approve'' Human)]"

lemmas sample_defs = sample_host_def sample_env_def sample_state_def sample_guard_def submit_def
  approve_def sample_loop_def sample_registry_def sample_engine_def sample_world_def actor_def
  start_doc_def take_step_def sample_calls_def

lemma sample_engine_sel [simp]:
  "eng_store sample_engine = memory_ops" "eng_registry sample_engine = sample_registry"
  "w_store sample_world = ms_empty" "bus_on sample_engine"
  by (simp_all add: sample_engine_def sample_world_def bus_on_def)

lemma sample_registry_wf: "registry_wf sample_registry"
  by (simp add: registry_wf_def sample_registry_def sample_loop_def definition_wf_def declared_def
      submit_def approve_def sample_state_def)

text \<open>The loop runs to its end.\<close>

lemma sample_run:
  "map_option inst_status (getState sample_engine (run_calls sample_engine sample_calls sample_world) ''d1'')
     = Some Completed"
  by code_simp

lemma sample_run_history:
  "map rec_toState (getHistory sample_engine (run_calls sample_engine sample_calls sample_world) ''d1'')
     = [''review'', ''approved'']"
  by code_simp

text \<open>The same loop with governed evidence, and a snapshot for its first step.\<close>

definition governed_engine :: "(memory_store, jobj list) engine" where
  "governed_engine = sample_engine\<lparr>eng_registry := (\<lambda>l. if l = ''doc.approval''
     then Some (sample_loop\<lparr>def_metadata := Some [(''governedEvidence'', JBool True)]\<rparr>) else None)\<rparr>"

definition sample_snapshot :: js where
  "sample_snapshot = JObj
     [(''snapshotKey'', JStr ''k1''), (''sourceSystem'', JStr ''erp''), (''capturedAt'', JStr ''now''),
      (''capturedBy'', JStr ''ann''), (''values'', JObj [(''ok'', JBool True)]),
      (''versions'', launch_versions)]"

definition governed_step :: transition_params where
  "governed_step = (take_step ''d1'' ''submit'' Human)\<lparr>tp_evidenceSnapshots := JArr [sample_snapshot]\<rparr>"

lemma governed_run:
  "(case fst (transition governed_engine governed_step
       (run_calls governed_engine [CallStart (start_doc ''d1'')] sample_world)) of
      Inl _ \<Rightarrow> False | Inr res \<Rightarrow> res_status res = Executed)"
  by code_simp

text \<open>A guard that fails without saying why.\<close>

definition silent_guard :: guard_evaluator where
  "silent_guard h now ctx params =
     Inr \<lparr>gr_passed = False, gr_code = None, gr_message = None, gr_metadata = None\<rparr>"

definition silent_engine :: "(memory_store, jobj list) engine" where
  "silent_engine = sample_engine\<lparr>eng_guardRegistry :=
     Some (register_guard defaultRegistry ''human-only'' silent_guard)\<rparr>"

end
