(* ===== verification/Database.thy ===== *)
theory Database
  imports Prelude
begin

text \<open>
  The database client of the runtime is generated code over a server. A table is a record of the
  client's operations on it over an abstract state of the database, an argument of the definitions
  that use it; \<open>table_ok\<close> states what the documentation of the client promises of them, for a
  view of the state as rows. The uniqueness constraints come from
  \<open>packages/runtime-db/prisma/schema.prisma\<close>.
\<close>

section \<open>Errors\<close>

text \<open>
  The error classes the routes tell apart; anything else that is thrown is the value thrown.
\<close>

datatype runtime_error =
    AuthenticationError string
  | EntitlementsDeniedError string
  | QuotaExceededError string
  | IdempotencyConflictError string string
  | UniqueConflictError "string list"
  | EngineError js_error
  | Thrown js

section \<open>Tables\<close>

text \<open>
  Find the first row of a condition, find all, create, update the row of a condition. Each may
  throw; the value thrown is arbitrary.
\<close>

record ('d, 'r) table =
  t_find :: "('r \<Rightarrow> bool) \<Rightarrow> (js, 'd, 'r option) eop"
  t_many :: "('r \<Rightarrow> bool) \<Rightarrow> (js, 'd, 'r list) eop"
  t_create :: "'r \<Rightarrow> (js, 'd, 'r) eop"
  t_update :: "('r \<Rightarrow> bool) \<Rightarrow> ('r \<Rightarrow> 'r) \<Rightarrow> (js, 'd, 'r) eop"

definition rethrow :: "(js, 'd, 'a) eop \<Rightarrow> (runtime_error, 'd, 'a) eop" where
  "rethrow m d = (case m d of (Inl e, d') \<Rightarrow> (Inl (Thrown e), d') | (Inr x, d') \<Rightarrow> (Inr x, d'))"

text \<open>
  What the client promises. A read does not change the rows; it gives rows of the condition, and
  none (of a single read) only when there is none. A create adds a row with the given data or fails
  without effect; an update changes the data of one row of the condition, or fails without effect.
  \<open>made\<close> and \<open>kept\<close> leave out the columns the database fills in itself on a create and an update.
\<close>

definition replaces ::
    "('r \<Rightarrow> 'c) \<Rightarrow> ('r \<Rightarrow> bool) \<Rightarrow> ('r \<Rightarrow> 'r) \<Rightarrow> 'r \<Rightarrow> 'r list \<Rightarrow> 'r list \<Rightarrow> bool" where
  "replaces data P f r' rs rs' \<longleftrightarrow>
     (\<exists>k < length rs. P (rs ! k) \<and> data r' = data (f (rs ! k)) \<and> rs' = rs[k := r'])"

definition find_ok :: "('d, 'r) table \<Rightarrow> ('d \<Rightarrow> 'r list) \<Rightarrow> bool" where
  "find_ok tb rows \<longleftrightarrow>
     (\<forall>P d. rows (snd (t_find tb P d)) = rows d \<and>
        (case fst (t_find tb P d) of
           Inl e \<Rightarrow> True
         | Inr None \<Rightarrow> \<forall>x \<in> set (rows d). \<not> P x
         | Inr (Some x) \<Rightarrow> x \<in> set (rows d) \<and> P x))"

definition many_ok :: "('d, 'r) table \<Rightarrow> ('d \<Rightarrow> 'r list) \<Rightarrow> bool" where
  "many_ok tb rows \<longleftrightarrow>
     (\<forall>P d. rows (snd (t_many tb P d)) = rows d \<and>
        (case fst (t_many tb P d) of Inl e \<Rightarrow> True | Inr rs \<Rightarrow> rs = filter P (rows d)))"

definition create_ok :: "('d, 'r) table \<Rightarrow> ('r \<Rightarrow> 'c) \<Rightarrow> ('d \<Rightarrow> 'r list) \<Rightarrow> bool" where
  "create_ok tb data rows \<longleftrightarrow>
     (\<forall>x d. case fst (t_create tb x d) of
        Inl e \<Rightarrow> rows (snd (t_create tb x d)) = rows d
      | Inr x' \<Rightarrow> data x' = data x \<and> rows (snd (t_create tb x d)) = rows d @ [x'])"

definition update_ok :: "('d, 'r) table \<Rightarrow> ('r \<Rightarrow> 'c) \<Rightarrow> ('d \<Rightarrow> 'r list) \<Rightarrow> bool" where
  "update_ok tb data rows \<longleftrightarrow>
     (\<forall>P f d. case fst (t_update tb P f d) of
        Inl e \<Rightarrow> rows (snd (t_update tb P f d)) = rows d
      | Inr x \<Rightarrow> replaces data P f x (rows d) (rows (snd (t_update tb P f d))))"

definition table_ok ::
    "('d, 'r) table \<Rightarrow> ('r \<Rightarrow> 'c) \<Rightarrow> ('r \<Rightarrow> 'k) \<Rightarrow> ('d \<Rightarrow> 'r list) \<Rightarrow> bool" where
  "table_ok tb made kept rows \<longleftrightarrow>
     find_ok tb rows \<and> many_ok tb rows \<and> create_ok tb made rows \<and> update_ok tb kept rows"

lemma table_find:
  assumes "table_ok tb made kept rows" "t_find tb P d = (r, d')"
  shows "rows d' = rows d"
    and "r = Inr None \<Longrightarrow> x \<in> set (rows d) \<Longrightarrow> \<not> P x"
    and "r = Inr (Some y) \<Longrightarrow> y \<in> set (rows d) \<and> P y"
proof -
  have "rows (snd (t_find tb P d)) = rows d \<and>
        (case fst (t_find tb P d) of
           Inl e \<Rightarrow> True
         | Inr None \<Rightarrow> \<forall>x \<in> set (rows d). \<not> P x
         | Inr (Some x) \<Rightarrow> x \<in> set (rows d) \<and> P x)"
    using assms(1) unfolding table_ok_def find_ok_def by blast
  with assms(2) show "rows d' = rows d" "r = Inr None \<Longrightarrow> x \<in> set (rows d) \<Longrightarrow> \<not> P x"
    "r = Inr (Some y) \<Longrightarrow> y \<in> set (rows d) \<and> P y"
    by auto
qed

lemma table_found:
  "table_ok tb made kept rows \<Longrightarrow> t_find tb P d = (Inr (Some y), d') \<Longrightarrow>
     y \<in> set (rows d) \<and> P y \<and> rows d' = rows d"
  using table_find(1)[of tb made kept rows P d "Inr (Some y)" d']
    table_find(3)[of tb made kept rows P d "Inr (Some y)" d' y] by simp

lemma table_not_found:
  "table_ok tb made kept rows \<Longrightarrow> t_find tb P d = (Inr None, d') \<Longrightarrow>
     (\<forall>x \<in> set (rows d). \<not> P x) \<and> rows d' = rows d"
  using table_find(1)[of tb made kept rows P d "Inr None" d']
    table_find(2)[of tb made kept rows P d "Inr None" d'] by simp

lemma table_many:
  assumes "table_ok tb made kept rows" "t_many tb P d = (r, d')"
  shows "rows d' = rows d" and "r = Inr rs \<Longrightarrow> rs = filter P (rows d)"
proof -
  have "rows (snd (t_many tb P d)) = rows d \<and>
        (case fst (t_many tb P d) of Inl e \<Rightarrow> True | Inr rs \<Rightarrow> rs = filter P (rows d))"
    using assms(1) unfolding table_ok_def many_ok_def by blast
  with assms(2) show "rows d' = rows d" "r = Inr rs \<Longrightarrow> rs = filter P (rows d)" by auto
qed

lemma table_create:
  assumes "table_ok tb made kept rows" "t_create tb x d = (r, d')"
  shows "r = Inl e \<Longrightarrow> rows d' = rows d"
    and "r = Inr x' \<Longrightarrow> made x' = made x \<and> rows d' = rows d @ [x']"
proof -
  have "case fst (t_create tb x d) of
        Inl e \<Rightarrow> rows (snd (t_create tb x d)) = rows d
      | Inr x' \<Rightarrow> made x' = made x \<and> rows (snd (t_create tb x d)) = rows d @ [x']"
    using assms(1) unfolding table_ok_def create_ok_def by blast
  with assms(2) show "r = Inl e \<Longrightarrow> rows d' = rows d"
    "r = Inr x' \<Longrightarrow> made x' = made x \<and> rows d' = rows d @ [x']" by auto
qed

lemma table_update:
  assumes "table_ok tb made kept rows" "t_update tb P f d = (r, d')"
  shows "r = Inl e \<Longrightarrow> rows d' = rows d"
    and "r = Inr x \<Longrightarrow> replaces kept P f x (rows d) (rows d')"
proof -
  have "case fst (t_update tb P f d) of
        Inl e \<Rightarrow> rows (snd (t_update tb P f d)) = rows d
      | Inr x \<Rightarrow> replaces kept P f x (rows d) (rows (snd (t_update tb P f d)))"
    using assms(1) unfolding table_ok_def update_ok_def by blast
  with assms(2) show "r = Inl e \<Longrightarrow> rows d' = rows d"
    "r = Inr x \<Longrightarrow> replaces kept P f x (rows d) (rows d')" by auto
qed

text \<open>
  A table kept as a list of rows: a create fills in the generated columns and refuses a clash with
  a row that is there.
\<close>

fun update_first :: "('r \<Rightarrow> bool) \<Rightarrow> ('r \<Rightarrow> 'r) \<Rightarrow> 'r list \<Rightarrow> ('r \<times> 'r list) option" where
  "update_first P f [] = None"
| "update_first P f (x # xs) =
     (if P x then Some (f x, f x # xs)
      else map_option (\<lambda>(y, ys). (y, x # ys)) (update_first P f xs))"

definition list_table ::
    "('d \<Rightarrow> 'r list) \<Rightarrow> ('r list \<Rightarrow> 'd \<Rightarrow> 'd) \<Rightarrow> ('d \<Rightarrow> 'r \<Rightarrow> 'r) \<Rightarrow> ('r \<Rightarrow> 'r \<Rightarrow> js option) \<Rightarrow>
     ('d, 'r) table" where
  "list_table get put fill clash =
     \<lparr>t_find = (\<lambda>P d. (Inr (List.find P (get d)), d)),
      t_many = (\<lambda>P d. (Inr (filter P (get d)), d)),
      t_create = (\<lambda>x d. case List.map_filter (clash (fill d x)) (get d) of
         e # _ \<Rightarrow> (Inl e, d)
       | [] \<Rightarrow> (Inr (fill d x), put (get d @ [fill d x]) d)),
      t_update = (\<lambda>P f d. case update_first P f (get d) of
         None \<Rightarrow> (Inl (JStr ''Record to update not found.''), d)
       | Some (x, xs) \<Rightarrow> (Inr x, put xs d))\<rparr>"

lemma update_first_replaces:
  "update_first P f xs = Some (y, ys) \<Longrightarrow> replaces data P f y xs ys"
proof (induction xs arbitrary: ys)
  case (Cons x xs)
  show ?case
  proof (cases "P x")
    case True
    with Cons.prems show ?thesis by (auto simp: replaces_def intro!: exI[of _ 0])
  next
    case False
    with Cons.prems obtain zs where zs: "update_first P f xs = Some (y, zs)" "ys = x # zs"
      by (auto split: prod.splits)
    from Cons.IH[OF this(1)] obtain k where "k < length xs" "P (xs ! k)" "data y = data (f (xs ! k))"
      "zs = xs[k := y]" by (auto simp: replaces_def)
    with zs show ?thesis by (auto simp: replaces_def intro!: exI[of _ "Suc k"])
  qed
qed simp

lemma list_table_ok:
  assumes "\<And>xs d. get (put xs d) = xs" "\<And>d x. made (fill d x) = made x"
  shows "table_ok (list_table get put fill clash) made kept get"
proof -
  have "find_ok (list_table get put fill clash) get"
    by (auto simp: find_ok_def list_table_def find_None_iff split: option.splits dest: find_Some_iff')
  moreover have "many_ok (list_table get put fill clash) get"
    by (auto simp: many_ok_def list_table_def)
  moreover have "create_ok (list_table get put fill clash) made get"
    by (auto simp: create_ok_def list_table_def assms split: list.splits)
  moreover have "update_ok (list_table get put fill clash) kept get"
    by (auto simp: update_ok_def list_table_def assms split: option.splits
        intro: update_first_replaces)
  ultimately show ?thesis by (simp add: table_ok_def)
qed

section \<open>Unique constraints\<close>

text \<open>
  \<open>extractPrismaUniqueTarget\<close>, the same in \<open>trace-repository.ts\<close> and \<open>loop-instance-repository.ts\<close>:
  the columns an error of code \<open>P2002\<close> names.
\<close>

definition extractPrismaUniqueTarget :: "js \<Rightarrow> string list option" where
  "extractPrismaUniqueTarget err =
     (if js_get err ''code'' \<noteq> JStr ''P2002'' then None
      else (case js_get (js_get err ''meta'') ''target'' of
              JArr ts \<Rightarrow> Some (string_items ts)
            | JStr t \<Rightarrow> Some [t]
            | _ \<Rightarrow> None))"

definition unique_violation :: "string list \<Rightarrow> js" where
  "unique_violation columns =
     JObj [(''code'', JStr ''P2002''), (''meta'', JObj [(''target'', JArr (map JStr columns))])]"

end
