(* ===== verification/Access.thy ===== *)
theory Access
  imports Database
begin

text \<open>
  Who may call the runtime, and how often: \<open>packages/auth-iface\<close> (bearer tokens, API keys, the
  in-memory adapter), \<open>packages/entitlements-iface\<close> (tiers and the sliding-window rate limit), the
  database-backed adapter \<open>packages/runtime-core/src/db-auth-adapter.ts\<close>, and the redaction of
  evidence by \<open>packages/sdk/src/lib/redactPiiEvidence.ts\<close>.
\<close>

section \<open>Tokens\<close>

definition extractBearerToken :: "string option \<Rightarrow> string option" where
  "extractBearerToken header =
     (case header of
        None \<Rightarrow> None
      | Some hdr \<Rightarrow>
          if hdr = [] then None
          else (case split_on (\<lambda>c. c = CHR '' '') hdr of
                  scheme # token # _ \<Rightarrow>
                    if scheme \<noteq> ''Bearer'' \<or> token = [] then None
                    else if trim token = [] then None else Some (trim token)
                | _ \<Rightarrow> None))"

definition is_hex_ci :: "char \<Rightarrow> bool" where
  "is_hex_ci c \<longleftrightarrow>
     (let n = (of_char c :: nat)
      in (48 \<le> n \<and> n \<le> 57) \<or> (97 \<le> n \<and> n \<le> 102) \<or> (65 \<le> n \<and> n \<le> 70))"

definition isLoopEngineApiKeyToken :: "string \<Rightarrow> bool" where
  "isLoopEngineApiKeyToken token \<longleftrightarrow>
     (let s = trim token
      in lower (take 3 s) = ''le_'' \<and> length (drop 3 s) = 32 \<and> list_all is_hex_ci (drop 3 s))"

definition normalizeLoopApiKeyToken :: "string \<Rightarrow> string" where
  "normalizeLoopApiKeyToken token = lower (trim token)"

text \<open>\<open>randomBytes(16).toString("hex")\<close> of the bytes the system gives.\<close>

definition hex_char :: "nat \<Rightarrow> char" where
  "hex_char n = ''0123456789abcdef'' ! n"

definition byte_hex :: "8 word \<Rightarrow> string" where
  "byte_hex b = [hex_char (unat b div 16), hex_char (unat b mod 16)]"

definition generatePlainLoopApiKey :: "8 word list \<Rightarrow> string" where
  "generatePlainLoopApiKey random = ''le_'' @ concat (map byte_hex random)"

definition hashLoopApiKey :: "(string \<Rightarrow> string) \<Rightarrow> string \<Rightarrow> string" where
  "hashLoopApiKey sha256 plain = sha256 plain"

definition keyPrefixDisplay :: "string \<Rightarrow> string" where
  "keyPrefixDisplay plain = take 12 plain @ ''...''"

section \<open>The in-memory adapter\<close>

record identity =
  id_tenantId :: string
  id_apiKeyId :: "string option"
  id_actorId :: string
  id_role :: string
  id_source :: string

record api_key_record =
  ak_token :: string
  ak_tenantId :: string
  ak_apiKeyId :: string
  ak_actorId :: "string option"

type_synonym memory_auth = "(string \<times> api_key_record) list"

definition ma_register :: "api_key_record \<Rightarrow> (js_error, memory_auth, unit) eop" where
  "ma_register r s =
     (if \<not> isLoopEngineApiKeyToken (ak_token r)
      then (Inl (Error (''MemoryAuthAdapter.register: token \"'' @ ak_token r @
              ''\" is not a valid le_* API key'')), s)
      else (Inr (), AList.update (normalizeLoopApiKeyToken (ak_token r)) r s))"

definition ma_create :: "api_key_record list \<Rightarrow> js_error + memory_auth" where
  "ma_create rs =
     (case op_each ma_register rs [] of (Inl e, _) \<Rightarrow> Inl e | (Inr _, s) \<Rightarrow> Inr s)"

definition bearer_key :: "string option \<Rightarrow> runtime_error + string" where
  "bearer_key header =
     (case extractBearerToken header of
        None \<Rightarrow> Inl (AuthenticationError ''Missing or malformed Authorization header'')
      | Some token \<Rightarrow>
          if \<not> isLoopEngineApiKeyToken token
          then Inl (AuthenticationError ''Token is not a Loop Engine API key'')
          else Inr (normalizeLoopApiKeyToken token))"

definition ma_authenticate :: "string option \<Rightarrow> (runtime_error, memory_auth, identity) eop" where
  "ma_authenticate header s =
     (case bearer_key header of
        Inl e \<Rightarrow> (Inl e, s)
      | Inr key \<Rightarrow>
          (case map_of s key of
             None \<Rightarrow> (Inl (AuthenticationError ''Invalid or expired API key''), s)
           | Some r \<Rightarrow>
               (Inr \<lparr>id_tenantId = ak_tenantId r, id_apiKeyId = Some (ak_apiKeyId r),
                     id_actorId = (case ak_actorId r of None \<Rightarrow> ''le_key:'' @ ak_apiKeyId r
                                                      | Some a \<Rightarrow> a),
                     id_role = ''API_KEY'', id_source = ''api''\<rparr>, s)))"

section \<open>The adapter of the database\<close>

record key_row =
  kr_id :: string
  kr_tenantId :: string
  kr_name :: "string option"
  kr_keyHash :: string
  kr_keyPrefix :: string
  kr_active :: bool
  kr_graceKeyHash :: "string option"
  kr_graceExpiresAt :: "int option"
  kr_lastUsedAt :: "int option"

text \<open>What a create determines of a key; its identifier comes from the database.\<close>

definition key_made where
  "key_made r = (kr_tenantId r, kr_name r, kr_keyHash r, kr_keyPrefix r, kr_active r, kr_graceKeyHash r,
     kr_graceExpiresAt r, kr_lastUsedAt r)"

definition identityFromRow :: "key_row \<Rightarrow> identity" where
  "identityFromRow row =
     \<lparr>id_tenantId = kr_tenantId row, id_apiKeyId = Some (kr_id row),
      id_actorId = ''le_key:'' @ kr_id row, id_role = ''API_KEY'', id_source = ''api''\<rparr>"

definition clearExpiredGraceIfNeeded ::
    "('d, key_row) table \<Rightarrow> int \<Rightarrow> key_row \<Rightarrow> (runtime_error, 'd, unit) eop" where
  "clearExpiredGraceIfNeeded tb now row =
     (case kr_graceExpiresAt row of
        None \<Rightarrow> op_return ()
      | Some expires \<Rightarrow>
          if expires > now \<or> kr_graceKeyHash row = None then op_return ()
          else op_bind (rethrow (t_update tb (\<lambda>r. kr_id r = kr_id row)
                 (\<lambda>r. r\<lparr>kr_graceKeyHash := None, kr_graceExpiresAt := None\<rparr>))) (\<lambda>_. op_return ()))"

definition touchLastUsed ::
    "('d, key_row) table \<Rightarrow> string \<Rightarrow> int \<Rightarrow> (runtime_error, 'd, unit) eop" where
  "touchLastUsed tb keyId time =
     op_catch
       (op_bind (rethrow (t_update tb (\<lambda>r. kr_id r = keyId) (\<lambda>r. r\<lparr>kr_lastUsedAt := Some time\<rparr>)))
         (\<lambda>_. op_return ()))
       (\<lambda>_. op_return ())"

definition primary_match :: "string \<Rightarrow> key_row \<Rightarrow> bool" where
  "primary_match hashed r \<longleftrightarrow> kr_active r \<and> kr_keyHash r = hashed"

definition grace_match :: "string \<Rightarrow> int \<Rightarrow> key_row \<Rightarrow> bool" where
  "grace_match hashed now r \<longleftrightarrow>
     kr_active r \<and> kr_graceKeyHash r = Some hashed \<and>
     (case kr_graceExpiresAt r of None \<Rightarrow> False | Some expires \<Rightarrow> expires > now)"

text \<open>\<open>now\<close> is the time read first, \<open>later\<close> the time read when a grace period is checked.\<close>

definition db_authenticate ::
    "('d, key_row) table \<Rightarrow> (string \<Rightarrow> string) \<Rightarrow> int \<Rightarrow> int \<Rightarrow> string option \<Rightarrow>
     (runtime_error, 'd, identity) eop" where
  "db_authenticate tb sha256 now later header =
     (case bearer_key header of
        Inl e \<Rightarrow> op_throw e
      | Inr key \<Rightarrow>
          (let hashed = hashLoopApiKey sha256 key in
           op_bind (rethrow (t_find tb (primary_match hashed))) (\<lambda>byPrimary.
           case byPrimary of
             Some row \<Rightarrow>
               op_bind (clearExpiredGraceIfNeeded tb later row) (\<lambda>_.
               op_bind (touchLastUsed tb (kr_id row) now) (\<lambda>_.
               op_return (identityFromRow row)))
           | None \<Rightarrow>
               op_bind (rethrow (t_find tb (grace_match hashed now))) (\<lambda>byGrace.
               case byGrace of
                 None \<Rightarrow> op_throw (AuthenticationError ''Invalid or expired API key'')
               | Some row \<Rightarrow>
                   op_bind (touchLastUsed tb (kr_id row) now) (\<lambda>_.
                   op_return (identityFromRow row))))))"

section \<open>Entitlements and the rate limit\<close>

record entitlements =
  en_organizationId :: string
  en_packKey :: string
  en_packVersion :: jsnum
  en_snapshotJson :: js
  en_computedAt :: int
  en_lastUpdated :: int
  en_tier :: jsnum

record entitlements_partial =
  ep_organizationId :: "string option"
  ep_packKey :: "string option"
  ep_packVersion :: "jsnum option"
  ep_snapshotJson :: "js option"
  ep_computedAt :: "int option"
  ep_lastUpdated :: "int option"
  ep_tier :: "jsnum option"

record memory_entitlements =
  me_tier :: jsnum
  me_packKey :: string
  me_packVersion :: jsnum
  me_overrides :: "(string \<times> entitlements_partial) list"

definition or_default :: "'a option \<Rightarrow> 'a \<Rightarrow> 'a" where
  "or_default x d = (case x of None \<Rightarrow> d | Some y \<Rightarrow> y)"

definition me_create ::
    "jsnum option \<Rightarrow> string option \<Rightarrow> jsnum option \<Rightarrow>
     (string \<times> entitlements_partial) list option \<Rightarrow> memory_entitlements" where
  "me_create tier packKey packVersion overrides =
     \<lparr>me_tier = or_default tier (Fin 1), me_packKey = or_default packKey ''self-host'',
      me_packVersion = or_default packVersion (Fin 1), me_overrides = or_default overrides []\<rparr>"

definition me_getEntitlements :: "memory_entitlements \<Rightarrow> int \<Rightarrow> string \<Rightarrow> entitlements" where
  "me_getEntitlements m now tenantId =
     (let base = \<lparr>en_organizationId = tenantId, en_packKey = me_packKey m,
                  en_packVersion = me_packVersion m,
                  en_snapshotJson = JObj [(''features'', JObj [(''hosted_loops'', JBool True)])],
                  en_computedAt = now, en_lastUpdated = now, en_tier = me_tier m\<rparr>
      in case map_of (me_overrides m) tenantId of
           None \<Rightarrow> base
         | Some ov \<Rightarrow>
             \<lparr>en_organizationId = or_default (ep_organizationId ov) (en_organizationId base),
              en_packKey = or_default (ep_packKey ov) (en_packKey base),
              en_packVersion = or_default (ep_packVersion ov) (en_packVersion base),
              en_snapshotJson = or_default (ep_snapshotJson ov) (en_snapshotJson base),
              en_computedAt = or_default (ep_computedAt ov) (en_computedAt base),
              en_lastUpdated = or_default (ep_lastUpdated ov) (en_lastUpdated base),
              en_tier = or_default (ep_tier ov) (en_tier base)\<rparr>)"

definition assertRuntimeAllowed :: "host \<Rightarrow> entitlements \<Rightarrow> runtime_error + unit" where
  "assertRuntimeAllowed h sn =
     (if num_ge (Fin 0) (en_tier sn)
      then Inl (EntitlementsDeniedError (''Tenant '' @ en_organizationId sn @ '' has tier '' @
             num_text h (en_tier sn) @ ''; runtime access requires tier >= 1.''))
      else Inr ())"

definition transitionsPerMinuteForTier :: "jsnum \<Rightarrow> nat" where
  "transitionsPerMinuteForTier tier =
     (if num_ge tier (Fin 3) then 1000 else if tier = Fin 2 then 300 else 60)"

type_synonym windows = "(string \<times> int list) list"

definition window_of :: "windows \<Rightarrow> string \<Rightarrow> int list" where
  "window_of ws tenantId = (case map_of ws tenantId of None \<Rightarrow> [] | Some ts \<Rightarrow> ts)"

definition recordTransitionWithinLimit ::
    "string \<Rightarrow> entitlements \<Rightarrow> int \<Rightarrow> (runtime_error, windows, unit) eop" where
  "recordTransitionWithinLimit tenantId sn now ws =
     (let limit = transitionsPerMinuteForTier (en_tier sn);
          windowStart = now - 60000;
          filtered = filter (\<lambda>ts. windowStart \<le> ts) (window_of ws tenantId)
      in if limit \<le> length filtered
         then (Inl (QuotaExceededError ''Transition rate limit exceeded. Retry in 60 seconds.''),
               AList.update tenantId filtered ws)
         else (Inr (), AList.update tenantId (filtered @ [now]) ws))"

section \<open>Redaction of evidence\<close>

definition blocked_keys :: "string list" where
  "blocked_keys =
     [''ssn'', ''sin'', ''dob'', ''dateofbirth'', ''passport'', ''driverslicense'',
      ''creditcard'', ''ccn'', ''accountnumber'', ''routingnumber'', ''iban'', ''swift'',
      ''pin'', ''password'', ''secret'', ''token'', ''email'', ''phone'', ''mobile'',
      ''address'', ''ip'', ''ipaddress'', ''geolocation'', ''lat'', ''lng'',
      ''healthrecord'', ''mrn'', ''npi'', ''diagnosis'', ''medication'']"

definition injection_roles :: "string list" where
  "injection_roles = [''system'', ''user'', ''assistant'', ''human'', ''ai'']"

text \<open>\<open>/^(system|user|assistant|human|ai)\s*:/i\<close>: what follows the first match, if there is one.\<close>

fun after_colon :: "string \<Rightarrow> string option" where
  "after_colon [] = None"
| "after_colon (c # cs) =
     (if c = CHR '':'' then Some cs else if js_space c then after_colon cs else None)"

definition role_prefix :: "string \<Rightarrow> string \<Rightarrow> string option" where
  "role_prefix s w =
     (if lower (take (length w) s) = w then after_colon (drop (length w) s) else None)"

definition strip_role :: "string \<Rightarrow> string" where
  "strip_role s =
     (case List.map_filter (role_prefix s) injection_roles of [] \<Rightarrow> s | rest # _ \<Rightarrow> rest)"

definition max_value_length :: nat where
  "max_value_length = 512"

definition truncated :: "string \<Rightarrow> string" where
  "truncated s =
     (if length s > max_value_length then take max_value_length s @ '' [truncated]'' else s)"

definition normalize_pii_key :: "string \<Rightarrow> string" where
  "normalize_pii_key key = filter (\<lambda>c. c \<noteq> CHR ''_'' \<and> c \<noteq> CHR ''-'' \<and> \<not> js_space c) (lower key)"

definition clean_value :: "js \<Rightarrow> js" where
  "clean_value v =
     (case v of JStr s \<Rightarrow> JStr (truncated (trim_start (strip_role (trim s)))) | _ \<Rightarrow> v)"

definition redactPiiEvidence :: "jobj \<Rightarrow> jobj" where
  "redactPiiEvidence evidence =
     map (\<lambda>(k, v). (k, clean_value v))
       (filter (\<lambda>(k, v). normalize_pii_key k \<notin> set blocked_keys) evidence)"

section \<open>Generated keys are keys\<close>

lemma hex_char_simps:
  assumes "n < 16"
  shows "lower_char (hex_char n) = hex_char n" "is_hex_ci (hex_char n)" "\<not> js_space (hex_char n)"
proof -
  have "hex_char n \<in> set ''0123456789abcdef''"
    unfolding hex_char_def using assms by (intro nth_mem) simp
  then show "lower_char (hex_char n) = hex_char n" "is_hex_ci (hex_char n)" "\<not> js_space (hex_char n)"
    by (auto simp: lower_char_def is_hex_ci_def js_space_def)
qed

lemma unat_byte: "unat (b :: 8 word) < 256"
  using unsigned_less[where 'a = nat, of b] by simp

lemma byte_hex_hex:
  "c \<in> set (byte_hex b) \<Longrightarrow> lower_char c = c \<and> is_hex_ci c \<and> \<not> js_space c"
proof -
  have "unat b div 16 < 16" "unat b mod 16 < 16" using unat_byte[of b] by auto
  then show "c \<in> set (byte_hex b) \<Longrightarrow> lower_char c = c \<and> is_hex_ci c \<and> \<not> js_space c"
    by (auto simp: byte_hex_def hex_char_simps)
qed

lemma dropWhile_none: "\<forall>c \<in> set s. \<not> P c \<Longrightarrow> dropWhile P s = s"
  by (cases s) auto

lemma trim_none: "\<forall>c \<in> set s. \<not> js_space c \<Longrightarrow> trim s = s"
  by (simp add: trim_def trim_start_def dropWhile_none)

lemma generated_key:
  assumes "length random = 16"
  shows "isLoopEngineApiKeyToken (generatePlainLoopApiKey random)"
    and "normalizeLoopApiKeyToken (generatePlainLoopApiKey random) = generatePlainLoopApiKey random"
proof -
  let ?body = "concat (map byte_hex random)"
  have body: "\<forall>c \<in> set ?body. lower_char c = c \<and> is_hex_ci c \<and> \<not> js_space c"
    using byte_hex_hex by auto
  have "sum_list (map (length \<circ> byte_hex) random) = 2 * length random"
    by (induction random) (simp_all add: byte_hex_def)
  then have len: "length ?body = 32" using assms by (simp add: length_concat)
  have "\<forall>c \<in> set (''le_'' @ ?body). \<not> js_space c"
    using body by (auto simp: js_space_def)
  then have trim: "trim (''le_'' @ ?body) = ''le_'' @ ?body" by (rule trim_none)
  then show "isLoopEngineApiKeyToken (generatePlainLoopApiKey random)"
    using body len
    by (auto simp: isLoopEngineApiKeyToken_def generatePlainLoopApiKey_def lower_def lower_char_def
        list_all_iff numeral_eq_Suc)
  have "map lower_char ?body = ?body"
    using body by (intro map_idI) blast
  then show "normalizeLoopApiKeyToken (generatePlainLoopApiKey random) = generatePlainLoopApiKey random"
    using trim by (simp add: normalizeLoopApiKeyToken_def generatePlainLoopApiKey_def lower_def
        lower_char_def)
qed

section \<open>Authentication\<close>

text \<open>
  What the routes rely on: an identity is only given for a well-formed key that the state of the
  adapter grants to its tenant, and authenticating grants nothing new.
\<close>

locale auth_adapter =
  fixes authenticate :: "string option \<Rightarrow> (runtime_error, 's, identity) eop"
    and grants :: "'s \<Rightarrow> string \<Rightarrow> string \<Rightarrow> bool"
  assumes sound: "authenticate header s = (Inr i, s') \<Longrightarrow>
      \<exists>key. bearer_key header = Inr key \<and> grants s key (id_tenantId i)"
    and grants_mono: "authenticate header s = (r, s') \<Longrightarrow> grants s' key t \<Longrightarrow> grants s key t"
begin

lemma no_token: "bearer_key header = Inl e \<Longrightarrow> authenticate header s = (r, s') \<Longrightarrow> \<exists>e'. r = Inl e'"
  by (cases r) (auto dest: sound)

lemma ungranted:
  "bearer_key header = Inr key \<Longrightarrow> (\<And>t. \<not> grants s key t) \<Longrightarrow>
     authenticate header s = (r, s') \<Longrightarrow> \<exists>e'. r = Inl e'"
  by (cases r) (auto dest: sound)

end

definition ma_grants :: "memory_auth \<Rightarrow> string \<Rightarrow> string \<Rightarrow> bool" where
  "ma_grants s key t \<longleftrightarrow> map_option ak_tenantId (map_of s key) = Some t"

interpretation ma: auth_adapter ma_authenticate ma_grants
  by unfold_locales
    (auto simp: ma_authenticate_def ma_grants_def split: sum.splits option.splits)

definition db_grants ::
    "('d \<Rightarrow> key_row list) \<Rightarrow> (string \<Rightarrow> string) \<Rightarrow> int \<Rightarrow> 'd \<Rightarrow> string \<Rightarrow> string \<Rightarrow> bool" where
  "db_grants rows sha256 now d key t \<longleftrightarrow>
     (\<exists>r \<in> set (rows d). kr_tenantId r = t \<and>
        (primary_match (sha256 key) r \<or> grace_match (sha256 key) now r))"

lemma rethrow_cases:
  assumes "rethrow m d = (r, d')"
  obtains (throw) e where "m d = (Inl e, d')" "r = Inl (Thrown e)"
    | (return) x where "m d = (Inr x, d')" "r = Inr x"
  using assms by (auto simp: rethrow_def split: prod.splits sum.splits)

text \<open>An update that weakens rows only takes grants away.\<close>

definition weakens :: "(key_row \<Rightarrow> key_row) \<Rightarrow> bool" where
  "weakens f \<longleftrightarrow> (\<forall>r hashed now. kr_tenantId (f r) = kr_tenantId r \<and>
     (primary_match hashed (f r) \<longrightarrow> primary_match hashed r) \<and>
     (grace_match hashed now (f r) \<longrightarrow> grace_match hashed now r))"

lemma db_grants_update:
  assumes "table_ok tb made (\<lambda>r. r) rows" "weakens f" "t_update tb P f d = (r, d')"
    and "db_grants rows sha256 now d' key t"
  shows "db_grants rows sha256 now d key t"
proof (cases r)
  case (Inl e)
  with table_update(1)[OF assms(1,3)] assms(4) show ?thesis by (simp add: db_grants_def)
next
  case (Inr x)
  with table_update(2)[OF assms(1,3)] obtain k where
    k: "k < length (rows d)" "x = f (rows d ! k)" "rows d' = (rows d)[k := x]"
    by (auto simp: replaces_def)
  from assms(4) obtain y where y: "y \<in> set (rows d')" "kr_tenantId y = t"
    "primary_match (sha256 key) y \<or> grace_match (sha256 key) now y"
    by (auto simp: db_grants_def)
  have "y = f (rows d ! k) \<or> y \<in> set (rows d)"
    using y(1) k set_update_subset_insert[of "rows d" k x] by auto
  then show ?thesis
  proof
    assume "y = f (rows d ! k)"
    with y assms(2) k(1) show ?thesis unfolding weakens_def db_grants_def by (metis nth_mem)
  next
    assume "y \<in> set (rows d)"
    with y show ?thesis by (auto simp: db_grants_def)
  qed
qed

lemma weakens_clear: "weakens (\<lambda>r. r\<lparr>kr_graceKeyHash := None, kr_graceExpiresAt := None\<rparr>)"
  by (simp add: weakens_def primary_match_def grace_match_def)

lemma weakens_touch: "weakens (\<lambda>r. r\<lparr>kr_lastUsedAt := Some time\<rparr>)"
  by (simp add: weakens_def primary_match_def grace_match_def)

lemma clear_grants:
  assumes "table_ok tb made (\<lambda>r. r) rows" "clearExpiredGraceIfNeeded tb later row d = (r, d')"
    and "db_grants rows sha256 now d' key t"
  shows "db_grants rows sha256 now d key t"
  using assms(2,3) db_grants_update[OF assms(1) weakens_clear]
  by (fastforce simp: clearExpiredGraceIfNeeded_def split: option.splits if_splits
      elim!: op_bind_cases rethrow_cases)

lemma touch_grants:
  assumes "table_ok tb made (\<lambda>r. r) rows" "touchLastUsed tb i time d = (r, d')"
    and "db_grants rows sha256 now d' key t"
  shows "db_grants rows sha256 now d key t"
  using assms(2,3) db_grants_update[OF assms(1) weakens_touch]
  by (fastforce simp: touchLastUsed_def op_catch_def split: prod.splits sum.splits
      elim!: op_bind_cases rethrow_cases)

lemma find_grants:
  assumes "table_ok tb made kept rows" "t_find tb P d = (r, d')"
    and "db_grants rows sha256 now d' key t"
  shows "db_grants rows sha256 now d key t"
  using assms(3) table_find(1)[OF assms(1,2)] by (simp add: db_grants_def)

text \<open>The adapter of the database meets the contract, whatever the client throws.\<close>

lemma db_auth_adapter:
  assumes tb: "table_ok tb made (\<lambda>r. r) rows"
  shows "auth_adapter (db_authenticate tb sha256 now later) (db_grants rows sha256 now)"
proof
  fix header d i d'
  assume "db_authenticate tb sha256 now later header d = (Inr i, d')"
  then show "\<exists>key. bearer_key header = Inr key \<and> db_grants rows sha256 now d key (id_tenantId i)"
    by (auto simp: db_authenticate_def hashLoopApiKey_def identityFromRow_def db_grants_def Let_def
        split: sum.splits option.splits elim!: op_bind_cases rethrow_cases
        dest!: table_found[OF tb] table_not_found[OF tb]) blast+
next
  fix header d r d' key t
  assume *: "db_authenticate tb sha256 now later header d = (r, d')"
    and g: "db_grants rows sha256 now d' key t"
  show "db_grants rows sha256 now d key t"
    using * g
    by (auto simp: db_authenticate_def Let_def split: sum.splits option.splits
        elim!: op_bind_cases rethrow_cases)
      (blast dest: touch_grants[OF tb] clear_grants[OF tb] find_grants[OF tb])+
qed

text \<open>
  Why a request without a key that is granted is refused: its key is missing, malformed or in no
  row, or one of the two lookups of the key failed.
\<close>

definition lookup_fails :: "('d, key_row) table \<Rightarrow> string \<Rightarrow> int \<Rightarrow> 'd \<Rightarrow> bool" where
  "lookup_fails tb hashed now d \<longleftrightarrow>
     (case t_find tb (primary_match hashed) d of
        (Inl _, _) \<Rightarrow> True
      | (Inr _, d') \<Rightarrow> (case fst (t_find tb (grace_match hashed now) d') of Inl _ \<Rightarrow> True | Inr _ \<Rightarrow> False))"

lemma bearer_key_Inl: "bearer_key header = Inl e \<Longrightarrow> \<exists>m. e = AuthenticationError m"
  by (auto simp: bearer_key_def split: option.splits if_splits)

lemma db_authenticate_refuses:
  assumes tb: "table_ok tb made (\<lambda>r. r) rows"
    and ungranted: "\<And>key t. bearer_key header = Inr key \<Longrightarrow> \<not> db_grants rows sha256 now d key t"
    and run: "db_authenticate tb sha256 now later header d = (res, d')"
  obtains e where "res = Inl e"
    "(\<exists>m. e = AuthenticationError m) \<longleftrightarrow>
       (case bearer_key header of Inl _ \<Rightarrow> True | Inr key \<Rightarrow> \<not> lookup_fails tb (sha256 key) now d)"
proof (cases "bearer_key header")
  case (Inl e)
  with run bearer_key_Inl[OF Inl] show thesis by (intro that[of e]) (auto simp: db_authenticate_def)
next
  case (Inr key)
  let ?h = "sha256 key"
  note no = ungranted[OF Inr]
  obtain r1 d1 where f1: "t_find tb (primary_match ?h) d = (r1, d1)" by fastforce
  obtain r2 d2 where f2: "t_find tb (grace_match ?h now) d1 = (r2, d2)" by fastforce
  have none1: "r1 \<noteq> Inr (Some y)" for y
    using table_find[OF tb f1] no by (auto simp: db_grants_def)
  have none2: "r2 \<noteq> Inr (Some y)" for y
    using table_find[OF tb f2] table_find(1)[OF tb f1] no by (auto simp: db_grants_def)
  show thesis
  proof (cases r1)
    case (Inl e)
    with f1 run Inr show thesis
      by (intro that[of "Thrown e"])
        (auto simp: db_authenticate_def hashLoopApiKey_def lookup_fails_def rethrow_def op_bind_def Let_def)
  next
    case r1: (Inr x)
    show thesis
    proof (cases r2)
      case (Inl e)
      with f1 f2 run Inr r1 none1 show thesis
        by (intro that[of "Thrown e"]; cases x)
          (auto simp: db_authenticate_def hashLoopApiKey_def lookup_fails_def rethrow_def op_bind_def Let_def)
    next
      case r2: (Inr y)
      with f1 f2 run Inr r1 none1 none2 show thesis
        by (intro that[of "AuthenticationError ''Invalid or expired API key''"]; cases x; cases y)
          (auto simp: db_authenticate_def hashLoopApiKey_def lookup_fails_def rethrow_def op_bind_def Let_def)
    qed
  qed
qed

section \<open>The sliding window\<close>

text \<open>A sequence of requests: tenant, entitlements, time; which of them were accepted.\<close>

fun accepted :: "(string \<times> entitlements \<times> int) list \<Rightarrow> windows \<Rightarrow> (string \<times> int) list" where
  "accepted [] ws = []"
| "accepted ((tenantId, sn, now) # cs) ws =
     (case recordTransitionWithinLimit tenantId sn now ws of
        (Inl _, ws') \<Rightarrow> accepted cs ws'
      | (Inr _, ws') \<Rightarrow> (tenantId, now) # accepted cs ws')"

definition times_of :: "string \<Rightarrow> (string \<times> int) list \<Rightarrow> int list" where
  "times_of t acc = map snd (filter (\<lambda>(t', _). t' = t) acc)"

definition in_window :: "int \<Rightarrow> int list \<Rightarrow> nat" where
  "in_window now ts = length (filter (\<lambda>x. now - 60000 \<le> x \<and> x \<le> now) ts)"

lemma window_of_update: "window_of (AList.update t ts ws) t' = (if t' = t then ts else window_of ws t')"
  by (simp add: window_of_def map_of_update_eq)

text \<open>
  The invariant before the requests of the rest: the window of the tenant holds the accepted times
  \<open>past\<close> that the next request can still see.
\<close>

definition window_ok :: "windows \<Rightarrow> string \<Rightarrow> int list \<Rightarrow> int \<Rightarrow> bool" where
  "window_ok ws t past now \<longleftrightarrow>
     (\<forall>x \<in> set past. x \<le> now) \<and>
     (\<forall>now' \<ge> now. filter (\<lambda>x. now' - 60000 \<le> x) (window_of ws t) =
                     filter (\<lambda>x. now' - 60000 \<le> x) past)"

lemma window_ok_later: "window_ok ws t past now \<Longrightarrow> now \<le> now' \<Longrightarrow> window_ok ws t past now'"
  by (fastforce simp: window_ok_def)

lemma filter_later:
  "(now::int) \<le> now' \<Longrightarrow>
     filter (\<lambda>x. now' - 60000 \<le> x) (filter (\<lambda>x. now - 60000 \<le> x) xs) = filter (\<lambda>x. now' - 60000 \<le> x) xs"
  by (induction xs) auto

lemma window_ok_accept:
  assumes "window_ok ws t past now"
  shows "window_ok (AList.update t (filter (\<lambda>x. now - 60000 \<le> x) (window_of ws t) @ [now]) ws) t
    (past @ [now]) now"
  using assms by (auto simp: window_ok_def window_of_update filter_later simp del: filter_filter)

lemma window_ok_refuse:
  assumes "window_ok ws t past now"
  shows "window_ok (AList.update t (filter (\<lambda>x. now - 60000 \<le> x) (window_of ws t)) ws) t past now"
  using assms by (auto simp: window_ok_def window_of_update filter_later simp del: filter_filter)

lemma window_ok_other: "t' \<noteq> t \<Longrightarrow> window_ok (AList.update t' ts ws) t past now = window_ok ws t past now"
  by (simp add: window_ok_def window_of_update)

text \<open>What any later instant sees is what the last request accepted before it saw.\<close>

lemma in_window_append: "in_window now (xs @ ys) = in_window now xs + in_window now ys"
  by (simp add: in_window_def)

lemma in_window_after: "\<forall>x \<in> set xs. now < x \<Longrightarrow> in_window now xs = 0"
  by (auto simp: in_window_def filter_empty_conv)

lemma in_window_mono:
  "\<forall>x \<in> set xs. x \<le> a \<Longrightarrow> a \<le> now \<Longrightarrow> in_window now xs \<le> in_window a xs"
proof (induction xs)
  case (Cons x xs)
  then show ?case by (simp add: in_window_def)
qed (simp add: in_window_def)

lemma times_of_Cons:
  "times_of t ((t', now) # acc) = (if t' = t then now # times_of t acc else times_of t acc)"
  by (simp add: times_of_def)

lemma accepted_within_limit:
  assumes "sorted (map (\<lambda>(_, _, n). n) cs)"
    and "\<forall>(t', sn, n) \<in> set cs. t' = t \<longrightarrow> transitionsPerMinuteForTier (en_tier sn) \<le> limit"
    and "\<forall>(_, _, n) \<in> set cs. start \<le> n" "window_ok ws t past start"
    and "\<And>now. in_window now past \<le> limit"
  shows "in_window now (past @ times_of t (accepted cs ws)) \<le> limit"
  using assms
proof (induction cs ws arbitrary: past start rule: accepted.induct)
  case (1 ws)
  then show ?case by (simp add: times_of_def)
next
  case (2 tenantId sn n cs ws)
  obtain r ws' where rec: "recordTransitionWithinLimit tenantId sn n ws = (r, ws')" by fastforce
  have n: "start \<le> n" and rest: "\<forall>(_, _, m) \<in> set cs. n \<le> m"
    and sorted: "sorted (map (\<lambda>(_, _, n). n) cs)"
    and lim: "\<forall>(t', sn, n) \<in> set cs. t' = t \<longrightarrow> transitionsPerMinuteForTier (en_tier sn) \<le> limit"
    using 2 by auto
  have ok: "window_ok ws t past n" using 2 n by (blast intro: window_ok_later)
  show ?case
  proof (cases r)
    case (Inl e)
    then have "window_ok ws' t past n"
      using rec ok window_ok_refuse[OF ok] window_ok_other[of tenantId t]
      by (cases "tenantId = t") (auto simp: recordTransitionWithinLimit_def Let_def split: if_splits)
    from 2(1)[OF rec[unfolded Inl, symmetric] refl sorted lim rest this 2(7)] rec Inl
    show ?thesis by simp
  next
    case (Inr u)
    show ?thesis
    proof (cases "tenantId = t")
      case False
      then have "window_ok ws' t past n"
        using rec ok Inr by (auto simp: recordTransitionWithinLimit_def Let_def window_ok_other split: if_splits)
      from 2(2)[OF rec[unfolded Inr, symmetric] refl sorted lim rest this 2(7)] rec Inr False
      show ?thesis by (simp add: times_of_Cons)
    next
      case True
      then have ok': "window_ok ws' t (past @ [n]) n"
        using rec ok Inr window_ok_accept[OF ok]
        by (auto simp: recordTransitionWithinLimit_def Let_def split: if_splits)
      have few: "length (filter (\<lambda>x. n - 60000 \<le> x) past) < limit"
        using rec Inr True ok 2(4) by (auto simp: recordTransitionWithinLimit_def Let_def window_ok_def
            split: if_splits)
      have past: "\<forall>x \<in> set past. x \<le> n" using ok by (simp add: window_ok_def)
      then have "filter (\<lambda>x. n - 60000 \<le> x \<and> x \<le> n) past = filter (\<lambda>x. n - 60000 \<le> x) past"
        by (intro filter_cong) auto
      then have new: "in_window n (past @ [n]) \<le> limit"
        using few by (simp add: in_window_def)
      have "in_window now (past @ [n]) \<le> limit" for now
      proof (cases "n \<le> now")
        case True
        with in_window_mono[of "past @ [n]" n now] past new show ?thesis by auto
      next
        case False
        with 2(7)[of now] show ?thesis by (simp add: in_window_def)
      qed
      from 2(2)[OF rec[unfolded Inr, symmetric] refl sorted lim rest ok' this] rec Inr True
      show ?thesis by (simp add: times_of_Cons)
    qed
  qed
qed

section \<open>Redaction\<close>

lemma trim_start_space: "trim_start s = c # cs \<Longrightarrow> \<not> js_space c"
  by (auto simp: trim_start_def dropWhile_eq_Cons_conv)

lemma truncated_length: "length (truncated s) \<le> 524"
  by (simp add: truncated_def max_value_length_def)

lemma truncated_prefix: "take 512 (truncated s) = take 512 s"
  by (simp add: truncated_def max_value_length_def)

lemma redact_pii_mem:
  "(k, v) \<in> set (redactPiiEvidence e) \<longleftrightarrow>
     normalize_pii_key k \<notin> set blocked_keys \<and> (\<exists>u. (k, u) \<in> set e \<and> v = clean_value u)"
  by (auto simp: redactPiiEvidence_def image_iff)

lemma clean_value_string: "JStr s = clean_value u \<Longrightarrow> \<exists>t. s = truncated (trim_start t)"
  by (cases u) (auto simp: clean_value_def)

lemma redact_pii_strings:
  "(k, JStr s) \<in> set (redactPiiEvidence e) \<Longrightarrow>
     length s \<le> 524 \<and> (case s of [] \<Rightarrow> True | c # _ \<Rightarrow> \<not> js_space c)"
proof -
  assume "(k, JStr s) \<in> set (redactPiiEvidence e)"
  then obtain t where s: "s = truncated (trim_start t)"
    by (auto simp: redact_pii_mem dest!: clean_value_string)
  moreover have "\<not> js_space c" if "s = c # cs" for c cs
    using that s trim_start_space[of t] by (cases "trim_start t") (auto simp: truncated_def max_value_length_def split: if_splits)
  ultimately show ?thesis by (auto simp: truncated_length split: list.splits)
qed

end
