(* ===== verification/Trace_Store.thy ===== *)
theory Trace_Store
  imports Core "HOL-Library.Multiset"
begin

text \<open>
  The traces of \<open>packages/observability\<close>: the contract \<open>TraceStore\<close> as a locale, its in-memory
  implementation (\<open>memory-trace-store.ts\<close>) that meets it, and the timeline and metrics read
  from the records of a run (\<open>trace-timeline.ts\<close>). Timestamps are milliseconds; \<open>toIso\<close> is
  \<open>Date.prototype.toISOString\<close>.
\<close>

section \<open>Records\<close>

datatype trace_event_type =
    TLoopStarted | TAttempted | TGuardEvaluated | TCompleted | TBlocked | TTerminal

record guard_trace =
  gt_guardId :: string
  gt_passed :: bool
  gt_reason :: string
  gt_evaluatedAt :: int
  gt_durationMs :: int

record trace_record =
  tc_id :: string
  tc_loopRunId :: string
  tc_loopId :: string
  tc_sequence :: int
  tc_timestamp :: int
  tc_type :: trace_event_type
  tc_fromState :: "string option"
  tc_toState :: "string option"
  tc_transitionId :: "string option"
  tc_actor :: actor_ref
  tc_inputHash :: string
  tc_input :: js
  tc_output :: js
  tc_guards :: "guard_trace list"
  tc_evidence :: js
  tc_durationMs :: int
  tc_blocked :: bool
  tc_blockReason :: "string option"
  tc_governed :: bool
  tc_tenantId :: string

record run_summary =
  rs_loopRunId :: string
  rs_loopId :: string
  rs_startedAt :: int
  rs_completedAt :: "int option"
  rs_terminalState :: "string option"
  rs_stepCount :: nat
  rs_blockedCount :: nat
  rs_governed :: bool
  rs_tenantId :: string

record compared_step =
  cs_sequence :: int
  cs_inA :: "trace_record option"
  cs_inB :: "trace_record option"
  cs_equivalent :: bool

record run_comparison =
  rc_runA :: run_summary
  rc_runB :: run_summary
  rc_steps :: "compared_step list"
  rc_divergencePoint :: "int option"

record list_runs_opts =
  lr_limit :: "nat option"
  lr_after :: "int option"
  lr_before :: "int option"
  lr_governed :: "bool option"

section \<open>The contract\<close>

text \<open>
  What the callers of a trace store rely on: the trace of a run is what was written for it, in
  the order of the sequence numbers, and a write leaves other runs alone; the runs of a loop
  are listed with the newest first.
\<close>

definition write_each :: "(trace_record \<Rightarrow> 't \<Rightarrow> 't) \<Rightarrow> 't \<Rightarrow> trace_record list \<Rightarrow> 't" where
  "write_each w t rs = fold w rs t"

lemma write_each_simps [simp]:
  "write_each w t [] = t" "write_each w t (rs @ [r]) = w r (write_each w t rs)"
  by (simp_all add: write_each_def)

locale trace_store =
  fixes writeT :: "trace_record \<Rightarrow> 't \<Rightarrow> 't"
    and traceT :: "'t \<Rightarrow> string \<Rightarrow> trace_record list"
    and listT :: "'t \<Rightarrow> string \<Rightarrow> list_runs_opts \<Rightarrow> run_summary list"
    and emptyT :: 't
  assumes trace_empty: "traceT emptyT run = []"
    and trace_write: "mset (traceT (writeT r t) run) =
      mset (traceT t run) + (if run = tc_loopRunId r then {#r#} else {#})"
    and trace_other: "run \<noteq> tc_loopRunId r \<Longrightarrow> traceT (writeT r t) run = traceT t run"
    and trace_sorted: "sorted (map tc_sequence (traceT (writeT r t) (tc_loopRunId r)))"
    and list_newest_first: "sorted (map (\<lambda>s. - rs_startedAt s) (listT t loop opts))"
    and list_loop: "s \<in> set (listT t loop opts) \<Longrightarrow> rs_loopId s = loop"
begin

abbreviation write_all :: "trace_record list \<Rightarrow> 't" where
  "write_all \<equiv> write_each writeT emptyT"

lemma trace_write_all:
  "mset (traceT (write_all rs) run) = mset (filter (\<lambda>r. tc_loopRunId r = run) rs)"
  by (induction rs rule: rev_induct)
    (auto simp: trace_write trace_empty)

lemma trace_write_all_sorted: "sorted (map tc_sequence (traceT (write_all rs) run))"
proof (induction rs rule: rev_induct)
  case Nil
  then show ?case by (simp add: trace_empty)
next
  case (snoc r rs)
  then show ?case
    by (cases "run = tc_loopRunId r") (auto simp: trace_sorted trace_other)
qed

text \<open>Records with different sequence numbers determine the trace.\<close>

lemma trace_write_all_order:
  assumes "distinct (map tc_sequence (filter (\<lambda>r. tc_loopRunId r = run) rs))"
  shows "traceT (write_all rs) run = sort_key tc_sequence (filter (\<lambda>r. tc_loopRunId r = run) rs)"
proof (rule map_sorted_distinct_set_unique[where f = tc_sequence])
  let ?own = "filter (\<lambda>r. tc_loopRunId r = run) rs" and ?trace = "traceT (write_all rs) run"
  have same: "mset ?trace = mset ?own" by (rule trace_write_all)
  then have "mset (map tc_sequence ?trace) = mset (map tc_sequence ?own)" by simp
  with assms show "distinct (map tc_sequence ?trace)" by (metis mset_eq_imp_distinct_iff)
  show set: "set ?trace = set (sort_key tc_sequence ?own)" using mset_eq_setD[OF same] by simp
  show "inj_on tc_sequence (set ?trace \<union> set (sort_key tc_sequence ?own))"
    using assms set by (simp add: distinct_map)
  show "sorted (map tc_sequence ?trace)" by (rule trace_write_all_sorted)
  have "mset (map tc_sequence (sort_key tc_sequence ?own)) = mset (map tc_sequence ?own)" by simp
  with assms show "distinct (map tc_sequence (sort_key tc_sequence ?own))"
    by (metis mset_eq_imp_distinct_iff)
qed simp

end

section \<open>The in-memory store\<close>

record memory_traces =
  mt_records :: "(string \<times> trace_record list) list"
  mt_summaries :: "(string \<times> run_summary) list"

definition mt_empty :: memory_traces where
  "mt_empty = \<lparr>mt_records = [], mt_summaries = []\<rparr>"

definition summary_after :: "trace_record \<Rightarrow> run_summary option \<Rightarrow> run_summary" where
  "summary_after r current =
     (let isTerminal = (tc_type r = TTerminal) in
      \<lparr>rs_loopRunId = tc_loopRunId r, rs_loopId = tc_loopId r,
       rs_startedAt = (case current of None \<Rightarrow> tc_timestamp r | Some c \<Rightarrow> rs_startedAt c),
       rs_completedAt = (if isTerminal then Some (tc_timestamp r)
         else case current of None \<Rightarrow> None | Some c \<Rightarrow> rs_completedAt c),
       rs_terminalState = (if isTerminal then tc_toState r
         else case current of None \<Rightarrow> None | Some c \<Rightarrow> rs_terminalState c),
       rs_stepCount = (case current of None \<Rightarrow> 0 | Some c \<Rightarrow> rs_stepCount c) + 1,
       rs_blockedCount = (case current of None \<Rightarrow> 0 | Some c \<Rightarrow> rs_blockedCount c) +
         (if tc_blocked r then 1 else 0),
       rs_governed = ((case current of None \<Rightarrow> False | Some c \<Rightarrow> rs_governed c) \<or> tc_governed r),
       rs_tenantId = tc_tenantId r\<rparr>)"

definition mt_write :: "trace_record \<Rightarrow> memory_traces \<Rightarrow> memory_traces" where
  "mt_write r t =
     (let existing = (case map_of (mt_records t) (tc_loopRunId r) of None \<Rightarrow> [] | Some rs \<Rightarrow> rs)
      in t\<lparr>mt_records := AList.update (tc_loopRunId r) (sort_key tc_sequence (existing @ [r])) (mt_records t),
           mt_summaries := AList.update (tc_loopRunId r)
             (summary_after r (map_of (mt_summaries t) (tc_loopRunId r))) (mt_summaries t)\<rparr>)"

definition mt_getRunTrace :: "memory_traces \<Rightarrow> string \<Rightarrow> trace_record list" where
  "mt_getRunTrace t run = (case map_of (mt_records t) run of None \<Rightarrow> [] | Some rs \<Rightarrow> rs)"

definition mt_selected :: "memory_traces \<Rightarrow> string \<Rightarrow> list_runs_opts \<Rightarrow> run_summary list" where
  "mt_selected t loopId opts =
     filter (\<lambda>s. case lr_before opts of None \<Rightarrow> True | Some b \<Rightarrow> rs_startedAt s < b)
     (filter (\<lambda>s. case lr_after opts of None \<Rightarrow> True | Some a \<Rightarrow> rs_startedAt s > a)
     (filter (\<lambda>s. case lr_governed opts of None \<Rightarrow> True | Some g \<Rightarrow> rs_governed s = g)
     (filter (\<lambda>s. rs_loopId s = loopId) (map snd (mt_summaries t)))))"

text \<open>A limit of 0 is no limit.\<close>

definition mt_listRuns :: "memory_traces \<Rightarrow> string \<Rightarrow> list_runs_opts \<Rightarrow> run_summary list" where
  "mt_listRuns t loopId opts =
     (let all = sort_key (\<lambda>s. - rs_startedAt s) (mt_selected t loopId opts)
      in case lr_limit opts of None \<Rightarrow> all | Some n \<Rightarrow> if n = 0 then all else take n all)"

definition mt_clear :: "memory_traces \<Rightarrow> memory_traces" where
  "mt_clear t = mt_empty"

definition max_sequence :: "trace_record list \<Rightarrow> int" where
  "max_sequence rs = fold (\<lambda>r m. max m (tc_sequence r)) rs (-1)"

definition compare_step :: "trace_record list \<Rightarrow> trace_record list \<Rightarrow> int \<Rightarrow> compared_step" where
  "compare_step as bs sq =
     (let a = List.find (\<lambda>r. tc_sequence r = sq) as; b = List.find (\<lambda>r. tc_sequence r = sq) bs
      in \<lparr>cs_sequence = sq, cs_inA = a, cs_inB = b,
          cs_equivalent = (map_option tc_type a = map_option tc_type b \<and>
            map_option tc_toState a = map_option tc_toState b \<and>
            map_option tc_blocked a = map_option tc_blocked b)\<rparr>)"

definition mt_compareRuns :: "memory_traces \<Rightarrow> string \<Rightarrow> string \<Rightarrow> js_error + run_comparison" where
  "mt_compareRuns t a b =
     (case map_of (mt_summaries t) a of
        None \<Rightarrow> Inl (Error (''Run not found: '' @ a))
      | Some sa \<Rightarrow>
          (case map_of (mt_summaries t) b of
             None \<Rightarrow> Inl (Error (''Run not found: '' @ b))
           | Some sb \<Rightarrow>
               (let as = mt_getRunTrace t a; bs = mt_getRunTrace t b;
                    steps = map (compare_step as bs) [0..max (max_sequence as) (max_sequence bs)]
                in Inr \<lparr>rc_runA = sa, rc_runB = sb, rc_steps = steps,
                        rc_divergencePoint =
                          map_option cs_sequence (List.find (\<lambda>s. \<not> cs_equivalent s) steps)\<rparr>)))"

lemmas mt_defs = mt_empty_def mt_write_def mt_getRunTrace_def

lemma mt_trace_write:
  "mt_getRunTrace (mt_write r t) run =
     (if run = tc_loopRunId r then sort_key tc_sequence (mt_getRunTrace t run @ [r])
      else mt_getRunTrace t run)"
  by (simp add: mt_defs Let_def obj_simps)

lemma mt_listRuns_sorted: "sorted (map (\<lambda>s. - rs_startedAt s) (mt_listRuns t l opts))"
proof -
  let ?all = "sort_key (\<lambda>s. - rs_startedAt s) (mt_selected t l opts)"
  have all: "sorted (map (\<lambda>s. - rs_startedAt s) ?all)" by simp
  then have "sorted (map (\<lambda>s. - rs_startedAt s) (take n ?all))" for n
    unfolding take_map[symmetric] by (rule sorted_wrt_take)
  with all show ?thesis
    by (auto simp only: mt_listRuns_def Let_def split: option.splits if_splits)
qed

lemma mt_listRuns_loop: "s \<in> set (mt_listRuns t l opts) \<Longrightarrow> rs_loopId s = l"
proof -
  assume "s \<in> set (mt_listRuns t l opts)"
  then have "s \<in> set (mt_selected t l opts)"
    by (auto simp: mt_listRuns_def Let_def dest: in_set_takeD split: option.splits if_splits)
  then show ?thesis by (simp add: mt_selected_def)
qed

interpretation mt: trace_store mt_write mt_getRunTrace mt_listRuns mt_empty
  by unfold_locales
    (auto simp: mt_trace_write mt_listRuns_sorted dest: mt_listRuns_loop, simp add: mt_defs)

text \<open>The summary of a run counts its records.\<close>

definition summary_ok :: "memory_traces \<Rightarrow> string \<Rightarrow> bool" where
  "summary_ok t run =
     (case map_of (mt_summaries t) run of
        None \<Rightarrow> mt_getRunTrace t run = []
      | Some s \<Rightarrow> rs_loopRunId s = run \<and>
          rs_stepCount s = length (mt_getRunTrace t run) \<and>
          rs_blockedCount s = length (filter tc_blocked (mt_getRunTrace t run)) \<and>
          (rs_governed s \<longleftrightarrow> (\<exists>r \<in> set (mt_getRunTrace t run). tc_governed r)))"

lemma length_filter_sort_key: "length (filter P (sort_key f xs)) = length (filter P xs)"
  by (metis mset_filter mset_sort size_mset)

lemma mt_write_summary:
  "map_of (mt_summaries (mt_write r t)) run =
     (if run = tc_loopRunId r then Some (summary_after r (map_of (mt_summaries t) run))
      else map_of (mt_summaries t) run)"
  by (simp add: mt_write_def Let_def obj_simps)

lemma summary_ok_write:
  assumes "summary_ok t run"
  shows "summary_ok (mt_write r t) run"
proof (cases "run = tc_loopRunId r")
  case True
  with assms show ?thesis
    by (auto simp: summary_ok_def mt_write_summary mt_trace_write summary_after_def Let_def
        length_filter_sort_key split: option.splits)
next
  case False
  then have "mt_getRunTrace (mt_write r t) run = mt_getRunTrace t run"
    "map_of (mt_summaries (mt_write r t)) run = map_of (mt_summaries t) run"
    by (simp_all add: mt_write_summary mt_trace_write)
  with assms show ?thesis by (simp only: summary_ok_def)
qed

lemma summary_ok_write_each: "summary_ok (write_each mt_write mt_empty rs) run"
  by (induction rs rule: rev_induct)
    (simp_all add: summary_ok_write, simp add: summary_ok_def mt_empty_def mt_getRunTrace_def)

text \<open>The divergence point is the first sequence number at which the runs differ.\<close>

lemma max_sequence_ge: "r \<in> set rs \<Longrightarrow> tc_sequence r \<le> max_sequence rs"
proof -
  have "fold (\<lambda>r m. max m (tc_sequence r)) rs m \<ge> m \<and>
      (\<forall>r \<in> set rs. tc_sequence r \<le> fold (\<lambda>r m. max m (tc_sequence r)) rs m)" for m
  proof (induction rs arbitrary: m)
    case (Cons x rs)
    from Cons[of "max m (tc_sequence x)"] show ?case by auto
  qed simp
  then show "r \<in> set rs \<Longrightarrow> tc_sequence r \<le> max_sequence rs" by (simp add: max_sequence_def)
qed

lemma find_upto_first:
  "List.find P (map f [i..j]) = Some y \<longleftrightarrow>
     (\<exists>k. i \<le> k \<and> k \<le> j \<and> y = f k \<and> P (f k) \<and> (\<forall>m. i \<le> m \<and> m < k \<longrightarrow> \<not> P (f m)))"
proof (induction i j rule: upto.induct)
  case (1 i j)
  show ?case
  proof (cases "i \<le> j")
    case True
    then have u: "[i..j] = i # [i + 1..j]" by (simp add: upto.simps)
    show ?thesis
    proof (cases "P (f i)")
      case True
      then have "(\<exists>k. i \<le> k \<and> k \<le> j \<and> y = f k \<and> P (f k) \<and> (\<forall>m. i \<le> m \<and> m < k \<longrightarrow> \<not> P (f m))) \<longleftrightarrow> y = f i"
        using \<open>i \<le> j\<close> by (metis linorder_not_less order.order_iff_strict)
      with True u show ?thesis by auto
    next
      case False
      have "(\<exists>k. i \<le> k \<and> k \<le> j \<and> y = f k \<and> P (f k) \<and> (\<forall>m. i \<le> m \<and> m < k \<longrightarrow> \<not> P (f m))) \<longleftrightarrow>
        (\<exists>k. i + 1 \<le> k \<and> k \<le> j \<and> y = f k \<and> P (f k) \<and> (\<forall>m. i + 1 \<le> m \<and> m < k \<longrightarrow> \<not> P (f m)))"
        using False by (metis add1_zle_eq order.strict_iff_order zle_add1_eq_le order_refl)
      with 1[OF True] u False show ?thesis by simp
    qed
  qed simp
qed

lemma find_upto_none:
  "List.find P (map f [i..j]) = None \<longleftrightarrow> (\<forall>k. i \<le> k \<and> k \<le> j \<longrightarrow> \<not> P (f k))"
  by (auto simp: find_None_iff)

definition differs :: "trace_record list \<Rightarrow> trace_record list \<Rightarrow> int \<Rightarrow> bool" where
  "differs as bs sq \<longleftrightarrow> \<not> cs_equivalent (compare_step as bs sq)"

lemma differs_sym: "differs as bs = differs bs as"
  by (auto simp: differs_def compare_step_def Let_def fun_eq_iff)

lemma differs_refl: "\<not> differs as as sq"
  by (simp add: differs_def compare_step_def Let_def)

lemma find_sequence_none:
  "max_sequence as < sq \<Longrightarrow> List.find (\<lambda>r. tc_sequence r = sq) as = None"
  using max_sequence_ge[of _ as] by (fastforce simp: find_None_iff)

lemma not_differs_beyond: "max (max_sequence as) (max_sequence bs) < sq \<Longrightarrow> \<not> differs as bs sq"
  by (simp add: differs_def compare_step_def Let_def find_sequence_none)

lemma cs_sequence_compare [simp]: "cs_sequence (compare_step as bs sq) = sq"
  by (simp add: compare_step_def Let_def)

text \<open>The runs agree everywhere, or the reported point is the first where they do not.\<close>

lemma mt_compareRuns_divergence:
  assumes "mt_compareRuns t a b = Inr cmp"
  shows "rc_divergencePoint cmp = Some sq \<longleftrightarrow>
      0 \<le> sq \<and> differs (mt_getRunTrace t a) (mt_getRunTrace t b) sq \<and>
      (\<forall>m. 0 \<le> m \<and> m < sq \<longrightarrow> \<not> differs (mt_getRunTrace t a) (mt_getRunTrace t b) m)"
    and "rc_divergencePoint cmp = None \<longleftrightarrow>
      (\<forall>m. 0 \<le> m \<longrightarrow> \<not> differs (mt_getRunTrace t a) (mt_getRunTrace t b) m)"
proof -
  let ?as = "mt_getRunTrace t a" and ?bs = "mt_getRunTrace t b"
  let ?max = "max (max_sequence ?as) (max_sequence ?bs)"
  have point: "rc_divergencePoint cmp = map_option cs_sequence
      (List.find (\<lambda>s. \<not> cs_equivalent s) (map (compare_step ?as ?bs) [0..?max]))"
    using assms by (auto simp: mt_compareRuns_def Let_def split: option.splits)
  have bound: "differs ?as ?bs m \<Longrightarrow> m \<le> ?max" for m
    using not_differs_beyond[of ?as ?bs m] by linarith
  show "rc_divergencePoint cmp = Some sq \<longleftrightarrow> 0 \<le> sq \<and> differs ?as ?bs sq \<and>
      (\<forall>m. 0 \<le> m \<and> m < sq \<longrightarrow> \<not> differs ?as ?bs m)"
  proof -
    have "rc_divergencePoint cmp = Some sq \<longleftrightarrow>
        (\<exists>k. 0 \<le> k \<and> k \<le> ?max \<and> sq = k \<and> differs ?as ?bs k \<and>
           (\<forall>m. 0 \<le> m \<and> m < k \<longrightarrow> \<not> differs ?as ?bs m))"
      unfolding point map_option_eq_Some find_upto_first differs_def
      by (metis cs_sequence_compare)
    with bound show ?thesis by blast
  qed
  show "rc_divergencePoint cmp = None \<longleftrightarrow> (\<forall>m. 0 \<le> m \<longrightarrow> \<not> differs ?as ?bs m)"
    unfolding point using bound by (auto simp: find_upto_none differs_def)
qed

lemma mt_compareRuns_defined:
  "mt_compareRuns t a b = Inr cmp \<Longrightarrow> \<exists>cmp'. mt_compareRuns t b a = Inr cmp'"
  by (auto simp: mt_compareRuns_def Let_def split: option.splits)

lemma mt_compareRuns_sym:
  assumes "mt_compareRuns t a b = Inr cmp" "mt_compareRuns t b a = Inr cmp'"
  shows "rc_divergencePoint cmp = rc_divergencePoint cmp'"
proof -
  have "rc_divergencePoint cmp = Some sq \<longleftrightarrow> rc_divergencePoint cmp' = Some sq" for sq
    by (simp only: mt_compareRuns_divergence(1)[OF assms(1)] mt_compareRuns_divergence(1)[OF assms(2)]
        differs_sym[of "mt_getRunTrace t a"])
  then show ?thesis by (metis option.exhaust)
qed

section \<open>The timeline of a run\<close>

record trace_residency =
  ty_state :: string
  ty_enteredAt :: string
  ty_exitedAt :: "string option"
  ty_durationMs :: "int option"

record trace_step =
  ts_from :: string
  ts_to :: string
  ts_transitionId :: string
  ts_actorId :: string
  ts_actorType :: string
  ts_timestamp :: string
  ts_evidence :: "jobj option"
  ts_guardResults :: "(string \<times> bool \<times> string option) list"

record trace_timeline =
  tt_loopId :: string
  tt_instanceId :: string
  tt_startedAt :: string
  tt_completedAt :: "string option"
  tt_transitions :: "trace_step list"
  tt_stateResidency :: "trace_residency list"

record trace_metrics =
  tm_loopId :: string
  tm_instanceId :: string
  tm_totalDurationMs :: "jsnum option"
  tm_transitionCount :: nat
  tm_guardBlockCount :: nat
  tm_humanApprovalCount :: nat
  tm_terminalState :: "string option"

definition evidenceToRecord :: "js \<Rightarrow> jobj option" where
  "evidenceToRecord ev = (case ev of JObj kvs \<Rightarrow> Some kvs | _ \<Rightarrow> None)"

definition guardResultsFromTrace :: "guard_trace list \<Rightarrow> (string \<times> bool \<times> string option) list" where
  "guardResultsFromTrace gs =
     map (\<lambda>g. (gt_guardId g, gt_passed g, if gt_reason g = [] then None else Some (gt_reason g))) gs"

definition text_or :: "string \<Rightarrow> string option \<Rightarrow> string" where
  "text_or dflt s = (case s of None \<Rightarrow> dflt | Some t \<Rightarrow> t)"

definition is_step :: "trace_record \<Rightarrow> bool" where
  "is_step r \<longleftrightarrow> tc_type r = TCompleted \<or> tc_type r = TBlocked"

definition step_of :: "(int \<Rightarrow> string) \<Rightarrow> trace_record \<Rightarrow> trace_step" where
  "step_of toIso r =
     \<lparr>ts_from = text_or [] (tc_fromState r), ts_to = text_or [] (tc_toState r),
      ts_transitionId = text_or [] (tc_transitionId r),
      ts_actorId = actor_id (tc_actor r), ts_actorType = actor_type_name (actor_type (tc_actor r)),
      ts_timestamp = toIso (tc_timestamp r), ts_evidence = evidenceToRecord (tc_evidence r),
      ts_guardResults = guardResultsFromTrace (tc_guards r)\<rparr>"

text \<open>A state name that is null or empty is no state.\<close>

definition state_name :: "string option \<Rightarrow> string option" where
  "state_name s = (case s of None \<Rightarrow> None | Some t \<Rightarrow> if t = [] then None else Some t)"

definition stay :: "(int \<Rightarrow> string) \<Rightarrow> (string \<times> int) option \<Rightarrow> int \<Rightarrow> trace_residency list" where
  "stay toIso current exitAt =
     (case current of
        None \<Rightarrow> []
      | Some (s, enteredAt) \<Rightarrow>
          [\<lparr>ty_state = s, ty_enteredAt = toIso enteredAt, ty_exitedAt = Some (toIso exitAt),
            ty_durationMs = Some (exitAt - enteredAt)\<rparr>])"

text \<open>The state the run is in with the time it was entered, through the sorted records.\<close>

fun residency_from ::
    "(int \<Rightarrow> string) \<Rightarrow> (string \<times> int) option \<Rightarrow> trace_record list \<Rightarrow> trace_residency list" where
  "residency_from toIso current [] =
     (case current of
        None \<Rightarrow> []
      | Some (s, enteredAt) \<Rightarrow>
          [\<lparr>ty_state = s, ty_enteredAt = toIso enteredAt, ty_exitedAt = None, ty_durationMs = None\<rparr>])"
| "residency_from toIso current (r # rs) =
     (if tc_type r = TLoopStarted
      then residency_from toIso
        (case state_name (tc_toState r) of None \<Rightarrow> current | Some s \<Rightarrow> Some (s, tc_timestamp r)) rs
      else if is_step r
      then (case (state_name (tc_fromState r), state_name (tc_toState r)) of
              (Some from, Some to) \<Rightarrow>
                (if map_option fst current = Some from then stay toIso current (tc_timestamp r) else []) @
                residency_from toIso (Some (to, tc_timestamp r)) rs
            | _ \<Rightarrow> residency_from toIso current rs)
      else if tc_type r = TTerminal
      then stay toIso current (tc_timestamp r) @ residency_from toIso None rs
      else residency_from toIso current rs)"

definition computeStateResidency :: "(int \<Rightarrow> string) \<Rightarrow> trace_record list \<Rightarrow> trace_residency list" where
  "computeStateResidency toIso rs = residency_from toIso None rs"

text \<open>Rows that are not trace records (\<open>None\<close>) are dropped.\<close>

definition buildTimelineFromTrace ::
    "(int \<Rightarrow> string) \<Rightarrow> trace_record option list \<Rightarrow> trace_timeline" where
  "buildTimelineFromTrace toIso rows =
     (let list = sort_key tc_sequence (List.map_filter (\<lambda>r. r) rows) in
      case list of
        [] \<Rightarrow> \<lparr>tt_loopId = [], tt_instanceId = [], tt_startedAt = toIso 0, tt_completedAt = None,
               tt_transitions = [], tt_stateResidency = []\<rparr>
      | first # _ \<Rightarrow>
          (let startedRec = (case List.find (\<lambda>r. tc_type r = TLoopStarted) list of
                 None \<Rightarrow> first | Some r \<Rightarrow> r);
               terminalRec = List.find (\<lambda>r. tc_type r = TTerminal) list
           in \<lparr>tt_loopId = tc_loopId first, tt_instanceId = tc_loopRunId first,
               tt_startedAt = toIso (tc_timestamp startedRec),
               tt_completedAt = map_option (\<lambda>r. toIso (tc_timestamp r)) terminalRec,
               tt_transitions = map (step_of toIso) (filter is_step list),
               tt_stateResidency = computeStateResidency toIso list\<rparr>))"

fun is_sub :: "string \<Rightarrow> string \<Rightarrow> bool" where
  "is_sub w [] = (w = [])"
| "is_sub w (c # cs) = (take (length w) (c # cs) = w \<or> is_sub w cs)"

definition human_approval :: "trace_step \<Rightarrow> bool" where
  "human_approval t \<longleftrightarrow>
     (let ty = lower (ts_actorType t)
      in is_sub ''human'' ty \<or> ty = ''user'' \<or> ty = ''approver'')"

definition computeMetricsFromTrace :: "host \<Rightarrow> trace_timeline \<Rightarrow> trace_metrics" where
  "computeMetricsFromTrace h timeline =
     (let started = parse_date h (tt_startedAt timeline);
          completed = (case tt_completedAt timeline of
              None \<Rightarrow> NaN | Some t \<Rightarrow> if t = [] then NaN else parse_date h t)
      in \<lparr>tm_loopId = tt_loopId timeline, tm_instanceId = tt_instanceId timeline,
          tm_totalDurationMs =
            (if is_finite started \<and> is_finite completed then Some (num_sub completed started) else None),
          tm_transitionCount = length (tt_transitions timeline),
          tm_guardBlockCount =
            length (filter (\<lambda>t. list_ex (\<lambda>(g, passed, reason). \<not> passed) (ts_guardResults t))
              (tt_transitions timeline)),
          tm_humanApprovalCount = length (filter human_approval (tt_transitions timeline)),
          tm_terminalState =
            (if tt_transitions timeline = [] then None else Some (ts_to (last (tt_transitions timeline))))\<rparr>)"

definition getStateResidencyFromTrace :: "trace_timeline \<Rightarrow> trace_residency list" where
  "getStateResidencyFromTrace timeline = tt_stateResidency timeline"

definition replayLoopFromTrace :: "(int \<Rightarrow> string) \<Rightarrow> trace_record option list \<Rightarrow> trace_timeline" where
  "replayLoopFromTrace toIso rows = buildTimelineFromTrace toIso rows"

text \<open>Only human actors are counted as approvals of a recorded run.\<close>

lemma human_approval_step: "human_approval (step_of toIso r) \<longleftrightarrow> actor_type (tc_actor r) = Human"
  by (cases "actor_type (tc_actor r)")
    (simp_all add: human_approval_def step_of_def lower_def lower_char_def Let_def)

text \<open>
  A run whose steps chain, each leaving the state the one before entered, with times that do not
  decrease: the closed stays last as long as the times say, without gap or negative length.
\<close>

fun steps_chain :: "string \<Rightarrow> int \<Rightarrow> trace_record list \<Rightarrow> bool" where
  "steps_chain s since [] = True"
| "steps_chain s since (r # rs) =
     (is_step r \<and> tc_fromState r = Some s \<and> since \<le> tc_timestamp r \<and>
      (case tc_toState r of None \<Rightarrow> False | Some s' \<Rightarrow> s' \<noteq> [] \<and> steps_chain s' (tc_timestamp r) rs))"

lemma residency_from_chain:
  "s \<noteq> [] \<Longrightarrow> steps_chain s since rs \<Longrightarrow>
     map ty_state (residency_from toIso (Some (s, since)) rs) = s # map (\<lambda>r. the (tc_toState r)) rs \<and>
     (\<forall>x \<in> set (residency_from toIso (Some (s, since)) rs). \<forall>n. ty_durationMs x = Some n \<longrightarrow> 0 \<le> n) \<and>
     sum_list (List.map_filter ty_durationMs (residency_from toIso (Some (s, since)) rs)) =
       (if rs = [] then 0 else tc_timestamp (last rs) - since)"
proof (induction rs arbitrary: s since)
  case (Cons r rs)
  from Cons.prems obtain s' where r: "is_step r" "tc_fromState r = Some s" "tc_toState r = Some s'"
      "s' \<noteq> []" "since \<le> tc_timestamp r" "steps_chain s' (tc_timestamp r) rs"
    by (auto split: option.splits)
  from r(1) have "tc_type r \<noteq> TLoopStarted" by (auto simp: is_step_def)
  with r Cons.prems(1) have "residency_from toIso (Some (s, since)) (r # rs) =
      stay toIso (Some (s, since)) (tc_timestamp r) @ residency_from toIso (Some (s', tc_timestamp r)) rs"
    by (simp add: state_name_def)
  with Cons.IH[OF r(4,6)] r(3,5) show ?case
    by (simp add: stay_def map_filter_simps)
qed (simp add: map_filter_simps)

end
