(* ===== verification/Durable_Rows.thy ===== *)
theory Durable_Rows
  imports Access Trace_Store
begin

text \<open>
  The repositories of \<open>packages/runtime-core\<close> over the database client: loop instances and their
  events (\<open>loop-instance-repository.ts\<close>), traces with run summaries (\<open>trace-repository.ts\<close>) and the
  trace store on top of them (\<open>postgres-trace-store.ts\<close>). The contract \<open>LoopInstanceRepository\<close> is
  the locale \<open>instance_repository\<close>.
\<close>

section \<open>Loop instances\<close>

record instance_row =
  ir_id :: string
  ir_aggregateId :: string
  ir_loopId :: string
  ir_tenantId :: string
  ir_idempotencyKey :: "string option"
  ir_currentState :: string
  ir_status :: string
  ir_context :: js
  ir_createdAt :: int
  ir_updatedAt :: int

record event_row =
  er_id :: string
  er_aggregateId :: string
  er_tenantId :: string
  er_type :: string
  er_fromState :: string
  er_toState :: string
  er_actorId :: string
  er_actorType :: string
  er_evidence :: js
  er_occurredAt :: int

record create_input =
  ci_aggregateId :: string
  ci_loopId :: string
  ci_tenantId :: string
  ci_idempotencyKey :: "string option"
  ci_currentState :: string
  ci_status :: string
  ci_context :: js

record update_input =
  ui_tenantId :: string
  ui_id :: string
  ui_currentState :: string
  ui_status :: string

record append_input =
  ai_aggregateId :: string
  ai_tenantId :: string
  ai_type :: string
  ai_fromState :: string
  ai_toState :: string
  ai_actorId :: string
  ai_actorType :: string
  ai_evidence :: js

record 'd instance_repo =
  findByAggregateId :: "string \<Rightarrow> string \<Rightarrow> (runtime_error, 'd, instance_row option) eop"
  findByIdempotencyKey :: "string \<Rightarrow> string \<Rightarrow> (runtime_error, 'd, instance_row option) eop"
  createInstance :: "create_input \<Rightarrow> (runtime_error, 'd, instance_row) eop"
  updateInstanceState :: "update_input \<Rightarrow> (runtime_error, 'd, instance_row) eop"
  appendEvent :: "append_input \<Rightarrow> (runtime_error, 'd, event_row) eop"

text \<open>
  What a create and an update determine of a row; identifier and times come from the database.
\<close>

definition row_made where
  "row_made r = (ir_aggregateId r, ir_loopId r, ir_tenantId r, ir_idempotencyKey r,
     ir_currentState r, ir_status r, ir_context r)"

definition row_kept where
  "row_kept r = (ir_id r, row_made r, ir_createdAt r)"

definition event_made where
  "event_made e = (er_aggregateId e, er_tenantId e, er_type e, er_fromState e, er_toState e,
     er_actorId e, er_actorType e, er_evidence e)"

text \<open>The row to create; the columns the database fills in are blank.\<close>

definition new_row :: "create_input \<Rightarrow> instance_row" where
  "new_row i =
     \<lparr>ir_id = [], ir_aggregateId = ci_aggregateId i, ir_loopId = ci_loopId i,
      ir_tenantId = ci_tenantId i, ir_idempotencyKey = ci_idempotencyKey i,
      ir_currentState = ci_currentState i, ir_status = ci_status i, ir_context = ci_context i,
      ir_createdAt = 0, ir_updatedAt = 0\<rparr>"

definition new_event :: "append_input \<Rightarrow> event_row" where
  "new_event i =
     \<lparr>er_id = [], er_aggregateId = ai_aggregateId i, er_tenantId = ai_tenantId i,
      er_type = ai_type i, er_fromState = ai_fromState i, er_toState = ai_toState i,
      er_actorId = ai_actorId i, er_actorType = ai_actorType i,
      er_evidence = nullish (ai_evidence i) JNull, er_occurredAt = 0\<rparr>"

text \<open>\<open>PrismaLoopInstanceRepository\<close>.\<close>

definition pr_findByAggregateId ::
    "('d, instance_row) table \<Rightarrow> string \<Rightarrow> string \<Rightarrow> (runtime_error, 'd, instance_row option) eop" where
  "pr_findByAggregateId tb tenantId aggregateId =
     op_bind (rethrow (t_find tb (\<lambda>r. ir_aggregateId r = aggregateId))) (\<lambda>row.
     op_return (case row of
         None \<Rightarrow> None | Some r \<Rightarrow> if ir_tenantId r \<noteq> tenantId then None else Some r))"

definition pr_findByIdempotencyKey ::
    "('d, instance_row) table \<Rightarrow> string \<Rightarrow> string \<Rightarrow> (runtime_error, 'd, instance_row option) eop" where
  "pr_findByIdempotencyKey tb tenantId key =
     rethrow (t_find tb (\<lambda>r. ir_tenantId r = tenantId \<and> ir_idempotencyKey r = Some key))"

definition create_error :: "create_input \<Rightarrow> js \<Rightarrow> runtime_error" where
  "create_error i err =
     (case extractPrismaUniqueTarget err of
        None \<Rightarrow> Thrown err
      | Some target \<Rightarrow>
          (case ci_idempotencyKey i of
             Some key \<Rightarrow>
               if ''idempotencyKey'' \<in> set target
               then IdempotencyConflictError (ci_tenantId i) key else UniqueConflictError target
           | None \<Rightarrow> UniqueConflictError target))"

definition pr_createInstance ::
    "('d, instance_row) table \<Rightarrow> create_input \<Rightarrow> (runtime_error, 'd, instance_row) eop" where
  "pr_createInstance tb i = op_catch (t_create tb (new_row i)) (\<lambda>err. op_throw (create_error i err))"

definition pr_updateInstanceState ::
    "('d, instance_row) table \<Rightarrow> update_input \<Rightarrow> (runtime_error, 'd, instance_row) eop" where
  "pr_updateInstanceState tb u =
     rethrow (t_update tb (\<lambda>r. ir_id r = ui_id u)
       (\<lambda>r. r\<lparr>ir_currentState := ui_currentState u, ir_status := ui_status u\<rparr>))"

definition pr_appendEvent ::
    "('d, event_row) table \<Rightarrow> append_input \<Rightarrow> (runtime_error, 'd, event_row) eop" where
  "pr_appendEvent etb i = rethrow (t_create etb (new_event i))"

definition prisma_repo ::
    "('d, instance_row) table \<Rightarrow> ('d, event_row) table \<Rightarrow> 'd instance_repo" where
  "prisma_repo tb etb =
     \<lparr>findByAggregateId = pr_findByAggregateId tb, findByIdempotencyKey = pr_findByIdempotencyKey tb,
      createInstance = pr_createInstance tb, updateInstanceState = pr_updateInstanceState tb,
      appendEvent = pr_appendEvent etb\<rparr>"

section \<open>The contract of the repository\<close>

text \<open>
  Reads find rows of the tenant they are asked for and change nothing, a create adds a row with its
  input or fails without effect, an update sets state and status of the row of its identifier,
  an appended event leaves the instances alone; identifiers stay unique.
\<close>

definition row_updated :: "update_input \<Rightarrow> instance_row \<Rightarrow> instance_row list \<Rightarrow> instance_row list \<Rightarrow> bool" where
  "row_updated u r rs rs' \<longleftrightarrow>
     replaces row_kept (\<lambda>r. ir_id r = ui_id u)
       (\<lambda>r. r\<lparr>ir_currentState := ui_currentState u, ir_status := ui_status u\<rparr>) r rs rs'"

locale instance_repository =
  fixes repo :: "'d instance_repo" and rows :: "'d \<Rightarrow> instance_row list"
  assumes find_rows: "findByAggregateId repo t a d = (r, d') \<Longrightarrow> rows d' = rows d"
    and find_some: "findByAggregateId repo t a d = (Inr (Some x), d') \<Longrightarrow>
      x \<in> set (rows d) \<and> ir_tenantId x = t \<and> ir_aggregateId x = a"
    and key_rows: "findByIdempotencyKey repo t k d = (r, d') \<Longrightarrow> rows d' = rows d"
    and key_some: "findByIdempotencyKey repo t k d = (Inr (Some x), d') \<Longrightarrow>
      x \<in> set (rows d) \<and> ir_tenantId x = t \<and> ir_idempotencyKey x = Some k"
    and key_none: "findByIdempotencyKey repo t k d = (Inr None, d') \<Longrightarrow>
      x \<in> set (rows d) \<Longrightarrow> ir_tenantId x = t \<Longrightarrow> ir_idempotencyKey x \<noteq> Some k"
    and create_rows: "createInstance repo i d = (Inl e, d') \<Longrightarrow> rows d' = rows d"
    and create_some: "createInstance repo i d = (Inr x, d') \<Longrightarrow>
      row_made x = row_made (new_row i) \<and> rows d' = rows d @ [x]"
    and update_rows: "updateInstanceState repo u d = (Inl e, d') \<Longrightarrow> rows d' = rows d"
    and update_some: "updateInstanceState repo u d = (Inr x, d') \<Longrightarrow> row_updated u x (rows d) (rows d')"
    and append_rows: "appendEvent repo ev d = (r', d') \<Longrightarrow> rows d' = rows d"
    and create_ids: "createInstance repo i d = (res, d') \<Longrightarrow> distinct (map ir_id (rows d)) \<Longrightarrow>
      distinct (map ir_id (rows d'))"
begin

text \<open>An update of a row of the tenant leaves the rows of the other tenants as they were.\<close>

lemma update_other_tenants:
  assumes "updateInstanceState repo u d = (r, d')" "x \<in> set (rows d)" "ir_id x = ui_id u"
    "ir_tenantId x = t" "distinct (map ir_id (rows d))"
  shows "filter (\<lambda>y. ir_tenantId y \<noteq> t) (rows d') = filter (\<lambda>y. ir_tenantId y \<noteq> t) (rows d)"
proof (cases r)
  case (Inl e)
  with assms(1) update_rows show ?thesis by metis
next
  case (Inr y)
  with update_some assms(1) have "row_updated u y (rows d) (rows d')" by metis
  then obtain k where k: "k < length (rows d)" "ir_id (rows d ! k) = ui_id u"
    "row_kept y = row_kept ((rows d ! k)\<lparr>ir_currentState := ui_currentState u, ir_status := ui_status u\<rparr>)"
    "rows d' = (rows d)[k := y]"
    by (auto simp: row_updated_def replaces_def)
  from assms(2) obtain j where j: "j < length (rows d)" "x = rows d ! j"
    by (auto simp: in_set_conv_nth)
  have "j = k"
    using assms(3,5) j k(1,2) by (metis length_map nth_eq_iff_index_eq nth_map)
  then have t: "ir_tenantId (rows d ! k) = t" "ir_tenantId y = t"
    using j assms(4) k(3) by (simp_all add: row_kept_def row_made_def)
  have split: "rows d = take k (rows d) @ rows d ! k # drop (Suc k) (rows d)"
    using k(1) by (rule id_take_nth_drop)
  have "rows d' = take k (rows d) @ y # drop (Suc k) (rows d)"
    using k(1,4) by (simp add: upd_conv_take_nth_drop)
  then show ?thesis using t by (subst split) simp
qed

text \<open>Updates keep the identifiers.\<close>

lemma update_ids:
  assumes "updateInstanceState repo u d = (r, d')"
  shows "map ir_id (rows d') = map ir_id (rows d)"
proof (cases r)
  case (Inl e)
  with assms update_rows show ?thesis by metis
next
  case (Inr y)
  with update_some assms have "row_updated u y (rows d) (rows d')" by metis
  then obtain k where "k < length (rows d)" "ir_id y = ir_id (rows d ! k)" "rows d' = (rows d)[k := y]"
    by (auto simp: row_updated_def replaces_def row_kept_def)
  then show ?thesis by (simp add: map_update list_update_same_conv)
qed

end

text \<open>
  What the client's tables of instances and events promise: as documented, with identifiers that
  are unique, and an event does not touch the instances.
\<close>

definition instance_db_ok ::
    "('d, instance_row) table \<Rightarrow> ('d, event_row) table \<Rightarrow> ('d \<Rightarrow> instance_row list) \<Rightarrow> bool" where
  "instance_db_ok tb etb rows \<longleftrightarrow>
     table_ok tb row_made row_kept rows \<and>
     (\<forall>e d. rows (snd (t_create etb e d)) = rows d) \<and>
     (\<forall>x d. distinct (map ir_id (rows d)) \<longrightarrow> distinct (map ir_id (rows (snd (t_create tb x d)))))"

lemma instance_db_okD:
  assumes "instance_db_ok tb etb rows"
  shows "table_ok tb row_made row_kept rows"
    and "t_create etb e d = (r, d') \<Longrightarrow> rows d' = rows d"
    and "t_create tb x d = (r', d') \<Longrightarrow> distinct (map ir_id (rows d)) \<Longrightarrow> distinct (map ir_id (rows d'))"
proof -
  from assms have "\<forall>e d. rows (snd (t_create etb e d)) = rows d"
    "\<forall>x d. distinct (map ir_id (rows d)) \<longrightarrow> distinct (map ir_id (rows (snd (t_create tb x d))))"
    "table_ok tb row_made row_kept rows"
    by (simp_all add: instance_db_ok_def)
  then show "table_ok tb row_made row_kept rows"
    "t_create etb e d = (r, d') \<Longrightarrow> rows d' = rows d"
    "t_create tb x d = (r', d') \<Longrightarrow> distinct (map ir_id (rows d)) \<Longrightarrow> distinct (map ir_id (rows d'))"
    by (metis snd_conv)+
qed

lemma prisma_repository:
  assumes "instance_db_ok tb etb rows"
  shows "instance_repository (prisma_repo tb etb) rows"
proof -
  note tb = instance_db_okD(1)[OF assms] and ev = instance_db_okD(2)[OF assms]
    and ids = instance_db_okD(3)[OF assms]
  show ?thesis
  proof
  fix t a d r d'
  assume "findByAggregateId (prisma_repo tb etb) t a d = (r, d')"
  then show "rows d' = rows d"
    by (auto simp: prisma_repo_def pr_findByAggregateId_def elim!: op_bind_cases rethrow_cases
        dest: table_find(1)[OF tb])
next
  fix t a d x d'
  assume "findByAggregateId (prisma_repo tb etb) t a d = (Inr (Some x), d')"
  then show "x \<in> set (rows d) \<and> ir_tenantId x = t \<and> ir_aggregateId x = a"
    by (auto simp: prisma_repo_def pr_findByAggregateId_def elim!: op_bind_cases rethrow_cases
        split: option.splits if_splits dest: table_found[OF tb])
next
  fix t k d r d'
  assume "findByIdempotencyKey (prisma_repo tb etb) t k d = (r, d')"
  then show "rows d' = rows d"
    by (auto simp: prisma_repo_def pr_findByIdempotencyKey_def elim!: rethrow_cases
        dest: table_find(1)[OF tb])
next
  fix t k d x d'
  assume "findByIdempotencyKey (prisma_repo tb etb) t k d = (Inr (Some x), d')"
  then show "x \<in> set (rows d) \<and> ir_tenantId x = t \<and> ir_idempotencyKey x = Some k"
    by (auto simp: prisma_repo_def pr_findByIdempotencyKey_def elim!: rethrow_cases
        dest: table_found[OF tb])
next
  fix t k d x d'
  assume "findByIdempotencyKey (prisma_repo tb etb) t k d = (Inr None, d')"
    and "x \<in> set (rows d)" "ir_tenantId x = t"
  then show "ir_idempotencyKey x \<noteq> Some k"
    by (auto simp: prisma_repo_def pr_findByIdempotencyKey_def elim!: rethrow_cases
        dest: table_not_found[OF tb])
next
  fix i d e d'
  assume "createInstance (prisma_repo tb etb) i d = (Inl e, d')"
  then show "rows d' = rows d"
    by (auto simp: prisma_repo_def pr_createInstance_def op_catch_def split: prod.splits sum.splits
        dest: table_create(1)[OF tb _ refl])
next
  fix i d x d'
  assume "createInstance (prisma_repo tb etb) i d = (Inr x, d')"
  then show "row_made x = row_made (new_row i) \<and> rows d' = rows d @ [x]"
    by (auto simp: prisma_repo_def pr_createInstance_def op_catch_def split: prod.splits sum.splits
        dest: table_create(2)[OF tb _ refl])
next
  fix u d e d'
  assume "updateInstanceState (prisma_repo tb etb) u d = (Inl e, d')"
  then show "rows d' = rows d"
    by (auto simp: prisma_repo_def pr_updateInstanceState_def elim!: rethrow_cases
        dest: table_update(1)[OF tb _ refl])
next
  fix u d x d'
  assume "updateInstanceState (prisma_repo tb etb) u d = (Inr x, d')"
  then show "row_updated u x (rows d) (rows d')"
    by (auto simp: prisma_repo_def pr_updateInstanceState_def row_updated_def elim!: rethrow_cases
        dest: table_update(2)[OF tb _ refl])
next
  fix e d r d'
  assume "appendEvent (prisma_repo tb etb) e d = (r, d')"
  then show "rows d' = rows d"
    by (auto simp: prisma_repo_def pr_appendEvent_def elim!: rethrow_cases dest: ev)
next
  fix i d r d'
  assume "createInstance (prisma_repo tb etb) i d = (r, d')" "distinct (map ir_id (rows d))"
  then show "distinct (map ir_id (rows d'))"
    by (auto simp: prisma_repo_def pr_createInstance_def op_catch_def split: prod.splits sum.splits
        dest: ids)
qed
qed

end
