(* ===== verification/Durable_Runs.thy ===== *)
theory Durable_Runs
  imports Engine Durable_Rows
begin

text \<open>
  \<open>packages/runtime-core\<close>: provisioning, starting, moving and cancelling loops whose instances live in
  the database (\<open>loop-execution.ts\<close>), with the engine wrapped so that each transition leaves a trace
  record (\<open>oss-traced-loop-system.ts\<close>).

  The record is written without waiting for it; here the write happens at the end of the call.
\<close>

section \<open>The world of the runtime\<close>

text \<open>
  The process: clock, random text, identifiers, hash and JSON text, \<open>toISOString\<close>, the message of a
  schema error and the object view of an event. \<open>rv_clock n k\<close> is the time read as number \<open>k\<close> within
  step \<open>n\<close>. \<open>rv_json\<close> is \<open>JSON.stringify\<close>, none if it throws.
\<close>

record process =
  rv_clock :: "nat \<Rightarrow> nat \<Rightarrow> int"
  rv_random :: "nat \<Rightarrow> string"
  rv_uuid :: "nat \<Rightarrow> string"
  rv_sha256 :: "string \<Rightarrow> string"
  rv_json :: "js \<Rightarrow> string option"
  rv_toIso :: "int \<Rightarrow> string"
  rv_zod_message :: "string \<Rightarrow> string"
  rv_event_js :: "loop_event \<Rightarrow> js"
  rv_host :: host
  rv_traceEnabled :: bool

record ('d, 's, 'p, 't) runtime_world =
  rt_db :: 'd
  rt_engine :: "('s, 'p) world"
  rt_trace :: 't
  rt_sequences :: "(string \<times> nat) list"
  rt_tick :: nat

definition on_db :: "(runtime_error, 'd, 'a) eop \<Rightarrow> (runtime_error, ('d, 's, 'p, 't) runtime_world, 'a) eop" where
  "on_db m w = (case m (rt_db w) of (r, d) \<Rightarrow> (r, w\<lparr>rt_db := d\<rparr>))"

definition on_engine :: "(('s, 'p) world, 'a) op \<Rightarrow> (runtime_error, ('d, 's, 'p, 't) runtime_world, 'a) eop" where
  "on_engine m w =
     (case m (rt_engine w) of
        (Inl e, ew) \<Rightarrow> (Inl (EngineError e), w\<lparr>rt_engine := ew\<rparr>)
      | (Inr x, ew) \<Rightarrow> (Inr x, w\<lparr>rt_engine := ew\<rparr>))"

definition on_trace :: "(runtime_error, 't, 'a) eop \<Rightarrow> (runtime_error, ('d, 's, 'p, 't) runtime_world, 'a) eop" where
  "on_trace m w = (case m (rt_trace w) of (r, t) \<Rightarrow> (r, w\<lparr>rt_trace := t\<rparr>))"

definition rt_fresh :: "('e, ('d, 's, 'p, 't) runtime_world, nat) eop" where
  "rt_fresh w = (Inr (rt_tick w), w\<lparr>rt_tick := Suc (rt_tick w)\<rparr>)"

section \<open>The initial state of a definition\<close>

text \<open>
  Definitions come in several shapes: with \<open>initialState\<close>, with a list of states, or with states as
  an object whose entries list the targets of their events.
\<close>

definition filled :: "js \<Rightarrow> string option" where
  "filled v = (case v of JStr s \<Rightarrow> (if trim s = [] then None else Some (trim s)) | _ \<Rightarrow> None)"

definition on_targets :: "js \<Rightarrow> string list" where
  "on_targets spec =
     (case js_get spec ''on'' of
        JObj kvs \<Rightarrow> List.map_filter (\<lambda>(k, v). filled v) kvs
      | _ \<Rightarrow> [])"

definition initialStateFromXStateLike :: "jobj \<Rightarrow> string option" where
  "initialStateFromXStateLike states =
     (let targets = concat (map (\<lambda>(k, spec). on_targets spec) states);
          keys = map fst states
      in if ''idle'' \<in> set keys \<and> ''idle'' \<notin> set targets then Some ''idle''
         else (case List.find (\<lambda>k. k \<notin> set targets) keys of
                 Some k \<Rightarrow> Some k
               | None \<Rightarrow> (case keys of [] \<Rightarrow> None | k # _ \<Rightarrow> Some k)))"

definition first_state :: "js \<Rightarrow> string option" where
  "first_state v =
     (case v of
        JStr s \<Rightarrow> filled v
      | JObj row \<Rightarrow> filled (nullish (obj_get row ''stateId'') (obj_get row ''id''))
      | _ \<Rightarrow> None)"

definition parseInitialState :: "js \<Rightarrow> string option" where
  "parseInitialState d =
     (case d of
        JObj ob \<Rightarrow>
          (case filled (obj_get ob ''initialState'') of
             Some s \<Rightarrow> Some s
           | None \<Rightarrow>
               (case obj_get ob ''states'' of
                  JArr (first # rest) \<Rightarrow> first_state first
                | JObj states \<Rightarrow> initialStateFromXStateLike states
                | JDate n \<Rightarrow> initialStateFromXStateLike []
                | _ \<Rightarrow> None))
      | _ \<Rightarrow> None)"

section \<open>Provisioning\<close>

record instance_dto =
  dto_instanceId :: string
  dto_aggregateId :: string
  dto_loopId :: string
  dto_tenantId :: string
  dto_currentState :: string
  dto_status :: string
  dto_context :: jobj
  dto_createdAt :: string
  dto_updatedAt :: string

definition toLoopInstanceDto :: "process \<Rightarrow> instance_row \<Rightarrow> instance_dto" where
  "toLoopInstanceDto pr row =
     \<lparr>dto_instanceId = ir_id row, dto_aggregateId = ir_aggregateId row, dto_loopId = ir_loopId row,
      dto_tenantId = ir_tenantId row, dto_currentState = ir_currentState row,
      dto_status = ir_status row,
      dto_context = (case ir_context row of JObj kvs \<Rightarrow> kvs | _ \<Rightarrow> []),
      dto_createdAt = rv_toIso pr (ir_createdAt row), dto_updatedAt = rv_toIso pr (ir_updatedAt row)\<rparr>"

record provision_input =
  pi_identity :: identity
  pi_loopId :: string
  pi_payload :: jobj
  pi_idempotencyKey :: "string option"
  pi_definition :: js

datatype provision_outcome =
    Created instance_dto
  | IdempotentReplay instance_dto
  | InvalidDefinition string
  | Conflict "string list"

definition clean_key :: "string option \<Rightarrow> string option" where
  "clean_key k = (case k of None \<Rightarrow> None | Some s \<Rightarrow> if trim s = [] then None else Some (trim s))"

definition create_conflict ::
    "process \<Rightarrow> 'd instance_repo \<Rightarrow> string \<Rightarrow> string option \<Rightarrow> runtime_error \<Rightarrow>
     (runtime_error, ('d, 's, 'p, 't) runtime_world, provision_outcome) eop" where
  "create_conflict pr repo tenantId key err =
     (case (err, key) of
        (IdempotencyConflictError _ _, Some k) \<Rightarrow>
          op_bind (on_db (findByIdempotencyKey repo tenantId k)) (\<lambda>winner.
          case winner of
            Some row \<Rightarrow> op_return (IdempotentReplay (toLoopInstanceDto pr row))
          | None \<Rightarrow> op_throw err)
      | (UniqueConflictError target, _) \<Rightarrow> op_return (Conflict target)
      | _ \<Rightarrow> op_throw err)"

definition provision_create ::
    "process \<Rightarrow> 'd instance_repo \<Rightarrow> provision_input \<Rightarrow> string option \<Rightarrow>
     (runtime_error, ('d, 's, 'p, 't) runtime_world, provision_outcome) eop" where
  "provision_create pr repo i key =
     (case parseInitialState (pi_definition i) of
        None \<Rightarrow> op_return (InvalidDefinition ''Loop definition is missing initial state'')
      | Some initialState \<Rightarrow>
          op_bind rt_fresh (\<lambda>n.
          op_catch
            (op_bind (on_db (createInstance repo
               \<lparr>ci_aggregateId = rv_uuid pr n, ci_loopId = pi_loopId i,
                ci_tenantId = id_tenantId (pi_identity i), ci_idempotencyKey = key,
                ci_currentState = initialState, ci_status = ''CREATED'',
                ci_context = JObj (pi_payload i)\<rparr>))
              (\<lambda>row. op_return (Created (toLoopInstanceDto pr row))))
            (create_conflict pr repo (id_tenantId (pi_identity i)) key)))"

definition provisionOssLoopInstance ::
    "process \<Rightarrow> 'd instance_repo \<Rightarrow> provision_input \<Rightarrow>
     (runtime_error, ('d, 's, 'p, 't) runtime_world, provision_outcome) eop" where
  "provisionOssLoopInstance pr repo i =
     (let key = clean_key (pi_idempotencyKey i) in
      case key of
        None \<Rightarrow> provision_create pr repo i key
      | Some k \<Rightarrow>
          op_bind (on_db (findByIdempotencyKey repo (id_tenantId (pi_identity i)) k)) (\<lambda>existing.
          case existing of
            Some row \<Rightarrow> op_return (IdempotentReplay (toLoopInstanceDto pr row))
          | None \<Rightarrow> provision_create pr repo i key))"

section \<open>The traced engine\<close>

text \<open>The trace store the wrapper writes to; a durable one also hands out sequence numbers.\<close>

record 't trace_writer =
  tw_write :: "trace_record \<Rightarrow> (runtime_error, 't, unit) eop"
  tw_allocate :: "(string \<Rightarrow> (runtime_error, 't, int) eop) option"

record trace_config =
  cf_loopId :: string
  cf_tenantId :: string
  cf_governed :: "bool option"

definition nextInProcessSequence :: "string \<Rightarrow> (runtime_error, ('d, 's, 'p, 't) runtime_world, int) eop" where
  "nextInProcessSequence run w =
     (let n = (case map_of (rt_sequences w) run of None \<Rightarrow> 0 | Some n \<Rightarrow> n)
      in (Inr (int n), w\<lparr>rt_sequences := AList.update run (n + 1) (rt_sequences w)\<rparr>))"

definition nextTraceSequence ::
    "'t trace_writer \<Rightarrow> string \<Rightarrow> (runtime_error, ('d, 's, 'p, 't) runtime_world, int) eop" where
  "nextTraceSequence tw run =
     (case tw_allocate tw of
        Some allocate \<Rightarrow> on_trace (allocate run)
      | None \<Rightarrow> nextInProcessSequence run)"

definition trace_sequence ::
    "'t trace_writer \<Rightarrow> string \<Rightarrow> (runtime_error, ('d, 's, 'p, 't) runtime_world, int) eop" where
  "trace_sequence tw run = op_catch (nextTraceSequence tw run) (\<lambda>_. nextInProcessSequence run)"

definition actorForTrace :: "actor_ref \<Rightarrow> actor_ref" where
  "actorForTrace a =
     \<lparr>actor_id = actor_id a, actor_type = actor_type a, actor_displayName = None, actor_metadata = None\<rparr>"

definition mapGuardFailures :: "int \<Rightarrow> guard_failure list option \<Rightarrow> guard_trace list" where
  "mapGuardFailures now failures =
     (case failures of
        None \<Rightarrow> []
      | Some fs \<Rightarrow> map (\<lambda>g. \<lparr>gt_guardId = fl_guardId g, gt_passed = False, gt_reason = fl_message g,
                          gt_evaluatedAt = now, gt_durationMs = 0\<rparr>) fs)"

definition error_message :: "process \<Rightarrow> js_error \<Rightarrow> string" where
  "error_message pr e =
     (case e of
        Error m \<Rightarrow> m
      | ZodError s \<Rightarrow> rv_zod_message pr s
      | CanonError m p \<Rightarrow> m @ '' (at '' @ p @ '')'')"

definition traceTypeAndBlocked ::
    "process \<Rightarrow> js_error + transition_result \<Rightarrow> trace_event_type \<times> bool \<times> string option" where
  "traceTypeAndBlocked pr r =
     (case r of
        Inl e \<Rightarrow> (TBlocked, True, Some (error_message pr e))
      | Inr res \<Rightarrow>
          if res_status res = Executed \<and> res_toState res \<noteq> None then (TCompleted, False, None)
          else (TBlocked, True, Some
            (case res_rejectionReason res of
               Some reason \<Rightarrow> reason
             | None \<Rightarrow> if res_status res = GuardsFailed then ''Transition blocked by guard''
                       else ''Transition rejected'')))"

text \<open>The result as the object it is at run time.\<close>

fun status_name :: "transition_status \<Rightarrow> string" where
  "status_name Executed = ''executed''"
| "status_name GuardsFailed = ''guard_failed''"
| "status_name Rejected = ''rejected''"
| "status_name PendingApproval = ''pending_approval''"

definition failure_js :: "guard_failure \<Rightarrow> js" where
  "failure_js f = JObj [(''guardId'', JStr (fl_guardId f)), (''message'', JStr (fl_message f)),
     (''severity'', JStr (case fl_severity f of Hard \<Rightarrow> ''hard'' | Soft \<Rightarrow> ''soft''))]"

definition opt_field :: "string \<Rightarrow> js option \<Rightarrow> jobj" where
  "opt_field k v = (case v of None \<Rightarrow> [] | Some x \<Rightarrow> [(k, x)])"

definition result_js :: "process \<Rightarrow> transition_result \<Rightarrow> jobj" where
  "result_js pr res =
     [(''status'', JStr (status_name (res_status res))), (''fromState'', JStr (res_fromState res))] @
     opt_field ''toState'' (map_option JStr (res_toState res)) @
     opt_field ''guardFailures'' (map_option (\<lambda>fs. JArr (map failure_js fs)) (res_guardFailures res)) @
     opt_field ''rejectionReason'' (map_option JStr (res_rejectionReason res)) @
     opt_field ''event'' (map_option (rv_event_js pr) (res_event res))"

text \<open>The status fields of the trace; a field the result lacks is there and undefined.\<close>

definition evidence_payload :: "js_error + transition_result \<Rightarrow> js" where
  "evidence_payload r =
     (let field = (\<lambda>f. case r of Inl _ \<Rightarrow> JUndef | Inr res \<Rightarrow> (case f res of None \<Rightarrow> JUndef | Some v \<Rightarrow> v))
      in JObj [(''transitionStatus'', field (\<lambda>res. Some (JStr (status_name (res_status res))))),
               (''fromState'', field (\<lambda>res. Some (JStr (res_fromState res)))),
               (''toState'', field (\<lambda>res. map_option JStr (res_toState res))),
               (''rejectionReason'', field (\<lambda>res. map_option JStr (res_rejectionReason res))),
               (''guardFailures'', field (\<lambda>res. map_option (\<lambda>fs. JArr (map failure_js fs)) (res_guardFailures res)))])"

definition input_hash :: "process \<Rightarrow> js \<Rightarrow> string" where
  "input_hash pr raw =
     rv_sha256 pr (case rv_json pr raw of Some s \<Rightarrow> s | None \<Rightarrow> ''[unserializable]'')"

definition trace_of_transition ::
    "process \<Rightarrow> trace_config \<Rightarrow> transition_params \<Rightarrow> js_error + transition_result \<Rightarrow>
     int \<Rightarrow> nat \<Rightarrow> int \<Rightarrow> trace_record" where
  "trace_of_transition pr cf p r startMs n sequence =
     (let run = tp_aggregateId p; (ty, blocked, reason) = traceTypeAndBlocked pr r;
          raw = JObj (evidence_of p)
      in \<lparr>tc_id = ''tr_'' @ run @ ''_'' @ show_num (rv_host pr) (of_int (rv_clock pr n 1)) @ ''_'' @ rv_random pr n,
          tc_loopRunId = run, tc_loopId = cf_loopId cf, tc_sequence = sequence,
          tc_timestamp = rv_clock pr n 2, tc_type = ty,
          tc_fromState = (case r of Inl _ \<Rightarrow> None | Inr res \<Rightarrow> Some (res_fromState res)),
          tc_toState = (case r of Inl _ \<Rightarrow> None | Inr res \<Rightarrow> res_toState res),
          tc_transitionId = Some (tp_transitionId p), tc_actor = actorForTrace (tp_actor p),
          tc_inputHash = input_hash pr raw, tc_input = guardEvidence None raw,
          tc_output = guardEvidence None (JObj (case r of Inl _ \<Rightarrow> [] | Inr res \<Rightarrow> result_js pr res)),
          tc_guards = mapGuardFailures (rv_clock pr n 0)
            (case r of Inl _ \<Rightarrow> None | Inr res \<Rightarrow> res_guardFailures res),
          tc_evidence = guardEvidence None (evidence_payload r),
          tc_durationMs = rv_clock pr n 3 - startMs, tc_blocked = blocked, tc_blockReason = reason,
          tc_governed = (case cf_governed cf of None \<Rightarrow> False | Some g \<Rightarrow> g),
          tc_tenantId = cf_tenantId cf\<rparr>)"

text \<open>
  The wrapped \<open>transition\<close>: the \<open>finally\<close> block runs whether the engine returned or threw, and what
  goes wrong while writing is logged only.
\<close>

definition trace_transition ::
    "process \<Rightarrow> 't trace_writer \<Rightarrow> trace_config \<Rightarrow> transition_params \<Rightarrow> int \<Rightarrow>
     js_error + transition_result \<Rightarrow> (runtime_error, ('d, 's, 'p, 't) runtime_world, unit) eop" where
  "trace_transition pr tw cf p startMs r =
     op_bind (trace_sequence tw (tp_aggregateId p)) (\<lambda>sq.
     op_bind rt_fresh (\<lambda>n.
     op_catch (on_trace (tw_write tw (trace_of_transition pr cf p r startMs n sq)))
       (\<lambda>_. op_return ())))"

definition traced_transition ::
    "process \<Rightarrow> ('s, 'p) engine \<Rightarrow> 't trace_writer \<Rightarrow> trace_config \<Rightarrow> transition_params \<Rightarrow>
     (runtime_error, ('d, 's, 'p, 't) runtime_world, transition_result) eop" where
  "traced_transition pr eng tw cf p =
     op_bind rt_fresh (\<lambda>n0.
     \<lambda>w. case transition eng p (rt_engine w) of
       (r, ew) \<Rightarrow>
         op_bind (trace_transition pr tw cf p (rv_clock pr n0 0) r)
           (\<lambda>_. case r of Inl e \<Rightarrow> op_throw (EngineError e) | Inr res \<Rightarrow> op_return res)
           (w\<lparr>rt_engine := ew\<rparr>))"

definition wrapped_transition ::
    "process \<Rightarrow> ('s, 'p) engine \<Rightarrow> 't trace_writer \<Rightarrow> trace_config \<Rightarrow> transition_params \<Rightarrow>
     (runtime_error, ('d, 's, 'p, 't) runtime_world, transition_result) eop" where
  "wrapped_transition pr eng tw cf p =
     (if rv_traceEnabled pr then traced_transition pr eng tw cf p else on_engine (transition eng p))"

section \<open>Starting, moving and cancelling\<close>

record execution =
  xc_process :: process
  xc_identity :: identity
  xc_aggregateKey :: string
  xc_governed :: "bool option"

fun loop_status_name :: "loop_status \<Rightarrow> string" where
  "loop_status_name Pending = ''pending''"
| "loop_status_name Active = ''active''"
| "loop_status_name Completed = ''completed''"
| "loop_status_name Failed = ''failed''"
| "loop_status_name Cancelled = ''cancelled''"
| "loop_status_name Suspended = ''suspended''"

datatype start_outcome =
    Started string string string
  | StartNotFound
  | AlreadyStarted string

definition start_params_of :: "execution \<Rightarrow> instance_row \<Rightarrow> start_params" where
  "start_params_of x row =
     \<lparr>sp_loopId = ir_loopId row, sp_aggregateId = ir_aggregateId row,
      sp_actor = \<lparr>actor_id = id_actorId (xc_identity x), actor_type = Human,
                  actor_displayName = None, actor_metadata = None\<rparr>,
      sp_correlationId = None, sp_metadata = Some [(''tenantId'', JStr (ir_tenantId row))]\<rparr>"

definition executeOssStart ::
    "'d instance_repo \<Rightarrow> ('s, 'p) engine \<Rightarrow> execution \<Rightarrow>
     (runtime_error, ('d, 's, 'p, 't) runtime_world, start_outcome) eop" where
  "executeOssStart repo eng x =
     op_bind (on_db (findByAggregateId repo (id_tenantId (xc_identity x)) (xc_aggregateKey x))) (\<lambda>existing.
     case existing of
       None \<Rightarrow> op_return StartNotFound
     | Some row \<Rightarrow>
         if ir_status row \<notin> {''CREATED'', ''PENDING''} then op_return (AlreadyStarted (ir_status row))
         else
           op_bind (on_engine (start eng (start_params_of x row))) (\<lambda>started.
           op_bind (on_db (updateInstanceState repo
             \<lparr>ui_tenantId = ir_tenantId row, ui_id = ir_id row,
              ui_currentState = inst_currentState started,
              ui_status = loop_status_name (inst_status started)\<rparr>)) (\<lambda>updated.
           op_bind (on_db (appendEvent repo
             \<lparr>ai_aggregateId = ir_aggregateId updated, ai_tenantId = ir_tenantId updated,
              ai_type = ''start'', ai_fromState = ir_currentState row,
              ai_toState = ir_currentState updated, ai_actorId = id_actorId (xc_identity x),
              ai_actorType = ''human'', ai_evidence = JUndef\<rparr>)) (\<lambda>_.
           op_return (Started (ir_aggregateId updated) (ir_currentState updated) (ir_status updated))))))"

datatype caller_type = CallerHuman | CallerAi | CallerSystem

record transition_input_rt =
  ti_signalId :: string
  ti_evidence :: "jobj option"
  ti_actorId :: string
  ti_actorType :: caller_type

definition sanitize_value :: "js \<Rightarrow> js" where
  "sanitize_value v = (case v of JStr s \<Rightarrow> JStr (truncated (trim_start (strip_role s))) | _ \<Rightarrow> v)"

definition sanitizeEvidence :: "jobj option \<Rightarrow> jobj option" where
  "sanitizeEvidence evidence = map_option (map (\<lambda>(k, v). (k, sanitize_value v))) evidence"

datatype transition_outcome =
    Moved string string string string string
  | MoveNotFound
  | MoveRejected string

definition move_params :: "transition_input_rt \<Rightarrow> instance_row \<Rightarrow> transition_params" where
  "move_params i row =
     \<lparr>tp_aggregateId = ir_aggregateId row, tp_transitionId = ti_signalId i,
      tp_actor = \<lparr>actor_id = ti_actorId i,
        actor_type = (case ti_actorType i of CallerSystem \<Rightarrow> Automation | CallerAi \<Rightarrow> AiAgent | CallerHuman \<Rightarrow> Human),
        actor_displayName = None, actor_metadata = None\<rparr>,
      tp_evidence = sanitizeEvidence (ti_evidence i), tp_evidenceSnapshots = JUndef,
      tp_tenantId = None, tp_correlationId = None, tp_constraints = None\<rparr>"

definition rejection_reason :: "transition_result \<Rightarrow> string" where
  "rejection_reason res =
     (case res_rejectionReason res of
        Some (c # cs) \<Rightarrow> c # cs
      | _ \<Rightarrow> if res_status res = GuardsFailed then ''Transition blocked by guard''
             else ''Transition rejected'')"

definition executeOssTransition ::
    "'d instance_repo \<Rightarrow> ('s, 'p) engine \<Rightarrow> 't trace_writer \<Rightarrow> execution \<Rightarrow> transition_input_rt \<Rightarrow>
     (runtime_error, ('d, 's, 'p, 't) runtime_world, transition_outcome) eop" where
  "executeOssTransition repo eng tw x i =
     op_bind (on_db (findByAggregateId repo (id_tenantId (xc_identity x)) (xc_aggregateKey x))) (\<lambda>existing.
     case existing of
       None \<Rightarrow> op_return MoveNotFound
     | Some row \<Rightarrow>
         op_bind (wrapped_transition (xc_process x) eng tw
           \<lparr>cf_loopId = ir_loopId row, cf_tenantId = ir_tenantId row,
            cf_governed = Some (case xc_governed x of None \<Rightarrow> False | Some g \<Rightarrow> g)\<rparr>
           (move_params i row)) (\<lambda>res.
         case (if res_status res = Executed then res_toState res else None) of
           None \<Rightarrow> op_return (MoveRejected (rejection_reason res))
         | Some to \<Rightarrow>
             if to = [] then op_return (MoveRejected (rejection_reason res))
             else
               op_bind (on_db (updateInstanceState repo
                 \<lparr>ui_tenantId = ir_tenantId row, ui_id = ir_id row, ui_currentState = to,
                  ui_status = (if to = ir_currentState row then ir_status row else ''OPEN'')\<rparr>)) (\<lambda>updated.
               op_bind (on_db (appendEvent repo
                 \<lparr>ai_aggregateId = ir_aggregateId updated, ai_tenantId = ir_tenantId updated,
                  ai_type = ti_signalId i, ai_fromState = ir_currentState row,
                  ai_toState = ir_currentState updated, ai_actorId = ti_actorId i,
                  ai_actorType = (case ti_actorType i of
                    CallerSystem \<Rightarrow> ''automation'' | CallerAi \<Rightarrow> ''ai'' | CallerHuman \<Rightarrow> ''human''),
                  ai_evidence = (case sanitizeEvidence (ti_evidence i) of
                    None \<Rightarrow> JUndef | Some e \<Rightarrow> JObj e)\<rparr>)) (\<lambda>_.
               op_return (Moved (ir_aggregateId updated) (ir_currentState row) (ir_currentState updated)
                 (ir_status updated) (rv_toIso (xc_process x) (ir_updatedAt updated)))))))"

datatype cancel_outcome =
    CancelDone instance_dto
  | CancelNotFound
  | AlreadyTerminal

definition executeOssCancel ::
    "'d instance_repo \<Rightarrow> execution \<Rightarrow>
     (runtime_error, ('d, 's, 'p, 't) runtime_world, cancel_outcome) eop" where
  "executeOssCancel repo x =
     op_bind (on_db (findByAggregateId repo (id_tenantId (xc_identity x)) (xc_aggregateKey x))) (\<lambda>existing.
     case existing of
       None \<Rightarrow> op_return CancelNotFound
     | Some row \<Rightarrow>
         if ir_status row = ''TERMINAL'' then op_return AlreadyTerminal
         else
           op_bind (on_db (updateInstanceState repo
             \<lparr>ui_tenantId = ir_tenantId row, ui_id = ir_id row, ui_currentState = ''CANCELLED'',
              ui_status = ''TERMINAL''\<rparr>)) (\<lambda>updated.
           op_bind (on_db (appendEvent repo
             \<lparr>ai_aggregateId = ir_aggregateId row, ai_tenantId = ir_tenantId row,
              ai_type = ''CANCELLED'', ai_fromState = ir_currentState row, ai_toState = ''CANCELLED'',
              ai_actorId = id_actorId (xc_identity x), ai_actorType = ''human'',
              ai_evidence = JUndef\<rparr>)) (\<lambda>_.
           op_return (CancelDone (toLoopInstanceDto (xc_process x) updated)))))"

section \<open>Frames\<close>

text \<open>Which part of the world each kind of step can change.\<close>

lemma on_db_keeps [keeps]: "(\<And>w d. g (w\<lparr>rt_db := d\<rparr>) = g w) \<Longrightarrow> op_keeps g (on_db m)"
  by (auto simp: op_keeps_def on_db_def split: prod.splits)

lemma on_db_cases:
  assumes "on_db m w = (r, w')"
  obtains d where "m (rt_db w) = (r, d)" "w' = w\<lparr>rt_db := d\<rparr>"
  using assms by (auto simp: on_db_def split: prod.splits)

lemma on_trace_cases:
  assumes "on_trace m w = (r, w')"
  obtains t where "m (rt_trace w) = (r, t)" "w' = w\<lparr>rt_trace := t\<rparr>"
  using assms by (auto simp: on_trace_def split: prod.splits)

lemma on_engine_db [keeps]: "op_keeps rt_db (on_engine m)"
  by (auto simp: op_keeps_def on_engine_def split: prod.splits sum.splits)

lemma on_trace_db [keeps]: "op_keeps rt_db (on_trace m)"
  by (auto simp: op_keeps_def on_trace_def split: prod.splits)

lemma rt_fresh_db [keeps]: "op_keeps rt_db rt_fresh"
  by (auto simp: op_keeps_def rt_fresh_def)

lemma in_process_db [keeps]: "op_keeps rt_db (nextInProcessSequence run)"
  by (auto simp: op_keeps_def nextInProcessSequence_def Let_def)

lemma op_keeps_catch [keeps]:
  "op_keeps g m \<Longrightarrow> (\<And>e. op_keeps g (f e)) \<Longrightarrow> op_keeps g (op_catch m f)"
  by (fastforce simp: op_keeps_def op_catch_def split: prod.splits sum.splits)

lemma trace_transition_db [keeps]: "op_keeps rt_db (trace_transition pr tw cf p t r)"
  unfolding trace_transition_def trace_sequence_def nextTraceSequence_def
  by (intro keeps) (auto intro!: keeps split: option.splits)

lemma traced_transition_db [keeps]: "op_keeps rt_db (traced_transition pr eng tw cf p)"
proof -
  have "rt_db w' = rt_db w"
    if "op_bind (trace_transition pr tw cf p t r)
           (\<lambda>_. case r of Inl e \<Rightarrow> op_throw (EngineError e) | Inr res \<Rightarrow> op_return res)
           (w\<lparr>rt_engine := ew\<rparr>) = (res, w')" for t r w ew res w'
    using that trace_transition_db[unfolded op_keeps_def]
    by (cases r) (fastforce elim!: op_bind_cases)+
  then show ?thesis
    unfolding traced_transition_def
    by (intro keeps) (auto simp: op_keeps_def split: prod.splits)
qed

lemma wrapped_transition_db [keeps]: "op_keeps rt_db (wrapped_transition pr eng tw cf p)"
  by (auto simp: wrapped_transition_def intro: keeps)

end
