(* ===== verification/Durable_Traces.thy ===== *)
theory Durable_Traces
  imports Database Trace_Store
begin

text \<open>
  Traces in the database: \<open>packages/runtime-core/src/trace-repository.ts\<close>, which writes a record and
  the summary of its run in one transaction and retries when another writer took its sequence
  number, and the trace store \<open>postgres-trace-store.ts\<close> of one tenant on top of it. The values of
  JSON columns go through \<open>JSON.parse(JSON.stringify(v))\<close>, the parameter \<open>clone\<close> (for the typed list
  of guards \<open>clone_guards\<close>).
\<close>

section \<open>Rows\<close>

record trace_row =
  pt_id :: string
  pt_loopRunId :: string
  pt_loopId :: string
  pt_tenantId :: string
  pt_sequence :: int
  pt_timestamp :: int
  pt_type :: trace_event_type
  pt_fromState :: "string option"
  pt_toState :: "string option"
  pt_transitionId :: "string option"
  pt_actorType :: actor_type
  pt_actorId :: string
  pt_inputHash :: string
  pt_input :: js
  pt_output :: js
  pt_guards :: "guard_trace list"
  pt_evidence :: js
  pt_durationMs :: int
  pt_blocked :: bool
  pt_blockReason :: "string option"
  pt_governed :: bool

record summary_row =
  ps_tenantId :: string
  ps_loopRunId :: string
  ps_loopId :: string
  ps_startedAt :: int
  ps_completedAt :: "int option"
  ps_terminalState :: "string option"
  ps_stepCount :: nat
  ps_blockedCount :: nat
  ps_governed :: bool
  ps_updatedAt :: int

definition summary_made where
  "summary_made s = (ps_tenantId s, ps_loopRunId s, ps_loopId s, ps_startedAt s, ps_completedAt s,
     ps_terminalState s, ps_stepCount s, ps_blockedCount s, ps_governed s)"

text \<open>
  The client: the two tables and \<open>$transaction\<close> for a body without result and one with a number.
\<close>

record 'd trace_client =
  cl_traces :: "('d, trace_row) table"
  cl_summaries :: "('d, summary_row) table"
  cl_transaction :: "(js, 'd, unit) eop \<Rightarrow> (js, 'd, unit) eop"
  cl_transaction_int :: "(js, 'd, int) eop \<Rightarrow> (js, 'd, int) eop"

section \<open>The repository\<close>

definition of_run :: "string \<Rightarrow> string \<Rightarrow> trace_row \<Rightarrow> bool" where
  "of_run tenantId loopRunId r \<longleftrightarrow> pt_tenantId r = tenantId \<and> pt_loopRunId r = loopRunId"

definition summary_of_run :: "string \<Rightarrow> string \<Rightarrow> summary_row \<Rightarrow> bool" where
  "summary_of_run tenantId loopRunId s \<longleftrightarrow> ps_tenantId s = tenantId \<and> ps_loopRunId s = loopRunId"

definition tr_getRunSummary :: "'d trace_client \<Rightarrow> string \<Rightarrow> string \<Rightarrow> (js, 'd, summary_row option) eop" where
  "tr_getRunSummary cl loopRunId tenantId = t_find (cl_summaries cl) (summary_of_run tenantId loopRunId)"

definition tr_getRunTrace :: "'d trace_client \<Rightarrow> string \<Rightarrow> string \<Rightarrow> (js, 'd, trace_row list) eop" where
  "tr_getRunTrace cl loopRunId tenantId =
     op_bind (t_many (cl_traces cl) (of_run tenantId loopRunId)) (\<lambda>rows.
     op_return (sort_key pt_sequence rows))"

definition max_of_rows :: "trace_row list \<Rightarrow> int option" where
  "max_of_rows rows =
     (case map pt_sequence rows of [] \<Rightarrow> None | x # xs \<Rightarrow> Some (fold max xs x))"

definition tr_allocateNextSequence :: "'d trace_client \<Rightarrow> string \<Rightarrow> string \<Rightarrow> (js, 'd, int) eop" where
  "tr_allocateNextSequence cl tenantId loopRunId =
     cl_transaction_int cl
       (op_bind (t_many (cl_traces cl) (of_run tenantId loopRunId)) (\<lambda>rows.
        op_return ((case max_of_rows rows of None \<Rightarrow> -1 | Some m \<Rightarrow> m) + 1)))"

definition first_summary :: "trace_row \<Rightarrow> summary_row" where
  "first_summary i =
     \<lparr>ps_tenantId = pt_tenantId i, ps_loopRunId = pt_loopRunId i, ps_loopId = pt_loopId i,
      ps_startedAt = pt_timestamp i,
      ps_completedAt = (if pt_type i = TTerminal then Some (pt_timestamp i) else None),
      ps_terminalState = (if pt_type i = TTerminal then pt_toState i else None),
      ps_stepCount = 1, ps_blockedCount = (if pt_blocked i then 1 else 0),
      ps_governed = pt_governed i, ps_updatedAt = 0\<rparr>"

definition next_summary :: "trace_row \<Rightarrow> summary_row \<Rightarrow> summary_row \<Rightarrow> summary_row" where
  "next_summary i existing s =
     (let s' = s\<lparr>ps_stepCount := ps_stepCount s + 1,
                 ps_blockedCount := ps_blockedCount s + (if pt_blocked i then 1 else 0),
                 ps_governed := ps_governed existing \<or> pt_governed i\<rparr>
      in if pt_type i = TTerminal
         then s'\<lparr>ps_completedAt := Some (pt_timestamp i), ps_terminalState := pt_toState i\<rparr>
         else s')"

definition persistTraceWithSummaryOnce :: "'d trace_client \<Rightarrow> trace_row \<Rightarrow> (js, 'd, unit) eop" where
  "persistTraceWithSummaryOnce cl i =
     cl_transaction cl
       (op_bind (t_create (cl_traces cl) i) (\<lambda>_.
        op_bind (t_find (cl_summaries cl) (summary_of_run (pt_tenantId i) (pt_loopRunId i))) (\<lambda>existing.
        case existing of
          None \<Rightarrow> op_bind (t_create (cl_summaries cl) (first_summary i)) (\<lambda>_. op_return ())
        | Some s \<Rightarrow>
            op_bind (t_update (cl_summaries cl) (summary_of_run (pt_tenantId i) (pt_loopRunId i))
              (next_summary i s)) (\<lambda>_. op_return ()))))"

definition is_sequence_race :: "js \<Rightarrow> bool" where
  "is_sequence_race err \<longleftrightarrow>
     (case extractPrismaUniqueTarget err of
        None \<Rightarrow> False
      | Some target \<Rightarrow> ''sequence'' \<in> set target \<or>
          list_ex (is_sub ''tenantId_loopRunId_sequence'') target)"

text \<open>The loop with the number of attempts that remain after this one.\<close>

fun persist_attempts :: "'d trace_client \<Rightarrow> nat \<Rightarrow> trace_row \<Rightarrow> (js, 'd, unit) eop" where
  "persist_attempts cl 0 i = persistTraceWithSummaryOnce cl i"
| "persist_attempts cl (Suc k) i =
     op_catch (persistTraceWithSummaryOnce cl i) (\<lambda>err.
       if \<not> is_sequence_race err then op_throw err
       else op_bind (tr_allocateNextSequence cl (pt_tenantId i) (pt_loopRunId i)) (\<lambda>n.
            persist_attempts cl k (i\<lparr>pt_sequence := n\<rparr>)))"

definition persistTraceWithSummary :: "'d trace_client \<Rightarrow> trace_row \<Rightarrow> (js, 'd, unit) eop" where
  "persistTraceWithSummary cl i = persist_attempts cl 2 i"

section \<open>The trace store of a tenant\<close>

definition rowToTraceRecord :: "trace_row \<Rightarrow> trace_record" where
  "rowToTraceRecord r =
     \<lparr>tc_id = pt_id r, tc_loopRunId = pt_loopRunId r, tc_loopId = pt_loopId r,
      tc_sequence = pt_sequence r, tc_timestamp = pt_timestamp r, tc_type = pt_type r,
      tc_fromState = pt_fromState r, tc_toState = pt_toState r,
      tc_transitionId = pt_transitionId r,
      tc_actor = \<lparr>actor_id = pt_actorId r, actor_type = pt_actorType r,
                  actor_displayName = None, actor_metadata = None\<rparr>,
      tc_inputHash = pt_inputHash r, tc_input = pt_input r, tc_output = pt_output r,
      tc_guards = pt_guards r, tc_evidence = pt_evidence r, tc_durationMs = pt_durationMs r,
      tc_blocked = pt_blocked r, tc_blockReason = pt_blockReason r,
      tc_governed = pt_governed r, tc_tenantId = pt_tenantId r\<rparr>"

definition jsonClone :: "(js \<Rightarrow> js) \<Rightarrow> js \<Rightarrow> js" where
  "jsonClone clone v = clone (nullish v JNull)"

definition row_of_record ::
    "(js \<Rightarrow> js) \<Rightarrow> (guard_trace list \<Rightarrow> guard_trace list) \<Rightarrow> trace_record \<Rightarrow> trace_row" where
  "row_of_record clone clone_guards r =
     \<lparr>pt_id = tc_id r, pt_loopRunId = tc_loopRunId r, pt_loopId = tc_loopId r,
      pt_tenantId = tc_tenantId r, pt_sequence = tc_sequence r, pt_timestamp = tc_timestamp r,
      pt_type = tc_type r, pt_fromState = tc_fromState r, pt_toState = tc_toState r,
      pt_transitionId = tc_transitionId r, pt_actorType = actor_type (tc_actor r),
      pt_actorId = actor_id (tc_actor r), pt_inputHash = tc_inputHash r,
      pt_input = jsonClone clone (tc_input r), pt_output = jsonClone clone (tc_output r),
      pt_guards = clone_guards (tc_guards r), pt_evidence = jsonClone clone (tc_evidence r),
      pt_durationMs = tc_durationMs r, pt_blocked = tc_blocked r,
      pt_blockReason = tc_blockReason r, pt_governed = tc_governed r\<rparr>"

definition ps_write ::
    "'d trace_client \<Rightarrow> (js \<Rightarrow> js) \<Rightarrow> (guard_trace list \<Rightarrow> guard_trace list) \<Rightarrow> string \<Rightarrow>
     trace_record \<Rightarrow> (runtime_error, 'd, unit) eop" where
  "ps_write cl clone clone_guards tenantId r =
     (if tc_tenantId r \<noteq> tenantId
      then op_throw (EngineError (Error (''TraceRecord tenantId mismatch: expected '' @ tenantId @
             '', got '' @ tc_tenantId r)))
      else rethrow (persistTraceWithSummary cl (row_of_record clone clone_guards r)))"

definition ps_allocateNextSequence ::
    "'d trace_client \<Rightarrow> string \<Rightarrow> string \<Rightarrow> (runtime_error, 'd, int) eop" where
  "ps_allocateNextSequence cl tenantId loopRunId = rethrow (tr_allocateNextSequence cl tenantId loopRunId)"

definition ps_getRunTrace ::
    "'d trace_client \<Rightarrow> string \<Rightarrow> string \<Rightarrow> (runtime_error, 'd, trace_record list) eop" where
  "ps_getRunTrace cl tenantId loopRunId =
     op_bind (rethrow (tr_getRunTrace cl loopRunId tenantId)) (\<lambda>rows.
     op_return (map rowToTraceRecord rows))"

definition ps_listRuns ::
    "string \<Rightarrow> list_runs_opts \<Rightarrow> (runtime_error, 'd, run_summary list) eop" where
  "ps_listRuns loopId opts = op_throw (EngineError (Error
     ''OssPostgresTraceStore.listRuns is not implemented - wire a list repository before calling.''))"

definition toRunSummary :: "summary_row \<Rightarrow> run_summary" where
  "toRunSummary s =
     \<lparr>rs_loopRunId = ps_loopRunId s, rs_loopId = ps_loopId s, rs_startedAt = ps_startedAt s,
      rs_completedAt = ps_completedAt s, rs_terminalState = ps_terminalState s,
      rs_stepCount = ps_stepCount s, rs_blockedCount = ps_blockedCount s,
      rs_governed = ps_governed s, rs_tenantId = ps_tenantId s\<rparr>"

definition comparison :: "run_summary \<Rightarrow> run_summary \<Rightarrow> trace_record list \<Rightarrow> trace_record list \<Rightarrow> run_comparison" where
  "comparison sa sb as bs =
     (let steps = map (compare_step as bs) [0..max (max_sequence as) (max_sequence bs)]
      in \<lparr>rc_runA = sa, rc_runB = sb, rc_steps = steps,
          rc_divergencePoint = map_option cs_sequence (List.find (\<lambda>s. \<not> cs_equivalent s) steps)\<rparr>)"

definition ps_compareRuns ::
    "'d trace_client \<Rightarrow> string \<Rightarrow> string \<Rightarrow> string \<Rightarrow> (runtime_error, 'd, run_comparison) eop" where
  "ps_compareRuns cl tenantId a b =
     op_bind (ps_getRunTrace cl tenantId a) (\<lambda>as.
     op_bind (ps_getRunTrace cl tenantId b) (\<lambda>bs.
     op_bind (rethrow (tr_getRunSummary cl a tenantId)) (\<lambda>sa.
     op_bind (rethrow (tr_getRunSummary cl b tenantId)) (\<lambda>sb.
     case sa of
       None \<Rightarrow> op_throw (EngineError (Error (''Run not found: '' @ a)))
     | Some sa \<Rightarrow>
         (case sb of
            None \<Rightarrow> op_throw (EngineError (Error (''Run not found: '' @ b)))
          | Some sb \<Rightarrow> op_return (comparison (toRunSummary sa) (toRunSummary sb) as bs))))))"

section \<open>What the client promises\<close>

text \<open>
  Both tables as documented, a transaction that runs its body to the end or has no effect on the
  rows, and tables that do not share rows.
\<close>

definition transaction_ok ::
    "((js, 'd, 'a) eop \<Rightarrow> (js, 'd, 'a) eop) \<Rightarrow> ('d \<Rightarrow> 'v) \<Rightarrow> bool" where
  "transaction_ok tx view \<longleftrightarrow>
     (\<forall>m d. case fst (tx m d) of
        Inl e \<Rightarrow> view (snd (tx m d)) = view d
      | Inr x \<Rightarrow> tx m d = m d)"

definition client_ok ::
    "'d trace_client \<Rightarrow> ('d \<Rightarrow> trace_row list) \<Rightarrow> ('d \<Rightarrow> summary_row list) \<Rightarrow> bool" where
  "client_ok cl traces summs \<longleftrightarrow>
     table_ok (cl_traces cl) (\<lambda>r. r) (\<lambda>r. r) traces \<and>
     table_ok (cl_summaries cl) summary_made summary_made summs \<and>
     transaction_ok (cl_transaction cl) (\<lambda>d. (traces d, summs d)) \<and>
     transaction_ok (cl_transaction_int cl) (\<lambda>d. (traces d, summs d)) \<and>
     (\<forall>P d. summs (snd (t_many (cl_traces cl) P d)) = summs d) \<and>
     (\<forall>x d. summs (snd (t_create (cl_traces cl) x d)) = summs d) \<and>
     (\<forall>P d. traces (snd (t_find (cl_summaries cl) P d)) = traces d) \<and>
     (\<forall>x d. traces (snd (t_create (cl_summaries cl) x d)) = traces d) \<and>
     (\<forall>P f d. traces (snd (t_update (cl_summaries cl) P f d)) = traces d)"

lemma client_okD:
  assumes "client_ok cl traces summs"
  shows "table_ok (cl_traces cl) (\<lambda>r. r) (\<lambda>r. r) traces"
    "table_ok (cl_summaries cl) summary_made summary_made summs"
    "transaction_ok (cl_transaction cl) (\<lambda>d. (traces d, summs d))"
    "transaction_ok (cl_transaction_int cl) (\<lambda>d. (traces d, summs d))"
    "summs (snd (t_many (cl_traces cl) P d)) = summs d"
    "summs (snd (t_create (cl_traces cl) x d)) = summs d"
    "traces (snd (t_find (cl_summaries cl) Q d)) = traces d"
    "traces (snd (t_create (cl_summaries cl) y d)) = traces d"
    "traces (snd (t_update (cl_summaries cl) Q f d)) = traces d"
  using assms by (simp_all add: client_ok_def)

lemma transaction_cases:
  assumes "transaction_ok tx view" "tx m d = (r, d')"
  obtains (abort) e where "r = Inl e" "view d' = view d"
    | (commit) x where "r = Inr x" "m d = (Inr x, d')"
proof (cases r)
  case (Inl e)
  have "view (snd (tx m d)) = view d"
    using assms(1)[unfolded transaction_ok_def, rule_format, of m d] assms(2) Inl by simp
  with assms(2) Inl show ?thesis by (auto intro: abort)
next
  case (Inr x)
  have "tx m d = m d"
    using assms(1)[unfolded transaction_ok_def, rule_format, of m d] assms(2) Inr by simp
  with assms(2) Inr show ?thesis by (auto intro: commit)
qed

section \<open>One attempt\<close>

definition summary_step :: "trace_row \<Rightarrow> summary_row list \<Rightarrow> summary_row list \<Rightarrow> bool" where
  "summary_step i ss ss' \<longleftrightarrow>
     (let P = summary_of_run (pt_tenantId i) (pt_loopRunId i) in
      (\<forall>s \<in> set ss. \<not> P s) \<and>
        (\<exists>s. summary_made s = summary_made (first_summary i) \<and> ss' = ss @ [s]) \<or>
      (\<exists>s \<in> set ss. P s \<and> (\<exists>x. replaces summary_made P (next_summary i s) x ss ss')))"

lemma persist_once:
  assumes ok: "client_ok cl traces summs" and run: "persistTraceWithSummaryOnce cl i d = (r, d')"
  shows "r = Inl e \<Longrightarrow> traces d' = traces d \<and> summs d' = summs d"
    and "r = Inr u \<Longrightarrow> traces d' = traces d @ [i] \<and> summary_step i (summs d) (summs d')"
proof -
  note tb = client_okD(1,2)[OF ok]
  from client_okD(3)[OF ok] run[unfolded persistTraceWithSummaryOnce_def]
  show "r = Inl e \<Longrightarrow> traces d' = traces d \<and> summs d' = summs d"
    by (rule transaction_cases) auto
  assume "r = Inr u"
  from client_okD(3)[OF ok] run[unfolded persistTraceWithSummaryOnce_def]
  show "traces d' = traces d @ [i] \<and> summary_step i (summs d) (summs d')"
  proof (cases rule: transaction_cases)
    case abort
    with \<open>r = Inr u\<close> show ?thesis by simp
  next
    case commit
    then obtain x d1 ex d2 where
      1: "t_create (cl_traces cl) i d = (Inr x, d1)" and
      2: "t_find (cl_summaries cl) (summary_of_run (pt_tenantId i) (pt_loopRunId i)) d1 = (Inr ex, d2)" and
      3: "(case ex of
          None \<Rightarrow> op_bind (t_create (cl_summaries cl) (first_summary i)) (\<lambda>_. op_return ())
        | Some s \<Rightarrow>
            op_bind (t_update (cl_summaries cl) (summary_of_run (pt_tenantId i) (pt_loopRunId i))
              (next_summary i s)) (\<lambda>_. op_return ())) d2 = (Inr u, d')"
      using \<open>r = Inr u\<close> by (auto elim!: op_bind_cases)
    have d1: "traces d1 = traces d @ [i]" "summs d1 = summs d"
      using table_create(2)[OF tb(1) 1 refl] client_okD(6)[OF ok, of i d] 1 by simp_all
    have d2: "traces d2 = traces d1" "summs d2 = summs d1"
      using client_okD(7)[OF ok, of "summary_of_run (pt_tenantId i) (pt_loopRunId i)" d1]
        table_find(1)[OF tb(2) 2] 2 by simp_all
    show ?thesis
    proof (cases ex)
      case None
      with 3 obtain y where y: "t_create (cl_summaries cl) (first_summary i) d2 = (Inr y, d')"
        by (auto elim!: op_bind_cases)
      have "\<forall>s \<in> set (summs d). \<not> summary_of_run (pt_tenantId i) (pt_loopRunId i) s"
        using table_not_found[OF tb(2) 2[unfolded None]] d1 by simp
      with table_create(2)[OF tb(2) y refl] client_okD(8)[OF ok, of "first_summary i" d2] y d1 d2
      show ?thesis by (auto simp: summary_step_def Let_def)
    next
      case (Some s)
      with 3 obtain y where y: "t_update (cl_summaries cl)
          (summary_of_run (pt_tenantId i) (pt_loopRunId i)) (next_summary i s) d2 = (Inr y, d')"
        by (auto elim!: op_bind_cases)
      have "s \<in> set (summs d) \<and> summary_of_run (pt_tenantId i) (pt_loopRunId i) s"
        using table_found[OF tb(2) 2[unfolded Some]] d1 by simp
      with table_update(2)[OF tb(2) y refl] y d1 d2
        client_okD(9)[OF ok, of "summary_of_run (pt_tenantId i) (pt_loopRunId i)" "next_summary i s" d2]
      show ?thesis by (auto simp: summary_step_def Let_def)
    qed
  qed
qed

lemma allocate_rows:
  assumes ok: "client_ok cl traces summs" and run: "tr_allocateNextSequence cl t run d = (r, d')"
  shows "traces d' = traces d \<and> summs d' = summs d"
  using client_okD(4)[OF ok] run[unfolded tr_allocateNextSequence_def]
proof (cases rule: transaction_cases)
  case (commit n)
  then obtain rows where "t_many (cl_traces cl) (of_run t run) d = (Inr rows, d')"
    by (auto elim!: op_bind_cases)
  with table_many(1)[OF client_okD(1)[OF ok]] client_okD(5)[OF ok, of "of_run t run" d]
  show ?thesis by auto
qed simp

section \<open>The loop of attempts\<close>

text \<open>
  Whatever happens, at most one row is written, with the given data up to its sequence number and
  together with the step of the summary; on an error nothing is.
\<close>

lemma persist_attempts_effect:
  assumes ok: "client_ok cl traces summs" and "persist_attempts cl k i d = (r, d')"
  shows "case r of
      Inl e \<Rightarrow> traces d' = traces d \<and> summs d' = summs d
    | Inr u \<Rightarrow> \<exists>n. traces d' = traces d @ [i\<lparr>pt_sequence := n\<rparr>] \<and>
        summary_step (i\<lparr>pt_sequence := n\<rparr>) (summs d) (summs d')"
  using assms(2)
proof (induction k arbitrary: i d)
  case 0
  then have run: "persistTraceWithSummaryOnce cl i d = (r, d')" by simp
  show ?case
  proof (cases r)
    case (Inl e)
    with persist_once(1)[OF ok run Inl] show ?thesis by simp
  next
    case (Inr u)
    with persist_once(2)[OF ok run Inr] show ?thesis by (auto intro!: exI[of _ "pt_sequence i"])
  qed
next
  case (Suc k)
  obtain r1 d1 where run: "persistTraceWithSummaryOnce cl i d = (r1, d1)" by fastforce
  show ?case
  proof (cases r1)
    case (Inr u)
    with Suc.prems run have "r = Inr u" "d' = d1" by (simp_all add: op_catch_def)
    with persist_once(2)[OF ok run Inr] show ?thesis by (auto intro!: exI[of _ "pt_sequence i"])
  next
    case (Inl err)
    have same: "traces d1 = traces d" "summs d1 = summs d" using persist_once(1)[OF ok run Inl] by auto
    show ?thesis
    proof (cases "is_sequence_race err")
      case False
      with Suc.prems run Inl have "r = Inl err" "d' = d1" by (simp_all add: op_catch_def)
      with same show ?thesis by simp
    next
      case True
      with Suc.prems run Inl have "op_bind (tr_allocateNextSequence cl (pt_tenantId i) (pt_loopRunId i))
          (\<lambda>n. persist_attempts cl k (i\<lparr>pt_sequence := n\<rparr>)) d1 = (r, d')"
        by (simp add: op_catch_def)
      then show ?thesis
      proof (cases rule: op_bind_cases)
        case (throw e)
        with allocate_rows[OF ok throw(1)] same show ?thesis by simp
      next
        case (cont n d2)
        with allocate_rows[OF ok cont(1)] same Suc.IH[OF cont(2)] show ?thesis
          by (auto split: sum.splits)
      qed
    qed
  qed
qed

lemma persist_effect:
  assumes "client_ok cl traces summs" "persistTraceWithSummary cl i d = (r, d')"
  shows "case r of
      Inl e \<Rightarrow> traces d' = traces d \<and> summs d' = summs d
    | Inr u \<Rightarrow> \<exists>n. traces d' = traces d @ [i\<lparr>pt_sequence := n\<rparr>] \<and>
        summary_step (i\<lparr>pt_sequence := n\<rparr>) (summs d) (summs d')"
  using persist_attempts_effect[OF assms(1)] assms(2) unfolding persistTraceWithSummary_def by blast

section \<open>Summaries agree with the records\<close>

definition run_agrees :: "string \<Rightarrow> string \<Rightarrow> trace_row list \<Rightarrow> summary_row list \<Rightarrow> bool" where
  "run_agrees t run rows ss \<longleftrightarrow>
     (let own = filter (of_run t run) rows
      in case filter (summary_of_run t run) ss of
           [] \<Rightarrow> own = []
         | [s] \<Rightarrow> own \<noteq> [] \<and> ps_stepCount s = length own \<and>
             ps_blockedCount s = length (filter pt_blocked own) \<and>
             (ps_governed s \<longleftrightarrow> list_ex pt_governed own)
         | _ \<Rightarrow> False)"

lemma summary_made_sel:
  "summary_made s = summary_made s' \<Longrightarrow>
     ps_tenantId s = ps_tenantId s' \<and> ps_loopRunId s = ps_loopRunId s' \<and>
     ps_stepCount s = ps_stepCount s' \<and> ps_blockedCount s = ps_blockedCount s' \<and>
     ps_governed s = ps_governed s'"
  by (simp add: summary_made_def)

lemma filter_update_other:
  "k < length xs \<Longrightarrow> \<not> P (xs ! k) \<Longrightarrow> \<not> P y \<Longrightarrow> filter P (xs[k := y]) = filter P xs"
  by (subst (2) id_take_nth_drop[of k xs]) (simp_all add: upd_conv_take_nth_drop)

lemma filter_update_one:
  assumes "k < length xs" "P (xs ! k)" "P y" "filter P xs = [s]"
  shows "xs ! k = s \<and> filter P (xs[k := y]) = [y]"
proof -
  have "filter P xs = filter P (take k xs) @ xs ! k # filter P (drop (Suc k) xs)"
    using assms(1,2) by (subst id_take_nth_drop[of k xs]) simp_all
  with assms(4) have "filter P (take k xs) = []" "filter P (drop (Suc k) xs) = []" "xs ! k = s"
    by (auto simp: append_eq_Cons_conv)
  with assms(1,3) show ?thesis by (simp add: upd_conv_take_nth_drop)
qed

lemma summary_step_agrees:
  assumes "summary_step i ss ss'" "run_agrees t run rows ss"
  shows "run_agrees t run (rows @ [i]) ss'"
proof (cases "of_run t run i")
  case True
  then have ti: "pt_tenantId i = t" "pt_loopRunId i = run" by (auto simp: of_run_def)
  let ?P = "summary_of_run t run"
  from assms(1) consider
      (new) s where "\<forall>s \<in> set ss. \<not> ?P s" "summary_made s = summary_made (first_summary i)" "ss' = ss @ [s]"
    | (old) s x k where "s \<in> set ss" "?P s" "k < length ss" "?P (ss ! k)"
        "summary_made x = summary_made (next_summary i s (ss ! k))" "ss' = ss[k := x]"
    by (auto simp: summary_step_def Let_def ti replaces_def)
  then show ?thesis
  proof cases
    case new
    have sel: "?P s" "ps_stepCount s = 1" "ps_blockedCount s = (if pt_blocked i then 1 else 0)"
      "ps_governed s = pt_governed i"
      using summary_made_sel[OF new(2)] ti by (simp_all add: first_summary_def summary_of_run_def)
    have none: "filter ?P ss = []" using new(1) by simp
    with assms(2) have "filter (of_run t run) rows = []" by (simp add: run_agrees_def)
    with sel none new(3) True show ?thesis by (simp add: run_agrees_def)
  next
    case old
    from assms(2) old(1,2) obtain s' where one: "filter ?P ss = [s']"
      and agree: "filter (of_run t run) rows \<noteq> []"
        "ps_stepCount s' = length (filter (of_run t run) rows)"
        "ps_blockedCount s' = length (filter pt_blocked (filter (of_run t run) rows))"
        "ps_governed s' \<longleftrightarrow> list_ex pt_governed (filter (of_run t run) rows)"
      by (fastforce simp: run_agrees_def Let_def filter_empty_conv split: list.splits)
    have "s \<in> set (filter ?P ss)" using old(1,2) by simp
    then have s: "s = s'" using one by simp
    have px: "?P x"
      using summary_made_sel[OF old(5)] old(4)
      by (simp add: summary_of_run_def next_summary_def Let_def split: if_splits)
    from filter_update_one[OF old(3,4) px one] have k: "ss ! k = s'" and f: "filter ?P ss' = [x]"
      by (simp_all add: old(6))
    have "ps_stepCount x = ps_stepCount s' + 1" "ps_governed x \<longleftrightarrow> ps_governed s' \<or> pt_governed i"
      "ps_blockedCount x = ps_blockedCount s' + (if pt_blocked i then 1 else 0)"
      using summary_made_sel[OF old(5)] k s by (simp_all add: next_summary_def Let_def split: if_splits)
    with f agree True show ?thesis by (auto simp: run_agrees_def Let_def)
  qed
next
  case False
  let ?Q = "summary_of_run (pt_tenantId i) (pt_loopRunId i)" and ?P = "summary_of_run t run"
  have other: "\<not> ?P s" if "?Q s" for s
    using that False by (auto simp: summary_of_run_def of_run_def)
  from assms(1) have "filter ?P ss' = filter ?P ss"
  proof (simp add: summary_step_def Let_def, elim disjE conjE exE bexE)
    fix s assume "summary_made s = summary_made (first_summary i)" and e: "ss' = ss @ [s]"
    then have "?Q s" by (auto dest!: summary_made_sel simp: summary_of_run_def first_summary_def)
    with other show ?thesis by (simp add: e)
  next
    fix s x assume "?Q s" "replaces summary_made ?Q (next_summary i s) x ss ss'"
    then obtain k where k: "k < length ss" "?Q (ss ! k)" "ss' = ss[k := x]"
      "summary_made x = summary_made (next_summary i s (ss ! k))"
      by (auto simp: replaces_def)
    have "?Q x" using summary_made_sel[OF k(4)] k(2)
      by (simp add: summary_of_run_def next_summary_def Let_def split: if_splits)
    with k other show ?thesis by (simp add: filter_update_other)
  qed
  with assms(2) False show ?thesis by (simp add: run_agrees_def)
qed

text \<open>The agreement is an invariant of the writes of the repository.\<close>

lemma persist_keeps_agreement:
  assumes "client_ok cl traces summs" "persistTraceWithSummary cl i d = (r, d')"
    and "run_agrees t run (traces d) (summs d)"
  shows "run_agrees t run (traces d') (summs d')"
  using persist_effect[OF assms(1,2)] assms(3) summary_step_agrees by (auto split: sum.splits)

text \<open>A sequence of writes.\<close>

definition persist_all :: "'d trace_client \<Rightarrow> trace_row list \<Rightarrow> 'd \<Rightarrow> 'd" where
  "persist_all cl is d = fold (\<lambda>i d. snd (persistTraceWithSummary cl i d)) is d"

end
