(* ===== verification/Runtime_Db.thy ===== *)
theory Runtime_Db
  imports Durable_Rows Durable_Traces
begin

text \<open>
  A database kept as lists of rows with the keys, defaults and uniqueness constraints of
  \<open>packages/runtime-db/prisma/schema.prisma\<close>. It has what is promised of the client, so the
  contract of the instance repository is interpreted on it and hypotheses on the client hold of it.
\<close>

record runtime_db =
  db_instances :: "instance_row list"
  db_events :: "event_row list"
  db_traces :: "trace_row list"
  db_summaries :: "summary_row list"
  db_keys :: "key_row list"
  db_next :: nat

definition db_empty :: runtime_db where
  "db_empty = \<lparr>db_instances = [], db_events = [], db_traces = [], db_summaries = [], db_keys = [],
     db_next = 0\<rparr>"

definition violated :: "bool \<Rightarrow> string list \<Rightarrow> js option" where
  "violated b columns = (if b then Some (unique_violation columns) else None)"

definition instance_clash :: "instance_row \<Rightarrow> instance_row \<Rightarrow> js option" where
  "instance_clash x r =
     (if ir_id r = ir_id x then Some (unique_violation [''id''])
      else if ir_aggregateId r = ir_aggregateId x then Some (unique_violation [''aggregateId''])
      else violated (ir_idempotencyKey x \<noteq> None \<and> ir_tenantId r = ir_tenantId x \<and>
             ir_idempotencyKey r = ir_idempotencyKey x) [''tenantId'', ''idempotencyKey''])"

definition instances_table :: "(runtime_db, instance_row) table" where
  "instances_table = list_table db_instances
     (\<lambda>rs d. d\<lparr>db_instances := rs, db_next := Suc (db_next d)\<rparr>)
     (\<lambda>d x. x\<lparr>ir_id := show_nat (db_next d), ir_createdAt := int (db_next d),
              ir_updatedAt := int (db_next d)\<rparr>)
     instance_clash"

definition events_table :: "(runtime_db, event_row) table" where
  "events_table = list_table db_events (\<lambda>rs d. d\<lparr>db_events := rs, db_next := Suc (db_next d)\<rparr>)
     (\<lambda>d e. e\<lparr>er_id := show_nat (db_next d), er_occurredAt := int (db_next d)\<rparr>)
     (\<lambda>x e. violated (er_id e = er_id x) [''id''])"

definition traces_table :: "(runtime_db, trace_row) table" where
  "traces_table = list_table db_traces (\<lambda>rs d. d\<lparr>db_traces := rs\<rparr>) (\<lambda>d r. r)
     (\<lambda>x r. violated (of_run (pt_tenantId x) (pt_loopRunId x) r \<and> pt_sequence r = pt_sequence x)
       [''tenantId'', ''loopRunId'', ''sequence''])"

definition summaries_table :: "(runtime_db, summary_row) table" where
  "summaries_table = list_table db_summaries
     (\<lambda>rs d. d\<lparr>db_summaries := rs, db_next := Suc (db_next d)\<rparr>)
     (\<lambda>d s. s\<lparr>ps_updatedAt := int (db_next d)\<rparr>)
     (\<lambda>x s. violated (summary_of_run (ps_tenantId x) (ps_loopRunId x) s) [''tenantId'', ''loopRunId''])"

definition keys_table :: "(runtime_db, key_row) table" where
  "keys_table = list_table db_keys (\<lambda>rs d. d\<lparr>db_keys := rs\<rparr>)
     (\<lambda>d r. r\<lparr>kr_id := ''key-'' @ show_nat (length (db_keys d))\<rparr>)
     (\<lambda>x r. violated (kr_keyHash r = kr_keyHash x) [''keyHash''])"

text \<open>A transaction whose body throws leaves the database as it was.\<close>

definition db_transaction :: "(js, 'd, 'a) eop \<Rightarrow> (js, 'd, 'a) eop" where
  "db_transaction m d = (case m d of (Inl e, d') \<Rightarrow> (Inl e, d) | (Inr x, d') \<Rightarrow> (Inr x, d'))"

definition db_client :: "runtime_db trace_client" where
  "db_client = \<lparr>cl_traces = traces_table, cl_summaries = summaries_table,
     cl_transaction = db_transaction, cl_transaction_int = db_transaction\<rparr>"

section \<open>It is what the client promises to be\<close>

lemma map_filter_Nil_iff: "List.map_filter f xs = [] \<longleftrightarrow> (\<forall>x \<in> set xs. f x = None)"
  by (induction xs) (auto split: option.splits)

lemma instances_table_ok: "table_ok instances_table row_made row_kept db_instances"
  unfolding instances_table_def by (rule list_table_ok) (simp_all add: row_made_def)

lemma instances_distinct:
  assumes "distinct (map ir_id (db_instances d))"
  shows "distinct (map ir_id (db_instances (snd (t_create instances_table x d))))"
proof -
  let ?x = "x\<lparr>ir_id := show_nat (db_next d), ir_createdAt := int (db_next d), ir_updatedAt := int (db_next d)\<rparr>"
  have "ir_id ?x \<notin> ir_id ` set (db_instances d)"
    if "List.map_filter (instance_clash ?x) (db_instances d) = []"
    using that by (fastforce simp: map_filter_Nil_iff instance_clash_def split: if_splits)
  with assms show ?thesis
    by (auto simp: instances_table_def list_table_def split: list.splits)
qed

lemma instance_db: "instance_db_ok instances_table events_table db_instances"
  by (simp add: instance_db_ok_def instances_table_ok instances_distinct)
    (auto simp: events_table_def list_table_def split: list.splits)

interpretation runtime_instances:
  instance_repository "prisma_repo instances_table events_table" db_instances
  by (rule prisma_repository) (rule instance_db)

lemma db_transaction_ok: "transaction_ok db_transaction view"
  by (auto simp: transaction_ok_def db_transaction_def split: prod.splits sum.splits)

lemma trace_client_ok: "client_ok db_client db_traces db_summaries"
proof -
  have "table_ok traces_table (\<lambda>r. r) (\<lambda>r. r) db_traces"
    unfolding traces_table_def by (rule list_table_ok) simp_all
  moreover have "table_ok summaries_table summary_made summary_made db_summaries"
    unfolding summaries_table_def by (rule list_table_ok) (simp_all add: summary_made_def)
  ultimately show ?thesis
    by (simp add: client_ok_def db_client_def db_transaction_ok)
      (auto simp: traces_table_def summaries_table_def list_table_def
        split: list.splits option.splits prod.splits)
qed

lemma keys_table_ok: "table_ok keys_table key_made (\<lambda>r. r) db_keys"
  unfolding keys_table_def by (rule list_table_ok) (simp_all add: key_made_def)

interpretation runtime_keys:
  auth_adapter "db_authenticate keys_table sha256 now later" "db_grants db_keys sha256 now"
  for sha256 now later
  by (rule db_auth_adapter) (rule keys_table_ok)

end
