(* ===== verification/Durable_Safety.thy ===== *)
theory Durable_Safety
  imports Durable_Runs Runtime_Db
begin

text \<open>
  What holds of durable execution over any repository that meets the contract: a call of one
  tenant leaves the instances of the others alone, and provisioning twice under one idempotency
  key creates one instance. Tracing does not change what a transition does.
\<close>

section \<open>Tenants\<close>

definition foreign :: "string \<Rightarrow> ('d \<Rightarrow> instance_row list) \<Rightarrow> ('d, 's, 'p, 't) runtime_world \<Rightarrow> instance_row list" where
  "foreign t rows w = filter (\<lambda>r. ir_tenantId r \<noteq> t) (rows (rt_db w))"

definition ids_distinct :: "('d \<Rightarrow> instance_row list) \<Rightarrow> ('d, 's, 'p, 't) runtime_world \<Rightarrow> bool" where
  "ids_distinct rows w \<longleftrightarrow> distinct (map ir_id (rows (rt_db w)))"

text \<open>An operation of tenant \<open>t\<close>: it keeps the identifiers unique and foreign instances as they are.\<close>

definition confined :: "string \<Rightarrow> ('d \<Rightarrow> instance_row list) \<Rightarrow> ('d, 's, 'p, 't) runtime_world \<Rightarrow>
    ('d, 's, 'p, 't) runtime_world \<Rightarrow> bool" where
  "confined t rows w w' \<longleftrightarrow>
     (ids_distinct rows w \<longrightarrow> ids_distinct rows w' \<and> foreign t rows w' = foreign t rows w)"

lemma confined_trans: "confined t rows w1 w2 \<Longrightarrow> confined t rows w2 w3 \<Longrightarrow> confined t rows w1 w3"
  by (simp add: confined_def)

lemma confined_same_rows: "rows (rt_db w') = rows (rt_db w) \<Longrightarrow> confined t rows w w'"
  by (simp add: confined_def ids_distinct_def foreign_def)

text \<open>The same when the operation is entered with the instance \<open>x\<close> of the tenant in the table.\<close>

definition with_row :: "string \<Rightarrow> ('d \<Rightarrow> instance_row list) \<Rightarrow> instance_row \<Rightarrow>
    (runtime_error, ('d, 's, 'p, 't) runtime_world, 'a) eop \<Rightarrow> bool" where
  "with_row t rows x m \<longleftrightarrow>
     (\<forall>w r w'. m w = (r, w') \<longrightarrow> x \<in> set (rows (rt_db w)) \<longrightarrow> confined t rows w w')"

lemma with_row_keeps: "op_keeps (\<lambda>w. rows (rt_db w)) m \<Longrightarrow> with_row t rows x m"
  by (auto simp: with_row_def intro: confined_same_rows dest: op_keepsD)

lemma with_row_bind:
  assumes "op_keeps (\<lambda>w. rows (rt_db w)) m" "\<And>y. with_row t rows x (f y)"
  shows "with_row t rows x (op_bind m f)"
  unfolding with_row_def
proof (intro allI impI)
  fix w r w'
  assume "op_bind m f w = (r, w')" "x \<in> set (rows (rt_db w))"
  then show "confined t rows w w'"
  proof (cases rule: op_bind_cases)
    case (cont y w1)
    with op_keepsD[OF assms(1)] have same: "rows (rt_db w1) = rows (rt_db w)" by blast
    moreover have "confined t rows w1 w'"
      using assms(2)[of y, unfolded with_row_def] cont(2) \<open>x \<in> _\<close> same by metis
    ultimately show ?thesis using confined_trans confined_same_rows by blast
  qed (auto intro: confined_same_rows dest: op_keepsD[OF assms(1)])
qed

lemma keeps_rows: "op_keeps rt_db m \<Longrightarrow> op_keeps (\<lambda>w. f (rt_db w)) m"
  by (simp add: op_keeps_def)

context instance_repository
begin

lemma find_keeps [keeps]: "op_keeps (\<lambda>w. rows (rt_db w)) (on_db (findByAggregateId repo t a))"
  by (auto simp: op_keeps_def elim!: on_db_cases dest: find_rows)

lemma key_keeps [keeps]: "op_keeps (\<lambda>w. rows (rt_db w)) (on_db (findByIdempotencyKey repo t k))"
  by (auto simp: op_keeps_def elim!: on_db_cases dest: key_rows)

lemma append_keeps [keeps]: "op_keeps (\<lambda>w. rows (rt_db w)) (on_db (appendEvent repo ev))"
  by (auto simp: op_keeps_def elim!: on_db_cases dest: append_rows)

lemma with_row_update:
  assumes "ir_id x = ui_id u" "ir_tenantId x = t" "\<And>y. op_keeps (\<lambda>w. rows (rt_db w)) (f y)"
  shows "with_row t rows x (op_bind (on_db (updateInstanceState repo u)) f)"
  unfolding with_row_def
proof (intro allI impI)
  fix w r w'
  assume run: "op_bind (on_db (updateInstanceState repo u)) f w = (r, w')"
    and x: "x \<in> set (rows (rt_db w))"
  from run obtain r1 w1 where w1: "on_db (updateInstanceState repo u) w = (r1, w1)"
    "rows (rt_db w') = rows (rt_db w1)"
    by (auto elim!: op_bind_cases dest!: op_keepsD[OF assms(3)])
  from w1(1) obtain d where d: "updateInstanceState repo u (rt_db w) = (r1, d)" "w1 = w\<lparr>rt_db := d\<rparr>"
    by (rule on_db_cases)
  show "confined t rows w w'"
    using w1(2) d(2) update_ids[OF d(1)] update_other_tenants[OF d(1) x assms(1,2)]
    by (simp add: confined_def ids_distinct_def foreign_def)
qed

lemma find_confined:
  assumes "\<And>row. ir_tenantId row = t \<Longrightarrow> with_row t rows row (f (Some row))"
    and "op_keeps (\<lambda>w. rows (rt_db w)) (f None)"
    and run: "op_bind (on_db (findByAggregateId repo t a)) f w = (r, w')"
  shows "confined t rows w w'"
  using run
proof (cases rule: op_bind_cases)
  case (throw e)
  then show ?thesis by (auto intro: confined_same_rows dest: op_keepsD[OF find_keeps])
next
  case (cont found w1)
  note same = op_keepsD[OF find_keeps cont(1)]
  have "confined t rows w1 w'"
  proof (cases found)
    case None
    with cont(2) op_keepsD[OF assms(2)] show ?thesis by (auto intro: confined_same_rows)
  next
    case (Some row)
    with cont(1) have "row \<in> set (rows (rt_db w1))" "ir_tenantId row = t"
      using find_some same by (fastforce elim!: on_db_cases)+
    with cont(2) Some assms(1)[of row] show ?thesis by (auto simp: with_row_def)
  qed
  then show ?thesis
    using same by (auto intro: confined_trans[OF confined_same_rows])
qed

text \<open>After the lookup: frames up to the update, frames after it.\<close>

lemmas row_steps = with_row_update with_row_bind[of rows, OF keeps_rows[OF on_engine_db]]
  with_row_bind[of rows, OF keeps_rows[OF wrapped_transition_db]]

lemma start_confined:
  "executeOssStart repo eng x w = (r, w') \<Longrightarrow> confined (id_tenantId (xc_identity x)) rows w w'"
  unfolding executeOssStart_def
  by (rule find_confined)
    (auto intro!: row_steps keeps append_keeps intro: with_row_keeps)

lemma transition_confined:
  "executeOssTransition repo eng tw x i w = (r, w') \<Longrightarrow> confined (id_tenantId (xc_identity x)) rows w w'"
  unfolding executeOssTransition_def
  by (rule find_confined)
    (auto intro!: row_steps keeps append_keeps intro: with_row_keeps split: option.split)

lemma cancel_confined:
  "executeOssCancel repo x w = (r, w') \<Longrightarrow> confined (id_tenantId (xc_identity x)) rows w w'"
  unfolding executeOssCancel_def
  by (rule find_confined) (auto intro!: row_steps keeps append_keeps intro: with_row_keeps)

text \<open>A create adds one instance, to the tenant of its input.\<close>

lemma create_confined:
  assumes "on_db (createInstance repo i) w = (r, w')"
  shows "confined (ci_tenantId i) rows w w'"
proof -
  from assms obtain d where d: "createInstance repo i (rt_db w) = (r, d)" "w' = w\<lparr>rt_db := d\<rparr>"
    by (rule on_db_cases)
  show ?thesis
  proof (cases r)
    case (Inl e)
    with d create_rows have "rows d = rows (rt_db w)" by metis
    with d(2) show ?thesis by (auto intro: confined_same_rows)
  next
    case (Inr x)
    with d create_some have "row_made x = row_made (new_row i)" "rows d = rows (rt_db w) @ [x]" by metis+
    with d(2) create_ids[OF d(1)] show ?thesis
      by (simp add: confined_def ids_distinct_def foreign_def row_made_def new_row_def)
  qed
qed

lemma conflict_keeps: "op_keeps (\<lambda>w. rows (rt_db w)) (create_conflict pr repo t key err)"
  unfolding create_conflict_def
  by (auto intro!: keeps key_keeps split: option.split runtime_error.split)

lemma provision_create_confined:
  assumes "provision_create pr repo i key w = (r, w')"
  shows "confined (id_tenantId (pi_identity i)) rows w w'"
proof (cases "parseInitialState (pi_definition i)")
  case None
  with assms show ?thesis by (auto simp: provision_create_def intro: confined_same_rows)
next
  case (Some initialState)
  define make where "make n = \<lparr>ci_aggregateId = rv_uuid pr n, ci_loopId = pi_loopId i,
    ci_tenantId = id_tenantId (pi_identity i), ci_idempotencyKey = key,
    ci_currentState = initialState, ci_status = ''CREATED'', ci_context = JObj (pi_payload i)\<rparr>" for n
  from assms Some obtain r1 w1 where w1:
    "on_db (createInstance repo (make (rt_tick w))) (w\<lparr>rt_tick := Suc (rt_tick w)\<rparr>) = (r1, w1)"
    "rows (rt_db w') = rows (rt_db w1)"
    by (auto simp: provision_create_def make_def rt_fresh_def op_bind_Inr op_catch_def
        split: prod.splits sum.splits elim!: op_bind_cases dest: op_keepsD[OF conflict_keeps])
  from create_confined[OF w1(1)] w1(2) show ?thesis
    by (simp add: make_def confined_def ids_distinct_def foreign_def)
qed

lemma provision_confined:
  assumes "provisionOssLoopInstance pr repo i w = (r, w')"
  shows "confined (id_tenantId (pi_identity i)) rows w w'"
proof (cases "clean_key (pi_idempotencyKey i)")
  case None
  with assms show ?thesis by (auto simp: provisionOssLoopInstance_def intro: provision_create_confined)
next
  case (Some k)
  with assms show ?thesis
    by (auto simp: provisionOssLoopInstance_def elim!: op_bind_cases
        dest!: op_keepsD[OF key_keeps] split: option.splits
        intro: confined_same_rows confined_trans[OF confined_same_rows provision_create_confined])
qed

text \<open>A provisioning that creates: no instance had the key, one was added with it.\<close>

lemma conflict_not_created: "create_conflict pr repo t key err w \<noteq> (Inr (Created dto), w')"
  by (auto simp: create_conflict_def elim!: op_bind_cases split: option.splits runtime_error.splits)

lemma provision_created:
  assumes "provisionOssLoopInstance pr repo i w = (Inr (Created dto), w')"
    and key: "clean_key (pi_idempotencyKey i) = Some k"
  obtains x where "rows (rt_db w') = rows (rt_db w) @ [x]" "dto = toLoopInstanceDto pr x"
    "ir_tenantId x = id_tenantId (pi_identity i)" "ir_idempotencyKey x = Some k"
    "\<And>y. y \<in> set (rows (rt_db w)) \<Longrightarrow> ir_tenantId y = id_tenantId (pi_identity i) \<Longrightarrow>
      ir_idempotencyKey y \<noteq> Some k"
proof -
  let ?t = "id_tenantId (pi_identity i)"
  from assms obtain w1 where look: "on_db (findByIdempotencyKey repo ?t k) w = (Inr None, w1)"
    and made: "provision_create pr repo i (Some k) w1 = (Inr (Created dto), w')"
    by (auto simp: provisionOssLoopInstance_def elim!: op_bind_cases split: option.splits)
  from look have w1: "rows (rt_db w1) = rows (rt_db w)"
    and none: "\<And>y. y \<in> set (rows (rt_db w)) \<Longrightarrow> ir_tenantId y = ?t \<Longrightarrow> ir_idempotencyKey y \<noteq> Some k"
    by (auto elim!: on_db_cases dest: key_rows key_none)
  from made obtain c x d where x: "createInstance repo c (rt_db w1) = (Inr x, d)"
    "ci_tenantId c = ?t" "ci_idempotencyKey c = Some k" "dto = toLoopInstanceDto pr x" "rt_db w' = d"
    by (fastforce simp: provision_create_def rt_fresh_def op_bind_Inr op_catch_def conflict_not_created
        split: prod.splits sum.splits option.splits elim!: op_bind_cases on_db_cases)
  from create_some[OF x(1)] x w1 show ?thesis
    by (intro that[OF _ x(4) _ _ none]) (auto simp: row_made_def new_row_def)
qed

lemma provision_again:
  assumes "provisionOssLoopInstance pr repo i w = (Inr (Created dto), w1)"
    and "clean_key (pi_idempotencyKey i) = Some k" "clean_key (pi_idempotencyKey j) = Some k"
    and tenant: "id_tenantId (pi_identity j) = id_tenantId (pi_identity i)"
    and "provisionOssLoopInstance pr repo j w1 = (Inr out, w2)"
  shows "out = IdempotentReplay dto \<and> rows (rt_db w2) = rows (rt_db w1)"
proof -
  let ?t = "id_tenantId (pi_identity i)"
  obtain x where x: "rows (rt_db w1) = rows (rt_db w) @ [x]" "dto = toLoopInstanceDto pr x"
    "ir_tenantId x = ?t" "ir_idempotencyKey x = Some k"
    "\<And>y. y \<in> set (rows (rt_db w)) \<Longrightarrow> ir_tenantId y = ?t \<Longrightarrow> ir_idempotencyKey y \<noteq> Some k"
    by (rule provision_created[OF assms(1,2)]) blast
  from assms(3-5) obtain found w' where look: "on_db (findByIdempotencyKey repo ?t k) w1 = (Inr found, w')"
    and out: "(case found of
        Some row \<Rightarrow> op_return (IdempotentReplay (toLoopInstanceDto pr row))
      | None \<Rightarrow> provision_create pr repo j (Some k)) w' = (Inr out, w2)"
    by (auto simp: provisionOssLoopInstance_def elim!: op_bind_cases)
  from look obtain d where d: "findByIdempotencyKey repo ?t k (rt_db w1) = (Inr found, d)" "w' = w1\<lparr>rt_db := d\<rparr>"
    by (rule on_db_cases)
  show ?thesis
  proof (cases found)
    case None
    with key_none[of ?t k "rt_db w1" d x] d(1) x show ?thesis by simp
  next
    case (Some y)
    with key_some[of ?t k "rt_db w1" y d] d(1) x have "y = x" by auto
    with Some out d x(2) key_rows[OF d(1)] show ?thesis by auto
  qed
qed

end

section \<open>Tracing\<close>

text \<open>Writing the trace cannot fail and touches neither the database nor the engine.\<close>

lemma trace_transition_returns:
  assumes "trace_transition pr tw cf p t r w = (res, w')"
  shows "res = Inr () \<and> rt_engine w' = rt_engine w \<and> rt_db w' = rt_db w"
  using assms
  by (auto simp: trace_transition_def trace_sequence_def nextTraceSequence_def on_trace_def rt_fresh_def
      nextInProcessSequence_def op_bind_def op_catch_def Let_def
      split: prod.splits sum.splits option.splits if_splits)

lemma traced_transparent:
  assumes "traced_transition pr eng tw cf p w = (r, w')"
  shows "r = (case fst (transition eng p (rt_engine w)) of Inl e \<Rightarrow> Inl (EngineError e) | Inr res \<Rightarrow> Inr res) \<and>
    rt_engine w' = snd (transition eng p (rt_engine w)) \<and> rt_db w' = rt_db w"
proof -
  obtain res ew where t: "transition eng p (rt_engine w) = (res, ew)" by fastforce
  from assms t show ?thesis
    by (auto simp: traced_transition_def rt_fresh_def op_bind_Inr
        elim!: op_bind_cases dest!: trace_transition_returns split: sum.splits)
qed

lemma tracing_transparent:
  assumes "wrapped_transition pr eng tw cf p w = (r, w')"
  shows "r = (case fst (transition eng p (rt_engine w)) of Inl e \<Rightarrow> Inl (EngineError e) | Inr res \<Rightarrow> Inr res) \<and>
    rt_engine w' = snd (transition eng p (rt_engine w)) \<and> rt_db w' = rt_db w"
proof (cases "rv_traceEnabled pr")
  case True
  with assms show ?thesis by (simp add: wrapped_transition_def traced_transparent)
next
  case False
  with assms show ?thesis
    by (auto simp: wrapped_transition_def on_engine_def split: prod.splits sum.splits)
qed

text \<open>The whole call gives the same answer and the same database with tracing switched off.\<close>

definition untraced :: "execution \<Rightarrow> execution" where
  "untraced x = x\<lparr>xc_process := (xc_process x)\<lparr>rv_traceEnabled := False\<rparr>\<rparr>"

definition same_outcome ::
    "('e + 'a) \<times> ('d, 's, 'p, 't) runtime_world \<Rightarrow> ('e + 'a) \<times> ('d, 's, 'p, 't) runtime_world \<Rightarrow> bool" where
  "same_outcome a b \<longleftrightarrow>
     fst a = fst b \<and> rt_db (snd a) = rt_db (snd b) \<and> rt_engine (snd a) = rt_engine (snd b)"

lemma same_outcome_bind:
  assumes "same_outcome (m w) (m' w')"
    and "\<And>x w1 w2. rt_db w1 = rt_db w2 \<Longrightarrow> rt_engine w1 = rt_engine w2 \<Longrightarrow> same_outcome (f x w1) (f' x w2)"
  shows "same_outcome (op_bind m f w) (op_bind m' f' w')"
proof -
  obtain r w1 r' w2 where m: "m w = (r, w1)" "m' w' = (r', w2)" by fastforce
  with assms(1) have same: "r' = r" "rt_db w1 = rt_db w2" "rt_engine w1 = rt_engine w2"
    by (auto simp: same_outcome_def)
  show ?thesis
  proof (cases r)
    case (Inl e)
    with m same show ?thesis by (simp add: op_bind_def same_outcome_def)
  next
    case (Inr x)
    with m same assms(2)[OF same(2,3), of x] show ?thesis by (simp add: op_bind_Inr)
  qed
qed

lemma same_outcome_db:
  "rt_db w1 = rt_db w2 \<Longrightarrow> rt_engine w1 = rt_engine w2 \<Longrightarrow> same_outcome (on_db m w1) (on_db m w2)"
  by (auto simp: same_outcome_def on_db_def split: prod.splits)

lemma same_outcome_return:
  "rt_db w1 = rt_db w2 \<Longrightarrow> rt_engine w1 = rt_engine w2 \<Longrightarrow> same_outcome (Inr x, w1) (Inr x, w2)"
  by (simp add: same_outcome_def)

lemma same_outcome_wrapped:
  assumes "rt_db w1 = rt_db w2" "rt_engine w1 = rt_engine w2"
  shows "same_outcome (wrapped_transition pr eng tw cf p w1) (wrapped_transition pr' eng tw cf p w2)"
proof -
  obtain r1 v1 r2 v2 where "wrapped_transition pr eng tw cf p w1 = (r1, v1)"
    "wrapped_transition pr' eng tw cf p w2 = (r2, v2)" by fastforce
  with tracing_transparent[of pr eng tw cf p w1 r1 v1] tracing_transparent[of pr' eng tw cf p w2 r2 v2] assms
  show ?thesis by (simp add: same_outcome_def)
qed

lemma tracing_outcome:
  "same_outcome (executeOssTransition repo eng tw x i w) (executeOssTransition repo eng tw (untraced x) i w)"
  unfolding executeOssTransition_def
  by (auto simp: untraced_def intro!: same_outcome_bind same_outcome_db same_outcome_return
      same_outcome_wrapped split: option.split)

text \<open>Cancelling changes the row only: the engine, which owns the instance, is not told.\<close>

lemma cancel_engine [keeps]: "op_keeps rt_engine (executeOssCancel repo x)"
proof -
  have "op_keeps rt_engine (on_db m)" for m :: "(runtime_error, 'd, 'x) eop" by (rule on_db_keeps) simp
  then show ?thesis unfolding executeOssCancel_def by (auto intro!: keeps split: option.split)
qed

text \<open>
  With the in-memory trace store, which hands out no numbers itself, the records of a run are
  numbered by the process.
\<close>

definition memory_writer :: "memory_traces trace_writer" where
  "memory_writer = \<lparr>tw_write = (\<lambda>r t. (Inr (), mt_write r t)), tw_allocate = None\<rparr>"

definition next_number :: "('d, 's, 'p, 't) runtime_world \<Rightarrow> string \<Rightarrow> nat" where
  "next_number w run = (case map_of (rt_sequences w) run of None \<Rightarrow> 0 | Some n \<Rightarrow> n)"

definition numbered :: "('d, 's, 'p, memory_traces) runtime_world \<Rightarrow> string \<Rightarrow> bool" where
  "numbered w run \<longleftrightarrow>
     map tc_sequence (mt_getRunTrace (rt_trace w) run) = map int [0..<next_number w run]"

lemma traced_transition_record:
  assumes "traced_transition pr eng memory_writer cf p w = (r, w')"
  obtains rec where "rt_trace w' = mt_write rec (rt_trace w)" "tc_loopRunId rec = tp_aggregateId p"
    "tc_sequence rec = int (next_number w (tp_aggregateId p))"
    "tc_transitionId rec = Some (tp_transitionId p)"
    "rt_sequences w' = AList.update (tp_aggregateId p) (next_number w (tp_aggregateId p) + 1) (rt_sequences w)"
  using assms
  by (fastforce simp: traced_transition_def trace_transition_def trace_sequence_def
      nextTraceSequence_def nextInProcessSequence_def memory_writer_def rt_fresh_def on_trace_def
      op_bind_def op_catch_def trace_of_transition_def next_number_def Let_def
      split: prod.splits sum.splits)

lemma next_number_step:
  "rt_sequences w' = AList.update a (next_number w a + 1) (rt_sequences w) \<Longrightarrow>
     next_number w' run = (if run = a then next_number w run + 1 else next_number w run)"
  by (simp add: next_number_def map_of_update_eq)

lemma sort_key_snoc:
  "sorted (map f xs) \<Longrightarrow> (\<And>y. y \<in> set xs \<Longrightarrow> f y \<le> f x) \<Longrightarrow> sort_key f (xs @ [x]) = xs @ [x]"
  by (rule sort_key_id_if_sorted) (auto simp: sorted_append)

lemma numbered_append:
  assumes "map tc_sequence rs = map int [0..<n]" "tc_sequence r = int n"
  shows "sort_key tc_sequence (rs @ [r]) = rs @ [r]"
proof (rule sort_key_snoc)
  show "sorted (map tc_sequence rs)" by (simp add: assms(1) sorted_map_mono mono_onI)
  fix y assume "y \<in> set rs"
  then have "tc_sequence y \<in> set (map tc_sequence rs)" by simp
  then show "tc_sequence y \<le> tc_sequence r" by (auto simp: assms)
qed

lemma traced_engine:
  "rt_engine (snd (traced_transition pr eng tw cf p w)) = snd (transition eng p (rt_engine w))"
  using traced_transparent[of pr eng tw cf p w] by (metis prod.collapse)

text \<open>A run of traced transitions, and what its trace is.\<close>

definition traced_calls ::
    "process \<Rightarrow> ('s, 'p) engine \<Rightarrow> trace_config \<Rightarrow> transition_params list \<Rightarrow>
     ('d, 's, 'p, memory_traces) runtime_world \<Rightarrow> ('d, 's, 'p, memory_traces) runtime_world" where
  "traced_calls pr eng cf ps w = fold (\<lambda>p w. snd (traced_transition pr eng memory_writer cf p w)) ps w"

lemma traced_calls_numbered:
  fixes w :: "('d, 's, 'p, memory_traces) runtime_world"
    and pr :: process and eng :: "('s, 'p) engine" and cf :: trace_config and run :: string
  assumes "rt_trace w = mt_empty" "rt_sequences w = []"
  defines "w' ps \<equiv> traced_calls pr eng cf ps w" and "own ps \<equiv> filter (\<lambda>p. tp_aggregateId p = run) ps"
  shows "next_number (w' ps) run = length (own ps) \<and> numbered (w' ps) run \<and>
    map tc_transitionId (mt_getRunTrace (rt_trace (w' ps)) run) = map (\<lambda>p. Some (tp_transitionId p)) (own ps)"
proof (induction ps rule: rev_induct)
  case Nil
  with assms(1,2) show ?case
    by (simp add: w'_def own_def traced_calls_def next_number_def numbered_def mt_defs)
next
  case (snoc p ps)
  obtain r w1 where step: "traced_transition pr eng memory_writer cf p (w' ps) = (r, w1)" by fastforce
  then have w1: "w' (ps @ [p]) = w1" by (simp add: w'_def traced_calls_def)
  obtain rec where rec: "rt_trace w1 = mt_write rec (rt_trace (w' ps))" "tc_loopRunId rec = tp_aggregateId p"
    "tc_sequence rec = int (next_number (w' ps) (tp_aggregateId p))"
    "tc_transitionId rec = Some (tp_transitionId p)"
    "rt_sequences w1 = AList.update (tp_aggregateId p) (next_number (w' ps) (tp_aggregateId p) + 1)
       (rt_sequences (w' ps))"
    by (rule traced_transition_record[OF step]) blast
  show ?case
  proof (cases "run = tp_aggregateId p")
    case True
    with snoc rec have "sort_key tc_sequence (mt_getRunTrace (rt_trace (w' ps)) run @ [rec]) =
        mt_getRunTrace (rt_trace (w' ps)) run @ [rec]"
      by (intro numbered_append[where n = "next_number (w' ps) run"]) (auto simp: numbered_def)
    with True snoc rec show ?thesis
      by (simp add: w1 numbered_def next_number_step[OF rec(5)] mt_trace_write own_def)
  next
    case False
    with snoc rec show ?thesis
      by (simp add: w1 numbered_def next_number_step[OF rec(5)] mt_trace_write own_def)
  qed
qed

end
