(* ===== verification/Run_Reads.thy ===== *)
theory Run_Reads
  imports Durable_Safety
begin

text \<open>
  The responses of the read routes, built from a run summary and its trace:
  \<open>packages/runtime-core/src/build-run-responses.ts\<close> with the shapes of
  \<open>packages/observability/src/audit-read.ts\<close>.
\<close>

definition RUNTIME_API_CONTRACT_VERSION :: string where
  "RUNTIME_API_CONTRACT_VERSION = ''runtime-api-2026-05''"

section \<open>Shapes\<close>

record run_read_summary =
  rr_loopRunId :: string
  rr_loopId :: string
  rr_startedAt :: string
  rr_completedAt :: "string option"
  rr_terminalState :: "string option"
  rr_stepCount :: nat
  rr_blockedCount :: nat
  rr_governed :: bool

record audit_event =
  ae_eventId :: string
  ae_sequence :: int
  ae_type :: trace_event_type
  ae_fromState :: "string option"
  ae_toState :: "string option"
  ae_transitionId :: "string option"
  ae_actorId :: string
  ae_actorType :: actor_type
  ae_evidence :: js
  ae_occurredAt :: string
  ae_blocked :: bool
  ae_blockReason :: "string option"

record history_response =
  hr_contractVersion :: string
  hr_loopRunId :: string
  hr_loopId :: string
  hr_events :: "audit_event list"

record evidence_item =
  ei_sequence :: int
  ei_eventId :: string
  ei_transitionId :: "string option"
  ei_type :: trace_event_type
  ei_occurredAt :: string
  ei_evidence :: js

record evidence_response =
  vr_contractVersion :: string
  vr_loopRunId :: string
  vr_loopId :: string
  vr_items :: "evidence_item list"

record read_surfaces =
  su_history :: string
  su_evidence :: string
  su_timeline :: string
  su_replaySummary :: string
  su_legacyTrace :: string

record detail_response =
  de_contractVersion :: string
  de_run :: run_read_summary
  de_traceStepCount :: nat
  de_readSurfaces :: read_surfaces

record replay_response =
  rp_contractVersion :: string
  rp_loopRunId :: string
  rp_loopId :: string
  rp_metrics :: trace_metrics
  rp_transitionCount :: nat
  rp_guardBlockCount :: nat
  rp_humanApprovalCount :: nat
  rp_terminalState :: "string option"
  rp_sequenceValid :: bool
  rp_invalidAtSequence :: "int option"

record timeline_response =
  ti_contractVersion :: string
  ti_loopRunId :: string
  ti_timeline :: trace_timeline

section \<open>Evidence of a record\<close>

definition evidenceAsRecord :: "js \<Rightarrow> js" where
  "evidenceAsRecord ev = (if is_plain_object ev then ev else JObj [])"

fun own_keys :: "js \<Rightarrow> string list" where
  "own_keys (JObj kvs) = map fst kvs"
| "own_keys _ = []"

definition status_metadata_keys :: "string list" where
  "status_metadata_keys =
     [''transitionStatus'', ''fromState'', ''toState'', ''rejectionReason'', ''guardFailures'']"

definition hasSnapshotRefs :: "js \<Rightarrow> bool" where
  "hasSnapshotRefs payload = (case js_get payload ''snapshotIds'' of JArr ids \<Rightarrow> ids \<noteq> [] | _ \<Rightarrow> False)"

definition snapshotRefPayload :: "js \<Rightarrow> js" where
  "snapshotRefPayload payload =
     JObj ((''snapshotIds'', js_get payload ''snapshotIds'') #
       (if js_get payload ''versions'' \<noteq> JUndef then [(''versions'', js_get payload ''versions'')] else []))"

definition isTransitionStatusMetadata :: "js \<Rightarrow> bool" where
  "isTransitionStatusMetadata payload \<longleftrightarrow>
     own_keys payload \<noteq> [] \<and> list_all (\<lambda>k. k \<in> set status_metadata_keys) (own_keys payload)"

definition submittedEvidenceForRt05 :: "trace_record \<Rightarrow> js" where
  "submittedEvidenceForRt05 r =
     (let input = evidenceAsRecord (tc_input r); legacy = evidenceAsRecord (tc_evidence r)
      in if hasSnapshotRefs input then snapshotRefPayload input
         else if own_keys input \<noteq> [] then input
         else if hasSnapshotRefs legacy then snapshotRefPayload legacy
         else if isTransitionStatusMetadata legacy then JObj []
         else legacy)"

section \<open>Building the responses\<close>

definition toRunReadSummaryDto :: "(int \<Rightarrow> string) \<Rightarrow> run_summary \<Rightarrow> run_read_summary" where
  "toRunReadSummaryDto toIso s =
     \<lparr>rr_loopRunId = rs_loopRunId s, rr_loopId = rs_loopId s, rr_startedAt = toIso (rs_startedAt s),
      rr_completedAt = map_option toIso (rs_completedAt s), rr_terminalState = rs_terminalState s,
      rr_stepCount = rs_stepCount s, rr_blockedCount = rs_blockedCount s, rr_governed = rs_governed s\<rparr>"

definition audit_event_of :: "(int \<Rightarrow> string) \<Rightarrow> trace_record \<Rightarrow> audit_event" where
  "audit_event_of toIso r =
     \<lparr>ae_eventId = tc_id r, ae_sequence = tc_sequence r, ae_type = tc_type r,
      ae_fromState = tc_fromState r, ae_toState = tc_toState r, ae_transitionId = tc_transitionId r,
      ae_actorId = actor_id (tc_actor r), ae_actorType = actor_type (tc_actor r),
      ae_evidence = evidenceAsRecord (tc_evidence r), ae_occurredAt = toIso (tc_timestamp r),
      ae_blocked = tc_blocked r, ae_blockReason = tc_blockReason r\<rparr>"

definition traceToAuditEvents :: "(int \<Rightarrow> string) \<Rightarrow> trace_record list \<Rightarrow> audit_event list" where
  "traceToAuditEvents toIso trace = map (audit_event_of toIso) (sort_key tc_sequence trace)"

definition evidence_item_of :: "(int \<Rightarrow> string) \<Rightarrow> trace_record \<Rightarrow> evidence_item" where
  "evidence_item_of toIso r =
     \<lparr>ei_sequence = tc_sequence r, ei_eventId = tc_id r, ei_transitionId = tc_transitionId r,
      ei_type = tc_type r, ei_occurredAt = toIso (tc_timestamp r),
      ei_evidence = submittedEvidenceForRt05 r\<rparr>"

definition traceToEvidenceItems :: "(int \<Rightarrow> string) \<Rightarrow> trace_record list \<Rightarrow> evidence_item list" where
  "traceToEvidenceItems toIso trace = map (evidence_item_of toIso) (sort_key tc_sequence trace)"

text \<open>The loop of \<open>validateTraceSequence\<close> from index \<open>i\<close>: none if valid, else the offending number.\<close>

fun invalid_sequence :: "int \<Rightarrow> trace_record list \<Rightarrow> int option" where
  "invalid_sequence i [] = None"
| "invalid_sequence i (r # rs) =
     (if tc_sequence r \<noteq> i then Some (tc_sequence r) else invalid_sequence (i + 1) rs)"

definition validateTraceSequence :: "trace_record list \<Rightarrow> bool \<times> int option" where
  "validateTraceSequence trace =
     (case invalid_sequence 0 (sort_key tc_sequence trace) of
        Some n \<Rightarrow> (False, Some n) | None \<Rightarrow> (True, None))"

definition buildRunDetailResponse :: "(int \<Rightarrow> string) \<Rightarrow> run_summary \<Rightarrow> trace_record list \<Rightarrow> detail_response" where
  "buildRunDetailResponse toIso s trace =
     (let base = ''/api/v1/runs/'' @ rs_loopRunId s
      in \<lparr>de_contractVersion = RUNTIME_API_CONTRACT_VERSION, de_run = toRunReadSummaryDto toIso s,
          de_traceStepCount = length trace,
          de_readSurfaces =
            \<lparr>su_history = base @ ''/history'', su_evidence = base @ ''/evidence'',
             su_timeline = base @ ''/timeline'', su_replaySummary = base @ ''/replay-summary'',
             su_legacyTrace = ''/api/v1/loops/runs/'' @ rs_loopRunId s\<rparr>\<rparr>)"

definition buildRunHistoryResponse :: "(int \<Rightarrow> string) \<Rightarrow> run_summary \<Rightarrow> trace_record list \<Rightarrow> history_response" where
  "buildRunHistoryResponse toIso s trace =
     \<lparr>hr_contractVersion = RUNTIME_API_CONTRACT_VERSION, hr_loopRunId = rs_loopRunId s,
      hr_loopId = rs_loopId s, hr_events = traceToAuditEvents toIso trace\<rparr>"

definition buildRunEvidenceResponse :: "(int \<Rightarrow> string) \<Rightarrow> run_summary \<Rightarrow> trace_record list \<Rightarrow> evidence_response" where
  "buildRunEvidenceResponse toIso s trace =
     \<lparr>vr_contractVersion = RUNTIME_API_CONTRACT_VERSION, vr_loopRunId = rs_loopRunId s,
      vr_loopId = rs_loopId s, vr_items = traceToEvidenceItems toIso trace\<rparr>"

definition buildRunTimelineResponse :: "(int \<Rightarrow> string) \<Rightarrow> run_summary \<Rightarrow> trace_record list \<Rightarrow> timeline_response" where
  "buildRunTimelineResponse toIso s trace =
     \<lparr>ti_contractVersion = RUNTIME_API_CONTRACT_VERSION, ti_loopRunId = rs_loopRunId s,
      ti_timeline = buildTimelineFromTrace toIso (map Some trace)\<rparr>"

definition buildRunReplaySummaryResponse ::
    "host \<Rightarrow> (int \<Rightarrow> string) \<Rightarrow> run_summary \<Rightarrow> trace_record list \<Rightarrow> replay_response" where
  "buildRunReplaySummaryResponse h toIso s trace =
     (let timeline = buildTimelineFromTrace toIso (map Some trace);
          metrics = computeMetricsFromTrace h timeline;
          (valid, invalidAt) = validateTraceSequence trace
      in \<lparr>rp_contractVersion = RUNTIME_API_CONTRACT_VERSION, rp_loopRunId = rs_loopRunId s,
          rp_loopId = rs_loopId s, rp_metrics = metrics,
          rp_transitionCount = tm_transitionCount metrics,
          rp_guardBlockCount = tm_guardBlockCount metrics,
          rp_humanApprovalCount = tm_humanApprovalCount metrics,
          rp_terminalState = tm_terminalState metrics,
          rp_sequenceValid = valid, rp_invalidAtSequence = invalidAt\<rparr>)"

section \<open>Sequence validation\<close>

text \<open>The sequence is valid exactly if its numbers are those from 0, each once, in any order.\<close>

lemma invalid_sequence_None:
  "invalid_sequence i rs = None \<longleftrightarrow> map tc_sequence rs = map (\<lambda>k. i + int k) [0..<length rs]"
proof (induction rs arbitrary: i)
  case (Cons r rs)
  have "map (\<lambda>k. i + int k) [0..<length (r # rs)] = i # map (\<lambda>k. (i + 1) + int k) [0..<length rs]"
    by (simp add: upt_conv_Cons map_Suc_upt[symmetric] del: upt_Suc)
  with Cons.IH[of "i + 1"] show ?case by auto
qed simp

lemma sorted_map_int: "sorted (map int [0..<n])"
  by (simp add: sorted_map_mono mono_onI)

lemma sequence_valid_iff:
  "fst (validateTraceSequence trace) \<longleftrightarrow>
     mset (map tc_sequence trace) = mset (map int [0..<length trace])"
proof -
  let ?s = "map tc_sequence (sort_key tc_sequence trace)"
  have "mset ?s = mset (map tc_sequence trace)" by simp
  moreover have "?s = map int [0..<length trace] \<longleftrightarrow> mset ?s = mset (map int [0..<length trace])"
    by (metis sorted_map_int sorted_sort_key properties_for_sort)
  moreover have "fst (validateTraceSequence trace) \<longleftrightarrow> ?s = map int [0..<length trace]"
    using invalid_sequence_None[of 0 "sort_key tc_sequence trace"]
    by (auto simp: validateTraceSequence_def split: option.splits)
  ultimately show ?thesis by metis
qed

lemma sequence_valid_numbered:
  "map tc_sequence trace = map int [0..<n] \<Longrightarrow> validateTraceSequence trace = (True, None)"
  using sequence_valid_iff[of trace]
  by (cases "invalid_sequence 0 (sort_key tc_sequence trace)")
    (auto simp: validateTraceSequence_def dest: arg_cong[where f = length])

text \<open>
  The number reported for a trace without negative or repeated numbers is that of the first record
  after a gap.
\<close>

lemma invalid_sequence_Some:
  "invalid_sequence i rs = Some n \<longleftrightarrow>
     (\<exists>k < length rs. tc_sequence (rs ! k) = n \<and> n \<noteq> i + int k \<and>
        (\<forall>j < k. tc_sequence (rs ! j) = i + int j))"
proof (induction rs arbitrary: i)
  case (Cons r rs)
  show ?case
  proof (cases "tc_sequence r = i")
    case True
    have "(\<exists>k < length (r # rs). tc_sequence ((r # rs) ! k) = n \<and> n \<noteq> i + int k \<and>
        (\<forall>j < k. tc_sequence ((r # rs) ! j) = i + int j)) \<longleftrightarrow>
      (\<exists>k < length rs. tc_sequence (rs ! k) = n \<and> n \<noteq> (i + 1) + int k \<and>
        (\<forall>j < k. tc_sequence (rs ! j) = (i + 1) + int j))" (is "?l \<longleftrightarrow> ?r")
    proof
      assume ?l
      then obtain k where k: "k < length (r # rs)" "tc_sequence ((r # rs) ! k) = n" "n \<noteq> i + int k"
        "\<forall>j < k. tc_sequence ((r # rs) ! j) = i + int j" by blast
      with True have "k \<noteq> 0" by (cases k) auto
      then obtain m where "k = Suc m" by (cases k) auto
      with k show ?r by (intro exI[of _ m]) (force simp: algebra_simps)
    next
      assume ?r
      then obtain k where "k < length rs" "tc_sequence (rs ! k) = n" "n \<noteq> (i + 1) + int k"
        "\<forall>j < k. tc_sequence (rs ! j) = (i + 1) + int j" by blast
      with True show ?l by (intro exI[of _ "Suc k"]) (auto simp: nth_Cons split: nat.splits)
    qed
    with True Cons.IH[of "i + 1"] show ?thesis by simp
  next
    case False
    have zero: "k = 0" if "\<forall>j < k. tc_sequence ((r # rs) ! j) = i + int j" for k
    proof (rule ccontr)
      assume "k \<noteq> 0"
      with that have "tc_sequence ((r # rs) ! 0) = i + int 0" by blast
      with False show "False" by simp
    qed
    show ?thesis
    proof
      assume "invalid_sequence i (r # rs) = Some n"
      with False show "\<exists>k < length (r # rs). tc_sequence ((r # rs) ! k) = n \<and> n \<noteq> i + int k \<and>
        (\<forall>j < k. tc_sequence ((r # rs) ! j) = i + int j)" by (intro exI[of _ 0]) auto
    next
      assume "\<exists>k < length (r # rs). tc_sequence ((r # rs) ! k) = n \<and> n \<noteq> i + int k \<and>
        (\<forall>j < k. tc_sequence ((r # rs) ! j) = i + int j)"
      then obtain k where k: "tc_sequence ((r # rs) ! k) = n"
        "\<forall>j < k. tc_sequence ((r # rs) ! j) = i + int j" by blast
      with zero[of k] False show "invalid_sequence i (r # rs) = Some n" by simp
    qed
  qed
qed simp

text \<open>The items carry the trace in the order of its numbers.\<close>

lemma evidence_item_sequences:
  "sorted (map ei_sequence (traceToEvidenceItems toIso trace)) \<and>
   mset (map ei_eventId (traceToEvidenceItems toIso trace)) = mset (map tc_id trace)"
proof -
  have "map ei_sequence (traceToEvidenceItems toIso trace) = map tc_sequence (sort_key tc_sequence trace)"
    "map ei_eventId (traceToEvidenceItems toIso trace) = map tc_id (sort_key tc_sequence trace)"
    by (simp_all add: traceToEvidenceItems_def evidence_item_of_def)
  then show ?thesis by simp
qed

text \<open>Status metadata is never shown as submitted evidence.\<close>

lemma status_metadata_hidden:
  assumes "own_keys (tc_input r) = []" "isTransitionStatusMetadata (tc_evidence r)"
  shows "submittedEvidenceForRt05 r = JObj []"
proof -
  from assms(2) obtain kvs where kvs: "tc_evidence r = JObj kvs"
    "\<And>k. k \<in> fst ` set kvs \<Longrightarrow> k \<in> set status_metadata_keys"
    by (cases "tc_evidence r") (auto simp: isTransitionStatusMetadata_def list_all_iff)
  have no_keys: "own_keys (evidenceAsRecord (tc_input r)) = []" "\<not> hasSnapshotRefs (evidenceAsRecord (tc_input r))"
    using assms(1) by (cases "tc_input r"; simp add: evidenceAsRecord_def hasSnapshotRefs_def obj_get_def)+
  have "map_of kvs ''snapshotIds'' = None"
    using kvs(2)[of "''snapshotIds''"] by (auto simp: map_of_eq_None_iff status_metadata_keys_def)
  then have "\<not> hasSnapshotRefs (tc_evidence r)"
    by (simp add: hasSnapshotRefs_def kvs obj_get_def)
  with no_keys assms(2) kvs(1) show ?thesis
    by (simp add: submittedEvidenceForRt05_def Let_def evidenceAsRecord_def)
qed

end
