(* ===== verification/Connections.thy ===== *)
theory Connections
  imports Run_Reads
begin

text \<open>
  The catalog of runtime connections: \<open>packages/runtime-core/src/runtime-connections\<close>. Its data, the
  file \<open>schemas/runtime-connections.json\<close>, is an argument.
\<close>

datatype connection_category = Provider | Channel | Integration | Protocol

datatype connection_status = Available | Planned | HostedOnly | SelfHostSupported

datatype auth_type =
    NoAuth | ApiKey | OauthTenant | OauthPublisher | WebhookSignature | McpBearer | PlatformJwt

datatype implementation_ref =
    Npm string "string option"
  | HostedRoute string
  | External string

record runtime_connection =
  cn_id :: string
  cn_displayName :: string
  cn_category :: connection_category
  cn_metadataVersion :: string
  cn_status :: connection_status
  cn_capabilities :: "string list"
  cn_authType :: auth_type
  cn_emitsEvidence :: bool
  cn_supportsReplay :: bool
  cn_supportsHumanApproval :: bool
  cn_supportsGuards :: bool
  cn_requiresTenantAuth :: bool
  cn_selfHostCompatible :: bool
  cn_hostedCompatible :: bool
  cn_implementationRef :: implementation_ref
  cn_featureFlags :: "string list option"
  cn_docsUrl :: "string option"

record connection_catalog =
  cc_catalogVersion :: string
  cc_connections :: "runtime_connection list"

record connections_response =
  cr_contractVersion :: string
  cr_catalogVersion :: string
  cr_connections :: "runtime_connection list"

definition RUNTIME_CONNECTION_CATEGORIES :: "(string \<times> connection_category) list" where
  "RUNTIME_CONNECTION_CATEGORIES =
     [(''provider'', Provider), (''channel'', Channel), (''integration'', Integration),
      (''protocol'', Protocol)]"

definition listRuntimeConnections ::
    "connection_catalog \<Rightarrow> connection_category option \<Rightarrow> runtime_connection list" where
  "listRuntimeConnections catalog category =
     (case category of
        None \<Rightarrow> cc_connections catalog
      | Some c \<Rightarrow> filter (\<lambda>cn. cn_category cn = c) (cc_connections catalog))"

definition isRuntimeConnectionCategory :: "string \<Rightarrow> bool" where
  "isRuntimeConnectionCategory v \<longleftrightarrow> v \<in> set (map fst RUNTIME_CONNECTION_CATEGORIES)"

text \<open>\<open>Inl\<close> is the sentinel for a value that is no category.\<close>

definition parseRuntimeConnectionCategory :: "string option \<Rightarrow> unit + connection_category option" where
  "parseRuntimeConnectionCategory v =
     (case v of
        None \<Rightarrow> Inr None
      | Some s \<Rightarrow>
          if trim s = [] then Inr None
          else (case map_of RUNTIME_CONNECTION_CATEGORIES (lower (trim s)) of
                  None \<Rightarrow> Inl () | Some c \<Rightarrow> Inr (Some c)))"

definition buildMetadataConnectionsResponse ::
    "connection_catalog \<Rightarrow> connection_category option \<Rightarrow> connections_response" where
  "buildMetadataConnectionsResponse catalog category =
     \<lparr>cr_contractVersion = RUNTIME_API_CONTRACT_VERSION,
      cr_catalogVersion = cc_catalogVersion catalog,
      cr_connections = listRuntimeConnections catalog category\<rparr>"

lemma parse_category_known:
  "parseRuntimeConnectionCategory (Some s) = Inl () \<longleftrightarrow>
     trim s \<noteq> [] \<and> \<not> isRuntimeConnectionCategory (lower (trim s))"
  by (auto simp: parseRuntimeConnectionCategory_def isRuntimeConnectionCategory_def map_of_eq_None_iff
      split: option.split dest: map_of_SomeD intro: rev_image_eqI)

text \<open>The categories partition the catalog.\<close>

lemma connections_by_category:
  "mset (listRuntimeConnections k None) =
     mset (listRuntimeConnections k (Some Provider)) + mset (listRuntimeConnections k (Some Channel)) +
     mset (listRuntimeConnections k (Some Integration)) + mset (listRuntimeConnections k (Some Protocol))"
proof -
  have "mset cs = mset (filter (\<lambda>c. cn_category c = Provider) cs) + mset (filter (\<lambda>c. cn_category c = Channel) cs) +
      mset (filter (\<lambda>c. cn_category c = Integration) cs) + mset (filter (\<lambda>c. cn_category c = Protocol) cs)"
    for cs :: "runtime_connection list"
  proof (induction cs)
    case (Cons c cs)
    then show ?case by (cases "cn_category c") simp_all
  qed simp
  then show ?thesis by (simp add: listRuntimeConnections_def)
qed

end
