(* ===== verification/Routes.thy ===== *)
theory Routes
  imports Connections
begin

text \<open>
  The HTTP routes: \<open>packages/runtime-routes\<close> over the error envelope of
  \<open>packages/runtime-core/src/errors.ts\<close>. A handler takes a request and gives a response; \<open>Inl\<close> is a
  promise that is rejected, which the web framework answers.
\<close>

section \<open>Responses\<close>

datatype response_body =
    ErrorBody string "(string \<times> string) list option"
  | InstanceBody instance_dto bool
  | StartedBody string string string
  | MovedBody string string string string string
  | DetailBody detail_response
  | HistoryBody history_response
  | EvidenceBody evidence_response
  | TimelineBody timeline_response
  | ReplayBody replay_response
  | ConnectionsBody connections_response

record route_response =
  re_status :: nat
  re_headers :: "(string \<times> string) list"
  re_body :: response_body

definition jsonError ::
    "nat \<Rightarrow> string \<Rightarrow> (string \<times> string) list option \<Rightarrow> (string \<times> string) list \<Rightarrow> route_response" where
  "jsonError status error details headers =
     \<lparr>re_status = status, re_headers = (''Content-Type'', ''application/json'') # headers,
      re_body = ErrorBody error details\<rparr>"

definition err401 :: "string \<Rightarrow> route_response" where
  "err401 message = jsonError 401 message None []"

definition err403 :: "string \<Rightarrow> route_response" where
  "err403 message = jsonError 403 message None []"

definition err404 :: "string \<Rightarrow> route_response" where
  "err404 message = jsonError 404 message None []"

definition err409 :: "string \<Rightarrow> route_response" where
  "err409 message = jsonError 409 message None []"

definition err422 :: "string \<Rightarrow> (string \<times> string) list option \<Rightarrow> route_response" where
  "err422 message details = jsonError 422 message details []"

definition err429 :: "string \<Rightarrow> route_response" where
  "err429 message = jsonError 429 message None [(''Retry-After'', ''60'')]"

definition err500 :: "string \<Rightarrow> route_response" where
  "err500 message = jsonError 500 message None []"

definition err503 :: "string \<Rightarrow> route_response" where
  "err503 message = jsonError 503 message None [(''Retry-After'', ''30'')]"

definition json_response :: "nat \<Rightarrow> response_body \<Rightarrow> route_response" where
  "json_response status body =
     \<lparr>re_status = status, re_headers = [(''content-type'', ''application/json'')], re_body = body\<rparr>"

section \<open>Requests and their context\<close>

text \<open>The header \<open>Authorization\<close> and the body, none if it is no JSON.\<close>

record request =
  rq_authorization :: "string option"
  rq_body :: "js option"

text \<open>The windows of the two rate limiters belong to the process, like the runtime they guard.\<close>

record ('d, 's, 'p, 't) route_world =
  rw_runtime :: "('d, 's, 'p, 't) runtime_world"
  rw_reads :: windows
  rw_writes :: windows

record ('d, 's, 'p, 't) route_context =
  cx_process :: process
  cx_authenticate :: "string option \<Rightarrow> (runtime_error, 'd, identity) eop"
  cx_getEntitlements :: "string \<Rightarrow> (runtime_error, 'd, entitlements) eop"
  cx_traces :: "'d trace_client"
  cx_traceReadEnabled :: bool
  cx_repo :: "'d instance_repo"
  cx_engineForTenant :: "string \<Rightarrow> (runtime_error, 'd, ('s, 'p) engine) eop"
  cx_traceStoreForTenant :: "string \<Rightarrow> 't trace_writer"
  cx_resolve :: "string \<Rightarrow> string \<Rightarrow> identity \<Rightarrow> (runtime_error, 'd, js option) eop"

definition on_runtime ::
    "(runtime_error, ('d, 's, 'p, 't) runtime_world, 'a) eop \<Rightarrow>
     (runtime_error, ('d, 's, 'p, 't) route_world, 'a) eop" where
  "on_runtime m w = (case m (rw_runtime w) of (r, rw) \<Rightarrow> (r, w\<lparr>rw_runtime := rw\<rparr>))"

definition on_reads :: "(runtime_error, windows, 'a) eop \<Rightarrow> (runtime_error, ('d, 's, 'p, 't) route_world, 'a) eop" where
  "on_reads m w = (case m (rw_reads w) of (r, ws) \<Rightarrow> (r, w\<lparr>rw_reads := ws\<rparr>))"

definition on_writes :: "(runtime_error, windows, 'a) eop \<Rightarrow> (runtime_error, ('d, 's, 'p, 't) route_world, 'a) eop" where
  "on_writes m w = (case m (rw_writes w) of (r, ws) \<Rightarrow> (r, w\<lparr>rw_writes := ws\<rparr>))"

definition op_try :: "('e, 'w, 'a) eop \<Rightarrow> ('f, 'w, 'e + 'a) eop" where
  "op_try m w = (case m w of (r, w') \<Rightarrow> (Inr r, w'))"

text \<open>
  The middleware: authenticate, look up the entitlements, check the tier, count the request, then
  run the handler.
\<close>

definition admit ::
    "((runtime_error, windows, unit) eop \<Rightarrow> (runtime_error, ('d, 's, 'p, 't) route_world, unit) eop) \<Rightarrow>
     ('d, 's, 'p, 't) route_context \<Rightarrow> request \<Rightarrow>
     (identity \<Rightarrow> (runtime_error, ('d, 's, 'p, 't) route_world, route_response) eop) \<Rightarrow>
     (runtime_error, ('d, 's, 'p, 't) route_world, route_response) eop" where
  "admit on_windows cx request handler =
     op_bind (op_try (on_runtime (on_db (cx_authenticate cx (rq_authorization request))))) (\<lambda>authenticated.
     case authenticated of
       Inl (AuthenticationError message) \<Rightarrow> op_return (err401 message)
     | Inl _ \<Rightarrow> op_return (err500 ''Auth lookup failed'')
     | Inr identity \<Rightarrow>
         op_bind (op_try (on_runtime (on_db (cx_getEntitlements cx (id_tenantId identity))))) (\<lambda>found.
         case found of
           Inl (EntitlementsDeniedError message) \<Rightarrow> op_return (err403 message)
         | Inl _ \<Rightarrow> op_return (err500 ''Entitlements lookup failed'')
         | Inr entitlements \<Rightarrow>
             (case assertRuntimeAllowed (rv_host (cx_process cx)) entitlements of
                Inl (EntitlementsDeniedError message) \<Rightarrow> op_return (err403 message)
              | Inl _ \<Rightarrow> op_return (err500 ''Entitlements check failed'')
              | Inr _ \<Rightarrow>
                  op_bind (on_runtime rt_fresh) (\<lambda>n.
                  op_bind (op_try (on_windows (recordTransitionWithinLimit (id_tenantId identity)
                    entitlements (rv_clock (cx_process cx) n 0)))) (\<lambda>counted.
                  case counted of
                    Inl (QuotaExceededError message) \<Rightarrow> op_return (err429 message)
                  | Inl _ \<Rightarrow> op_return (err500 ''Rate limit check failed'')
                  | Inr _ \<Rightarrow> handler identity)))))"

definition withPersistedRunWrite ::
    "('d, 's, 'p, 't) route_context \<Rightarrow> request \<Rightarrow>
     (identity \<Rightarrow> (runtime_error, ('d, 's, 'p, 't) route_world, route_response) eop) \<Rightarrow>
     (runtime_error, ('d, 's, 'p, 't) route_world, route_response) eop" where
  "withPersistedRunWrite cx request handler = admit on_writes cx request handler"

definition withPersistedRunRead ::
    "('d, 's, 'p, 't) route_context \<Rightarrow> request \<Rightarrow> string \<Rightarrow>
     (run_summary \<Rightarrow> trace_record list \<Rightarrow> response_body) \<Rightarrow>
     (runtime_error, ('d, 's, 'p, 't) route_world, route_response) eop" where
  "withPersistedRunRead cx request runId build =
     (if \<not> cx_traceReadEnabled cx then op_return (err503 ''Trace API disabled'')
      else admit on_reads cx request (\<lambda>identity.
        op_bind (on_runtime (on_db (rethrow (tr_getRunSummary (cx_traces cx) runId (id_tenantId identity))))) (\<lambda>summaryRow.
        case summaryRow of
          None \<Rightarrow> op_return (err404 ''Run not found'')
        | Some summary \<Rightarrow>
            op_bind (on_runtime (on_db (rethrow (tr_getRunTrace (cx_traces cx) runId (id_tenantId identity))))) (\<lambda>rows.
            op_return (json_response 200 (build (toRunSummary summary) (map rowToTraceRecord rows)))))))"

section \<open>Reads\<close>

definition createRunDetailHandler where
  "createRunDetailHandler cx runId request =
     withPersistedRunRead cx request runId (\<lambda>summary trace.
       DetailBody (buildRunDetailResponse (rv_toIso (cx_process cx)) summary trace))"

definition createRunHistoryHandler where
  "createRunHistoryHandler cx runId request =
     withPersistedRunRead cx request runId (\<lambda>summary trace.
       HistoryBody (buildRunHistoryResponse (rv_toIso (cx_process cx)) summary trace))"

definition createRunEvidenceHandler where
  "createRunEvidenceHandler cx runId request =
     withPersistedRunRead cx request runId (\<lambda>summary trace.
       EvidenceBody (buildRunEvidenceResponse (rv_toIso (cx_process cx)) summary trace))"

definition createRunTimelineHandler where
  "createRunTimelineHandler cx runId request =
     withPersistedRunRead cx request runId (\<lambda>summary trace.
       TimelineBody (buildRunTimelineResponse (rv_toIso (cx_process cx)) summary trace))"

definition createRunReplaySummaryHandler where
  "createRunReplaySummaryHandler cx runId request =
     withPersistedRunRead cx request runId (\<lambda>summary trace.
       ReplayBody (buildRunReplaySummaryResponse (rv_host (cx_process cx)) (rv_toIso (cx_process cx)) summary trace))"

section \<open>Writes\<close>

text \<open>
  The body is any JSON value. Reading a property of \<open>null\<close> throws; of other values that are not
  objects it gives \<open>undefined\<close>.
\<close>

definition null_body :: "string \<Rightarrow> runtime_error" where
  "null_body field = EngineError (Error (''Cannot read properties of null (reading '' @ [CHR 0x27] @ field @ [CHR 0x27] @ '')''))"

definition filled_text :: "js \<Rightarrow> bool" where
  "filled_text v \<longleftrightarrow> (case v of JStr s \<Rightarrow> trim s \<noteq> [] | _ \<Rightarrow> False)"

definition text_of :: "js \<Rightarrow> string" where
  "text_of v = (case v of JStr s \<Rightarrow> s | _ \<Rightarrow> [])"

definition object_of :: "js \<Rightarrow> jobj" where
  "object_of v = (case v of JObj kvs \<Rightarrow> kvs | _ \<Rightarrow> [])"

definition is_text :: "js \<Rightarrow> bool" where
  "is_text v \<longleftrightarrow> (case v of JStr s \<Rightarrow> True | _ \<Rightarrow> False)"

text \<open>The first field of a body that is wrong, with its message.\<close>

definition create_fault :: "js \<Rightarrow> (string \<times> string) option" where
  "create_fault body =
     (if \<not> filled_text (js_get body ''loopId'') then Some (''loopId'', ''loopId must be a non-empty string'')
      else if \<not> is_plain_object (js_get body ''payload'') then Some (''payload'', ''payload must be an object'')
      else if js_get body ''idempotencyKey'' \<noteq> JUndef \<and> \<not> is_text (js_get body ''idempotencyKey'')
      then Some (''idempotencyKey'', ''idempotencyKey must be a string'')
      else if js_get body ''metadata'' \<noteq> JUndef \<and> \<not> is_plain_object (js_get body ''metadata'')
      then Some (''metadata'', ''metadata must be an object'')
      else None)"

definition provision_response :: "provision_outcome \<Rightarrow> route_response" where
  "provision_response oc =
     (case oc of
        Created inst \<Rightarrow> json_response 201 (InstanceBody inst False)
      | IdempotentReplay inst \<Rightarrow> json_response 200 (InstanceBody inst True)
      | InvalidDefinition message \<Rightarrow> err500 message
      | Conflict target \<Rightarrow> err409 (''Loop instance conflict on: '' @ join '', '' target))"

definition createLoopCreateHandler ::
    "('d, 's, 'p, 't) route_context \<Rightarrow> request \<Rightarrow>
     (runtime_error, ('d, 's, 'p, 't) route_world, route_response) eop" where
  "createLoopCreateHandler cx request =
     withPersistedRunWrite cx request (\<lambda>identity.
       case rq_body request of
         None \<Rightarrow> op_return (err422 ''Invalid JSON body'' None)
       | Some body \<Rightarrow>
           if body = JNull then op_throw (null_body ''loopId'') else
           (case create_fault body of
              Some fault \<Rightarrow> op_return (err422 ''Invalid request body'' (Some [fault]))
            | None \<Rightarrow>
                (let loopId = trim (text_of (js_get body ''loopId'')) in
                 op_bind (on_runtime (on_db (cx_resolve cx (id_tenantId identity) loopId identity))) (\<lambda>resolved.
                 case resolved of
                   None \<Rightarrow> op_return (err404 ''Loop definition not found'')
                 | Some definition \<Rightarrow>
                     op_bind (on_runtime (provisionOssLoopInstance (cx_process cx) (cx_repo cx)
                       \<lparr>pi_identity = identity, pi_loopId = loopId,
                        pi_payload = object_of (js_get body ''payload''),
                        pi_idempotencyKey = (case js_get body ''idempotencyKey'' of JStr k \<Rightarrow> Some k | _ \<Rightarrow> None),
                        pi_definition = definition\<rparr>)) (\<lambda>oc.
                     op_return (provision_response oc))))))"

definition execution_for :: "('d, 's, 'p, 't) route_context \<Rightarrow> identity \<Rightarrow> string \<Rightarrow> execution" where
  "execution_for cx identity aggregateKey =
     \<lparr>xc_process = cx_process cx, xc_identity = identity, xc_aggregateKey = aggregateKey, xc_governed = None\<rparr>"

definition start_response :: "start_outcome \<Rightarrow> route_response" where
  "start_response oc =
     (case oc of
        Started aggregateId state status \<Rightarrow> json_response 200 (StartedBody aggregateId state status)
      | StartNotFound \<Rightarrow> err404 ''Loop not found''
      | AlreadyStarted status \<Rightarrow> err409 (''Loop already started (status: '' @ status @ '')''))"

definition createLoopStartHandler ::
    "('d, 's, 'p, 't) route_context \<Rightarrow> string \<Rightarrow> request \<Rightarrow>
     (runtime_error, ('d, 's, 'p, 't) route_world, route_response) eop" where
  "createLoopStartHandler cx aggregateKey request =
     withPersistedRunWrite cx request (\<lambda>identity.
       op_bind (on_runtime (on_db (findByAggregateId (cx_repo cx) (id_tenantId identity) aggregateKey))) (\<lambda>existing.
       if existing = None then op_return (err404 ''Loop not found'')
       else
         op_bind (on_runtime (on_db (cx_engineForTenant cx (id_tenantId identity)))) (\<lambda>eng.
         op_bind (on_runtime (executeOssStart (cx_repo cx) eng (execution_for cx identity aggregateKey))) (\<lambda>oc.
         op_return (start_response oc)))))"

definition caller_of :: "js \<Rightarrow> caller_type option" where
  "caller_of v =
     (if v = JStr ''human'' then Some CallerHuman
      else if v = JStr ''ai'' then Some CallerAi
      else if v = JStr ''system'' then Some CallerSystem
      else None)"

definition transition_fault :: "js \<Rightarrow> (string \<times> string) option" where
  "transition_fault body =
     (if \<not> filled_text (js_get body ''signalId'') then Some (''signalId'', ''signalId is required'')
      else if \<not> is_plain_object (js_get body ''actor'') then Some (''actor'', ''actor is required'')
      else if \<not> filled_text (js_get (js_get body ''actor'') ''id'') then Some (''actor.id'', ''actor.id is required'')
      else if caller_of (js_get (js_get body ''actor'') ''type'') = None
      then Some (''actor.type'', ''actor.type must be human|ai|system'')
      else if js_get body ''evidence'' \<noteq> JUndef \<and> \<not> is_plain_object (js_get body ''evidence'')
      then Some (''evidence'', ''evidence must be an object'')
      else None)"

definition transition_body :: "js \<Rightarrow> transition_input_rt" where
  "transition_body body =
     \<lparr>ti_signalId = trim (text_of (js_get body ''signalId'')),
      ti_evidence = (case js_get body ''evidence'' of JUndef \<Rightarrow> None | v \<Rightarrow> Some (object_of v)),
      ti_actorId = text_of (js_get (js_get body ''actor'') ''id''),
      ti_actorType = (case caller_of (js_get (js_get body ''actor'') ''type'') of
        Some c \<Rightarrow> c | None \<Rightarrow> CallerHuman)\<rparr>"

definition transition_response :: "transition_outcome \<Rightarrow> route_response" where
  "transition_response oc =
     (case oc of
        Moved aggregateId s s' status time \<Rightarrow> json_response 200 (MovedBody aggregateId s s' status time)
      | MoveNotFound \<Rightarrow> err404 ''Loop not found''
      | MoveRejected reason \<Rightarrow> err409 reason)"

definition createLoopTransitionHandler ::
    "('d, 's, 'p, 't) route_context \<Rightarrow> string \<Rightarrow> request \<Rightarrow>
     (runtime_error, ('d, 's, 'p, 't) route_world, route_response) eop" where
  "createLoopTransitionHandler cx aggregateKey request =
     withPersistedRunWrite cx request (\<lambda>identity.
       case rq_body request of
         None \<Rightarrow> op_return (err422 ''Invalid JSON body'' None)
       | Some body \<Rightarrow>
           if body = JNull then op_throw (null_body ''signalId'') else
           (case transition_fault body of
              Some fault \<Rightarrow> op_return (err422 ''Invalid request body'' (Some [fault]))
            | None \<Rightarrow>
                op_bind (on_runtime (on_db (findByAggregateId (cx_repo cx) (id_tenantId identity) aggregateKey))) (\<lambda>existing.
                if existing = None then op_return (err404 ''Loop not found'')
                else
                  op_bind (on_runtime (on_db (cx_engineForTenant cx (id_tenantId identity)))) (\<lambda>eng.
                  op_bind (on_runtime (executeOssTransition (cx_repo cx) eng
                    (cx_traceStoreForTenant cx (id_tenantId identity))
                    (execution_for cx identity aggregateKey) (transition_body body))) (\<lambda>oc.
                  op_return (transition_response oc))))))"

definition cancel_response :: "cancel_outcome \<Rightarrow> route_response" where
  "cancel_response oc =
     (case oc of
        CancelDone inst \<Rightarrow> json_response 200 (InstanceBody inst False)
      | CancelNotFound \<Rightarrow> err404 ''Loop not found''
      | AlreadyTerminal \<Rightarrow> err409 ''Loop instance is already terminal'')"

definition createLoopCancelHandler ::
    "('d, 's, 'p, 't) route_context \<Rightarrow> string \<Rightarrow> request \<Rightarrow>
     (runtime_error, ('d, 's, 'p, 't) route_world, route_response) eop" where
  "createLoopCancelHandler cx aggregateKey request =
     withPersistedRunWrite cx request (\<lambda>identity.
       op_bind (on_runtime (executeOssCancel (cx_repo cx) (execution_for cx identity aggregateKey))) (\<lambda>oc.
       op_return (cancel_response oc)))"

section \<open>Metadata\<close>

text \<open>A public route; \<open>category\<close> is the query parameter.\<close>

definition createMetadataConnectionsHandler :: "connection_catalog \<Rightarrow> string option \<Rightarrow> route_response" where
  "createMetadataConnectionsHandler catalog category =
     (case parseRuntimeConnectionCategory category of
        Inl _ \<Rightarrow> err422 ''Invalid query parameter''
          (Some [(''category'', ''Must be one of: provider, channel, integration, protocol'')])
      | Inr c \<Rightarrow> json_response 200 (ConnectionsBody (buildMetadataConnectionsResponse catalog c)))"

section \<open>Dispatch\<close>

datatype route =
    PostLoop
  | PostStart string
  | PostTransition string
  | PostCancel string
  | GetRun string
  | GetHistory string
  | GetEvidence string
  | GetTimeline string
  | GetReplaySummary string

fun handle ::
    "('d, 's, 'p, 't) route_context \<Rightarrow> route \<Rightarrow> request \<Rightarrow>
     (runtime_error, ('d, 's, 'p, 't) route_world, route_response) eop" where
  "handle cx PostLoop rq = createLoopCreateHandler cx rq"
| "handle cx (PostStart i) rq = createLoopStartHandler cx i rq"
| "handle cx (PostTransition i) rq = createLoopTransitionHandler cx i rq"
| "handle cx (PostCancel i) rq = createLoopCancelHandler cx i rq"
| "handle cx (GetRun i) rq = createRunDetailHandler cx i rq"
| "handle cx (GetHistory i) rq = createRunHistoryHandler cx i rq"
| "handle cx (GetEvidence i) rq = createRunEvidenceHandler cx i rq"
| "handle cx (GetTimeline i) rq = createRunTimelineHandler cx i rq"
| "handle cx (GetReplaySummary i) rq = createRunReplaySummaryHandler cx i rq"

fun is_read :: "route \<Rightarrow> bool" where
  "is_read PostLoop = False"
| "is_read (PostStart i) = False"
| "is_read (PostTransition i) = False"
| "is_read (PostCancel i) = False"
| "is_read _ = True"

section \<open>The gate\<close>

text \<open>A request that is not authenticated reaches no handler.\<close>

lemma admit_unauthenticated:
  assumes "cx_authenticate cx (rq_authorization rq) (rt_db (rw_runtime w)) = (Inl e, d)"
  shows "\<exists>resp. admit on_windows cx rq h w =
      (Inr resp, w\<lparr>rw_runtime := (rw_runtime w)\<lparr>rt_db := d\<rparr>\<rparr>) \<and>
      re_status resp = (if \<exists>m. e = AuthenticationError m then 401 else 500)"
  using assms
  by (cases e) (simp_all add: admit_def op_try_def on_runtime_def on_db_def op_bind_Inr err401_def
      err500_def jsonError_def)

lemma handle_unauthenticated:
  assumes "cx_authenticate cx (rq_authorization rq) (rt_db (rw_runtime w)) = (Inl e, d)"
    and "\<not> is_read rt \<or> cx_traceReadEnabled cx"
  shows "\<exists>resp. handle cx rt rq w =
      (Inr resp, w\<lparr>rw_runtime := (rw_runtime w)\<lparr>rt_db := d\<rparr>\<rparr>) \<and>
      re_status resp = (if \<exists>m. e = AuthenticationError m then 401 else 500)"
  using admit_unauthenticated[OF assms(1)] assms(2)
  by (cases rt) (simp_all add: createLoopCreateHandler_def createLoopStartHandler_def
      createLoopTransitionHandler_def createLoopCancelHandler_def withPersistedRunWrite_def
      createRunDetailHandler_def createRunHistoryHandler_def createRunEvidenceHandler_def
      createRunTimelineHandler_def createRunReplaySummaryHandler_def withPersistedRunRead_def)

lemma handle_reads_disabled:
  "is_read rt \<Longrightarrow> \<not> cx_traceReadEnabled cx \<Longrightarrow>
     \<exists>resp. handle cx rt rq w = (Inr resp, w) \<and> re_status resp = 503"
  by (cases rt) (simp_all add: createRunDetailHandler_def createRunHistoryHandler_def
      createRunEvidenceHandler_def createRunTimelineHandler_def createRunReplaySummaryHandler_def
      withPersistedRunRead_def op_return_def err503_def jsonError_def)

section \<open>Tenants of requests\<close>

definition served_tenant ::
    "('d, 's, 'p, 't) route_context \<Rightarrow> request \<Rightarrow> ('d, 's, 'p, 't) route_world \<Rightarrow> string option" where
  "served_tenant cx rq w =
     (case fst (cx_authenticate cx (rq_authorization rq) (rt_db (rw_runtime w))) of
        Inl _ \<Rightarrow> None | Inr identity \<Rightarrow> Some (id_tenantId identity))"

text \<open>The parts of the context that have no business with the instances leave them alone.\<close>

definition quiet :: "('d, 's, 'p, 't) route_context \<Rightarrow> ('d \<Rightarrow> instance_row list) \<Rightarrow> bool" where
  "quiet cx rows \<longleftrightarrow>
     (\<forall>h. op_keeps rows (cx_authenticate cx h)) \<and> (\<forall>t. op_keeps rows (cx_getEntitlements cx t)) \<and>
     (\<forall>t. op_keeps rows (cx_engineForTenant cx t)) \<and> (\<forall>t l i. op_keeps rows (cx_resolve cx t l i)) \<and>
     (\<forall>P. op_keeps rows (t_find (cl_summaries (cx_traces cx)) P)) \<and>
     (\<forall>P. op_keeps rows (t_many (cl_traces (cx_traces cx)) P))"

definition confines :: "string \<Rightarrow> ('d \<Rightarrow> instance_row list) \<Rightarrow>
    (runtime_error, ('d, 's, 'p, 't) route_world, 'a) eop \<Rightarrow> bool" where
  "confines t rows m \<longleftrightarrow> (\<forall>w r w'. m w = (r, w') \<longrightarrow> confined t rows (rw_runtime w) (rw_runtime w'))"

lemma confines_return: "confines t rows (op_return x)"
  by (simp add: confines_def confined_same_rows)

lemma confines_throw: "confines t rows (op_throw e)"
  by (simp add: confines_def confined_same_rows)

lemma confines_bind:
  "confines t rows m \<Longrightarrow> (\<And>x. confines t rows (f x)) \<Longrightarrow> confines t rows (op_bind m f)"
  unfolding confines_def by (intro allI impI, erule op_bind_cases) (blast intro: confined_trans)+

lemma confines_try: "confines t rows m \<Longrightarrow> confines t rows (op_try m)"
  by (auto simp: confines_def op_try_def split: prod.splits)

lemma confines_runtime:
  "(\<And>w r w'. m w = (r, w') \<Longrightarrow> confined t rows w w') \<Longrightarrow> confines t rows (on_runtime m)"
  by (auto simp: confines_def on_runtime_def split: prod.splits)

lemma confines_db: "op_keeps rows m \<Longrightarrow> confines t rows (on_runtime (on_db m))"
  by (rule confines_runtime)
    (auto elim!: on_db_cases dest: op_keepsD simp: confined_def ids_distinct_def foreign_def)

lemma confines_fresh: "confines t rows (on_runtime rt_fresh)"
  by (rule confines_runtime) (auto intro: confined_same_rows simp: rt_fresh_def)

lemma confines_windows: "confines t rows (on_reads m)" "confines t rows (on_writes m)"
  by (auto simp: confines_def on_reads_def on_writes_def intro: confined_same_rows split: prod.splits)

lemma rethrow_keeps: "op_keeps g m \<Longrightarrow> op_keeps g (rethrow m)"
  by (auto simp: op_keeps_def elim: rethrow_cases)

lemma get_summary_keeps: "quiet cx rows \<Longrightarrow> op_keeps rows (rethrow (tr_getRunSummary (cx_traces cx) run t))"
  by (simp add: tr_getRunSummary_def quiet_def rethrow_keeps)

lemma get_trace_keeps: "quiet cx rows \<Longrightarrow> op_keeps rows (rethrow (tr_getRunTrace (cx_traces cx) run t))"
  by (auto simp: tr_getRunTrace_def quiet_def intro!: rethrow_keeps keeps)

lemmas confines_intros = confines_return confines_throw confines_bind confines_try confines_fresh
  confines_windows

text \<open>What follows the authentication.\<close>

lemma admit_confined:
  assumes quiet: "quiet cx rows"
    and windows: "\<And>m t. confines t rows (on_windows m)"
    and handler: "\<And>i. confines (id_tenantId i) rows (h i)"
    and run: "admit on_windows cx rq h w = (r, w')"
  shows "case served_tenant cx rq w of
      None \<Rightarrow> rows (rt_db (rw_runtime w')) = rows (rt_db (rw_runtime w))
    | Some t \<Rightarrow> confined t rows (rw_runtime w) (rw_runtime w')"
proof -
  obtain res d where auth: "cx_authenticate cx (rq_authorization rq) (rt_db (rw_runtime w)) = (res, d)"
    by fastforce
  from quiet auth have d: "rows d = rows (rt_db (rw_runtime w))" by (auto simp: quiet_def dest: op_keepsD)
  show ?thesis
  proof (cases res)
    case (Inl e)
    with admit_unauthenticated[of cx rq w e d on_windows h] auth run d show ?thesis
      by (auto simp: served_tenant_def)
  next
    case (Inr i)
    let ?t = "id_tenantId i"
    have ent: "confines ?t rows (on_runtime (on_db (cx_getEntitlements cx ?t)))"
      using quiet by (intro confines_db) (simp add: quiet_def)
    have rest: "confines ?t rows
      (op_bind (op_try (on_runtime (on_db (cx_getEntitlements cx ?t)))) (\<lambda>found.
         case found of
           Inl (EntitlementsDeniedError message) \<Rightarrow> op_return (err403 message)
         | Inl _ \<Rightarrow> op_return (err500 ''Entitlements lookup failed'')
         | Inr entitlements \<Rightarrow>
             (case assertRuntimeAllowed (rv_host (cx_process cx)) entitlements of
                Inl (EntitlementsDeniedError message) \<Rightarrow> op_return (err403 message)
              | Inl _ \<Rightarrow> op_return (err500 ''Entitlements check failed'')
              | Inr _ \<Rightarrow>
                  op_bind (on_runtime rt_fresh) (\<lambda>n.
                  op_bind (op_try (on_windows (recordTransitionWithinLimit ?t
                    entitlements (rv_clock (cx_process cx) n 0)))) (\<lambda>counted.
                  case counted of
                    Inl (QuotaExceededError message) \<Rightarrow> op_return (err429 message)
                  | Inl _ \<Rightarrow> op_return (err500 ''Rate limit check failed'')
                  | Inr _ \<Rightarrow> h i)))))"
      by (auto intro!: confines_intros ent windows handler split: sum.split runtime_error.split)
    let ?w = "w\<lparr>rw_runtime := (rw_runtime w)\<lparr>rt_db := d\<rparr>\<rparr>"
    have "confined ?t rows (rw_runtime ?w) (rw_runtime w')"
      using run auth Inr rest[unfolded confines_def, rule_format, of ?w]
      by (simp add: admit_def op_bind_Inr[of "op_try m" for m] op_try_def on_runtime_def on_db_def
          del: confined_def cong: option.case_cong)
    then show ?thesis using auth Inr d
      by (simp add: served_tenant_def confined_def ids_distinct_def foreign_def)
  qed
qed

lemma admit_read_confined: 
  assumes "quiet cx rows" "withPersistedRunRead cx rq run build w = (r, w')"
  shows "case served_tenant cx rq w of
      None \<Rightarrow> rows (rt_db (rw_runtime w')) = rows (rt_db (rw_runtime w))
    | Some t \<Rightarrow> confined t rows (rw_runtime w) (rw_runtime w')"
proof (cases "cx_traceReadEnabled cx")
  case True
  have "confines t rows (on_runtime (on_db (rethrow (tr_getRunSummary (cx_traces cx) run t'))))"
    "confines t rows (on_runtime (on_db (rethrow (tr_getRunTrace (cx_traces cx) run t'))))" for t t'
    by (intro confines_db get_summary_keeps get_trace_keeps assms(1))+
  then show ?thesis
    using assms(2) True unfolding withPersistedRunRead_def
    by (intro admit_confined[OF assms(1), where on_windows = on_reads])
      (auto intro!: confines_intros split: option.split)
next
  case False
  with assms(2) show ?thesis
    by (auto simp: withPersistedRunRead_def confined_same_rows split: option.split)
qed

definition serve ::
    "('d, 's, 'p, 't) route_context \<Rightarrow> (route \<times> request) list \<Rightarrow> ('d, 's, 'p, 't) route_world \<Rightarrow>
     ('d, 's, 'p, 't) route_world" where
  "serve cx rqs w = fold (\<lambda>(rt, rq) w. snd (handle cx rt rq w)) rqs w"

fun served_tenants ::
    "('d, 's, 'p, 't) route_context \<Rightarrow> (route \<times> request) list \<Rightarrow> ('d, 's, 'p, 't) route_world \<Rightarrow> string list" where
  "served_tenants cx [] w = []"
| "served_tenants cx ((rt, rq) # rqs) w =
     (case served_tenant cx rq w of None \<Rightarrow> [] | Some t \<Rightarrow> [t]) @
     served_tenants cx rqs (snd (handle cx rt rq w))"

lemma filter_foreign:
  "t' \<noteq> t \<Longrightarrow> filter (\<lambda>x. ir_tenantId x = t) (rows (rt_db w)) =
     filter (\<lambda>x. ir_tenantId x = t) (foreign t' rows w)"
  by (auto simp: foreign_def intro!: filter_cong)

text \<open>Each write handler, once admitted, works for the tenant of the identity only.\<close>

context instance_repository
begin

lemma handle_confined:
  assumes quiet: "quiet cx rows" and repo: "cx_repo cx = repo"
    and run: "handle cx rt rq w = (r, w')"
  shows "case served_tenant cx rq w of
      None \<Rightarrow> rows (rt_db (rw_runtime w')) = rows (rt_db (rw_runtime w))
    | Some t \<Rightarrow> confined t rows (rw_runtime w) (rw_runtime w')"
proof -
  note db = confines_db[where rows = rows]
  have look: "confines t rows (on_runtime (on_db (findByAggregateId repo t' a)))" for t t' a
    by (rule db) (auto simp: op_keeps_def dest: find_rows)
  have eng: "confines t rows (on_runtime (on_db (cx_engineForTenant cx t')))"
    and res: "confines t rows (on_runtime (on_db (cx_resolve cx t' l i)))" for t t' l i
    using quiet by (auto intro!: db simp: quiet_def)
  have prov: "confines (id_tenantId i) rows (on_runtime (provisionOssLoopInstance pr repo
      \<lparr>pi_identity = i, pi_loopId = l, pi_payload = pl, pi_idempotencyKey = k, pi_definition = d\<rparr>))"
    for i pr l pl k d
    using provision_confined by (intro confines_runtime) fastforce
  have start: "confines (id_tenantId i) rows (on_runtime (executeOssStart repo e (execution_for cx i a)))"
    and move: "confines (id_tenantId i) rows (on_runtime (executeOssTransition repo e tw (execution_for cx i a) inp))"
    and cancel: "confines (id_tenantId i) rows (on_runtime (executeOssCancel repo (execution_for cx i a)))"
    for i e a tw inp
    using start_confined[of e "execution_for cx i a"] transition_confined[of e tw "execution_for cx i a" inp]
      cancel_confined[of "execution_for cx i a"]
    by (auto intro!: confines_runtime simp: execution_for_def)
  note steps = confines_intros look eng res prov start move cancel
  show ?thesis
  proof (cases rt)
    case PostLoop
    with run show ?thesis
      by (intro admit_confined[OF quiet, where on_windows = on_writes])
        (auto simp: repo createLoopCreateHandler_def withPersistedRunWrite_def Let_def
          intro!: steps split: option.split)
  next
    case (PostStart a)
    with run show ?thesis
      by (intro admit_confined[OF quiet, where on_windows = on_writes])
        (auto simp: repo createLoopStartHandler_def withPersistedRunWrite_def intro!: steps)
  next
    case (PostTransition a)
    with run show ?thesis
      by (intro admit_confined[OF quiet, where on_windows = on_writes])
        (auto simp: repo createLoopTransitionHandler_def withPersistedRunWrite_def
          intro!: steps split: option.split)
  next
    case (PostCancel a)
    with run show ?thesis
      by (intro admit_confined[OF quiet, where on_windows = on_writes])
        (auto simp: repo createLoopCancelHandler_def withPersistedRunWrite_def intro!: steps)
  qed (use run in \<open>auto simp: createRunDetailHandler_def createRunHistoryHandler_def
      createRunEvidenceHandler_def createRunTimelineHandler_def createRunReplaySummaryHandler_def
      dest: admit_read_confined[OF quiet]\<close>)
qed

text \<open>A sequence of requests: the instances of a tenant for whom none was served are as before.\<close>

lemma served_isolated:
  assumes "quiet cx rows" "cx_repo cx = repo"
    and "ids_distinct rows (rw_runtime w)" "t \<notin> set (served_tenants cx rqs w)"
  shows "filter (\<lambda>x. ir_tenantId x = t) (rows (rt_db (rw_runtime (serve cx rqs w)))) =
    filter (\<lambda>x. ir_tenantId x = t) (rows (rt_db (rw_runtime w)))"
  using assms(3,4)
proof (induction rqs arbitrary: w)
  case Nil
  then show ?case by (simp add: serve_def)
next
  case (Cons x rqs)
  obtain rt rq where x: "x = (rt, rq)" by fastforce
  obtain r w1 where step: "handle cx rt rq w = (r, w1)" by fastforce
  then have serve: "serve cx (x # rqs) w = serve cx rqs w1" by (simp add: serve_def x)
  note conf = handle_confined[OF assms(1,2) step]
  have rest: "t \<notin> set (served_tenants cx rqs w1)"
    using Cons.prems(2) step by (simp add: x split: option.splits)
  show ?case
  proof (cases "served_tenant cx rq w")
    case None
    with conf have same: "rows (rt_db (rw_runtime w1)) = rows (rt_db (rw_runtime w))" by simp
    then have "ids_distinct rows (rw_runtime w1)" using Cons.prems(1) by (simp add: ids_distinct_def)
    from Cons.IH[OF this rest] same show ?thesis by (simp add: serve)
  next
    case (Some t')
    with Cons.prems have "t' \<noteq> t" by (auto simp: x)
    from conf Some Cons.prems(1) have ids: "ids_distinct rows (rw_runtime w1)"
      and "foreign t' rows (rw_runtime w1) = foreign t' rows (rw_runtime w)"
      by (simp_all add: confined_def)
    then have "filter (\<lambda>x. ir_tenantId x = t) (rows (rt_db (rw_runtime w1))) =
        filter (\<lambda>x. ir_tenantId x = t) (rows (rt_db (rw_runtime w)))"
      using filter_foreign[OF \<open>t' \<noteq> t\<close>] by metis
    with Cons.IH[OF ids rest] show ?thesis by (simp add: serve)
  qed
qed

end

section \<open>What a read shows\<close>

definition run_of :: "route \<Rightarrow> string" where
  "run_of rt = (case rt of GetRun i \<Rightarrow> i | GetHistory i \<Rightarrow> i | GetEvidence i \<Rightarrow> i | GetTimeline i \<Rightarrow> i
     | GetReplaySummary i \<Rightarrow> i | _ \<Rightarrow> [])"

definition read_body ::
    "('d, 's, 'p, 't) route_context \<Rightarrow> route \<Rightarrow> run_summary \<Rightarrow> trace_record list \<Rightarrow> response_body" where
  "read_body cx rt s tr =
     (let iso = rv_toIso (cx_process cx); h = rv_host (cx_process cx)
      in case rt of
           GetRun i \<Rightarrow> DetailBody (buildRunDetailResponse iso s tr)
         | GetHistory i \<Rightarrow> HistoryBody (buildRunHistoryResponse iso s tr)
         | GetEvidence i \<Rightarrow> EvidenceBody (buildRunEvidenceResponse iso s tr)
         | GetTimeline i \<Rightarrow> TimelineBody (buildRunTimelineResponse iso s tr)
         | _ \<Rightarrow> ReplayBody (buildRunReplaySummaryResponse h iso s tr))"

lemma handle_read:
  "is_read rt \<Longrightarrow> handle cx rt rq = withPersistedRunRead cx rq (run_of rt) (read_body cx rt)"
  by (cases rt; rule ext)
    (simp_all add: createRunDetailHandler_def createRunHistoryHandler_def createRunEvidenceHandler_def
      createRunTimelineHandler_def createRunReplaySummaryHandler_def run_of_def read_body_def[abs_def] Let_def)

text \<open>A request that was not turned away ran its handler for its tenant.\<close>

lemma admit_passed:
  assumes run: "admit on_windows cx rq h w = (Inr resp, w')"
    and status: "re_status resp \<notin> {401, 403, 429, 500}"
    and windows: "\<And>m w r w'. on_windows m w = (r, w') \<Longrightarrow> rw_runtime w' = rw_runtime w"
    and auth: "\<And>h. op_keeps g (cx_authenticate cx h)" and ent: "\<And>t. op_keeps g (cx_getEntitlements cx t)"
  shows "\<exists>i w1. served_tenant cx rq w = Some (id_tenantId i) \<and> h i w1 = (Inr resp, w') \<and>
    g (rt_db (rw_runtime w1)) = g (rt_db (rw_runtime w))"
proof -
  obtain res d where a: "cx_authenticate cx (rq_authorization rq) (rt_db (rw_runtime w)) = (res, d)"
    by fastforce
  have res: "\<exists>i. res = Inr i"
  proof (cases res)
    case (Inl e)
    with admit_unauthenticated[of cx rq w e d on_windows h] a run status show ?thesis by (auto split: if_splits)
  qed simp
  then obtain i where i: "res = Inr i" by blast
  let ?w = "w\<lparr>rw_runtime := (rw_runtime w)\<lparr>rt_db := d\<rparr>\<rparr>"
  obtain en d2 where e: "cx_getEntitlements cx (id_tenantId i) d = (en, d2)" by fastforce
  have en: "\<exists>x. en = Inr x"
  proof (cases en)
    case (Inl err)
    with run a e i status show ?thesis
      by (cases err) (auto simp: admit_def op_bind_Inr op_try_def on_runtime_def on_db_def err403_def
          err500_def jsonError_def)
  qed simp
  then obtain x where x: "en = Inr x" by blast
  have tier: "assertRuntimeAllowed (rv_host (cx_process cx)) x = Inr ()"
    using run a e i x status
    by (auto simp: admit_def op_bind_Inr op_try_def on_runtime_def on_db_def assertRuntimeAllowed_def
        err403_def jsonError_def split: if_splits)
  let ?w2 = "w\<lparr>rw_runtime := (rw_runtime w)\<lparr>rt_db := d2, rt_tick := Suc (rt_tick (rw_runtime w))\<rparr>\<rparr>"
  obtain q w3 where q: "on_windows (recordTransitionWithinLimit (id_tenantId i) x
      (rv_clock (cx_process cx) (rt_tick (rw_runtime w)) 0)) ?w2 = (q, w3)" by fastforce
  have rest: "(case q of
        Inl (QuotaExceededError message) \<Rightarrow> op_return (err429 message)
      | Inl _ \<Rightarrow> op_return (err500 ''Rate limit check failed'')
      | Inr _ \<Rightarrow> h i) w3 = (Inr resp, w')"
    using run a e i x tier q
    by (simp add: admit_def op_bind_Inr op_try_def on_runtime_def on_db_def rt_fresh_def)
  have "\<exists>u. q = Inr u"
  proof (cases q)
    case (Inl err)
    with rest status show ?thesis
      by (cases err) (auto simp: err429_def err500_def jsonError_def)
  qed simp
  with rest have "h i w3 = (Inr resp, w')" by auto
  moreover have "rw_runtime w3 = rw_runtime ?w2" using q by (rule windows)
  moreover have "g d2 = g (rt_db (rw_runtime w))"
    using op_keepsD[OF auth a] op_keepsD[OF ent e] by simp
  moreover have "served_tenant cx rq w = Some (id_tenantId i)" by (simp add: served_tenant_def a i)
  ultimately show ?thesis by (intro exI[of _ i] exI[of _ w3]) simp
qed

lemma read_shows_own_run:
  assumes read: "is_read rt" and run: "handle cx rt rq w = (Inr resp, w')" and "re_status resp = 200"
    and client: "client_ok (cx_traces cx) traces summs"
    and auth: "\<And>h. op_keeps (\<lambda>d. (traces d, summs d)) (cx_authenticate cx h)"
    and ent: "\<And>t. op_keeps (\<lambda>d. (traces d, summs d)) (cx_getEntitlements cx t)"
  shows "\<exists>t s. served_tenant cx rq w = Some t \<and> s \<in> set (summs (rt_db (rw_runtime w))) \<and>
    summary_of_run t (run_of rt) s \<and>
    re_body resp = read_body cx rt (toRunSummary s)
      (map rowToTraceRecord (sort_key pt_sequence
        (filter (of_run t (run_of rt)) (traces (rt_db (rw_runtime w))))))"
proof -
  let ?db = "\<lambda>w. rt_db (rw_runtime w)"
  have reads: "rw_runtime w' = rw_runtime w" if "on_reads m w = (r, w')" for m w and r :: "runtime_error + unit" and w'
    using that by (auto simp: on_reads_def split: prod.splits)
  have enabled: "cx_traceReadEnabled cx"
  proof (rule ccontr)
    assume "\<not> cx_traceReadEnabled cx"
    then have "handle cx rt rq w = (Inr (err503 ''Trace API disabled''), w)"
      by (simp add: handle_read[OF read] withPersistedRunRead_def)
    with run assms(3) show "False" by (auto simp: err503_def jsonError_def)
  qed
  let ?h = "\<lambda>identity :: identity.
        op_bind (on_runtime (on_db (rethrow (tr_getRunSummary (cx_traces cx) (run_of rt) (id_tenantId identity))))) (\<lambda>summaryRow.
        case summaryRow of
          None \<Rightarrow> op_return (err404 ''Run not found'')
        | Some summary \<Rightarrow>
            op_bind (on_runtime (on_db (rethrow (tr_getRunTrace (cx_traces cx) (run_of rt) (id_tenantId identity))))) (\<lambda>rows.
            op_return (json_response 200 (read_body cx rt (toRunSummary summary) (map rowToTraceRecord rows)))))"
  have adm: "admit on_reads cx rq ?h w = (Inr resp, w')"
    using run enabled by (simp add: handle_read[OF read] withPersistedRunRead_def)
  have status: "re_status resp \<notin> {401, 403, 429, 500}" using assms(3) by simp
  have "\<exists>i w1. served_tenant cx rq w = Some (id_tenantId i) \<and> ?h i w1 = (Inr resp, w') \<and>
      (traces (?db w1), summs (?db w1)) = (traces (?db w), summs (?db w))"
    by (rule admit_passed[where g = "\<lambda>d. (traces d, summs d)", OF adm status _ auth ent]) (rule reads)
  then obtain i w1 where i: "served_tenant cx rq w = Some (id_tenantId i)" "?h i w1 = (Inr resp, w')"
    "(traces (?db w1), summs (?db w1)) = (traces (?db w), summs (?db w))"
    by blast
  let ?t = "id_tenantId i"
  from i(2) assms(3) obtain s w2 rows w3 where
    s: "on_runtime (on_db (rethrow (tr_getRunSummary (cx_traces cx) (run_of rt) ?t))) w1 = (Inr (Some s), w2)"
    and rows: "on_runtime (on_db (rethrow (tr_getRunTrace (cx_traces cx) (run_of rt) ?t))) w2 = (Inr rows, w3)"
    and body: "re_body resp = read_body cx rt (toRunSummary s) (map rowToTraceRecord rows)"
    by (auto elim!: op_bind_cases simp: err404_def jsonError_def json_response_def split: option.splits)
  from s obtain d where sd: "t_find (cl_summaries (cx_traces cx)) (summary_of_run ?t (run_of rt)) (?db w1) = (Inr (Some s), d)"
    "?db w2 = d"
    by (auto simp: on_runtime_def on_db_def tr_getRunSummary_def split: prod.splits elim!: rethrow_cases)
  from table_found[OF client_okD(2)[OF client] sd(1)]
  have found: "s \<in> set (summs (?db w1))" "summary_of_run ?t (run_of rt) s" by auto
  have tr: "traces d = traces (?db w1)"
    using client_okD(7)[OF client, of "summary_of_run ?t (run_of rt)" "?db w1"] sd(1) by simp
  from rows obtain raw d2 where "t_many (cl_traces (cx_traces cx)) (of_run ?t (run_of rt)) (?db w2) = (Inr raw, d2)"
    "rows = sort_key pt_sequence raw"
    by (auto simp: on_runtime_def on_db_def tr_getRunTrace_def split: prod.splits
        elim!: rethrow_cases op_bind_cases)
  with table_many(2)[OF client_okD(1)[OF client]] tr sd(2)
  have "rows = sort_key pt_sequence (filter (of_run ?t (run_of rt)) (traces (?db w1)))" by metis
  with i(1,3) found body show ?thesis by auto
qed

end
