(* ===== verification/Web.thy ===== *)
theory Web
  imports Database
begin

text \<open>
  What the clients of HTTP services share: the escaping of path segments, the origin of a
  registry, responses. \<open>fetch\<close> is an argument of the definitions that use it, an operation that
  may throw and may change the state of the world.
\<close>

section \<open>URLs\<close>

text \<open>\<open>encodeURIComponent\<close>: all but the unreserved characters as the escaped bytes of their UTF-8.\<close>

definition unreserved :: "char \<Rightarrow> bool" where
  "unreserved c \<longleftrightarrow>
     (let n = (of_char c :: nat)
      in 48 \<le> n \<and> n \<le> 57 \<or> 65 \<le> n \<and> n \<le> 90 \<or> 97 \<le> n \<and> n \<le> 122) \<or>
     c \<in> set ''-_.!~*()'' \<or> (of_char c :: nat) = 39"

definition url_digit :: "nat \<Rightarrow> char" where
  "url_digit n = char_of (if n < 10 then 48 + n else 55 + n)"

definition percent :: "nat \<Rightarrow> string" where
  "percent b = [CHR ''%'', url_digit (b div 16), url_digit (b mod 16)]"

definition escape_char :: "char \<Rightarrow> string" where
  "escape_char c =
     (let n = (of_char c :: nat)
      in if unreserved c then [c]
         else if n < 128 then percent n
         else percent (192 + n div 64) @ percent (128 + n mod 64))"

definition encodeURIComponent :: "string \<Rightarrow> string" where
  "encodeURIComponent s = concat (map escape_char s)"

text \<open>\<open>s.replace(w at the end, "")\<close>.\<close>

definition strip_end :: "string \<Rightarrow> string \<Rightarrow> string" where
  "strip_end w s =
     (if length w \<le> length s \<and> drop (length s - length w) s = w
      then take (length s - length w) s else s)"

text \<open>
  \<open>s.replace(/\/v0(\/.*)?$/, "")\<close>: from the first \<open>/v0\<close> that ends the string or is followed by
  a slash and no line end.
\<close>

definition line_end :: "char \<Rightarrow> bool" where
  "line_end c \<longleftrightarrow> (of_char c :: nat) \<in> {10, 13}"

fun strip_v0 :: "string \<Rightarrow> string" where
  "strip_v0 [] = []"
| "strip_v0 (c # cs) =
     (let s = c # cs; rest = drop 3 s
      in if take 3 s = ''/v0'' \<and> (rest = [] \<or> hd rest = CHR ''/'' \<and> \<not> list_ex line_end rest)
         then [] else c # strip_v0 cs)"

definition normalizeOrigin :: "string \<Rightarrow> string" where
  "normalizeOrigin baseUrl = strip_end ''/loops'' (strip_v0 (strip_end ''/'' baseUrl))"

section \<open>Responses\<close>

text \<open>The status and what \<open>json()\<close> gives or throws.\<close>

record 'b response =
  hp_status :: nat
  hp_json :: "js + 'b"

definition ok :: "'b response \<Rightarrow> bool" where
  "ok r \<longleftrightarrow> 200 \<le> hp_status r \<and> hp_status r \<le> 299"

definition json_body :: "'b response \<Rightarrow> (js, 'd, 'b) eop" where
  "json_body r = (case hp_json r of Inl e \<Rightarrow> op_throw e | Inr b \<Rightarrow> op_return b)"

section \<open>An escaped segment stays a segment\<close>

definition url_reserved :: "char set" where
  "url_reserved = set ''/?#&=%+:@''"

lemma unreserved_plain: "unreserved c \<Longrightarrow> c \<notin> url_reserved"
  by (auto simp: unreserved_def url_reserved_def Let_def)

lemma hex_digit_plain:
  assumes "n < 16"
  shows "url_digit n \<notin> url_reserved"
proof -
  have "list_all (\<lambda>n. url_digit n \<notin> url_reserved) [0..<16]" by code_simp
  with assms show ?thesis by (simp add: list_all_iff del: upt_Suc)
qed

lemma of_char_bound: "(of_char (c :: char) :: nat) < 256"
  by simp

lemma percent_plain:
  assumes "b < 256" "c \<in> set (percent b)"
  shows "c = CHR ''%'' \<or> c \<notin> url_reserved"
proof -
  from assms(1) have "b div 16 < 16" "b mod 16 < 16" by (simp_all add: div_less_iff_less_mult)
  with assms(2) hex_digit_plain show ?thesis by (auto simp: percent_def)
qed

text \<open>No separator of a URL gets through, so an identifier cannot leave its place in a path.\<close>

lemma encoded_no_separator:
  "c \<in> set (encodeURIComponent s) \<Longrightarrow> c = CHR ''%'' \<or> c \<notin> url_reserved"
proof -
  assume "c \<in> set (encodeURIComponent s)"
  then obtain x where x: "c \<in> set (escape_char x)" by (auto simp: encodeURIComponent_def)
  have n: "(of_char x :: nat) < 256" by (rule of_char_bound)
  then have "192 + of_char x div 64 < (256 :: nat)" "128 + of_char x mod 64 < (256 :: nat)"
    by linarith+
  then have plain: "\<And>b. b = of_char x \<or> b = 192 + of_char x div 64 \<or> b = 128 + of_char x mod 64 \<Longrightarrow>
      c \<in> set (percent b) \<Longrightarrow> c = CHR ''%'' \<or> c \<notin> url_reserved"
    using n percent_plain by blast
  note plain = plain[of "of_char x", simplified] plain[of "192 + of_char x div 64", simplified]
    plain[of "128 + of_char x mod 64", simplified]
  show ?thesis
  proof (cases "unreserved x")
    case True
    with x show ?thesis by (simp add: escape_char_def unreserved_plain)
  next
    case False
    with x have "c \<in> set (percent (of_char x)) \<or> c \<in> set (percent (192 + of_char x div 64)) \<or>
        c \<in> set (percent (128 + of_char x mod 64))"
      by (auto simp: escape_char_def Let_def split: if_splits)
    with plain show ?thesis by blast
  qed
qed

end
