(* ===== verification/Resolver.thy ===== *)
theory Resolver
  imports Web Loop_Definition
begin

text \<open>
  Where the runtime takes its loop definitions from:
  \<open>packages/runtime-core/src/loop-definition-resolver.ts\<close>, the registry service with its pages and
  channels first, the rows of the database as fallback.

  The code uses a definition it received as a \<open>LoopDefinition\<close> without decoding it; \<open>cast\<close> is this
  view of a value, none for what is not an object.
\<close>

section \<open>The registry service\<close>

datatype channel = Stable | Latest

fun channel_name :: "channel \<Rightarrow> string" where
  "channel_name Stable = ''stable''"
| "channel_name Latest = ''latest''"

record v0_summary =
  vs_id :: string
  vs_latestVersion :: "string option"
  vs_latestStableVersion :: "string option"

record v0_list =
  vl_results :: "v0_summary list option"
  vl_nextCursor :: "string option"

record v0_channel =
  vc_loop :: v0_summary
  vc_recommendedVersion :: "string option"

text \<open>
  \<open>fetch\<close> for the three kinds of answers, and the text of a URL with query parameters, which fails
  for a base that is no URL. The body of an artifact is its definition.
\<close>

record ('d, 'v) v0_service =
  sv_url :: "string \<Rightarrow> (string \<times> string) list \<Rightarrow> js + string"
  sv_list :: "string \<Rightarrow> (js, 'd, v0_list response) eop"
  sv_loop :: "string \<Rightarrow> (js, 'd, v0_channel response) eop"
  sv_artifact :: "string \<Rightarrow> (js, 'd, 'v response) eop"

definition given :: "string option \<Rightarrow> string option" where
  "given s = (case s of None \<Rightarrow> None | Some t \<Rightarrow> if trim t = [] then None else Some (trim t))"

definition registryChannel :: "string option \<Rightarrow> channel" where
  "registryChannel raw =
     (if trim (lower (case raw of None \<Rightarrow> ''stable'' | Some r \<Rightarrow> r)) = ''latest'' then Latest else Stable)"

definition registryOrigin :: "string option \<Rightarrow> string option" where
  "registryOrigin url = map_option normalizeOrigin (given url)"

definition registryHeaders :: "string option \<Rightarrow> (string \<times> string) list" where
  "registryHeaders token =
     (''Accept'', ''application/json'') #
     (case given token of None \<Rightarrow> [] | Some t \<Rightarrow> [(''Authorization'', ''Bearer '' @ t)])"

definition first_of :: "'a option \<Rightarrow> 'a option \<Rightarrow> 'a option" where
  "first_of a b = (case a of None \<Rightarrow> b | Some x \<Rightarrow> Some x)"

definition pickListVersion :: "v0_summary \<Rightarrow> channel \<Rightarrow> string option" where
  "pickListVersion s ch =
     (if ch = Stable then first_of (vs_latestStableVersion s) (vs_latestVersion s)
      else first_of (vs_latestVersion s) (vs_latestStableVersion s))"

text \<open>\<open>!version\<close>: an empty version counts as none.\<close>

definition nonempty :: "string option \<Rightarrow> string option" where
  "nonempty v = (if v = Some [] then None else v)"

definition parseLoopDefinition :: "('v \<Rightarrow> loop_definition option) \<Rightarrow> 'v \<Rightarrow> loop_definition option" where
  "parseLoopDefinition cast v =
     (case cast v of
        None \<Rightarrow> None
      | Some d \<Rightarrow> if vr_valid (validateLoopDefinition d) then Some d else None)"

definition http_error :: "string \<Rightarrow> (string \<Rightarrow> string)" where
  "http_error what rest = what @ rest"

definition artifact_url :: "string \<Rightarrow> string \<Rightarrow> string \<Rightarrow> string" where
  "artifact_url origin loopId version =
     origin @ ''/v0/loops/'' @ encodeURIComponent loopId @ ''/versions/'' @ encodeURIComponent version"

definition fetchRegistryArtifact ::
    "('d, 'v) v0_service \<Rightarrow> ('v \<Rightarrow> loop_definition option) \<Rightarrow> string \<Rightarrow> string \<Rightarrow> string \<Rightarrow>
     (js, 'd, loop_definition option) eop" where
  "fetchRegistryArtifact sv cast origin loopId version =
     op_bind (sv_artifact sv (artifact_url origin loopId version)) (\<lambda>r.
     if hp_status r = 404 then op_return None
     else if \<not> ok r then op_throw (JStr (''Registry artifact fetch failed ('' @ show_nat (hp_status r) @
       '') for '' @ loopId @ ''@'' @ version))
     else op_bind (json_body r) (\<lambda>raw. op_return (parseLoopDefinition cast raw)))"

definition fetchRegistryLoop ::
    "('d, 'v) v0_service \<Rightarrow> ('v \<Rightarrow> loop_definition option) \<Rightarrow> string \<Rightarrow> string \<Rightarrow> channel \<Rightarrow>
     (js, 'd, loop_definition option) eop" where
  "fetchRegistryLoop sv cast origin loopId ch =
     op_bind (sv_loop sv (origin @ ''/v0/loops/'' @ encodeURIComponent loopId @ ''?channel='' @
       encodeURIComponent (channel_name ch))) (\<lambda>r.
     if hp_status r = 404 then op_return None
     else if \<not> ok r then op_throw (JStr (''Registry summary fetch failed ('' @ show_nat (hp_status r) @
       '') for '' @ loopId))
     else op_bind (json_body r) (\<lambda>body.
       case nonempty (first_of (vc_recommendedVersion body) (pickListVersion (vc_loop body) ch)) of
         None \<Rightarrow> op_return None
       | Some version \<Rightarrow> fetchRegistryArtifact sv cast origin loopId version))"

text \<open>The loop over the results of a page; the definitions found so far come first.\<close>

fun page_definitions ::
    "(string \<Rightarrow> string \<Rightarrow> ('e, 'd, loop_definition option) eop) \<Rightarrow> channel \<Rightarrow>
     loop_definition list \<Rightarrow> v0_summary list \<Rightarrow> ('e, 'd, loop_definition list) eop" where
  "page_definitions get ch ds [] = op_return ds"
| "page_definitions get ch ds (s # ss) =
     (case nonempty (pickListVersion s ch) of
        None \<Rightarrow> page_definitions get ch ds ss
      | Some version \<Rightarrow>
          op_bind (get (vs_id s) version) (\<lambda>d.
          page_definitions get ch (case d of None \<Rightarrow> ds | Some x \<Rightarrow> ds @ [x]) ss))"

text \<open>
  The loop over the pages ends when a page names no further one; a service may go on forever, then
  there is no result.
\<close>

partial_function (option) pages ::
    "(string option \<Rightarrow> loop_definition list \<Rightarrow> ('e, 'd, loop_definition list \<times> string option) eop) \<Rightarrow>
     string option \<Rightarrow> loop_definition list \<Rightarrow> 'd \<Rightarrow> (('e + loop_definition list) \<times> 'd) option" where
  "pages page cursor ds d =
     (case page cursor ds d of
        (Inl e, d') \<Rightarrow> Some (Inl e, d')
      | (Inr (ds', next), d') \<Rightarrow>
          (case next of None \<Rightarrow> Some (Inr ds', d') | Some c \<Rightarrow> pages page (Some c) ds' d'))"

definition page_query :: "string option \<Rightarrow> (string \<times> string) list" where
  "page_query cursor =
     (''limit'', ''100'') # (case cursor of None \<Rightarrow> [] | Some c \<Rightarrow> [(''cursor'', c)])"

definition registry_page ::
    "('d, 'v) v0_service \<Rightarrow> ('v \<Rightarrow> loop_definition option) \<Rightarrow> string \<Rightarrow> channel \<Rightarrow> string option \<Rightarrow>
     loop_definition list \<Rightarrow> (js, 'd, loop_definition list \<times> string option) eop" where
  "registry_page sv cast origin ch cursor ds =
     (case sv_url sv (origin @ ''/v0/loops'') (page_query cursor) of
        Inl e \<Rightarrow> op_throw e
      | Inr url \<Rightarrow>
          op_bind (sv_list sv url) (\<lambda>r.
          if \<not> ok r then op_throw (JStr (''Registry list failed ('' @ show_nat (hp_status r) @ '')''))
          else op_bind (json_body r) (\<lambda>list.
            case vl_results list of
              None \<Rightarrow> op_throw (JStr ''Registry list payload missing results[]'')
            | Some results \<Rightarrow>
                op_bind (page_definitions (fetchRegistryArtifact sv cast origin) ch ds results) (\<lambda>ds'.
                op_return (ds', nonempty (vl_nextCursor list))))))"

definition listRegistryLoops ::
    "('d, 'v) v0_service \<Rightarrow> ('v \<Rightarrow> loop_definition option) \<Rightarrow> string \<Rightarrow> channel \<Rightarrow> 'd \<Rightarrow>
     ((js + loop_definition list) \<times> 'd) option" where
  "listRegistryLoops sv cast origin ch d = pages (registry_page sv cast origin ch) None [] d"

section \<open>The rows of the database\<close>

record 'v definition_row =
  dr_loopId :: string
  dr_definition :: 'v
  dr_status :: string
  dr_publishedAt :: int

definition loadLocalDefinitions ::
    "('d, 'v definition_row) table \<Rightarrow> ('v \<Rightarrow> loop_definition option) \<Rightarrow>
     (js, 'd, loop_definition list) eop" where
  "loadLocalDefinitions tb cast =
     op_bind (t_many tb (\<lambda>r. dr_status r = ''active'')) (\<lambda>rows.
     op_return (List.map_filter (\<lambda>r. parseLoopDefinition cast (dr_definition r)) rows))"

definition dedupeByLoopId :: "loop_definition list \<Rightarrow> loop_definition list" where
  "dedupeByLoopId ds = map snd (fold (\<lambda>d m. AList.update (def_id d) d m) ds [])"

section \<open>The resolver\<close>

definition listActiveDefinitions ::
    "('d, 'v) v0_service \<Rightarrow> ('d, 'v definition_row) table \<Rightarrow> ('v \<Rightarrow> loop_definition option) \<Rightarrow>
     string option \<Rightarrow> channel \<Rightarrow> 'd \<Rightarrow> ((js + loop_definition list) \<times> 'd) option" where
  "listActiveDefinitions sv tb cast origin ch d =
     (case loadLocalDefinitions tb cast d of
        (Inl e, d') \<Rightarrow> Some (Inl e, d')
      | (Inr local, d') \<Rightarrow>
          (case origin of
             None \<Rightarrow> Some (Inr local, d')
           | Some org \<Rightarrow>
               (case listRegistryLoops sv cast org ch d' of
                  None \<Rightarrow> None
                | Some (Inl e, d'') \<Rightarrow> Some (Inr local, d'')
                | Some (Inr remote, d'') \<Rightarrow> Some (Inr (dedupeByLoopId (remote @ local)), d''))))"

text \<open>What a lookup gives: a definition of the service, which was checked, or a row as it is.\<close>

datatype 'v resolved = Remote loop_definition | Local 'v

text \<open>\<open>findFirst\<close> with the newest first.\<close>

definition newest_active :: "('d, 'v definition_row) table \<Rightarrow> string \<Rightarrow> (js, 'd, 'v definition_row option) eop" where
  "newest_active tb loopId =
     op_bind (t_many tb (\<lambda>r. dr_loopId r = loopId \<and> dr_status r = ''active'')) (\<lambda>rows.
     op_return (case sort_key (\<lambda>r. - dr_publishedAt r) rows of [] \<Rightarrow> None | r # _ \<Rightarrow> Some r))"

definition resolve_local :: "('d, 'v definition_row) table \<Rightarrow> string \<Rightarrow> (js, 'd, 'v resolved option) eop" where
  "resolve_local tb loopId =
     op_bind (newest_active tb loopId) (\<lambda>row. op_return (map_option (\<lambda>r. Local (dr_definition r)) row))"

definition resolveLoopDefinition ::
    "('d, 'v) v0_service \<Rightarrow> ('d, 'v definition_row) table \<Rightarrow> ('v \<Rightarrow> loop_definition option) \<Rightarrow>
     string option \<Rightarrow> channel \<Rightarrow> string \<Rightarrow> (js, 'd, 'v resolved option) eop" where
  "resolveLoopDefinition sv tb cast origin ch loopId =
     (let trimmed = trim loopId
      in if trimmed = [] then op_return None
         else (case origin of
                 None \<Rightarrow> resolve_local tb trimmed
               | Some org \<Rightarrow>
                   op_bind (op_catch (fetchRegistryLoop sv cast org trimmed ch) (\<lambda>_. op_return None))
                     (\<lambda>remote. case remote of
                        Some d \<Rightarrow> op_return (Some (Remote d))
                      | None \<Rightarrow> resolve_local tb trimmed)))"

section \<open>Properties\<close>

lemma parse_valid: "parseLoopDefinition cast v = Some d \<Longrightarrow> vr_valid (validateLoopDefinition d)"
  by (auto simp: parseLoopDefinition_def split: option.splits if_splits)

lemma artifact_valid:
  "fetchRegistryArtifact sv cast origin l v d = (Inr (Some x), d') \<Longrightarrow> vr_valid (validateLoopDefinition x)"
  by (auto simp: fetchRegistryArtifact_def json_body_def elim!: op_bind_cases split: if_splits sum.splits)
    (erule parse_valid)

lemma registry_loop_valid:
  "fetchRegistryLoop sv cast origin l ch d = (Inr (Some x), d') \<Longrightarrow> vr_valid (validateLoopDefinition x)"
  by (auto simp: fetchRegistryLoop_def json_body_def elim!: op_bind_cases
      split: if_splits sum.splits option.splits)
    (erule artifact_valid)

text \<open>What the service gives was validated, whatever it sent.\<close>

lemma resolved_remote_valid:
  assumes "resolveLoopDefinition sv tb cast origin ch l d = (Inr (Some (Remote x)), d')"
  shows "vr_valid (validateLoopDefinition x)"
proof -
  have local: "resolve_local tb k w \<noteq> (Inr (Some (Remote x)), w')" for k w w'
    by (auto simp: resolve_local_def elim!: op_bind_cases)
  from assms local obtain org w w' where "fetchRegistryLoop sv cast org (trim l) ch w = (Inr (Some x), w')"
    by (auto simp: resolveLoopDefinition_def op_catch_def Let_def
        elim!: op_bind_cases split: if_splits sum.splits option.splits prod.splits)
  then show ?thesis by (rule registry_loop_valid)
qed

lemma page_definitions_valid:
  assumes "\<And>l v d x d'. get l v d = (Inr (Some x), d') \<Longrightarrow> P x"
  shows "page_definitions get ch ds ss d = (Inr ds', d') \<Longrightarrow> \<forall>x \<in> set ds. P x \<Longrightarrow> \<forall>x \<in> set ds'. P x"
proof (induction ss arbitrary: ds d)
  case (Cons s ss)
  show ?case
  proof (cases "nonempty (pickListVersion s ch)")
    case None
    with Cons show ?thesis by simp
  next
    case (Some version)
    with Cons.prems(1) obtain x d1 where x: "get (vs_id s) version d = (Inr x, d1)"
      "page_definitions get ch (case x of None \<Rightarrow> ds | Some y \<Rightarrow> ds @ [y]) ss d1 = (Inr ds', d')"
      by (auto elim!: op_bind_cases)
    have "\<forall>y \<in> set (case x of None \<Rightarrow> ds | Some y \<Rightarrow> ds @ [y]). P y"
    proof (cases x)
      case (Some y)
      with assms x(1) have "P y" by simp
      with Some Cons.prems(2) show ?thesis by simp
    qed (simp add: Cons.prems(2))
    with Cons.IH[OF x(2)] show ?thesis by simp
  qed
qed simp

text \<open>What every page keeps holds of the result.\<close>

lemma pages_result:
  assumes run: "pages page c ds d = Some (r, d')" and start: "Q ds"
    and step: "\<And>c ds d ds' n d'. Q ds \<Longrightarrow> page c ds d = (Inr (ds', n), d') \<Longrightarrow> Q ds'"
  shows "\<forall>ds'. r = Inr ds' \<longrightarrow> Q ds'"
proof -
  have "page' = page \<longrightarrow> Q ds \<longrightarrow> (\<forall>ds'. fst y = Inr ds' \<longrightarrow> Q ds')"
    if "pages page' c ds d = Some y" for page' c ds d y
    using that
  proof (rule pages.raw_induct[rotated, where
        P = "\<lambda>page' c ds d y. page' = page \<longrightarrow> Q ds \<longrightarrow> (\<forall>ds'. fst y = Inr ds' \<longrightarrow> Q ds')"],
      intro impI)
    fix self page' c ds d y
    assume IH: "\<And>page' c ds d y. self page' c ds d = Some y \<Longrightarrow>
        page' = page \<longrightarrow> Q ds \<longrightarrow> (\<forall>ds'. fst y = Inr ds' \<longrightarrow> Q ds')"
      and body: "(case page' c ds d of
            (Inl e, d') \<Rightarrow> Some (Inl e, d')
          | (Inr (ds', next), d') \<Rightarrow>
              (case next of None \<Rightarrow> Some (Inr ds', d') | Some c \<Rightarrow> self page' (Some c) ds' d')) = Some y"
      and "page' = page" "Q ds"
    then show "\<forall>ds'. fst y = Inr ds' \<longrightarrow> Q ds'"
      using step[of ds c d] by (auto split: prod.splits sum.splits option.splits)
  qed
  with run start show ?thesis by fastforce
qed

text \<open>The loop ends when the pages do: each one asks for less than the one before.\<close>

lemma pages_end:
  fixes left :: "string option \<Rightarrow> nat"
  assumes "\<And>c ds d ds' c' d'. page c ds d = (Inr (ds', Some c'), d') \<Longrightarrow> left (Some c') < left c"
  shows "\<exists>r. pages page c ds d = Some r"
proof (induction "left c" arbitrary: c ds d rule: less_induct)
  case less
  obtain res d1 where page: "page c ds d = (res, d1)" by fastforce
  show ?case
  proof (cases "\<exists>ds1 c'. res = Inr (ds1, Some c')")
    case True
    then obtain ds1 c' where r: "res = Inr (ds1, Some c')" by blast
    with less assms page obtain x where "pages page (Some c') ds1 d1 = Some x" by metis
    with page r show ?thesis by (subst pages.simps) simp
  next
    case False
    with page show ?thesis by (subst pages.simps) (auto split: sum.splits option.splits)
  qed
qed

lemma listed_valid:
  assumes "listRegistryLoops sv cast origin ch d = Some (Inr ds, d')"
  shows "\<forall>x \<in> set ds. vr_valid (validateLoopDefinition x)"
proof -
  let ?Q = "\<lambda>ds. \<forall>x \<in> set ds. vr_valid (validateLoopDefinition x)"
  have "?Q ds'" if "?Q ds" and run: "registry_page sv cast origin ch c ds d = (Inr (ds', n), d')"
    for c ds d ds' n d'
  proof -
    from run obtain results w where
      "page_definitions (fetchRegistryArtifact sv cast origin) ch ds results w = (Inr ds', d')"
      by (auto simp: registry_page_def json_body_def elim!: op_bind_cases
          split: sum.splits option.splits if_splits)
    from this \<open>?Q ds\<close> show ?thesis by (rule page_definitions_valid[rotated]) (rule artifact_valid)
  qed
  from pages_result[OF assms[unfolded listRegistryLoops_def], of ?Q] this show ?thesis by simp
qed

text \<open>Deduplication keeps one definition per identifier, the last one.\<close>

lemma dedupe_fold:
  "map_of (fold (\<lambda>d m. AList.update (def_id d) d m) ds m) = map_of m ++ map_of (map (\<lambda>d. (def_id d, d)) (rev ds))"
  by (induction ds arbitrary: m) (auto simp: update_conv' map_add_def fun_eq_iff split: option.splits)

lemma dedupe_distinct_keys:
  "distinct (map fst m) \<Longrightarrow> (\<forall>(k, d) \<in> set m. k = def_id d) \<Longrightarrow>
     distinct (map fst (fold (\<lambda>d m. AList.update (def_id d) d m) ds m)) \<and>
     (\<forall>(k, d) \<in> set (fold (\<lambda>d m. AList.update (def_id d) d m) ds m). k = def_id d)"
proof (induction ds arbitrary: m)
  case (Cons d ds)
  from Cons.prems set_alist_update_subset[of "def_id d" d m] show ?case
    by (simp, intro Cons.IH) (auto simp: distinct_update)
qed simp

lemma dedupe_last:
  "distinct (map def_id (dedupeByLoopId ds)) \<and>
   (d \<in> set (dedupeByLoopId ds) \<longleftrightarrow> map_of (map (\<lambda>d. (def_id d, d)) (rev ds)) (def_id d) = Some d)"
proof -
  let ?m = "fold (\<lambda>d m. AList.update (def_id d) d m) ds []"
  from dedupe_distinct_keys[of "[]" ds] have m: "distinct (map fst ?m)" "\<forall>(k, d) \<in> set ?m. k = def_id d"
    by simp_all
  have ids: "map (def_id \<circ> snd) ?m = map fst ?m"
    using m(2) by (intro map_cong) auto
  have "d \<in> snd ` set ?m \<longleftrightarrow> (def_id d, d) \<in> set ?m" using m(2) by force
  also have "\<dots> \<longleftrightarrow> map_of ?m (def_id d) = Some d" using m(1) by simp
  finally show ?thesis using m(1) by (simp add: dedupeByLoopId_def ids dedupe_fold[of ds "[]", simplified])
qed

end
