(* ===== verification/Samples_Runtime.thy ===== *)
theory Samples_Runtime
  imports Samples Routes Resolver
begin

text \<open>
  The approval loop run by the durable runtime over the database of lists: two tenants with a key
  each, an instance of the second one, requests of the first.
\<close>

definition sample_process :: process where
  "sample_process =
     \<lparr>rv_clock = (\<lambda>n k. int (1000 * n + k)), rv_random = (\<lambda>_. ''r''), rv_uuid = (\<lambda>n. ''agg-'' @ show_nat n),
      rv_sha256 = (\<lambda>s. s), rv_json = (\<lambda>_. Some ''{}''), rv_toIso = (\<lambda>_. ''iso''),
      rv_zod_message = (\<lambda>s. s), rv_event_js = (\<lambda>_. JNull), rv_host = sample_host,
      rv_traceEnabled = True\<rparr>"

definition key_of :: "string \<Rightarrow> string" where
  "key_of tenant = ''le_'' @ concat (replicate 32 (if tenant = ''acme'' then ''a'' else ''b''))"

definition sample_key :: "string \<Rightarrow> key_row" where
  "sample_key tenant =
     \<lparr>kr_id = tenant, kr_tenantId = tenant, kr_name = None, kr_keyHash = key_of tenant,
      kr_keyPrefix = keyPrefixDisplay (key_of tenant), kr_active = True,
      kr_graceKeyHash = None, kr_graceExpiresAt = None, kr_lastUsedAt = None\<rparr>"

definition instance_of :: "string \<Rightarrow> string \<Rightarrow> string \<Rightarrow> instance_row" where
  "instance_of i tenant status =
     \<lparr>ir_id = i, ir_aggregateId = i, ir_loopId = ''doc.approval'', ir_tenantId = tenant,
      ir_idempotencyKey = None, ir_currentState = ''draft'', ir_status = status,
      ir_context = JObj [], ir_createdAt = 0, ir_updatedAt = 0\<rparr>"

definition sample_db :: runtime_db where
  "sample_db = db_empty\<lparr>
     db_instances := [instance_of ''d1'' ''acme'' ''CREATED'', instance_of ''d2'' ''other'' ''CREATED''],
     db_keys := [sample_key ''acme'', sample_key ''other''], db_next := 1\<rparr>"

definition sample_repo :: "runtime_db instance_repo" where
  "sample_repo = prisma_repo instances_table events_table"

type_synonym sample_runtime = "(runtime_db, memory_store, jobj list, memory_traces) runtime_world"

definition sample_runtime :: sample_runtime where
  "sample_runtime =
     \<lparr>rt_db = sample_db, rt_engine = sample_world, rt_trace = mt_empty, rt_sequences = [], rt_tick = 0\<rparr>"

definition acme :: identity where
  "acme = identityFromRow (sample_key ''acme'')"

definition run_d1 :: execution where
  "run_d1 = \<lparr>xc_process = sample_process, xc_identity = acme, xc_aggregateKey = ''d1'', xc_governed = None\<rparr>"

definition submit_d1 :: transition_input_rt where
  "submit_d1 = \<lparr>ti_signalId = ''submit'', ti_evidence = None, ti_actorId = ''ann'', ti_actorType = CallerHuman\<rparr>"

definition started_runtime :: sample_runtime where
  "started_runtime = snd (executeOssStart sample_repo sample_engine run_d1 sample_runtime)"

definition cancelled_runtime :: sample_runtime where
  "cancelled_runtime = snd (executeOssCancel sample_repo run_d1 started_runtime)"

definition sample_provision :: provision_input where
  "sample_provision =
     \<lparr>pi_identity = acme, pi_loopId = ''doc.approval'', pi_payload = [], pi_idempotencyKey = Some ''k1'',
      pi_definition = JObj [(''initialState'', JStr ''draft'')]\<rparr>"

definition sample_row :: "string \<Rightarrow> int \<Rightarrow> trace_row" where
  "sample_row run sq =
     \<lparr>pt_id = run, pt_loopRunId = run, pt_loopId = ''doc.approval'', pt_tenantId = ''acme'',
      pt_sequence = sq, pt_timestamp = sq, pt_type = TCompleted, pt_fromState = Some ''draft'',
      pt_toState = Some ''review'', pt_transitionId = Some ''submit'', pt_actorType = Human,
      pt_actorId = ''ann'', pt_inputHash = ''h'', pt_input = JObj [], pt_output = JObj [],
      pt_guards = [], pt_evidence = JObj [], pt_durationMs = 0, pt_blocked = False,
      pt_blockReason = None, pt_governed = True\<rparr>"

definition sample_routes :: "(runtime_db, memory_store, jobj list, memory_traces) route_context" where
  "sample_routes =
     \<lparr>cx_process = sample_process, cx_authenticate = db_authenticate keys_table (\<lambda>s. s) 0 0,
      cx_getEntitlements = (\<lambda>t d. (Inr (me_getEntitlements (me_create None None None None) 0 t), d)),
      cx_traces = db_client, cx_traceReadEnabled = True, cx_repo = sample_repo,
      cx_engineForTenant = (\<lambda>t d. (Inr sample_engine, d)), cx_traceStoreForTenant = (\<lambda>t. memory_writer),
      cx_resolve = (\<lambda>t l i d. (Inr (Some (JObj [(''initialState'', JStr ''draft'')])), d))\<rparr>"

definition bearer_of :: "string \<Rightarrow> string" where
  "bearer_of tenant = ''Bearer '' @ key_of tenant"

definition request_of :: "string \<Rightarrow> js option \<Rightarrow> request" where
  "request_of tenant body = \<lparr>rq_authorization = Some (bearer_of tenant), rq_body = body\<rparr>"

definition sample_web :: "(runtime_db, memory_store, jobj list, memory_traces) route_world" where
  "sample_web = \<lparr>rw_runtime = sample_runtime, rw_reads = [], rw_writes = []\<rparr>"

text \<open>What the properties need to know of the samples, evaluated once.\<close>

lemma sample_bearer: "bearer_key (Some (bearer_of ''acme'')) = Inr (key_of ''acme'')"
  by code_simp

lemma sample_authenticate:
  assumes "db_keys d = [sample_key ''acme'', sample_key ''other'']"
  shows "db_authenticate keys_table (\<lambda>s. s) 0 0 (Some (bearer_of ''acme'')) d =
    (Inr acme, d\<lparr>db_keys := [(sample_key ''acme'')\<lparr>kr_lastUsedAt := Some 0\<rparr>, sample_key ''other'']\<rparr>)"
proof -
  let ?a = "sample_key ''acme''" and ?b = "sample_key ''other''"
  have f: "t_find keys_table (primary_match (key_of ''acme'')) d = (Inr (Some ?a), d)"
    using assms by (simp add: keys_table_def list_table_def primary_match_def sample_key_def)
  have u: "t_update keys_table (\<lambda>r. kr_id r = kr_id ?a) (\<lambda>r. r\<lparr>kr_lastUsedAt := Some 0\<rparr>) d =
      (Inr (?a\<lparr>kr_lastUsedAt := Some 0\<rparr>), d\<lparr>db_keys := [?a\<lparr>kr_lastUsedAt := Some 0\<rparr>, ?b]\<rparr>)"
    using assms by (simp add: keys_table_def list_table_def)
  have c: "kr_graceExpiresAt ?a = None" by (simp add: sample_key_def)
  show ?thesis
    unfolding db_authenticate_def sample_bearer hashLoopApiKey_def Let_def sum.case
    by (simp add: op_bind_def rethrow_def f c clearExpiredGraceIfNeeded_def touchLastUsed_def op_catch_def u
        acme_def)
qed

definition with_keys :: "(runtime_db, 's, 'p, 't) route_world \<Rightarrow> bool" where
  "with_keys w \<longleftrightarrow> db_keys (rt_db (rw_runtime w)) = [sample_key ''acme'', sample_key ''other'']"

lemma sample_served:
  "with_keys w \<Longrightarrow> served_tenant sample_routes (request_of ''acme'' body) w = Some ''acme''"
  using sample_authenticate[of "rt_db (rw_runtime w)"]
  by (simp add: served_tenant_def sample_routes_def request_of_def with_keys_def acme_def identityFromRow_def)
    (simp add: sample_key_def)

text \<open>A request of the first tenant passes the gate.\<close>

lemma sample_admit:
  assumes "with_keys w" "rw_reads w = []"
  shows "\<exists>ks n ws. admit on_reads sample_routes (request_of ''acme'' body) h w =
      h acme (w\<lparr>rw_runtime := (rw_runtime w)\<lparr>rt_db := (rt_db (rw_runtime w))\<lparr>db_keys := ks\<rparr>, rt_tick := n\<rparr>,
                rw_reads := ws\<rparr>)"
  using assms
  by (intro exI[of _ "[(sample_key ''acme'')\<lparr>kr_lastUsedAt := Some 0\<rparr>, sample_key ''other'']"]
      exI[of _ "Suc (rt_tick (rw_runtime w))"]
      exI[of _ "[(id_tenantId acme, [rv_clock sample_process (rt_tick (rw_runtime w)) 0])]"])
    (simp add: admit_def op_try_def op_bind_def on_runtime_def on_db_def sample_routes_def request_of_def
      sample_authenticate with_keys_def me_getEntitlements_def me_create_def or_default_def
      assertRuntimeAllowed_def rt_fresh_def on_reads_def recordTransitionWithinLimit_def window_of_def
      transitionsPerMinuteForTier_def)

lemma sample_read:
  assumes "with_keys w" "rw_reads w = []"
    and "List.find (summary_of_run ''acme'' run) (db_summaries (rt_db (rw_runtime w))) = Some s"
  shows "\<exists>resp w'. withPersistedRunRead sample_routes (request_of ''acme'' body) run shown w = (Inr resp, w') \<and>
    re_status resp = 200"
proof -
  have ctx: "cx_traceReadEnabled sample_routes" "cx_traces sample_routes = db_client"
    by (simp_all add: sample_routes_def)
  have acme: "id_tenantId acme = ''acme''" by (simp add: acme_def identityFromRow_def sample_key_def)
  define h :: "identity \<Rightarrow> (runtime_error, (runtime_db, memory_store, jobj list, memory_traces) route_world,
      route_response) eop"
    where "h = (\<lambda>identity :: identity.
      op_bind (on_runtime (on_db (rethrow (tr_getRunSummary (cx_traces sample_routes) run (id_tenantId identity))))) (\<lambda>summaryRow.
      case summaryRow of
        None \<Rightarrow> op_return (err404 ''Run not found'')
      | Some summary \<Rightarrow>
          op_bind (on_runtime (on_db (rethrow (tr_getRunTrace (cx_traces sample_routes) run (id_tenantId identity))))) (\<lambda>rows.
          op_return (json_response 200 (shown (toRunSummary summary) (map rowToTraceRecord rows))))))"
  obtain ks n ws where A: "admit on_reads sample_routes (request_of ''acme'' body) h w =
      h acme (w\<lparr>rw_runtime := (rw_runtime w)\<lparr>rt_db := (rt_db (rw_runtime w))\<lparr>db_keys := ks\<rparr>, rt_tick := n\<rparr>,
                rw_reads := ws\<rparr>)"
    using sample_admit[OF assms(1,2)] by blast
  have "\<exists>resp w'. h acme (w\<lparr>rw_runtime := (rw_runtime w)\<lparr>rt_db := (rt_db (rw_runtime w))\<lparr>db_keys := ks\<rparr>, rt_tick := n\<rparr>,
                rw_reads := ws\<rparr>) = (Inr resp, w') \<and> re_status resp = 200"
    using assms(3) acme
    by (simp add: h_def ctx on_runtime_def on_db_def rethrow_def op_bind_def tr_getRunSummary_def
        tr_getRunTrace_def db_client_def summaries_table_def traces_table_def list_table_def json_response_def)
  with A show ?thesis by (simp add: withPersistedRunRead_def ctx(1) h_def)
qed

lemma sample_web_keys: "with_keys sample_web" "rw_reads sample_web = []"
  by (simp_all add: with_keys_def sample_web_def sample_runtime_def sample_db_def)

lemma sample_started: "fst (executeOssStart sample_repo sample_engine run_d1 sample_runtime) =
    Inr (Started ''d1'' ''draft'' ''active'')"
  by code_simp

lemma sample_cancelled:
  "(case fst (executeOssCancel sample_repo run_d1 started_runtime) of
      Inr (CancelDone dto) \<Rightarrow> dto_status dto = ''TERMINAL'' \<and> dto_currentState dto = ''CANCELLED'' | _ \<Rightarrow> False)"
  by code_simp

lemma sample_moves_on:
  "fst (executeOssTransition sample_repo sample_engine memory_writer run_d1 submit_d1 cancelled_runtime) =
     Inr (Moved ''d1'' ''CANCELLED'' ''review'' ''OPEN'' ''iso'')"
proof -
  have "fst (executeOssTransition sample_repo sample_engine memory_writer (untraced run_d1) submit_d1
      cancelled_runtime) = Inr (Moved ''d1'' ''CANCELLED'' ''review'' ''OPEN'' ''iso'')"
    by code_simp
  then show ?thesis using tracing_outcome[of sample_repo sample_engine memory_writer run_d1] 
    by (simp add: same_outcome_def)
qed

end
