(* ===== verification/Progress.thy ===== *)
theory Progress
  imports Lifecycle Loop_Validator
begin

text \<open>
  Progress of the engine: an unobstructed transition of the current state is executed, so along a
  path of unobstructed transitions, which the validator guarantees to exist, a loop completes.
\<close>

definition bus_accepts :: "('s, 'p) engine \<Rightarrow> bool" where
  "bus_accepts eng \<longleftrightarrow> (\<forall>bus n e. eng_eventBus eng = Some bus \<longrightarrow> bus n e = None)"

text \<open>No guard, no evidence to govern, somebody who may take it.\<close>

definition unobstructed :: "loop_definition \<Rightarrow> transition_spec \<Rightarrow> bool" where
  "unobstructed d t \<longleftrightarrow> guards_of t = [] \<and> tr_actors t \<noteq> [] \<and> \<not> governed d t"

definition plain_step :: "string \<Rightarrow> transition_spec \<Rightarrow> transition_params" where
  "plain_step a t =
     \<lparr>tp_aggregateId = a, tp_transitionId = tr_id t,
      tp_actor = \<lparr>actor_id = ''actor'', actor_type = hd (tr_actors t), actor_displayName = None, actor_metadata = None\<rparr>,
      tp_evidence = None, tp_evidenceSnapshots = JUndef, tp_tenantId = None, tp_correlationId = None,
      tp_constraints = None\<rparr>"

lemma find_by_id:
  assumes "distinct (map tr_id ts)" "t \<in> set ts"
  shows "List.find (\<lambda>c. tr_id c = tr_id t \<and> tr_from c = tr_from t) ts = Some t"
  using assms by (induction ts) (auto simp: image_iff)

lemma plain_precheck:
  assumes "inst_status inst \<noteq> Completed" "\<not> isTerminal d (inst_currentState inst)"
    and "distinct (map tr_id (def_transitions d))" "t \<in> set (def_transitions d)"
    and "tr_from t = inst_currentState inst" "tr_actors t \<noteq> []"
  shows "precheck d inst (plain_step a t) = Inr t"
  using assms find_by_id[OF assms(3,4)]
  by (simp add: precheck_def plain_step_def canActorExecuteTransition_def)

lemma emit_requested_runs:
  assumes "bus_accepts eng"
  obtains e w' where "emit_requested eng inst t p w = (Inr e, w')"
  using assms
  by (fastforce simp: emit_requested_def emit_about_def emit_new_def fresh_def op_bind_def engine_emit_def
      createLoopTransitionRequestedEvent_def parse_event_def bus_accepts_def split: option.splits)

lemma no_guards_pass:
  assumes "guards_of t = []"
  shows "check_guards eng inst t p w =
    (Inr \<lparr>hardFailures = [], softFailures = [], allPassed = True\<rparr>, w\<lparr>w_tick := Suc (w_tick w)\<rparr>)"
  using assms
  by (simp add: check_guards_def fresh_def op_bind_def evaluateGuards_def)

text \<open>The transition reaches the store, whatever the listeners of its events do.\<close>

lemma unobstructed_transition:
  assumes bus: "bus_accepts eng"
    and inst: "getInstance (eng_store eng) (w_store w) a = Some inst"
    and reg: "eng_registry eng (inst_loopId inst) = Some d"
    and pre: "precheck d inst (plain_step a t) = Inr t" and free: "unobstructed d t"
  shows "\<exists>now rec. w_store (snd (transition eng (plain_step a t) w)) =
    saveTransitionRecord (eng_store eng) rec
      (saveInstance (eng_store eng) (updated_instance d inst t now) (w_store w))"
proof -
  let ?p = "plain_step a t"
  obtain e w1 where req: "emit_requested eng inst t ?p w = (Inr e, w1)"
    by (rule emit_requested_runs[OF bus])
  have w1: "w_store w1 = w_store w" by (rule op_keepsD[OF emit_requested_keeps(1) req])
  let ?s = "\<lparr>hardFailures = [], softFailures = [], allPassed = True\<rparr>" and ?w2 = "w1\<lparr>w_tick := Suc (w_tick w1)\<rparr>"
  have "collect_evidence eng d inst t ?p ?s ?w2 = (Inr (Inr (soft_evidence (evidence_of ?p) [])), ?w2)"
    using free by (simp add: collect_evidence_def unobstructed_def)
  with req no_guards_pass[of t eng inst ?p w1] free
  have "attempt eng d inst t ?p w = commit_transition eng d inst t ?p ?s (soft_evidence (evidence_of ?p) []) ?w2"
    by (simp add: attempt_def op_bind_Inr unobstructed_def)
  moreover have "transition eng ?p w = attempt eng d inst t ?p w"
    using inst reg pre by (simp add: transition_def plain_step_def)
  ultimately obtain r w' where run: "commit_transition eng d inst t ?p ?s (soft_evidence (evidence_of ?p) []) ?w2 = (r, w')"
    and tr: "transition eng ?p w = (r, w')" by (metis prod.collapse)
  from commit_transition_effect[OF run] obtain now where
    "w_store w' = saveTransitionRecord (eng_store eng) (record_of inst t ?p now (soft_evidence (evidence_of ?p) []))
       (saveInstance (eng_store eng) (updated_instance d inst t now) (w_store ?w2))" by blast
  with w1 tr show ?thesis by auto
qed

text \<open>In a terminal state nothing moves, although the instance may still be active.\<close>

lemma terminal_state_stuck:
  assumes "getInstance (eng_store eng) (w_store w) (tp_aggregateId p) = Some inst"
    and "eng_registry eng (inst_loopId inst) = Some d" "isTerminal d (inst_currentState inst)"
  shows "transition eng p w = (Inr (rejected inst ''loop_closed''), w)"
  using assms by (simp add: transition_def precheck_def)

definition run_steps :: "('s, 'p) engine \<Rightarrow> transition_params list \<Rightarrow> ('s, 'p) world \<Rightarrow> ('s, 'p) world" where
  "run_steps eng ps w = fold (\<lambda>p w. snd (transition eng p w)) ps w"

context loop_store
begin

lemma completes_from:
  assumes "(s, f) \<in> (edges d)\<^sup>*" "isTerminal d f"
    and eng: "eng_store eng = ops" "eng_registry eng (def_id d) = Some d" "bus_accepts eng"
    and d: "distinct (map tr_id (def_transitions d))" "\<forall>t \<in> set (def_transitions d). unobstructed d t"
    and "\<not> isTerminal d s" "wf (w_store w)" "getInstance ops (w_store w) a = Some inst"
    and "inst_currentState inst = s" "inst_status inst \<noteq> Completed" "inst_loopId inst = def_id d"
  shows "\<exists>ps i. getInstance ops (w_store (run_steps eng ps w)) a = Some i \<and> inst_status i = Completed \<and>
    isTerminal d (inst_currentState i)"
  using assms(1,8-13)
proof (induction arbitrary: w inst rule: converse_rtrancl_induct)
  case base
  with assms(2) show ?case by simp
next
  case (step s s')
  from step.hyps(1) obtain t where t: "t \<in> set (def_transitions d)" "tr_from t = s" "tr_to t = s'"
    by (auto simp: edges_def)
  have free: "unobstructed d t" using d(2) t(1) by blast
  have pre: "precheck d inst (plain_step a t) = Inr t"
    by (rule plain_precheck) (use step.prems d(1) t free in \<open>auto simp: unobstructed_def\<close>)
  have reg: "eng_registry eng (inst_loopId inst) = Some d" using step.prems(6) eng(2) by simp
  let ?w = "snd (transition eng (plain_step a t) w)"
  obtain now rec where w': "w_store ?w = saveTransitionRecord ops rec (saveInstance ops (updated_instance d inst t now) (w_store w))"
    using unobstructed_transition[OF eng(3) _ reg pre free, of w] step.prems(3) eng(1) by auto
  have a: "inst_aggregateId inst = a" using get_keyed step.prems(2,3) by blast
  have got: "getInstance ops (w_store ?w) a = Some (updated_instance d inst t now)"
    using a by (simp add: w' get_commit updated_instance_def Let_def)
  have one: "run_steps eng (plain_step a t # ps) w = run_steps eng ps ?w" for ps
    by (simp add: run_steps_def)
  show ?case
  proof (cases "isTerminal d s'")
    case True
    with got t(3) have "getInstance ops (w_store (run_steps eng [plain_step a t] w)) a = Some (updated_instance d inst t now)"
      by (simp add: run_steps_def)
    with True t(3) show ?thesis by (fastforce simp: updated_instance_def Let_def)
  next
    case False
    have "wf (w_store ?w)" by (simp add: w' wf_commit step.prems(2))
    from step.IH[OF False this got] False t(3) step.prems(5,6) obtain ps i where
      "getInstance ops (w_store (run_steps eng ps ?w)) a = Some i" "inst_status i = Completed"
      "isTerminal d (inst_currentState i)"
      by (auto simp: updated_instance_def Let_def)
    then show ?thesis using one by metis
  qed
qed

end

end
