(* ===== verification/Runtime_Spec.thy ===== *)
theory Runtime_Spec
  imports Samples_Runtime Progress
begin

text \<open>
  The properties of the durable runtime: the tenants of the routes, authentication and the rate
  limit, traces and their summaries, provisioning, the sources of definitions.
\<close>

section \<open>Tenants\<close>

text \<open>
  C22. Requests of other tenants do not touch the loop instances of a tenant: over any sequence of
  requests to the routes, served or refused, none of them authenticated for tenant \<open>t\<close>, the rows of
  \<open>t\<close> stay as they were, in content and order. The database behaves as its client documents
  (\<open>instance_db_ok\<close>), the other parts of the context leave instances alone, identifiers are unique.
\<close>

theorem requests_isolate_tenants:
  assumes "instance_db_ok tb etb rows" "cx_repo cx = prisma_repo tb etb" "quiet cx rows"
    and "distinct (map ir_id (rows (rt_db (rw_runtime w))))"
    and "t \<notin> set (served_tenants cx rqs w)"
  shows "filter (\<lambda>r. ir_tenantId r = t) (rows (rt_db (rw_runtime (serve cx rqs w)))) =
    filter (\<lambda>r. ir_tenantId r = t) (rows (rt_db (rw_runtime w)))"
  by (rule instance_repository.served_isolated[OF prisma_repository[OF assms(1)] assms(3,2) _ assms(5)])
    (simp add: ids_distinct_def assms(4))

lemma authenticate_keeps:
  assumes "\<And>d ks. g (d\<lparr>db_keys := ks\<rparr>) = g d"
  shows "op_keeps g (db_authenticate keys_table sha256 now later h)"
proof -
  have keys: "op_keeps g (t_find keys_table P)" "op_keeps g (t_update keys_table P f)" for P f
    using assms by (auto simp: op_keeps_def keys_table_def list_table_def split: option.splits)
  have "op_keeps g (clearExpiredGraceIfNeeded keys_table now r)" "op_keeps g (touchLastUsed keys_table i now)"
    for now r i
    unfolding clearExpiredGraceIfNeeded_def touchLastUsed_def
    by (auto intro!: keeps keys rethrow_keeps split: option.split)
  then show ?thesis
    unfolding db_authenticate_def Let_def
    by (auto intro!: keeps keys rethrow_keeps split: option.split sum.split)
qed

lemma sample_quiet: "quiet sample_routes db_instances"
proof -
  have "op_keeps db_instances (db_authenticate keys_table (\<lambda>s. s) 0 0 h)" for h
    by (rule authenticate_keeps) simp
  moreover have "op_keeps db_instances (t_find summaries_table P)" "op_keeps db_instances (t_many traces_table Q)"
    for P Q
    by (auto simp: op_keeps_def summaries_table_def traces_table_def list_table_def)
  ultimately show ?thesis by (simp add: quiet_def sample_routes_def db_client_def) (simp add: op_keeps_def)
qed

theorem requests_isolate_tenants_witness:
  "let rqs = [(PostStart ''d1'', request_of ''acme'' None)] in
   filter (\<lambda>r. ir_tenantId r = ''other'') (db_instances (rt_db (rw_runtime (serve sample_routes rqs sample_web))))
     = [instance_of ''d2'' ''other'' ''CREATED'']"
proof -
  let ?rqs = "[(PostStart ''d1'', request_of ''acme'' None)]"
  have "''other'' \<notin> set (served_tenants sample_routes ?rqs sample_web)" by (simp add: sample_served sample_web_keys)
  from requests_isolate_tenants[OF instance_db _ sample_quiet _ this]
  show ?thesis
    by (simp add: sample_routes_def sample_repo_def sample_web_def sample_runtime_def sample_db_def
        db_empty_def instance_of_def)
qed

text \<open>
  C26. A read route answers with a run of the tenant of the request and of the run it was asked for,
  built from that run's own records in the order of their numbers; no record or summary of another
  tenant or run can show.
\<close>

theorem reads_show_own_run:
  assumes "is_read rt" "handle cx rt rq w = (Inr resp, w')" "re_status resp = 200"
    and "client_ok (cx_traces cx) traces summs"
    and "\<And>h. op_keeps (\<lambda>d. (traces d, summs d)) (cx_authenticate cx h)"
    and "\<And>t. op_keeps (\<lambda>d. (traces d, summs d)) (cx_getEntitlements cx t)"
  shows "\<exists>t s. served_tenant cx rq w = Some t \<and> s \<in> set (summs (rt_db (rw_runtime w))) \<and>
    ps_tenantId s = t \<and> ps_loopRunId s = run_of rt \<and>
    re_body resp = read_body cx rt (toRunSummary s)
      (map rowToTraceRecord (sort_key pt_sequence
        (filter (\<lambda>r. pt_tenantId r = t \<and> pt_loopRunId r = run_of rt) (traces (rt_db (rw_runtime w))))))"
  using read_shows_own_run[OF assms] unfolding of_run_def summary_of_run_def by blast

definition traced_web :: "(runtime_db, memory_store, jobj list, memory_traces) route_world" where
  "traced_web = sample_web\<lparr>rw_runtime := sample_runtime\<lparr>rt_db := sample_db\<lparr>
     db_traces := [sample_row ''d1'' 0, sample_row ''d2'' 0],
     db_summaries := [first_summary (sample_row ''d2'' 0), first_summary (sample_row ''d1'' 0)]\<rparr>\<rparr>\<rparr>"

theorem reads_show_own_run_witness:
  "\<exists>resp w' s. handle sample_routes (GetHistory ''d1'') (request_of ''acme'' None) traced_web = (Inr resp, w') \<and>
     ps_tenantId s = ''acme'' \<and> ps_loopRunId s = ''d1'' \<and>
     re_body resp = read_body sample_routes (GetHistory ''d1'') (toRunSummary s)
       [rowToTraceRecord (sample_row ''d1'' 0)]"
proof -
  obtain r w' where run: "handle sample_routes (GetHistory ''d1'') (request_of ''acme'' None) traced_web = (r, w')"
    by fastforce
  have keys: "with_keys traced_web" and reads: "rw_reads traced_web = []"
    by (simp_all add: traced_web_def with_keys_def sample_db_def sample_web_def)
  obtain s where "List.find (summary_of_run ''acme'' ''d1'') (db_summaries (rt_db (rw_runtime traced_web))) = Some s"
    by (simp add: traced_web_def first_summary_def sample_row_def summary_of_run_def)
  from sample_read[OF keys reads this, of None "read_body sample_routes (GetHistory ''d1'')"]
    run handle_read[of "GetHistory ''d1''" sample_routes "request_of ''acme'' None"]
  obtain resp where resp: "r = Inr resp" "re_status resp = 200"
    by (auto simp: run_of_def simp del: handle.simps)
  note served = sample_served[OF keys, of None]
  have client: "client_ok (cx_traces sample_routes) db_traces db_summaries"
    by (simp add: sample_routes_def trace_client_ok)
  have auth: "op_keeps (\<lambda>d. (db_traces d, db_summaries d)) (cx_authenticate sample_routes h)" for h
    unfolding sample_routes_def by (simp add: authenticate_keeps)
  have ent: "op_keeps (\<lambda>d. (db_traces d, db_summaries d)) (cx_getEntitlements sample_routes t)" for t
    by (simp add: sample_routes_def op_keeps_def)
  from reads_show_own_run[OF _ run[unfolded resp(1)] resp(2) client auth ent] served
  obtain s where
    "ps_tenantId s = ''acme''" "ps_loopRunId s = ''d1''"
    "re_body resp = read_body sample_routes (GetHistory ''d1'') (toRunSummary s)
      (map rowToTraceRecord (sort_key pt_sequence
        (filter (\<lambda>r. pt_tenantId r = ''acme'' \<and> pt_loopRunId r = ''d1'')
          (db_traces (rt_db (rw_runtime traced_web))))))"
    by (auto simp: run_of_def)
  then show ?thesis using run resp(1)
    by (auto simp: traced_web_def sample_row_def)
qed

section \<open>Authentication\<close>

text \<open>
  C30. Without a valid key no request gets anywhere: if the header has no well-formed key, or no row
  of the key table grants the key (primary key of an active row, or its previous key within the
  grace period), the answer of every route is 401, except that it is 500 when one of the two lookups
  of a well-formed key threw; and nothing but the key table's own housekeeping has changed, which
  grants nobody a key. Run reads answer 503 before that, and change nothing, when traces are disabled.
\<close>

theorem requests_need_a_key:
  assumes "table_ok tb key_made (\<lambda>r. r) keys" "cx_authenticate cx = db_authenticate tb sha256 now later"
    and "\<And>key t. bearer_key (rq_authorization rq) = Inr key \<Longrightarrow>
      \<not> db_grants keys sha256 now (rt_db (rw_runtime w)) key t"
  shows "\<exists>resp d. handle cx rt rq w = (Inr resp, w\<lparr>rw_runtime := (rw_runtime w)\<lparr>rt_db := d\<rparr>\<rparr>) \<and>
    (if is_read rt \<and> \<not> cx_traceReadEnabled cx
     then re_status resp = 503 \<and> d = rt_db (rw_runtime w)
     else re_status resp =
       (case bearer_key (rq_authorization rq) of
          Inl _ \<Rightarrow> 401
        | Inr key \<Rightarrow> if lookup_fails tb (sha256 key) now (rt_db (rw_runtime w)) then 500 else 401)) \<and>
    (\<forall>key t. \<not> db_grants keys sha256 now d key t \<or> db_grants keys sha256 now (rt_db (rw_runtime w)) key t)"
proof (cases "is_read rt \<and> \<not> cx_traceReadEnabled cx")
  case True
  with handle_reads_disabled[of rt cx rq w] obtain resp where
    "handle cx rt rq w = (Inr resp, w)" "re_status resp = 503" by blast
  with True show ?thesis by (intro exI[of _ resp] exI[of _ "rt_db (rw_runtime w)"]) simp
next
  case False
  let ?db = "rt_db (rw_runtime w)" and ?h = "rq_authorization rq"
  obtain res d where auth: "db_authenticate tb sha256 now later ?h ?db = (res, d)" by fastforce
  obtain e where "res = Inl e" and why: "(\<exists>m. e = AuthenticationError m) \<longleftrightarrow>
      (case bearer_key ?h of Inl _ \<Rightarrow> True | Inr key \<Rightarrow> \<not> lookup_fails tb (sha256 key) now ?db)"
    by (rule db_authenticate_refuses[OF assms(1,3) auth])
  then have "cx_authenticate cx ?h ?db = (Inl e, d)" using auth assms(2) by simp
  from handle_unauthenticated[OF this, of rt] False obtain resp where
    "handle cx rt rq w = (Inr resp, w\<lparr>rw_runtime := (rw_runtime w)\<lparr>rt_db := d\<rparr>\<rparr>)"
    "re_status resp = (if \<exists>m. e = AuthenticationError m then 401 else 500)" by auto
  with False auth_adapter.grants_mono[OF db_auth_adapter[OF assms(1)] auth] show ?thesis
    unfolding why by (intro exI[of _ resp] exI[of _ d]) (auto split: sum.split)
qed

definition strange_request :: request where
  "strange_request = \<lparr>rq_authorization = Some ''Bearer token'', rq_body = None\<rparr>"

theorem requests_need_a_key_witness:
  "\<exists>resp w'. handle sample_routes (PostCancel ''d1'') strange_request sample_web = (Inr resp, w') \<and>
     re_status resp = 401"
proof -
  have "bearer_key (rq_authorization strange_request) =
      Inl (AuthenticationError ''Token is not a Loop Engine API key'')" by code_simp
  then show ?thesis
    using requests_need_a_key[OF keys_table_ok, of sample_routes "\<lambda>s. s" 0 0 strange_request sample_web
        "PostCancel ''d1''"]
    by (auto simp: sample_routes_def)
qed




section \<open>Traces\<close>



text \<open>
  C37. The summary of a persisted run counts what was persisted: starting from empty tables, after any
  sequence of writes, each of which may lose the race for its sequence number and be retried, fail,
  or be rolled back, the summary of each run exists exactly if it has a record and gives the number
  of records, of blocked ones, and whether one was governed.
\<close>

theorem run_summaries_agree:
  assumes "client_ok cl traces summs" "traces d = []" "summs d = []"
  shows "run_agrees t run (traces (persist_all cl is d)) (summs (persist_all cl is d))"
proof -
  have "run_agrees t run (traces (persist_all cl is d)) (summs (persist_all cl is d))"
    if "run_agrees t run (traces d) (summs d)" for d
    using that
  proof (induction "is" arbitrary: d)
    case (Cons i js)
    from Cons.IH[OF persist_keeps_agreement[OF assms(1) _ Cons.prems]] show ?case
      by (metis (no_types, lifting) fold_simps(2) persist_all_def prod.collapse)
  qed (simp add: persist_all_def)
  then show ?thesis using assms(2,3) by (simp add: run_agrees_def)
qed

theorem run_summaries_agree_witness:
  "run_agrees ''acme'' ''r''
     (db_traces (persist_all db_client [sample_row ''r'' 0, sample_row ''r'' 0] db_empty))
     (db_summaries (persist_all db_client [sample_row ''r'' 0, sample_row ''r'' 0] db_empty)) \<and>
   map pt_sequence (db_traces (persist_all db_client [sample_row ''r'' 0, sample_row ''r'' 0] db_empty)) = [0, 1]"
proof -
  have "map pt_sequence (db_traces (persist_all db_client [sample_row ''r'' 0, sample_row ''r'' 0] db_empty)) = [0, 1]"
    by code_simp
  with run_summaries_agree[OF trace_client_ok, of db_empty] show ?thesis by (simp add: db_empty_def)
qed

section \<open>Provisioning and cancelling\<close>

text \<open>
  C38. Provisioning is idempotent under a key: if a request creates an instance, a later one of the
  same tenant with the same key (up to surrounding white space), whatever else it asks for, gets this
  instance back and adds none.
\<close>

theorem provision_is_idempotent:
  assumes "instance_db_ok tb etb rows"
    and "provisionOssLoopInstance pr (prisma_repo tb etb) i w = (Inr (Created dto), w1)"
    and "clean_key (pi_idempotencyKey i) = Some k" "clean_key (pi_idempotencyKey j) = Some k"
    and "id_tenantId (pi_identity j) = id_tenantId (pi_identity i)"
    and "provisionOssLoopInstance pr (prisma_repo tb etb) j w1 = (Inr out, w2)"
  shows "out = IdempotentReplay dto \<and> rows (rt_db w2) = rows (rt_db w1)"
  by (rule instance_repository.provision_again[OF prisma_repository[OF assms(1)] assms(2-6)])

theorem provision_is_idempotent_witness:
  "\<exists>dto w1 w2. provisionOssLoopInstance sample_process sample_repo sample_provision sample_runtime = (Inr (Created dto), w1) \<and>
     provisionOssLoopInstance sample_process sample_repo sample_provision w1 = (Inr (IdempotentReplay dto), w2)"
proof -
  let ?call = "provisionOssLoopInstance sample_process sample_repo sample_provision"
  have one: "(case fst (?call sample_runtime) of Inr (Created dto) \<Rightarrow> True | _ \<Rightarrow> False)" by code_simp
  then obtain dto w1 where made: "?call sample_runtime = (Inr (Created dto), w1)"
    by (cases "?call sample_runtime") (auto split: sum.splits provision_outcome.splits)
  have "(case fst (?call (snd (?call sample_runtime))) of Inr x \<Rightarrow> True | _ \<Rightarrow> False)" by code_simp
  then obtain out w2 where again: "?call w1 = (Inr out, w2)"
    using made by (cases "?call w1") (auto split: sum.splits)
  have key: "clean_key (pi_idempotencyKey sample_provision) = Some ''k1''" by code_simp
  from provision_is_idempotent[OF instance_db made[unfolded sample_repo_def] key key refl again[unfolded sample_repo_def]]
    made again show ?thesis by blast
qed

text \<open>
  A defect. Cancelling a durable run does not reach the engine: the row is closed, but the engine's
  instance stays as it was, so the next transition runs as if nothing had happened and the answer of
  the engine to it is the same as without the cancellation.
\<close>

theorem cancel_does_not_reach_engine:
  assumes "executeOssCancel repo x w = (Inr (CancelDone dto), w1)"
  shows "fst (wrapped_transition pr eng tw cf p w1) = fst (wrapped_transition pr eng tw cf p w) \<and>
    rt_engine (snd (wrapped_transition pr eng tw cf p w1)) = rt_engine (snd (wrapped_transition pr eng tw cf p w))"
  using tracing_transparent[of pr eng tw cf p w1] tracing_transparent[of pr eng tw cf p w]
    op_keepsD[OF cancel_engine assms]
  by (metis prod.collapse)

theorem cancel_does_not_reach_engine_witness:
  "let p = take_step ''d1'' ''submit'' Human;
       cf = \<lparr>cf_loopId = ''doc.approval'', cf_tenantId = ''acme'', cf_governed = None\<rparr>
   in fst (wrapped_transition sample_process sample_engine memory_writer cf p cancelled_runtime) =
        fst (wrapped_transition sample_process sample_engine memory_writer cf p started_runtime) \<and>
      fst (executeOssTransition sample_repo sample_engine memory_writer run_d1 submit_d1 cancelled_runtime) =
        Inr (Moved ''d1'' ''CANCELLED'' ''review'' ''OPEN'' ''iso'')"
proof -
  from sample_cancelled obtain dto where "executeOssCancel sample_repo run_d1 started_runtime =
      (Inr (CancelDone dto), cancelled_runtime)"
    by (cases "executeOssCancel sample_repo run_d1 started_runtime")
      (auto simp: cancelled_runtime_def split: sum.splits cancel_outcome.splits)
  from cancel_does_not_reach_engine[OF this] sample_moves_on show ?thesis by (simp add: Let_def)
qed

section \<open>Definitions\<close>

text \<open>
  C39. Listing the registry ends and gives checked definitions only: if the cursors the service hands
  out move forward (each page's cursor has a smaller rank than the one it was asked with), the
  loop over the pages returns, with an error or with definitions every one of which the validator
  accepts, whatever the service sent.
\<close>

theorem registry_listing_ends:
  fixes rank :: "string option \<Rightarrow> nat"
  assumes "\<And>c url d r d' l c'. sv_url sv (origin @ ''/v0/loops'') (page_query c) = Inr url \<Longrightarrow>
      sv_list sv url d = (Inr r, d') \<Longrightarrow> hp_json r = Inr l \<Longrightarrow> nonempty (vl_nextCursor l) = Some c' \<Longrightarrow>
      rank (Some c') < rank c"
  shows "\<exists>r d'. listRegistryLoops sv cast origin ch d = Some (r, d') \<and>
    (case r of Inl e \<Rightarrow> True | Inr ds \<Rightarrow> list_all (\<lambda>x. vr_valid (validateLoopDefinition x)) ds)"
proof -
  have "rank (Some c') < rank c" if run: "registry_page sv cast origin ch c ds d = (Inr (ds', Some c'), d')"
    for c ds d ds' c' d'
  proof -
    from run obtain url r d1 l where "sv_url sv (origin @ ''/v0/loops'') (page_query c) = Inr url"
      "sv_list sv url d = (Inr r, d1)" "hp_json r = Inr l" "nonempty (vl_nextCursor l) = Some c'"
      by (auto simp: registry_page_def json_body_def elim!: op_bind_cases
          split: sum.splits option.splits if_splits)
    with assms show ?thesis by blast
  qed
  then have "\<exists>x. listRegistryLoops sv cast origin ch d = Some x"
    unfolding listRegistryLoops_def by (rule pages_end[where left = rank])
  then obtain x where "listRegistryLoops sv cast origin ch d = Some x" by blast
  moreover obtain r d' where "x = (r, d')" by fastforce
  ultimately have run: "listRegistryLoops sv cast origin ch d = Some (r, d')" by simp
  show ?thesis
  proof (cases r)
    case (Inr ds)
    with listed_valid[of sv cast origin ch d ds d'] run show ?thesis by (simp add: list_all_iff)
  qed (use run in simp)
qed

text \<open>A service of two pages with one loop each; the second one is not valid.\<close>

definition two_pages :: "(unit, loop_definition) v0_service" where
  "two_pages =
     \<lparr>sv_url = (\<lambda>base q. Inr (case map_of q ''cursor'' of None \<Rightarrow> ''first'' | Some c \<Rightarrow> c)),
      sv_list = (\<lambda>url d. (Inr \<lparr>hp_status = 200, hp_json = Inr
        \<lparr>vl_results = Some [\<lparr>vs_id = url, vs_latestVersion = Some ''1'', vs_latestStableVersion = None\<rparr>],
         vl_nextCursor = (if url = ''first'' then Some ''second'' else None)\<rparr>\<rparr>, d)),
      sv_loop = (\<lambda>url d. (Inl JNull, d)),
      sv_artifact = (\<lambda>url d. (Inr \<lparr>hp_status = 200, hp_json = Inr
        (if is_sub ''first'' url then sample_loop else sample_loop\<lparr>def_states := []\<rparr>)\<rparr>, d))\<rparr>"

theorem registry_listing_ends_witness:
  "\<exists>r d'. listRegistryLoops two_pages Some ''https://r'' Stable () = Some (r, d') \<and>
    (case r of Inl e \<Rightarrow> True | Inr ds \<Rightarrow> list_all (\<lambda>x. vr_valid (validateLoopDefinition x)) ds)"
proof (rule registry_listing_ends[where rank = "\<lambda>c. if c = Some ''second'' then 0 else 1"])
  fix c :: "string option" and url d r d' l c'
  assume "sv_url two_pages (''https://r'' @ ''/v0/loops'') (page_query c) = Inr url"
    and "sv_list two_pages url d = (Inr r, d')" "hp_json r = Inr l" "nonempty (vl_nextCursor l) = Some c'"
  then show "(if Some c' = Some ''second'' then 0 else 1 :: nat) < (if c = Some ''second'' then 0 else 1)"
    by (auto simp: two_pages_def page_query_def nonempty_def split: if_splits option.splits)
qed

section \<open>Completion\<close>

text \<open>
  C40. A loop that passes the validator can be completed, on the in-memory store and with a bus that
  accepts what it is handed (as the in-memory bus does), or none: if its initial state is not terminal, its
  transitions have distinct identifiers and none is obstructed (by a guard, governed evidence or an
  empty list of actors), then after \<open>start\<close> some sequence of transition calls takes the instance to
  a terminal state with status completed. The first two conditions are needed: the validator checks
  neither.
\<close>

theorem validated_loop_can_complete:
  assumes "eng_store eng = memory_ops" "eng_registry eng (def_id d) = Some d" "bus_accepts eng"
    and "vr_valid (validateLoopDefinition d)" "\<not> isTerminal d (def_initialState d)"
    and "distinct (map tr_id (def_transitions d))" "list_all (unobstructed d) (def_transitions d)"
    and "ms_wf (w_store w)" "sp_loopId p = def_id d" "start eng p w = (Inr inst, w1)"
  shows "\<exists>ps i. getState eng (run_steps eng ps w1) (sp_aggregateId p) = Some i \<and>
    inst_status i = Completed \<and> isTerminal d (inst_currentState i)"
proof -
  obtain f where f: "f \<in> findTerminalStates d" "(def_initialState d, f) \<in> (edges d)\<^sup>*"
    using assms(4) by (auto simp: validateLoopDefinition_valid definition_valid_def completable_def)
  then have final: "isTerminal d f" by (auto simp: isTerminal_def findTerminalStates_def list_ex_iff)
  from start_effect[OF assms(10)] obtain now where
    store: "w_store w1 = saveInstance memory_ops (initial_instance d p now) (w_store w)"
    using assms(1,2,9) by auto
  let ?i = "initial_instance d p now"
  have i: "inst_aggregateId ?i = sp_aggregateId p" "inst_currentState ?i = def_initialState d"
    "inst_status ?i \<noteq> Completed" "inst_loopId ?i = def_id d"
    by (simp_all add: initial_instance_def)
  have wf: "ms_wf (w_store w1)" unfolding store by (rule mem.wf_save) (rule assms(8))
  have got: "getInstance memory_ops (w_store w1) (sp_aggregateId p) = Some ?i"
    unfolding store mem.get_save i by simp
  have free: "\<forall>t \<in> set (def_transitions d). unobstructed d t" using assms(7) by (simp add: list_all_iff)
  show ?thesis
    unfolding getState_def assms(1)
    by (rule mem.completes_from[OF f(2) final assms(1-3,6) free assms(5) wf got i(2-4)])
qed

definition plain_loop :: loop_definition where
  "plain_loop = sample_loop\<lparr>def_transitions := map (\<lambda>t. t\<lparr>tr_guards := None\<rparr>) [submit, approve]\<rparr>"

definition plain_engine :: "(memory_store, jobj list) engine" where
  "plain_engine = sample_engine\<lparr>eng_registry := (\<lambda>l. if l = ''doc.approval'' then Some plain_loop else None)\<rparr>"

theorem validated_loop_can_complete_witness:
  "\<exists>ps i. getState plain_engine (run_steps plain_engine ps (snd (start plain_engine (start_doc ''d1'') sample_world))) ''d1''
     = Some i \<and> inst_status i = Completed"
proof -
  have "(case fst (start plain_engine (start_doc ''d1'') sample_world) of Inl _ \<Rightarrow> False | Inr i \<Rightarrow> True)"
    by code_simp
  then obtain inst where run: "start plain_engine (start_doc ''d1'') sample_world =
      (Inr inst, snd (start plain_engine (start_doc ''d1'') sample_world))"
    by (cases "start plain_engine (start_doc ''d1'') sample_world") (auto split: sum.splits)
  have "vr_valid (validateLoopDefinition plain_loop)" "\<not> isTerminal plain_loop (def_initialState plain_loop)"
    "distinct (map tr_id (def_transitions plain_loop))" "list_all (unobstructed plain_loop) (def_transitions plain_loop)"
    by code_simp+
  moreover have "def_id plain_loop = ''doc.approval''" "sp_aggregateId (start_doc ''d1'') = ''d1''"
    "sp_loopId (start_doc ''d1'') = ''doc.approval''"
    by (simp_all add: plain_loop_def sample_loop_def start_doc_def)
  ultimately show ?thesis
    using validated_loop_can_complete[OF _ _ _ _ _ _ _ _ _ run, of plain_loop]
    by (auto simp: plain_engine_def bus_accepts_def sample_engine_def sample_world_def mem.wf_empty)
qed

text \<open>What the validator lets through: an initial state that is terminal.\<close>

lemma terminal_initial_state_accepted:
  "vr_valid (validateLoopDefinition (sample_loop\<lparr>def_initialState := ''approved''\<rparr>))"
  by code_simp

end
