(* ===== verification/Registry.thy ===== *)
theory Registry
  imports Resolver Access
begin

text \<open>
  The clients of loop registries over HTTP, \<open>packages/registry-client/src\<close>: requests with retries
  and their waiting times, the v0 service with its pages and list cache, the older flat service,
  the preset for the Better Data registry.
\<close>

section \<open>Errors and requests\<close>

text \<open>
  \<open>RegistryFailure\<close> is an \<open>Error\<close> or \<open>ZodError\<close> of the client's own checks, \<open>Foreign\<close> what a
  function outside the client threw.
\<close>

datatype registry_error =
    RegistryConflictError string string
  | RegistryNetworkError string "nat option" "js option"
  | RegistryFailure js_error
  | Foreign js

datatype registry_change = Registered loop_definition | Removed string | Updated loop_definition

record init =
  in_method :: string
  in_headers :: "(string \<times> string) list"
  in_body :: "string option"

text \<open>
  \<open>fetch\<close>, which is aborted after the given number of milliseconds, once for each kind of answer
  (of an artifact, its definition); the URL with query parameters; the clock and \<open>setTimeout\<close>; the
  JSON text of a definition.
\<close>

type_synonym ('d, 'b) fetch = "nat \<Rightarrow> init \<Rightarrow> string \<Rightarrow> (js, 'd, 'b response) eop"

record 'd registry_net =
  nt_list :: "('d, v0_list) fetch"
  nt_loop :: "('d, v0_channel) fetch"
  nt_artifact :: "('d, js) fetch"
  nt_json :: "('d, js) fetch"
  nt_url :: "string \<Rightarrow> (string \<times> string) list \<Rightarrow> js + string"
  nt_now :: "'d \<Rightarrow> int \<times> 'd"
  nt_sleep :: "nat \<Rightarrow> 'd \<Rightarrow> 'd"
  nt_stringify :: "loop_definition \<Rightarrow> string"

definition foreign :: "(js, 'd, 'a) eop \<Rightarrow> (registry_error, 'd, 'a) eop" where
  "foreign m = op_catch m (\<lambda>e. op_throw (Foreign e))"

definition op_result :: "'e + 'a \<Rightarrow> ('e, 'd, 'a) eop" where
  "op_result r = (case r of Inl e \<Rightarrow> op_throw e | Inr x \<Rightarrow> op_return x)"

definition op_map :: "('a \<Rightarrow> 'b) \<Rightarrow> ('e, 'd, 'a) eop \<Rightarrow> ('e, 'd, 'b) eop" where
  "op_map f m = op_bind m (\<lambda>x. op_return (f x))"

text \<open>\<open>Boolean(v)\<close>.\<close>

definition truthy :: "js \<Rightarrow> bool" where
  "truthy v \<longleftrightarrow>
     (case v of
        JUndef \<Rightarrow> False
      | JNull \<Rightarrow> False
      | JBool b \<Rightarrow> b
      | JNum n \<Rightarrow> n \<noteq> NaN \<and> n \<noteq> Fin 0
      | JBigInt i \<Rightarrow> i \<noteq> 0
      | JStr s \<Rightarrow> s \<noteq> []
      | _ \<Rightarrow> True)"

lemma truthy_simps [simp]:
  "\<not> truthy JUndef" "\<not> truthy JNull" "truthy (JStr s) \<longleftrightarrow> s \<noteq> []" "truthy (JDate x)" "truthy (JObj ob)"
  by (simp_all add: truthy_def)

text \<open>\<open>v && typeof v === "object"\<close>.\<close>

definition typeof_object :: "js \<Rightarrow> bool" where
  "typeof_object v \<longleftrightarrow> (case v of JObj _ \<Rightarrow> True | JArr _ \<Rightarrow> True | JDate _ \<Rightarrow> True | _ \<Rightarrow> False)"

text \<open>A text, in lower case, that contains another one.\<close>

definition contains_ci :: "string \<Rightarrow> string \<Rightarrow> bool" where
  "contains_ci w s \<longleftrightarrow> (\<exists>k \<in> set [0..<Suc (length s)]. take (length w) (drop k (lower s)) = w)"

text \<open>
  \<open>Promise.all\<close>: the operations are started at once; as calls do not interleave they run one after the
  other, all of them also when one fails, and the first failure is reported.
\<close>

fun all_settled :: "('e, 'd, 'a) eop list \<Rightarrow> 'd \<Rightarrow> ('e + 'a) list \<times> 'd" where
  "all_settled [] d = ([], d)"
| "all_settled (m # ms) d =
     (case m d of (r, d1) \<Rightarrow> (case all_settled ms d1 of (rs, d2) \<Rightarrow> (r # rs, d2)))"

fun first_failure :: "('e + 'a) list \<Rightarrow> 'e + 'a list" where
  "first_failure [] = Inr []"
| "first_failure (Inl e # rs) = Inl e"
| "first_failure (Inr x # rs) = res_bind (first_failure rs) (\<lambda>xs. Inr (x # xs))"

lemma settled_results:
  "all_settled ms d = (rs, d') \<Longrightarrow> first_failure rs = Inr xs \<Longrightarrow>
     length xs = length ms \<and> (\<forall>i < length ms. \<exists>d1 d2. (ms ! i) d1 = (Inr (xs ! i), d2))"
proof (induction ms arbitrary: d d' rs xs)
  case (Cons m ms)
  obtain r d1 where m: "m d = (r, d1)" by fastforce
  obtain rs' d2 where rest: "all_settled ms d1 = (rs', d2)" by fastforce
  from Cons.prems(1) m rest have rs: "rs = r # rs'" by simp
  with Cons.prems(2) obtain x xs' where x: "r = Inr x" "first_failure rs' = Inr xs'" "xs = x # xs'"
    by (cases r) (auto simp: res_simps)
  have "\<exists>d1 d2. ((m # ms) ! i) d1 = (Inr (xs ! i), d2)" if "i < length (m # ms)" for i
    using that m x Cons.IH[OF rest x(2)] by (cases i) auto
  with Cons.IH[OF rest x(2)] x(3) show ?case by simp
qed auto

text \<open>
  One attempt: what \<open>fetch\<close> throws and a status from 500 on become network errors; the cause is
  kept if it is an \<open>Error\<close>, which among thrown values is an object with a text as its message. The loop waits
  200, 400, 800 \<dots> milliseconds between the attempts and gives up with the last error.
\<close>

definition error_cause :: "js \<Rightarrow> js option" where
  "error_cause e =
     (case e of
        JObj kvs \<Rightarrow> (case obj_get kvs ''message'' of JStr _ \<Rightarrow> Some e | _ \<Rightarrow> None)
      | _ \<Rightarrow> None)"

fun settle :: "string \<Rightarrow> js + 'b response \<Rightarrow> registry_error + 'b response" where
  "settle url (Inl e) = Inl (RegistryNetworkError url None (error_cause e))"
| "settle url (Inr r) =
     (if 500 \<le> hp_status r then Inl (RegistryNetworkError url (Some (hp_status r)) None) else Inr r)"

fun attempts ::
    "(nat \<Rightarrow> 'd \<Rightarrow> 'd) \<Rightarrow> string \<Rightarrow> (js, 'd, 'b response) eop \<Rightarrow> nat \<Rightarrow> nat \<Rightarrow>
     (registry_error, 'd, 'b response) eop" where
  "attempts sleep url request attempt 0 d = (case request d of (r, d') \<Rightarrow> (settle url r, d'))"
| "attempts sleep url request attempt (Suc left) d =
     (case request d of (r, d') \<Rightarrow>
       (case settle url r of
          Inl _ \<Rightarrow> attempts sleep url request (Suc attempt) left (sleep (200 * 2 ^ attempt) d')
        | Inr x \<Rightarrow> (Inr x, d')))"

definition fetchWithRetry ::
    "(nat \<Rightarrow> 'd \<Rightarrow> 'd) \<Rightarrow> string \<Rightarrow> int \<Rightarrow> string \<Rightarrow> (js, 'd, 'b response) eop \<Rightarrow>
     (registry_error, 'd, 'b response) eop" where
  "fetchWithRetry sleep baseUrl retries url request =
     (if retries < 0 then op_throw (RegistryNetworkError baseUrl None None)
      else attempts sleep url request 0 (nat retries))"

text \<open>What came from a registry is decoded, completed and checked before it is used.\<close>

definition with_defaults :: "loop_definition \<Rightarrow> loop_definition" where
  "with_defaults d = transform_definition (applyAuthoringDefaults (as_authored d))"

definition validation_text :: "validation_result \<Rightarrow> string" where
  "validation_text vr = join ''; '' (map (\<lambda>e. ve_code e @ '': '' @ ve_message e) (vr_errors vr))"

definition decode_checked :: "string \<Rightarrow> js \<Rightarrow> registry_error + loop_definition" where
  "decode_checked prefix input =
     (case LoopDefinitionSchema [] input of
        Inl _ \<Rightarrow> Inl (RegistryFailure (ZodError ''LoopDefinitionSchema''))
      | Inr d \<Rightarrow>
          (let definition' = with_defaults d; validated = validateLoopDefinition definition'
           in if \<not> vr_valid validated
              then Inl (RegistryFailure (Error (prefix @ validation_text validated)))
              else Inr definition'))"

definition parse_registry_loop :: "js \<Rightarrow> registry_error + loop_definition" where
  "parse_registry_loop = decode_checked ''Invalid loop definition from registry: ''"

section \<open>The cache of lists\<close>

record cache_entry =
  ce_data :: "loop_definition list"
  ce_expiresAt :: int

text \<open>A client: its cached lists by the domain asked for, and the world outside.\<close>

record 'd registry_client =
  rc_cache :: "(string option \<times> cache_entry) list"
  rc_net :: 'd

definition on_net :: "('e, 'd, 'a) eop \<Rightarrow> ('e, 'd registry_client, 'a) eop" where
  "on_net m w = (case m (rc_net w) of (r, d) \<Rightarrow> (r, w\<lparr>rc_net := d\<rparr>))"

definition clock_read :: "'d registry_net \<Rightarrow> ('e, 'd registry_client, int) eop" where
  "clock_read net = on_net (\<lambda>d. case nt_now net d of (t, d') \<Rightarrow> (Inr t, d'))"

definition fresh_list :: "string option \<Rightarrow> int \<Rightarrow> 'd registry_client \<Rightarrow> loop_definition list option" where
  "fresh_list domain now w =
     (case map_of (rc_cache w) domain of
        None \<Rightarrow> None
      | Some cached \<Rightarrow> if now < ce_expiresAt cached then Some (ce_data cached) else None)"

definition remember_list ::
    "int \<Rightarrow> string option \<Rightarrow> int \<Rightarrow> loop_definition list \<Rightarrow> 'd registry_client \<Rightarrow> 'd registry_client" where
  "remember_list ttl domain now ds w =
     (if 0 < ttl
      then w\<lparr>rc_cache := AList.update domain \<lparr>ce_data = ds, ce_expiresAt = now + ttl\<rparr> (rc_cache w)\<rparr>
      else w)"

section \<open>The interface\<close>

text \<open>
  \<open>LoopRegistry\<close>. Listing may not end (a service may name further pages forever), then it has no
  result.
\<close>

record ('e, 'w) registry_ops =
  rg_get :: "string \<Rightarrow> ('e, 'w, loop_definition option) eop"
  rg_getVersion :: "string \<Rightarrow> string \<Rightarrow> ('e, 'w, loop_definition option) eop"
  rg_list :: "string option \<Rightarrow> 'w \<Rightarrow> (('e + loop_definition list) \<times> 'w) option"
  rg_has :: "string \<Rightarrow> ('e, 'w, bool) eop"
  rg_register :: "loop_definition \<Rightarrow> bool \<Rightarrow> ('e, 'w, unit) eop"
  rg_remove :: "string \<Rightarrow> ('e, 'w, bool) eop"

datatype request_call =
    AskLoop string
  | AskVersion string string
  | AskList "string option"
  | Enter loop_definition bool
  | Drop string

text \<open>The definitions a call hands out, and a sequence of calls.\<close>

definition handed :: "'e + loop_definition option \<Rightarrow> loop_definition list" where
  "handed r = (case r of Inr (Some d) \<Rightarrow> [d] | _ \<Rightarrow> [])"

fun registry_call :: "('e, 'w) registry_ops \<Rightarrow> request_call \<Rightarrow> 'w \<Rightarrow> (loop_definition list \<times> 'w) option" where
  "registry_call ops (AskLoop loopId) w = (case rg_get ops loopId w of (r, w') \<Rightarrow> Some (handed r, w'))"
| "registry_call ops (AskVersion loopId v) w =
     (case rg_getVersion ops loopId v w of (r, w') \<Rightarrow> Some (handed r, w'))"
| "registry_call ops (AskList domain) w =
     map_option (\<lambda>(r, w'). (case r of Inl _ \<Rightarrow> [] | Inr ds \<Rightarrow> ds, w')) (rg_list ops domain w)"
| "registry_call ops (Enter d force) w = (case rg_register ops d force w of (_, w') \<Rightarrow> Some ([], w'))"
| "registry_call ops (Drop loopId) w = (case rg_remove ops loopId w of (_, w') \<Rightarrow> Some ([], w'))"

fun registry_calls :: "('e, 'w) registry_ops \<Rightarrow> request_call list \<Rightarrow> 'w \<Rightarrow> (loop_definition list \<times> 'w) option" where
  "registry_calls ops [] w = Some ([], w)"
| "registry_calls ops (c # cs) w =
     (case registry_call ops c w of
        None \<Rightarrow> None
      | Some (ds, w1) \<Rightarrow> map_option (\<lambda>(ds', w'). (ds @ ds', w')) (registry_calls ops cs w1))"

abbreviation loop_valid :: "loop_definition \<Rightarrow> bool" where
  "loop_valid d \<equiv> vr_valid (validateLoopDefinition d)"

fun entered_valid :: "request_call \<Rightarrow> bool" where
  "entered_valid (Enter d _) = loop_valid d"
| "entered_valid _ = True"

text \<open>
  A registry that hands out checked definitions only: each operation keeps its invariant, if what
  is registered is valid.
\<close>

abbreviation found_valid :: "loop_definition option \<Rightarrow> bool" where
  "found_valid found \<equiv> pred_option loop_valid found"

locale checked_registry =
  fixes ops :: "('e, 'w) registry_ops" and checked :: "'w \<Rightarrow> bool"
  assumes get_checked: "op_ensures checked (rg_get ops l) found_valid"
    and version_checked: "op_ensures checked (rg_getVersion ops l v) found_valid"
    and list_checked: "checked w \<Longrightarrow> rg_list ops domain w = Some (r', w') \<Longrightarrow>
      checked w' \<and> (\<forall>ds. r' = Inr ds \<longrightarrow> list_all loop_valid ds)"
    and register_checked: "loop_valid d \<Longrightarrow> op_ensures checked (rg_register ops d force) (\<lambda>_. True)"
    and remove_checked: "op_ensures checked (rg_remove ops l) (\<lambda>_. True)"
begin

lemma call_checked:
  assumes "checked w" "entered_valid c" "registry_call ops c w = Some (ds, w')"
  shows "checked w' \<and> list_all loop_valid ds"
proof (cases c)
  case (AskLoop l)
  obtain r u where r: "rg_get ops l w = (r, u)" by fastforce
  from op_ensuresD[OF get_checked assms(1) r] r assms(3) AskLoop show ?thesis
    by (auto simp: handed_def split: sum.splits option.splits)
next
  case (AskVersion l v)
  obtain r u where r: "rg_getVersion ops l v w = (r, u)" by fastforce
  from op_ensuresD[OF version_checked assms(1) r] r assms(3) AskVersion show ?thesis
    by (auto simp: handed_def split: sum.splits option.splits)
next
  case (AskList domain)
  with assms(3) obtain r where r: "rg_list ops domain w = Some (r, w')"
    "ds = (case r of Inl _ \<Rightarrow> [] | Inr ds \<Rightarrow> ds)"
    by (auto split: prod.splits)
  from list_checked[OF assms(1) r(1)] r(2) show ?thesis by (cases r) auto
next
  case (Enter d force)
  with assms op_ensuresD[OF register_checked assms(1)] show ?thesis by (auto split: prod.splits)
next
  case (Drop l)
  with assms op_ensuresD[OF remove_checked assms(1)] show ?thesis by (auto split: prod.splits)
qed

lemma calls_checked:
  "checked w \<Longrightarrow> list_all entered_valid cs \<Longrightarrow> registry_calls ops cs w = Some (ds, w') \<Longrightarrow>
     checked w' \<and> list_all loop_valid ds"
proof (induction cs arbitrary: w ds)
  case (Cons c cs)
  from Cons.prems(3) obtain d1 w1 d2 where c: "registry_call ops c w = Some (d1, w1)"
    "registry_calls ops cs w1 = Some (d2, w')" "ds = d1 @ d2"
    by (auto split: option.splits)
  with call_checked[OF Cons.prems(1) _ c(1)] Cons.IH[OF _ _ c(2)] Cons.prems(2) show ?case by simp
qed simp

end

section \<open>The v0 service\<close>

record v0_options =
  vo_baseUrl :: string
  vo_channel :: "channel option"
  vo_headers :: "(string \<times> string) list option"
  vo_timeoutMs :: "nat option"
  vo_retries :: "int option"
  vo_cacheTtlMs :: "int option"

definition loopsRoot :: "string \<Rightarrow> string" where
  "loopsRoot origin = normalizeOrigin origin @ ''/v0/loops''"

definition v0_channel_of :: "v0_options \<Rightarrow> channel" where
  "v0_channel_of o' = or_default (vo_channel o') Stable"

definition v0_init :: "v0_options \<Rightarrow> init" where
  "v0_init o' = \<lparr>in_method = ''GET'',
     in_headers = obj_spread [(''Accept'', ''application/json'')] (or_default (vo_headers o') []),
     in_body = None\<rparr>"

definition v0_fetch ::
    "'d registry_net \<Rightarrow> v0_options \<Rightarrow> ('d, 'b) fetch \<Rightarrow> string \<Rightarrow> (registry_error, 'd, 'b response) eop" where
  "v0_fetch net o' fetch url =
     fetchWithRetry (nt_sleep net) (vo_baseUrl o') (or_default (vo_retries o') 2) url
       (fetch (or_default (vo_timeoutMs o') 10000) (v0_init o') url)"

definition fetchArtifact ::
    "'d registry_net \<Rightarrow> v0_options \<Rightarrow> string \<Rightarrow> string \<Rightarrow> (registry_error, 'd, loop_definition option) eop" where
  "fetchArtifact net o' loopId version =
     (let url = loopsRoot (vo_baseUrl o') @ ''/'' @ encodeURIComponent loopId @ ''/versions/'' @
                  encodeURIComponent version
      in op_bind (v0_fetch net o' (nt_artifact net) url) (\<lambda>r.
         if hp_status r = 404 then op_return None
         else if \<not> ok r then op_throw (RegistryNetworkError url (Some (hp_status r)) None)
         else op_bind (foreign (json_body r)) (\<lambda>raw.
              op_bind (op_result (parse_registry_loop raw)) (\<lambda>d. op_return (Some d)))))"

definition v0_get ::
    "'d registry_net \<Rightarrow> v0_options \<Rightarrow> string \<Rightarrow> (registry_error, 'd registry_client, loop_definition option) eop" where
  "v0_get net o' loopId = on_net
     (let url = loopsRoot (vo_baseUrl o') @ ''/'' @ encodeURIComponent loopId @ ''?channel='' @
                  encodeURIComponent (channel_name (v0_channel_of o'))
      in op_bind (v0_fetch net o' (nt_loop net) url) (\<lambda>r.
         if hp_status r = 404 then op_return None
         else if \<not> ok r then op_throw (RegistryNetworkError url (Some (hp_status r)) None)
         else op_bind (foreign (json_body r)) (\<lambda>body.
           case nonempty (first_of (vc_recommendedVersion body)
             (pickListVersion (vc_loop body) (v0_channel_of o'))) of
             None \<Rightarrow> op_return None
           | Some version \<Rightarrow> fetchArtifact net o' loopId version)))"

definition v0_getVersion ::
    "'d registry_net \<Rightarrow> v0_options \<Rightarrow> string \<Rightarrow> string \<Rightarrow>
     (registry_error, 'd registry_client, loop_definition option) eop" where
  "v0_getVersion net o' loopId version = on_net (fetchArtifact net o' loopId version)"

definition v0_query :: "string option \<Rightarrow> string option \<Rightarrow> (string \<times> string) list" where
  "v0_query domain cursor =
     (''limit'', ''100'') #
     (case nonempty domain of None \<Rightarrow> [] | Some x \<Rightarrow> [(''domain'', x)]) @
     (case cursor of None \<Rightarrow> [] | Some c \<Rightarrow> [(''cursor'', c)])"

definition v0_page ::
    "'d registry_net \<Rightarrow> v0_options \<Rightarrow> string option \<Rightarrow> string option \<Rightarrow> loop_definition list \<Rightarrow>
     (registry_error, 'd, loop_definition list \<times> string option) eop" where
  "v0_page net o' domain cursor ds =
     (case nt_url net (loopsRoot (vo_baseUrl o')) (v0_query domain cursor) of
        Inl e \<Rightarrow> op_throw (Foreign e)
      | Inr url \<Rightarrow>
          op_bind (v0_fetch net o' (nt_list net) url) (\<lambda>r.
          if \<not> ok r then op_throw (RegistryNetworkError url (Some (hp_status r)) None)
          else op_bind (foreign (json_body r)) (\<lambda>list.
            case vl_results list of
              None \<Rightarrow> op_throw (RegistryNetworkError url (Some (hp_status r)) None)
            | Some results \<Rightarrow>
                op_bind (page_definitions (fetchArtifact net o') (v0_channel_of o') ds results) (\<lambda>ds'.
                op_return (ds', nonempty (vl_nextCursor list))))))"

text \<open>The loop over the pages may go on forever; then there is no result.\<close>

definition v0_list_all ::
    "'d registry_net \<Rightarrow> v0_options \<Rightarrow> string option \<Rightarrow> 'd registry_client \<Rightarrow>
     ((registry_error + loop_definition list) \<times> 'd registry_client) option" where
  "v0_list_all net o' domain w =
     (case nt_now net (rc_net w) of (now, d) \<Rightarrow>
       (let w1 = w\<lparr>rc_net := d\<rparr>; ttl = or_default (vo_cacheTtlMs o') 60000
        in case (if 0 < ttl then fresh_list domain now w1 else None) of
             Some ds \<Rightarrow> Some (Inr ds, w1)
           | None \<Rightarrow>
               (case pages (v0_page net o' domain) None [] d of
                  None \<Rightarrow> None
                | Some (Inl e, d') \<Rightarrow> Some (Inl e, w1\<lparr>rc_net := d'\<rparr>)
                | Some (Inr ds, d') \<Rightarrow>
                    Some (Inr ds, remember_list ttl domain now ds (w1\<lparr>rc_net := d'\<rparr>)))))"

definition v0_has :: "'d registry_net \<Rightarrow> v0_options \<Rightarrow> string \<Rightarrow> (registry_error, 'd registry_client, bool) eop" where
  "v0_has net o' loopId = op_bind (v0_get net o' loopId) (\<lambda>found. op_return (found \<noteq> None))"

definition v0_register :: "loop_definition \<Rightarrow> bool \<Rightarrow> (registry_error, 'd registry_client, unit) eop" where
  "v0_register d force = op_throw (RegistryFailure (Error
     ''v0Registry does not support register(); use registry-loop POST /v0/publisher/loops/{loopId}/versions''))"

definition v0_remove :: "string \<Rightarrow> (registry_error, 'd registry_client, bool) eop" where
  "v0_remove loopId = op_return False"

definition v0_ops :: "'d registry_net \<Rightarrow> v0_options \<Rightarrow> (registry_error, 'd registry_client) registry_ops" where
  "v0_ops net o' =
     \<lparr>rg_get = v0_get net o', rg_getVersion = v0_getVersion net o', rg_list = v0_list_all net o',
      rg_has = v0_has net o', rg_register = v0_register, rg_remove = v0_remove\<rparr>"

record betterdata_options =
  bd_apiKey :: string
  bd_orgId :: string
  bd_staging :: bool
  bd_cacheTtlMs :: "int option"

definition betterDataRegistry :: "betterdata_options \<Rightarrow> v0_options" where
  "betterDataRegistry b =
     \<lparr>vo_baseUrl = (if bd_staging b then ''https://registry-staging.betterdata.co''
                    else ''https://registry.betterdata.co''),
      vo_channel = None,
      vo_headers = Some [(''Authorization'', ''Bearer '' @ bd_apiKey b), (''X-BD-Org-Id'', bd_orgId b),
        (''X-BD-Client'', ''@loop-engine/registry-client'')],
      vo_timeoutMs = Some 15000, vo_retries = Some 3,
      vo_cacheTtlMs = Some (or_default (bd_cacheTtlMs b) 300000)\<rparr>"

section \<open>The flat service\<close>

definition alphanumeric :: "char \<Rightarrow> bool" where
  "alphanumeric c \<longleftrightarrow>
     (let n = (of_char c :: nat) in 48 \<le> n \<and> n \<le> 57 \<or> 65 \<le> n \<and> n \<le> 90 \<or> 97 \<le> n \<and> n \<le> 122)"

text \<open>\<open>URLSearchParams.toString\<close>.\<close>

definition form_char :: "char \<Rightarrow> string" where
  "form_char c =
     (let n = (of_char c :: nat)
      in if alphanumeric c \<or> c \<in> set ''*-._'' then [c]
         else if c = CHR '' '' then ''+''
         else if n < 128 then percent n
         else percent (192 + n div 64) @ percent (128 + n mod 64))"

definition form_encode :: "(string \<times> string) list \<Rightarrow> string" where
  "form_encode ps =
     join ''&'' (map (\<lambda>(k, v). concat (map form_char k) @ ''='' @ concat (map form_char v)) ps)"

definition with_query :: "string \<Rightarrow> (string \<times> string) list \<Rightarrow> string" where
  "with_query path ps = path @ (if ps = [] then [] else ''?'' @ form_encode ps)"

record 'd http_options =
  ho_baseUrl :: string
  ho_headers :: "(string \<times> string) list option"
  ho_timeoutMs :: "nat option"
  ho_retries :: "int option"
  ho_cacheTtlMs :: "int option"
  ho_onChange :: "(registry_change \<Rightarrow> (registry_error, 'd, unit) eop) option"

definition ends_with :: "string \<Rightarrow> string \<Rightarrow> bool" where
  "ends_with w s \<longleftrightarrow> length w \<le> length s \<and> drop (length s - length w) s = w"

definition normalizeRoot :: "string \<Rightarrow> string" where
  "normalizeRoot baseUrl =
     (let base = strip_end ''/'' baseUrl in if ends_with ''/loops'' base then base else base @ ''/loops'')"

definition http_fetch ::
    "'d registry_net \<Rightarrow> 'd http_options \<Rightarrow> string \<Rightarrow> init \<Rightarrow> (registry_error, 'd, js response) eop" where
  "http_fetch net o' url request =
     fetchWithRetry (nt_sleep net) (ho_baseUrl o') (or_default (ho_retries o') 2) url
       (nt_json net (or_default (ho_timeoutMs o') 10000) request url)"

definition http_headers :: "'d http_options \<Rightarrow> (string \<times> string) list" where
  "http_headers o' = or_default (ho_headers o') []"

definition http_init :: "string \<Rightarrow> 'd http_options \<Rightarrow> init" where
  "http_init verb o' = \<lparr>in_method = verb, in_headers = http_headers o', in_body = None\<rparr>"

definition http_loop ::
    "'d registry_net \<Rightarrow> 'd http_options \<Rightarrow> string \<Rightarrow> (registry_error, 'd, loop_definition option) eop" where
  "http_loop net o' url =
     op_bind (http_fetch net o' url (http_init ''GET'' o')) (\<lambda>r.
     if hp_status r = 404 then op_return None
     else if \<not> ok r then op_throw (RegistryNetworkError url (Some (hp_status r)) None)
     else op_bind (foreign (json_body r)) (\<lambda>body.
          op_bind (op_result (parse_registry_loop body)) (\<lambda>d. op_return (Some d))))"

fun find_fresh :: "int \<Rightarrow> string \<Rightarrow> (string option \<times> cache_entry) list \<Rightarrow> loop_definition option" where
  "find_fresh now loopId [] = None"
| "find_fresh now loopId ((_, e) # cache) =
     (if ce_expiresAt e \<le> now then find_fresh now loopId cache
      else (case List.find (\<lambda>d. def_id d = loopId) (ce_data e) of
              Some d \<Rightarrow> Some d
            | None \<Rightarrow> find_fresh now loopId cache))"

definition getFromListCache ::
    "'d registry_net \<Rightarrow> string \<Rightarrow> (registry_error, 'd registry_client, loop_definition option) eop" where
  "getFromListCache net loopId =
     op_bind (clock_read net) (\<lambda>now w. (Inr (find_fresh now loopId (rc_cache w)), w))"

definition http_ttl :: "'d http_options \<Rightarrow> int" where
  "http_ttl o' = or_default (ho_cacheTtlMs o') 60000"

definition http_get ::
    "'d registry_net \<Rightarrow> 'd http_options \<Rightarrow> string \<Rightarrow>
     (registry_error, 'd registry_client, loop_definition option) eop" where
  "http_get net o' loopId =
     op_bind (if 0 < http_ttl o' then getFromListCache net loopId else op_return None) (\<lambda>cached.
     case cached of
       Some d \<Rightarrow> op_return (Some d)
     | None \<Rightarrow> on_net (http_loop net o'
         (normalizeRoot (ho_baseUrl o') @ ''/'' @ encodeURIComponent loopId)))"

definition http_getVersion ::
    "'d registry_net \<Rightarrow> 'd http_options \<Rightarrow> string \<Rightarrow> string \<Rightarrow>
     (registry_error, 'd registry_client, loop_definition option) eop" where
  "http_getVersion net o' loopId version =
     on_net (http_loop net o'
       (normalizeRoot (ho_baseUrl o') @ ''/'' @ encodeURIComponent loopId @ ''/'' @ encodeURIComponent version))"

fun parse_each :: "js list \<Rightarrow> registry_error + loop_definition list" where
  "parse_each [] = Inr []"
| "parse_each (v # vs) =
     res_bind (parse_registry_loop v) (\<lambda>d. res_bind (parse_each vs) (\<lambda>ds. Inr (d # ds)))"

definition http_list_request ::
    "'d registry_net \<Rightarrow> 'd http_options \<Rightarrow> string option \<Rightarrow> int \<Rightarrow>
     (registry_error, 'd registry_client, loop_definition list) eop" where
  "http_list_request net o' domain now =
     (let url = with_query (normalizeRoot (ho_baseUrl o'))
                  (case nonempty domain of None \<Rightarrow> [] | Some x \<Rightarrow> [(''domain'', x)])
      in op_bind (on_net (http_fetch net o' url (http_init ''GET'' o'))) (\<lambda>r.
         if \<not> ok r then op_throw (RegistryNetworkError url (Some (hp_status r)) None)
         else op_bind (on_net (foreign (json_body r))) (\<lambda>parsed.
           case parsed of
             JArr vs \<Rightarrow> op_bind (op_result (parse_each vs))
               (\<lambda>ds w'. (Inr ds, remember_list (http_ttl o') domain now ds w'))
           | _ \<Rightarrow> op_throw (RegistryNetworkError url (Some (hp_status r)) None))))"

definition http_list ::
    "'d registry_net \<Rightarrow> 'd http_options \<Rightarrow> string option \<Rightarrow>
     (registry_error, 'd registry_client, loop_definition list) eop" where
  "http_list net o' domain =
     op_bind (clock_read net) (\<lambda>now w.
     case (if 0 < http_ttl o' then fresh_list domain now w else None) of
       Some ds \<Rightarrow> (Inr ds, w)
     | None \<Rightarrow> http_list_request net o' domain now w)"

definition http_has ::
    "'d registry_net \<Rightarrow> 'd http_options \<Rightarrow> string \<Rightarrow> (registry_error, 'd registry_client, bool) eop" where
  "http_has net o' loopId = op_bind (http_get net o' loopId) (\<lambda>found. op_return (found \<noteq> None))"

definition announce_change ::
    "(registry_change \<Rightarrow> ('e, 'd, unit) eop) option \<Rightarrow> registry_change \<Rightarrow> ('e, 'd, unit) eop" where
  "announce_change onChange c = (case onChange of None \<Rightarrow> op_return () | Some f \<Rightarrow> f c)"

definition clear_cache :: "(registry_error, 'd registry_client, unit) eop" where
  "clear_cache w = (Inr (), w\<lparr>rc_cache := []\<rparr>)"

definition http_register ::
    "'d registry_net \<Rightarrow> 'd http_options \<Rightarrow> loop_definition \<Rightarrow> bool \<Rightarrow>
     (registry_error, 'd registry_client, unit) eop" where
  "http_register net o' d force =
     (let url = with_query (normalizeRoot (ho_baseUrl o')) (if force then [(''force'', ''true'')] else []);
          request = \<lparr>in_method = ''POST'',
            in_headers = obj_spread [(''content-type'', ''application/json'')] (http_headers o'),
            in_body = Some (nt_stringify net d)\<rparr>
      in op_bind (on_net (http_fetch net o' url request)) (\<lambda>r.
         if hp_status r = 409 then op_throw (RegistryConflictError (def_id d) (def_version d))
         else if hp_status r \<noteq> 201 then op_throw (RegistryNetworkError url (Some (hp_status r)) None)
         else op_bind (on_net (announce_change (ho_onChange o') (Registered d))) (\<lambda>_. clear_cache)))"

definition http_remove ::
    "'d registry_net \<Rightarrow> 'd http_options \<Rightarrow> string \<Rightarrow> (registry_error, 'd registry_client, bool) eop" where
  "http_remove net o' loopId =
     (let url = normalizeRoot (ho_baseUrl o') @ ''/'' @ encodeURIComponent loopId
      in op_bind (on_net (http_fetch net o' url (http_init ''DELETE'' o'))) (\<lambda>r.
         if hp_status r = 404 then op_return False
         else if hp_status r \<noteq> 204 then op_throw (RegistryNetworkError url (Some (hp_status r)) None)
         else op_bind (on_net (announce_change (ho_onChange o') (Removed loopId))) (\<lambda>_.
              op_bind clear_cache (\<lambda>_. op_return True))))"

definition http_ops :: "'d registry_net \<Rightarrow> 'd http_options \<Rightarrow> (registry_error, 'd registry_client) registry_ops" where
  "http_ops net o' =
     \<lparr>rg_get = http_get net o', rg_getVersion = http_getVersion net o',
      rg_list = (\<lambda>domain w. Some (http_list net o' domain w)), rg_has = http_has net o',
      rg_register = http_register net o', rg_remove = http_remove net o'\<rparr>"

section \<open>What is handed out was checked\<close>

lemma decode_checked_valid: "decode_checked p v = Inr d \<Longrightarrow> loop_valid d"
  by (auto simp: decode_checked_def Let_def split: sum.splits if_splits)

lemma parse_registry_valid: "parse_registry_loop v = Inr d \<Longrightarrow> loop_valid d"
  by (simp add: parse_registry_loop_def decode_checked_valid)

lemma parse_each_valid: "parse_each vs = Inr ds \<Longrightarrow> list_all loop_valid ds"
  by (induction vs arbitrary: ds) (auto simp: res_simps parse_registry_valid)

lemma ensures_any: "op_ensures (\<lambda>_. True) m (\<lambda>_. True)"
  by (simp add: op_ensures_def)

lemma op_result_ensures: "(\<And>x. r = Inr x \<Longrightarrow> Q x) \<Longrightarrow> op_ensures I (op_result r) Q"
  by (auto simp: op_ensures_def op_result_def split: sum.splits)

lemmas asked = op_ensures_bind[OF ensures_any]

lemma parsed_ensures:
  "op_ensures I (op_bind (op_result (parse_registry_loop v)) (\<lambda>d. op_return (Some d))) found_valid"
  by (rule op_ensures_bind[OF op_result_ensures[of _ loop_valid]])
    (auto intro: op_ensures_return dest: parse_registry_valid)

lemma fetchArtifact_valid: "op_ensures (\<lambda>_. True) (fetchArtifact net o' l v) found_valid"
  unfolding fetchArtifact_def Let_def by (auto intro!: asked ensures parsed_ensures)

lemma http_loop_valid: "op_ensures (\<lambda>_. True) (http_loop net o' url) found_valid"
  unfolding http_loop_def by (auto intro!: asked ensures parsed_ensures)

definition cache_checked :: "'d registry_client \<Rightarrow> bool" where
  "cache_checked w \<longleftrightarrow> (\<forall>(_, e) \<in> set (rc_cache w). list_all loop_valid (ce_data e))"

lemma on_net_ensures: "op_ensures (\<lambda>_. True) m Q \<Longrightarrow> op_ensures cache_checked (on_net m) Q"
  by (auto simp: op_ensures_def on_net_def cache_checked_def split: prod.splits)

lemmas on_net_any = on_net_ensures[OF ensures_any]

lemma clock_read_ensures: "op_ensures cache_checked (clock_read net) (\<lambda>_. True)"
  unfolding clock_read_def by (rule on_net_any)

lemma fresh_list_valid: "cache_checked w \<Longrightarrow> fresh_list domain now w = Some ds \<Longrightarrow> list_all loop_valid ds"
  by (auto simp: fresh_list_def cache_checked_def split: option.splits if_splits dest: map_of_SomeD)

lemma remember_list_checked:
  "cache_checked w \<Longrightarrow> list_all loop_valid ds \<Longrightarrow> cache_checked (remember_list ttl domain now ds w)"
  using set_alist_update_subset[of domain "\<lparr>ce_data = ds, ce_expiresAt = now + ttl\<rparr>" "rc_cache w"]
  by (auto simp: cache_checked_def remember_list_def)

lemma find_fresh_valid:
  "\<forall>(_, e) \<in> set cache. list_all loop_valid (ce_data e) \<Longrightarrow> found_valid (find_fresh now l cache)"
  by (induction now l cache rule: find_fresh.induct)
    (auto simp: list_all_iff split: option.splits dest: find_Some_iff')

lemma v0_list_checked:
  assumes "cache_checked w" "v0_list_all net o' domain w = Some (r, w')"
  shows "cache_checked w' \<and> (\<forall>ds. r = Inr ds \<longrightarrow> list_all loop_valid ds)"
proof -
  obtain now d where now: "nt_now net (rc_net w) = (now, d)" by fastforce
  let ?ttl = "or_default (vo_cacheTtlMs o') 60000" and ?w = "w\<lparr>rc_net := d\<rparr>"
  have w: "cache_checked (w\<lparr>rc_net := d'\<rparr>)" for d' using assms(1) by (simp add: cache_checked_def)
  have page: "list_all loop_valid ds'" if "list_all loop_valid ds"
    and run: "v0_page net o' domain c ds d = (Inr (ds', n), d')" for c ds d ds' n d'
  proof -
    from run obtain results u where defs:
      "page_definitions (fetchArtifact net o') (v0_channel_of o') ds results u = (Inr ds', d')"
      by (auto simp: v0_page_def elim!: op_bind_cases split: sum.splits option.splits if_splits)
    have "loop_valid x" if "fetchArtifact net o' l v u = (Inr (Some x), u')" for l v u x u'
      using op_ensuresD[OF fetchArtifact_valid _ that] by simp
    from page_definitions_valid[OF this defs] that(1) show ?thesis by (simp add: list_all_iff)
  qed
  show ?thesis
  proof (cases "if 0 < ?ttl then fresh_list domain now ?w else None")
    case (Some ds)
    with assms(2) now have "r = Inr ds" "w' = ?w" by (auto simp: v0_list_all_def Let_def)
    moreover from Some have "fresh_list domain now ?w = Some ds" by (auto split: if_splits)
    ultimately show ?thesis using w fresh_list_valid[OF w] by auto
  next
    case None
    with assms(2) now obtain r1 d1 where run: "pages (v0_page net o' domain) None [] d = Some (r1, d1)"
      and res: "r = r1" "w' = (case r1 of Inl _ \<Rightarrow> ?w\<lparr>rc_net := d1\<rparr>
        | Inr ds \<Rightarrow> remember_list ?ttl domain now ds (?w\<lparr>rc_net := d1\<rparr>))"
      by (auto simp: v0_list_all_def Let_def split: option.splits sum.splits prod.splits)
    from pages_result[OF run, of "list_all loop_valid"] page
    have "\<forall>ds. r1 = Inr ds \<longrightarrow> list_all loop_valid ds" by auto
    with res w[of d1] show ?thesis by (auto intro!: remember_list_checked split: sum.splits)
  qed
qed

lemma v0_get_ensures: "op_ensures cache_checked (v0_get net o' l) found_valid"
  unfolding v0_get_def Let_def
  by (intro on_net_ensures asked)
    (auto intro!: asked ensures fetchArtifact_valid split: option.split)

interpretation v0: checked_registry "v0_ops net o'" cache_checked for net :: "'d registry_net" and o'
  by unfold_locales
    (auto simp: v0_ops_def v0_getVersion_def v0_register_def v0_remove_def v0_get_ensures
      intro: ensures on_net_ensures fetchArtifact_valid dest: v0_list_checked)

lemma http_get_ensures: "op_ensures cache_checked (http_get net o' l) found_valid"
proof -
  have "op_ensures cache_checked (getFromListCache net l) found_valid"
    unfolding getFromListCache_def
    by (rule op_ensures_bind[OF clock_read_ensures])
      (simp add: op_ensures_def cache_checked_def find_fresh_valid)
  then have "op_ensures cache_checked
      (if 0 < http_ttl o' then getFromListCache net l else op_return None) found_valid"
    by (simp add: op_ensures_return)
  then show ?thesis
    unfolding http_get_def
    by (rule op_ensures_bind) (auto intro: ensures on_net_ensures http_loop_valid split: option.split)
qed

lemma http_list_request_ensures:
  "op_ensures cache_checked (http_list_request net o' domain now) (list_all loop_valid)"
proof -
  have store: "op_ensures cache_checked
      (\<lambda>w. (Inr ds, remember_list (http_ttl o') domain now ds w)) (list_all loop_valid)"
    if "list_all loop_valid ds" for ds :: "loop_definition list"
    using that by (auto simp: op_ensures_def intro: remember_list_checked)
  have parse: "op_ensures cache_checked (op_bind (op_result (parse_each vs))
      (\<lambda>ds w'. (Inr ds, remember_list (http_ttl o') domain now ds w'))) (list_all loop_valid)" for vs
    by (rule op_ensures_bind[OF op_result_ensures store]) (auto dest: parse_each_valid)
  show ?thesis
    unfolding http_list_request_def Let_def
    by (intro op_ensures_bind[OF on_net_any])
      (auto intro!: ensures parse op_ensures_bind[OF on_net_any] split: jsval.split)
qed

lemma http_list_ensures: "op_ensures cache_checked (http_list net o' domain) (list_all loop_valid)"
  unfolding http_list_def
proof (rule op_ensures_bind[OF clock_read_ensures])
  fix now
  from op_ensuresD[OF http_list_request_ensures, of _ net o' domain now] fresh_list_valid
  show "op_ensures cache_checked (\<lambda>w.
      case (if 0 < http_ttl o' then fresh_list domain now w else None) of
        Some ds \<Rightarrow> (Inr ds, w)
      | None \<Rightarrow> http_list_request net o' domain now w) (list_all loop_valid)"
    unfolding op_ensures_def by (force split: option.splits if_splits)
qed

lemma clear_cache_ensures: "op_ensures cache_checked clear_cache (\<lambda>_. True)"
  by (auto simp: op_ensures_def clear_cache_def cache_checked_def)

lemma http_write_ensures:
  "op_ensures cache_checked (http_register net o' d force) (\<lambda>_. True)"
  "op_ensures cache_checked (http_remove net o' l) (\<lambda>_. True)"
  unfolding http_register_def http_remove_def Let_def
  by (auto intro!: op_ensures_any on_net_any ensures clear_cache_ensures)

interpretation flat: checked_registry "http_ops net o'" cache_checked for net :: "'d registry_net" and o'
proof unfold_locales
  fix w :: "'d registry_client" and domain r w'
  assume "cache_checked w" "rg_list (http_ops net o') domain w = Some (r, w')"
  with op_ensuresD[OF http_list_ensures] show "cache_checked w' \<and> (\<forall>ds. r = Inr ds \<longrightarrow> list_all loop_valid ds)"
    by (simp add: http_ops_def)
qed (simp_all add: http_ops_def http_get_ensures http_write_ensures http_getVersion_def on_net_ensures http_loop_valid)

section \<open>Retries\<close>

text \<open>
  Whatever counts requests (and nothing else) counts at most one more than the retries allowed, and
  the time waited between them is that of the doubling steps. A result is the answer to some
  request, with a status below 500; an error comes after all requests allowed.
\<close>

lemma attempts_bounded:
  fixes requests :: "'d \<Rightarrow> nat" and waited :: "'d \<Rightarrow> nat"
  assumes "\<And>d. requests (snd (request d)) = Suc (requests d)" "\<And>d. waited (snd (request d)) = waited d"
    and "\<And>ms d. requests (sleep ms d) = requests d" "\<And>ms d. waited (sleep ms d) = waited d + ms"
  shows "attempts sleep url request k left d = (r, d') \<Longrightarrow>
     requests d < requests d' \<and> requests d' \<le> requests d + Suc left \<and>
     waited d' = waited d + 200 * 2 ^ k * (2 ^ (requests d' - requests d - 1) - 1) \<and>
     (case r of Inl e \<Rightarrow> requests d' = requests d + Suc left | Inr x \<Rightarrow> hp_status x < 500)"
proof (induction left arbitrary: k d)
  case 0
  obtain r1 d1 where one: "request d = (r1, d1)" by fastforce
  with assms(1)[of d] assms(2)[of d] 0 show ?case by (cases r1) (auto split: if_splits)
next
  case (Suc left)
  obtain r1 d1 where one: "request d = (r1, d1)" by fastforce
  with assms(1)[of d] assms(2)[of d] have d1: "requests d1 = Suc (requests d)" "waited d1 = waited d" by simp_all
  show ?case
  proof (cases "settle url r1")
    case (Inl e)
    with one Suc.prems have rest: "attempts sleep url request (Suc k) left (sleep (200 * 2 ^ k) d1) = (r, d')" by simp
    have slept: "requests (sleep (200 * 2 ^ k) d1) = Suc (requests d)"
      "waited (sleep (200 * 2 ^ k) d1) = waited d + 200 * 2 ^ k" using d1 assms(3,4) by simp_all
    from Suc.IH[OF rest, unfolded slept] have IH: "Suc (requests d) < requests d'"
      "requests d' \<le> Suc (requests d) + Suc left"
      "case r of Inl e \<Rightarrow> requests d' = Suc (requests d) + Suc left | Inr x \<Rightarrow> hp_status x < 500"
      "waited d' = waited d + 200 * 2 ^ k + 200 * 2 ^ Suc k * (2 ^ (requests d' - Suc (requests d) - 1) - 1)"
      by auto
    define n where "n = requests d' - requests d - 2"
    with IH(1) have n: "requests d' - Suc (requests d) - 1 = n" "requests d' - requests d - 1 = Suc n" by linarith+
    have "(1::nat) \<le> 2 ^ n" by simp
    then have "200 * 2 ^ k + 200 * 2 ^ Suc k * (2 ^ n - 1) = (200 * 2 ^ k * (2 ^ Suc n - 1) :: nat)"
      by (simp add: diff_mult_distrib2 algebra_simps)
    with IH n show ?thesis by (simp split: sum.splits)
  next
    case (Inr x)
    with one Suc.prems d1 show ?thesis by (cases r1) (auto split: if_splits)
  qed
qed

end
