(* ===== verification/Local_Registry.thy ===== *)
theory Local_Registry
  imports Registry "HOL-Library.Sublist"
begin

text \<open>
  The registry kept in memory, \<open>packages/registry-client/src/adapters/local.ts\<close>: definitions given
  in code or read from a directory at the first call, with checksums and change notifications.
\<close>

section \<open>Files, options and entries\<close>

text \<open>
  \<open>node:fs\<close>, the clock, SHA-256 of the UTF-8 bytes of a text, the text formats. \<open>lh_isBrowser\<close> is the
  test for a global \<open>window\<close>.
\<close>

record 'd local_host =
  lh_isBrowser :: bool
  lh_readdir :: "string \<Rightarrow> (js, 'd, string list) eop"
  lh_read :: "string \<Rightarrow> (js, 'd, string) eop"
  lh_exists :: "string \<Rightarrow> 'd \<Rightarrow> bool"
  lh_join :: "string \<Rightarrow> string \<Rightarrow> string"
  lh_watch :: "string \<Rightarrow> (js, 'd, unit) eop"
  lh_toISO :: "'d \<Rightarrow> string \<times> 'd"
  lh_stringify :: "loop_definition \<Rightarrow> string"
  lh_digest :: "string \<Rightarrow> 8 word list"
  lh_yaml :: "string \<Rightarrow> string + js"
  lh_json :: "string \<Rightarrow> js + js"
  lh_zodMessage :: "issue \<Rightarrow> string"

record 'd local_options =
  lo_definitions :: "loop_definition list option"
  lo_loopsDir :: "string option"
  lo_watch :: "bool option"
  lo_onChange :: "(registry_change \<Rightarrow> (registry_error, 'd, unit) eop) option"

datatype 'd local_argument = NoOptions | Definitions "loop_definition list" | Options "'d local_options"

definition no_options :: "'d local_options" where
  "no_options = \<lparr>lo_definitions = None, lo_loopsDir = None, lo_watch = None, lo_onChange = None\<rparr>"

fun normalizeOptions :: "'d local_argument \<Rightarrow> 'd local_options" where
  "normalizeOptions NoOptions = no_options"
| "normalizeOptions (Definitions ds) = no_options\<lparr>lo_definitions := Some ds\<rparr>"
| "normalizeOptions (Options o') = o'"

datatype entry_source = LocalSource | HttpSource | BetterdataSource | MemorySource

record registry_entry =
  rn_definition :: loop_definition
  rn_registeredAt :: string
  rn_source :: entry_source
  rn_checksum :: string

record 'd local_registry =
  ly_entries :: "(string \<times> registry_entry) list"
  ly_loaded :: bool
  ly_watcherStarted :: bool
  ly_world :: 'd

definition local_create :: "'d \<Rightarrow> 'd local_registry" where
  "local_create d = \<lparr>ly_entries = [], ly_loaded = False, ly_watcherStarted = False, ly_world = d\<rparr>"

definition on_world :: "('e, 'd, 'a) eop \<Rightarrow> ('e, 'd local_registry, 'a) eop" where
  "on_world m w = (case m (ly_world w) of (r, d) \<Rightarrow> (r, w\<lparr>ly_world := d\<rparr>))"

text \<open>Both ways to the digest, Web Crypto and \<open>node:crypto\<close>, give its hexadecimal digits.\<close>

definition toHex :: "8 word list \<Rightarrow> string" where
  "toHex bytes = concat (map byte_hex bytes)"

definition checksum :: "'d local_host \<Rightarrow> loop_definition \<Rightarrow> string" where
  "checksum h d = toHex (lh_digest h (lh_stringify h d))"

section \<open>Writing an entry\<close>

definition put_entry ::
    "'d local_host \<Rightarrow> loop_definition \<Rightarrow> entry_source \<Rightarrow> (registry_error, 'd local_registry, unit) eop" where
  "put_entry h d source =
     op_bind (on_world (\<lambda>w. case lh_toISO h w of (t, w') \<Rightarrow> (Inr t, w'))) (\<lambda>now w.
     (Inr (), w\<lparr>ly_entries := AList.update (def_id d)
       \<lparr>rn_definition = d, rn_registeredAt = now, rn_source = source, rn_checksum = checksum h d\<rparr>
       (ly_entries w)\<rparr>))"

definition upsert ::
    "'d local_host \<Rightarrow> 'd local_options \<Rightarrow> loop_definition \<Rightarrow> entry_source \<Rightarrow> bool \<Rightarrow>
     (registry_error, 'd local_registry, unit) eop" where
  "upsert h o' d source force w =
     (case map_of (ly_entries w) (def_id d) of
        Some existing \<Rightarrow>
          if def_version (rn_definition existing) = def_version d \<and> \<not> force
          then op_throw (RegistryConflictError (def_id d) (def_version d)) w
          else op_bind (put_entry h d source) (\<lambda>_. on_world (announce_change (lo_onChange o') (Updated d))) w
      | None \<Rightarrow>
          op_bind (put_entry h d source) (\<lambda>_. on_world (announce_change (lo_onChange o') (Registered d))) w)"

section \<open>The directory\<close>

definition yaml_name :: "string \<Rightarrow> bool" where
  "yaml_name file \<longleftrightarrow> ends_with ''.yaml'' file \<or> ends_with ''.yml'' file"

definition loop_file :: "string \<Rightarrow> bool" where
  "loop_file file \<longleftrightarrow> yaml_name file \<or> ends_with ''.json'' file"

definition parseFileContent :: "'d local_host \<Rightarrow> string \<Rightarrow> string \<Rightarrow> registry_error + loop_definition option" where
  "parseFileContent h fileName content =
     (if yaml_name fileName
      then (case parseLoopYaml (lh_zodMessage h) (lh_yaml h) content of
              Inl e \<Rightarrow> Inl (RegistryFailure e)
            | Inr d \<Rightarrow> Inr (Some (transform_definition d)))
      else if ends_with ''.json'' fileName
      then (case lh_json h content of
              Inl e \<Rightarrow> Inl (Foreign e)
            | Inr parsed \<Rightarrow> res_bind (decode_checked [] parsed) (\<lambda>d. Inr (Some d)))
      else Inr None)"

definition matchesDomain :: "loop_definition \<Rightarrow> string option \<Rightarrow> bool" where
  "matchesDomain d domain =
     (case nonempty domain of
        None \<Rightarrow> True
      | Some x \<Rightarrow> prefix (x @ ''.'') (def_id d) \<or> prefix (x @ '':'') (def_id d) \<or> def_id d = x)"

definition read_loop :: "'d local_host \<Rightarrow> string \<Rightarrow> string \<Rightarrow> (registry_error, 'd local_registry, loop_definition option) eop" where
  "read_loop h dir file =
     op_bind (on_world (foreign (lh_read h (lh_join h dir file)))) (\<lambda>content.
     op_result (parseFileContent h file content))"

definition load_file ::
    "'d local_host \<Rightarrow> 'd local_options \<Rightarrow> string \<Rightarrow> string \<Rightarrow> (registry_error, 'd local_registry, unit) eop" where
  "load_file h o' dir file =
     (if \<not> loop_file file then op_return ()
      else op_bind (read_loop h dir file) (\<lambda>d.
           case d of None \<Rightarrow> op_return () | Some x \<Rightarrow> upsert h o' x LocalSource True))"

definition used_dir :: "'d local_host \<Rightarrow> 'd local_options \<Rightarrow> string option" where
  "used_dir h o' = (if lh_isBrowser h then None else nonempty (lo_loopsDir o'))"

definition loadFromDirectory ::
    "'d local_host \<Rightarrow> 'd local_options \<Rightarrow> (registry_error, 'd local_registry, unit) eop" where
  "loadFromDirectory h o' =
     (case used_dir h o' of
        None \<Rightarrow> op_return ()
      | Some dir \<Rightarrow> op_bind (on_world (foreign (lh_readdir h dir))) (\<lambda>files. op_each (load_file h o' dir) files))"

text \<open>The watcher; its callback reads the changed file and swallows what goes wrong.\<close>

definition startWatcher ::
    "'d local_host \<Rightarrow> 'd local_options \<Rightarrow> (registry_error, 'd local_registry, unit) eop" where
  "startWatcher h o' w =
     (case used_dir h o' of
        None \<Rightarrow> (Inr (), w)
      | Some dir \<Rightarrow>
          if ly_watcherStarted w \<or> lo_watch o' \<noteq> Some True then (Inr (), w)
          else on_world (foreign (lh_watch h dir)) (w\<lparr>ly_watcherStarted := True\<rparr>))"

definition file_changed ::
    "'d local_host \<Rightarrow> 'd local_options \<Rightarrow> string \<Rightarrow> string option \<Rightarrow>
     (registry_error, 'd local_registry, unit) eop" where
  "file_changed h o' dir fileName w =
     (case nonempty fileName of
        None \<Rightarrow> (Inr (), w)
      | Some file \<Rightarrow>
          if \<not> loop_file file \<or> \<not> lh_exists h (lh_join h dir file) (ly_world w) then (Inr (), w)
          else op_catch (op_bind (read_loop h dir file) (\<lambda>d.
            case d of None \<Rightarrow> op_return () | Some x \<Rightarrow> upsert h o' x LocalSource True))
            (\<lambda>_. op_return ()) w)"

definition ensureLoaded ::
    "'d local_host \<Rightarrow> 'd local_options \<Rightarrow> (registry_error, 'd local_registry, unit) eop" where
  "ensureLoaded h o' w =
     (if ly_loaded w then (Inr (), w)
      else op_bind (loadFromDirectory h o') (\<lambda>_.
           op_bind (op_each (\<lambda>d. upsert h o' d MemorySource True) (or_default (lo_definitions o') [])) (\<lambda>_.
           startWatcher h o')) (w\<lparr>ly_loaded := True\<rparr>))"

section \<open>The registry\<close>

definition local_lookup :: "'d local_registry \<Rightarrow> string \<Rightarrow> loop_definition option" where
  "local_lookup w loopId = map_option rn_definition (map_of (ly_entries w) loopId)"

definition local_get ::
    "'d local_host \<Rightarrow> 'd local_options \<Rightarrow> string \<Rightarrow> (registry_error, 'd local_registry, loop_definition option) eop" where
  "local_get h o' loopId = op_bind (ensureLoaded h o') (\<lambda>_ w. (Inr (local_lookup w loopId), w))"

definition local_getVersion ::
    "'d local_host \<Rightarrow> 'd local_options \<Rightarrow> string \<Rightarrow> string \<Rightarrow>
     (registry_error, 'd local_registry, loop_definition option) eop" where
  "local_getVersion h o' loopId version =
     op_bind (ensureLoaded h o') (\<lambda>_ w. (Inr (case local_lookup w loopId of
         None \<Rightarrow> None
       | Some d \<Rightarrow> if def_version d = version then Some d else None), w))"

text \<open>\<open>localeCompare\<close> compares the collation keys of its two texts.\<close>

definition local_list ::
    "(string \<Rightarrow> 'k::linorder) \<Rightarrow> 'd local_host \<Rightarrow> 'd local_options \<Rightarrow> string option \<Rightarrow>
     (registry_error, 'd local_registry, loop_definition list) eop" where
  "local_list collate h o' domain =
     op_bind (ensureLoaded h o') (\<lambda>_ w. (Inr (sort_key (\<lambda>d. collate (def_id d))
       (filter (\<lambda>d. matchesDomain d domain) (map (\<lambda>e. rn_definition (snd e)) (ly_entries w)))), w))"

definition local_has ::
    "'d local_host \<Rightarrow> 'd local_options \<Rightarrow> string \<Rightarrow> (registry_error, 'd local_registry, bool) eop" where
  "local_has h o' loopId =
     op_bind (ensureLoaded h o') (\<lambda>_ w. (Inr (map_of (ly_entries w) loopId \<noteq> None), w))"

definition local_register ::
    "'d local_host \<Rightarrow> 'd local_options \<Rightarrow> loop_definition \<Rightarrow> bool \<Rightarrow>
     (registry_error, 'd local_registry, unit) eop" where
  "local_register h o' d force = op_bind (ensureLoaded h o') (\<lambda>_. upsert h o' d MemorySource force)"

definition local_remove ::
    "'d local_host \<Rightarrow> 'd local_options \<Rightarrow> string \<Rightarrow> (registry_error, 'd local_registry, bool) eop" where
  "local_remove h o' loopId =
     op_bind (ensureLoaded h o') (\<lambda>_ w.
     if map_of (ly_entries w) loopId = None then (Inr False, w)
     else op_bind (on_world (announce_change (lo_onChange o') (Removed loopId))) (\<lambda>_. op_return True)
            (w\<lparr>ly_entries := AList.delete loopId (ly_entries w)\<rparr>))"

definition getEntry :: "'d local_registry \<Rightarrow> string \<Rightarrow> registry_entry option" where
  "getEntry w loopId = map_of (ly_entries w) loopId"

definition local_ops ::
    "(string \<Rightarrow> 'k::linorder) \<Rightarrow> 'd local_host \<Rightarrow> 'd local_options \<Rightarrow>
     (registry_error, 'd local_registry) registry_ops" where
  "local_ops collate h o' =
     \<lparr>rg_get = local_get h o', rg_getVersion = local_getVersion h o',
      rg_list = (\<lambda>domain w. Some (local_list collate h o' domain w)), rg_has = local_has h o',
      rg_register = local_register h o', rg_remove = local_remove h o'\<rparr>"

section \<open>The contract\<close>

text \<open>
  A registry that has been loaded is a map from identifiers to definitions: what the comments of
  \<open>LoopRegistry\<close> promise of each operation. A failing change callback does not undo the change.
\<close>

type_synonym catalog = "string \<rightharpoonup> loop_definition"

definition conflicting :: "loop_definition \<Rightarrow> bool \<Rightarrow> catalog \<Rightarrow> bool" where
  "conflicting d force m \<longleftrightarrow> \<not> force \<and> (\<exists>e. m (def_id d) = Some e \<and> def_version e = def_version d)"

fun catalog_step :: "request_call \<Rightarrow> catalog \<Rightarrow> catalog" where
  "catalog_step (Enter d force) m = (if conflicting d force m then m else m(def_id d \<mapsto> d))"
| "catalog_step (Drop loopId) m = m(loopId := None)"
| "catalog_step _ m = m"

fun catalog_answer :: "request_call \<Rightarrow> catalog \<Rightarrow> loop_definition set" where
  "catalog_answer (AskLoop loopId) m = set_option (m loopId)"
| "catalog_answer (AskVersion loopId v) m = {d. m loopId = Some d \<and> def_version d = v}"
| "catalog_answer (AskList domain) m = {d. \<exists>l. m l = Some d \<and> matchesDomain d domain}"
| "catalog_answer _ m = {}"

fun catalog_run :: "request_call list \<Rightarrow> catalog \<Rightarrow> loop_definition set \<times> catalog" where
  "catalog_run [] m = ({}, m)"
| "catalog_run (c # cs) m =
     (case catalog_run cs (catalog_step c m) of (ds, m') \<Rightarrow> (catalog_answer c m \<union> ds, m'))"

locale loop_registry =
  fixes ops :: "(registry_error, 'w) registry_ops" and ready :: "'w \<Rightarrow> bool" and view :: "'w \<Rightarrow> catalog"
  assumes get_view: "ready w \<Longrightarrow> rg_get ops l w = (Inr (view w l), w)"
    and version_view: "ready w \<Longrightarrow> rg_getVersion ops l v w =
      (Inr (case view w l of None \<Rightarrow> None | Some d \<Rightarrow> if def_version d = v then Some d else None), w)"
    and has_view: "ready w \<Longrightarrow> rg_has ops l w = (Inr (view w l \<noteq> None), w)"
    and list_view: "ready w \<Longrightarrow> \<exists>ds. rg_list ops domain w = Some (Inr ds, w) \<and> distinct ds \<and>
      set ds = {d. \<exists>l. view w l = Some d \<and> matchesDomain d domain}"
    and register_conflict: "ready w \<Longrightarrow> conflicting d force (view w) \<Longrightarrow>
      rg_register ops d force w = (Inl (RegistryConflictError (def_id d) (def_version d)), w)"
    and register_view: "ready w \<Longrightarrow> \<not> conflicting d force (view w) \<Longrightarrow>
      rg_register ops d force w = (r, w') \<Longrightarrow> ready w' \<and> view w' = (view w)(def_id d \<mapsto> d)"
    and remove_view: "ready w \<Longrightarrow> rg_remove ops l w = (b, w') \<Longrightarrow>
      ready w' \<and> view w' = (view w)(l := None) \<and> (\<forall>x. b = Inr x \<longrightarrow> x = (view w l \<noteq> None))"
begin

lemma call_view:
  assumes "ready w"
  shows "\<exists>ds w'. registry_call ops c w = Some (ds, w') \<and> ready w' \<and>
    set ds = catalog_answer c (view w) \<and> view w' = catalog_step c (view w)"
proof (cases c)
  case (Enter d force)
  obtain r w' where run: "rg_register ops d force w = (r, w')" by fastforce
  show ?thesis
  proof (cases "conflicting d force (view w)")
    case True
    with register_conflict[OF assms True] assms Enter show ?thesis by simp
  next
    case False
    with register_view[OF assms False run] run Enter show ?thesis by simp
  qed
next
  case (Drop l)
  obtain b w' where run: "rg_remove ops l w = (b, w')" by fastforce
  with remove_view[OF assms run] Drop show ?thesis by simp
next
  case (AskList domain)
  with list_view[OF assms, of domain] assms show ?thesis by auto
next
  case (AskLoop l)
  with assms show ?thesis by (cases "view w l") (simp_all add: get_view handed_def)
next
  case (AskVersion l v)
  with assms show ?thesis by (cases "view w l") (auto simp: version_view handed_def)
qed

lemma calls_view:
  "ready w \<Longrightarrow> \<exists>ds w'. registry_calls ops cs w = Some (ds, w') \<and> ready w' \<and>
     catalog_run cs (view w) = (set ds, view w')"
proof (induction cs arbitrary: w)
  case (Cons c cs)
  from call_view[OF Cons.prems, of c] obtain d1 w1 where c: "registry_call ops c w = Some (d1, w1)"
    "ready w1" "set d1 = catalog_answer c (view w)" "view w1 = catalog_step c (view w)" by blast
  from Cons.IH[OF c(2)] obtain d2 w2 where "registry_calls ops cs w1 = Some (d2, w2)" "ready w2"
    "catalog_run cs (view w1) = (set d2, view w2)" by blast
  with c show ?case by simp
qed simp

end

section \<open>The local registry meets it\<close>

text \<open>Each entry is filed under the identifier of its definition.\<close>

definition filed :: "'d local_registry \<Rightarrow> bool" where
  "filed w \<longleftrightarrow> distinct (map fst (ly_entries w)) \<and>
     (\<forall>(k, e) \<in> set (ly_entries w). def_id (rn_definition e) = k)"

definition local_ready :: "'d local_registry \<Rightarrow> bool" where
  "local_ready w \<longleftrightarrow> ly_loaded w \<and> filed w"

lemma on_world_keeps:
  "on_world m w = (r, w') \<Longrightarrow> ly_entries w' = ly_entries w \<and> ly_loaded w' = ly_loaded w"
  by (auto simp: on_world_def split: prod.splits)

lemma put_entry_eq:
  "\<exists>e w1. put_entry h d src w = (Inr (), w1) \<and> rn_definition e = d \<and>
     ly_entries w1 = AList.update (def_id d) e (ly_entries w) \<and> ly_loaded w1 = ly_loaded w"
  by (cases "lh_toISO h (ly_world w)")
    (auto simp: put_entry_def on_world_def op_bind_def
      intro!: exI[of _ "\<lparr>rn_definition = d, rn_registeredAt = fst (lh_toISO h (ly_world w)),
        rn_source = src, rn_checksum = checksum h d\<rparr>"])

lemma filed_update:
  assumes "filed w" "ly_entries w' = AList.update (def_id d) e (ly_entries w)" "rn_definition e = d"
  shows "filed w'"
  using assms set_alist_update_subset[of "def_id d" e "ly_entries w"]
  by (auto simp: filed_def distinct_update)

lemma upsert_view:
  assumes "filed w" "\<not> conflicting d force (local_lookup w)" "upsert h o' d src force w = (r, w')"
  shows "filed w' \<and> ly_loaded w' = ly_loaded w \<and> local_lookup w' = (local_lookup w)(def_id d \<mapsto> d)"
proof -
  obtain e w1 where put: "put_entry h d src w = (Inr (), w1)" "rn_definition e = d"
    "ly_entries w1 = AList.update (def_id d) e (ly_entries w)" "ly_loaded w1 = ly_loaded w"
    using put_entry_eq by blast
  from assms(2,3) put(1) obtain c where "on_world (announce_change (lo_onChange o') c) w1 = (r, w')"
    by (auto simp: upsert_def conflicting_def local_lookup_def op_bind_def split: option.splits if_splits)
  from on_world_keeps[OF this] put filed_update[OF assms(1) put(3,2)] show ?thesis
    by (auto simp: filed_def local_lookup_def update_conv' fun_eq_iff)
qed

lemma upsert_conflict:
  assumes "conflicting d force (local_lookup w)"
  shows "upsert h o' d src force w = (Inl (RegistryConflictError (def_id d) (def_version d)), w)"
  using assms by (auto simp: upsert_def conflicting_def local_lookup_def)

lemma ensureLoaded_ready: "local_ready w \<Longrightarrow> ensureLoaded h o' w = (Inr (), w)"
  by (simp add: ensureLoaded_def local_ready_def)

lemmas loaded = ensureLoaded_ready op_bind_Inr[OF ensureLoaded_ready]

lemma local_listed:
  assumes "filed w"
  shows "distinct (map (\<lambda>e. rn_definition (snd e)) (ly_entries w)) \<and>
    set (map (\<lambda>e. rn_definition (snd e)) (ly_entries w)) = ran (local_lookup w)"
proof -
  have ids: "map def_id (map (\<lambda>e. rn_definition (snd e)) (ly_entries w)) = map fst (ly_entries w)"
    using assms by (auto simp: filed_def intro!: map_cong)
  with assms have "distinct (map (\<lambda>e. rn_definition (snd e)) (ly_entries w))"
    by (metis distinct_map filed_def)
  moreover have "ran (local_lookup w) = (\<lambda>e. rn_definition (snd e)) ` set (ly_entries w)"
  proof -
    have "map_of (ly_entries w) k = Some v \<longleftrightarrow> (k, v) \<in> set (ly_entries w)" for k v
      using assms by (simp add: filed_def)
    then show ?thesis by (force simp: ran_def local_lookup_def)
  qed
  ultimately show ?thesis by simp
qed

lemma local_remove_view:
  assumes w: "local_ready w" and run: "local_remove h o' l w = (b, w')"
  shows "local_ready w' \<and> local_lookup w' = (local_lookup w)(l := None) \<and>
    (\<forall>x. b = Inr x \<longrightarrow> x = (local_lookup w l \<noteq> None))"
proof (cases "map_of (ly_entries w) l")
  case None
  with w run have "b = Inr False" "w' = w" by (simp_all add: local_remove_def loaded)
  with None w show ?thesis by (auto simp: local_lookup_def)
next
  case (Some e)
  let ?w = "w\<lparr>ly_entries := AList.delete l (ly_entries w)\<rparr>"
  from Some w run obtain u w1 where on: "on_world (announce_change (lo_onChange o') (Removed l)) ?w = (u, w1)"
    and res: "w' = w1" "\<And>x. b = Inr x \<Longrightarrow> x"
    by (auto simp: local_remove_def loaded elim!: op_bind_cases)
  from w have "filed ?w"
    by (auto simp: local_ready_def filed_def AList.delete_eq distinct_map_filter)
  with on_world_keeps[OF on] w have "local_ready w1" by (simp add: local_ready_def filed_def)
  with on_world_keeps[OF on] res Some show ?thesis
    by (auto simp: local_lookup_def delete_conv' fun_eq_iff)
qed

interpretation local: loop_registry "local_ops collate h o'" local_ready local_lookup
  for collate :: "string \<Rightarrow> 'k::linorder" and h :: "'d local_host" and o'
proof unfold_locales
  fix w :: "'d local_registry" and l v d force r w' b domain
  assume w: "local_ready w"
  then have filed: "filed w" by (simp add: local_ready_def)
  show "rg_get (local_ops collate h o') l w = (Inr (local_lookup w l), w)"
    "rg_getVersion (local_ops collate h o') l v w = (Inr (case local_lookup w l of None \<Rightarrow> None
       | Some d \<Rightarrow> if def_version d = v then Some d else None), w)"
    "rg_has (local_ops collate h o') l w = (Inr (local_lookup w l \<noteq> None), w)"
    using w by (simp_all add: local_ops_def local_get_def local_getVersion_def local_has_def loaded
        local_lookup_def)
  from w local_listed[OF filed] show "\<exists>ds. rg_list (local_ops collate h o') domain w = Some (Inr ds, w) \<and>
      distinct ds \<and> set ds = {d. \<exists>l. local_lookup w l = Some d \<and> matchesDomain d domain}"
    by (auto simp: local_ops_def local_list_def loaded ran_def)
  show "rg_register (local_ops collate h o') d force w =
      (Inl (RegistryConflictError (def_id d) (def_version d)), w)"
    if "conflicting d force (local_lookup w)"
    using w upsert_conflict[OF that] by (simp add: local_ops_def local_register_def loaded)
  show "local_ready w' \<and> local_lookup w' = (local_lookup w)(def_id d \<mapsto> d)"
    if "\<not> conflicting d force (local_lookup w)" "rg_register (local_ops collate h o') d force w = (r, w')"
    using that w upsert_view[OF filed that(1)]
    by (auto simp: local_ops_def local_register_def loaded local_ready_def)
  show "local_ready w' \<and> local_lookup w' = (local_lookup w)(l := None) \<and>
      (\<forall>x. b = Inr x \<longrightarrow> x = (local_lookup w l \<noteq> None))"
    if "rg_remove (local_ops collate h o') l w = (b, w')"
    using that local_remove_view[OF w] by (simp add: local_ops_def)
qed

section \<open>The first call\<close>

text \<open>A registry that was loaded stays so; loading brings the entries into the contract's state.\<close>

lemma op_each_ensures: "(\<And>x. op_ensures I (f x) (\<lambda>_. True)) \<Longrightarrow> op_ensures I (op_each f xs) (\<lambda>_. True)"
  by (induction xs) (auto intro!: op_ensures_any ensures)

lemma upsert_ready: "op_ensures local_ready (upsert h o' d src True) (\<lambda>_. True)"
proof -
  have "\<not> conflicting d True m" for m by (simp add: conflicting_def)
  from upsert_view[OF _ this] show ?thesis by (fastforce simp: op_ensures_def local_ready_def)
qed

lemma on_world_ready: "op_ensures local_ready (on_world m) (\<lambda>_. True)"
  by (auto simp: op_ensures_def local_ready_def filed_def dest!: on_world_keeps)

lemma op_result_any: "op_ensures I (op_result r) (\<lambda>_. True)"
  by (auto simp: op_ensures_def op_result_def split: sum.splits)

lemma load_file_ready: "op_ensures local_ready (load_file h o' dir file) (\<lambda>_. True)"
proof -
  have "op_ensures local_ready (read_loop h dir file) (\<lambda>_. True)"
    unfolding read_loop_def by (rule op_ensures_any[OF on_world_ready op_result_any])
  then show ?thesis
    unfolding load_file_def by (auto intro!: op_ensures_any ensures upsert_ready split: option.split)
qed

lemma startWatcher_ready: "op_ensures local_ready (startWatcher h o') (\<lambda>_. True)"
  by (auto simp: op_ensures_def startWatcher_def local_ready_def filed_def dest!: on_world_keeps
      split: option.splits if_splits)

lemma ensureLoaded_makes_ready:
  assumes "filed w" "ensureLoaded h o' w = (r, w')"
  shows "local_ready w'"
proof (cases "ly_loaded w")
  case True
  with assms show ?thesis by (simp add: ensureLoaded_def local_ready_def)
next
  case False
  let ?load = "op_bind (loadFromDirectory h o') (\<lambda>_.
    op_bind (op_each (\<lambda>d. upsert h o' d MemorySource True) (or_default (lo_definitions o') [])) (\<lambda>_.
    startWatcher h o'))"
  have "op_ensures local_ready (loadFromDirectory h o') (\<lambda>_. True)"
    unfolding loadFromDirectory_def
    by (auto intro!: op_ensures_any op_each_ensures ensures on_world_ready load_file_ready split: option.split)
  then have "op_ensures local_ready ?load (\<lambda>_. True)"
    by (intro op_ensures_any op_each_ensures upsert_ready startWatcher_ready)
  moreover from assms(1) have "local_ready (w\<lparr>ly_loaded := True\<rparr>)" by (simp add: local_ready_def filed_def)
  ultimately show ?thesis using assms(2) False op_ensuresD by (fastforce simp: ensureLoaded_def)
qed

text \<open>
  A directory that cannot be read fails the first call only: the flag is set before the reading, so
  later calls find an empty registry, and the definitions given in code are not there either.
\<close>

lemma unreadable_directory:
  assumes "used_dir h o' = Some dir" "lh_readdir h dir d = (Inl e, d')"
  shows "ensureLoaded h o' (local_create d) =
    (Inl (Foreign e), (local_create d')\<lparr>ly_loaded := True\<rparr>)"
  using assms by (simp add: ensureLoaded_def loadFromDirectory_def local_create_def on_world_def
      foreign_def op_catch_def op_bind_def)

end
