(* ===== verification/SDK.thy ===== *)
theory SDK
  imports Local_Registry Lifecycle
begin

text \<open>
  \<open>createLoopSystem\<close> of \<open>packages/sdk/src/index.ts\<close>: the definitions of a registry and of the caller
  merged and checked, and an engine over them with its store, guards and bus.
\<close>

section \<open>Definitions\<close>

text \<open>The registry of the engine, a list searched in order.\<close>

definition mr_get :: "loop_definition list \<Rightarrow> string \<Rightarrow> loop_definition option" where
  "mr_get loops loopId = List.find (\<lambda>d. def_id d = loopId) loops"

definition mr_list :: "loop_definition list \<Rightarrow> loop_definition list" where
  "mr_list loops = loops"

definition mergeDefinitions :: "loop_definition list \<Rightarrow> loop_definition list \<Rightarrow> loop_definition list" where
  "mergeDefinitions registryLoops localLoops =
     map snd (fold (\<lambda>d m. AList.update (def_id d) d m) localLoops
       (fold (\<lambda>d m. AList.update (def_id d) d m) registryLoops []))"

text \<open>
  What \<open>list()\<close> gives, nothing if it throws. A listing that does not end keeps the caller waiting.
\<close>

definition loadFromRegistry ::
    "('e, 'w) registry_ops \<Rightarrow> 'w \<Rightarrow> (('e + loop_definition list) \<times> 'w) option" where
  "loadFromRegistry registry w = rg_list registry None w"

definition registry_loops ::
    "('e, 'w) registry_ops option \<Rightarrow> 'w \<Rightarrow> (loop_definition list \<times> 'w) option" where
  "registry_loops registry w =
     (case registry of
        None \<Rightarrow> Some ([], w)
      | Some ops \<Rightarrow> map_option (\<lambda>(r, w'). (case r of Inl _ \<Rightarrow> [] | Inr ds \<Rightarrow> ds, w')) (loadFromRegistry ops w))"

fun check_loops :: "loop_definition list \<Rightarrow> js_error option" where
  "check_loops [] = None"
| "check_loops (d # ds) =
     (let validation = validateLoopDefinition d
      in if \<not> vr_valid validation
         then Some (Error (''Invalid loop definition '' @ def_id d @ '': '' @ validation_text validation))
         else check_loops ds)"

section \<open>The system\<close>

text \<open>
  The options; a store comes with its operations and its state, the one to use if none is given
  (\<open>memoryStore()\<close>) and what the host gives to the engine are arguments of \<open>createLoopSystem\<close>.
\<close>

record ('s, 'p, 'e, 'w) system_options =
  so_loops :: "loop_definition list"
  so_store :: "('s store_ops \<times> 's) option"
  so_guards :: "guard_registry option"
  so_signals :: "bool option"
  so_registry :: "('e, 'w) registry_ops option"
  so_snapshotStore :: "'p snapshot_store option"

record system_host =
  sy_host :: host
  sy_env :: env
  sy_sha256 :: "ustr \<Rightarrow> string"

text \<open>\<open>InMemoryEventBus.emit\<close> waits for the handlers and swallows their errors, so it never rejects.\<close>

record ('s, 'p) loop_system =
  ls_engine :: "('s, 'p) engine"
  ls_store :: 's
  ls_signals :: "signal_registry option"

definition assembled ::
    "system_host \<Rightarrow> 's store_ops \<times> 's \<Rightarrow> ('s, 'p, 'e, 'w) system_options \<Rightarrow> loop_definition list \<Rightarrow>
     ('s, 'p) loop_system" where
  "assembled sh fresh_store o' mergedLoops =
     \<lparr>ls_engine = \<lparr>eng_store = fst (or_default (so_store o') fresh_store),
        eng_registry = mr_get mergedLoops,
        eng_eventBus = Some (\<lambda>_ _. None),
        eng_guardRegistry = Some (or_default (so_guards o') (registerBuiltIns [])),
        eng_snapshotStore = so_snapshotStore o', eng_now = None,
        eng_host = sy_host sh, eng_env = sy_env sh, eng_sha256 = sy_sha256 sh\<rparr>,
      ls_store = snd (or_default (so_store o') fresh_store),
      ls_signals = (if so_signals o' = Some True then Some [] else None)\<rparr>"

definition createLoopSystem ::
    "system_host \<Rightarrow> 's store_ops \<times> 's \<Rightarrow> ('s, 'p, 'e, 'w) system_options \<Rightarrow> 'w \<Rightarrow>
     ((js_error + ('s, 'p) loop_system) \<times> 'w) option" where
  "createLoopSystem sh fresh_store o' w =
     map_option (\<lambda>(registryLoops, w').
       let mergedLoops = mergeDefinitions registryLoops (so_loops o')
       in (case check_loops mergedLoops of
             Some e \<Rightarrow> Inl e
           | None \<Rightarrow> Inr (assembled sh fresh_store o' mergedLoops), w'))
       (registry_loops (so_registry o') w)"

section \<open>What a system works with\<close>

lemma mergeDefinitions_dedupe: "mergeDefinitions rs ls = dedupeByLoopId (rs @ ls)"
  by (simp add: mergeDefinitions_def dedupeByLoopId_def)

text \<open>The caller's definition of a loop wins over the registry's, the later one over the earlier.\<close>

lemma mr_get_merged:
  "mr_get (mergeDefinitions rs ls) l = map_of (map (\<lambda>d. (def_id d, d)) (rev (rs @ ls))) l"
proof -
  define m where "m = map_of (map (\<lambda>d. (def_id d, d)) (rev (rs @ ls)))"
  have mem: "d \<in> set (mergeDefinitions rs ls) \<longleftrightarrow> m (def_id d) = Some d" for d
    using dedupe_last[of "rs @ ls" d] by (simp add: m_def mergeDefinitions_dedupe)
  have key: "def_id d = l" if "m l = Some d" for d
    using map_of_SomeD[OF that[unfolded m_def]] by auto
  show ?thesis
    unfolding m_def[symmetric]
  proof (cases "mr_get (mergeDefinitions rs ls) l")
    case None
    then have "def_id d \<noteq> l" if "d \<in> set (mergeDefinitions rs ls)" for d
      using that by (auto simp: mr_get_def find_None_iff)
    with mem key have "m l = None" by (cases "m l") auto
    with None show "mr_get (mergeDefinitions rs ls) l = m l" by simp
  next
    case (Some d)
    from find_Some_iff'[OF Some[unfolded mr_get_def]] mem[of d]
    have "m l = Some d" by auto
    with Some show "mr_get (mergeDefinitions rs ls) l = m l" by simp
  qed
qed

lemma check_loops_None: "check_loops ds = None \<longleftrightarrow> list_all loop_valid ds"
  by (induction ds) (auto simp: Let_def)

lemma createLoopSystem_Inr:
  "createLoopSystem sh fresh_store o' w = Some (Inr sys, w') \<longleftrightarrow>
     (\<exists>rs. registry_loops (so_registry o') w = Some (rs, w') \<and>
       list_all loop_valid (mergeDefinitions rs (so_loops o')) \<and>
       sys = assembled sh fresh_store o' (mergeDefinitions rs (so_loops o')))"
  by (auto simp: createLoopSystem_def Let_def check_loops_None[symmetric] split: option.splits)

lemma mr_get_wf:
  assumes "list_all loop_valid ds"
  shows "registry_wf (mr_get ds)"
  using assms
  by (auto simp: registry_wf_def mr_get_def list_all_iff validateLoopDefinition_valid definition_valid_def
      dest!: find_Some_iff')

lemma system_registry_wf:
  "createLoopSystem sh fresh_store o' w = Some (Inr sys, w') \<Longrightarrow> registry_wf (eng_registry (ls_engine sys))"
  by (auto simp: createLoopSystem_Inr assembled_def mr_get_wf)

end
