(* ===== verification/AI_Adapters.thy ===== *)
theory AI_Adapters
  imports Local_Registry Actors
begin

text \<open>
  The actor adapters of the model providers, \<open>packages/adapter-openai\<close>, \<open>adapter-anthropic\<close>,
  \<open>adapter-gemini\<close> and \<open>adapter-grok\<close>, with the contract \<open>ActorAdapter\<close> of
  \<open>packages/core/src/actorAdapter.ts\<close>, and \<open>createAIActor\<close> of \<open>packages/sdk/src/ai.ts\<close>, which chooses
  among them. The providers' own packages are arguments.
\<close>

section \<open>The contract\<close>

record ai_agent_actor =
  aa_id :: string
  aa_modelId :: string
  aa_provider :: string
  aa_confidence :: "jsnum option"
  aa_promptHash :: "string option"
  aa_toolsUsed :: "string list option"

record submission =
  su_actor :: ai_agent_actor
  su_signal :: string
  su_evidence :: jobj

record prompt_signal =
  pg_signalId :: string
  pg_name :: string
  pg_description :: "string option"
  pg_allowedActors :: "string list option"

record prompt_context =
  pc_loopId :: string
  pc_loopName :: string
  pc_currentState :: string
  pc_availableSignals :: "prompt_signal list"
  pc_instruction :: string
  pc_evidence :: "jobj option"

datatype decision_code = InvalidSignal | InvalidConfidence | ParseFailed | ApiError

datatype adapter_error = AdapterError string | ActorDecisionError decision_code js string | ForeignError js

record 'd actor_adapter =
  ap_provider :: string
  ap_model :: string
  ap_createSubmission :: "prompt_context \<Rightarrow> (adapter_error, 'd, submission) eop"

text \<open>
  The host: \<open>JSON.parse\<close> and indented \<open>JSON.stringify\<close>, SHA-256 of the UTF-8 bytes, \<open>randomUUID\<close>, the
  message of a thrown value that is an \<open>Error\<close>; and the providers' packages, which make a client from
  its options: a call of the client takes a request and gives a response, or throws. \<open>ai_text\<close> is
  the method \<open>text()\<close> of a response of Gemini.
\<close>

type_synonym 'd chat_client = "js \<Rightarrow> (js, 'd, js) eop"

record 'd ai_host =
  ai_js :: host
  ai_json :: "string \<Rightarrow> js option"
  ai_stringify :: "js \<Rightarrow> string"
  ai_digest :: "string \<Rightarrow> 8 word list"
  ai_uuid :: "'d \<Rightarrow> string \<times> 'd"
  ai_message :: "js \<Rightarrow> string option"
  ai_openai :: "js \<Rightarrow> 'd chat_client"
  ai_anthropic :: "js \<Rightarrow> 'd chat_client"
  ai_gemini :: "js \<Rightarrow> 'd chat_client"
  ai_text :: "js \<Rightarrow> js + string"

definition sha256_hex :: "'d ai_host \<Rightarrow> string \<Rightarrow> string" where
  "sha256_hex h v = toHex (ai_digest h v)"

definition new_id :: "'d ai_host \<Rightarrow> ('e, 'd, string) eop" where
  "new_id h d = (case ai_uuid h d of (i, d') \<Rightarrow> (Inr i, d'))"

section \<open>Prompts\<close>

definition newline :: string where
  "newline = [char_of (10 :: nat)]"

definition quote :: string where
  "quote = [char_of (34 :: nat)]"

definition backtick :: string where
  "backtick = [char_of (96 :: nat)]"

definition signal_js :: "prompt_signal \<Rightarrow> js" where
  "signal_js s = JObj
     ((''signalId'', JStr (pg_signalId s)) # (''name'', JStr (pg_name s)) #
      js_field ''description'' JStr (pg_description s) @
      js_field ''allowedActors'' (js_array JStr) (pg_allowedActors s))"

definition response_format :: string where
  "response_format = ''{ '' @ quote @ ''signalId'' @ quote @ '': string, '' @ quote @ ''reasoning'' @ quote @
     '': string, '' @ quote @ ''confidence'' @ quote @ '': number, '' @ quote @ ''dataPoints'' @ quote @
     ''?: object }''"

definition prompt_lines :: "'d ai_host \<Rightarrow> string \<Rightarrow> prompt_context \<Rightarrow> string list" where
  "prompt_lines h state_label c =
     [state_label @ pc_currentState c,
      ''Available signals: '' @ ai_stringify h (js_array signal_js (pc_availableSignals c)),
      ''Evidence: '' @ ai_stringify h (JObj (or_default (pc_evidence c) [])),
      ''Instruction: '' @ pc_instruction c]"

definition buildSystemPrompt :: string where
  "buildSystemPrompt = join newline
     [''You are an AI actor operating within a governed workflow loop.'',
      ''Respond with a valid JSON object only. No markdown, no preamble, no text outside the JSON.'',
      ''Your response must be: '' @ response_format,
      backtick @ ''signalId'' @ backtick @ '' must be one of the signals listed in the user message'' @
        [char_of (39 :: nat)] @ ''s availableSignals array.'']"

definition buildUserPrompt :: "'d ai_host \<Rightarrow> prompt_context \<Rightarrow> string" where
  "buildUserPrompt h c = join newline (prompt_lines h ''Current state: '' c)"

section \<open>Decoding the answer of a model\<close>

record model_output =
  mo_signalId :: string
  mo_reasoning :: string
  mo_confidence :: jsnum
  mo_dataPoints :: "jobj option"

fun asRecord :: "js \<Rightarrow> jobj option" where
  "asRecord (JObj kvs) = Some kvs"
| "asRecord _ = None"

definition known_signal :: "js \<Rightarrow> prompt_context \<Rightarrow> string option" where
  "known_signal v c =
     (case v of
        JStr s \<Rightarrow> if s \<in> set (map pg_signalId (pc_availableSignals c)) then Some s else None
      | _ \<Rightarrow> None)"

definition given_text :: "js \<Rightarrow> string option" where
  "given_text v = (case v of JStr s \<Rightarrow> if trim s = [] then None else Some s | _ \<Rightarrow> None)"

definition given_number :: "js \<Rightarrow> jsnum option" where
  "given_number v = (case v of JNum n \<Rightarrow> if n = NaN then None else Some n | _ \<Rightarrow> None)"

definition out_of_range :: "jsnum \<Rightarrow> bool" where
  "out_of_range n \<longleftrightarrow> num_gt (Fin 0) n \<or> num_gt n (Fin 1)"

text \<open>The decoders of OpenAI and Anthropic differ in the names their messages carry.\<close>

definition parse_model_output ::
    "string \<Rightarrow> string \<Rightarrow> 'd ai_host \<Rightarrow> string \<Rightarrow> prompt_context \<Rightarrow> adapter_error + model_output" where
  "parse_model_output package vendor h rawContent c =
     (let fail = (\<lambda>m. Inl (AdapterError (''[loop-engine/'' @ package @ ''] '' @ m)))
      in case ai_json h rawContent of
           None \<Rightarrow> fail (''Invalid JSON response from '' @ vendor)
         | Some parsed \<Rightarrow>
             (case asRecord parsed of
                None \<Rightarrow> fail (vendor @ '' response must be a JSON object'')
              | Some kvs \<Rightarrow>
                  (case known_signal (obj_get kvs ''signalId'') c of
                     None \<Rightarrow> fail ''Model returned a signalId outside availableSignals''
                   | Some sg \<Rightarrow>
                       (case given_text (obj_get kvs ''reasoning'') of
                          None \<Rightarrow> fail ''Missing required string field: reasoning''
                        | Some reasoning \<Rightarrow>
                            (case given_number (obj_get kvs ''confidence'') of
                               None \<Rightarrow> fail ''Missing required numeric field: confidence''
                             | Some confidence \<Rightarrow>
                                 if out_of_range confidence then fail ''confidence must be between 0 and 1''
                                 else Inr \<lparr>mo_signalId = sg, mo_reasoning = reasoning, mo_confidence = confidence,
                                   mo_dataPoints = asRecord (obj_get kvs ''dataPoints'')\<rparr>)))))"

text \<open>Those of Gemini and Grok have error codes, and look at the confidence before the reasoning.\<close>

definition parse_decision ::
    "string \<Rightarrow> string \<Rightarrow> (string \<Rightarrow> string) \<Rightarrow> 'd ai_host \<Rightarrow> string \<Rightarrow> prompt_context \<Rightarrow> adapter_error + model_output" where
  "parse_decision package vendor clean h raw c =
     (let fail = (\<lambda>code v m. Inl (ActorDecisionError code v (''[loop-engine/'' @ package @ ''] '' @ m)))
      in case ai_json h (clean raw) of
           None \<Rightarrow> fail ParseFailed (JStr raw) (''Could not parse '' @ vendor @ '' response as JSON'')
         | Some parsed \<Rightarrow>
             (case asRecord parsed of
                None \<Rightarrow> fail ParseFailed parsed ''Parsed response must be a JSON object''
              | Some kvs \<Rightarrow>
                  (case known_signal (obj_get kvs ''signalId'') c of
                     None \<Rightarrow> fail InvalidSignal parsed ''Model returned a signalId outside availableSignals''
                   | Some sg \<Rightarrow>
                       (case given_number (obj_get kvs ''confidence'') of
                          None \<Rightarrow> fail InvalidConfidence parsed ''Confidence must be between 0 and 1''
                        | Some confidence \<Rightarrow>
                            if out_of_range confidence
                            then fail InvalidConfidence parsed ''Confidence must be between 0 and 1''
                            else (case given_text (obj_get kvs ''reasoning'') of
                                    None \<Rightarrow> fail ParseFailed parsed ''Reasoning must be a non-empty string''
                                  | Some reasoning \<Rightarrow> Inr
                                      \<lparr>mo_signalId = sg, mo_reasoning = reasoning, mo_confidence = confidence,
                                       mo_dataPoints = asRecord (obj_get kvs ''dataPoints'')\<rparr>)))))"

text \<open>The fences some models put around their JSON.\<close>

definition drop_fence :: "string \<Rightarrow> string \<Rightarrow> string" where
  "drop_fence fence s =
     (if take (length fence) (lower s) = fence then trim_start (drop (length fence) s) else s)"

definition drop_last_fence :: "string \<Rightarrow> string" where
  "drop_last_fence s =
     (let fence = concat (replicate 3 backtick)
      in if ends_with fence s
         then rev (dropWhile js_space (rev (take (length s - 3) s))) else s)"

definition cleanGeminiJsonResponse :: "string \<Rightarrow> string" where
  "cleanGeminiJsonResponse text =
     (let fence = concat (replicate 3 backtick)
      in trim (drop_last_fence (drop_fence fence (drop_fence (fence @ ''json'') text))))"

section \<open>OpenAI and Anthropic\<close>

definition missing_key :: "string \<Rightarrow> string \<Rightarrow> string \<Rightarrow> string" where
  "missing_key package vendor envVar =
     ''[loop-engine/'' @ package @ ''] Missing API key. This is an external provider-backed adapter and sends prompt/evidence context to ''
     @ vendor @ ''. Set '' @ envVar @ '' before creating the adapter.''"

definition requireApiKey :: "string \<Rightarrow> string \<Rightarrow> string \<Rightarrow> string \<Rightarrow> adapter_error + unit" where
  "requireApiKey package vendor apiKey envVar =
     (if trim apiKey = [] then Inl (AdapterError (missing_key package vendor envVar)) else Inr ())"

definition api_call ::
    "'d ai_host \<Rightarrow> string \<Rightarrow> (string \<Rightarrow> adapter_error) \<Rightarrow> (js, 'd, js) eop \<Rightarrow> (adapter_error, 'd, js) eop" where
  "api_call h unknown wrap call =
     op_catch call (\<lambda>e. op_throw (wrap (or_default (ai_message h e) unknown)))"

text \<open>
  What the evidence of \<open>buildAIActorEvidence\<close> becomes: the actor with a fresh identifier, and the
  evidence of the submission.
\<close>

definition number_of :: "js \<Rightarrow> jsnum option" where
  "number_of v = (case v of JNum n \<Rightarrow> Some n | _ \<Rightarrow> None)"

definition given_hash :: "js \<Rightarrow> string option" where
  "given_hash v = (case v of JStr s \<Rightarrow> if s = [] then None else Some s | _ \<Rightarrow> None)"

definition kept :: "string \<Rightarrow> jobj \<Rightarrow> jobj" where
  "kept k ev = (if obj_get ev k = JUndef then [] else [(k, obj_get ev k)])"

definition evidence_actor :: "string \<Rightarrow> string \<Rightarrow> string \<Rightarrow> jobj \<Rightarrow> ai_agent_actor" where
  "evidence_actor i model provider ev =
     \<lparr>aa_id = i, aa_modelId = model, aa_provider = provider,
      aa_confidence = number_of (obj_get ev ''confidence''),
      aa_promptHash = given_hash (obj_get ev ''promptHash''), aa_toolsUsed = None\<rparr>"

definition submitted_evidence :: "jobj \<Rightarrow> jobj" where
  "submitted_evidence ev =
     (''reasoning'', obj_get ev ''reasoning'') # (''confidence'', obj_get ev ''confidence'') #
     kept ''dataPoints'' ev @ kept ''modelResponse'' ev"

definition evidence_params :: "string \<Rightarrow> string \<Rightarrow> model_output \<Rightarrow> js \<Rightarrow> string \<Rightarrow> ai_evidence_params" where
  "evidence_params model provider parsed response prompt =
     \<lparr>aep_modelId = model, aep_provider = provider, aep_reasoning = mo_reasoning parsed,
      aep_confidence = mo_confidence parsed, aep_dataPoints = mo_dataPoints parsed,
      aep_rawResponse = response, aep_prompt = Some prompt\<rparr>"

definition evidence_error :: "js_error \<Rightarrow> adapter_error" where
  "evidence_error e = AdapterError (case e of Error m \<Rightarrow> m | ZodError s \<Rightarrow> s | CanonError m q \<Rightarrow> m)"

definition submit_evidence ::
    "'d ai_host \<Rightarrow> string \<Rightarrow> string \<Rightarrow> model_output \<Rightarrow> js \<Rightarrow> string \<Rightarrow> (adapter_error, 'd, submission) eop" where
  "submit_evidence h model provider parsed response prompt =
     (case buildAIActorEvidence (ai_js h) (sha256_hex h) (evidence_params model provider parsed response prompt) of
        Inl e \<Rightarrow> op_throw (evidence_error e)
      | Inr ev \<Rightarrow> op_bind (new_id h) (\<lambda>i. op_return
          \<lparr>su_actor = evidence_actor i model provider ev, su_signal = mo_signalId parsed,
           su_evidence = submitted_evidence ev\<rparr>))"

text \<open>\<open>response.choices[0]?.message?.content\<close>, thrown on if there are no choices at all.\<close>

definition first_choice :: "js \<Rightarrow> adapter_error + js" where
  "first_choice response =
     (case js_get response ''choices'' of
        JUndef \<Rightarrow> Inl (AdapterError (''Cannot read properties of undefined (reading '' @ [char_of (39::nat)] @
          ''0'' @ [char_of (39::nat)] @ '')''))
      | JArr (x # _) \<Rightarrow> Inr (js_get (js_get x ''message'') ''content'')
      | _ \<Rightarrow> Inr JUndef)"

record 'd openai_options =
  oo_apiKey :: string
  oo_model :: "string option"
  oo_baseURL :: "string option"
  oo_organization :: "string option"
  oo_maxTokens :: "jsnum option"
  oo_temperature :: "jsnum option"
  oo_client :: "'d chat_client option"

definition chat_messages :: "string \<Rightarrow> string \<Rightarrow> js" where
  "chat_messages system user = JArr
     [JObj [(''role'', JStr ''system''), (''content'', JStr system)],
      JObj [(''role'', JStr ''user''), (''content'', JStr user)]]"

definition json_format :: js where
  "json_format = JObj [(''type'', JStr ''json_object'')]"

definition openai_request :: "'d openai_options \<Rightarrow> string \<Rightarrow> string \<Rightarrow> js" where
  "openai_request o' system user = JObj
     [(''model'', JStr (or_default (oo_model o') ''gpt-4o'')),
      (''temperature'', JNum (or_default (oo_temperature o') (Fin 0))),
      (''max_tokens'', JNum (or_default (oo_maxTokens o') (Fin 500))),
      (''response_format'', json_format), (''messages'', chat_messages system user)]"

definition openai_client :: "'d ai_host \<Rightarrow> 'd openai_options \<Rightarrow> 'd chat_client" where
  "openai_client h o' =
     (case oo_client o' of
        Some cl \<Rightarrow> cl
      | None \<Rightarrow> ai_openai h (JObj ((''apiKey'', JStr (oo_apiKey o')) # js_field ''baseURL'' JStr (oo_baseURL o') @
          js_field ''organization'' JStr (oo_organization o'))))"

definition openai_parseModelOutput :: "'d ai_host \<Rightarrow> string \<Rightarrow> prompt_context \<Rightarrow> adapter_error + model_output" where
  "openai_parseModelOutput = parse_model_output ''adapter-openai'' ''OpenAI''"

definition openai_createSubmission ::
    "'d ai_host \<Rightarrow> 'd openai_options \<Rightarrow> prompt_context \<Rightarrow> (adapter_error, 'd, submission) eop" where
  "openai_createSubmission h o' c =
     (let systemPrompt = buildSystemPrompt; userPrompt = buildUserPrompt h c;
          fullPrompt = systemPrompt @ newline @ userPrompt
      in op_bind (api_call h ''Unknown OpenAI error''
           (\<lambda>m. AdapterError (''[loop-engine/adapter-openai] OpenAI API error: '' @ m))
           (openai_client h o' (openai_request o' systemPrompt userPrompt))) (\<lambda>response.
         op_bind (op_result (first_choice response)) (\<lambda>content.
         case given_hash content of
           None \<Rightarrow> op_throw (AdapterError ''[loop-engine/adapter-openai] OpenAI returned no assistant message content'')
         | Some message \<Rightarrow>
             op_bind (op_result (openai_parseModelOutput h message c)) (\<lambda>parsed.
             submit_evidence h (or_default (oo_model o') ''gpt-4o'') ''openai'' parsed response fullPrompt))))"

definition openai_adapter :: "'d ai_host \<Rightarrow> 'd openai_options \<Rightarrow> 'd actor_adapter" where
  "openai_adapter h o' =
     \<lparr>ap_provider = ''openai'', ap_model = or_default (oo_model o') ''gpt-4o'',
      ap_createSubmission = openai_createSubmission h o'\<rparr>"

definition createOpenAIActorAdapter :: "'d ai_host \<Rightarrow> 'd openai_options \<Rightarrow> adapter_error + 'd actor_adapter" where
  "createOpenAIActorAdapter h o' =
     res_bind (requireApiKey ''adapter-openai'' ''OpenAI'' (oo_apiKey o') ''OPENAI_API_KEY'')
       (\<lambda>_. Inr (openai_adapter h o'))"

record 'd anthropic_options =
  an_apiKey :: string
  an_model :: "string option"
  an_baseURL :: "string option"
  an_anthropicVersion :: "string option"
  an_maxTokens :: "jsnum option"
  an_temperature :: "jsnum option"
  an_client :: "'d chat_client option"

definition anthropic_model :: "'d anthropic_options \<Rightarrow> string" where
  "anthropic_model o' = or_default (an_model o') ''claude-3-5-sonnet-latest''"

definition anthropic_request :: "'d anthropic_options \<Rightarrow> string \<Rightarrow> string \<Rightarrow> js" where
  "anthropic_request o' system user = JObj
     [(''model'', JStr (anthropic_model o')),
      (''max_tokens'', JNum (or_default (an_maxTokens o') (Fin 500))),
      (''temperature'', JNum (or_default (an_temperature o') (Fin 0))),
      (''system'', JStr system),
      (''messages'', JArr [JObj [(''role'', JStr ''user''), (''content'', JStr user)]])]"

definition anthropic_client :: "'d ai_host \<Rightarrow> 'd anthropic_options \<Rightarrow> 'd chat_client" where
  "anthropic_client h o' =
     (case an_client o' of
        Some cl \<Rightarrow> cl
      | None \<Rightarrow> ai_anthropic h (JObj ((''apiKey'', JStr (an_apiKey o')) # js_field ''baseURL'' JStr (an_baseURL o') @
          (case nonempty (an_anthropicVersion o') of
             None \<Rightarrow> []
           | Some v \<Rightarrow> [(''defaultHeaders'', JObj [(''anthropic-version'', JStr v)])]))))"

definition anthropic_parseModelOutput :: "'d ai_host \<Rightarrow> string \<Rightarrow> prompt_context \<Rightarrow> adapter_error + model_output" where
  "anthropic_parseModelOutput = parse_model_output ''adapter-anthropic'' ''Anthropic''"

text \<open>The first block of type \<open>text\<close>; the content of a response is an array of blocks.\<close>

definition text_block :: "js \<Rightarrow> js option" where
  "text_block response =
     (case js_get response ''content'' of
        JArr blocks \<Rightarrow> List.find (\<lambda>b. js_get b ''type'' = JStr ''text'') blocks
      | _ \<Rightarrow> None)"

definition anthropic_createSubmission ::
    "'d ai_host \<Rightarrow> 'd anthropic_options \<Rightarrow> prompt_context \<Rightarrow> (adapter_error, 'd, submission) eop" where
  "anthropic_createSubmission h o' c =
     (let systemPrompt = buildSystemPrompt; userPrompt = buildUserPrompt h c;
          fullPrompt = systemPrompt @ newline @ userPrompt
      in op_bind (api_call h ''Unknown Anthropic error''
           (\<lambda>m. AdapterError (''[loop-engine/adapter-anthropic] Anthropic API error: '' @ m))
           (anthropic_client h o' (anthropic_request o' systemPrompt userPrompt))) (\<lambda>response.
         case text_block response of
           None \<Rightarrow> op_throw (AdapterError ''[loop-engine/adapter-anthropic] Anthropic returned no text block'')
         | Some block \<Rightarrow>
             op_bind (op_result (anthropic_parseModelOutput h (js_to_string (ai_js h) (js_get block ''text'')) c)) (\<lambda>parsed.
             submit_evidence h (anthropic_model o') ''anthropic'' parsed response fullPrompt)))"

definition anthropic_adapter :: "'d ai_host \<Rightarrow> 'd anthropic_options \<Rightarrow> 'd actor_adapter" where
  "anthropic_adapter h o' =
     \<lparr>ap_provider = ''anthropic'', ap_model = anthropic_model o',
      ap_createSubmission = anthropic_createSubmission h o'\<rparr>"

definition createAnthropicActorAdapter ::
    "'d ai_host \<Rightarrow> 'd anthropic_options \<Rightarrow> adapter_error + 'd actor_adapter" where
  "createAnthropicActorAdapter h o' =
     res_bind (requireApiKey ''adapter-anthropic'' ''Anthropic'' (an_apiKey o') ''ANTHROPIC_API_KEY'')
       (\<lambda>_. Inr (anthropic_adapter h o'))"

section \<open>Gemini and Grok\<close>

definition decisionApiKey :: "string \<Rightarrow> string \<Rightarrow> string \<Rightarrow> string \<Rightarrow> adapter_error + unit" where
  "decisionApiKey package vendor apiKey envVar =
     (if trim apiKey = []
      then Inl (ActorDecisionError ApiError (JStr apiKey) (missing_key package vendor envVar))
      else Inr ())"

definition with_preamble :: "string option \<Rightarrow> string \<Rightarrow> string" where
  "with_preamble systemPrompt required =
     (case nonempty systemPrompt of None \<Rightarrow> required | Some s \<Rightarrow> s @ newline @ required)"

definition decided :: "string \<Rightarrow> string \<Rightarrow> string \<Rightarrow> string \<Rightarrow> model_output \<Rightarrow> js \<Rightarrow> submission" where
  "decided i model provider promptHash decision response =
     \<lparr>su_actor = \<lparr>aa_id = i, aa_modelId = model, aa_provider = provider,
        aa_confidence = Some (mo_confidence decision), aa_promptHash = Some promptHash, aa_toolsUsed = Some []\<rparr>,
      su_signal = mo_signalId decision,
      su_evidence = (''reasoning'', JStr (mo_reasoning decision)) # (''confidence'', JNum (mo_confidence decision)) #
        js_field ''dataPoints'' JObj (mo_dataPoints decision) @ [(''modelResponse'', response)]\<rparr>"

definition decision_api_error :: "string \<Rightarrow> string \<Rightarrow> string \<Rightarrow> adapter_error" where
  "decision_api_error package vendor m =
     ActorDecisionError ApiError (JStr m) (''[loop-engine/'' @ package @ ''] '' @ vendor @ '' API error: '' @ m)"

record gemini_config =
  gm_modelId :: "string option"
  gm_maxOutputTokens :: "jsnum option"
  gm_systemPrompt :: "string option"
  gm_confidenceThreshold :: "jsnum option"

definition gemini_model :: "gemini_config \<Rightarrow> string" where
  "gemini_model cf = or_default (gm_modelId cf) ''gemini-1.5-pro''"

definition gemini_systemInstruction :: "string option \<Rightarrow> string" where
  "gemini_systemInstruction systemPrompt = with_preamble systemPrompt (join newline
     [''You are an AI actor operating within a governed workflow loop.'',
      ''You must respond with valid JSON only. No markdown formatting, no code blocks, no preamble.'',
      ''No text before or after the JSON.'',
      ''Your response must be exactly: '' @ response_format])"

definition gemini_userPrompt :: "'d ai_host \<Rightarrow> prompt_context \<Rightarrow> string" where
  "gemini_userPrompt h c = join newline (prompt_lines h ''Current loop state: '' c @
     [[], ''Respond with JSON only. Choose the most appropriate signalId from'', ''the available signals list.''])"

definition getModel :: "'d ai_host \<Rightarrow> string \<Rightarrow> gemini_config \<Rightarrow> string \<Rightarrow> 'd chat_client" where
  "getModel h apiKey cf systemInstruction = ai_gemini h (JObj
     [(''apiKey'', JStr apiKey), (''model'', JStr (gemini_model cf)),
      (''systemInstruction'', JStr systemInstruction),
      (''generationConfig'', JObj [(''maxOutputTokens'', JNum (or_default (gm_maxOutputTokens cf) (Fin 1024)))])])"

definition gemini_parseDecision :: "'d ai_host \<Rightarrow> string \<Rightarrow> prompt_context \<Rightarrow> adapter_error + model_output" where
  "gemini_parseDecision = parse_decision ''adapter-gemini'' ''Gemini'' cleanGeminiJsonResponse"

definition gemini_createSubmission ::
    "'d ai_host \<Rightarrow> string \<Rightarrow> gemini_config \<Rightarrow> prompt_context \<Rightarrow> (adapter_error, 'd, submission) eop" where
  "gemini_createSubmission h apiKey cf c =
     (let systemInstruction = gemini_systemInstruction (gm_systemPrompt cf);
          userPrompt = gemini_userPrompt h c;
          fullPrompt = systemInstruction @ newline @ userPrompt
      in op_bind (api_call h ''Unknown Gemini API error'' (decision_api_error ''adapter-gemini'' ''Gemini'')
           (getModel h apiKey cf systemInstruction (JStr userPrompt))) (\<lambda>response.
         op_bind (case ai_text h response of Inl e \<Rightarrow> op_throw (ForeignError e) | Inr t \<Rightarrow> op_return t) (\<lambda>text.
         op_bind (op_result (gemini_parseDecision h text c)) (\<lambda>decision.
         op_bind (new_id h) (\<lambda>i.
         op_return (decided i (gemini_model cf) ''gemini'' (sha256_hex h fullPrompt) decision response))))))"

definition gemini_adapter :: "'d ai_host \<Rightarrow> string \<Rightarrow> gemini_config \<Rightarrow> 'd actor_adapter" where
  "gemini_adapter h apiKey cf =
     \<lparr>ap_provider = ''gemini'', ap_model = gemini_model cf,
      ap_createSubmission = gemini_createSubmission h apiKey cf\<rparr>"

definition createGeminiActorAdapter :: "'d ai_host \<Rightarrow> string \<Rightarrow> gemini_config \<Rightarrow> adapter_error + 'd actor_adapter" where
  "createGeminiActorAdapter h apiKey cf =
     res_bind (decisionApiKey ''adapter-gemini'' ''Google Gemini'' apiKey ''GOOGLE_AI_API_KEY'')
       (\<lambda>_. Inr (gemini_adapter h apiKey cf))"

record grok_config =
  gk_modelId :: "string option"
  gk_maxTokens :: "jsnum option"
  gk_systemPrompt :: "string option"
  gk_confidenceThreshold :: "jsnum option"
  gk_baseURL :: "string option"

definition grok_model :: "grok_config \<Rightarrow> string" where
  "grok_model cf = or_default (gk_modelId cf) ''grok-3''"

definition grok_systemPrompt :: "string option \<Rightarrow> string" where
  "grok_systemPrompt systemPrompt = with_preamble systemPrompt (join newline
     [''You are an AI actor operating within a governed workflow loop.'',
      ''You must respond with a valid JSON object only. No markdown, no preamble.'',
      ''Your response must be: '' @ response_format])"

definition grok_userPrompt :: "'d ai_host \<Rightarrow> prompt_context \<Rightarrow> string" where
  "grok_userPrompt h c = join newline (prompt_lines h ''Current state: '' c)"

definition grok_client :: "'d ai_host \<Rightarrow> string \<Rightarrow> grok_config \<Rightarrow> 'd chat_client" where
  "grok_client h apiKey cf = ai_openai h (JObj
     [(''apiKey'', JStr apiKey), (''baseURL'', JStr (or_default (gk_baseURL cf) ''https://api.x.ai/v1''))])"

definition grok_request :: "grok_config \<Rightarrow> string \<Rightarrow> string \<Rightarrow> js" where
  "grok_request cf system user = JObj
     [(''model'', JStr (grok_model cf)), (''response_format'', json_format),
      (''max_tokens'', JNum (or_default (gk_maxTokens cf) (Fin 1024))),
      (''messages'', chat_messages system user)]"

definition grok_parseDecision :: "'d ai_host \<Rightarrow> string \<Rightarrow> prompt_context \<Rightarrow> adapter_error + model_output" where
  "grok_parseDecision = parse_decision ''adapter-grok'' ''Grok'' (\<lambda>raw. raw)"

definition grok_createSubmission ::
    "'d ai_host \<Rightarrow> string \<Rightarrow> grok_config \<Rightarrow> prompt_context \<Rightarrow> (adapter_error, 'd, submission) eop" where
  "grok_createSubmission h apiKey cf c =
     (let systemPrompt = grok_systemPrompt (gk_systemPrompt cf);
          userPrompt = grok_userPrompt h c;
          fullPrompt = systemPrompt @ newline @ userPrompt
      in op_bind (api_call h ''Unknown xAI error'' (decision_api_error ''adapter-grok'' ''xAI'')
           (grok_client h apiKey cf (grok_request cf systemPrompt userPrompt))) (\<lambda>response.
         op_bind (op_result (first_choice response)) (\<lambda>content.
         case given_hash content of
           None \<Rightarrow> op_throw (ActorDecisionError ParseFailed response
             ''[loop-engine/adapter-grok] Missing message content in response'')
         | Some message \<Rightarrow>
             op_bind (op_result (grok_parseDecision h message c)) (\<lambda>decision.
             op_bind (new_id h) (\<lambda>i.
             op_return (decided i (grok_model cf) ''grok'' (sha256_hex h fullPrompt) decision response))))))"

definition grok_adapter :: "'d ai_host \<Rightarrow> string \<Rightarrow> grok_config \<Rightarrow> 'd actor_adapter" where
  "grok_adapter h apiKey cf =
     \<lparr>ap_provider = ''grok'', ap_model = grok_model cf, ap_createSubmission = grok_createSubmission h apiKey cf\<rparr>"

definition createGrokActorAdapter :: "'d ai_host \<Rightarrow> string \<Rightarrow> grok_config \<Rightarrow> adapter_error + 'd actor_adapter" where
  "createGrokActorAdapter h apiKey cf =
     res_bind (decisionApiKey ''adapter-grok'' ''xAI Grok'' apiKey ''XAI_API_KEY'')
       (\<lambda>_. Inr (grok_adapter h apiKey cf))"

section \<open>Choosing an adapter\<close>

datatype ai_provider = Anthropic | OpenAI | Gemini | Grok

record actor_config =
  ac_provider :: ai_provider
  ac_model :: string
  ac_apiKey :: string
  ac_confidenceThreshold :: "jsnum option"

fun provider_name :: "ai_provider \<Rightarrow> string" where
  "provider_name Anthropic = ''anthropic''"
| "provider_name OpenAI = ''openai''"
| "provider_name Gemini = ''gemini''"
| "provider_name Grok = ''grok''"

fun provider_sdk_package :: "ai_provider \<Rightarrow> string" where
  "provider_sdk_package Anthropic = ''@anthropic-ai/sdk''"
| "provider_sdk_package OpenAI = ''openai''"
| "provider_sdk_package Gemini = ''@google/generative-ai''"
| "provider_sdk_package Grok = ''openai''"

fun adapter_package :: "ai_provider \<Rightarrow> string" where
  "adapter_package Anthropic = ''@loop-engine/adapter-anthropic''"
| "adapter_package OpenAI = ''@loop-engine/adapter-openai''"
| "adapter_package Gemini = ''@loop-engine/adapter-gemini''"
| "adapter_package Grok = ''@loop-engine/adapter-grok''"

fun adapter_factory_export :: "ai_provider \<Rightarrow> string" where
  "adapter_factory_export Anthropic = ''createAnthropicActorAdapter''"
| "adapter_factory_export OpenAI = ''createOpenAIActorAdapter''"
| "adapter_factory_export Gemini = ''createGeminiActorAdapter''"
| "adapter_factory_export Grok = ''createGrokActorAdapter''"

definition validateConfig :: "actor_config \<Rightarrow> adapter_error + unit" where
  "validateConfig cf =
     (if trim (ac_model cf) = []
      then Inl (AdapterError ''@loop-engine/sdk createAIActor requires a non-empty model'')
      else if trim (ac_apiKey cf) = []
      then Inl (AdapterError ''@loop-engine/sdk createAIActor requires a non-empty apiKey'')
      else Inr ())"

text \<open>
  \<open>require\<close>: whether a package resolves, and what loading one gives: an error with its code and
  message, or the functions the module exports. A factory takes an object of options, or a key and
  a configuration.
\<close>

datatype factory_arguments = KeyAndModel string string | KeyThenConfig string string "jsnum option"

record 'd requires =
  rq_resolve :: "string \<Rightarrow> bool"
  rq_load :: "string \<Rightarrow> (string option \<times> string) + (string \<rightharpoonup> (factory_arguments \<Rightarrow> adapter_error + 'd actor_adapter))"

definition assertProviderSdkInstalled :: "'d requires \<Rightarrow> ai_provider \<Rightarrow> adapter_error + unit" where
  "assertProviderSdkInstalled rq p =
     (let sdkPackage = provider_sdk_package p
      in if rq_resolve rq sdkPackage then Inr ()
         else Inl (AdapterError (''@loop-engine/sdk requires '' @ sdkPackage @ '' to use provider '' @
           [char_of (39::nat)] @ provider_name p @ [char_of (39::nat)] @ ''.'' @ newline @
           ''Run: npm install '' @ sdkPackage)))"

definition getAdapterFactory ::
    "'d requires \<Rightarrow> ai_provider \<Rightarrow> adapter_error + (factory_arguments \<Rightarrow> adapter_error + 'd actor_adapter)" where
  "getAdapterFactory rq p =
     (let packageName = adapter_package p; exportName = adapter_factory_export p;
          provider = [char_of (39::nat)] @ provider_name p @ [char_of (39::nat)]
      in case rq_load rq packageName of
           Inl (code, message) \<Rightarrow>
             Inl (AdapterError (if code = Some ''MODULE_NOT_FOUND''
               then ''@loop-engine/sdk could not load '' @ packageName @ '' for provider '' @ provider @ ''.'' @
                 newline @ ''Run: npm install '' @ packageName
               else ''@loop-engine/sdk failed to load '' @ packageName @ '' for provider '' @ provider @ ''. '' @ message))
         | Inr exports \<Rightarrow>
             (case exports exportName of
                None \<Rightarrow> Inl (AdapterError (''@loop-engine/sdk expected '' @ packageName @ '' to export '' @
                  exportName @ '' for provider '' @ provider @ ''.''))
              | Some factory \<Rightarrow> Inr factory))"

definition factory_arguments_of :: "actor_config \<Rightarrow> factory_arguments" where
  "factory_arguments_of cf =
     (if ac_provider cf = Anthropic \<or> ac_provider cf = OpenAI
      then KeyAndModel (trim (ac_apiKey cf)) (trim (ac_model cf))
      else KeyThenConfig (trim (ac_apiKey cf)) (trim (ac_model cf)) (ac_confidenceThreshold cf))"

definition createAIActor :: "'d requires \<Rightarrow> actor_config \<Rightarrow> adapter_error + 'd actor_adapter" where
  "createAIActor rq cf =
     res_bind (validateConfig cf) (\<lambda>_.
     res_bind (assertProviderSdkInstalled rq (ac_provider cf)) (\<lambda>_.
     res_bind (getAdapterFactory rq (ac_provider cf)) (\<lambda>factory.
     factory (factory_arguments_of cf))))"

text \<open>The factories of the four packages, called as \<open>createAIActor\<close> calls them.\<close>

fun adapter_factory :: "'d ai_host \<Rightarrow> ai_provider \<Rightarrow> factory_arguments \<Rightarrow> adapter_error + 'd actor_adapter" where
  "adapter_factory h Anthropic (KeyAndModel key model) = createAnthropicActorAdapter h
     \<lparr>an_apiKey = key, an_model = Some model, an_baseURL = None, an_anthropicVersion = None,
      an_maxTokens = None, an_temperature = None, an_client = None\<rparr>"
| "adapter_factory h OpenAI (KeyAndModel key model) = createOpenAIActorAdapter h
     \<lparr>oo_apiKey = key, oo_model = Some model, oo_baseURL = None, oo_organization = None,
      oo_maxTokens = None, oo_temperature = None, oo_client = None\<rparr>"
| "adapter_factory h Gemini (KeyThenConfig key model threshold) = createGeminiActorAdapter h key
     \<lparr>gm_modelId = Some model, gm_maxOutputTokens = None, gm_systemPrompt = None,
      gm_confidenceThreshold = threshold\<rparr>"
| "adapter_factory h Grok (KeyThenConfig key model threshold) = createGrokActorAdapter h key
     \<lparr>gk_modelId = Some model, gk_maxTokens = None, gk_systemPrompt = None,
      gk_confidenceThreshold = threshold, gk_baseURL = None\<rparr>"
| "adapter_factory h p a = Inl (AdapterError [])"

definition installed :: "'d ai_host \<Rightarrow> 'd requires" where
  "installed h = \<lparr>rq_resolve = (\<lambda>_. True),
     rq_load = (\<lambda>package. case List.find (\<lambda>p. adapter_package p = package) [Anthropic, OpenAI, Gemini, Grok] of
       None \<Rightarrow> Inl (Some ''MODULE_NOT_FOUND'', [])
     | Some p \<Rightarrow> Inr [adapter_factory_export p \<mapsto> adapter_factory h p])\<rparr>"

section \<open>What a submission contains\<close>

text \<open>
  The contract: a submission names a signal that was offered, a confidence between 0 and 1 and a
  reasoning, and the actor is the adapter's model.
\<close>

definition admissible :: "'d actor_adapter \<Rightarrow> prompt_context \<Rightarrow> submission \<Rightarrow> bool" where
  "admissible ap c s \<longleftrightarrow>
     su_signal s \<in> set (map pg_signalId (pc_availableSignals c)) \<and>
     (\<exists>x t. obj_get (su_evidence s) ''confidence'' = JNum (Fin x) \<and> 0 \<le> x \<and> x \<le> 1 \<and>
       aa_confidence (su_actor s) = Some (Fin x) \<and>
       obj_get (su_evidence s) ''reasoning'' = JStr t \<and> trim t \<noteq> []) \<and>
     aa_modelId (su_actor s) = ap_model ap \<and> aa_provider (su_actor s) = ap_provider ap"

locale governed_adapter =
  fixes ap :: "'d actor_adapter"
  assumes submits: "ap_createSubmission ap c d = (Inr s, d') \<Longrightarrow> admissible ap c s"

text \<open>What the decoders let through.\<close>

definition output_ok :: "prompt_context \<Rightarrow> model_output \<Rightarrow> bool" where
  "output_ok c m \<longleftrightarrow> mo_signalId m \<in> set (map pg_signalId (pc_availableSignals c)) \<and>
     trim (mo_reasoning m) \<noteq> [] \<and> (\<exists>x. mo_confidence m = Fin x \<and> 0 \<le> x \<and> x \<le> 1)"

lemma known_signal_Some: "known_signal v c = Some s \<Longrightarrow> s \<in> set (map pg_signalId (pc_availableSignals c))"
  by (auto simp: known_signal_def split: jsval.splits if_splits)

lemma given_text_Some: "given_text v = Some t \<Longrightarrow> trim t \<noteq> []"
  by (auto simp: given_text_def split: jsval.splits if_splits)

lemma in_range: "given_number v = Some n \<Longrightarrow> \<not> out_of_range n \<Longrightarrow> \<exists>x. n = Fin x \<and> 0 \<le> x \<and> x \<le> 1"
  by (cases n) (auto simp: given_number_def out_of_range_def split: jsval.splits if_splits)

lemma parse_model_output_ok: "parse_model_output p v h raw c = Inr m \<Longrightarrow> output_ok c m"
  by (auto simp: parse_model_output_def Let_def output_ok_def split: option.splits if_splits
      dest: known_signal_Some given_text_Some in_range)

lemma parse_decision_ok: "parse_decision p v cl h raw c = Inr m \<Longrightarrow> output_ok c m"
  by (auto simp: parse_decision_def Let_def output_ok_def split: option.splits if_splits
      dest: known_signal_Some given_text_Some in_range)

lemma decided_admissible:
  assumes "output_ok c m" "ap_model ap = model" "ap_provider ap = provider"
  shows "admissible ap c (decided i model provider hash m response)"
  using assms by (auto simp: output_ok_def admissible_def decided_def obj_get_def)

lemma evidence_of_params:
  assumes "buildAIActorEvidence js sha (evidence_params model provider m response prompt) = Inr ev"
  shows "obj_get ev ''confidence'' = JNum (mo_confidence m)" "obj_get ev ''reasoning'' = JStr (mo_reasoning m)"
  using assms by (auto simp: buildAIActorEvidence_def evidence_params_def Let_def obj_get_def split: if_splits)

lemma submit_evidence_admissible:
  assumes "output_ok c m" "ap_model ap = model" "ap_provider ap = provider"
    and "submit_evidence h model provider m response prompt d = (Inr s, d')"
  shows "admissible ap c s"
proof -
  from assms(4) obtain ev i where
    ev: "buildAIActorEvidence (ai_js h) (sha256_hex h) (evidence_params model provider m response prompt) = Inr ev"
    and s: "s = \<lparr>su_actor = evidence_actor i model provider ev, su_signal = mo_signalId m,
      su_evidence = submitted_evidence ev\<rparr>"
    by (auto simp: submit_evidence_def elim!: op_bind_cases split: sum.splits)
  from evidence_of_params[OF ev] assms(1-3) show ?thesis
    by (auto simp: s admissible_def output_ok_def evidence_actor_def submitted_evidence_def number_of_def
        obj_get_def)
qed

lemma decoded_then:
  assumes "\<And>m. r = Inr m \<Longrightarrow> output_ok c m"
    and "\<And>m. output_ok c m \<Longrightarrow> op_ensures (\<lambda>_. True) (f m) Q"
  shows "op_ensures (\<lambda>_. True) (op_bind (op_result r) f) Q"
  by (rule op_ensures_bind[OF op_result_ensures]) (use assms in auto)

lemma evidence_then:
  assumes "output_ok c m" "ap_model ap = model" "ap_provider ap = provider"
  shows "op_ensures (\<lambda>_. True) (submit_evidence h model provider m response prompt) (admissible ap c)"
  using submit_evidence_admissible[OF assms] by (auto simp: op_ensures_def)

lemma decision_then:
  assumes "output_ok c m" "ap_model ap = model" "ap_provider ap = provider"
  shows "op_ensures (\<lambda>_. True)
    (op_bind (new_id h) (\<lambda>i. op_return (decided i model provider hash m response))) (admissible ap c)"
  by (intro asked op_ensures_return decided_admissible assms)

lemmas adapter_defs = openai_adapter_def anthropic_adapter_def gemini_adapter_def grok_adapter_def

lemma openai_submits:
  "op_ensures (\<lambda>_. True) (openai_createSubmission h o' c) (admissible (openai_adapter h o') c)"
  unfolding openai_createSubmission_def Let_def openai_parseModelOutput_def
  by (intro asked) (auto intro!: op_ensures_throw decoded_then evidence_then
      dest: parse_model_output_ok simp: adapter_defs split: option.split)

lemma anthropic_submits:
  "op_ensures (\<lambda>_. True) (anthropic_createSubmission h o' c) (admissible (anthropic_adapter h o') c)"
  unfolding anthropic_createSubmission_def Let_def anthropic_parseModelOutput_def
  by (intro asked) (auto intro!: op_ensures_throw decoded_then evidence_then
      dest: parse_model_output_ok simp: adapter_defs split: option.split)

lemma gemini_submits:
  "op_ensures (\<lambda>_. True) (gemini_createSubmission h key cf c) (admissible (gemini_adapter h key cf) c)"
  unfolding gemini_createSubmission_def Let_def gemini_parseDecision_def
  by (rule asked, rule asked) (auto intro!: decoded_then decision_then dest: parse_decision_ok simp: adapter_defs)

lemma grok_submits:
  "op_ensures (\<lambda>_. True) (grok_createSubmission h key cf c) (admissible (grok_adapter h key cf) c)"
  unfolding grok_createSubmission_def Let_def grok_parseDecision_def
  by (rule asked, rule asked) (auto intro!: op_ensures_throw decoded_then decision_then
      dest: parse_decision_ok simp: adapter_defs split: option.split)

lemma submits_adapter:
  assumes "\<And>c. op_ensures (\<lambda>_. True) (ap_createSubmission ap c) (admissible ap c)"
  shows "governed_adapter ap"
  using op_ensuresD[OF assms] by unfold_locales auto

interpretation openai: governed_adapter "openai_adapter h o'" for h :: "'d ai_host" and o'
  by (rule submits_adapter) (use openai_submits in \<open>simp add: openai_adapter_def\<close>)

interpretation anthropic: governed_adapter "anthropic_adapter h o'" for h :: "'d ai_host" and o'
  by (rule submits_adapter) (use anthropic_submits in \<open>simp add: anthropic_adapter_def\<close>)

interpretation gemini: governed_adapter "gemini_adapter h key cf" for h :: "'d ai_host" and key cf
  by (rule submits_adapter) (use gemini_submits in \<open>simp add: gemini_adapter_def\<close>)

interpretation grok: governed_adapter "grok_adapter h key cf" for h :: "'d ai_host" and key cf
  by (rule submits_adapter) (use grok_submits in \<open>simp add: grok_adapter_def\<close>)

section \<open>What \<open>createAIActor\<close> gives\<close>

lemma adapter_factory_governed:
  assumes "adapter_factory h p args = Inr ap"
  shows "governed_adapter ap \<and> ap_provider ap = provider_name p"
proof -
  from assms have "(\<exists>o'. ap = openai_adapter h o' \<and> p = OpenAI) \<or> (\<exists>o'. ap = anthropic_adapter h o' \<and> p = Anthropic) \<or>
      (\<exists>key cf. ap = gemini_adapter h key cf \<and> p = Gemini) \<or> (\<exists>key cf. ap = grok_adapter h key cf \<and> p = Grok)"
    by (cases "(h, p, args)" rule: adapter_factory.cases)
      (auto simp: createOpenAIActorAdapter_def createAnthropicActorAdapter_def createGeminiActorAdapter_def
        createGrokActorAdapter_def res_simps)
  then show ?thesis
    using openai.governed_adapter_axioms anthropic.governed_adapter_axioms gemini.governed_adapter_axioms
      grok.governed_adapter_axioms by (auto simp: adapter_defs)
qed

lemma installed_factory:
  "getAdapterFactory (installed h) p = Inr (adapter_factory h p)"
  by (cases p) (simp_all add: getAdapterFactory_def installed_def Let_def)

end
