(* ===== verification/Governed_Tool.thy ===== *)
theory Governed_Tool
  imports Lifecycle Progress
begin

text \<open>
  Tools of a language model run under an engine, \<open>packages/adapter-vercel-ai/src\<close>: each call of a
  wrapped tool starts a loop instance and takes it from state to state around the call.
\<close>

section \<open>The bridge to the engine\<close>

datatype tool_error = GovernanceError string | EngineFailed js_error | ToolThrew js

text \<open>The engine's world and the world outside; identifiers of instances come from outside.\<close>

record ('s, 'p, 'd) tool_world =
  tw_engine :: "('s, 'p) world"
  tw_outside :: 'd

definition with_engine ::
    "(js_error, ('s, 'p) world, 'a) eop \<Rightarrow> (tool_error, ('s, 'p, 'd) tool_world, 'a) eop" where
  "with_engine m w =
     (case m (tw_engine w) of
        (Inl e, ew) \<Rightarrow> (Inl (EngineFailed e), w\<lparr>tw_engine := ew\<rparr>)
      | (Inr x, ew) \<Rightarrow> (Inr x, w\<lparr>tw_engine := ew\<rparr>))"

definition with_outside :: "(js, 'd, 'a) eop \<Rightarrow> (tool_error, ('s, 'p, 'd) tool_world, 'a) eop" where
  "with_outside m w =
     (case m (tw_outside w) of
        (Inl e, d) \<Rightarrow> (Inl (ToolThrew e), w\<lparr>tw_outside := d\<rparr>)
      | (Inr x, d) \<Rightarrow> (Inr x, w\<lparr>tw_outside := d\<rparr>))"

definition startGovernedLoop ::
    "('d \<Rightarrow> string \<times> 'd) \<Rightarrow> ('s, 'p) engine \<Rightarrow> loop_definition \<Rightarrow> actor_ref \<Rightarrow>
     (tool_error, ('s, 'p, 'd) tool_world, string) eop" where
  "startGovernedLoop draw eng d actor =
     op_bind (with_outside (\<lambda>o'. case draw o' of (i, o'') \<Rightarrow> (Inr i, o''))) (\<lambda>suffix.
     let instanceId = ''loop_'' @ suffix
     in op_bind (with_engine (start eng
          \<lparr>sp_loopId = def_id d, sp_aggregateId = instanceId, sp_actor = actor, sp_correlationId = None,
           sp_metadata = None\<rparr>)) (\<lambda>_. op_return instanceId))"

fun transition_status_name :: "transition_status \<Rightarrow> string" where
  "transition_status_name Executed = ''executed''"
| "transition_status_name GuardsFailed = ''guard_failed''"
| "transition_status_name Rejected = ''rejected''"
| "transition_status_name PendingApproval = ''pending_approval''"

definition bridge_error :: "string \<Rightarrow> tool_error" where
  "bridge_error m = GovernanceError (''[loop-engine/adapter-vercel-ai] '' @ m)"

definition tool_step :: "string \<Rightarrow> transition_spec \<Rightarrow> actor_ref \<Rightarrow> jobj option \<Rightarrow> transition_params" where
  "tool_step instanceId t actor evidence =
     \<lparr>tp_aggregateId = instanceId, tp_transitionId = tr_id t, tp_actor = actor, tp_evidence = evidence,
      tp_evidenceSnapshots = JUndef, tp_tenantId = None, tp_correlationId = None, tp_constraints = None\<rparr>"

definition settle_transition :: "transition_spec \<Rightarrow> transition_result \<Rightarrow> tool_error + unit" where
  "settle_transition t result =
     (if res_status result = Executed then Inr ()
      else if res_status result = GuardsFailed
      then Inl (bridge_error (''guard failed on '' @ tr_id t @ '': '' @
        (case res_guardFailures result of
           Some (f # _) \<Rightarrow> fl_guardId f
         | _ \<Rightarrow> ''unknown_guard'')))
      else Inl (bridge_error (''transition '' @ tr_id t @ '' returned status '' @
        transition_status_name (res_status result))))"

definition transitionToState ::
    "('s, 'p) engine \<Rightarrow> loop_definition \<Rightarrow> string \<Rightarrow> string \<Rightarrow> actor_ref \<Rightarrow> jobj option \<Rightarrow>
     (tool_error, ('s, 'p, 'd) tool_world, unit) eop" where
  "transitionToState eng d instanceId toState actor evidence w =
     (case getState eng (tw_engine w) instanceId of
        None \<Rightarrow> op_throw (bridge_error (''instance not found for '' @ instanceId)) w
      | Some instance' \<Rightarrow>
          (let current = inst_currentState instance'
           in if current = toState then (Inr (), w)
              else (case List.find (\<lambda>t. tr_from t = current \<and> tr_to t = toState) (def_transitions d) of
                      None \<Rightarrow> op_throw (bridge_error (''missing transition '' @ current @ '' -> '' @ toState @
                        '' in '' @ def_id d)) w
                    | Some t \<Rightarrow>
                        op_bind (with_engine (transition eng (tool_step instanceId t actor evidence))) (\<lambda>result.
                        case settle_transition t result of Inl e \<Rightarrow> op_throw e | Inr _ \<Rightarrow> op_return ()) w)))"

section \<open>The wrapped tool\<close>

record ('s, 'p, 'd) governed_tool_config =
  gt_loopDefinition :: loop_definition
  gt_engine :: "('s, 'p) engine"
  gt_requiresApproval :: "(js \<Rightarrow> bool) option"
  gt_onApprovalRequired :: "(string \<Rightarrow> js \<Rightarrow> (js, 'd, unit) eop) option"
  gt_actor :: actor_ref

definition needs_approval :: "('s, 'p, 'd) governed_tool_config \<Rightarrow> js \<Rightarrow> bool" where
  "needs_approval cf input =
     (case gt_requiresApproval cf of None \<Rightarrow> False | Some f \<Rightarrow> f input)"

definition pending_result :: "string \<Rightarrow> js" where
  "pending_result loopId = JObj [(''status'', JStr ''pending_approval''), (''loopId'', JStr loopId),
     (''message'', JStr ''Awaiting human approval'')]"

definition step_to ::
    "('s, 'p, 'd) governed_tool_config \<Rightarrow> string \<Rightarrow> string \<Rightarrow> jobj option \<Rightarrow>
     (tool_error, ('s, 'p, 'd) tool_world, unit) eop" where
  "step_to cf loopId toState evidence =
     transitionToState (gt_engine cf) (gt_loopDefinition cf) loopId toState (gt_actor cf) evidence"

text \<open>Up to the call of the tool: the answer that approval is needed, or the instance to run in.\<close>

definition before_tool ::
    "('d \<Rightarrow> string \<times> 'd) \<Rightarrow> ('s, 'p, 'd) governed_tool_config \<Rightarrow> js \<Rightarrow>
     (tool_error, ('s, 'p, 'd) tool_world, js + string) eop" where
  "before_tool draw cf input =
     op_bind (startGovernedLoop draw (gt_engine cf) (gt_loopDefinition cf) (gt_actor cf)) (\<lambda>loopId.
     op_bind (step_to cf loopId ''AI_ANALYSIS'' (Some [(''tool_input'', input)])) (\<lambda>_.
     if needs_approval cf input
     then op_bind (step_to cf loopId ''PENDING_HUMAN_APPROVAL''
            (Some [(''reason'', JStr ''requiresApproval returned true'')])) (\<lambda>_.
          op_bind (case gt_onApprovalRequired cf of
              None \<Rightarrow> op_return ()
            | Some f \<Rightarrow> with_outside (f loopId input)) (\<lambda>_.
          op_return (Inl (pending_result loopId))))
     else op_bind (step_to cf loopId ''EXECUTING'' None) (\<lambda>_. op_return (Inr loopId))))"

definition wrapTool ::
    "('d \<Rightarrow> string \<times> 'd) \<Rightarrow> ('s, 'p, 'd) governed_tool_config \<Rightarrow> (js \<Rightarrow> (js, 'd, js) eop) \<Rightarrow> js \<Rightarrow>
     (tool_error, ('s, 'p, 'd) tool_world, js) eop" where
  "wrapTool draw cf execute input =
     op_bind (before_tool draw cf input) (\<lambda>next_step.
     case next_step of
       Inl pending \<Rightarrow> op_return pending
     | Inr loopId \<Rightarrow>
         op_bind (with_outside (execute input)) (\<lambda>output.
         op_bind (step_to cf loopId ''EXECUTED'' (Some [(''tool_output'', output)])) (\<lambda>_.
         op_return output)))"

definition isPendingApprovalResult :: "js \<Rightarrow> bool" where
  "isPendingApprovalResult v \<longleftrightarrow>
     js_get v ''status'' = JStr ''pending_approval'' \<and>
     (case js_get v ''loopId'' of JStr _ \<Rightarrow> True | _ \<Rightarrow> False)"

section \<open>Where the instance is\<close>

text \<open>
  \<open>in_state eng d l s w\<close>: the engine has an instance of the definition under the identifier, in this
  state. The identifiers of the transitions must differ, or the engine could take another transition
  than the one the bridge chose.
\<close>

definition in_state :: "('s, 'p) engine \<Rightarrow> loop_definition \<Rightarrow> string \<Rightarrow> string \<Rightarrow> ('s, 'p, 'd) tool_world \<Rightarrow> bool" where
  "in_state eng d l s w \<longleftrightarrow>
     (\<exists>i. getState eng (tw_engine w) l = Some i \<and> inst_aggregateId i = l \<and>
       inst_loopId i = def_id d \<and> inst_currentState i = s)"

definition tool_definition :: "('s, 'p) engine \<Rightarrow> loop_definition \<Rightarrow> bool" where
  "tool_definition eng d \<longleftrightarrow>
     eng_registry eng (def_id d) = Some d \<and> distinct (map tr_id (def_transitions d))"

lemma with_engine_Inr:
  "with_engine m w = (Inr x, w') \<longleftrightarrow> (\<exists>ew. m (tw_engine w) = (Inr x, ew) \<and> w' = w\<lparr>tw_engine := ew\<rparr>)"
  by (auto simp: with_engine_def split: prod.splits sum.splits)

lemma with_outside_Inr:
  "with_outside m w = (Inr x, w') \<longleftrightarrow> (\<exists>d. m (tw_outside w) = (Inr x, d) \<and> w' = w\<lparr>tw_outside := d\<rparr>)"
  by (auto simp: with_outside_def split: prod.splits sum.splits)

lemma with_outside_keeps: "with_outside m w = (r, w') \<Longrightarrow> tw_engine w' = tw_engine w"
  by (auto simp: with_outside_def split: prod.splits sum.splits)

lemma in_state_engine: "tw_engine w' = tw_engine w \<Longrightarrow> in_state eng d l s w' = in_state eng d l s w"
  by (simp add: in_state_def)

context loop_store
begin

lemma started_in_state:
  assumes "eng_store eng = ops" "tool_definition eng d"
    and "startGovernedLoop draw eng d actor w = (Inr l, w')"
  shows "in_state eng d l (def_initialState d) w'"
proof -
  obtain r1 w1 where step: "with_outside (\<lambda>o'. case draw o' of (i, o'') \<Rightarrow> (Inr i, o'')) w = (r1, w1)"
    by (cases "with_outside (\<lambda>o'. case draw o' of (i, o'') \<Rightarrow> (Inr i, o'')) w")
  with assms(3) obtain suffix where r1: "r1 = Inr suffix"
    by (cases r1) (auto simp: startGovernedLoop_def op_bind_def)
  define p where "p = \<lparr>sp_loopId = def_id d, sp_aggregateId = ''loop_'' @ suffix, sp_actor = actor,
    sp_correlationId = None, sp_metadata = None\<rparr>"
  have run': "op_bind (with_engine (start eng p)) (\<lambda>_. op_return (''loop_'' @ suffix)) w1 = (Inr l, w')"
    using assms(3) unfolding startGovernedLoop_def op_bind_def[of "with_outside _"] step r1 Let_def p_def
    by simp
  then obtain i ew where run: "start eng p (tw_engine w1) = (Inr i, ew)"
    and w': "w' = w1\<lparr>tw_engine := ew\<rparr>" and l: "l = ''loop_'' @ suffix"
    by (auto simp: with_engine_Inr op_return_def elim!: op_bind_cases)
  have p: "sp_loopId p = def_id d" "sp_aggregateId p = l" by (simp_all add: p_def l)
  from start_effect[OF run] p assms(1,2) obtain now where
    "w_store ew = saveInstance ops (initial_instance d p now) (w_store (tw_engine w1))"
    by (auto simp: tool_definition_def)
  then show ?thesis
    using p assms(1) by (simp add: w' in_state_def getState_def get_save)
qed

lemma transition_in_state:
  assumes eng: "eng_store eng = ops" and d: "tool_definition eng d"
    and at_first: "in_state eng d l s w"
    and run: "transitionToState eng d l s' actor evidence w = (Inr (), w')"
  shows "in_state eng d l s' w'"
proof -
  from at_first obtain i where i: "getState eng (tw_engine w) l = Some i" "inst_aggregateId i = l"
    "inst_loopId i = def_id d" "inst_currentState i = s"
    by (auto simp: in_state_def)
  show ?thesis
  proof (cases "s = s'")
    case True
    with run i at_first show ?thesis by (simp add: transitionToState_def Let_def)
  next
    case False
    with run i obtain t result ew where t: "t \<in> set (def_transitions d)" "tr_from t = s" "tr_to t = s'"
      and move: "transition eng (tool_step l t actor evidence) (tw_engine w) = (Inr result, ew)"
      and fin: "settle_transition t result = Inr ()" "w' = w\<lparr>tw_engine := ew\<rparr>"
      by (auto simp: transitionToState_def Let_def with_engine_Inr elim!: op_bind_cases
          split: option.splits sum.splits dest!: find_Some_iff')
    from fin(1) have executed: "res_status result = Executed"
      by (auto simp: settle_transition_def split: if_splits)
    from move obtain d' i' t' sm now ev where c:
      "transition_commits eng (tool_step l t actor evidence) (tw_engine w) ew d' i' t' sm now ev"
      by (cases rule: transition_effect) (use executed in auto)
    then have i': "i' = i" and d': "d' = d"
      using i d eng by (auto simp: transition_commits_def tool_step_def getState_def tool_definition_def)
    have "precheck d i (tool_step l t actor evidence) = Inr t'"
      using c unfolding transition_commits_def i' d' by blast
    then have "List.find (\<lambda>c. tr_id c = tr_id t \<and> tr_from c = tr_from t) (def_transitions d) = Some t'"
      using i t by (simp add: precheck_Inr tool_step_def)
    moreover have "distinct (map tr_id (def_transitions d))" using d by (simp add: tool_definition_def)
    ultimately have t': "t' = t" using find_by_id[OF _ t(1)] by simp
    have "w_store ew = saveTransitionRecord ops (record_of i t (tool_step l t actor evidence) now ev)
        (saveInstance ops (updated_instance d i t now) (w_store (tw_engine w)))"
      using c unfolding transition_commits_def i' d' t' eng by blast
    then show ?thesis
      using i t eng fin(2) by (simp add: in_state_def getState_def get_commit)
  qed
qed

lemma before_tool_runs:
  assumes "eng_store (gt_engine cf) = ops" "tool_definition (gt_engine cf) (gt_loopDefinition cf)"
    and "before_tool draw cf input w = (Inr (Inr l), w')"
  shows "\<not> needs_approval cf input \<and> in_state (gt_engine cf) (gt_loopDefinition cf) l ''EXECUTING'' w'"
proof -
  from assms(3) obtain w1 w2 where
    started: "startGovernedLoop draw (gt_engine cf) (gt_loopDefinition cf) (gt_actor cf) w = (Inr l, w1)"
    and analysed: "step_to cf l ''AI_ANALYSIS'' (Some [(''tool_input'', input)]) w1 = (Inr (), w2)"
    and free: "\<not> needs_approval cf input"
    and executing: "step_to cf l ''EXECUTING'' None w2 = (Inr (), w')"
    by (auto simp: before_tool_def op_return_def elim!: op_bind_cases split: if_splits)
  note move = transition_in_state[OF assms(1,2)]
  from move[OF move[OF started_in_state[OF assms(1,2) started] analysed[unfolded step_to_def]]
      executing[unfolded step_to_def]] free
  show ?thesis by simp
qed

lemma before_tool_waits:
  assumes "eng_store (gt_engine cf) = ops" "tool_definition (gt_engine cf) (gt_loopDefinition cf)"
    and "before_tool draw cf input w = (Inr (Inl p), w')"
  shows "needs_approval cf input \<and> (\<exists>l. p = pending_result l \<and>
    in_state (gt_engine cf) (gt_loopDefinition cf) l ''PENDING_HUMAN_APPROVAL'' w')"
proof -
  from assms(3) obtain l w1 w2 w3 where
    started: "startGovernedLoop draw (gt_engine cf) (gt_loopDefinition cf) (gt_actor cf) w = (Inr l, w1)"
    and analysed: "step_to cf l ''AI_ANALYSIS'' (Some [(''tool_input'', input)]) w1 = (Inr (), w2)"
    and held: "needs_approval cf input" "p = pending_result l"
    and waiting: "step_to cf l ''PENDING_HUMAN_APPROVAL''
      (Some [(''reason'', JStr ''requiresApproval returned true'')]) w2 = (Inr (), w3)"
    and asked: "(case gt_onApprovalRequired cf of None \<Rightarrow> op_return ()
      | Some f \<Rightarrow> with_outside (f l input)) w3 = (Inr (), w')"
    by (auto simp: before_tool_def op_return_def elim!: op_bind_cases split: if_splits)
  note move = transition_in_state[OF assms(1,2)]
  have "in_state (gt_engine cf) (gt_loopDefinition cf) l ''PENDING_HUMAN_APPROVAL'' w3"
    using move[OF move[OF started_in_state[OF assms(1,2) started] analysed[unfolded step_to_def]]
      waiting[unfolded step_to_def]] .
  moreover from asked have "tw_engine w' = tw_engine w3"
    by (auto simp: op_return_def split: option.splits dest: with_outside_keeps)
  ultimately show ?thesis using held in_state_engine by blast
qed

text \<open>
  A call either never asks the tool, whatever the tool is, or asks it while the instance is
  executing.
\<close>

lemma wrapTool_outcome:
  assumes eng: "eng_store (gt_engine cf) = ops" and d: "tool_definition (gt_engine cf) (gt_loopDefinition cf)"
    and run: "wrapTool draw cf execute input w = (r, w')"
  shows "((\<forall>execute'. wrapTool draw cf execute' input w = (r, w')) \<and>
      (\<forall>out. r = Inr out \<longrightarrow> needs_approval cf input \<and> (\<exists>l. out = pending_result l \<and>
        in_state (gt_engine cf) (gt_loopDefinition cf) l ''PENDING_HUMAN_APPROVAL'' w'))) \<or>
    (\<not> needs_approval cf input \<and> (\<exists>l w1. before_tool draw cf input w = (Inr (Inr l), w1) \<and>
      in_state (gt_engine cf) (gt_loopDefinition cf) l ''EXECUTING'' w1 \<and>
      (\<forall>out. r = Inr out \<longrightarrow> fst (execute input (tw_outside w1)) = Inr out \<and>
        in_state (gt_engine cf) (gt_loopDefinition cf) l ''EXECUTED'' w')))"
proof -
  obtain b w1 where b: "before_tool draw cf input w = (b, w1)" by fastforce
  consider e where "b = Inl e" | p where "b = Inr (Inl p)" | l where "b = Inr (Inr l)"
    by (metis sum.exhaust)
  then show ?thesis
  proof cases
    case 1
    with b run show ?thesis by (auto simp: wrapTool_def op_bind_def)
  next
    case 2
    with b run before_tool_waits[OF eng d] show ?thesis by (auto simp: wrapTool_def op_bind_def op_return_def)
  next
    case 3
    with b before_tool_runs[OF eng d] have at_call: "\<not> needs_approval cf input"
      "in_state (gt_engine cf) (gt_loopDefinition cf) l ''EXECUTING'' w1" by auto
    have "fst (execute input (tw_outside w1)) = Inr out \<and>
        in_state (gt_engine cf) (gt_loopDefinition cf) l ''EXECUTED'' w'" if "r = Inr out" for out
    proof -
      from run 3 b that obtain w2 where out: "with_outside (execute input) w1 = (Inr out, w2)"
        and fin: "step_to cf l ''EXECUTED'' (Some [(''tool_output'', out)]) w2 = (Inr (), w')"
        by (auto simp: wrapTool_def op_return_def op_bind_def[of "before_tool draw cf input"] elim!: op_bind_cases)
      have "in_state (gt_engine cf) (gt_loopDefinition cf) l ''EXECUTING'' w2"
        using at_call(2) in_state_engine[OF with_outside_keeps[OF out]] by simp
      from transition_in_state[OF eng d this fin[unfolded step_to_def]] out show ?thesis
        by (auto simp: with_outside_Inr)
    qed
    with at_call b 3 show ?thesis by blast
  qed
qed

end

end
