(* ===== verification/Integration_Spec.thy ===== *)
theory Integration_Spec
  imports SDK AI_Adapters Governed_Tool Samples
begin

text \<open>
  The properties of what stands between the engine and the world outside: registry clients, the
  assembled system, the actor adapters of the model providers, governed tools.
\<close>

section \<open>Registries\<close>

definition quiet_host :: "unit local_host" where
  "quiet_host = \<lparr>lh_isBrowser = True, lh_readdir = (\<lambda>_ _. (Inr [], ())), lh_read = (\<lambda>_ _. (Inr [], ())),
     lh_exists = (\<lambda>_ _. False), lh_join = (\<lambda>a b. a @ ''/'' @ b), lh_watch = (\<lambda>_ _. (Inr (), ())),
     lh_toISO = (\<lambda>_. (''now'', ())), lh_stringify = def_id, lh_digest = (\<lambda>_. []), lh_yaml = (\<lambda>_. Inr JNull),
     lh_json = (\<lambda>_. Inr JNull), lh_zodMessage = (\<lambda>_. [])\<rparr>"

definition loaded_registry :: "unit local_registry" where
  "loaded_registry = (local_create ())\<lparr>ly_loaded := True\<rparr>"

lemma loaded_registry_sel [simp]:
  "local_ready loaded_registry" "local_lookup loaded_registry = Map.empty"
  by (simp_all add: loaded_registry_def local_ready_def filed_def local_create_def local_lookup_def fun_eq_iff)

text \<open>
  C17. Refinement: a local registry that has been loaded (the state the first call leaves when the
  loops could be read, lemma \<open>ensureLoaded_makes_ready\<close>) is a map from identifiers to definitions. Every
  sequence of get, getVersion, list, register and remove returns, hands out exactly the definitions the map
  holds at each call (all of a domain, for a list) and leaves the map as the sequence of updates
  does, where a register that conflicts (same identifier and version, not forced) changes nothing;
  change callbacks may throw, the clock, the checksum and the collation are arbitrary.
\<close>

theorem local_registry_refines_map:
  fixes collate :: "string \<Rightarrow> 'k::linorder" and h :: "'d local_host"
  assumes "local_ready w"
  shows "\<exists>ds w'. registry_calls (local_ops collate h o') cs w = Some (ds, w') \<and> local_ready w' \<and>
    catalog_run cs (local_lookup w) = (set ds, local_lookup w')"
  using local.calls_view[OF assms] .

theorem local_registry_refines_map_witness:
  "\<exists>ds w'. registry_calls (local_ops (\<lambda>s. length s) quiet_host no_options)
       [Enter sample_loop False, AskLoop ''doc.approval'', Drop ''doc.approval'', AskLoop ''doc.approval'']
       loaded_registry = Some (ds, w') \<and>
     set ds = {sample_loop} \<and> local_lookup w' = Map.empty"
  using local_registry_refines_map[of loaded_registry "\<lambda>s. length s" quiet_host no_options
      "[Enter sample_loop False, AskLoop ''doc.approval'', Drop ''doc.approval'', AskLoop ''doc.approval'']"]
  by (auto simp: conflicting_def sample_loop_def)

text \<open>
  C23. Safety: whatever a registry service answers, the HTTP clients hand out definitions the
  validator accepts only. This holds for every sequence of calls of the v0 client and of the flat
  client that starts with an empty cache, also for what they keep in their caches; definitions
  registered by the caller are assumed valid, as the code does not check these.
\<close>

theorem registries_hand_out_valid_loops:
  fixes net :: "'d registry_net"
  assumes "ops = v0_ops net o1 \<or> ops = http_ops net o2"
    and "rc_cache w = []" "list_all entered_valid cs" "registry_calls ops cs w = Some (ds, w')"
  shows "list_all loop_valid ds \<and> cache_checked w'"
proof -
  have "cache_checked w" using assms(2) by (simp add: cache_checked_def)
  with assms v0.calls_checked flat.calls_checked show ?thesis by blast
qed

definition answering :: "nat \<Rightarrow> 'b \<Rightarrow> (nat, 'b) fetch" where
  "answering status body = (\<lambda>_ _ _ d. (Inr \<lparr>hp_status = status, hp_json = Inr body\<rparr>, Suc d))"

text \<open>A service that lists the sample loop; the world counts the requests.\<close>

definition sample_net :: "nat registry_net" where
  "sample_net = \<lparr>nt_list = (\<lambda>_ _ _ d. (Inl JNull, Suc d)), nt_loop = (\<lambda>_ _ _ d. (Inl JNull, Suc d)),
     nt_artifact = answering 500 JNull, nt_json = answering 200 (JArr [JObj (buildCanonical sample_loop)]),
     nt_url = (\<lambda>u _. Inr u), nt_now = (\<lambda>d. (0, d)), nt_sleep = (\<lambda>_ d. d), nt_stringify = def_id\<rparr>"

definition sample_http :: "nat http_options" where
  "sample_http = \<lparr>ho_baseUrl = ''https://loops.example'', ho_headers = None, ho_timeoutMs = None,
     ho_retries = None, ho_cacheTtlMs = None, ho_onChange = None\<rparr>"

lemma sample_listing:
  "(case registry_calls (http_ops sample_net sample_http) [AskList None, AskLoop ''doc.approval'']
      \<lparr>rc_cache = [], rc_net = 0\<rparr> of
      Some (ds, w) \<Rightarrow> map def_id ds = [''doc.approval'', ''doc.approval''] \<and> rc_net w = 1
    | None \<Rightarrow> False)"
  by code_simp

theorem registries_hand_out_valid_loops_witness:
  "\<exists>ds w'. registry_calls (http_ops sample_net sample_http) [AskList None, AskLoop ''doc.approval'']
     \<lparr>rc_cache = [], rc_net = 0\<rparr> = Some (ds, w') \<and> length ds = 2 \<and> list_all loop_valid ds \<and> cache_checked w'"
proof -
  obtain ds w' where run: "registry_calls (http_ops sample_net sample_http) [AskList None, AskLoop ''doc.approval'']
      \<lparr>rc_cache = [], rc_net = 0\<rparr> = Some (ds, w')" and ids: "map def_id ds = [''doc.approval'', ''doc.approval'']"
    using sample_listing by (auto split: option.splits)
  have "list_all loop_valid ds \<and> cache_checked w'"
    by (rule registries_hand_out_valid_loops[OF disjI2[OF refl] _ _ run]) simp_all
  with run arg_cong[OF ids, of length] show ?thesis by simp
qed

text \<open>
  C25. Bounds: \<open>fetchWithRetry\<close> with a non-negative number of retries makes at least one request
  and at most one more than the retries, waits 200, 400, 800 \<dots> milliseconds between them, so less
  than 200 times 2 to the retries in all, returns an answer with a status below 500, and throws only
  after the last request allowed. Requests and waiting time are counted by any two functions of the
  world that count these and nothing else.
\<close>

theorem fetch_retries_bounded:
  fixes requests :: "'d \<Rightarrow> nat" and waited :: "'d \<Rightarrow> nat"
  assumes "\<And>d. requests (snd (request d)) = Suc (requests d)" "\<And>d. waited (snd (request d)) = waited d"
    and "\<And>ms d. requests (sleep ms d) = requests d" "\<And>ms d. waited (sleep ms d) = waited d + ms"
    and "0 \<le> retries" "fetchWithRetry sleep baseUrl retries url request d = (r, d')"
  shows "\<exists>n. 1 \<le> n \<and> n \<le> Suc (nat retries) \<and> requests d' = requests d + n \<and>
    waited d' = waited d + 200 * (2 ^ (n - 1) - 1) \<and>
    (case r of Inl e \<Rightarrow> n = Suc (nat retries) | Inr x \<Rightarrow> hp_status x < 500)"
proof -
  from assms(5,6) have "attempts sleep url request 0 (nat retries) d = (r, d')"
    by (simp add: fetchWithRetry_def)
  from attempts_bounded[OF assms(1-4) this] show ?thesis
    by (intro exI[of _ "requests d' - requests d"]) (auto split: sum.splits)
qed

definition busy :: "nat \<times> nat \<Rightarrow> (js + unit response) \<times> nat \<times> nat" where
  "busy = (\<lambda>(n, ms). (Inr \<lparr>hp_status = (if n < 2 then 503 else 200), hp_json = Inr ()\<rparr>, (Suc n, ms)))"

theorem fetch_retries_bounded_witness:
  "\<exists>r n ms. fetchWithRetry (\<lambda>t (n, ms). (n, ms + t)) ''u'' 2 ''u'' busy (0, 0) = (Inr r, (n, ms)) \<and>
     hp_status r < 500 \<and> n = 3 \<and> ms = 600"
proof -
  have run: "fetchWithRetry (\<lambda>t (n, ms). (n, ms + t)) ''u'' 2 ''u'' busy (0, 0) =
      (Inr \<lparr>hp_status = 200, hp_json = Inr ()\<rparr>, (3, 600))"
    by (simp add: fetchWithRetry_def busy_def numeral_eq_Suc)
  from fetch_retries_bounded[where requests = fst and waited = snd, OF _ _ _ _ _ run] run
  show ?thesis by (auto simp: busy_def split: prod.splits)
qed

section \<open>The assembled system\<close>

text \<open>
  C28. Safety: a system that \<open>createLoopSystem\<close> returns works with validated definitions only: after
  any sequence of calls of its engine every stored instance belongs to a definition that the
  validator accepts, that is the caller's (the last given under its identifier) or, if the caller
  gave none, the registry's, and it is in a state this definition declares, completed only in a
  terminal one. Guards, the registry and the calls are arbitrary; the store is the default one.
\<close>

theorem system_instances_declared:
  assumes "createLoopSystem sh (memory_ops, ms_empty) o' w = Some (Inr sys, w')" "so_store o' = None"
    and "w_store ew = ls_store sys" "getState (ls_engine sys) (run_calls (ls_engine sys) cs ew) a = Some i"
  shows "\<exists>rs d. registry_loops (so_registry o') w = Some (rs, w') \<and>
    map_of (map (\<lambda>d. (def_id d, d)) (rev (rs @ so_loops o'))) (inst_loopId i) = Some d \<and>
    loop_valid d \<and> declared d (inst_currentState i) \<and>
    (inst_status i = Completed \<longrightarrow> isTerminal d (inst_currentState i))"
proof -
  obtain rs where rs: "registry_loops (so_registry o') w = Some (rs, w')"
    "list_all loop_valid (mergeDefinitions rs (so_loops o'))"
    "sys = assembled sh (memory_ops, ms_empty) o' (mergeDefinitions rs (so_loops o'))"
    using assms(1) by (auto simp: createLoopSystem_Inr)
  from rs(3) assms(2) have eng: "eng_store (ls_engine sys) = memory_ops" "ls_store sys = ms_empty"
    "eng_registry (ls_engine sys) = mr_get (mergeDefinitions rs (so_loops o'))"
    by (simp_all add: assembled_def or_default_def)
  have "view_ok (eng_registry (ls_engine sys)) (view_of memory_ops (w_store (run_calls (ls_engine sys) cs ew)))"
    using run_view_ok[OF eng(1) system_registry_wf[OF assms(1)]] assms(3) eng(2) by simp
  moreover have "vw_inst (view_of memory_ops (w_store (run_calls (ls_engine sys) cs ew))) a = Some i"
    using assms(4) eng(1) by (simp add: getState_def)
  ultimately have "instance_ok (eng_registry (ls_engine sys)) i" by (blast elim: view_okD)
  then obtain d where d: "eng_registry (ls_engine sys) (inst_loopId i) = Some d"
    "declared d (inst_currentState i)" "inst_status i = Completed \<longrightarrow> isTerminal d (inst_currentState i)"
    by (auto simp: instance_ok_def split: option.splits)
  from d(1) have "loop_valid d"
    using rs(2) unfolding eng(3) by (auto simp: mr_get_def list_all_iff dest!: find_Some_iff')
  with d rs(1) show ?thesis by (auto simp: eng(3) mr_get_merged)
qed

definition sample_options :: "(memory_store, jobj list, registry_error, nat registry_client) system_options" where
  "sample_options = \<lparr>so_loops = [], so_store = None, so_guards = None, so_signals = None,
     so_registry = Some (http_ops sample_net sample_http), so_snapshotStore = None\<rparr>"

definition sample_system_host :: system_host where
  "sample_system_host = \<lparr>sy_host = sample_host, sy_env = sample_env, sy_sha256 = (\<lambda>_. ''hash'')\<rparr>"

definition sample_system :: "(memory_store, jobj list) loop_system option" where
  "sample_system = (case createLoopSystem sample_system_host (memory_ops, ms_empty) sample_options
       \<lparr>rc_cache = [], rc_net = 0\<rparr> of
     Some (Inr sys, _) \<Rightarrow> Some sys
   | _ \<Rightarrow> None)"

lemma sample_system_runs:
  "(case sample_system of
      None \<Rightarrow> False
    | Some sys \<Rightarrow> map_option inst_status
        (getState (ls_engine sys) (run_calls (ls_engine sys) sample_calls
          \<lparr>w_store = ls_store sys, w_snap = [], w_emitted = [], w_tick = 0\<rparr>) ''d1'') = Some Completed)"
  by code_simp

theorem system_instances_declared_witness:
  "\<exists>sys i d. sample_system = Some sys \<and>
     getState (ls_engine sys) (run_calls (ls_engine sys) sample_calls
       \<lparr>w_store = ls_store sys, w_snap = [], w_emitted = [], w_tick = 0\<rparr>) ''d1'' = Some i \<and>
     loop_valid d \<and> isTerminal d (inst_currentState i)"
proof -
  obtain sys i where sys: "sample_system = Some sys"
    and i: "getState (ls_engine sys) (run_calls (ls_engine sys) sample_calls
       \<lparr>w_store = ls_store sys, w_snap = [], w_emitted = [], w_tick = 0\<rparr>) ''d1'' = Some i" "inst_status i = Completed"
    using sample_system_runs by (auto split: option.splits)
  from sys obtain w' where created: "createLoopSystem sample_system_host (memory_ops, ms_empty) sample_options
      \<lparr>rc_cache = [], rc_net = 0\<rparr> = Some (Inr sys, w')"
    by (auto simp: sample_system_def split: option.splits sum.splits)
  from system_instances_declared[OF created _ _ i(1)] i(2) sys i(1)
  show ?thesis by (auto simp: sample_options_def)
qed

section \<open>Actor adapters\<close>

text \<open>
  C32. Type: every submission of an adapter that \<open>createAIActor\<close> gives, whatever the model answers,
  has the shape the engine is promised: the signal is one of those offered, the confidence is a
  number from 0 to 1, in the evidence and on the actor, the reasoning is a text that is not blank,
  the actor carries the adapter's model and provider, and the provider is the one configured. The
  packages are assumed to export the factories of this repository.
\<close>

theorem ai_submission_admissible:
  assumes "getAdapterFactory rq (ac_provider cf) = Inr (adapter_factory h (ac_provider cf))"
    and "createAIActor rq cf = Inr ap" "ap_createSubmission ap c d = (Inr s, d')"
  shows "admissible ap c s \<and> ap_provider ap = provider_name (ac_provider cf)"
proof -
  from assms(1,2) have "adapter_factory h (ac_provider cf) (factory_arguments_of cf) = Inr ap"
    by (auto simp: createAIActor_def res_simps)
  from adapter_factory_governed[OF this] assms(3) show ?thesis by (blast dest: governed_adapter.submits)
qed

definition sample_answer :: js where
  "sample_answer = JObj [(''choices'', JArr [JObj [(''message'', JObj [(''content'', JStr ''{}'')])]])]"

definition sample_decision :: js where
  "sample_decision = JObj [(''signalId'', JStr ''approve''), (''reasoning'', JStr ''fine''),
     (''confidence'', JNum (Fin 1))]"

definition sample_ai_host :: "nat ai_host" where
  "sample_ai_host = \<lparr>ai_js = sample_host, ai_json = (\<lambda>_. Some sample_decision), ai_stringify = (\<lambda>_. ''{}''),
     ai_digest = (\<lambda>_. [1, 2]), ai_uuid = (\<lambda>n. (''id'', Suc n)), ai_message = (\<lambda>_. None),
     ai_openai = (\<lambda>_ _ n. (Inr sample_answer, n)), ai_anthropic = (\<lambda>_ _ n. (Inl JNull, n)),
     ai_gemini = (\<lambda>_ _ n. (Inl JNull, n)), ai_text = (\<lambda>_. Inr ''{}'')\<rparr>"

definition sample_actor_config :: actor_config where
  "sample_actor_config = \<lparr>ac_provider = Grok, ac_model = ''grok-3'', ac_apiKey = ''key'', ac_confidenceThreshold = None\<rparr>"

definition sample_prompt :: prompt_context where
  "sample_prompt = \<lparr>pc_loopId = ''doc.approval'', pc_loopName = ''Approval'', pc_currentState = ''review'',
     pc_availableSignals = [\<lparr>pg_signalId = ''approve'', pg_name = ''Approve'', pg_description = None,
       pg_allowedActors = None\<rparr>],
     pc_instruction = ''decide'', pc_evidence = None\<rparr>"

lemma sample_submission:
  "(case createAIActor (installed sample_ai_host) sample_actor_config of
      Inl _ \<Rightarrow> False
    | Inr ap \<Rightarrow> (case fst (ap_createSubmission ap sample_prompt 0) of
        Inl _ \<Rightarrow> False | Inr s \<Rightarrow> su_signal s = ''approve''))"
  by code_simp

theorem ai_submission_admissible_witness:
  "\<exists>ap s. createAIActor (installed sample_ai_host) sample_actor_config = Inr ap \<and>
     fst (ap_createSubmission ap sample_prompt 0) = Inr s \<and> admissible ap sample_prompt s \<and>
     ap_provider ap = ''grok''"
proof -
  obtain ap s d' where created: "createAIActor (installed sample_ai_host) sample_actor_config = Inr ap"
    and run: "ap_createSubmission ap sample_prompt 0 = (Inr s, d')"
    using sample_submission by (auto split: sum.splits) (metis prod.collapse)
  have "admissible ap sample_prompt s \<and> ap_provider ap = provider_name (ac_provider sample_actor_config)"
    using created run by (rule ai_submission_admissible[OF installed_factory])
  with created run show ?thesis by (simp add: sample_actor_config_def)
qed

section \<open>Governed tools\<close>

text \<open>
  C33. Safety: on an engine with the in-memory store, a wrapped tool is called only if the input needs no approval and while the tool's
  loop instance is in EXECUTING, and a result of the tool is returned only with the instance in
  EXECUTED. In every other case the outcome does not depend on the tool at all: it is an error, or
  the pending answer naming an instance that waits in PENDING_HUMAN_APPROVAL. Guards, the bus, the
  callback and the tool are arbitrary; the identifiers of the definition's transitions must differ.
\<close>

theorem tool_runs_only_when_executing:
  assumes "eng_store (gt_engine cf) = memory_ops" "tool_definition (gt_engine cf) (gt_loopDefinition cf)"
    and "wrapTool draw cf execute input w = (r, w')"
  shows "((\<forall>execute'. wrapTool draw cf execute' input w = (r, w')) \<and>
      (\<forall>out. r = Inr out \<longrightarrow> needs_approval cf input \<and> (\<exists>l. out = pending_result l \<and>
        in_state (gt_engine cf) (gt_loopDefinition cf) l ''PENDING_HUMAN_APPROVAL'' w'))) \<or>
    (\<not> needs_approval cf input \<and> (\<exists>l w1. before_tool draw cf input w = (Inr (Inr l), w1) \<and>
      in_state (gt_engine cf) (gt_loopDefinition cf) l ''EXECUTING'' w1 \<and>
      (\<forall>out. r = Inr out \<longrightarrow> fst (execute input (tw_outside w1)) = Inr out \<and>
        in_state (gt_engine cf) (gt_loopDefinition cf) l ''EXECUTED'' w')))"
  using assms by (rule mem.wrapTool_outcome)

definition tool_transition :: "string \<Rightarrow> string \<Rightarrow> string \<Rightarrow> transition_spec" where
  "tool_transition i from' to' = \<lparr>tr_id = i, tr_from = from', tr_to = to', tr_signal = i, tr_actors = [AiAgent],
     tr_guards = None, tr_description = None, tr_metadata = None\<rparr>"

definition tool_loop :: loop_definition where
  "tool_loop = sample_loop\<lparr>def_states := map (\<lambda>s. sample_state s (s = ''EXECUTED''))
       [''OPEN'', ''AI_ANALYSIS'', ''PENDING_HUMAN_APPROVAL'', ''EXECUTING'', ''EXECUTED''],
     def_initialState := ''OPEN'',
     def_transitions := [tool_transition ''analyse'' ''OPEN'' ''AI_ANALYSIS'',
       tool_transition ''hold'' ''AI_ANALYSIS'' ''PENDING_HUMAN_APPROVAL'',
       tool_transition ''run'' ''AI_ANALYSIS'' ''EXECUTING'',
       tool_transition ''finish'' ''EXECUTING'' ''EXECUTED'']\<rparr>"

definition tool_engine :: "(memory_store, jobj list) engine" where
  "tool_engine = sample_engine\<lparr>eng_registry := [''doc.approval'' \<mapsto> tool_loop]\<rparr>"

definition tool_config :: "(memory_store, jobj list, unit) governed_tool_config" where
  "tool_config = \<lparr>gt_loopDefinition = tool_loop, gt_engine = tool_engine,
     gt_requiresApproval = Some (\<lambda>input. input = JNull), gt_onApprovalRequired = None,
     gt_actor = actor ''model'' AiAgent\<rparr>"

definition tool_start :: "(memory_store, jobj list, unit) tool_world" where
  "tool_start = \<lparr>tw_engine = sample_world, tw_outside = ()\<rparr>"

definition run_tool :: "js \<Rightarrow> (tool_error + js) \<times> (memory_store, jobj list, unit) tool_world" where
  "run_tool input = wrapTool (\<lambda>u. (''1'', u)) tool_config (\<lambda>x u. (Inr (JStr ''done''), u)) input tool_start"

lemma sample_tool_runs: "fst (run_tool (JBool True)) = Inr (JStr ''done'')"
  by code_simp

theorem tool_runs_only_when_executing_witness:
  "\<exists>l w'. run_tool (JBool True) = (Inr (JStr ''done''), w') \<and> in_state tool_engine tool_loop l ''EXECUTED'' w'"
proof -
  obtain w' where run: "run_tool (JBool True) = (Inr (JStr ''done''), w')"
    using sample_tool_runs by (metis prod.collapse)
  have "eng_store (gt_engine tool_config) = memory_ops"
    "tool_definition (gt_engine tool_config) (gt_loopDefinition tool_config)"
    "\<not> needs_approval tool_config (JBool True)"
    by (simp_all add: tool_config_def tool_engine_def tool_definition_def tool_loop_def sample_loop_def
        tool_transition_def needs_approval_def)
  with tool_runs_only_when_executing[OF _ _ run[unfolded run_tool_def]] run show ?thesis
    by (auto simp: tool_config_def)
qed

end
