(* ===== verification/Postgres.thy ===== *)
theory Postgres
  imports Registry Durable_Safety
begin

text \<open>
  The store on a PostgreSQL server, \<open>packages/adapters/postgres/src\<close>: classification of errors, rows
  and their decoding, the five operations of the store, transactions. The server is an argument;
  locale \<open>pg_server\<close> states what its documentation promises of a session.
\<close>

section \<open>Errors\<close>

datatype pg_kind = TransientKind | PermanentKind | UnknownKind

text \<open>
  What is thrown: a \<open>TransactionIntegrityError\<close> with its cause, or whatever the driver threw.
\<close>

datatype pg_thrown = IntegrityError string pg_thrown | DriverThrew js

definition transient_pg_codes :: "string list" where
  "transient_pg_codes = [''40P01'', ''57P01'', ''57P02'', ''57P03'']"

definition transient_connection_codes :: "string list" where
  "transient_connection_codes =
     [''ECONNRESET'', ''ECONNREFUSED'', ''ETIMEDOUT'', ''ENOTFOUND'', ''EHOSTUNREACH'', ''ENETUNREACH'']"

definition connection_terminated :: "string \<Rightarrow> bool" where
  "connection_terminated m \<longleftrightarrow> contains_ci ''connection terminated'' m \<or> contains_ci ''connection ended'' m \<or>
     contains_ci ''connection unexpectedly'' m"

definition sqlstate_shape :: "string \<Rightarrow> bool" where
  "sqlstate_shape c \<longleftrightarrow> length c = 5 \<and>
     list_all (\<lambda>x. let n = (of_char x :: nat) in 48 \<le> n \<and> n \<le> 57 \<or> 65 \<le> n \<and> n \<le> 90) c"

text \<open>The lookups both classifications share, on the code and the message of a thrown value.\<close>

definition code_of :: "js \<Rightarrow> string option" where
  "code_of v = (case js_get v ''code'' of JStr c \<Rightarrow> Some c | _ \<Rightarrow> None)"

definition terminated_of :: "js \<Rightarrow> bool" where
  "terminated_of v \<longleftrightarrow> (case js_get v ''message'' of JStr m \<Rightarrow> connection_terminated m | _ \<Rightarrow> False)"

fun classifyError :: "pg_thrown \<Rightarrow> pg_kind" where
  "classifyError (IntegrityError m cause) = TransientKind"
| "classifyError (DriverThrew v) =
     (if \<not> typeof_object v then UnknownKind
      else (case code_of v of
          Some c \<Rightarrow>
            if c \<in> set transient_pg_codes \<or> c \<in> set transient_connection_codes then TransientKind
            else if sqlstate_shape c then PermanentKind
            else if terminated_of v then TransientKind else UnknownKind
        | None \<Rightarrow> if terminated_of v then TransientKind else UnknownKind))"

definition isTransientError :: "pg_thrown \<Rightarrow> bool" where
  "isTransientError e \<longleftrightarrow> classifyError e = TransientKind"

fun isConnectionError :: "pg_thrown \<Rightarrow> bool" where
  "isConnectionError (IntegrityError m cause) \<longleftrightarrow> connection_terminated m"
| "isConnectionError (DriverThrew v) \<longleftrightarrow> typeof_object v \<and>
     ((case code_of v of
         Some c \<Rightarrow> c \<in> set transient_connection_codes \<or> c \<in> {''57P01'', ''57P02'', ''57P03''}
       | None \<Rightarrow> False) \<or> terminated_of v)"

text \<open>
  The errors it is about, by what they say: a code of a broken connection or of a server that goes
  down or comes up, or one of three phrases in the message.
\<close>

definition reports_lost_connection :: "pg_thrown \<Rightarrow> bool" where
  "reports_lost_connection e \<longleftrightarrow>
     (let phrase = (\<lambda>m. \<exists>t \<in> {''connection terminated'', ''connection ended'', ''connection unexpectedly''}.
        contains_ci t m)
      in case e of
        IntegrityError m _ \<Rightarrow> phrase m
      | DriverThrew v \<Rightarrow> typeof_object v \<and>
          (js_get v ''code'' \<in> JStr ` {''ECONNRESET'', ''ECONNREFUSED'', ''ETIMEDOUT'', ''ENOTFOUND'',
             ''EHOSTUNREACH'', ''ENETUNREACH'', ''57P01'', ''57P02'', ''57P03''} \<or>
           (\<exists>m. js_get v ''message'' = JStr m \<and> phrase m)))"

lemma code_among: "(case code_of v of Some c \<Rightarrow> c \<in> A | None \<Rightarrow> False) \<longleftrightarrow> js_get v ''code'' \<in> JStr ` A"
  by (auto simp: code_of_def split: jsval.splits)

lemma terminated_of_iff: "terminated_of v \<longleftrightarrow> (\<exists>m. js_get v ''message'' = JStr m \<and> connection_terminated m)"
  by (simp add: terminated_of_def split: jsval.splits)

lemma isConnectionError_iff: "isConnectionError e \<longleftrightarrow> reports_lost_connection e"
proof (cases e)
  case (DriverThrew v)
  have codes: "(case code_of v of
         Some c \<Rightarrow> c \<in> set transient_connection_codes \<or> c \<in> {''57P01'', ''57P02'', ''57P03''}
       | None \<Rightarrow> False) \<longleftrightarrow>
      js_get v ''code'' \<in> JStr ` {''ECONNRESET'', ''ECONNREFUSED'', ''ETIMEDOUT'', ''ENOTFOUND'',
         ''EHOSTUNREACH'', ''ENETUNREACH'', ''57P01'', ''57P02'', ''57P03''}"
    unfolding code_among[symmetric] by (simp add: transient_connection_codes_def disj_ac split: option.split)
  from DriverThrew show ?thesis
    unfolding reports_lost_connection_def Let_def DriverThrew isConnectionError.simps pg_thrown.case codes
      terminated_of_iff connection_terminated_def by blast
qed (auto simp: reports_lost_connection_def Let_def connection_terminated_def)

text \<open>The kind of a \<open>PostgresStoreError\<close> made with an optional kind and cause.\<close>

definition store_error_kind :: "pg_kind option \<Rightarrow> pg_thrown option \<Rightarrow> pg_kind" where
  "store_error_kind kind cause =
     (case kind of
        Some k \<Rightarrow> k
      | None \<Rightarrow> (case cause of None \<Rightarrow> UnknownKind | Some e \<Rightarrow> classifyError e))"

text \<open>
  A lost connection is never unclassified, but it can be permanent: a code of five capitals passes
  for an SQLSTATE, whatever it means, before the message is looked at.
\<close>

lemma connection_error_classified: "isConnectionError e \<Longrightarrow> classifyError e \<noteq> UnknownKind"
  by (cases e) (auto simp: transient_pg_codes_def split: option.splits)

lemma broken_pipe_permanent: "classifyError (DriverThrew (JObj [(''code'', JStr ''EPIPE'')])) = PermanentKind"
  by (simp add: typeof_object_def code_of_def obj_get_def transient_pg_codes_def
      transient_connection_codes_def sqlstate_shape_def)

lemma deadlock_transient:
  "code_of v = Some ''40P01'' \<Longrightarrow> typeof_object v \<Longrightarrow> isTransientError (DriverThrew v)"
  by (simp add: isTransientError_def transient_pg_codes_def)

section \<open>Rows\<close>

text \<open>The host: what \<open>new Date\<close> parses, and \<open>toISOString\<close> of a time.\<close>

record pg_host =
  ph_parse :: "string \<Rightarrow> jsnum"
  ph_iso :: "jsnum \<Rightarrow> string"

definition pg_asRecord :: "js \<Rightarrow> js" where
  "pg_asRecord v = (if typeof_object v then v else JObj [])"

definition asString :: "js \<Rightarrow> string" where
  "asString v = (case v of JStr s \<Rightarrow> s | _ \<Rightarrow> [])"

definition asIsoString :: "pg_host \<Rightarrow> js \<Rightarrow> string \<Rightarrow> string" where
  "asIsoString h v fallback =
     (case v of
        JDate t \<Rightarrow> if t = NaN then fallback else ph_iso h t
      | JStr s \<Rightarrow> if s = [] then fallback
                  else if ph_parse h s = NaN then s else ph_iso h (ph_parse h s)
      | _ \<Rightarrow> fallback)"

definition epoch :: "pg_host \<Rightarrow> string" where
  "epoch h = ph_iso h (Fin 0)"

text \<open>
  The decoders give JavaScript objects: their statuses and actors are casts, so any text and any
  object can come out of a row.
\<close>

definition asLoopInstance :: "pg_host \<Rightarrow> js \<Rightarrow> jobj" where
  "asLoopInstance h row =
     (let item = pg_asRecord row; metadata = js_get item ''metadata''
      in [(''loopId'', JStr (asString (js_get item ''loop_id''))),
          (''aggregateId'', JStr (asString (js_get item ''aggregate_id''))),
          (''currentState'', JStr (asString (js_get item ''current_state''))),
          (''status'', JStr (asString (js_get item ''status''))),
          (''startedAt'', JStr (asIsoString h (js_get item ''started_at'') (epoch h))),
          (''updatedAt'', JStr (asIsoString h (js_get item ''updated_at'') (epoch h)))] @
         (if truthy (js_get item ''completed_at'')
          then [(''completedAt'', JStr (asIsoString h (js_get item ''completed_at'') (epoch h)))] else []) @
         (if truthy (js_get item ''correlation_id'')
          then [(''correlationId'', JStr (asString (js_get item ''correlation_id'')))] else []) @
         (if typeof_object metadata then [(''metadata'', metadata)] else []))"

definition asTransitionRecord :: "pg_host \<Rightarrow> js \<Rightarrow> jobj" where
  "asTransitionRecord h row =
     (let item = pg_asRecord row; evidence = js_get item ''evidence''
      in [(''loopId'', JStr (asString (js_get item ''loop_id''))),
          (''aggregateId'', JStr (asString (js_get item ''aggregate_id''))),
          (''transitionId'', JStr (asString (js_get item ''transition_id''))),
          (''signal'', JStr (asString (js_get item ''signal''))),
          (''fromState'', JStr (asString (js_get item ''from_state''))),
          (''toState'', JStr (asString (js_get item ''to_state''))),
          (''actor'', pg_asRecord (js_get item ''actor'')),
          (''occurredAt'', JStr (asIsoString h (js_get item ''occurred_at'') (epoch h)))] @
         (if typeof_object evidence then [(''evidence'', evidence)] else []))"

section \<open>Statements\<close>

text \<open>
  The texts of the statements the package sends, those of migrations with their text; a query has a
  list of parameters and gives rows.
\<close>

datatype pg_query =
    BeginTx | CommitTx | RollbackTx
  | SelectInstance | UpsertInstance | SelectHistory | InsertTransition | SelectOpen
  | LockMigrations | UnlockMigrations | TableExists | SelectApplied | InsertApplied | RunSql string

type_synonym 'd querier = "pg_query \<Rightarrow> js list \<Rightarrow> (pg_thrown, 'd, js list) eop"

definition or_null :: "('a \<Rightarrow> js) \<Rightarrow> 'a option \<Rightarrow> js" where
  "or_null f x = (case x of None \<Rightarrow> JNull | Some y \<Rightarrow> f y)"

definition actor_js :: "actor_ref \<Rightarrow> js" where
  "actor_js a = JObj ((''id'', JStr (actor_id a)) # (''type'', JStr (actor_type_name (actor_type a))) #
     js_field ''displayName'' JStr (actor_displayName a) @ js_field ''metadata'' JObj (actor_metadata a))"

definition instance_params :: "loop_instance \<Rightarrow> js list" where
  "instance_params i =
     [JStr (inst_aggregateId i), JStr (inst_loopId i), JStr (inst_currentState i),
      JStr (loop_status_name (inst_status i)), JStr (inst_startedAt i), JStr (inst_updatedAt i),
      or_null JStr (inst_completedAt i), or_null JStr (inst_correlationId i), or_null JObj (inst_metadata i)]"

definition record_params :: "transition_record \<Rightarrow> js list" where
  "record_params r =
     [JStr (rec_loopId r), JStr (rec_aggregateId r), JStr (rec_transitionId r), JStr (rec_signal r),
      JStr (rec_fromState r), JStr (rec_toState r), actor_js (rec_actor r), or_null JObj (rec_evidence r),
      JStr (rec_occurredAt r)]"

section \<open>The store\<close>

definition pg_getInstance :: "pg_host \<Rightarrow> 'd querier \<Rightarrow> string \<Rightarrow> (pg_thrown, 'd, jobj option) eop" where
  "pg_getInstance h q aggregateId =
     op_bind (q SelectInstance [JStr aggregateId]) (\<lambda>rows.
     op_return (case rows of [] \<Rightarrow> None | row # _ \<Rightarrow> Some (asLoopInstance h row)))"

definition pg_saveInstance :: "'d querier \<Rightarrow> loop_instance \<Rightarrow> (pg_thrown, 'd, unit) eop" where
  "pg_saveInstance q i = op_bind (q UpsertInstance (instance_params i)) (\<lambda>_. op_return ())"

definition pg_getTransitionHistory :: "pg_host \<Rightarrow> 'd querier \<Rightarrow> string \<Rightarrow> (pg_thrown, 'd, jobj list) eop" where
  "pg_getTransitionHistory h q aggregateId =
     op_bind (q SelectHistory [JStr aggregateId]) (\<lambda>rows. op_return (map (asTransitionRecord h) rows))"

definition pg_saveTransitionRecord :: "'d querier \<Rightarrow> transition_record \<Rightarrow> (pg_thrown, 'd, unit) eop" where
  "pg_saveTransitionRecord q r = op_bind (q InsertTransition (record_params r)) (\<lambda>_. op_return ())"

definition pg_listOpenInstances :: "pg_host \<Rightarrow> 'd querier \<Rightarrow> string \<Rightarrow> (pg_thrown, 'd, jobj list) eop" where
  "pg_listOpenInstances h q loopId =
     op_bind (q SelectOpen [JStr loopId]) (\<lambda>rows. op_return (map (asLoopInstance h) rows))"

text \<open>
  A function given to \<open>withTransaction\<close>: it finishes, throws, or calls the store of the transaction
  and goes on with what the call gave or threw.
\<close>

datatype tx_call =
    GetInstance string
  | SaveInstance loop_instance
  | GetHistory string
  | SaveRecord transition_record
  | ListOpen string

datatype store_answer = Found "jobj option" | Listed "jobj list" | Saved

datatype 'a tx_program =
    Finish 'a
  | Fail pg_thrown
  | Call tx_call "pg_thrown + store_answer \<Rightarrow> 'a tx_program"

fun store_call :: "pg_host \<Rightarrow> 'd querier \<Rightarrow> tx_call \<Rightarrow> (pg_thrown, 'd, store_answer) eop" where
  "store_call h q (GetInstance a) = op_map Found (pg_getInstance h q a)"
| "store_call h q (SaveInstance i) = op_map (\<lambda>_. Saved) (pg_saveInstance q i)"
| "store_call h q (GetHistory a) = op_map Listed (pg_getTransitionHistory h q a)"
| "store_call h q (SaveRecord r) = op_map (\<lambda>_. Saved) (pg_saveTransitionRecord q r)"
| "store_call h q (ListOpen l) = op_map Listed (pg_listOpenInstances h q l)"

primrec run_program :: "pg_host \<Rightarrow> 'd querier \<Rightarrow> 'a tx_program \<Rightarrow> (pg_thrown, 'd, 'a) eop" where
  "run_program h q (Finish x) = op_return x"
| "run_program h q (Fail e) = op_throw e"
| "run_program h q (Call c k) =
     (\<lambda>d. case store_call h q c d of (r, d') \<Rightarrow> run_program h q (k r) d')"

text \<open>
  \<open>withTransaction\<close>. Handlers for asynchronous errors and the release of the client have no effect
  on the outcome.
\<close>

definition rollback_after :: "'d querier \<Rightarrow> pg_thrown \<Rightarrow> (pg_thrown, 'd, 'a) eop" where
  "rollback_after q fnErr d =
     (case q RollbackTx [] d of
        (Inl _, d') \<Rightarrow> (Inl (IntegrityError
          ''withTransaction: ROLLBACK failed after fn error; transaction state is indeterminate'' fnErr), d')
      | (Inr _, d') \<Rightarrow> (Inl fnErr, d'))"

definition commit_after :: "'d querier \<Rightarrow> 'a \<Rightarrow> (pg_thrown, 'd, 'a) eop" where
  "commit_after q result d =
     (case q CommitTx [] d of
        (Inl commitErr, d') \<Rightarrow>
          (Inl (if isConnectionError commitErr
                then IntegrityError ''withTransaction: COMMIT failed due to connection issue; transaction state is indeterminate''
                       commitErr
                else commitErr), d')
      | (Inr _, d') \<Rightarrow> (Inr result, d'))"

definition withTransaction ::
    "pg_host \<Rightarrow> (pg_thrown, 'd, unit) eop \<Rightarrow> 'd querier \<Rightarrow> 'a tx_program \<Rightarrow> (pg_thrown, 'd, 'a) eop" where
  "withTransaction h connect q p =
     op_bind connect (\<lambda>_.
     op_bind (q BeginTx []) (\<lambda>_ d.
     case run_program h q p d of
       (Inl fnErr, d') \<Rightarrow> rollback_after q fnErr d'
     | (Inr result, d') \<Rightarrow> commit_after q result d'))"

section \<open>The server\<close>

text \<open>
  The tables as the statements see them. Rows are objects by column, in the order of their
  insertion; \<open>pt_executed\<close> lists the texts of the migrations that ran, of which the schema is a
  consequence; the table of applied migrations may be missing. What the server and the driver make
  of values is given by functions: of a text in a column of type \<open>timestamptz\<close>, of a value in a
  column of type \<open>jsonb\<close>, of times and texts when they are compared, and which migrations create the
  table of migrations.
\<close>

record pg_tables =
  pt_instances :: "jobj list"
  pt_transitions :: "jobj list"
  pt_migrations :: "(string \<times> string) list option"
  pt_executed :: "string list"

record pg_values =
  pv_time :: "js \<Rightarrow> js"
  pv_json :: "js \<Rightarrow> js"
  pv_instant :: "js \<Rightarrow> rat"
  pv_collate :: "js \<Rightarrow> rat"
  pv_creates :: "string \<Rightarrow> bool"

definition time_columns :: "string list" where
  "time_columns = [''started_at'', ''updated_at'', ''completed_at'', ''occurred_at'']"

definition json_columns :: "string list" where
  "json_columns = [''metadata'', ''actor'', ''evidence'']"

definition stored_value :: "pg_values \<Rightarrow> string \<Rightarrow> js \<Rightarrow> js" where
  "stored_value sv c v =
     (if v = JNull then JNull
      else if c \<in> set time_columns then pv_time sv v
      else if c \<in> set json_columns then pv_json sv v
      else v)"

definition stored_row :: "pg_values \<Rightarrow> string list \<Rightarrow> js list \<Rightarrow> jobj" where
  "stored_row sv cs vs = map (\<lambda>(c, v). (c, stored_value sv c v)) (zip cs vs)"

definition instance_columns :: "string list" where
  "instance_columns = [''aggregate_id'', ''loop_id'', ''current_state'', ''status'', ''started_at'',
     ''updated_at'', ''completed_at'', ''correlation_id'', ''metadata'']"

definition transition_columns :: "string list" where
  "transition_columns = [''loop_id'', ''aggregate_id'', ''transition_id'', ''signal'', ''from_state'',
     ''to_state'', ''actor'', ''evidence'', ''occurred_at'']"

fun upsert_row :: "jobj \<Rightarrow> jobj list \<Rightarrow> jobj list" where
  "upsert_row r [] = [r]"
| "upsert_row r (x # xs) =
     (if obj_get x ''aggregate_id'' = obj_get r ''aggregate_id'' then r # xs else x # upsert_row r xs)"

text \<open>What a statement outside the control of transactions does, or nothing where it must fail.\<close>

fun sql_effect :: "pg_values \<Rightarrow> pg_query \<Rightarrow> js list \<Rightarrow> pg_tables \<Rightarrow> pg_tables option" where
  "sql_effect sv UpsertInstance vs t =
     Some (t\<lparr>pt_instances := upsert_row (stored_row sv instance_columns vs) (pt_instances t)\<rparr>)"
| "sql_effect sv InsertTransition vs t =
     Some (t\<lparr>pt_transitions := pt_transitions t @ [stored_row sv transition_columns vs]\<rparr>)"
| "sql_effect sv (RunSql sql) vs t =
     Some (t\<lparr>pt_executed := pt_executed t @ [sql],
       pt_migrations := (if pv_creates sv sql then Some (or_default (pt_migrations t) []) else pt_migrations t)\<rparr>)"
| "sql_effect sv InsertApplied vs t =
     (case (pt_migrations t, vs) of
        (Some ms, [JStr i, JStr c]) \<Rightarrow>
          if i \<in> set (map fst ms) then None else Some (t\<lparr>pt_migrations := Some (ms @ [(i, c)])\<rparr>)
      | _ \<Rightarrow> None)"
| "sql_effect sv SelectApplied vs t = (if pt_migrations t = None then None else Some t)"
| "sql_effect sv q vs t = Some t"

definition column_is :: "string \<Rightarrow> js list \<Rightarrow> jobj \<Rightarrow> bool" where
  "column_is c vs row \<longleftrightarrow> vs \<noteq> [] \<and> obj_get row c = hd vs"

lemma column_is_one: "column_is c [v] = (\<lambda>row. obj_get row c = v)"
  by (simp add: column_is_def fun_eq_iff)

definition applied_rows :: "(string \<times> string) list \<Rightarrow> js list" where
  "applied_rows ms = map (\<lambda>(i, c). JObj [(''id'', JStr i), (''checksum'', JStr c)]) ms"

fun sql_rows :: "pg_values \<Rightarrow> pg_query \<Rightarrow> js list \<Rightarrow> pg_tables \<Rightarrow> js list" where
  "sql_rows sv SelectInstance vs t =
     take 1 (map JObj (filter (column_is ''aggregate_id'' vs) (pt_instances t)))"
| "sql_rows sv SelectHistory vs t =
     map JObj (sort_key (\<lambda>row. pv_instant sv (obj_get row ''occurred_at''))
       (filter (column_is ''aggregate_id'' vs) (pt_transitions t)))"
| "sql_rows sv SelectOpen vs t =
     map JObj (sort_key (\<lambda>row. pv_instant sv (obj_get row ''started_at''))
       (sort_key (\<lambda>row. pv_collate sv (obj_get row ''aggregate_id''))
         (filter (\<lambda>row. column_is ''loop_id'' vs row \<and> obj_get row ''status'' = JStr ''active'') (pt_instances t))))"
| "sql_rows sv TableExists vs t = (if pt_migrations t = None then [] else [JObj [(''?column?'', JNum (Fin 1))]])"
| "sql_rows sv SelectApplied vs t = applied_rows (or_default (pt_migrations t) [])"
| "sql_rows sv q vs t = []"

definition is_statement :: "pg_query \<Rightarrow> bool" where
  "is_statement q \<longleftrightarrow> q \<notin> {BeginTx, CommitTx, RollbackTx}"

text \<open>
  The promises, for a view of the state as the committed tables and the session's transaction: an
  open one sees its own writes, one in which a statement failed is aborted and executes nothing
  more. \<open>COMMIT\<close> of an aborted transaction rolls it back and need not fail. A failed \<open>COMMIT\<close>
  changed nothing, unless the connection was lost; then it may have been done. Which errors stand for
  a lost connection (\<open>lost\<close>) is the driver's matter, not the code's: its own test may miss some.
  Outside a transaction a statement commits by itself.
\<close>

datatype session = Idle | Open pg_tables | Aborted

locale pg_server =
  fixes q :: "'d querier" and connect :: "(pg_thrown, 'd, unit) eop"
    and committed :: "'d \<Rightarrow> pg_tables" and session :: "'d \<Rightarrow> session" and sv :: pg_values
    and lost :: "pg_thrown \<Rightarrow> bool"
  assumes connected: "connect d = (r0, d') \<Longrightarrow>
      committed d' = committed d \<and> (\<forall>x. r0 = Inr x \<longrightarrow> session d' = Idle)"
    and begun: "session d = Idle \<Longrightarrow> q BeginTx [] d = (r, d') \<Longrightarrow> committed d' = committed d \<and>
      session d' = (case r of Inl _ \<Rightarrow> Idle | Inr _ \<Rightarrow> Open (committed d))"
    and in_transaction: "is_statement s \<Longrightarrow> session d = Open t \<Longrightarrow> q s vs d = (r, d') \<Longrightarrow>
      committed d' = committed d \<and>
      (case r of Inl _ \<Rightarrow> session d' = Aborted
       | Inr rows \<Rightarrow> \<exists>t'. sql_effect sv s vs t = Some t' \<and> session d' = Open t' \<and> rows = sql_rows sv s vs t)"
    and when_aborted: "is_statement s \<Longrightarrow> session d = Aborted \<Longrightarrow> q s vs d = (r, d') \<Longrightarrow>
      committed d' = committed d \<and> session d' = Aborted \<and> (\<exists>e. r = Inl e)"
    and alone: "is_statement s \<Longrightarrow> session d = Idle \<Longrightarrow> q s vs d = (r, d') \<Longrightarrow> session d' = Idle \<and>
      (case r of Inl _ \<Rightarrow> committed d' = committed d \<or> sql_effect sv s vs (committed d) = Some (committed d')
       | Inr rows \<Rightarrow> sql_effect sv s vs (committed d) = Some (committed d') \<and>
           rows = sql_rows sv s vs (committed d))"
    and commits: "session d = Open t \<Longrightarrow> q CommitTx [] d = (r, d') \<Longrightarrow> session d' = Idle \<and>
      (case r of Inr _ \<Rightarrow> committed d' = t
       | Inl e \<Rightarrow> committed d' = committed d \<or> lost e \<and> committed d' = t)"
    and commits_aborted: "session d = Aborted \<Longrightarrow> q CommitTx [] d = (r, d') \<Longrightarrow>
      session d' = Idle \<and> committed d' = committed d"
    and rolls_back: "q RollbackTx [] d = (r, d') \<Longrightarrow> committed d' = committed d \<and>
      (\<forall>x. r = Inr x \<longrightarrow> session d' = Idle)"

section \<open>What a transaction does\<close>

text \<open>The store of a transaction and its functions, on tables, when no statement fails.\<close>

fun call_query :: "tx_call \<Rightarrow> pg_query \<times> js list" where
  "call_query (GetInstance a) = (SelectInstance, [JStr a])"
| "call_query (SaveInstance i) = (UpsertInstance, instance_params i)"
| "call_query (GetHistory a) = (SelectHistory, [JStr a])"
| "call_query (SaveRecord r) = (InsertTransition, record_params r)"
| "call_query (ListOpen l) = (SelectOpen, [JStr l])"

fun call_answer :: "pg_host \<Rightarrow> tx_call \<Rightarrow> js list \<Rightarrow> store_answer" where
  "call_answer h (GetInstance a) rows = Found (case rows of [] \<Rightarrow> None | row # _ \<Rightarrow> Some (asLoopInstance h row))"
| "call_answer h (SaveInstance i) rows = Saved"
| "call_answer h (GetHistory a) rows = Listed (map (asTransitionRecord h) rows)"
| "call_answer h (SaveRecord r) rows = Saved"
| "call_answer h (ListOpen l) rows = Listed (map (asLoopInstance h) rows)"

definition spec_call ::
    "pg_host \<Rightarrow> pg_values \<Rightarrow> tx_call \<Rightarrow> pg_tables \<Rightarrow> (store_answer \<times> pg_tables) option" where
  "spec_call h sv c t =
     (case call_query c of (s, vs) \<Rightarrow>
       map_option (\<lambda>t'. (call_answer h c (sql_rows sv s vs t), t')) (sql_effect sv s vs t))"

primrec spec_run ::
    "pg_host \<Rightarrow> pg_values \<Rightarrow> 'a tx_program \<Rightarrow> pg_tables \<Rightarrow> ((pg_thrown + 'a) \<times> pg_tables) option" where
  "spec_run h sv (Finish x) = (\<lambda>t. Some (Inr x, t))"
| "spec_run h sv (Fail e) = (\<lambda>t. Some (Inl e, t))"
| "spec_run h sv (Call c k) =
     (\<lambda>t. case spec_call h sv c t of None \<Rightarrow> None | Some (a, t') \<Rightarrow> spec_run h sv (k (Inr a)) t')"

text \<open>A function that does not swallow what a call of the store throws.\<close>

primrec rethrows :: "'a tx_program \<Rightarrow> bool" where
  "rethrows (Finish x) = True"
| "rethrows (Fail e) = True"
| "rethrows (Call c k) = ((\<forall>e. k (Inl e) = Fail e) \<and> (\<forall>a. rethrows (k (Inr a))))"

lemma store_call_query:
  "store_call h q c = (case call_query c of (s, vs) \<Rightarrow> op_map (call_answer h c) (q s vs))"
  by (cases c) (auto simp: fun_eq_iff op_map_def op_bind_def pg_getInstance_def pg_saveInstance_def
      pg_getTransitionHistory_def pg_saveTransitionRecord_def pg_listOpenInstances_def
      split: prod.splits sum.splits list.splits)

lemma call_query_statement: "call_query c = (s, vs) \<Longrightarrow> is_statement s"
  by (cases c) (auto simp: is_statement_def)

lemma store_call_cases:
  assumes "store_call h q c d = (r, d')"
  obtains s vs r0 where "call_query c = (s, vs)" "q s vs d = (r0, d')" "is_statement s"
    "r = (case r0 of Inl e \<Rightarrow> Inl e | Inr rows \<Rightarrow> Inr (call_answer h c rows))"
proof -
  obtain s vs where c: "call_query c = (s, vs)" by fastforce
  obtain r0 d0 where run: "q s vs d = (r0, d0)" by fastforce
  from assms c run have "d0 = d'" "r = (case r0 of Inl e \<Rightarrow> Inl e | Inr rows \<Rightarrow> Inr (call_answer h c rows))"
    by (auto simp: store_call_query op_map_def op_bind_def split: sum.splits)
  with that[OF c _ call_query_statement[OF c]] run show ?thesis by simp
qed

context pg_server
begin

lemma call_in_transaction:
  assumes "session d = Open t" "store_call h q c d = (r, d')"
  shows "committed d' = committed d \<and>
    (case r of Inl _ \<Rightarrow> session d' = Aborted
     | Inr a \<Rightarrow> \<exists>t'. spec_call h sv c t = Some (a, t') \<and> session d' = Open t')"
  using assms(2)
proof (cases rule: store_call_cases)
  case (1 s vs r0)
  from in_transaction[OF 1(3) assms(1) 1(2)] 1(1,4) show ?thesis
    by (auto simp: spec_call_def split: sum.splits)
qed

lemma call_when_aborted:
  assumes "session d = Aborted" "store_call h q c d = (r, d')"
  shows "committed d' = committed d \<and> session d' = Aborted \<and> (\<exists>e. r = Inl e)"
  using assms(2)
proof (cases rule: store_call_cases)
  case (1 s vs r0)
  from when_aborted[OF 1(3) assms(1) 1(2)] 1(4) show ?thesis by auto
qed

lemma program_when_aborted:
  "session d = Aborted \<Longrightarrow> run_program h q p d = (r, d') \<Longrightarrow>
     committed d' = committed d \<and> session d' = Aborted"
proof (induction p arbitrary: d)
  case (Call c k)
  obtain a d1 where a: "store_call h q c d = (a, d1)" by fastforce
  with call_when_aborted[OF Call.prems(1) a] Call.IH[of "k a" d1] Call.prems(2) show ?case by auto
qed auto

lemma program_in_transaction:
  "session d = Open t \<Longrightarrow> run_program h q p d = (r, d') \<Longrightarrow>
     committed d' = committed d \<and>
     ((\<exists>t'. session d' = Open t' \<and> spec_run h sv p t = Some (r, t')) \<or>
      session d' = Aborted \<and> (rethrows p \<longrightarrow> (\<exists>e. r = Inl e)))"
proof (induction p arbitrary: d t)
  case (Call c k)
  obtain a d1 where a: "store_call h q c d = (a, d1)" by fastforce
  with Call.prems(2) have rest: "run_program h q (k a) d1 = (r, d')" by simp
  note call = call_in_transaction[OF Call.prems(1) a]
  show ?case
  proof (cases a)
    case (Inl e)
    with call have d1: "committed d1 = committed d" "session d1 = Aborted" by auto
    from program_when_aborted[OF d1(2) rest] d1(1) rest Inl show ?thesis by auto
  next
    case (Inr x)
    with call obtain t' where d1: "committed d1 = committed d" "session d1 = Open t'"
      "spec_call h sv c t = Some (x, t')" by auto
    from Call.IH[OF rangeI d1(2) rest] d1(1,3) Inr show ?thesis by auto
  qed
qed auto

text \<open>
  Whatever fails, a transaction is done in full or not at all, and a result means it was done. If an
  error comes although it was done, the connection was lost on \<open>COMMIT\<close>, and that is told where it is
  recognised.
\<close>

theorem transaction_atomic:
  assumes "rethrows p" "withTransaction h connect q p d = (r, d')"
  shows "case r of
      Inr x \<Rightarrow> spec_run h sv p (committed d) = Some (Inr x, committed d')
    | Inl e \<Rightarrow> committed d' = committed d \<or>
        (\<exists>x cause. lost cause \<and> spec_run h sv p (committed d) = Some (Inr x, committed d') \<and>
          (if reports_lost_connection cause then \<exists>m. e = IntegrityError m cause else e = cause))"
proof -
  obtain r1 d1 where c: "connect d = (r1, d1)" by fastforce
  note connected[OF c]
  obtain r2 d2 where b: "q BeginTx [] d1 = (r2, d2)" by fastforce
  show ?thesis
  proof (cases "r1 = Inr () \<and> (\<exists>rows. r2 = Inr rows)")
    case False
    with assms(2) c b connected[OF c] begun[OF _ b] show ?thesis
      by (auto simp: withTransaction_def op_bind_def split: sum.splits prod.splits)
  next
    case True
    then obtain rows where r: "r1 = Inr ()" "r2 = Inr rows" by blast
    obtain r3 d3 where run: "run_program h q p d2 = (r3, d3)" by fastforce
    have d2: "session d2 = Open (committed d)" "committed d2 = committed d"
      using connected[OF c] begun[OF _ b] r by auto
    note prog = program_in_transaction[OF d2(1) run]
    have fin: "(case r3 of Inl fnErr \<Rightarrow> rollback_after q fnErr d3 | Inr x \<Rightarrow> commit_after q x d3) = (r, d')"
      using assms(2) c b r run by (simp add: withTransaction_def op_bind_def split: sum.splits)
    show ?thesis
    proof (cases r3)
      case (Inl e)
      obtain r4 d4 where rb: "q RollbackTx [] d3 = (r4, d4)" by fastforce
      from fin Inl rb rolls_back[OF rb] prog d2(2) show ?thesis
        by (auto simp: rollback_after_def split: sum.splits)
    next
      case (Inr x)
      with prog assms(1) obtain t' where t: "session d3 = Open t'" "committed d3 = committed d"
        "spec_run h sv p (committed d) = Some (Inr x, t')" using d2(2) by auto
      obtain r4 d4 where cm: "q CommitTx [] d3 = (r4, d4)" by fastforce
      show ?thesis
      proof (cases r4)
        case (Inl e)
        with fin \<open>r3 = Inr x\<close> cm have "r = Inl (if reports_lost_connection e then IntegrityError
            ''withTransaction: COMMIT failed due to connection issue; transaction state is indeterminate'' e
            else e)" "d' = d4"
          by (auto simp: commit_after_def isConnectionError_iff)
        with commits[OF t(1) cm] Inl t show ?thesis by (auto split: if_splits intro!: exI[of _ x] exI[of _ e])
      next
        case (Inr rows)
        with fin \<open>r3 = Inr x\<close> cm commits[OF t(1) cm] t show ?thesis by (auto simp: commit_after_def)
      qed
    qed
  qed
qed

text \<open>
  A function that swallows the error of a call can return although nothing of the transaction is
  kept: the server rolls an aborted transaction back on \<open>COMMIT\<close>.
\<close>

lemma aborted_commit_reports_success:
  assumes "session d = Aborted" "q CommitTx [] d = (Inr rows, d')"
  shows "commit_after q x d = (Inr x, d') \<and> committed d' = committed d"
  using assms commits_aborted[OF assms] by (simp add: commit_after_def)

end

section \<open>What is written is read back\<close>

text \<open>The JavaScript objects of an instance and of a record.\<close>

definition instance_js :: "loop_instance \<Rightarrow> jobj" where
  "instance_js i =
     [(''loopId'', JStr (inst_loopId i)), (''aggregateId'', JStr (inst_aggregateId i)),
      (''currentState'', JStr (inst_currentState i)), (''status'', JStr (loop_status_name (inst_status i))),
      (''startedAt'', JStr (inst_startedAt i)), (''updatedAt'', JStr (inst_updatedAt i))] @
     js_field ''completedAt'' JStr (inst_completedAt i) @
     js_field ''correlationId'' JStr (inst_correlationId i) @ js_field ''metadata'' JObj (inst_metadata i)"

definition record_js :: "transition_record \<Rightarrow> jobj" where
  "record_js r =
     [(''loopId'', JStr (rec_loopId r)), (''aggregateId'', JStr (rec_aggregateId r)),
      (''transitionId'', JStr (rec_transitionId r)), (''signal'', JStr (rec_signal r)),
      (''fromState'', JStr (rec_fromState r)), (''toState'', JStr (rec_toState r)),
      (''actor'', actor_js (rec_actor r)), (''occurredAt'', JStr (rec_occurredAt r))] @
     js_field ''evidence'' JObj (rec_evidence r)"

text \<open>
  A time is canonical if the driver makes a valid date of it whose \<open>toISOString\<close> is the same text;
  JSON is kept if the column gives back what was written (it may reorder the keys of an object).
\<close>

definition canonical_time :: "pg_host \<Rightarrow> pg_values \<Rightarrow> string \<Rightarrow> bool" where
  "canonical_time h sv t \<longleftrightarrow>
     (case pv_time sv (JStr t) of JDate x \<Rightarrow> x \<noteq> NaN \<and> ph_iso h x = t | _ \<Rightarrow> False)"

definition json_kept :: "pg_values \<Rightarrow> js \<Rightarrow> bool" where
  "json_kept sv v \<longleftrightarrow> pv_json sv v = v"

definition storable :: "pg_host \<Rightarrow> pg_values \<Rightarrow> loop_instance \<Rightarrow> bool" where
  "storable h sv i \<longleftrightarrow> canonical_time h sv (inst_startedAt i) \<and> canonical_time h sv (inst_updatedAt i) \<and>
     pred_option (canonical_time h sv) (inst_completedAt i) \<and> inst_correlationId i \<noteq> Some [] \<and>
     pred_option (\<lambda>m. json_kept sv (JObj m)) (inst_metadata i)"

definition storable_record :: "pg_host \<Rightarrow> pg_values \<Rightarrow> transition_record \<Rightarrow> bool" where
  "storable_record h sv r \<longleftrightarrow> canonical_time h sv (rec_occurredAt r) \<and> json_kept sv (actor_js (rec_actor r)) \<and>
     pred_option (\<lambda>m. json_kept sv (JObj m)) (rec_evidence r)"

abbreviation pg_instance_row :: "pg_values \<Rightarrow> loop_instance \<Rightarrow> jobj" where
  "pg_instance_row sv i \<equiv> stored_row sv instance_columns (instance_params i)"

abbreviation pg_record_row :: "pg_values \<Rightarrow> transition_record \<Rightarrow> jobj" where
  "pg_record_row sv r \<equiv> stored_row sv transition_columns (record_params r)"

lemmas row_defs = stored_row_def stored_value_def time_columns_def json_columns_def instance_columns_def
  transition_columns_def instance_params_def record_params_def

lemma pg_instance_row_get:
  "obj_get (pg_instance_row sv i) ''aggregate_id'' = JStr (inst_aggregateId i)"
  "obj_get (pg_instance_row sv i) ''loop_id'' = JStr (inst_loopId i)"
  "obj_get (pg_instance_row sv i) ''current_state'' = JStr (inst_currentState i)"
  "obj_get (pg_instance_row sv i) ''status'' = JStr (loop_status_name (inst_status i))"
  "obj_get (pg_instance_row sv i) ''started_at'' = pv_time sv (JStr (inst_startedAt i))"
  "obj_get (pg_instance_row sv i) ''updated_at'' = pv_time sv (JStr (inst_updatedAt i))"
  "obj_get (pg_instance_row sv i) ''completed_at'' = or_null (\<lambda>t. pv_time sv (JStr t)) (inst_completedAt i)"
  "obj_get (pg_instance_row sv i) ''correlation_id'' = or_null JStr (inst_correlationId i)"
  "obj_get (pg_instance_row sv i) ''metadata'' = or_null (\<lambda>m. pv_json sv (JObj m)) (inst_metadata i)"
  by (simp_all add: row_defs obj_get_def or_null_def split: option.split)

lemma pg_record_row_get:
  "obj_get (pg_record_row sv r) ''aggregate_id'' = JStr (rec_aggregateId r)"
  "obj_get (pg_record_row sv r) ''loop_id'' = JStr (rec_loopId r)"
  "obj_get (pg_record_row sv r) ''transition_id'' = JStr (rec_transitionId r)"
  "obj_get (pg_record_row sv r) ''signal'' = JStr (rec_signal r)"
  "obj_get (pg_record_row sv r) ''from_state'' = JStr (rec_fromState r)"
  "obj_get (pg_record_row sv r) ''to_state'' = JStr (rec_toState r)"
  "obj_get (pg_record_row sv r) ''actor'' = pv_json sv (actor_js (rec_actor r))"
  "obj_get (pg_record_row sv r) ''evidence'' = or_null (\<lambda>m. pv_json sv (JObj m)) (rec_evidence r)"
  "obj_get (pg_record_row sv r) ''occurred_at'' = pv_time sv (JStr (rec_occurredAt r))"
  by (simp_all add: row_defs obj_get_def or_null_def actor_js_def split: option.split)

lemma asIsoString_canonical: "canonical_time h sv t \<Longrightarrow> asIsoString h (pv_time sv (JStr t)) e = t"
  by (auto simp: canonical_time_def asIsoString_def split: jsval.splits)

lemma canonical_truthy: "canonical_time h sv t \<Longrightarrow> truthy (pv_time sv (JStr t))"
  by (auto simp: canonical_time_def split: jsval.splits)

lemma decode_instance: "storable h sv i \<Longrightarrow> asLoopInstance h (JObj (pg_instance_row sv i)) = instance_js i"
  by (cases "inst_completedAt i"; cases "inst_correlationId i"; cases "inst_metadata i")
    (simp_all add: asLoopInstance_def Let_def pg_asRecord_def typeof_object_def pg_instance_row_get instance_js_def
      storable_def asIsoString_canonical canonical_truthy[where h = h] json_kept_def or_null_def asString_def js_field_def)

lemma decode_record: "storable_record h sv r \<Longrightarrow> asTransitionRecord h (JObj (pg_record_row sv r)) = record_js r"
  by (cases "rec_evidence r")
    (simp_all add: asTransitionRecord_def Let_def pg_asRecord_def typeof_object_def pg_record_row_get record_js_def
      storable_record_def asIsoString_canonical json_kept_def or_null_def asString_def js_field_def actor_js_def)

abbreviation rows_of :: "string \<Rightarrow> jobj list \<Rightarrow> jobj list" where
  "rows_of a rows \<equiv> filter (\<lambda>row. obj_get row ''aggregate_id'' = JStr a) rows"

lemma rows_of_upsert:
  assumes "obj_get r ''aggregate_id'' = JStr k"
  shows "take 1 (rows_of a (upsert_row r rows)) = (if a = k then [r] else take 1 (rows_of a rows))"
proof -
  have "rows_of a (upsert_row r rows) = rows_of a rows" if "a \<noteq> k"
    using that assms by (induction rows) auto
  moreover have "take 1 (rows_of k (upsert_row r rows)) = [r]"
    using assms by (induction rows) auto
  ultimately show ?thesis by simp
qed

context pg_server
begin

definition shown :: "pg_host \<Rightarrow> 'd \<Rightarrow> string \<Rightarrow> jobj option" where
  "shown h d a = (case rows_of a (pt_instances (committed d)) of [] \<Rightarrow> None | row # _ \<Rightarrow> Some (asLoopInstance h (JObj row)))"

lemma get_shows:
  assumes "session d = Idle" "pg_getInstance h q a d = (Inr found, d')"
  shows "found = shown h d a \<and> committed d' = committed d \<and> session d' = Idle"
proof -
  from assms(2) obtain rows where run: "q SelectInstance [JStr a] d = (Inr rows, d')"
    and found: "found = (case rows of [] \<Rightarrow> None | row # _ \<Rightarrow> Some (asLoopInstance h row))"
    by (auto simp: pg_getInstance_def elim!: op_bind_cases)
  from alone[OF _ assms(1) run] have "rows = take 1 (map JObj (rows_of a (pt_instances (committed d))))"
    "committed d' = committed d" "session d' = Idle"
    by (auto simp: is_statement_def column_is_one)
  with found show ?thesis
    by (cases "rows_of a (pt_instances (committed d))") (simp_all add: shown_def)
qed

lemma save_shows:
  assumes "session d = Idle" "pg_saveInstance q i d = (Inr u, d')" "storable h sv i"
  shows "shown h d' = (shown h d)(inst_aggregateId i \<mapsto> instance_js i) \<and> session d' = Idle"
proof -
  from assms(2) obtain rows where run: "q UpsertInstance (instance_params i) d = (Inr rows, d')"
    by (auto simp: pg_saveInstance_def elim!: op_bind_cases)
  from alone[OF _ assms(1) run] have idle: "session d' = Idle"
    and "sql_effect sv UpsertInstance (instance_params i) (committed d) = Some (committed d')"
    by (auto simp: is_statement_def)
  from arg_cong[OF this(2), of "\<lambda>t. pt_instances (the t)"] this(1) have new: "session d' = Idle"
    "pt_instances (committed d') = upsert_row (pg_instance_row sv i) (pt_instances (committed d))"
    by simp_all
  have "shown h d' a = ((shown h d)(inst_aggregateId i \<mapsto> instance_js i)) a" for a
  proof -
    have take1: "shown h d a = (case take 1 (rows_of a (pt_instances (committed d))) of
        [] \<Rightarrow> None | row # _ \<Rightarrow> Some (asLoopInstance h (JObj row)))" for d
      by (cases "rows_of a (pt_instances (committed d))") (simp_all add: shown_def)
    from rows_of_upsert[OF pg_instance_row_get(1), of a sv i] decode_instance[OF assms(3)]
    show ?thesis by (simp add: take1 new(2) fun_upd_apply)
  qed
  with new(1) show ?thesis by auto
qed

end

section \<open>A server\<close>

text \<open>
  A server that keeps the promises, with the faults of a run given in advance, one for each query:
  it works, is refused with an error, or the connection is lost before or after the work is done,
  which the driver reports with the code of a system error.
\<close>

datatype fault = Works | Refuses js | LosesBefore string | LosesAfter string

record pg_sim =
  si_tables :: pg_tables
  si_session :: session
  si_faults :: "fault list"

definition connection_lost :: "string \<Rightarrow> pg_thrown" where
  "connection_lost code = DriverThrew (JObj [(''code'', JStr code)])"

definition next_fault :: "pg_sim \<Rightarrow> fault" where
  "next_fault w = (case si_faults w of [] \<Rightarrow> Works | f # _ \<Rightarrow> f)"

definition fault_error :: "fault \<Rightarrow> pg_thrown" where
  "fault_error f =
     (case f of
        Refuses v \<Rightarrow> DriverThrew v
      | LosesBefore code \<Rightarrow> connection_lost code
      | LosesAfter code \<Rightarrow> connection_lost code
      | Works \<Rightarrow> DriverThrew (JObj [(''code'', JStr ''23505'')]))"

definition after_fault :: "pg_sim \<Rightarrow> pg_sim" where
  "after_fault w = w\<lparr>si_faults := tl (si_faults w)\<rparr>"

definition sim_connect :: "(pg_thrown, pg_sim, unit) eop" where
  "sim_connect w =
     (if next_fault w = Works then (Inr (), (after_fault w)\<lparr>si_session := Idle\<rparr>)
      else (Inl (fault_error (next_fault w)), after_fault w))"

definition sim_statement :: "pg_values \<Rightarrow> pg_query \<Rightarrow> js list \<Rightarrow> fault \<Rightarrow> (pg_thrown, pg_sim, js list) eop" where
  "sim_statement sv s vs f w =
     (case si_session w of
        Aborted \<Rightarrow> (Inl (DriverThrew (JObj [(''code'', JStr ''25P02'')])), w)
      | Open t \<Rightarrow>
          (case (f, sql_effect sv s vs t) of
             (Works, Some t') \<Rightarrow> (Inr (sql_rows sv s vs t), w\<lparr>si_session := Open t'\<rparr>)
           | _ \<Rightarrow> (Inl (fault_error f), w\<lparr>si_session := Aborted\<rparr>))
      | Idle \<Rightarrow>
          (case (f, sql_effect sv s vs (si_tables w)) of
             (Works, Some t') \<Rightarrow> (Inr (sql_rows sv s vs (si_tables w)), w\<lparr>si_tables := t'\<rparr>)
           | (LosesAfter code, Some t') \<Rightarrow> (Inl (connection_lost code), w\<lparr>si_tables := t'\<rparr>)
           | _ \<Rightarrow> (Inl (fault_error f), w)))"

definition sim_begin :: "fault \<Rightarrow> (pg_thrown, pg_sim, js list) eop" where
  "sim_begin f w =
     (if f \<noteq> Works then (Inl (fault_error f), w)
      else (Inr [], if si_session w = Idle then w\<lparr>si_session := Open (si_tables w)\<rparr> else w))"

definition sim_commit :: "fault \<Rightarrow> (pg_thrown, pg_sim, js list) eop" where
  "sim_commit f w =
     (case si_session w of
        Open t \<Rightarrow>
          (case f of
             Works \<Rightarrow> (Inr [], w\<lparr>si_tables := t, si_session := Idle\<rparr>)
           | LosesAfter code \<Rightarrow> (Inl (connection_lost code), w\<lparr>si_tables := t, si_session := Idle\<rparr>)
           | _ \<Rightarrow> (Inl (fault_error f), w\<lparr>si_session := Idle\<rparr>))
      | _ \<Rightarrow> (Inr [], w\<lparr>si_session := Idle\<rparr>))"

definition sim_rollback :: "fault \<Rightarrow> (pg_thrown, pg_sim, js list) eop" where
  "sim_rollback f w =
     (if f = Works then (Inr [], w\<lparr>si_session := Idle\<rparr>) else (Inl (fault_error f), w))"

definition sim_query :: "pg_values \<Rightarrow> pg_sim querier" where
  "sim_query sv s vs w =
     (let f = next_fault w; w' = after_fault w
      in if s = BeginTx then sim_begin f w' else if s = CommitTx then sim_commit f w'
         else if s = RollbackTx then sim_rollback f w' else sim_statement sv s vs f w')"

lemma after_fault_sel [simp]:
  "si_tables (after_fault w) = si_tables w" "si_session (after_fault w) = si_session w"
  by (simp_all add: after_fault_def)

lemma sim_query_simps:
  "sim_query sv BeginTx [] w = sim_begin (next_fault w) (after_fault w)"
  "sim_query sv CommitTx [] w = sim_commit (next_fault w) (after_fault w)"
  "sim_query sv RollbackTx [] w = sim_rollback (next_fault w) (after_fault w)"
  "is_statement s \<Longrightarrow> sim_query sv s vs w = sim_statement sv s vs (next_fault w) (after_fault w)"
  by (auto simp: sim_query_def Let_def is_statement_def)

interpretation sim: pg_server "sim_query sv" sim_connect si_tables si_session sv
    "\<lambda>e. \<exists>code. e = connection_lost code" for sv
  by unfold_locales
    (auto simp: sim_query_simps sim_connect_def sim_begin_def sim_commit_def sim_rollback_def sim_statement_def
      split: if_splits session.splits fault.splits option.splits prod.splits sum.splits)

end
