(* ===== verification/Migrations.thy ===== *)
theory Migrations
  imports Postgres "HOL-Library.List_Lexorder" "HOL-Library.Char_ord"
begin

text \<open>
  The migration runner \<open>packages/adapters/postgres/src/migrations/runner.ts\<close>: migrations read from a
  directory, applied one transaction each and recorded with their checksums, under an advisory lock.
  Also the options of the pool, \<open>pool.ts\<close>.
\<close>

section \<open>Migrations on disk\<close>

record migration =
  mg_id :: string
  mg_sql :: string
  mg_checksum :: string

text \<open>
  The file system, the hexadecimal SHA-256 of a text, and the directory the package ships.
\<close>

record 'd pg_files =
  pf_default :: string
  pf_join :: "string \<Rightarrow> string \<Rightarrow> string"
  pf_readdir :: "string \<Rightarrow> (pg_thrown, 'd, string list) eop"
  pf_read :: "string \<Rightarrow> (pg_thrown, 'd, string) eop"
  pf_sha256 :: "string \<Rightarrow> string"

definition migration_of :: "'d pg_files \<Rightarrow> string \<Rightarrow> string \<Rightarrow> migration" where
  "migration_of fs file sql =
     \<lparr>mg_id = take (length file - 4) file, mg_sql = sql, mg_checksum = pf_sha256 fs sql\<rparr>"

fun read_migrations :: "'d pg_files \<Rightarrow> string \<Rightarrow> string list \<Rightarrow> (pg_thrown, 'd, migration list) eop" where
  "read_migrations fs dir [] = op_return []"
| "read_migrations fs dir (file # files) =
     op_bind (pf_read fs (pf_join fs dir file)) (\<lambda>sql.
     op_bind (read_migrations fs dir files) (\<lambda>ms. op_return (migration_of fs file sql # ms)))"

definition loadMigrations :: "'d pg_files \<Rightarrow> string option \<Rightarrow> (pg_thrown, 'd, migration list) eop" where
  "loadMigrations fs dir =
     (let resolvedDir = or_default dir (pf_default fs)
      in op_bind (pf_readdir fs resolvedDir) (\<lambda>entries.
         read_migrations fs resolvedDir (sort (filter (ends_with ''.sql'') entries))))"

section \<open>The runner\<close>

definition advisory_lock_key :: js where
  "advisory_lock_key = JStr ''7305716497408247301''"

definition schemaMigrationsTableExists :: "'d querier \<Rightarrow> (pg_thrown, 'd, bool) eop" where
  "schemaMigrationsTableExists q =
     op_bind (q TableExists [JStr ''schema_migrations'']) (\<lambda>rows. op_return (rows \<noteq> []))"

definition loadAppliedMigrations :: "'d querier \<Rightarrow> (pg_thrown, 'd, (js \<times> js) list) eop" where
  "loadAppliedMigrations q =
     op_bind (q SelectApplied []) (\<lambda>rows.
     op_return (obj_spread [] (map (\<lambda>row. (js_get row ''id'', js_get row ''checksum'')) rows)))"

definition applyMigration :: "'d querier \<Rightarrow> migration \<Rightarrow> (pg_thrown, 'd, unit) eop" where
  "applyMigration q m =
     op_bind (q BeginTx []) (\<lambda>_ d.
     case op_bind (q (RunSql (mg_sql m)) []) (\<lambda>_.
          op_bind (q InsertApplied [JStr (mg_id m), JStr (mg_checksum m)]) (\<lambda>_.
          q CommitTx [])) d of
       (Inl err, d') \<Rightarrow> (Inl err, snd (q RollbackTx [] d'))
     | (Inr _, d') \<Rightarrow> (Inr (), d'))"

definition recorded_checksum :: "(js \<times> js) list \<Rightarrow> migration \<Rightarrow> js" where
  "recorded_checksum applied m = (case map_of applied (JStr (mg_id m)) of None \<Rightarrow> JUndef | Some v \<Rightarrow> v)"

definition modified_error :: "migration \<Rightarrow> js \<Rightarrow> pg_thrown" where
  "modified_error m recorded =
     (let quote = [char_of (34 :: nat)]
      in DriverThrew (JObj [(''message'', JStr (join [char_of (10 :: nat)]
        [''[@loop-engine/adapter-postgres] Migration '' @ quote @ mg_id m @ quote @
           '' has been modified since it was applied.'',
         ''  Recorded checksum: '' @ asString recorded,
         ''  Current checksum:  '' @ mg_checksum m,
         [],
         ''Migrations must be immutable after being applied. To change schema,'',
         ''add a new migration file with a later numeric prefix.'']))]))"

fun apply_pending ::
    "'d querier \<Rightarrow> (js \<times> js) list \<Rightarrow> migration list \<Rightarrow> string list \<times> string list \<Rightarrow>
     (pg_thrown, 'd, string list \<times> string list) eop" where
  "apply_pending q alreadyApplied [] acc = op_return acc"
| "apply_pending q alreadyApplied (m # ms) (applied, skipped) =
     (let recorded = recorded_checksum alreadyApplied m
      in if recorded \<noteq> JUndef
         then (if recorded \<noteq> JStr (mg_checksum m) then op_throw (modified_error m recorded)
               else apply_pending q alreadyApplied ms (applied, skipped @ [mg_id m]))
         else op_bind (applyMigration q m) (\<lambda>_.
              apply_pending q alreadyApplied ms (applied @ [mg_id m], skipped)))"

definition migrate :: "'d querier \<Rightarrow> migration list \<Rightarrow> (pg_thrown, 'd, string list \<times> string list) eop" where
  "migrate q ms =
     op_bind (schemaMigrationsTableExists q) (\<lambda>tableExists.
     op_bind (if tableExists then loadAppliedMigrations q else op_return []) (\<lambda>alreadyApplied.
     apply_pending q alreadyApplied ms ([], [])))"

text \<open>The lock is released however the work ends; an error of the release is swallowed.\<close>

definition with_lock :: "'d querier \<Rightarrow> (pg_thrown, 'd, 'a) eop \<Rightarrow> (pg_thrown, 'd, 'a) eop" where
  "with_lock q m =
     op_bind (q LockMigrations [advisory_lock_key]) (\<lambda>_ d.
     case m d of (r, d') \<Rightarrow> (r, snd (q UnlockMigrations [advisory_lock_key] d')))"

definition runMigrations ::
    "(pg_thrown, 'd, unit) eop \<Rightarrow> 'd querier \<Rightarrow> 'd pg_files \<Rightarrow> string option \<Rightarrow>
     (pg_thrown, 'd, string list \<times> string list) eop" where
  "runMigrations connect q fs dir =
     op_bind (loadMigrations fs dir) (\<lambda>migrations.
     if migrations = [] then op_return ([], [])
     else op_bind connect (\<lambda>_. with_lock q (migrate q migrations)))"

definition createSchema ::
    "(pg_thrown, 'd, unit) eop \<Rightarrow> 'd querier \<Rightarrow> 'd pg_files \<Rightarrow> (pg_thrown, 'd, unit) eop" where
  "createSchema connect q fs = op_bind (runMigrations connect q fs None) (\<lambda>_. op_return ())"

section \<open>The pool\<close>

record pool_options =
  po_max :: "int option"
  po_idleTimeoutMillis :: "int option"
  po_connectionTimeoutMillis :: "int option"
  po_statement_timeout :: "int option"
  po_options :: "string option"

text \<open>What is handed to \<open>pg.Pool\<close> besides the options that are passed on as they are.\<close>

record pool_settings =
  ps_max :: int
  ps_idleTimeoutMillis :: int
  ps_connectionTimeoutMillis :: int
  ps_options :: string

definition createPool :: "(int \<Rightarrow> string) \<Rightarrow> pool_options \<Rightarrow> pool_settings" where
  "createPool show_int o' =
     (let statementTimeoutClause =
            ''-c statement_timeout='' @ show_int (or_default (po_statement_timeout o') 30000)
      in \<lparr>ps_max = or_default (po_max o') 10,
          ps_idleTimeoutMillis = or_default (po_idleTimeoutMillis o') 30000,
          ps_connectionTimeoutMillis = or_default (po_connectionTimeoutMillis o') 5000,
          ps_options = (case nonempty (po_options o') of
             None \<Rightarrow> statementTimeoutClause
           | Some consumerOptions \<Rightarrow> consumerOptions @ '' '' @ statementTimeoutClause)\<rparr>)"

section \<open>What is recorded is what ran\<close>

text \<open>
  The recorded migrations in the order of their records, and the ledger: record by record, the
  checksum is that of the text that ran.
\<close>

definition recorded :: "pg_tables \<Rightarrow> (string \<times> string) list" where
  "recorded t = or_default (pt_migrations t) []"

definition ledger_ok :: "(string \<Rightarrow> string) \<Rightarrow> pg_tables \<Rightarrow> bool" where
  "ledger_ok sha t \<longleftrightarrow> map snd (recorded t) = map sha (pt_executed t) \<and> distinct (map fst (recorded t))"

definition entry :: "migration \<Rightarrow> string \<times> string" where
  "entry m = (mg_id m, mg_checksum m)"

definition migrated :: "pg_values \<Rightarrow> migration \<Rightarrow> pg_tables \<Rightarrow> pg_tables option" where
  "migrated sv m t =
     (case sql_effect sv (RunSql (mg_sql m)) [] t of
        None \<Rightarrow> None
      | Some t' \<Rightarrow> sql_effect sv InsertApplied [JStr (mg_id m), JStr (mg_checksum m)] t')"

text \<open>A list of migrations was applied in full.\<close>

definition extends :: "migration list \<Rightarrow> pg_tables \<Rightarrow> pg_tables \<Rightarrow> bool" where
  "extends ms t t' \<longleftrightarrow> recorded t' = recorded t @ map entry ms \<and> pt_executed t' = pt_executed t @ map mg_sql ms"

lemma extends_Nil [simp]: "extends [] t t"
  by (simp add: extends_def)

lemma extends_Cons: "extends [m] t t1 \<Longrightarrow> extends ms t1 t2 \<Longrightarrow> extends (m # ms) t t2"
  by (simp add: extends_def)

lemma migrated_extends:
  assumes "migrated sv m t = Some t'" "ledger_ok sha t" "mg_checksum m = sha (mg_sql m)"
  shows "extends [m] t t' \<and> ledger_ok sha t'"
  using assms by (auto simp: migrated_def extends_def ledger_ok_def recorded_def entry_def or_default_def
      split: option.splits if_splits)

lemma applied_lookup:
  assumes "distinct (map fst ms)"
  shows "recorded_checksum (obj_spread [] (map (\<lambda>row. (js_get row ''id'', js_get row ''checksum'')) (applied_rows ms))) m =
    (case map_of ms (mg_id m) of None \<Rightarrow> JUndef | Some c \<Rightarrow> JStr c)"
proof -
  let ?rows = "map (\<lambda>(i, c). (JStr i, JStr c)) ms"
  have rows: "map (\<lambda>row. (js_get row ''id'', js_get row ''checksum'')) (applied_rows ms) = ?rows"
    by (auto simp: applied_rows_def obj_get_def)
  have "map_of ?rows (JStr i) = map_option JStr (map_of ms i)" for i
    by (induction ms) auto
  moreover have "distinct (map fst ?rows)"
    using assms by (induction ms) force+
  then have "map_of (rev ?rows) = map_of ?rows"
    by (intro map_of_inject_set[THEN iffD2]) (simp_all add: rev_map[symmetric] distinct_rev)
  ultimately show ?thesis
    by (cases "map_of ms (mg_id m)") (simp_all add: recorded_checksum_def rows map_of_spread)
qed

text \<open>The migrations that are new to a database, and those it has with the same checksum.\<close>

definition is_new :: "pg_tables \<Rightarrow> migration \<Rightarrow> bool" where
  "is_new t m \<longleftrightarrow> map_of (recorded t) (mg_id m) = None"

definition up_to_date :: "pg_tables \<Rightarrow> migration \<Rightarrow> bool" where
  "up_to_date t m \<longleftrightarrow> map_of (recorded t) (mg_id m) = Some (mg_checksum m)"

lemma up_to_date_mem: "ledger_ok sha t \<Longrightarrow> up_to_date t m \<longleftrightarrow> entry m \<in> set (recorded t)"
  by (simp add: up_to_date_def entry_def ledger_ok_def)

text \<open>
  The outcome of a run over some migrations: a part of the new ones was applied, in order; all of
  them, and every other one is as recorded, if the run returned.
\<close>

definition outcome_ok ::
    "(migration \<Rightarrow> bool) \<Rightarrow> (migration \<Rightarrow> bool) \<Rightarrow> migration list \<Rightarrow> pg_tables \<Rightarrow> pg_tables \<Rightarrow>
     string list \<times> string list \<Rightarrow> pg_thrown + string list \<times> string list \<Rightarrow> bool" where
  "outcome_ok due kept ms t t' acc r \<longleftrightarrow>
     (\<exists>k. extends (take k (filter due ms)) t t') \<and>
     (\<forall>applied skipped. r = Inr (applied, skipped) \<longrightarrow>
        extends (filter due ms) t t' \<and> list_all kept (filter (\<lambda>m. \<not> due m) ms) \<and>
        applied = fst acc @ map mg_id (filter due ms) \<and>
        skipped = snd acc @ map mg_id (filter (\<lambda>m. \<not> due m) ms))"

lemma outcome_skip:
  "outcome_ok due kept ms t t' (a, b @ [mg_id m]) r \<Longrightarrow> \<not> due m \<Longrightarrow> kept m \<Longrightarrow>
     outcome_ok due kept (m # ms) t t' (a, b) r"
  by (auto simp: outcome_ok_def)

lemma outcome_apply:
  assumes "outcome_ok due kept ms t1 t' (a @ [mg_id m], b) r" "due m" "extends [m] t t1"
  shows "outcome_ok due kept (m # ms) t t' (a, b) r"
proof -
  from assms(1) obtain k where "extends (take k (filter due ms)) t1 t'" by (auto simp: outcome_ok_def)
  from extends_Cons[OF assms(3) this] assms(2) have part: "extends (take (Suc k) (filter due (m # ms))) t t'" by simp
  have all: "extends (filter due (m # ms)) t t'" if "r = Inr x" for x
    using that assms extends_Cons[OF assms(3)] by (cases x) (auto simp: outcome_ok_def)
  show ?thesis
    unfolding outcome_ok_def
  proof (intro conjI)
    show "\<exists>k. extends (take k (filter due (m # ms))) t t'" using part by (rule exI)
  qed (use assms(1,2) all in \<open>auto simp: outcome_ok_def\<close>)
qed

lemma outcome_fails: "extends (take k (filter due ms)) t t' \<Longrightarrow> outcome_ok due kept ms t t' acc (Inl e)"
  by (auto simp: outcome_ok_def)

context pg_server
begin

lemma statement_keeps:
  assumes "is_statement s" "q s vs d = (r, d')" "\<And>t. sql_effect sv s vs t = Some t \<or> sql_effect sv s vs t = None"
  shows "committed d' = committed d"
proof (cases "session d")
  case Idle
  from alone[OF assms(1) Idle assms(2)] assms(3)[of "committed d"] show ?thesis by (auto split: sum.splits)
next
  case (Open t)
  from in_transaction[OF assms(1) Open assms(2)] show ?thesis by simp
next
  case Aborted
  from when_aborted[OF assms(1) Aborted assms(2)] show ?thesis by simp
qed

text \<open>One migration is applied in full or not at all, in full if it returns.\<close>

lemma applyMigration_effect:
  assumes idle: "session d = Idle" and run: "applyMigration q m d = (r, d')"
  shows "case r of Inl _ \<Rightarrow> committed d' = committed d \<or> migrated sv m (committed d) = Some (committed d')
    | Inr _ \<Rightarrow> session d' = Idle \<and> migrated sv m (committed d) = Some (committed d')"
proof -
  obtain r1 d1 where b: "q BeginTx [] d = (r1, d1)" by fastforce
  show ?thesis
  proof (cases r1)
    case (Inl e)
    with begun[OF idle b] b run show ?thesis by (auto simp: applyMigration_def op_bind_def)
  next
    case (Inr rows)
    with begun[OF idle b] have d1: "committed d1 = committed d" "session d1 = Open (committed d)" by auto
    let ?work = "op_bind (q (RunSql (mg_sql m)) []) (\<lambda>_.
      op_bind (q InsertApplied [JStr (mg_id m), JStr (mg_checksum m)]) (\<lambda>_. q CommitTx []))"
    obtain r2 d2 where w: "?work d1 = (r2, d2)" by fastforce
    have work: "case r2 of Inl _ \<Rightarrow> committed d2 = committed d \<or> migrated sv m (committed d) = Some (committed d2)
      | Inr _ \<Rightarrow> session d2 = Idle \<and> migrated sv m (committed d) = Some (committed d2)"
    proof -
      obtain r3 d3 where s: "q (RunSql (mg_sql m)) [] d1 = (r3, d3)" by fastforce
      note sql = in_transaction[OF _ d1(2) s]
      show ?thesis
      proof (cases r3)
        case (Inl e)
        with s w sql d1(1) show ?thesis by (auto simp: op_bind_def is_statement_def)
      next
        case (Inr x)
        with sql d1(1) obtain t where t: "sql_effect sv (RunSql (mg_sql m)) [] (committed d) = Some t"
          "session d3 = Open t" "committed d3 = committed d" by (auto simp: is_statement_def)
        obtain r4 d4 where i: "q InsertApplied [JStr (mg_id m), JStr (mg_checksum m)] d3 = (r4, d4)" by fastforce
        note ins = in_transaction[OF _ t(2) i]
        show ?thesis
        proof (cases r4)
          case (Inl e)
          with s Inr i w ins t(3) show ?thesis by (auto simp: op_bind_def is_statement_def)
        next
          case (Inr y)
          with ins t(3) obtain t' where t': "sql_effect sv InsertApplied [JStr (mg_id m), JStr (mg_checksum m)] t = Some t'"
            "session d4 = Open t'" "committed d4 = committed d" by (auto simp: is_statement_def)
          have fin: "q CommitTx [] d4 = (r2, d2)" using w s \<open>r3 = Inr x\<close> i Inr by (simp add: op_bind_def)
          have "migrated sv m (committed d) = Some t'" using t(1) t'(1) by (simp add: migrated_def)
          with commits[OF t'(2) fin] t'(3) show ?thesis by (auto split: sum.splits)
        qed
      qed
    qed
    obtain r5 d5 where rb: "q RollbackTx [] d2 = (r5, d5)" by fastforce
    from run b Inr w rb work rolls_back[OF rb] show ?thesis
      by (auto simp: applyMigration_def op_bind_def[of "q BeginTx []"] split: sum.splits)
  qed
qed

lemma apply_pending_outcome:
  assumes "session d = Idle" "ledger_ok sha (committed d)" "\<forall>m \<in> set ms. mg_checksum m = sha (mg_sql m)"
    and "\<forall>m \<in> set ms. recorded_checksum al m \<noteq> JUndef \<longrightarrow> \<not> due m \<and> (recorded_checksum al m = JStr (mg_checksum m) \<longrightarrow> kept m)"
    and "\<forall>m \<in> set ms. recorded_checksum al m = JUndef \<longrightarrow> due m"
    and "apply_pending q al ms acc d = (r, d')"
  shows "ledger_ok sha (committed d') \<and> outcome_ok due kept ms (committed d) (committed d') acc r"
  using assms
proof (induction ms arbitrary: d acc)
  case Nil
  then show ?case by (cases acc) (auto simp: outcome_ok_def)
next
  case (Cons m ms)
  obtain a b where acc: "acc = (a, b)" by fastforce
  let ?c = "recorded_checksum al m"
  consider (drift) "?c \<noteq> JUndef" "?c \<noteq> JStr (mg_checksum m)" | (skip) "?c = JStr (mg_checksum m)" | (new) "?c = JUndef"
    by blast
  then show ?case
  proof cases
    case drift
    with Cons.prems(2,6) show ?thesis
      using outcome_fails[of 0 due "m # ms" "committed d" "committed d"] by (auto simp: acc Let_def)
  next
    case skip
    with Cons.prems(6) have "apply_pending q al ms (a, b @ [mg_id m]) d = (r, d')" by (simp add: acc Let_def)
    from Cons.IH[OF Cons.prems(1,2) _ _ _ this] Cons.prems(3-5) skip outcome_skip show ?thesis
      unfolding acc by auto
  next
    case new
    obtain r1 d1 where ap: "applyMigration q m d = (r1, d1)" by fastforce
    note eff = applyMigration_effect[OF Cons.prems(1) ap]
    have due: "due m" and sum: "mg_checksum m = sha (mg_sql m)" using Cons.prems(3,5) new by auto
    note ext = migrated_extends[OF _ Cons.prems(2) sum]
    show ?thesis
    proof (cases r1)
      case (Inl e)
      with Cons.prems(6) ap new have r: "r = Inl e" "d' = d1" by (auto simp: acc Let_def op_bind_def)
      from eff Inl show ?thesis
      proof (simp add: r, elim disjE)
        assume "committed d1 = committed d"
        with Cons.prems(2) outcome_fails[of 0 due "m # ms" "committed d" "committed d"]
        show "ledger_ok sha (committed d1) \<and> outcome_ok due kept (m # ms) (committed d) (committed d1) acc (Inl e)" by simp
      next
        assume "migrated sv m (committed d) = Some (committed d1)"
        with ext[OF this] due outcome_fails[of 1 due "m # ms" "committed d" "committed d1"]
        show "ledger_ok sha (committed d1) \<and> outcome_ok due kept (m # ms) (committed d) (committed d1) acc (Inl e)" by simp
      qed
    next
      case (Inr u)
      with eff have d1: "session d1 = Idle" "migrated sv m (committed d) = Some (committed d1)" by auto
      from Inr Cons.prems(6) ap new have "apply_pending q al ms (a @ [mg_id m], b) d1 = (r, d')"
        by (simp add: acc Let_def op_bind_def)
      from Cons.IH[OF d1(1) _ _ _ _ this] ext[OF d1(2)] Cons.prems(3-5)
      have "ledger_ok sha (committed d')" "outcome_ok due kept ms (committed d1) (committed d') (a @ [mg_id m], b) r"
        by auto
      with outcome_apply[OF this(2) due] ext[OF d1(2)] show ?thesis by (simp add: acc)
    qed
  qed
qed

lemma migrate_outcome:
  assumes idle: "session d = Idle" and ok: "ledger_ok sha (committed d)"
    and sums: "\<forall>m \<in> set ms. mg_checksum m = sha (mg_sql m)" and run: "migrate q ms d = (r, d')"
  shows "ledger_ok sha (committed d') \<and>
    outcome_ok (is_new (committed d)) (up_to_date (committed d)) ms (committed d) (committed d') ([], []) r"
proof -
  let ?ok = "\<lambda>d' r. ledger_ok sha (committed d') \<and>
    outcome_ok (is_new (committed d)) (up_to_date (committed d)) ms (committed d) (committed d') ([], []) r"
  have failed: "?ok d0 (Inl e)" if "committed d0 = committed d" for d0 e
    using that ok outcome_fails[of 0 "is_new (committed d)" ms "committed d" "committed d"] by simp
  obtain r1 d1 where te: "q TableExists [JStr ''schema_migrations''] d = (r1, d1)" by fastforce
  note exists = alone[OF _ idle te]
  show ?thesis
  proof (cases r1)
    case (Inl e)
    with exists te run failed[of d'] show ?thesis
      by (auto simp: migrate_def schemaMigrationsTableExists_def op_bind_def is_statement_def)
  next
    case (Inr rows)
    with exists have d1: "session d1 = Idle" "committed d1 = committed d"
      and rows: "rows \<noteq> [] \<longleftrightarrow> pt_migrations (committed d) \<noteq> None" by (auto simp: is_statement_def)
    have rest: "op_bind (if rows \<noteq> [] then loadAppliedMigrations q else op_return []) (\<lambda>al.
        apply_pending q al ms ([], [])) d1 = (r, d')"
      using run te Inr by (simp add: migrate_def schemaMigrationsTableExists_def op_bind_def)
    have pending: "?ok d' r" if "session d2 = Idle" "committed d2 = committed d"
      "\<And>m. recorded_checksum al m = (case map_of (recorded (committed d)) (mg_id m) of None \<Rightarrow> JUndef | Some c \<Rightarrow> JStr c)"
      "apply_pending q al ms ([], []) d2 = (r, d')" for al d2
      using apply_pending_outcome[OF that(1) _ sums _ _ that(4),
          of "is_new (committed d)" "up_to_date (committed d)"] ok that(2,3)
      by (auto simp: is_new_def up_to_date_def split: option.splits)
    show ?thesis
    proof (cases "pt_migrations (committed d)")
      case None
      with rest rows pending[of d1 "[]"] d1 show ?thesis
        by (simp add: op_bind_def recorded_checksum_def recorded_def or_default_def)
    next
      case (Some recs)
      obtain r2 d2 where sel: "q SelectApplied [] d1 = (r2, d2)" by fastforce
      note load = alone[OF _ d1(1) sel]
      show ?thesis
      proof (cases r2)
        case (Inl e)
        with rest rows Some sel load d1 failed[of d'] show ?thesis
          by (auto simp: loadAppliedMigrations_def op_bind_def is_statement_def)
      next
        case (Inr rows2)
        with load d1 Some have d2: "session d2 = Idle" "committed d2 = committed d" "rows2 = applied_rows recs"
          by (auto simp: is_statement_def or_default_def split: if_splits)
        let ?al = "obj_spread [] (map (\<lambda>row. (js_get row ''id'', js_get row ''checksum'')) rows2)"
        have "apply_pending q ?al ms ([], []) d2 = (r, d')"
          using rest rows Some sel Inr by (simp add: loadAppliedMigrations_def op_bind_def)
        moreover have "recorded (committed d) = recs" using Some by (simp add: recorded_def or_default_def)
        moreover from this ok have "distinct (map fst recs)" by (simp add: ledger_ok_def)
        ultimately show ?thesis
          using pending[OF d2(1,2), of ?al] applied_lookup[of recs] d2(3) by simp
      qed
    qed
  qed
qed

end

section \<open>Runs of the runner\<close>

lemma read_migrations_sums:
  "read_migrations fs dir files d = (Inr ms, d') \<Longrightarrow> \<forall>m \<in> set ms. mg_checksum m = pf_sha256 fs (mg_sql m)"
  by (induction files arbitrary: d ms) (auto simp: migration_of_def elim!: op_bind_cases)

text \<open>A server with the file system the migrations are read from; reading changes no table.\<close>

locale migrated_server = pg_server q connect committed session sv lost
  for q :: "'d querier" and connect and committed :: "'d \<Rightarrow> pg_tables" and session and sv and lost +
  fixes fs :: "'d pg_files"
  assumes readdir_keeps: "op_keeps committed (pf_readdir fs dir)"
    and read_keeps: "op_keeps committed (pf_read fs path)"
begin

lemma loadMigrations_keeps: "op_keeps committed (loadMigrations fs dir)"
proof -
  have "op_keeps committed (read_migrations fs dir files)" for dir files
    by (induction files) (simp_all only: read_migrations.simps op_keeps_return op_keeps_bind read_keeps)
  then show ?thesis unfolding loadMigrations_def Let_def by (intro keeps readdir_keeps)
qed

lemma with_lock_work:
  assumes "session d = Idle" "with_lock q m d = (r, d')"
    and work: "\<And>d1 r d2. session d1 = Idle \<Longrightarrow> committed d1 = committed d \<Longrightarrow> m d1 = (r, d2) \<Longrightarrow> P (committed d2) r"
    and failed: "\<And>e. P (committed d) (Inl e)"
  shows "P (committed d') r"
proof -
  obtain r1 d1 where l: "q LockMigrations [advisory_lock_key] d = (r1, d1)" by fastforce
  from alone[OF _ assms(1) l] have d1: "session d1 = Idle" "committed d1 = committed d"
    by (auto simp: is_statement_def split: sum.splits)
  obtain r2 d2 where m: "m d1 = (r2, d2)" by fastforce
  obtain r3 d3 where u: "q UnlockMigrations [advisory_lock_key] d2 = (r3, d3)" by fastforce
  have "committed d3 = committed d2"
    using statement_keeps[OF _ u] by (simp add: is_statement_def)
  with work[OF d1 m] failed assms(2) l m u d1(2) show ?thesis
    by (cases r1) (auto simp: with_lock_def op_bind_def)
qed

text \<open>
  Whatever fails, the ledger stays right and a part of the new migrations, in order, was applied;
  if the run returns, all of them.
\<close>

theorem runMigrations_outcome:
  assumes ok: "ledger_ok (pf_sha256 fs) (committed d)"
    and load: "loadMigrations fs dir d = (Inr ms, d0)" and run: "runMigrations connect q fs dir d = (r, d')"
  shows "ledger_ok (pf_sha256 fs) (committed d') \<and>
    outcome_ok (is_new (committed d)) (up_to_date (committed d)) ms (committed d) (committed d') ([], []) r"
    (is "?P (committed d') r")
proof -
  have d0: "committed d0 = committed d" using op_keepsD[OF loadMigrations_keeps load] .
  have sums: "\<forall>m \<in> set ms. mg_checksum m = pf_sha256 fs (mg_sql m)"
    using load by (auto simp: loadMigrations_def Let_def dest: read_migrations_sums elim!: op_bind_cases)
  have failed: "?P (committed d) (Inl e)" for e
    using ok outcome_fails[of 0 "is_new (committed d)" ms "committed d" "committed d"] by simp
  show ?thesis
  proof (cases "ms = []")
    case True
    with load run ok d0 show ?thesis by (auto simp: runMigrations_def op_bind_def outcome_ok_def)
  next
    case False
    with load run have rest: "op_bind connect (\<lambda>_. with_lock q (migrate q ms)) d0 = (r, d')"
      by (simp add: runMigrations_def op_bind_def)
    obtain r1 d1 where c: "connect d0 = (r1, d1)" by fastforce
    note con = connected[OF c]
    show ?thesis
    proof (cases r1)
      case (Inl e)
      with c rest con d0 failed show ?thesis by (auto simp: op_bind_def)
    next
      case (Inr u)
      with c rest have wl: "with_lock q (migrate q ms) d1 = (r, d')" by (simp add: op_bind_def)
      have d1: "session d1 = Idle" "committed d1 = committed d" using con d0 Inr by auto
      show ?thesis
      proof (rule with_lock_work[OF d1(1) wl, of ?P])
        fix d2 r d3
        assume "session d2 = Idle" "committed d2 = committed d1" "migrate q ms d2 = (r, d3)"
        with migrate_outcome[OF this(1) _ sums this(3)] ok d1(2) show "?P (committed d3) r" by simp
      qed (use failed d1(2) in simp)
    qed
  qed
qed

text \<open>A second run over the same files finds every migration recorded and changes nothing.\<close>

theorem second_run_changes_nothing:
  assumes ok: "ledger_ok (pf_sha256 fs) (committed d)"
    and first: "loadMigrations fs dir d = (Inr ms, d0)" "runMigrations connect q fs dir d = (Inr x, d1)"
    and second: "loadMigrations fs dir d1 = (Inr ms, d2)" "runMigrations connect q fs dir d1 = (r, d3)"
  shows "extends [] (committed d1) (committed d3) \<and>
    (\<forall>applied skipped. r = Inr (applied, skipped) \<longrightarrow> applied = [] \<and> skipped = map mg_id ms)"
proof -
  obtain a b where x: "x = (a, b)" by fastforce
  let ?t = "committed d" and ?t1 = "committed d1"
  from runMigrations_outcome[OF ok first] x have ok1: "ledger_ok (pf_sha256 fs) ?t1"
    and ext: "extends (filter (is_new ?t) ms) ?t ?t1"
    and old: "list_all (up_to_date ?t) (filter (\<lambda>m. \<not> is_new ?t m) ms)" by (auto simp: outcome_ok_def)
  have "up_to_date ?t1 m" if m: "m \<in> set ms" for m
  proof -
    have "entry m \<in> set (recorded ?t1)"
    proof (cases "is_new ?t m")
      case True
      with m ext show ?thesis by (auto simp: extends_def)
    next
      case False
      with m old have "up_to_date ?t m" by (simp add: list_all_iff)
      with ext up_to_date_mem[OF ok] show ?thesis by (auto simp: extends_def)
    qed
    with up_to_date_mem[OF ok1] show ?thesis by simp
  qed
  then have "filter (is_new ?t1) ms = []" "filter (\<lambda>m. \<not> is_new ?t1 m) ms = ms"
    by (auto simp: filter_empty_conv filter_id_conv is_new_def up_to_date_def)
  with runMigrations_outcome[OF ok1 second] show ?thesis by (auto simp: outcome_ok_def)
qed

end

section \<open>A server with files\<close>

text \<open>Files of one directory; \<open>sha\<close> stands for SHA-256.\<close>

definition sim_files :: "(string \<Rightarrow> string) \<Rightarrow> (string \<times> string) list \<Rightarrow> pg_sim pg_files" where
  "sim_files sha disk =
     \<lparr>pf_default = [], pf_join = (\<lambda>dir file. file), pf_readdir = (\<lambda>_. op_return (map fst disk)),
      pf_read = (\<lambda>path. case map_of disk path of
         None \<Rightarrow> op_throw (DriverThrew (JObj [(''code'', JStr ''ENOENT'')]))
       | Some text \<Rightarrow> op_return text),
      pf_sha256 = sha\<rparr>"

interpretation files: migrated_server "sim_query sv" sim_connect si_tables si_session sv
    "\<lambda>e. \<exists>code. e = connection_lost code" "sim_files sha disk" for sv sha disk
  by unfold_locales (auto simp: sim_files_def intro: op_keeps_return op_keeps_throw split: option.split)

end
