(* ===== verification/Status_Client.thy ===== *)
theory Status_Client
  imports Registry
begin

text \<open>
  The client of the loop status service, \<open>packages/loop-status-client/src\<close>: server-sent events
  parsed from chunks of a stream, pulls with a cursor.
\<close>

section \<open>Frames\<close>

abbreviation lf :: char where "lf \<equiv> char_of (10 :: nat)"

abbreviation cr :: char where "cr \<equiv> char_of (13 :: nat)"

lemma cr_lf [simp]: "cr \<noteq> lf" "lf \<noteq> cr"
  by simp_all

record sse_frame =
  fr_event :: string
  fr_data :: string

fun index_of :: "'a \<Rightarrow> 'a list \<Rightarrow> nat option" where
  "index_of c [] = None"
| "index_of c (x # xs) = (if x = c then Some 0 else map_option Suc (index_of c xs))"

definition sse_field :: "string \<Rightarrow> string \<times> string" where
  "sse_field line =
     (let (field, value) = (case index_of (CHR '':'') line of
            None \<Rightarrow> (line, [])
          | Some k \<Rightarrow> (take k line, drop (Suc k) line))
      in (field, case value of c # cs \<Rightarrow> (if c = CHR '' '' then cs else value) | [] \<Rightarrow> []))"

definition sse_line :: "string \<Rightarrow> string \<times> string list \<Rightarrow> string \<times> string list" where
  "sse_line line acc =
     (case acc of (event, dataLines) \<Rightarrow>
       if line = [] \<or> take 1 line = '':'' then acc
       else (case sse_field line of (field, value) \<Rightarrow>
         if field = ''event'' then (value, dataLines)
         else if field = ''data'' then (event, dataLines @ [value])
         else acc))"

definition parseSseFrame :: "string \<Rightarrow> sse_frame option" where
  "parseSseFrame raw =
     (case fold sse_line (split_on (\<lambda>c. c = lf) raw) (''message'', []) of (event, dataLines) \<Rightarrow>
       if dataLines = [] then None else Some \<lparr>fr_event = event, fr_data = join [lf] dataLines\<rparr>)"

text \<open>\<open>replace(/\\r\\n/g, ...)\<close>, one pass from left to right.\<close>

fun crlf :: "string \<Rightarrow> string" where
  "crlf (a # b # s) = (if a = cr \<and> b = lf then lf # crlf s else a # crlf (b # s))"
| "crlf s = s"

text \<open>The text before the first blank line, and the text after it.\<close>

fun split_frame :: "string \<Rightarrow> (string \<times> string) option" where
  "split_frame (a # b # s) =
     (if a = lf \<and> b = lf then Some ([], s)
      else map_option (\<lambda>(raw, rest). (a # raw, rest)) (split_frame (b # s)))"
| "split_frame s = None"

lemma split_frame_Some:
  "split_frame x = Some (raw, rest) \<Longrightarrow>
     x = raw @ [lf, lf] @ rest \<and> (\<forall>z. split_frame (raw @ [lf, lf] @ z) = Some (raw, z))"
proof (induction x arbitrary: raw rest rule: split_frame.induct)
  case (1 a b s)
  show ?case
  proof (cases "a = lf \<and> b = lf")
    case True
    with 1 show ?thesis by auto
  next
    case False
    with 1(2) obtain raw' where raw: "raw = a # raw'" "split_frame (b # s) = Some (raw', rest)" by auto
    from 1(1)[OF False raw(2)] have IH: "b # s = raw' @ [lf, lf] @ rest"
      "\<And>z. split_frame (raw' @ [lf, lf] @ z) = Some (raw', z)" by auto
    have "split_frame ((a # raw') @ [lf, lf] @ z) = Some (a # raw', z)" for z
      using IH(2)[of z] IH(1) False by (cases raw') auto
    with IH(1) raw(1) show ?thesis by simp
  qed
qed auto

text \<open>All the complete frames of a buffer, and what is left of it.\<close>

function drain :: "string \<Rightarrow> string list \<times> string" where
  "drain buffer =
     (case split_frame buffer of
        None \<Rightarrow> ([], buffer)
      | Some (raw, rest) \<Rightarrow> (case drain rest of (raws, left) \<Rightarrow> (raw # raws, left)))"
  by auto

termination
  by (relation "measure length") (auto dest: split_frame_Some)

declare drain.simps [simp del]

text \<open>
  The reader: chunks of text, as the decoder gives them; the buffer is normalised again after each.
  A stream ends, or a read of it fails; then what is left in the buffer is lost.
\<close>

datatype stream_end = Ended | Broken js

fun feed :: "string \<Rightarrow> string list \<Rightarrow> string list \<times> string" where
  "feed buffer [] = ([], buffer)"
| "feed buffer (chunk # chunks) =
     (case drain (crlf (buffer @ chunk)) of (raws, left) \<Rightarrow>
       (case feed left chunks of (raws', left') \<Rightarrow> (raws @ raws', left')))"

definition iterateSseFrames :: "string list \<Rightarrow> stream_end \<Rightarrow> sse_frame list \<times> js option" where
  "iterateSseFrames chunks fin =
     (case feed [] chunks of (raws, left) \<Rightarrow>
       (case fin of
          Broken e \<Rightarrow> (List.map_filter parseSseFrame raws, Some e)
        | Ended \<Rightarrow> (List.map_filter parseSseFrame (raws @ (if trim left = [] then [] else [left])), None)))"

section \<open>The frames do not depend on the chunks\<close>

lemma drain_prefix:
  "drain x = (raws, left) \<Longrightarrow> split_frame left = None \<and>
     (\<exists>p. x = p @ left \<and> (p = [] \<or> last p = lf) \<and> (\<forall>z. drain (p @ z) = (raws @ fst (drain z), snd (drain z))))"
proof (induction x arbitrary: raws rule: drain.induct)
  case (1 x)
  show ?case
  proof (cases "split_frame x")
    case None
    with 1(2) show ?thesis by (auto simp: drain.simps[of x])
  next
    case (Some xy)
    obtain raw rest where s: "split_frame x = Some (raw, rest)" using Some by (cases xy) auto
    obtain raws' where d: "drain rest = (raws', left)" "raws = raw # raws'"
      using 1(2) s by (auto simp: drain.simps[of x] split: prod.splits)
    from 1(1)[OF s refl d(1)] obtain p where p: "split_frame left = None" "rest = p @ left"
      "p = [] \<or> last p = lf" "\<And>z. drain (p @ z) = (raws' @ fst (drain z), snd (drain z))" by blast
    note sf = split_frame_Some[OF s]
    have "drain ((raw @ [lf, lf] @ p) @ z) = (raws @ fst (drain z), snd (drain z))" for z
      using sf p(4)[of z] d(2) by (simp add: drain.simps[of "raw @ lf # lf # p @ z"])
    with sf p(1-3) show ?thesis by (intro conjI exI[of _ "raw @ [lf, lf] @ p"]) auto
  qed
qed

text \<open>A carriage return directly before another one and a line feed would be normalised in two steps.\<close>

fun no_double_cr :: "string \<Rightarrow> bool" where
  "no_double_cr (a # b # s) \<longleftrightarrow> \<not> (a = cr \<and> b = cr) \<and> no_double_cr (b # s)"
| "no_double_cr s \<longleftrightarrow> True"

lemma no_double_cr_suffix: "no_double_cr (x @ y) \<Longrightarrow> no_double_cr y"
proof (induction x)
  case (Cons a x)
  then show ?case by (cases "x @ y") auto
qed simp

lemma no_double_cr_prefix: "no_double_cr (x @ y) \<Longrightarrow> no_double_cr x"
  by (induction x rule: no_double_cr.induct) auto

lemma crlf_Cons: "crlf (a # s) = (if a = cr \<and> take 1 s = [lf] then lf # crlf (drop 1 s) else a # crlf s)"
  by (cases s) auto

lemma crlf_head: "a \<noteq> cr \<Longrightarrow> take 1 (crlf (a # s)) = [a]"
  by (simp add: crlf_Cons)

lemma crlf_again: "no_double_cr (s @ y) \<Longrightarrow> crlf (crlf s @ y) = crlf (s @ y)"
proof (induction s rule: crlf.induct)
  case (1 a b s)
  show ?case
  proof (cases "a = cr \<and> b = lf")
    case True
    with 1(3) no_double_cr_suffix[of "[a, b]" "s @ y"] have "no_double_cr (s @ y)" by simp
    from 1(1)[OF True this] True show ?thesis by (simp add: crlf_Cons)
  next
    case False
    from 1(3) have nd: "no_double_cr ((b # s) @ y)" and ab: "\<not> (a = cr \<and> b = cr)" by auto
    have "\<not> (a = cr \<and> take 1 (crlf (b # s) @ y) = [lf])"
    proof
      assume *: "a = cr \<and> take 1 (crlf (b # s) @ y) = [lf]"
      with ab have "b \<noteq> cr" by simp
      from crlf_head[OF this, of s] have "take 1 (crlf (b # s) @ y) = [b]"
        by (cases "crlf (b # s)") auto
      with * False show False by simp
    qed
    then have "crlf (a # (crlf (b # s) @ y)) = a # crlf (crlf (b # s) @ y)" by (simp add: crlf_Cons)
    with 1(2)[OF False nd] False show ?thesis by auto
  qed
qed auto

lemma crlf_fixed: "no_double_cr s \<Longrightarrow> crlf (crlf s) = crlf s"
  using crlf_again[of s "[]"] by simp

lemma crlf_append: "x = [] \<or> last x \<noteq> cr \<Longrightarrow> crlf (x @ y) = crlf x @ crlf y"
  by (induction x rule: crlf.induct) (auto simp: crlf_Cons split: if_splits)

lemma no_double_crlf: "no_double_cr (s @ y) \<Longrightarrow> no_double_cr (crlf s @ y)"
proof (induction s rule: crlf.induct)
  case (1 a b s)
  show ?case
  proof (cases "a = cr \<and> b = lf")
    case True
    with 1(3) no_double_cr_suffix[of "[a, b]" "s @ y"] have "no_double_cr (s @ y)" by simp
    from 1(1)[OF True this] True show ?thesis by (cases "crlf s @ y") auto
  next
    case False
    from 1(3) have nd: "no_double_cr ((b # s) @ y)" and ab: "\<not> (a = cr \<and> b = cr)" by auto
    have "\<not> (a = cr \<and> take 1 (crlf (b # s) @ y) = [cr])"
    proof
      assume *: "a = cr \<and> take 1 (crlf (b # s) @ y) = [cr]"
      with ab have "b \<noteq> cr" by simp
      from crlf_head[OF this, of s] have "take 1 (crlf (b # s) @ y) = [b]"
        by (cases "crlf (b # s)") auto
      with * \<open>b \<noteq> cr\<close> show False by simp
    qed
    with 1(2)[OF False nd] False show ?thesis by (cases "crlf (b # s) @ y") auto
  qed
qed auto

lemma feed_whole:
  "split_frame b = None \<Longrightarrow> crlf b = b \<Longrightarrow> no_double_cr (b @ concat cs) \<Longrightarrow>
     feed b cs = drain (crlf (b @ concat cs))"
proof (induction cs arbitrary: b)
  case Nil
  then show ?case by (simp add: drain.simps)
next
  case (Cons c cs)
  let ?B = "crlf (b @ c)" and ?y = "concat cs"
  obtain raws left where d: "drain ?B = (raws, left)" by fastforce
  from drain_prefix[OF d] obtain p where p: "split_frame left = None" "?B = p @ left" "p = [] \<or> last p = lf"
    "\<And>z. drain (p @ z) = (raws @ fst (drain z), snd (drain z))" by blast
  have p_cr: "p = [] \<or> last p \<noteq> cr" using p(3) by auto
  have nd: "no_double_cr ((b @ c) @ ?y)" using Cons.prems(3) by simp
  have B: "crlf ?B = ?B"
    using nd no_double_cr_prefix crlf_fixed by blast
  with crlf_append[OF p_cr, of left] p(2) have "crlf p @ crlf left = p @ left" by simp
  moreover have shorter: "length (crlf x) \<le> length x" for x by (induction x rule: crlf.induct) auto
  moreover from calculation have "length (crlf p) + length (crlf left) = length p + length left"
    by (metis length_append)
  with shorter[of p] shorter[of left] have "length (crlf p) = length p" by linarith
  ultimately have fp: "crlf p = p" "crlf left = left" by simp_all
  have "no_double_cr (left @ ?y)"
    using no_double_crlf[OF nd] no_double_cr_suffix[of p "left @ ?y"] p(2) by simp
  from Cons.IH[OF p(1) fp(2) this] d
  have "feed b (c # cs) = (raws @ fst (drain (crlf (left @ ?y))), snd (drain (crlf (left @ ?y))))"
    by (simp split: prod.split)
  also have "\<dots> = drain (p @ crlf (left @ ?y))" using p(4) by simp
  also have "p @ crlf (left @ ?y) = crlf (p @ left @ ?y)" using crlf_append[OF p_cr] fp(1) by simp
  also have "\<dots> = crlf ((b @ c) @ ?y)" using crlf_again[OF nd] p(2) by simp
  finally show ?case by simp
qed

lemma chunks_irrelevant:
  assumes "no_double_cr (concat chunks)"
  shows "iterateSseFrames chunks fin = iterateSseFrames [concat chunks] fin"
proof -
  have "feed [] chunks = drain (crlf (concat chunks))" using feed_whole[of "[]" chunks] assms by simp
  moreover have "feed [] [concat chunks] = drain (crlf (concat chunks))"
    using feed_whole[of "[]" "[concat chunks]"] assms by simp
  ultimately show ?thesis by (simp add: iterateSseFrames_def)
qed

section \<open>The client\<close>

text \<open>
  The options and handlers of a stream; \<open>st_aborted\<close> is the state of the caller's signal. A response
  has its status, its text and either the JSON of a page or the chunks of a stream.
\<close>

datatype status_error = LoopStatusError string "nat option" | StatusThrew js

record 'd stream_handlers =
  st_onEvent :: "js \<Rightarrow> (js, 'd, unit) eop"
  st_onPing :: "(js, 'd, unit) eop option"
  st_onResyncRequired :: "(js \<Rightarrow> (js, 'd, unit) eop) option"
  st_onError :: "(status_error \<Rightarrow> (js, 'd, unit) eop) option"
  st_aborted :: "'d \<Rightarrow> bool"

record 'b status_response =
  sr_status :: nat
  sr_statusText :: string
  sr_body :: 'b

record 'd status_options =
  sc_baseUrl :: string
  sc_getToken :: "(js, 'd, string) eop"
  sc_apiVersion :: "string option"
  sc_url :: "string \<Rightarrow> (string \<times> string) list \<Rightarrow> js + string"
  sc_pull :: "string \<Rightarrow> (string \<times> string) list \<Rightarrow> (js, 'd, (js + js) status_response) eop"
  sc_stream :: "string \<Rightarrow> (string \<times> string) list \<Rightarrow>
    (js, 'd, (string list \<times> stream_end) option status_response) eop"
  sc_json :: "string \<Rightarrow> js + js"

definition cursorOf :: "js \<Rightarrow> string option" where
  "cursorOf event =
     (case js_get (js_get event ''evidence'') ''transition_event_id'' of JStr i \<Rightarrow> Some i | _ \<Rightarrow> None)"

definition trim_slashes :: "string \<Rightarrow> string" where
  "trim_slashes s = rev (dropWhile (\<lambda>c. c = CHR ''/'') (rev s))"

definition buildUrl ::
    "'d status_options \<Rightarrow> string \<Rightarrow> (string \<times> string option) list \<Rightarrow> js + string" where
  "buildUrl o' path params =
     sc_url o' (trim_slashes (sc_baseUrl o') @ ''/api/'' @ or_default (sc_apiVersion o') ''v1'' @
         ''/loop-state/'' @ path)
       (List.map_filter (\<lambda>(k, v). map_option (Pair k) (nonempty v)) params)"

definition threw :: "(js, 'd, 'a) eop \<Rightarrow> (status_error, 'd, 'a) eop" where
  "threw m = op_catch m (\<lambda>e. op_throw (StatusThrew e))"

definition status_headers :: "string \<Rightarrow> string \<Rightarrow> (string \<times> string) list" where
  "status_headers token accept = [(''authorization'', ''Bearer '' @ token), (''accept'', accept)]"

definition good :: "'b status_response \<Rightarrow> bool" where
  "good r \<longleftrightarrow> 200 \<le> sr_status r \<and> sr_status r \<le> 299"

definition refused :: "string \<Rightarrow> 'b status_response \<Rightarrow> status_error" where
  "refused what r = LoopStatusError (''loop-status '' @ what @ '' failed: '' @ show_nat (sr_status r) @ '' '' @
     sr_statusText r) (Some (sr_status r))"

record transition_page =
  tg_events :: js
  tg_nextCursor :: js
  tg_hasMore :: bool

text \<open>Reading a property of \<open>undefined\<close> or \<open>null\<close> throws.\<close>

definition null_read :: js where
  "null_read = JObj [(''name'', JStr ''TypeError'')]"

definition page_of :: "js \<Rightarrow> js + transition_page" where
  "page_of json =
     (if json = JUndef \<or> json = JNull then Inl null_read
      else Inr \<lparr>tg_events = nullish (js_get json ''events'') (JArr []),
        tg_nextCursor = nullish (js_get json ''nextCursor'') JNull, tg_hasMore = truthy (js_get json ''hasMore'')\<rparr>)"

definition pullTransitions ::
    "'d status_options \<Rightarrow> string \<Rightarrow> string option \<Rightarrow> string option \<Rightarrow> (status_error, 'd, transition_page) eop" where
  "pullTransitions o' organizationId since limit =
     op_bind (threw (op_result (buildUrl o' ''transitions''
         [(''organizationId'', Some organizationId), (''since'', since), (''limit'', limit)]))) (\<lambda>url.
     op_bind (threw (sc_getToken o')) (\<lambda>token.
     op_bind (threw (sc_pull o' url (status_headers token ''application/json''))) (\<lambda>response.
     if \<not> good response then op_throw (refused ''pull'' response)
     else op_bind (threw (op_result (sr_body response))) (\<lambda>json. threw (op_result (page_of json))))))"

definition report :: "'d stream_handlers \<Rightarrow> status_error \<Rightarrow> (js, 'd, unit) eop" where
  "report hs e = (case st_onError hs of None \<Rightarrow> op_return () | Some f \<Rightarrow> f e)"

definition resync_cursor :: "'d status_options \<Rightarrow> string \<Rightarrow> js" where
  "resync_cursor o' data =
     (case sc_json o' data of Inl _ \<Rightarrow> JNull | Inr v \<Rightarrow> nullish (js_get v ''nextCursor'') JNull)"

definition handle_frame ::
    "'d status_options \<Rightarrow> 'd stream_handlers \<Rightarrow> sse_frame \<Rightarrow> (js, 'd, unit) eop" where
  "handle_frame o' hs frame =
     (if fr_event frame = ''ping'' then (case st_onPing hs of None \<Rightarrow> op_return () | Some f \<Rightarrow> f)
      else if fr_event frame = ''resync-required''
      then (case st_onResyncRequired hs of None \<Rightarrow> op_return () | Some f \<Rightarrow> f (resync_cursor o' (fr_data frame)))
      else if fr_event frame = ''loop-state-update''
      then op_catch (op_bind (op_result (sc_json o' (fr_data frame))) (st_onEvent hs))
             (\<lambda>e. report hs (StatusThrew e))
      else op_return ())"

text \<open>Report an error and throw it, or the error of the handler.\<close>

definition report_and_throw :: "'d stream_handlers \<Rightarrow> status_error \<Rightarrow> (status_error, 'd, 'a) eop" where
  "report_and_throw hs e = op_bind (threw (report hs e)) (\<lambda>_. op_throw e)"

definition unless_aborted :: "'d stream_handlers \<Rightarrow> 'a \<Rightarrow> js \<Rightarrow> (status_error, 'd, 'a) eop" where
  "unless_aborted hs x e d =
     (if st_aborted hs d then (Inr x, d) else report_and_throw hs (StatusThrew e) d)"

definition consume ::
    "'d status_options \<Rightarrow> 'd stream_handlers \<Rightarrow> string list \<times> stream_end \<Rightarrow> (status_error, 'd, unit) eop" where
  "consume o' hs stream =
     (case iterateSseFrames (fst stream) (snd stream) of (frames, fin) \<Rightarrow>
       op_catch (op_bind (op_each (handle_frame o' hs) frames) (\<lambda>_.
           case fin of None \<Rightarrow> op_return () | Some e \<Rightarrow> op_throw e))
         (unless_aborted hs ()))"

definition streamLoopState ::
    "'d status_options \<Rightarrow> 'd stream_handlers \<Rightarrow> string \<Rightarrow> string option \<Rightarrow> (status_error, 'd, unit) eop" where
  "streamLoopState o' hs organizationId since =
     op_bind (threw (op_result (buildUrl o' ''stream'' [(''organizationId'', Some organizationId), (''since'', since)]))) (\<lambda>url.
     op_bind (op_catch (op_bind (sc_getToken o') (\<lambda>token.
           op_map Some (sc_stream o' url (status_headers token ''text/event-stream''))))
         (unless_aborted hs None)) (\<lambda>answer.
     case answer of
       None \<Rightarrow> op_return ()
     | Some response \<Rightarrow>
         if \<not> good response then report_and_throw hs (refused ''stream'' response)
         else (case sr_body response of
             None \<Rightarrow> report_and_throw hs (LoopStatusError ''loop-status stream returned no body'' None)
           | Some stream \<Rightarrow> consume o' hs stream)))"

end
