(* ===== verification/Perplexity.thy ===== *)
theory Perplexity
  imports Registry
begin

text \<open>
  The Perplexity adapter, \<open>packages/adapter-perplexity/src\<close>, a tool adapter in the sense of
  \<open>packages/core/src/toolAdapter.ts\<close>: request bodies, retries with backoff, citations, masking of
  API keys. \<open>fetch\<close>, the environment and the random jitter are arguments.
\<close>

section \<open>Inputs and bodies\<close>

record tool_metadata =
  tm_searchDomainFilter :: "string list option"
  tm_searchRecencyFilter :: "string option"
  tm_returnCitations :: "bool option"
  tm_returnImages :: "bool option"

record adapter_input =
  ti_prompt :: string
  ti_systemPrompt :: "string option"
  ti_model :: "string option"
  ti_maxTokens :: "jsnum option"
  ti_temperature :: "jsnum option"
  ti_metadata :: "tool_metadata option"

record perplexity_config =
  px_apiKey :: "string option"
  px_baseUrl :: "string option"
  px_defaultModel :: "string option"
  px_defaultSearchRecency :: "string option"
  px_timeout :: "nat option"
  px_retries :: "int option"

text \<open>The first alternative that is there: \<open>a ?? b\<close> on optional values.\<close>

definition or_else :: "'a option \<Rightarrow> 'a option \<Rightarrow> 'a option" where
  "or_else a b = (case a of None \<Rightarrow> b | Some x \<Rightarrow> Some x)"

definition env_text :: "string option \<Rightarrow> string option" where
  "env_text v = (case v of None \<Rightarrow> None | Some s \<Rightarrow> nonempty (Some (trim s)))"

definition isSonarReasoningModel :: "string \<Rightarrow> bool" where
  "isSonarReasoningModel model \<longleftrightarrow> model \<in> {''sonar-reasoning'', ''sonar-reasoning-pro''}"

definition resolveTemperature :: "adapter_input \<Rightarrow> string \<Rightarrow> jsnum" where
  "resolveTemperature input model =
     (case ti_temperature input of
        Some t \<Rightarrow> t
      | None \<Rightarrow> if isSonarReasoningModel model then Fin (3 / 10) else Fin (1 / 5))"

definition resolveModel :: "(string \<Rightarrow> string option) \<Rightarrow> adapter_input \<Rightarrow> perplexity_config \<Rightarrow> string" where
  "resolveModel process_env input cf =
     or_default (or_else (ti_model input) (or_else (px_defaultModel cf)
       (env_text (process_env ''PERPLEXITY_DEFAULT_MODEL'')))) ''sonar-pro''"

definition chat_message :: "string \<Rightarrow> string \<Rightarrow> js" where
  "chat_message role content = JObj [(''role'', JStr role), (''content'', JStr content)]"

definition buildMessages :: "adapter_input \<Rightarrow> js" where
  "buildMessages input = JArr
     ((case env_text (ti_systemPrompt input) of None \<Rightarrow> [] | Some s \<Rightarrow> [chat_message ''system'' s]) @
      [chat_message ''user'' (ti_prompt input)])"

definition buildCompletionBody :: "adapter_input \<Rightarrow> perplexity_config \<Rightarrow> string \<Rightarrow> jobj" where
  "buildCompletionBody input cf model =
     (let field = (\<lambda>f. case ti_metadata input of None \<Rightarrow> None | Some m \<Rightarrow> f m);
          domains = (case ti_metadata input of None \<Rightarrow> None | Some m \<Rightarrow> tm_searchDomainFilter m);
          recency = (case ti_metadata input of None \<Rightarrow> None | Some m \<Rightarrow> tm_searchRecencyFilter m)
      in [(''model'', JStr model), (''messages'', buildMessages input),
          (''max_tokens'', JNum (or_default (ti_maxTokens input) (Fin 1024))),
          (''temperature'', JNum (resolveTemperature input model)),
          (''search_recency_filter'', JStr (or_default (or_else recency (px_defaultSearchRecency cf)) ''month'')),
          (''return_citations'', JBool (or_default (field tm_returnCitations) True)),
          (''return_images'', JBool (or_default (field tm_returnImages) False))] @
         (case domains of
            None \<Rightarrow> []
          | Some ds \<Rightarrow> if ds = [] then [] else [(''search_domain_filter'', JArr (map JStr ds))]))"

section \<open>Errors and citations\<close>

text \<open>
  \<open>PerplexityAdapterError\<close> with its status and whether to retry, \<open>RateLimitError\<close> (429, retryable), or
  the \<open>TypeError\<close> of an answer of the wrong shape.
\<close>

datatype perplexity_error = PerplexityAdapterError string nat bool | RateLimitError string | WrongShape

fun error_status :: "perplexity_error \<Rightarrow> nat option" where
  "error_status (PerplexityAdapterError m s r) = Some s"
| "error_status (RateLimitError m) = Some 429"
| "error_status WrongShape = None"

fun error_retryable :: "perplexity_error \<Rightarrow> bool" where
  "error_retryable (PerplexityAdapterError m s r) = r"
| "error_retryable (RateLimitError m) = True"
| "error_retryable WrongShape = False"

record citation =
  ci_url :: js
  ci_title :: js
  ci_snippet :: string

text \<open>The elements of an array that may be missing; a text iterates over pieces without a \<open>url\<close>.\<close>

definition items_of :: "js \<Rightarrow> perplexity_error + js list" where
  "items_of v =
     (case v of JUndef \<Rightarrow> Inr [] | JNull \<Rightarrow> Inr [] | JArr vs \<Rightarrow> Inr vs | JStr s \<Rightarrow> Inr (map (\<lambda>c. JStr [c]) s)
      | _ \<Rightarrow> Inl WrongShape)"

fun add_results :: "host \<Rightarrow> js list \<Rightarrow> (js \<times> citation) list \<Rightarrow> perplexity_error + (js \<times> citation) list" where
  "add_results h [] byUrl = Inr byUrl"
| "add_results h (r # rs) byUrl =
     (if r = JNull \<or> r = JUndef then Inl WrongShape
      else let url = js_get r ''url''
           in if \<not> truthy url then add_results h rs byUrl
              else add_results h rs (AList.update url
                \<lparr>ci_url = url, ci_title = nullish (js_get r ''title'') (JStr []),
                 ci_snippet = (if truthy (js_get r ''date'') then ''published: '' @ js_to_string h (js_get r ''date'') else [])\<rparr>
                byUrl))"

definition citation_title :: "host \<Rightarrow> js \<Rightarrow> js" where
  "citation_title h c =
     (case c of
        JObj kvs \<Rightarrow> if ''title'' \<in> set (map fst kvs)
                   then JStr (js_to_string h (nullish (obj_get kvs ''title'') (JStr []))) else JStr []
      | _ \<Rightarrow> JStr [])"

fun add_citations :: "host \<Rightarrow> js list \<Rightarrow> (js \<times> citation) list \<Rightarrow> perplexity_error + (js \<times> citation) list" where
  "add_citations h [] byUrl = Inr byUrl"
| "add_citations h (c # cs) byUrl =
     (if c = JNull \<or> c = JUndef then Inl WrongShape
      else let url = (case c of JStr s \<Rightarrow> JStr s | _ \<Rightarrow> nullish (js_get c ''url'') (JStr []))
           in if \<not> truthy url \<or> url \<in> set (map fst byUrl) then add_citations h cs byUrl
              else add_citations h cs (AList.update url
                \<lparr>ci_url = url, ci_title = citation_title h c, ci_snippet = []\<rparr> byUrl))"

definition normalizeCitations :: "host \<Rightarrow> js \<Rightarrow> perplexity_error + citation list" where
  "normalizeCitations h data =
     res_bind (items_of (js_get data ''search_results'')) (\<lambda>results.
     res_bind (add_results h results []) (\<lambda>byUrl.
     res_bind (items_of (js_get data ''citations'')) (\<lambda>rawCitations.
     res_bind (add_citations h rawCitations byUrl) (\<lambda>all.
     Inr (map snd all)))))"

section \<open>Calls\<close>

record perplexity_response =
  xr_status :: nat
  xr_statusText :: string
  xr_text :: "js + string"
  xr_json :: "js + js"

text \<open>\<open>fetch\<close> rejects because it was aborted, or with an \<open>Error\<close> and its message, or with something else.\<close>

datatype fetch_failure = TimedOut | NetworkDown "string option"

record 'd perplexity_net =
  xn_env :: "string \<Rightarrow> string option"
  xn_fetch :: "nat \<Rightarrow> string \<Rightarrow> (string \<times> string) list \<Rightarrow> jobj \<Rightarrow> (fetch_failure, 'd, perplexity_response) eop"
  xn_jitter :: "'d \<Rightarrow> nat \<times> 'd"
  xn_sleep :: "nat \<Rightarrow> 'd \<Rightarrow> 'd"
  xn_parse :: "string \<Rightarrow> js option"
  xn_host :: host

definition px :: "string \<Rightarrow> string" where
  "px m = ''[@loop-engine/adapter-perplexity] '' @ m"

definition perplexity_key :: "(string \<Rightarrow> string option) \<Rightarrow> perplexity_config \<Rightarrow> perplexity_error + string" where
  "perplexity_key process_env cf =
     (case env_text (or_else (px_apiKey cf) (process_env ''PERPLEXITY_API_KEY'')) of
        None \<Rightarrow> Inl (PerplexityAdapterError
          (px ''Missing API key. Set PERPLEXITY_API_KEY before invoking the adapter.'') 401 False)
      | Some key \<Rightarrow> Inr key)"

definition perplexity_base :: "(string \<Rightarrow> string option) \<Rightarrow> perplexity_config \<Rightarrow> string" where
  "perplexity_base process_env cf =
     strip_end ''/'' (or_default (or_else (px_baseUrl cf) (env_text (process_env ''PERPLEXITY_BASE_URL'')))
       ''https://api.perplexity.ai'')"

definition status_line :: "perplexity_response \<Rightarrow> string" where
  "status_line r = (if xr_statusText r = [] then ''HTTP '' @ show_nat (xr_status r) else xr_statusText r)"

definition parseErrorBody :: "'d perplexity_net \<Rightarrow> perplexity_response \<Rightarrow> js" where
  "parseErrorBody n r =
     (case xr_text r of
        Inl _ \<Rightarrow> JStr (status_line r)
      | Inr text \<Rightarrow>
          if text = [] then JStr (status_line r)
          else (case xn_parse n text of
                  None \<Rightarrow> JStr text
                | Some j \<Rightarrow> if j = JNull then JStr text
                           else nullish (js_get (js_get j ''error'') ''message'')
                                  (nullish (js_get j ''message'') (JStr text))))"

definition shouldRetryStatus :: "nat \<Rightarrow> bool" where
  "shouldRetryStatus status \<longleftrightarrow> status \<in> {429, 500, 503}"

definition response_ok :: "perplexity_response \<Rightarrow> bool" where
  "response_ok r \<longleftrightarrow> 200 \<le> xr_status r \<and> xr_status r \<le> 299"

definition failed_response :: "'d perplexity_net \<Rightarrow> perplexity_response \<Rightarrow> perplexity_error" where
  "failed_response n r =
     (let detail = js_to_string (xn_host n) (parseErrorBody n r); status = xr_status r
      in if status = 401 then PerplexityAdapterError (px (''Unauthorized: '' @ detail)) 401 False
         else if status = 400 then PerplexityAdapterError (px (''Bad request: '' @ detail)) 400 False
         else if status = 429 then RateLimitError (px (''Rate limited: '' @ detail))
         else PerplexityAdapterError (px detail) status (shouldRetryStatus status))"

record sonar_result =
  so_text :: string
  so_citations :: "citation list"
  so_model :: js
  so_promptTokens :: js
  so_completionTokens :: js
  so_raw :: js

definition first_item :: "js \<Rightarrow> js" where
  "first_item v = (case v of JArr (x # _) \<Rightarrow> x | JObj kvs \<Rightarrow> obj_get kvs ''0'' | _ \<Rightarrow> JUndef)"

definition sonar_answer :: "'d perplexity_net \<Rightarrow> string \<Rightarrow> perplexity_response \<Rightarrow> perplexity_error + sonar_result" where
  "sonar_answer n model r =
     (case xr_json r of
        Inl _ \<Rightarrow> Inl (PerplexityAdapterError (px ''Invalid JSON in success response'') 502 True)
      | Inr data \<Rightarrow>
          if data = JNull then Inl WrongShape
          else (case nullish (js_get (js_get (first_item (js_get data ''choices'')) ''message'') ''content'') (JStr []) of
              JStr text \<Rightarrow>
                res_bind (normalizeCitations (xn_host n) data) (\<lambda>citations.
                let usage = nullish (js_get data ''usage'') (JObj [])
                in Inr \<lparr>so_text = text, so_citations = citations, so_model = nullish (js_get data ''model'') (JStr model),
                   so_promptTokens = nullish (js_get usage ''prompt_tokens'') (JNum (Fin 0)),
                   so_completionTokens = nullish (js_get usage ''completion_tokens'') (JNum (Fin 0)), so_raw = data\<rparr>)
            | _ \<Rightarrow> Inl (PerplexityAdapterError (px ''Missing assistant message content'') 502 False)))"

definition backoff :: "'d perplexity_net \<Rightarrow> nat \<Rightarrow> 'd \<Rightarrow> 'd" where
  "backoff n attempt d = (case xn_jitter n d of (jitter, d') \<Rightarrow> xn_sleep n (200 * 2 ^ attempt + jitter) d')"

definition fetch_error :: "fetch_failure \<Rightarrow> perplexity_error" where
  "fetch_error e =
     (case e of
        TimedOut \<Rightarrow> PerplexityAdapterError (px ''Request timeout'') 408 True
      | NetworkDown m \<Rightarrow> PerplexityAdapterError (px (or_default m ''Unknown network error'')) 0 False)"

text \<open>
  The loop: \<open>left\<close> attempts are left after the current one. After the loop the code has the last status
  and message; it gets there without any request only, as the last attempt returns or throws.
\<close>

fun sonar_attempts ::
    "'d perplexity_net \<Rightarrow> (fetch_failure, 'd, perplexity_response) eop \<Rightarrow> string \<Rightarrow> nat \<Rightarrow> nat \<Rightarrow>
     (perplexity_error, 'd, sonar_result) eop" where
  "sonar_attempts n request model attempt left d =
     (case request d of
        (Inl e, d') \<Rightarrow>
          if e = TimedOut \<and> 0 < left
          then sonar_attempts n request model (Suc attempt) (left - 1) (backoff n attempt d')
          else (Inl (fetch_error e), d')
      | (Inr r, d') \<Rightarrow>
          if shouldRetryStatus (xr_status r) \<and> 0 < left
          then sonar_attempts n request model (Suc attempt) (left - 1) (backoff n attempt d')
          else if \<not> response_ok r then (Inl (failed_response n r), d')
          else (sonar_answer n model r, d'))"

declare sonar_attempts.simps [simp del]

definition invoke ::
    "'d perplexity_net \<Rightarrow> perplexity_config \<Rightarrow> adapter_input \<Rightarrow> (perplexity_error, 'd, sonar_result) eop" where
  "invoke n cf input =
     op_bind (op_result (perplexity_key (xn_env n) cf)) (\<lambda>apiKey.
     let model = resolveModel (xn_env n) input cf;
         body = buildCompletionBody input cf model;
         url = perplexity_base (xn_env n) cf @ ''/chat/completions'';
         retries = or_default (px_retries cf) 3;
         headers = [(''Content-Type'', ''application/json''), (''Authorization'', ''Bearer '' @ apiKey)]
     in if retries < 0 then op_throw (PerplexityAdapterError (px ''Exhausted retries (0): '') 503 True)
        else sonar_attempts n (xn_fetch n (or_default (px_timeout cf) 30000) url headers body) model 0 (nat retries))"

section \<open>Masking\<close>

definition key_here :: "string \<Rightarrow> bool" where
  "key_here s \<longleftrightarrow> take 5 s = ''pplx-'' \<and> drop 5 s \<noteq> [] \<and> alphanumeric (hd (drop 5 s))"

text \<open>\<open>s.replace(/pplx-[a-zA-Z0-9]+/g, "[REDACTED]")\<close>.\<close>

function mask_keys :: "string \<Rightarrow> string" where
  "mask_keys [] = []"
| "mask_keys (c # cs) =
     (if key_here (c # cs) then ''[REDACTED]'' @ mask_keys (dropWhile alphanumeric (drop 4 cs))
      else c # mask_keys cs)"
  by pat_completeness auto

termination
  by (relation "measure length") (auto intro: le_less_trans[OF length_dropWhile_le])

definition perplexity_guardEvidence :: "js \<Rightarrow> js" where
  "perplexity_guardEvidence payload =
     guardEvidence (Some \<lparr>stripFields = [''apiKey'', ''authorization'', ''x-api-key''], maskPatterns = [mask_keys]\<rparr>) payload"

section \<open>What the adapter promises\<close>

text \<open>No API key is left in a text of the masked payload.\<close>

fun has_key :: "string \<Rightarrow> bool" where
  "has_key [] = False"
| "has_key (c # cs) = (key_here (c # cs) \<or> has_key cs)"

lemma key_here_head: "key_here (c # cs) \<Longrightarrow> c = CHR ''p''"
  by (auto simp: key_here_def)

lemma key_here_prefix:
  "key_here s \<longleftrightarrow> (\<exists>x v. s = ''pplx-'' @ x # v \<and> alphanumeric x)" (is "_ \<longleftrightarrow> ?there")
proof
  assume k: "key_here s"
  then have "drop 5 s \<noteq> []" unfolding key_here_def by blast
  then obtain x v where d: "drop 5 s = x # v" by (cases "drop 5 s") blast+
  with k append_take_drop_id[of 5 s] have "s = ''pplx-'' @ x # v" by (simp only: key_here_def)
  with k d show ?there by (auto simp: key_here_def)
next
  assume ?there
  then show "key_here s" by (auto simp: key_here_def)
qed

lemma mask_prefix: "mask_keys s = u @ v \<Longrightarrow> CHR ''['' \<notin> set u \<Longrightarrow> \<exists>v'. s = u @ v'"
proof (induction u arbitrary: s)
  case (Cons a u)
  then show ?case by (cases s) (auto split: if_splits)
qed simp

lemma redacted_free: "\<not> has_key t \<Longrightarrow> \<not> has_key (''[REDACTED]'' @ t)"
  by (auto dest: key_here_head)

lemma bracket_not_alphanumeric: "\<not> alphanumeric (CHR ''['')"
  by (simp add: alphanumeric_def)

lemma masked_free: "\<not> has_key (mask_keys s)"
proof (induction s rule: mask_keys.induct)
  case (2 c cs)
  show ?case
  proof (cases "key_here (c # cs)")
    case True
    from 2(1)[OF True] redacted_free True show ?thesis by simp
  next
    case False
    have "\<not> key_here (c # mask_keys cs)"
    proof
      assume "key_here (c # mask_keys cs)"
      then obtain x v where m: "c = CHR ''p''" "mask_keys cs = (''plx-'' @ [x]) @ v" "alphanumeric x"
        by (auto simp: key_here_prefix)
      with mask_prefix[OF m(2)] bracket_not_alphanumeric obtain v' where "cs = (''plx-'' @ [x]) @ v'" by auto
      with m False show False by (auto simp: key_here_prefix)
    qed
    with 2(2)[OF False] False show ?thesis by simp
  qed
qed simp

lemma guarded_strings_free: "s \<in> js_strings (perplexity_guardEvidence v) \<Longrightarrow> \<not> has_key s"
  using guard_walk_strings[of "\<lparr>stripFields = [''apiKey'', ''authorization'', ''x-api-key''], maskPatterns = [mask_keys]\<rparr>" v]
    masked_free by (auto simp: perplexity_guardEvidence_def guardEvidence_def)

text \<open>The citations have different URLs, none of them empty.\<close>

definition cited_ok :: "(js \<times> citation) list \<Rightarrow> bool" where
  "cited_ok byUrl \<longleftrightarrow> distinct (map fst byUrl) \<and> (\<forall>(u, c) \<in> set byUrl. truthy u \<and> ci_url c = u)"

lemma cited_update: "cited_ok byUrl \<Longrightarrow> truthy u \<Longrightarrow> ci_url c = u \<Longrightarrow> cited_ok (AList.update u c byUrl)"
  using set_alist_update_subset[of u c byUrl] by (auto simp: cited_ok_def distinct_update)

lemma add_results_ok: "add_results h rs byUrl = Inr byUrl' \<Longrightarrow> cited_ok byUrl \<Longrightarrow> cited_ok byUrl'"
  by (induction h rs byUrl rule: add_results.induct) (auto simp: Let_def cited_update split: if_splits)

lemma add_citations_ok: "add_citations h cs byUrl = Inr byUrl' \<Longrightarrow> cited_ok byUrl \<Longrightarrow> cited_ok byUrl'"
  by (induction h cs byUrl rule: add_citations.induct) (auto simp: Let_def cited_update split: if_splits)

lemma cited_ok_Nil: "cited_ok []"
  by (simp add: cited_ok_def)

lemma cited_urls: "cited_ok byUrl \<Longrightarrow> map ci_url (map snd byUrl) = map fst byUrl"
  by (auto simp: cited_ok_def)

lemma citations_distinct:
  assumes "normalizeCitations h data = Inr cs"
  shows "distinct (map ci_url cs) \<and> (\<forall>c \<in> set cs. truthy (ci_url c))"
proof -
  from assms obtain rs cs' byUrl all where
      r: "add_results h rs [] = Inr byUrl" "add_citations h cs' byUrl = Inr all" and cs: "cs = map snd all"
    unfolding normalizeCitations_def by (auto simp: res_simps)
  from add_citations_ok[OF r(2) add_results_ok[OF r(1) cited_ok_Nil]] have ok: "cited_ok all" .
  then have "distinct (map ci_url cs)" unfolding cs cited_urls[OF ok] by (simp add: cited_ok_def)
  with ok show ?thesis by (auto simp: cs cited_ok_def)
qed

text \<open>
  Requests are repeated at most as often as allowed, and a status that is worth a retry is reported
  only after the last request.
\<close>

lemma add_results_error: "add_results h rs b = Inl e \<Longrightarrow> e = WrongShape"
  by (induction h rs b rule: add_results.induct) (auto simp: Let_def split: if_splits)

lemma add_citations_error: "add_citations h cs b = Inl e \<Longrightarrow> e = WrongShape"
  by (induction h cs b rule: add_citations.induct) (auto simp: Let_def split: if_splits)

lemma items_of_error: "items_of v = Inl e \<Longrightarrow> e = WrongShape"
  by (auto simp: items_of_def split: jsval.splits)

lemma citations_error: "normalizeCitations h data = Inl e \<Longrightarrow> e = WrongShape"
  unfolding normalizeCitations_def
  by (auto simp: res_simps dest: add_results_error add_citations_error items_of_error)

lemma sonar_answer_error:
  "sonar_answer n model r = Inl e \<Longrightarrow> error_status e = Some s \<Longrightarrow> s = 502"
  by (auto simp: sonar_answer_def res_simps Let_def dest!: citations_error
      split: sum.splits jsval.splits if_splits)

lemma failed_response_status: "error_status (failed_response n r) = Some (xr_status r)"
  by (simp add: failed_response_def Let_def)

text \<open>One round of the loop.\<close>

definition again :: "fetch_failure + perplexity_response \<Rightarrow> bool" where
  "again a = (case a of Inl e \<Rightarrow> e = TimedOut | Inr r \<Rightarrow> shouldRetryStatus (xr_status r))"

definition final :: "'d perplexity_net \<Rightarrow> string \<Rightarrow> fetch_failure + perplexity_response \<Rightarrow> perplexity_error + sonar_result" where
  "final n model a =
     (case a of Inl e \<Rightarrow> Inl (fetch_error e)
      | Inr r \<Rightarrow> if response_ok r then sonar_answer n model r else Inl (failed_response n r))"

lemma one_attempt:
  "sonar_attempts n request model k left d =
     (case request d of (a, d') \<Rightarrow>
        if again a \<and> 0 < left then sonar_attempts n request model (Suc k) (left - 1) (backoff n k d')
        else (final n model a, d'))"
  by (subst sonar_attempts.simps) (auto simp: again_def final_def split: prod.split sum.split)

lemma final_status:
  "final n model a = Inl e \<Longrightarrow> error_status e = Some s \<Longrightarrow> shouldRetryStatus s \<Longrightarrow> again a"
  by (auto simp: final_def again_def failed_response_status fetch_error_def shouldRetryStatus_def
      split: sum.splits if_splits fetch_failure.splits dest: sonar_answer_error)

lemma sonar_attempts_bounded:
  fixes requests :: "'d \<Rightarrow> nat"
  assumes "\<And>d. requests (snd (request d)) = Suc (requests d)"
    and "\<And>k d. requests (backoff n k d) = requests d"
  shows "sonar_attempts n request model k left d = (r, d') \<Longrightarrow>
     requests d < requests d' \<and> requests d' \<le> requests d + Suc left \<and>
     (\<forall>e s. r = Inl e \<longrightarrow> error_status e = Some s \<longrightarrow> shouldRetryStatus s \<longrightarrow> requests d' = requests d + Suc left)"
proof (induction left arbitrary: k d)
  case (0 k d)
  obtain a d1 where a: "request d = (a, d1)" by fastforce
  with assms(1)[of d] 0 show ?case by (simp add: one_attempt[of n request model k 0 d])
next
  case (Suc left k d)
  obtain a d1 where a: "request d = (a, d1)" by fastforce
  with assms(1)[of d] have d1: "requests d1 = Suc (requests d)" by simp
  note step = one_attempt[of n request model k "Suc left" d]
  show ?case
  proof (cases "again a")
    case True
    with Suc.prems a step have "sonar_attempts n request model (Suc k) left (backoff n k d1) = (r, d')" by simp
    from Suc.IH[OF this] d1 assms(2) show ?thesis by auto
  next
    case False
    with Suc.prems a step have "d' = d1" "r = final n model a" by simp_all
    with False d1 final_status[of n model a] show ?thesis by auto
  qed
qed

end
