(* ===== verification/Providers.thy ===== *)
theory Providers
  imports Registry Evidence
begin

text \<open>
  Evidence providers: the interface and registry of \<open>packages/provider-api/src\<close>, the JSON provider
  \<open>packages/provider-json/src\<close>, the conformance checks \<open>packages/provider-conformance/src\<close> with the
  exemplars of \<open>packages/golden-exemplars/src\<close>, the badges of \<open>packages/presentation/src\<close>.
\<close>

section \<open>Providers and their registry\<close>

datatype provider_role = SourceRole | DerivedRole | ActorRole

datatype provider_archetype = Semantic | Operational | Document | Derived | Manual

record capability_profile =
  cp_providerId :: string
  cp_displayName :: string
  cp_role :: provider_role
  cp_archetype :: provider_archetype
  cp_provenanceCeiling :: provenance_rung
  cp_definitionCeiling :: definition_rung
  cp_freshnessSupported :: bool
  cp_suppliesLineage :: bool
  cp_suppliesVersion :: bool
  cp_suppliesMeasurements :: bool
  cp_conformanceSuiteVersion :: string

record snapshot_request =
  sq_sourceRef :: string
  sq_capturedBy :: string
  sq_capturedAt :: "string option"
  sq_snapshotKey :: "string option"

record ('e, 'd) evidence_provider =
  ep_capability :: capability_profile
  ep_resolve :: "string \<Rightarrow> ('e, 'd, js) eop"
  ep_snapshot :: "snapshot_request \<Rightarrow> ('e, 'd, js) eop"

text \<open>The registry is a map that keeps the order of insertion.\<close>

type_synonym ('e, 'd) provider_registry = "(string \<times> ('e, 'd) evidence_provider) list"

definition provider_id :: "('e, 'd) evidence_provider \<Rightarrow> string" where
  "provider_id p = cp_providerId (ep_capability p)"

definition provider_register ::
    "('e, 'd) evidence_provider \<Rightarrow> ('e, 'd) provider_registry \<Rightarrow> js_error + ('e, 'd) provider_registry" where
  "provider_register p providers =
     (if provider_id p \<in> set (map fst providers)
      then Inl (Error (''provider already registered: '' @ provider_id p))
      else Inr (AList.update (provider_id p) p providers))"

definition provider_get :: "('e, 'd) provider_registry \<Rightarrow> string \<Rightarrow> ('e, 'd) evidence_provider option" where
  "provider_get providers providerId = map_of providers providerId"

definition provider_list :: "('e, 'd) provider_registry \<Rightarrow> ('e, 'd) evidence_provider list" where
  "provider_list providers = map snd providers"

section \<open>The JSON provider\<close>

record json_provider_config =
  jp_providerId :: string
  jp_displayName :: string
  jp_role :: "provider_role option"
  jp_archetype :: "provider_archetype option"
  jp_conformanceSuiteVersion :: "string option"
  jp_entries :: "js list option"
  jp_catalogPath :: "string option"

text \<open>What is thrown: an error of the host, a \<open>TypeError\<close>, and the errors the code makes.\<close>

datatype provider_error =
    HostThrew js
  | ReadOfNothing
  | UnknownSource string
  | Unhashable canon_error
  | NotProposed js_error

definition read_of :: "js \<Rightarrow> string \<Rightarrow> provider_error + js" where
  "read_of v k = (if v = JUndef \<or> v = JNull then Inl ReadOfNothing else Inr (js_get v k))"

text \<open>The elements a \<open>for\<close> loop visits.\<close>

definition elements :: "js \<Rightarrow> provider_error + js list" where
  "elements v =
     (case v of JArr vs \<Rightarrow> Inr vs | JStr s \<Rightarrow> Inr (map (\<lambda>c. JStr [c]) s) | _ \<Rightarrow> Inl ReadOfNothing)"

text \<open>The file system and the JSON text format.\<close>

record json_files =
  jf_read :: "string \<Rightarrow> js + string"
  jf_parse :: "string \<Rightarrow> js + js"

definition host_result :: "js + 'a \<Rightarrow> provider_error + 'a" where
  "host_result r = (case r of Inl e \<Rightarrow> Inl (HostThrew e) | Inr x \<Rightarrow> Inr x)"

definition read_json :: "json_files \<Rightarrow> string \<Rightarrow> provider_error + js" where
  "read_json fs path = res_bind (host_result (jf_read fs path)) (\<lambda>raw. host_result (jf_parse fs raw))"

fun file_rows :: "js list \<Rightarrow> (js \<times> js) list \<Rightarrow> provider_error + (js \<times> js) list" where
  "file_rows [] catalog = Inr catalog"
| "file_rows (row # rows) catalog =
     res_bind (read_of row ''sourceRef'') (\<lambda>ref. file_rows rows (AList.update ref row catalog))"

definition loadCatalog :: "json_files \<Rightarrow> json_provider_config \<Rightarrow> provider_error + (js \<times> js) list" where
  "loadCatalog fs cf =
     res_bind (case nonempty (jp_catalogPath cf) of
         None \<Rightarrow> Inr (JArr (or_default (jp_entries cf) []))
       | Some path \<Rightarrow> read_json fs path) (\<lambda>rows.
     res_bind (elements rows) (\<lambda>vs. file_rows vs []))"

definition capabilityFromConfig :: "json_provider_config \<Rightarrow> capability_profile" where
  "capabilityFromConfig cf =
     \<lparr>cp_providerId = jp_providerId cf, cp_displayName = jp_displayName cf,
      cp_role = or_default (jp_role cf) SourceRole, cp_archetype = or_default (jp_archetype cf) Manual,
      cp_provenanceCeiling = OriginAttested, cp_definitionCeiling = Governed, cp_freshnessSupported = True,
      cp_suppliesLineage = True, cp_suppliesVersion = True, cp_suppliesMeasurements = True,
      cp_conformanceSuiteVersion = or_default (jp_conformanceSuiteVersion cf) ''provider-conformance-0.1.0''\<rparr>"

definition json_resolve :: "(js \<times> js) list \<Rightarrow> string \<Rightarrow> js" where
  "json_resolve catalog ref =
     (case map_of catalog (JStr ref) of None \<Rightarrow> JNull | Some entry \<Rightarrow> nullish (js_get entry ''resolve'') JNull)"

definition given_or :: "string option \<Rightarrow> js \<Rightarrow> js" where
  "given_or x v = (case x of Some s \<Rightarrow> JStr s | None \<Rightarrow> v)"

definition json_snapshot ::
    "host \<Rightarrow> (ustr \<Rightarrow> string) \<Rightarrow> capability_profile \<Rightarrow> (js \<times> js) list \<Rightarrow> snapshot_request \<Rightarrow> provider_error + js" where
  "json_snapshot h sha capability catalog input =
     (case map_of catalog (JStr (sq_sourceRef input)) of
        None \<Rightarrow> Inl (UnknownSource (sq_sourceRef input))
      | Some entry \<Rightarrow>
          let snapshot = js_get entry ''snapshot''
          in res_bind (read_of snapshot ''values'') (\<lambda>values.
             case snapshotContentHash h sha values of
               Inl e \<Rightarrow> Inl (Unhashable e)
             | Inr hash \<Rightarrow>
                 (case assertEvidenceSnapshotProposed (JObj (obj_spread
                     (case snapshot of JObj kvs \<Rightarrow> kvs | _ \<Rightarrow> [])
                     [(''snapshotKey'', given_or (sq_snapshotKey input) (js_get snapshot ''snapshotKey'')),
                      (''capturedAt'', given_or (sq_capturedAt input) (js_get snapshot ''capturedAt'')),
                      (''capturedBy'', JStr (sq_capturedBy input)),
                      (''providerId'', JStr (cp_providerId capability)),
                      (''conformanceSuiteVersion'', JStr (cp_conformanceSuiteVersion capability)),
                      (''contentSha256'', JStr hash)])) of
                    Inl e \<Rightarrow> Inl (NotProposed e)
                  | Inr proposed \<Rightarrow> Inr proposed)))"

definition createJsonEvidenceProvider ::
    "host \<Rightarrow> (ustr \<Rightarrow> string) \<Rightarrow> json_files \<Rightarrow> json_provider_config \<Rightarrow>
     provider_error + (provider_error, 'd) evidence_provider" where
  "createJsonEvidenceProvider h sha fs cf =
     res_bind (loadCatalog fs cf) (\<lambda>catalog.
     let capability = capabilityFromConfig cf
     in Inr \<lparr>ep_capability = capability, ep_resolve = (\<lambda>ref. op_return (json_resolve catalog ref)),
          ep_snapshot = (\<lambda>input. op_result (json_snapshot h sha capability catalog input))\<rparr>)"

section \<open>Conformance\<close>

record conformance_check =
  cc_code :: string
  cc_message :: string
  cc_path :: "string option"

record conformance_report =
  cr_suiteVersion :: string
  cr_exemplarId :: "string option"
  cr_valid :: bool
  cr_checks :: "conformance_check list"

definition check_failed :: "string \<Rightarrow> string \<Rightarrow> conformance_check" where
  "check_failed code m = \<lparr>cc_code = code, cc_message = m, cc_path = None\<rparr>"

definition checkCanonicalHash ::
    "host \<Rightarrow> (ustr \<Rightarrow> string) \<Rightarrow> js \<Rightarrow> provider_error + conformance_check list" where
  "checkCanonicalHash h sha snapshot =
     res_bind (read_of snapshot ''values'') (\<lambda>values.
     case snapshotContentHash h sha values of
       Inl e \<Rightarrow> Inl (Unhashable e)
     | Inr hash \<Rightarrow>
         let contentSha256 = js_get snapshot ''contentSha256''
         in Inr (if \<not> is_sha256_hex hash
                 then [check_failed ''invalid_hash'' ''content hash must be 64-char hex'']
                 else if truthy contentSha256 \<and> contentSha256 \<noteq> JStr hash
                 then [check_failed ''hash_mismatch'' ''contentSha256 does not match canonical values hash'']
                 else []))"

definition forbidden_in_values :: "string list" where
  "forbidden_in_values = [''lookml'', ''snowflake'', ''power bi'', ''semantic view'']"

definition checkNativeMetadataIsolation :: "(js \<Rightarrow> string) \<Rightarrow> js \<Rightarrow> provider_error + conformance_check list" where
  "checkNativeMetadataIsolation stringify snapshot =
     res_bind (read_of snapshot ''values'') (\<lambda>values.
     Inr (case find (\<lambda>term. contains_ci term (stringify values)) forbidden_in_values of
         None \<Rightarrow> []
       | Some term \<Rightarrow> [check_failed ''native_term_in_values''
           (''provider-native term \"'' @ term @ ''\" must live in nativeMetadata, not values'')]))"

definition error_check :: "ev_error \<Rightarrow> conformance_check" where
  "error_check e = \<lparr>cc_code = ee_code e, cc_message = ee_message e, cc_path = Some (ee_path e)\<rparr>"

definition runConformanceChecks ::
    "host \<Rightarrow> (ustr \<Rightarrow> string) \<Rightarrow> (js \<Rightarrow> string) \<Rightarrow> js \<Rightarrow> string option \<Rightarrow> provider_error + conformance_report" where
  "runConformanceChecks h sha stringify snapshot exemplarId =
     res_bind (checkCanonicalHash h sha snapshot) (\<lambda>hashChecks.
     res_bind (checkNativeMetadataIsolation stringify snapshot) (\<lambda>nativeChecks.
     let checks = map error_check (validateEvidenceSnapshotProposed snapshot) @ hashChecks @ nativeChecks
     in Inr \<lparr>cr_suiteVersion = ''provider-conformance-0.1.0'', cr_exemplarId = exemplarId,
          cr_valid = (checks = []), cr_checks = checks\<rparr>))"

definition checkExemplarExpectations :: "js \<Rightarrow> provider_error + conformance_check list" where
  "checkExemplarExpectations fixture =
     (if js_get fixture ''id'' \<noteq> JStr ''E02'' then Inr []
      else res_bind (read_of (js_get fixture ''snapshot'') ''qualification'') (\<lambda>qualification.
           res_bind (read_of qualification ''definition'') (\<lambda>rung.
           Inr ((if rung = JStr ''governed''
                 then [check_failed ''false_governance_mapping'' ''E02 ad-hoc query must not map to governed definition'']
                 else []) @
                (if rung \<noteq> JStr ''unreviewed''
                 then [check_failed ''e02_definition_expectation'' ''E02 ad-hoc query must map to unreviewed definition'']
                 else [])))))"

fun res_each :: "('a \<Rightarrow> 'e + 'b) \<Rightarrow> 'a list \<Rightarrow> 'e + 'b list" where
  "res_each f [] = Inr []"
| "res_each f (x # xs) = res_bind (f x) (\<lambda>y. res_bind (res_each f xs) (\<lambda>ys. Inr (y # ys)))"

definition fixture_files :: "string list" where
  "fixture_files =
     [''e01-governed-semantic-metric.json'', ''e02-adhoc-warehouse-query.json'', ''e03-semantic-bi-metric.json'',
      ''e04-dashboard-tile.json'', ''e05-telemetry-reading.json'', ''e06-collaborative-document.json'',
      ''e07-signed-pdf.json'', ''e08-model-summary.json'', ''e09-physical-anchor-reading.json'',
      ''e10-manual-upload.json'']"

definition loadGoldenExemplars :: "json_files \<Rightarrow> provider_error + js list" where
  "loadGoldenExemplars fs = res_each (read_json fs) fixture_files"

fun row_with_id :: "string \<Rightarrow> js list \<Rightarrow> provider_error + js" where
  "row_with_id i [] = Inr JUndef"
| "row_with_id i (row # rows) =
     res_bind (read_of row ''id'') (\<lambda>v. if v = JStr i then Inr row else row_with_id i rows)"

definition loadGoldenExemplar :: "json_files \<Rightarrow> string \<Rightarrow> provider_error + js" where
  "loadGoldenExemplar fs i = res_bind (loadGoldenExemplars fs) (row_with_id i)"

definition exemplar_report ::
    "host \<Rightarrow> (ustr \<Rightarrow> string) \<Rightarrow> (js \<Rightarrow> string) \<Rightarrow> js \<Rightarrow> provider_error + conformance_report" where
  "exemplar_report h sha stringify fixture =
     res_bind (read_of fixture ''snapshot'') (\<lambda>snapshot.
     res_bind (runConformanceChecks h sha stringify snapshot
         (case js_get fixture ''id'' of JStr i \<Rightarrow> Some i | _ \<Rightarrow> None)) (\<lambda>report.
     res_bind (checkExemplarExpectations fixture) (\<lambda>expectations.
     let checks = cr_checks report @ expectations
     in Inr (report\<lparr>cr_checks := checks, cr_valid := (checks = [])\<rparr>))))"

definition runGoldenExemplarConformanceSuite ::
    "host \<Rightarrow> (ustr \<Rightarrow> string) \<Rightarrow> (js \<Rightarrow> string) \<Rightarrow> json_files \<Rightarrow> provider_error + conformance_report list" where
  "runGoldenExemplarConformanceSuite h sha stringify fs =
     res_bind (loadGoldenExemplars fs) (res_each (exemplar_report h sha stringify))"

definition suite_failure :: "conformance_report list \<Rightarrow> js_error option" where
  "suite_failure reports =
     (let failures = filter (\<lambda>r. \<not> cr_valid r) reports; newline = [char_of (10 :: nat)]
      in if failures = [] then None
         else Some (Error (''golden exemplar conformance failed:'' @ newline @
           join newline (map (\<lambda>f. or_default (cr_exemplarId f) ''undefined'' @ '': '' @
             join ''; '' (map cc_message (cr_checks f))) failures))))"

definition assertGoldenExemplarSuitePasses ::
    "host \<Rightarrow> (ustr \<Rightarrow> string) \<Rightarrow> (js \<Rightarrow> string) \<Rightarrow> json_files \<Rightarrow> provider_error + js_error option" where
  "assertGoldenExemplarSuitePasses h sha stringify fs =
     map_sum id suite_failure (runGoldenExemplarConformanceSuite h sha stringify fs)"

section \<open>Presentation\<close>

datatype indicator_level = LowLevel | MediumLevel | HighLevel

fun formatProvenanceRung :: "provenance_rung \<Rightarrow> string" where
  "formatProvenanceRung ProvUnknown = ''Unknown provenance''"
| "formatProvenanceRung SystemAttested = ''System attested''"
| "formatProvenanceRung OriginAttested = ''Origin attested''"

fun formatDefinitionRung :: "definition_rung \<Rightarrow> string" where
  "formatDefinitionRung NotApplicable = ''Not applicable''"
| "formatDefinitionRung Unreviewed = ''Unreviewed''"
| "formatDefinitionRung Certified = ''Certified''"
| "formatDefinitionRung Governed = ''Governed''"

fun verdict_name :: "freshness_verdict \<Rightarrow> string" where
  "verdict_name Fresh = ''fresh''"
| "verdict_name Stale = ''stale''"
| "verdict_name VerdictUnknown = ''unknown''"

definition formatFreshnessQualification :: "freshness_qualification \<Rightarrow> string" where
  "formatFreshnessQualification f =
     (case f of
        FreshnessNotApplicable \<Rightarrow> ''Freshness not applicable''
      | FreshnessApplicable facts \<Rightarrow>
          ''Freshness: '' @ verdict_name (or_default (fr_freshnessVerdict facts) VerdictUnknown))"

definition provenanceIndicatorLevel :: "provenance_rung \<Rightarrow> indicator_level" where
  "provenanceIndicatorLevel r =
     (if r = OriginAttested then HighLevel else if r = SystemAttested then MediumLevel else LowLevel)"

record qualification_badge =
  qb_provenance :: "string \<times> indicator_level"
  qb_definition :: string
  qb_freshness :: string

definition qualificationBadge :: "qualification_vector \<Rightarrow> qualification_badge" where
  "qualificationBadge v =
     \<lparr>qb_provenance = (formatProvenanceRung (q_provenance v), provenanceIndicatorLevel (q_provenance v)),
      qb_definition = formatDefinitionRung (q_definition v),
      qb_freshness = formatFreshnessQualification (q_freshness v)\<rparr>"

record evidence_card =
  ec_snapshotKey :: string
  ec_sourceSystem :: string
  ec_capturedAt :: string
  ec_badge :: qualification_badge

definition evidenceCardSummary :: "string \<Rightarrow> string \<Rightarrow> string \<Rightarrow> qualification_vector \<Rightarrow> evidence_card" where
  "evidenceCardSummary snapshotKey sourceSystem capturedAt qualification =
     \<lparr>ec_snapshotKey = snapshotKey, ec_sourceSystem = sourceSystem, ec_capturedAt = capturedAt,
      ec_badge = qualificationBadge qualification\<rparr>"

text \<open>A badge shows which rungs a vector has: rungs with the same label are the same.\<close>

lemma badge_rungs:
  "qualificationBadge v = qualificationBadge v' \<Longrightarrow>
     q_provenance v = q_provenance v' \<and> q_definition v = q_definition v'"
  by (cases "q_provenance v"; cases "q_provenance v'"; cases "q_definition v"; cases "q_definition v'")
    (simp_all add: qualificationBadge_def)

section \<open>What providers promise\<close>

text \<open>
  The contract of a provider: what it hands out passes the validator of proposed snapshots and has
  the canonical hash of its values.
\<close>

definition carries_hash :: "host \<Rightarrow> (ustr \<Rightarrow> string) \<Rightarrow> js \<Rightarrow> bool" where
  "carries_hash h sha s \<longleftrightarrow>
     (\<exists>hash. snapshotContentHash h sha (js_get s ''values'') = Inr hash \<and> js_get s ''contentSha256'' = JStr hash)"

locale proposing_provider =
  fixes provider :: "('e, 'd) evidence_provider" and h :: host and sha :: "ustr \<Rightarrow> string"
  assumes proposes: "ep_snapshot provider input d = (Inr s, d') \<Longrightarrow>
    validateEvidenceSnapshotProposed s = [] \<and> carries_hash h sha s"
begin

lemma snapshot_object: "ep_snapshot provider input d = (Inr s, d') \<Longrightarrow> s \<noteq> JUndef \<and> s \<noteq> JNull"
  using proposes[of input d s d'] by (auto simp: validateEvidenceSnapshotProposed_def)

text \<open>The checks find nothing but terms of a provider in the values.\<close>

lemma conforms:
  assumes "\<And>u. is_sha256_hex (sha u)" "ep_snapshot provider input d = (Inr s, d')"
  shows "\<exists>r. runConformanceChecks h sha stringify s i = Inr r \<and>
    (\<forall>c \<in> set (cr_checks r). cc_code c = ''native_term_in_values'') \<and>
    (cr_valid r \<longleftrightarrow> (\<forall>term \<in> set forbidden_in_values. \<not> contains_ci term (stringify (js_get s ''values''))))"
proof -
  from snapshot_object[OF assms(2)] have read: "read_of s k = Inr (js_get s k)" for k by (simp add: read_of_def)
  from proposes[OF assms(2)] obtain hash where v: "validateEvidenceSnapshotProposed s = []"
    and hash: "snapshotContentHash h sha (js_get s ''values'') = Inr hash" "js_get s ''contentSha256'' = JStr hash"
    by (auto simp: carries_hash_def)
  then have "is_sha256_hex hash"
    using assms(1) by (auto simp: snapshotContentHash_def sha256CanonicalHex_Inr)
  with hash have "checkCanonicalHash h sha s = Inr []" by (simp add: checkCanonicalHash_def read)
  moreover have "find P ts = Some x \<Longrightarrow> x \<in> set ts \<and> P x" for P :: "string \<Rightarrow> bool" and ts x
    by (auto simp: find_Some_iff)
  ultimately show ?thesis
    using v by (fastforce simp: runConformanceChecks_def checkNativeMetadataIsolation_def read check_failed_def Let_def
        find_None_iff split: option.split)
qed

end

lemma assert_proposed: "assertEvidenceSnapshotProposed v = Inr s \<longleftrightarrow> s = v \<and> validateEvidenceSnapshotProposed v = []"
  by (auto simp: assertEvidenceSnapshotProposed_def Let_def)

lemma json_snapshot_proposed:
  assumes "json_snapshot h sha capability catalog input = Inr s"
  shows "validateEvidenceSnapshotProposed s = [] \<and> carries_hash h sha s"
proof -
  from assms obtain entry where run: "json_snapshot h sha capability catalog input = Inr s"
    and entry: "map_of catalog (JStr (sq_sourceRef input)) = Some entry"
    by (auto simp: json_snapshot_def split: option.splits)
  let ?snapshot = "js_get entry ''snapshot''"
  let ?kvs = "case ?snapshot of JObj kvs \<Rightarrow> kvs | _ \<Rightarrow> []"
  from run entry obtain hash k a b c v where
      hash: "snapshotContentHash h sha (js_get ?snapshot ''values'') = Inr hash"
    and out: "assertEvidenceSnapshotProposed (JObj (obj_spread ?kvs [(''snapshotKey'', k), (''capturedAt'', a),
      (''capturedBy'', b), (''providerId'', c), (''conformanceSuiteVersion'', v), (''contentSha256'', JStr hash)])) = Inr s"
    unfolding json_snapshot_def
    by (simp add: Let_def read_of_def split: if_splits sum.splits)
  from out have s: "s = JObj (obj_spread ?kvs [(''snapshotKey'', k), (''capturedAt'', a),
      (''capturedBy'', b), (''providerId'', c), (''conformanceSuiteVersion'', v), (''contentSha256'', JStr hash)])"
    and ok: "validateEvidenceSnapshotProposed s = []" by (simp_all add: assert_proposed)
  have "js_get s ''values'' = js_get ?snapshot ''values''" "js_get s ''contentSha256'' = JStr hash"
    unfolding s by (cases ?snapshot; simp add: obj_simps obj_get_def)+
  with hash ok show ?thesis by (simp add: carries_hash_def)
qed

lemma json_provider_proposes:
  fixes provider :: "(provider_error, 'd) evidence_provider"
  assumes "createJsonEvidenceProvider h sha fs cf = Inr provider"
  shows "proposing_provider provider h sha"
  using assms
  by unfold_locales (auto simp: createJsonEvidenceProvider_def res_simps Let_def op_result_def
      dest: json_snapshot_proposed split: sum.splits)

text \<open>A provider with one entry.\<close>

definition sample_proposal :: js where
  "sample_proposal = JObj
     [(''snapshotKey'', JStr ''revenue''), (''sourceSystem'', JStr ''bi''), (''capturedAt'', JStr ''2026-01-01''),
      (''values'', JObj [(''total'', JStr ''12'')]), (''versions'', launch_versions),
      (''qualification'', JObj [(''provenance'', JStr ''system-attested''), (''definition'', JStr ''certified''),
         (''freshness'', JObj [(''applicable'', JStr ''not-applicable'')])])]"

definition sample_provider_config :: json_provider_config where
  "sample_provider_config =
     \<lparr>jp_providerId = ''json'', jp_displayName = ''JSON'', jp_role = None, jp_archetype = None,
      jp_conformanceSuiteVersion = None,
      jp_entries = Some [JObj [(''sourceRef'', JStr ''ref''), (''snapshot'', sample_proposal)]], jp_catalogPath = None\<rparr>"

definition no_files :: json_files where
  "no_files = \<lparr>jf_read = Inl \<circ> JStr, jf_parse = Inl \<circ> JStr\<rparr>"

definition json_provider :: "host \<Rightarrow> (ustr \<Rightarrow> string) \<Rightarrow> (provider_error, 'd) evidence_provider" where
  "json_provider h sha =
     (case createJsonEvidenceProvider h sha no_files sample_provider_config of Inr p \<Rightarrow> p | Inl _ \<Rightarrow> undefined)"

interpretation json: proposing_provider "json_provider h sha" h sha for h sha
  by (rule json_provider_proposes[of _ _ no_files sample_provider_config])
    (simp add: json_provider_def createJsonEvidenceProvider_def loadCatalog_def sample_provider_config_def
      elements_def read_of_def nonempty_def or_default_def Let_def)

section \<open>What the registry promises\<close>

definition registry_keyed :: "('e, 'd) provider_registry \<Rightarrow> bool" where
  "registry_keyed ps \<longleftrightarrow> distinct (map fst ps) \<and> (\<forall>(k, p) \<in> set ps. provider_id p = k)"

lemma register_effect:
  assumes "provider_register p ps = Inr ps'" "registry_keyed ps"
  shows "registry_keyed ps' \<and> provider_list ps' = provider_list ps @ [p] \<and>
    provider_get ps' = (provider_get ps)(provider_id p \<mapsto> p)"
proof -
  from assms have new: "provider_id p \<notin> fst ` set ps" and ps': "ps' = AList.update (provider_id p) p ps"
    by (auto simp: provider_register_def split: if_splits)
  from new have app: "ps' = ps @ [(provider_id p, p)]"
    unfolding ps' by (induction ps) auto
  from new have "map_of ps (provider_id p) = None" by (simp add: map_of_eq_None_iff)
  then have "provider_get ps' = (provider_get ps)(provider_id p \<mapsto> p)"
    by (auto simp: app provider_get_def fun_eq_iff map_add_def split: option.split)
  with new assms(2) show ?thesis by (auto simp: app registry_keyed_def provider_list_def)
qed

end
