(* ===== verification/Event_Adapters.thy ===== *)
theory Event_Adapters
  imports Registry Events Canonical_Json
begin

text \<open>
  What carries events and approvals out of the process: the webhook bus \<open>packages/adapters/http/src\<close>,
  the Kafka bus \<open>packages/adapters/kafka/src\<close>, the OpenClaw bus \<open>packages/adapter-openclaw/src\<close> with
  its socket, the incidents of \<open>packages/adapter-pagerduty/src\<close>.
\<close>

section \<open>Webhooks\<close>

text \<open>A request fails or is answered with a status; a wait lasts the given milliseconds.\<close>

record 'd webhook =
  wb_post :: "loop_event \<Rightarrow> (js, 'd, nat) eop"
  wb_sleep :: "nat \<Rightarrow> 'd \<Rightarrow> 'd"
  wb_retries :: "int option"

definition delivered :: "js + nat \<Rightarrow> bool" where
  "delivered r = (case r of Inl _ \<Rightarrow> False | Inr status \<Rightarrow> 200 \<le> status \<and> status \<le> 299)"

fun http_deliver :: "'d webhook \<Rightarrow> loop_event \<Rightarrow> nat \<Rightarrow> nat \<Rightarrow> 'd \<Rightarrow> 'd" where
  "http_deliver o' e attempt 0 d = d"
| "http_deliver o' e attempt (Suc left) d =
     (case wb_post o' e d of
        (r, d') \<Rightarrow>
          if delivered r \<or> left = 0 then d'
          else http_deliver o' e (Suc attempt) left (wb_sleep o' (2 ^ attempt * 100) d'))"

definition http_emit :: "'d webhook \<Rightarrow> loop_event \<Rightarrow> (js_error, 'd, unit) eop" where
  "http_emit o' e d = (Inr (), http_deliver o' e 0 (nat (or_default (wb_retries o') 3)) d)"

text \<open>
  The bus never throws and sends an event at most as often as the option says, once at least if that
  is positive.
\<close>

lemma http_deliver_bounded:
  fixes posts :: "'d \<Rightarrow> nat"
  assumes "\<And>d. posts (snd (wb_post o' e d)) = Suc (posts d)" "\<And>t d. posts (wb_sleep o' t d) = posts d"
  shows "posts d + min 1 n \<le> posts (http_deliver o' e k n d) \<and> posts (http_deliver o' e k n d) \<le> posts d + n"
proof (induction n arbitrary: k d)
  case (Suc n)
  obtain r d1 where r: "wb_post o' e d = (r, d1)" by fastforce
  with assms(1)[of d] have "posts d1 = Suc (posts d)" by simp
  with r Suc.IH[of "wb_sleep o' (2 ^ k * 100) d1" "Suc k"] assms(2) show ?case by auto
qed simp

section \<open>Kafka\<close>

definition kafka_emit ::
    "(string \<Rightarrow> string list \<Rightarrow> (js, 'd, unit) eop) \<Rightarrow> (loop_event \<Rightarrow> string) \<Rightarrow> string \<Rightarrow> loop_event \<Rightarrow> (js, 'd, unit) eop" where
  "kafka_emit send stringify topic e = send topic [stringify e]"

definition kafka_subscribe :: "js_error + 'a" where
  "kafka_subscribe = Inl (Error (''@loop-engine/adapter-kafka: subscribe() is stubbed at 1.0.0-rc.0. '' @
     ''Only emit() is implemented. Track the 1.1.0 milestone for the subscribe() implementation.''))"

section \<open>Messages to an OpenClaw gateway\<close>

fun event_base_of :: "loop_event \<Rightarrow> event_base" where
  "event_base_of (LoopStarted b _) = b"
| "event_base_of (LoopCompleted b _) = b"
| "event_base_of (LoopCancelled b _) = b"
| "event_base_of (LoopFailed b _) = b"
| "event_base_of (TransitionRequested b _) = b"
| "event_base_of (TransitionExecuted b _) = b"
| "event_base_of (TransitionBlocked b _) = b"
| "event_base_of (GuardFailed b _) = b"
| "event_base_of (SignalReceived b _) = b"

definition isApprovalState :: "string \<Rightarrow> string list \<Rightarrow> bool" where
  "isApprovalState s configured =
     (if configured \<noteq> [] then s \<in> set configured else contains_ci ''pending'' s \<or> contains_ci ''approval'' s)"

text \<open>The messages start with symbols outside the 8-bit characters, so they are UTF-16 code units.\<close>

definition with_symbol :: "16 word list \<Rightarrow> string \<Rightarrow> ustr" where
  "with_symbol symbol s = symbol @ wide s"

fun formatContent :: "loop_event \<Rightarrow> string list \<Rightarrow> ustr" where
  "formatContent (TransitionExecuted b p) approvalStates =
     (if isApprovalState (ex_toState p) approvalStates
      then with_symbol [9888, 65039] (join [char_of (10 :: nat)]
        ['' Approval required: '' @ ev_aggregateId b, ''Loop: '' @ ev_loopId b, ''Action: '' @ ex_transitionId p,
         ''Reply: approve '' @ ev_aggregateId b @ '' | reject '' @ ev_aggregateId b])
      else with_symbol [55357, 56580]
        ('' '' @ ev_loopId b @ '' -> '' @ ex_toState p @ '' ('' @ ex_transitionId p @ '')''))"
| "formatContent (LoopCompleted b p) approvalStates =
     with_symbol [9989] ('' Loop closed: '' @ ev_aggregateId b @ [char_of (10 :: nat)] @
       ''Outcome unit: '' @ or_default (lc_outcomeValueUnit p) ''n/a'')"
| "formatContent (GuardFailed b p) approvalStates =
     with_symbol [10060] ('' Guard failed: '' @ ev_aggregateId b @ [char_of (10 :: nat)] @
       ''Guard: '' @ gf_guardId p @ [char_of (10 :: nat)] @ gf_message p)"
| "formatContent (LoopStarted b p) approvalStates =
     with_symbol [55357, 56960] ('' Loop started: '' @ ev_aggregateId b @ [char_of (10 :: nat)] @ ''Type: '' @ ev_loopId b)"
| "formatContent e approvalStates =
     wide (''[loop-engine] '' @ event_type e @ '': '' @ ev_aggregateId (event_base_of e))"

record gateway_request =
  gr_id :: string
  gr_to :: string
  gr_message :: ustr
  gr_channel :: string
  gr_accountId :: "string option"
  gr_idempotencyKey :: string

record openclaw_options =
  oo_channel :: string
  oo_target :: string
  oo_accountId :: "string option"
  oo_idempotencyKey :: "(loop_event \<Rightarrow> string) option"
  oo_events :: "string list option"
  oo_loopIds :: "string list option"
  oo_approvalStates :: "string list option"
  oo_autoReconnect :: "bool option"

definition formatEventMessage :: "openclaw_options \<Rightarrow> string \<Rightarrow> loop_event \<Rightarrow> gateway_request" where
  "formatEventMessage o' requestId e =
     \<lparr>gr_id = requestId, gr_to = oo_target o', gr_message = formatContent e (or_default (oo_approvalStates o') []),
      gr_channel = oo_channel o', gr_accountId = nonempty (oo_accountId o'),
      gr_idempotencyKey = (case oo_idempotencyKey o' of
         Some f \<Rightarrow> f e
       | None \<Rightarrow> ev_eventId (event_base_of e) @ ''-'' @ event_type e)\<rparr>"

definition shouldForward :: "openclaw_options \<Rightarrow> loop_event \<Rightarrow> bool" where
  "shouldForward o' e =
     (let events = or_default (oo_events o') [''loop.transition.executed'', ''loop.completed'', ''loop.guard.failed''];
          loopIds = or_default (oo_loopIds o') []
      in if ''*'' \<notin> set events \<and> event_type e \<notin> set events then False
         else if loopIds \<noteq> [] \<and> ev_loopId (event_base_of e) \<notin> set loopIds then False
         else True)"

section \<open>The socket of the OpenClaw bus\<close>

text \<open>
  Sockets are numbered in the order they are made; \<open>oc_ws\<close> is the one the bus holds, \<open>oc_timers\<close> the
  reconnections that are due some time, of which the bus knows the last one. What was sent is kept
  with its event.
\<close>

datatype socket_state = Connecting | SocketOpen | Closing | SocketClosed

record openclaw =
  oc_ws :: "nat option"
  oc_sockets :: "socket_state list"
  oc_connected :: bool
  oc_timers :: "nat list"
  oc_reconnectTimer :: "nat option"
  oc_nextTimer :: nat
  oc_sent :: "(loop_event \<times> gateway_request) list"

definition open_socket :: "openclaw \<Rightarrow> openclaw" where
  "open_socket b = b\<lparr>oc_ws := Some (length (oc_sockets b)), oc_sockets := oc_sockets b @ [Connecting]\<rparr>"

definition openclaw_new :: openclaw where
  "openclaw_new = open_socket \<lparr>oc_ws = None, oc_sockets = [], oc_connected = False, oc_timers = [],
     oc_reconnectTimer = None, oc_nextTimer = 0, oc_sent = []\<rparr>"

definition on_open :: "nat \<Rightarrow> openclaw \<Rightarrow> openclaw" where
  "on_open n b = b\<lparr>oc_sockets := (oc_sockets b)[n := SocketOpen], oc_connected := True\<rparr>"

definition on_error :: "openclaw \<Rightarrow> openclaw" where
  "on_error b = b\<lparr>oc_connected := False\<rparr>"

definition on_close :: "openclaw_options \<Rightarrow> nat \<Rightarrow> openclaw \<Rightarrow> openclaw" where
  "on_close o' n b =
     (let b' = b\<lparr>oc_sockets := (oc_sockets b)[n := SocketClosed], oc_connected := False\<rparr>
      in if or_default (oo_autoReconnect o') True
         then b'\<lparr>oc_timers := oc_timers b @ [oc_nextTimer b], oc_reconnectTimer := Some (oc_nextTimer b),
                oc_nextTimer := Suc (oc_nextTimer b)\<rparr>
         else b')"

definition timer_fires :: "nat \<Rightarrow> openclaw \<Rightarrow> openclaw" where
  "timer_fires t b = open_socket (b\<lparr>oc_timers := filter (\<lambda>x. x \<noteq> t) (oc_timers b)\<rparr>)"

text \<open>\<open>close()\<close> of a socket that is closing or closed does nothing; the close event comes later.\<close>

definition start_closing :: "nat \<Rightarrow> socket_state list \<Rightarrow> socket_state list" where
  "start_closing n ss = (if n < length ss \<and> ss ! n \<noteq> SocketClosed then ss[n := Closing] else ss)"

definition disconnect :: "openclaw \<Rightarrow> openclaw" where
  "disconnect b =
     b\<lparr>oc_timers := (case oc_reconnectTimer b of None \<Rightarrow> oc_timers b | Some t \<Rightarrow> filter (\<lambda>x. x \<noteq> t) (oc_timers b)),
       oc_sockets := (case oc_ws b of None \<Rightarrow> oc_sockets b | Some n \<Rightarrow> start_closing n (oc_sockets b)),
       oc_ws := None, oc_connected := False\<rparr>"

definition may_send :: "openclaw \<Rightarrow> bool" where
  "may_send b \<longleftrightarrow>
     (case oc_ws b of
        None \<Rightarrow> False
      | Some n \<Rightarrow> n < length (oc_sockets b) \<and> oc_sockets b ! n = SocketOpen \<and> oc_connected b)"

definition sendToGateway :: "openclaw_options \<Rightarrow> string \<Rightarrow> loop_event \<Rightarrow> openclaw \<Rightarrow> openclaw" where
  "sendToGateway o' requestId e b =
     (if \<not> may_send b then b else b\<lparr>oc_sent := oc_sent b @ [(e, formatEventMessage o' requestId e)]\<rparr>)"

text \<open>The two forms of the constructor: a bus with options, or options that may hold the bus.\<close>

datatype openclaw_argument = GivenBus | GivenOptions openclaw_options

definition openclaw_constructor ::
    "openclaw_argument \<Rightarrow> openclaw_options option \<Rightarrow> js_error + openclaw_options \<times> openclaw" where
  "openclaw_constructor arg maybeOptions =
     (case arg of
        GivenOptions o' \<Rightarrow> Inr (o', openclaw_new)
      | GivenBus \<Rightarrow> (case maybeOptions of
          None \<Rightarrow> Inl (Error (''[@loop-engine/adapter-openclaw] OpenClawEventBus(innerBus, options) requires '' @
            ''options with channel and target.''))
        | Some o' \<Rightarrow> Inr (o', openclaw_new)))"

text \<open>
  \<open>emit\<close>: the inner bus first, whose error is thrown, then the handlers, then the gateway. The world
  of the inner bus and of the handlers is beside the socket.
\<close>

definition openclaw_emit ::
    "openclaw_options \<Rightarrow> (loop_event \<Rightarrow> (js_error, 'w, unit) eop) \<Rightarrow> 'w bus \<Rightarrow> string \<Rightarrow> loop_event \<Rightarrow>
     (js_error, 'w \<times> openclaw, unit) eop" where
  "openclaw_emit o' inner handlers requestId e = (\<lambda>(w, b).
     case inner e w of
       (Inl err, w') \<Rightarrow> (Inl err, (w', b))
     | (Inr _, w') \<Rightarrow>
         (Inr (), (bus_emit handlers e w', if shouldForward o' e then sendToGateway o' requestId e b else b)))"

text \<open>
  The steps of a bus on its inner bus: what the network and the clock do, a call of \<open>disconnect\<close>, a
  call of \<open>emit\<close> (with the handlers subscribed at that time), and whatever else goes on in the world
  of the inner bus. A socket opens or fails while it connects, and closes at most once.
\<close>

inductive openclaw_step ::
    "openclaw_options \<Rightarrow> (loop_event \<Rightarrow> (js_error, 'w, unit) eop) \<Rightarrow> 'w \<times> openclaw \<Rightarrow> 'w \<times> openclaw \<Rightarrow> bool"
  for o' inner where
  opens: "n < length (oc_sockets b) \<Longrightarrow> oc_sockets b ! n = Connecting \<Longrightarrow>
     openclaw_step o' inner (w, b) (w, on_open n b)"
| fails: "n < length (oc_sockets b) \<Longrightarrow> oc_sockets b ! n \<noteq> SocketClosed \<Longrightarrow>
     openclaw_step o' inner (w, b) (w, on_error b)"
| closes: "n < length (oc_sockets b) \<Longrightarrow> oc_sockets b ! n \<noteq> SocketClosed \<Longrightarrow>
     openclaw_step o' inner (w, b) (w, on_close o' n b)"
| fires: "t \<in> set (oc_timers b) \<Longrightarrow> openclaw_step o' inner (w, b) (w, timer_fires t b)"
| hangs_up: "openclaw_step o' inner (w, b) (w, disconnect b)"
| hands_on: "openclaw_emit o' inner handlers requestId e (w, b) = (r, (w', b')) \<Longrightarrow>
     openclaw_step o' inner (w, b) (w', b')"
| elsewhere: "openclaw_step o' inner (w, b) (w', b)"

definition openclaw_run ::
    "openclaw_options \<Rightarrow> (loop_event \<Rightarrow> (js_error, 'w, unit) eop) \<Rightarrow> 'w \<times> openclaw \<Rightarrow> bool" where
  "openclaw_run o' inner s \<longleftrightarrow> (\<exists>w. (openclaw_step o' inner)\<^sup>*\<^sup>* (w, openclaw_new) s)"

text \<open>The events the options choose, and the socket a message can be sent on.\<close>

definition chosen :: "openclaw_options \<Rightarrow> loop_event \<Rightarrow> bool" where
  "chosen o' e \<longleftrightarrow>
     (case oo_events o' of
        None \<Rightarrow> event_type e \<in> {''loop.transition.executed'', ''loop.completed'', ''loop.guard.failed''}
      | Some listed \<Rightarrow> event_type e \<in> set listed \<or> ''*'' \<in> set listed) \<and>
     (\<forall>ids. oo_loopIds o' = Some ids \<longrightarrow> ids = [] \<or> ev_loopId (event_base_of e) \<in> set ids)"

definition connected_socket :: "openclaw \<Rightarrow> bool" where
  "connected_socket b \<longleftrightarrow> oc_connected b \<and>
     (\<exists>n. oc_ws b = Some n \<and> n < length (oc_sockets b) \<and> oc_sockets b ! n = SocketOpen)"

lemma event_type_named: "event_type e \<noteq> ''*''"
  by (cases e) simp_all

lemma shouldForward_chosen: "shouldForward o' e \<longleftrightarrow> chosen o' e"
  using event_type_named[of e]
  by (auto simp: shouldForward_def chosen_def or_default_def Let_def split: option.splits)

lemma may_send_connected: "may_send b \<longleftrightarrow> connected_socket b"
  by (auto simp: may_send_def connected_socket_def split: option.splits)

lemma emit_sends:
  "oc_sent (snd (snd (openclaw_emit o' inner handlers requestId e (w, b)))) = oc_sent b @
     (if (\<exists>w'. inner e w = (Inr (), w')) \<and> chosen o' e \<and> connected_socket b
      then [(e, formatEventMessage o' requestId e)] else [])"
  by (auto simp: openclaw_emit_def sendToGateway_def shouldForward_chosen may_send_connected
      split: prod.split sum.split)

text \<open>
  What was sent was chosen by the options; the socket the bus holds is the last one made; there is at
  most one socket that is not closed or one reconnection that is due, never both.
\<close>

definition live_sockets :: "openclaw \<Rightarrow> nat set" where
  "live_sockets b = {n. n < length (oc_sockets b) \<and> oc_sockets b ! n \<noteq> SocketClosed}"

definition openclaw_ok :: "openclaw_options \<Rightarrow> openclaw \<Rightarrow> bool" where
  "openclaw_ok o' b \<longleftrightarrow>
     (\<forall>(e, r) \<in> set (oc_sent b). chosen o' e \<and> (\<exists>i. r = formatEventMessage o' i e)) \<and>
     (\<forall>n. oc_ws b = Some n \<longrightarrow> Suc n = length (oc_sockets b)) \<and>
     card (live_sockets b) + length (oc_timers b) \<le> 1"

lemma updated_nth: "x < length ss \<Longrightarrow> ss[n := v] ! x = (if x = n then v else ss ! x)"
  by auto

lemma live_finite: "finite (live_sockets b)"
  by (simp add: live_sockets_def)

lemma live_on_open: "n \<in> live_sockets b \<Longrightarrow> live_sockets (on_open n b) = live_sockets b"
  by (auto simp: live_sockets_def on_open_def updated_nth split: if_splits)

lemma live_on_close: "live_sockets (on_close o' n b) = live_sockets b - {n}"
  by (auto simp: live_sockets_def on_close_def Let_def updated_nth split: if_splits)

lemma live_open_socket: "live_sockets (open_socket b) = insert (length (oc_sockets b)) (live_sockets b)"
  by (auto simp: live_sockets_def open_socket_def nth_append)

lemma live_disconnect: "live_sockets (disconnect b) = live_sockets b"
  by (auto simp: live_sockets_def disconnect_def start_closing_def updated_nth split: option.split if_splits)

lemma live_same [simp]:
  "live_sockets (on_error b) = live_sockets b" "live_sockets (sendToGateway o' i e b) = live_sockets b"
  "live_sockets (oc_timers_update f b) = live_sockets b"
  by (simp_all add: live_sockets_def on_error_def sendToGateway_def)

lemma emit_connection:
  assumes "openclaw_emit o' inner handlers requestId e (w, b) = (r, (w', b'))"
  shows "live_sockets b' = live_sockets b" "oc_timers b' = oc_timers b" "oc_ws b' = oc_ws b"
    "oc_sockets b' = oc_sockets b"
  using assms by (auto simp: openclaw_emit_def split: prod.splits sum.splits if_splits)
    (simp_all add: sendToGateway_def)

lemma one_connection_step:
  assumes "openclaw_step o' inner (w, b) (w', b')" "card (live_sockets b) + length (oc_timers b) \<le> 1"
  shows "card (live_sockets b') + length (oc_timers b') \<le> 1"
  using assms(1)
proof (cases rule: openclaw_step.cases)
  case (opens n)
  then have "n \<in> live_sockets b" by (simp add: live_sockets_def)
  with opens assms(2) show ?thesis by (simp add: live_on_open) (simp add: on_open_def)
next
  case (closes n)
  then have n: "n \<in> live_sockets b" by (simp add: live_sockets_def)
  with assms(2) card_Suc_Diff1[OF live_finite n] have "card (live_sockets b - {n}) = 0" "oc_timers b = []" by auto
  with closes show ?thesis by (simp add: live_on_close) (simp add: on_close_def Let_def)
next
  case (fires t)
  with assms(2) have t: "oc_timers b = [t]" "card (live_sockets b) = 0" by (cases "oc_timers b"; force)+
  with fires live_finite[of b] show ?thesis
    by (simp add: timer_fires_def live_open_socket) (simp add: open_socket_def)
next
  case hangs_up
  have "length (oc_timers (disconnect b)) \<le> length (oc_timers b)"
    by (simp add: disconnect_def split: option.split)
  with hangs_up assms(2) show ?thesis by (simp add: live_disconnect)
next
  case (hands_on handlers requestId e r)
  with emit_connection(1,2)[OF hands_on] assms(2) show ?thesis by simp
qed (use assms(2) in \<open>simp_all, simp_all add: on_error_def\<close>)

lemma openclaw_ok_step:
  assumes "openclaw_step o' inner (w, b) (w', b')" "openclaw_ok o' b"
  shows "openclaw_ok o' b'"
proof -
  have "(\<forall>(e, r) \<in> set (oc_sent b'). chosen o' e \<and> (\<exists>i. r = formatEventMessage o' i e)) \<and>
     (\<forall>n. oc_ws b' = Some n \<longrightarrow> Suc n = length (oc_sockets b'))"
    using assms(1)
  proof (cases rule: openclaw_step.cases)
    case (hands_on handlers requestId e r)
    with emit_connection(3,4)[OF hands_on] emit_sends[of o' inner handlers requestId e w b] assms(2)
    show ?thesis by (auto simp: openclaw_ok_def split: if_splits)
  qed (use assms(2) in \<open>auto simp: openclaw_ok_def on_open_def on_error_def on_close_def Let_def
      timer_fires_def open_socket_def disconnect_def start_closing_def split: option.splits\<close>)
  with one_connection_step[OF assms(1)] assms(2) show ?thesis by (simp add: openclaw_ok_def)
qed

lemma openclaw_run_ok:
  assumes "openclaw_run o' inner (w, b)"
  shows "openclaw_ok o' b"
proof -
  from assms obtain w0 where "(openclaw_step o' inner)\<^sup>*\<^sup>* (w0, openclaw_new) (w, b)"
    unfolding openclaw_run_def by blast
  then show ?thesis
  proof (induction "(w, b)" arbitrary: w b rule: rtranclp_induct)
    case base
    have "live_sockets openclaw_new = {0}" by (auto simp: live_sockets_def openclaw_new_def open_socket_def)
    with base show ?case by (simp add: openclaw_ok_def) (simp add: openclaw_new_def open_socket_def)
  next
    case (step s w b)
    then show ?case by (cases s) (blast intro: openclaw_ok_step)
  qed
qed

text \<open>Nothing is sent while the bus holds no socket: between a call of \<open>disconnect\<close> and the next connection.\<close>

lemma disconnected_sends_nothing: "oc_sent (sendToGateway o' i e (disconnect b)) = oc_sent b"
  by (simp add: sendToGateway_def may_send_def disconnect_def)

lemma unconnected_sends_nothing: "\<not> oc_connected b \<Longrightarrow> sendToGateway o' i e b = b"
  by (simp add: sendToGateway_def may_send_def split: option.split)

text \<open>
  But with the default options \<open>disconnect\<close> does not end the bus: the close event of the socket it
  closed makes a timer, which connects again.
\<close>

lemma disconnect_reconnects:
  assumes "oo_autoReconnect o' \<noteq> Some False"
  shows "\<exists>b'. openclaw_run o' inner (w, disconnect (on_open 0 openclaw_new)) \<and>
    (openclaw_step o' inner)\<^sup>*\<^sup>* (w, disconnect (on_open 0 openclaw_new)) (w, b') \<and> may_send b'"
proof -
  let ?b = "disconnect (on_open 0 openclaw_new)"
  have "openclaw_step o' inner (w, openclaw_new) (w, on_open 0 openclaw_new)"
    by (rule opens) (simp_all add: openclaw_new_def open_socket_def)
  then have "openclaw_run o' inner (w, ?b)"
    unfolding openclaw_run_def using hangs_up[of o' inner w "on_open 0 openclaw_new"]
    by (blast intro: converse_rtranclp_into_rtranclp)
  moreover have c: "openclaw_step o' inner (w, ?b) (w, on_close o' 0 ?b)"
    by (rule closes) (simp_all add: openclaw_new_def open_socket_def on_open_def disconnect_def start_closing_def)
  moreover have "openclaw_step o' inner (w, on_close o' 0 ?b) (w, timer_fires 0 (on_close o' 0 ?b))"
    by (rule fires) (use assms in \<open>auto simp: openclaw_new_def open_socket_def on_open_def disconnect_def
      start_closing_def on_close_def Let_def or_default_def split: option.splits\<close>)
  moreover have "openclaw_step o' inner (w, timer_fires 0 (on_close o' 0 ?b))
      (w, on_open 1 (timer_fires 0 (on_close o' 0 ?b)))"
    by (rule opens) (simp_all add: openclaw_new_def open_socket_def on_open_def disconnect_def start_closing_def
      on_close_def Let_def timer_fires_def)
  moreover have "may_send (on_open 1 (timer_fires 0 (on_close o' 0 ?b)))"
    by (simp add: may_send_def openclaw_new_def open_socket_def on_open_def disconnect_def start_closing_def
      on_close_def Let_def timer_fires_def)
  ultimately show ?thesis
    by (intro exI[of _ "on_open 1 (timer_fires 0 (on_close o' 0 ?b))"] conjI)
      (auto intro: converse_rtranclp_into_rtranclp)
qed

section \<open>PagerDuty\<close>

datatype incident_severity = CriticalIncident | ErrorIncident | WarningIncident | InfoIncident

fun severity_text :: "incident_severity \<Rightarrow> string" where
  "severity_text CriticalIncident = ''critical''"
| "severity_text ErrorIncident = ''error''"
| "severity_text WarningIncident = ''warning''"
| "severity_text InfoIncident = ''info''"

record approval_context =
  ac_loopName :: string
  ac_actor :: actor_ref
  ac_summary :: string

datatype severity_setting = FixedSeverity incident_severity | ComputedSeverity "approval_context \<Rightarrow> incident_severity"

record pagerduty_options =
  pd_integrationKey :: string
  pd_severity :: "severity_setting option"
  pd_serviceContext :: "string option"
  pd_approvalUrl :: "(string \<Rightarrow> string) option"
  pd_customDetails :: "(approval_context \<Rightarrow> jobj) option"

definition getSeverity :: "pagerduty_options \<Rightarrow> approval_context \<Rightarrow> incident_severity" where
  "getSeverity o' context =
     (case pd_severity o' of
        Some (ComputedSeverity f) \<Rightarrow> f context
      | Some (FixedSeverity s) \<Rightarrow> s
      | None \<Rightarrow> WarningIncident)"

definition buildDedupKey :: "string \<Rightarrow> string" where
  "buildDedupKey loopId = ''loop-engine-'' @ loopId"

definition pd_source :: "pagerduty_options \<Rightarrow> js" where
  "pd_source o' = JStr (or_default (pd_serviceContext o') ''Loop Engine'')"

definition buildTriggerPayload :: "pagerduty_options \<Rightarrow> string \<Rightarrow> approval_context \<Rightarrow> jobj" where
  "buildTriggerPayload o' loopId context =
     (let approvalLink = map_option (\<lambda>f. f loopId) (pd_approvalUrl o')
      in [(''routing_key'', JStr (pd_integrationKey o')), (''event_action'', JStr ''trigger''),
          (''dedup_key'', JStr (buildDedupKey loopId)),
          (''payload'', JObj
            [(''summary'', JStr (ac_summary context)), (''severity'', JStr (severity_text (getSeverity o' context))),
             (''source'', pd_source o'),
             (''custom_details'', JObj (obj_spread
                [(''loop_id'', JStr loopId), (''loop_name'', JStr (ac_loopName context)),
                 (''initiated_by'', JStr (actor_type_name (actor_type (ac_actor context)) @ '':'' @ actor_id (ac_actor context))),
                 (''approval_url'', case approvalLink of None \<Rightarrow> JNull | Some l \<Rightarrow> JStr l)]
                (case pd_customDetails o' of None \<Rightarrow> [] | Some f \<Rightarrow> f context)))]),
          (''links'', JArr (case nonempty approvalLink of
             None \<Rightarrow> []
           | Some l \<Rightarrow> [JObj [(''href'', JStr l), (''text'', JStr ''Approve or reject this action'')]]))])"

definition without_key_prefix :: "string \<Rightarrow> string" where
  "without_key_prefix k =
     (let prefix = ''loop-engine-'' in if take (length prefix) k = prefix then drop (length prefix) k else k)"

definition buildResolvePayload :: "pagerduty_options \<Rightarrow> string \<Rightarrow> string \<Rightarrow> jobj" where
  "buildResolvePayload o' dedupKey resolution =
     [(''routing_key'', JStr (pd_integrationKey o')), (''event_action'', JStr ''resolve''), (''dedup_key'', JStr dedupKey),
      (''payload'', JObj
        [(''summary'', JStr (''Loop '' @ without_key_prefix dedupKey @ '' '' @ resolution @ '' by on-call engineer'')),
         (''severity'', JStr ''info''), (''source'', pd_source o')])]"

text \<open>A request fails or is answered with a status and its text.\<close>

definition enqueue :: "(jobj \<Rightarrow> (js, 'd, nat \<times> string) eop) \<Rightarrow> jobj \<Rightarrow> (js + js_error, 'd, unit) eop" where
  "enqueue post payload =
     op_bind (op_catch (post payload) (\<lambda>e. op_throw (Inl e))) (\<lambda>(status, statusText).
     if 200 \<le> status \<and> status \<le> 299 then op_return ()
     else op_throw (Inr (Error (''[@loop-engine/adapter-pagerduty] Events API request failed: '' @
       show_nat status @ '' '' @ statusText))))"

definition notify ::
    "(jobj \<Rightarrow> (js, 'd, nat \<times> string) eop) \<Rightarrow> pagerduty_options \<Rightarrow> string \<Rightarrow> approval_context \<Rightarrow> (js + js_error, 'd, string) eop" where
  "notify post o' loopId context =
     op_bind (enqueue post (buildTriggerPayload o' loopId context)) (\<lambda>_. op_return (buildDedupKey loopId))"

definition resolve_incident ::
    "(jobj \<Rightarrow> (js, 'd, nat \<times> string) eop) \<Rightarrow> pagerduty_options \<Rightarrow> string \<Rightarrow> string \<Rightarrow> (js + js_error, 'd, unit) eop" where
  "resolve_incident post o' dedupKey resolution = enqueue post (buildResolvePayload o' dedupKey resolution)"

definition shouldResolveForState :: "string \<Rightarrow> bool" where
  "shouldResolveForState s \<longleftrightarrow> \<not> contains_ci ''pending_human_approval'' s"

definition resolveOnLoopExit ::
    "(jobj \<Rightarrow> (js, 'd, nat \<times> string) eop) \<Rightarrow> pagerduty_options \<Rightarrow> string \<Rightarrow> string \<Rightarrow> string \<Rightarrow> (js + js_error, 'd, unit) eop" where
  "resolveOnLoopExit post o' dedupKey newState resolution =
     (if \<not> shouldResolveForState newState then op_return () else resolve_incident post o' dedupKey resolution)"

text \<open>The key of a notification resolves the incident it raised, and names the loop again.\<close>

lemma resolves_what_was_raised:
  assumes "notify post o' loopId context d = (Inr k, d')"
  shows "obj_get (buildResolvePayload o' k resolution) ''dedup_key'' =
      obj_get (buildTriggerPayload o' loopId context) ''dedup_key'' \<and> without_key_prefix k = loopId"
  using assms
  by (auto simp: notify_def buildResolvePayload_def buildTriggerPayload_def Let_def obj_get_def
      without_key_prefix_def buildDedupKey_def elim!: op_bind_cases)

end
