(* ===== verification/Studio_Client.thy ===== *)
theory Studio_Client
  imports Run_Reads Registry
begin

text \<open>
  The client of the studio, \<open>packages/studio-client/src\<close>: paths of the run reads, requests with their
  errors, the check of the contract version, the provider of fixtures, bundles. Locale
  \<open>run_provider\<close> is the interface \<open>StudioRunProvider\<close> with the contract the HTTP provider keeps.
\<close>

section \<open>Errors and paths\<close>

datatype studio_code = NetworkError | HttpError | RunNotFound | TraceDisabled | ContractMismatch | ParseError

record studio_client_error =
  sx_code :: studio_code
  sx_message :: string
  sx_status :: "nat option"
  sx_body :: js

text \<open>Besides its own errors the client lets a \<open>TypeError\<close> and an error of the body's text through.\<close>

datatype studio_error = StudioClientError studio_client_error | PayloadTypeError | TextFailed js

definition studio_error_of :: "studio_code \<Rightarrow> string \<Rightarrow> nat option \<Rightarrow> js \<Rightarrow> studio_error" where
  "studio_error_of code m status body =
     StudioClientError \<lparr>sx_code = code, sx_message = m, sx_status = status, sx_body = body\<rparr>"

definition mapHttpStatusToStudioError :: "nat \<Rightarrow> js \<Rightarrow> studio_error" where
  "mapHttpStatusToStudioError status body =
     (if status = 404 then studio_error_of RunNotFound ''Run not found'' (Some status) body
      else if status = 503
      then studio_error_of TraceDisabled
        (case js_get body ''error'' of JStr m \<Rightarrow> m | _ \<Rightarrow> ''Trace API disabled'') (Some status) body
      else studio_error_of HttpError (''HTTP '' @ show_nat status) (Some status) body)"

datatype run_read = ReadRun | ReadHistory | ReadEvidence | ReadTimeline | ReadReplaySummary

fun read_suffix :: "run_read \<Rightarrow> string" where
  "read_suffix ReadRun = []"
| "read_suffix ReadHistory = ''/history''"
| "read_suffix ReadEvidence = ''/evidence''"
| "read_suffix ReadTimeline = ''/timeline''"
| "read_suffix ReadReplaySummary = ''/replay-summary''"

definition studioRunApiPaths :: "run_read \<Rightarrow> string \<Rightarrow> string" where
  "studioRunApiPaths r runId = ''/api/v1/runs/'' @ encodeURIComponent runId @ read_suffix r"

definition resolveStudioRunUrl :: "string \<Rightarrow> string \<Rightarrow> string" where
  "resolveStudioRunUrl baseUrl path =
     strip_end ''/'' baseUrl @ (if take 1 path = ''/'' then path else ''/'' @ path)"

definition assertContractPayload :: "host \<Rightarrow> js \<Rightarrow> string \<Rightarrow> studio_error + js" where
  "assertContractPayload h payload expected =
     (if payload = JUndef \<or> payload = JNull then Inl PayloadTypeError
      else if js_get payload ''contractVersion'' \<noteq> JStr expected
      then Inl (studio_error_of ContractMismatch (''Expected contractVersion '' @ expected @ '', got '' @
        js_to_string h (js_get payload ''contractVersion'')) None payload)
      else Inr payload)"

definition isRunDetailPayload :: "js \<Rightarrow> bool" where
  "isRunDetailPayload v \<longleftrightarrow>
     typeof_object v \<and> (case js_get v ''contractVersion'' of JStr _ \<Rightarrow> True | _ \<Rightarrow> False) \<and>
     typeof_object (js_get v ''run'')"

section \<open>The HTTP provider\<close>

record studio_response =
  sy_status :: nat
  sy_text :: "js + string"

text \<open>Headers and \<open>fetch\<close>, which is aborted after the timeout; both run inside the same \<open>try\<close>.\<close>

record 'd studio_http =
  sh_baseUrl :: string
  sh_headers :: "(js, 'd, (string \<times> string) list) eop option"
  sh_timeoutMs :: "nat option"
  sh_fetch :: "nat \<Rightarrow> string \<Rightarrow> (string \<times> string) list \<Rightarrow> (js, 'd, studio_response) eop"
  sh_parse :: "string \<Rightarrow> js + js"
  sh_host :: host

definition resolveHeaders :: "'d studio_http \<Rightarrow> (js, 'd, (string \<times> string) list) eop" where
  "resolveHeaders o' = (case sh_headers o' of None \<Rightarrow> op_return [] | Some f \<Rightarrow> f)"

definition response_json :: "'d studio_http \<Rightarrow> studio_response \<Rightarrow> studio_error + js" where
  "response_json o' response =
     (case sy_text response of
        Inl e \<Rightarrow> Inl (TextFailed e)
      | Inr text \<Rightarrow>
          if text = [] then Inr JUndef
          else (case sh_parse o' text of
             Inl _ \<Rightarrow> Inl (studio_error_of ParseError ''Invalid JSON response'' (Some (sy_status response)) JUndef)
           | Inr body \<Rightarrow> Inr body))"

definition requestJson :: "'d studio_http \<Rightarrow> string \<Rightarrow> (studio_error, 'd, js) eop" where
  "requestJson o' path =
     (let url = resolveStudioRunUrl (sh_baseUrl o') path
      in op_bind (op_catch
           (op_bind (resolveHeaders o') (\<lambda>headers.
            sh_fetch o' (or_default (sh_timeoutMs o') 15000) url
              (obj_spread [(''Accept'', ''application/json'')] headers)))
           (\<lambda>_. op_throw (studio_error_of NetworkError (''Request failed: '' @ url) None JUndef))) (\<lambda>response.
         op_bind (op_result (response_json o' response)) (\<lambda>body.
         if \<not> (200 \<le> sy_status response \<and> sy_status response \<le> 299)
         then op_throw (mapHttpStatusToStudioError (sy_status response) body)
         else op_result (assertContractPayload (sh_host o') body RUNTIME_API_CONTRACT_VERSION))))"

text \<open>A provider answers the five reads.\<close>

type_synonym 'd run_provider_ops = "run_read \<Rightarrow> string \<Rightarrow> (studio_error, 'd, js) eop"

definition http_provider :: "'d studio_http \<Rightarrow> 'd run_provider_ops" where
  "http_provider o' r runId = requestJson o' (studioRunApiPaths r runId)"

section \<open>The provider of fixtures\<close>

text \<open>
  The fixtures are a plain object, whose lookup also finds what objects inherit; a bundle is an
  object with the five responses.
\<close>

fun bundle_field :: "run_read \<Rightarrow> string" where
  "bundle_field ReadRun = ''detail''"
| "bundle_field ReadHistory = ''history''"
| "bundle_field ReadEvidence = ''evidence''"
| "bundle_field ReadTimeline = ''timeline''"
| "bundle_field ReadReplaySummary = ''replaySummary''"

definition registerRun :: "string \<Rightarrow> js \<Rightarrow> jobj \<Rightarrow> jobj" where
  "registerRun runId bundle runs = AList.update runId bundle runs"

definition mock_resolve :: "jobj \<Rightarrow> string \<Rightarrow> studio_error + js" where
  "mock_resolve runs runId =
     (let bundle = (if runId \<in> set (map fst runs) then obj_get runs runId
                    else if runId \<in> set object_prototype_keys then JFun else JUndef)
      in if \<not> truthy bundle then Inl (studio_error_of RunNotFound (''Mock run not found: '' @ runId) None JUndef)
         else Inr bundle)"

definition mock_provider :: "('d \<Rightarrow> 'd) \<Rightarrow> jobj \<Rightarrow> 'd run_provider_ops" where
  "mock_provider delay runs r runId d =
     (map_sum id (\<lambda>bundle. js_get bundle (bundle_field r)) (mock_resolve runs runId), delay d)"

definition createMockStudioProviderFromBundle :: "host \<Rightarrow> js \<Rightarrow> jobj" where
  "createMockStudioProviderFromBundle h bundle =
     obj_spread [(js_to_string h (js_get (js_get (js_get bundle ''detail'') ''run'') ''loopRunId''), bundle)]
       [(''run_demo_01'', bundle)]"

section \<open>Bundles\<close>

text \<open>The five reads are started at once.\<close>

definition bundle_reads :: "run_read list" where
  "bundle_reads = [ReadRun, ReadHistory, ReadEvidence, ReadTimeline, ReadReplaySummary]"

definition getRunBundle :: "'d run_provider_ops \<Rightarrow> string \<Rightarrow> (studio_error, 'd, js) eop" where
  "getRunBundle provider runId d =
     (case all_settled (map (\<lambda>r. provider r runId) bundle_reads) d of
        (rs, d') \<Rightarrow> (map_sum id (\<lambda>xs. JObj (zip (map bundle_field bundle_reads) xs)) (first_failure rs), d'))"

section \<open>What a provider promises\<close>

locale run_provider =
  fixes provider :: "'d run_provider_ops"
  assumes versioned: "provider r runId d = (Inr v, d') \<Longrightarrow>
    js_get v ''contractVersion'' = JStr RUNTIME_API_CONTRACT_VERSION"
begin

text \<open>Every response of a bundle has the version the client was made for.\<close>

lemma bundle_versioned:
  assumes "getRunBundle provider runId d = (Inr bundle, d')"
  shows "js_get (js_get bundle (bundle_field r)) ''contractVersion'' = JStr RUNTIME_API_CONTRACT_VERSION"
proof -
  let ?ms = "map (\<lambda>r. provider r runId) bundle_reads"
  obtain rs d1 where s: "all_settled ?ms d = (rs, d1)" by fastforce
  with assms obtain xs where xs: "first_failure rs = Inr xs"
    and made: "bundle = JObj (zip (map bundle_field bundle_reads) xs)"
    by (auto simp: getRunBundle_def map_sum_def split: sum.splits)
  have five: "length bundle_reads = 5" by (simp add: bundle_reads_def)
  from settled_results[OF s xs] have len: "length xs = 5"
    and each: "\<forall>i < 5. \<exists>d1 d2. provider (bundle_reads ! i) runId d1 = (Inr (xs ! i), d2)"
    by (simp_all add: five nth_map)
  from len obtain a b c e f where [simp]: "xs = [a, b, c, e, f]"
    by (auto simp: numeral_eq_Suc length_Suc_conv)
  have v: "\<forall>i < 5. js_get (xs ! i) ''contractVersion'' = JStr RUNTIME_API_CONTRACT_VERSION"
    using each versioned by blast
  from v[THEN spec, of 0] v[THEN spec, of 1] v[THEN spec, of 2] v[THEN spec, of 3] v[THEN spec, of 4]
  show ?thesis by (cases r) (simp_all add: made bundle_reads_def obj_get_def)
qed

end

lemma contract_checked:
  "assertContractPayload h v expected = Inr w \<Longrightarrow> w = v \<and> js_get v ''contractVersion'' = JStr expected"
  by (auto simp: assertContractPayload_def split: if_splits)

lemma requestJson_versioned:
  assumes "requestJson o' path d = (Inr v, d')"
  shows "js_get v ''contractVersion'' = JStr RUNTIME_API_CONTRACT_VERSION"
  using assms
  by (auto simp: requestJson_def Let_def op_result_def split: if_splits sum.splits
      elim!: op_bind_cases dest!: contract_checked)

interpretation http: run_provider "http_provider o'" for o'
  by unfold_locales (simp add: http_provider_def requestJson_versioned)

text \<open>The identifier of a run stays one segment of the path of its read.\<close>

lemma studio_path_plain:
  "studioRunApiPaths r runId = ''/api/v1/runs/'' @ s @ read_suffix r \<Longrightarrow> CHR ''/'' \<notin> set s"
proof -
  assume "studioRunApiPaths r runId = ''/api/v1/runs/'' @ s @ read_suffix r"
  then have "s = encodeURIComponent runId" by (simp add: studioRunApiPaths_def)
  then show ?thesis using encoded_no_separator[of "CHR ''/''" runId] by (auto simp: url_reserved_def)
qed

text \<open>A fixture is found again; names every object has are taken for runs.\<close>

lemma registered_run_found:
  "truthy bundle \<Longrightarrow> mock_provider delay (registerRun runId bundle runs) r runId d =
     (Inr (js_get bundle (bundle_field r)), delay d)"
  by (simp add: mock_provider_def mock_resolve_def registerRun_def obj_simps dom_update)

lemma inherited_name_found: "fst (mock_provider delay [] r ''constructor'' d) = Inr JUndef"
  by (simp add: mock_provider_def mock_resolve_def object_prototype_keys_def truthy_def)

end
