(* ===== verification/Commerce.thy ===== *)
theory Commerce
  imports Registry
begin

text \<open>
  The adapter of the commerce gateway, \<open>packages/adapter-commerce-gateway/src\<close>: the client with its
  requests, the procurement actor with the recommendation of a language model, its evidence.
\<close>

section \<open>The client\<close>

datatype gateway_error = GatewayError string | GatewayThrew js | GatewayTypeError

record gateway_response =
  gw_status :: nat
  gw_statusText :: string
  gw_json :: "js + js"
  gw_requestId :: "string option"

text \<open>
  The gateway and the host: \<open>fetch\<close> with method, address, headers and body, \<open>JSON.stringify\<close>, the
  message of what is thrown.
\<close>

record 'd gateway_net =
  gn_baseUrl :: string
  gn_apiKey :: string
  gn_fetch :: "string \<Rightarrow> string \<Rightarrow> (string \<times> string) list \<Rightarrow> string option \<Rightarrow> (js, 'd, gateway_response) eop"
  gn_stringify :: "js \<Rightarrow> string"
  gn_message :: "js \<Rightarrow> string"
  gn_host :: host

text \<open>The request identifier becomes a property of the payload; on an array no element shows it.\<close>

definition with_request_id :: "string option \<Rightarrow> js \<Rightarrow> js" where
  "with_request_id requestId payload =
     (case (nonempty requestId, payload) of
        (Some i, JObj kvs) \<Rightarrow> JObj (AList.update ''requestId'' (JStr i) kvs)
      | _ \<Rightarrow> payload)"

definition gateway_call :: "'d gateway_net \<Rightarrow> string \<Rightarrow> string \<Rightarrow> js option \<Rightarrow> (gateway_error, 'd, js) eop" where
  "gateway_call n path verb body =
     op_bind (op_catch
         (gn_fetch n verb (strip_end ''/'' (gn_baseUrl n) @ path)
           [(''Content-Type'', ''application/json''), (''Authorization'', ''Bearer '' @ gn_apiKey n)]
           (map_option (gn_stringify n) body))
         (\<lambda>e. op_throw (GatewayThrew e))) (\<lambda>response.
     if \<not> (200 \<le> gw_status response \<and> gw_status response \<le> 299)
     then op_throw (GatewayError (''Commerce Gateway request failed: '' @ show_nat (gw_status response) @ '' '' @
       gw_statusText response))
     else if gw_status response = 204 then op_return JUndef
     else (case gw_json response of
         Inl e \<Rightarrow> op_throw (GatewayThrew e)
       | Inr payload \<Rightarrow> op_return (with_request_id (gw_requestId response) payload)))"

definition getInventory :: "'d gateway_net \<Rightarrow> string \<Rightarrow> (gateway_error, 'd, js) eop" where
  "getInventory n sku = gateway_call n (''/inventory/'' @ encodeURIComponent sku) ''GET'' None"

definition getInventoryBatch :: "'d gateway_net \<Rightarrow> string list \<Rightarrow> (gateway_error, 'd, js) eop" where
  "getInventoryBatch n skus =
     gateway_call n ''/inventory/batch'' ''POST'' (Some (JObj [(''skus'', JArr (map JStr skus))]))"

definition getDemandForecast :: "'d gateway_net \<Rightarrow> string \<Rightarrow> jsnum option \<Rightarrow> (gateway_error, 'd, js) eop" where
  "getDemandForecast n sku horizon =
     (let query = (case horizon of
            None \<Rightarrow> []
          | Some k \<Rightarrow> ''?'' @ form_encode [(''horizon'', num_text (gn_host n) k)])
      in gateway_call n (''/demand-forecast/'' @ encodeURIComponent sku @ query) ''GET'' None)"

definition getSuppliers :: "'d gateway_net \<Rightarrow> string \<Rightarrow> (gateway_error, 'd, js) eop" where
  "getSuppliers n sku = gateway_call n (''/suppliers/'' @ encodeURIComponent sku) ''GET'' None"

definition getCurrentPrice :: "'d gateway_net \<Rightarrow> string \<Rightarrow> (gateway_error, 'd, js) eop" where
  "getCurrentPrice n sku = gateway_call n (''/pricing/'' @ encodeURIComponent sku) ''GET'' None"

definition getPriceHistory :: "'d gateway_net \<Rightarrow> string \<Rightarrow> jsnum \<Rightarrow> (gateway_error, 'd, js) eop" where
  "getPriceHistory n sku days =
     gateway_call n (''/pricing/'' @ encodeURIComponent sku @ ''/history?days='' @ num_text (gn_host n) days) ''GET'' None"

definition createPurchaseOrder :: "'d gateway_net \<Rightarrow> js \<Rightarrow> (gateway_error, 'd, js) eop" where
  "createPurchaseOrder n order = gateway_call n ''/purchase-orders'' ''POST'' (Some order)"

definition gateway_error_text :: "'d gateway_net \<Rightarrow> gateway_error \<Rightarrow> string" where
  "gateway_error_text n e = (case e of GatewayError m \<Rightarrow> m | GatewayThrew v \<Rightarrow> gn_message n v | GatewayTypeError \<Rightarrow> [])"

definition recordLoopOutcome :: "'d gateway_net \<Rightarrow> js \<Rightarrow> (gateway_error, 'd, unit) eop" where
  "recordLoopOutcome n outcome =
     op_bind (op_catch (gateway_call n ''/loop-outcomes'' ''POST'' (Some outcome))
       (\<lambda>e. op_throw (GatewayError (''recordLoopOutcome is unavailable on this Commerce Gateway instance: '' @
         gateway_error_text n e)))) (\<lambda>_. op_return ())"

definition toLoopOutcomeEvent :: "string \<Rightarrow> string \<Rightarrow> string \<Rightarrow> string \<Rightarrow> jobj option \<Rightarrow> jobj" where
  "toLoopOutcomeEvent now loopId aggregateId outcomeId metadata =
     [(''loopId'', JStr loopId), (''aggregateId'', JStr aggregateId), (''outcomeId'', JStr outcomeId),
      (''occurredAt'', JStr now)] @ (case metadata of None \<Rightarrow> [] | Some m \<Rightarrow> [(''metadata'', JObj m)])"

section \<open>The recommendation\<close>

record recommendation =
  rm_recommendedQty :: jsnum
  rm_supplierId :: string
  rm_confidence :: jsnum
  rm_rationale :: string
  rm_model :: string

text \<open>\<open>Math.max(0, Math.min(x, 1))\<close>.\<close>

fun clamp_unit :: "jsnum \<Rightarrow> jsnum" where
  "clamp_unit NaN = NaN"
| "clamp_unit PosInf = Fin 1"
| "clamp_unit NegInf = Fin 0"
| "clamp_unit (Fin x) = Fin (max 0 (min x 1))"

text \<open>
  What is used of the providers' packages and the host: a request for a model with a system text
  and a payload, which gives the response; \<open>JSON.parse\<close>, \<open>toFixed(2)\<close>, the clock.
\<close>

datatype llm_provider = Claude | OpenAi

record 'd procurement_env =
  pe_ask :: "llm_provider \<Rightarrow> string \<Rightarrow> string \<Rightarrow> js \<Rightarrow> (js, 'd, js) eop"
  pe_parse :: "string \<Rightarrow> js + js"
  pe_toFixed2 :: "jsnum \<Rightarrow> string"
  pe_now :: "'d \<Rightarrow> string \<times> 'd"

definition get_of :: "js \<Rightarrow> string \<Rightarrow> gateway_error + js" where
  "get_of v k = (if v = JUndef \<or> v = JNull then Inl GatewayTypeError else Inr (js_get v k))"

definition parseRecommendation ::
    "host \<Rightarrow> 'd procurement_env \<Rightarrow> js \<Rightarrow> string \<Rightarrow> jsnum \<Rightarrow> gateway_error + recommendation" where
  "parseRecommendation h pe text model confidenceThreshold =
     (case pe_parse pe (js_to_string h text) of
        Inl e \<Rightarrow> Inl (GatewayThrew e)
      | Inr parsed \<Rightarrow>
          res_bind (get_of parsed ''recommendedQty'') (\<lambda>qty.
          case (qty, js_get parsed ''supplierId'', js_get parsed ''confidence'', js_get parsed ''rationale'') of
            (JNum q, JStr s, JNum c, JStr r) \<Rightarrow>
              Inr \<lparr>rm_recommendedQty = q, rm_supplierId = s, rm_confidence = clamp_unit c,
                rm_rationale = r @ '' (threshold: '' @ pe_toFixed2 pe confidenceThreshold @ '')'', rm_model = model\<rparr>
          | _ \<Rightarrow> Inl (GatewayError ''Recommendation schema invalid'')))"

fun first_text_block :: "js list \<Rightarrow> gateway_error + js" where
  "first_text_block [] = Inr JUndef"
| "first_text_block (b # bs) =
     res_bind (get_of b ''type'') (\<lambda>t. if t = JStr ''text'' then Inr b else first_text_block bs)"

definition claude_text :: "js \<Rightarrow> gateway_error + js" where
  "claude_text response =
     res_bind (get_of response ''content'') (\<lambda>content.
     case content of
       JArr blocks \<Rightarrow>
         res_bind (first_text_block blocks) (\<lambda>block.
         if block = JUndef then Inl (GatewayError ''Claude response missing text block'') else Inr (js_get block ''text''))
     | _ \<Rightarrow> Inl GatewayTypeError)"

definition openai_text :: "js \<Rightarrow> gateway_error + js" where
  "openai_text response =
     res_bind (get_of response ''choices'') (\<lambda>choices.
     if choices = JUndef \<or> choices = JNull then Inl GatewayTypeError
     else (let choice = (case choices of JArr (x # _) \<Rightarrow> x | JObj kvs \<Rightarrow> obj_get kvs ''0'' | _ \<Rightarrow> JUndef)
      in res_bind (if choice = JUndef \<or> choice = JNull then Inr JUndef
                   else get_of (js_get choice ''message'') ''content'') (\<lambda>text.
         if \<not> truthy text then Inl (GatewayError ''OpenAI response missing content'') else Inr text)))"

definition generateRecommendation ::
    "host \<Rightarrow> 'd procurement_env \<Rightarrow> llm_provider \<Rightarrow> string \<Rightarrow> js \<Rightarrow> jsnum \<Rightarrow> (gateway_error, 'd, recommendation) eop" where
  "generateRecommendation h pe provider apiKey payload confidenceThreshold =
     (let model = (case provider of Claude \<Rightarrow> ''claude-sonnet-4-20250514'' | OpenAi \<Rightarrow> ''gpt-4o'')
      in op_bind (op_catch (pe_ask pe provider apiKey model payload) (\<lambda>e. op_throw (GatewayThrew e))) (\<lambda>response.
         op_bind (op_result (case provider of Claude \<Rightarrow> claude_text response | OpenAi \<Rightarrow> openai_text response)) (\<lambda>text.
         op_result (parseRecommendation h pe text model confidenceThreshold))))"

section \<open>The evidence\<close>

text \<open>The product of two numbers.\<close>

definition num_sign :: "jsnum \<Rightarrow> rat" where
  "num_sign x = (case x of Fin a \<Rightarrow> sgn a | PosInf \<Rightarrow> 1 | NegInf \<Rightarrow> -1 | NaN \<Rightarrow> 0)"

definition num_mul :: "jsnum \<Rightarrow> jsnum \<Rightarrow> jsnum" where
  "num_mul a b =
     (case (a, b) of
        (Fin x, Fin y) \<Rightarrow> Fin (x * y)
      | _ \<Rightarrow> if a = NaN \<or> b = NaN \<or> num_sign a * num_sign b = 0 then NaN
             else if 0 < num_sign a * num_sign b then PosInf else NegInf)"

fun supplier_with :: "string \<Rightarrow> js list \<Rightarrow> gateway_error + js" where
  "supplier_with i [] = Inr JUndef"
| "supplier_with i (s # ss) =
     res_bind (get_of s ''id'') (\<lambda>v. if v = JStr i then Inr s else supplier_with i ss)"

definition buildProcurementEvidence ::
    "host \<Rightarrow> string \<Rightarrow> js \<Rightarrow> js list \<Rightarrow> recommendation \<Rightarrow> js list \<Rightarrow> gateway_error + jobj" where
  "buildProcurementEvidence h now inventory suppliers r requestIds =
     res_bind (supplier_with (rm_supplierId r) suppliers) (\<lambda>chosen.
     let selectedSupplier = nullish chosen (case suppliers of [] \<Rightarrow> JUndef | s # _ \<Rightarrow> s);
         estimatedCost = (if truthy selectedSupplier
           then num_mul (rm_recommendedQty r) (js_to_number h (js_get selectedSupplier ''unitCost'')) else Fin 0)
     in res_bind (get_of inventory ''sku'') (\<lambda>sku.
        Inr [(''recommendedSku'', sku), (''recommendedQty'', JNum (rm_recommendedQty r)),
          (''estimatedCost'', JNum estimatedCost), (''supplierId'', JStr (rm_supplierId r)),
          (''confidence'', JNum (rm_confidence r)), (''rationale'', JStr (rm_rationale r)),
          (''gatewayRequestIds'', JArr requestIds), (''modelUsed'', JStr (rm_model r)), (''timestamp'', JStr now),
          (''_confidence'', JNum (rm_confidence r))]))"

text \<open>The identifiers of the requests; the elements that are there and not empty.\<close>

fun request_ids :: "js list \<Rightarrow> gateway_error + js list" where
  "request_ids [] = Inr []"
| "request_ids (v # vs) =
     res_bind (get_of v ''requestId'') (\<lambda>i. res_bind (request_ids vs) (\<lambda>is.
     Inr (if truthy i then i # is else is)))"

record procurement_options =
  po_llmProvider :: llm_provider
  po_apiKey :: string
  po_confidenceThreshold :: "jsnum option"

definition buildProcurementActor ::
    "'d gateway_net \<Rightarrow> 'd procurement_env \<Rightarrow> procurement_options \<Rightarrow> jobj option \<Rightarrow> (gateway_error, 'd, jobj) eop" where
  "buildProcurementActor n pe o' data =
     (let sku = js_to_string (gn_host n) (nullish (opt_get data ''sku'') (JStr []))
      in if sku = [] then op_throw (GatewayError ''ActorContext.instance.data.sku is required'')
         else op_bind (\<lambda>d. case all_settled [getInventory n sku, getDemandForecast n sku None, getSuppliers n sku] d of
             (rs, d') \<Rightarrow> (first_failure rs, d')) (\<lambda>answers.
           let inventory = answers ! 0; forecast = answers ! 1; suppliers = answers ! 2
           in op_bind (generateRecommendation (gn_host n) pe (po_llmProvider o') (po_apiKey o')
                (JObj [(''inventory'', inventory), (''forecast'', forecast), (''suppliers'', suppliers)])
                (or_default (po_confidenceThreshold o') (Fin (4 / 5)))) (\<lambda>recommendation.
              op_bind (op_result (request_ids [inventory, forecast])) (\<lambda>first.
              case suppliers of
                JArr ss \<Rightarrow>
                  op_bind (op_result (request_ids ss)) (\<lambda>rest. (\<lambda>d.
                  case pe_now pe d of (now, d') \<Rightarrow>
                    (buildProcurementEvidence (gn_host n) now inventory ss recommendation (first @ rest), d')))
              | _ \<Rightarrow> op_throw GatewayTypeError))))"

definition buildPricingActor :: "(gateway_error, 'd, jobj) eop" where
  "buildPricingActor = op_throw (GatewayError
     (''[loop-engine/adapter-commerce-gateway] buildPricingActor is not yet implemented. '' @
      ''Track progress at https://github.com/loopengine/loop-engine/issues''))"

section \<open>What the actor promises\<close>

definition in_unit :: "jsnum \<Rightarrow> bool" where
  "in_unit x \<longleftrightarrow> (case x of Fin a \<Rightarrow> 0 \<le> a \<and> a \<le> 1 | NaN \<Rightarrow> True | _ \<Rightarrow> False)"

lemma clamp_in_unit: "in_unit (clamp_unit x)"
  by (cases x) (auto simp: in_unit_def)

lemma recommendation_confidence:
  assumes "parseRecommendation h pe text model t = Inr r"
  shows "in_unit (rm_confidence r)"
proof -
  from assms obtain parsed qty where p: "pe_parse pe (js_to_string h text) = Inr parsed"
    and q: "get_of parsed ''recommendedQty'' = Inr qty"
    by (auto simp: parseRecommendation_def res_simps split: sum.splits)
  from assms show ?thesis
    unfolding parseRecommendation_def by (simp add: p q split: jsval.split_asm) (auto simp: clamp_in_unit)
qed

lemma generated_confidence:
  "generateRecommendation h pe p key payload t d = (Inr r, d') \<Longrightarrow> in_unit (rm_confidence r)"
  by (auto simp: generateRecommendation_def Let_def op_result_def split: sum.splits
      elim!: op_bind_cases dest: recommendation_confidence)

lemma evidence_fields:
  "buildProcurementEvidence h now inventory ss r ids = Inr ev \<Longrightarrow>
     obj_get ev ''confidence'' = JNum (rm_confidence r) \<and> obj_get ev ''_confidence'' = JNum (rm_confidence r) \<and>
     obj_get ev ''recommendedSku'' = js_get inventory ''sku''"
  by (auto simp: buildProcurementEvidence_def Let_def res_simps obj_get_def get_of_def split: if_splits)

text \<open>The confidence of the evidence is a number between 0 and 1 (or NaN, which JSON has no text for).\<close>

lemma procurement_confidence:
  assumes "buildProcurementActor n pe o' data d = (Inr ev, d')"
  shows "\<exists>c. in_unit c \<and> obj_get ev ''confidence'' = JNum c \<and> obj_get ev ''_confidence'' = JNum c"
  using assms
  by (auto simp: buildProcurementActor_def Let_def op_result_def split: if_splits sum.splits jsval.splits prod.splits
      elim!: op_bind_cases dest!: evidence_fields)
    (erule generated_confidence)

text \<open>
  A supplier the model made up is priced as the first one of the list; the request identifier of a
  list of suppliers is lost.
\<close>

lemma unknown_supplier_priced_as_first:
  assumes "supplier_with (rm_supplierId r) (s # ss) = Inr JUndef" "js_get s ''unitCost'' = JNum (Fin c)"
    "rm_recommendedQty r = Fin q" "get_of inventory ''sku'' = Inr sku" "truthy s"
  shows "\<exists>ev. buildProcurementEvidence h now inventory (s # ss) r ids = Inr ev \<and>
    obj_get ev ''estimatedCost'' = JNum (Fin (q * c)) \<and> obj_get ev ''supplierId'' = JStr (rm_supplierId r)"
  using assms by (simp add: buildProcurementEvidence_def Let_def obj_get_def num_mul_def)

lemma suppliers_lose_request_id: "with_request_id i (JArr vs) = JArr vs"
  by (simp add: with_request_id_def split: option.split)

end
