(* ===== verification/Loop_Script.thy ===== *)
theory Loop_Script
  imports Registry
begin

text \<open>
  The script \<open>scripts/validate-loops.ts\<close> that checks the loop files of the repository: their
  normalisation, the schema, the checks of its own, and how these relate to \<open>validateLoopDefinition\<close>.
\<close>

section \<open>Normalisation\<close>

text \<open>The first alternative that is there, as a text: \<open>String(a ?? b ?? "...")\<close>.\<close>

fun first_of :: "js \<Rightarrow> string list \<Rightarrow> js \<Rightarrow> js" where
  "first_of v [] fallback = fallback"
| "first_of v (k # ks) fallback = nullish (js_get v k) (first_of v ks fallback)"

definition text_of :: "host \<Rightarrow> js \<Rightarrow> string list \<Rightarrow> string \<Rightarrow> string" where
  "text_of h v ks fallback = js_to_string h (first_of v ks (JStr fallback))"

definition normalizeActorType :: "js \<Rightarrow> string" where
  "normalizeActorType v =
     (case v of
        JStr s \<Rightarrow>
          if s \<in> {''human'', ''automation'', ''ai-agent''} then s
          else if s \<in> {''system'', ''webhook''} then ''automation''
          else ''human''
      | _ \<Rightarrow> ''human'')"

definition array_or :: "js \<Rightarrow> js list \<Rightarrow> js list" where
  "array_or v fallback = (case v of JArr vs \<Rightarrow> vs | _ \<Rightarrow> fallback)"

definition normalize_state :: "host \<Rightarrow> js \<Rightarrow> js" where
  "normalize_state h s = JObj
     ([(''id'', JStr (text_of h s [''id'', ''stateId''] [])),
       (''label'', JStr (text_of h s [''label'', ''id'', ''stateId''] []))] @
      (case (js_get s ''isTerminal'', js_get s ''terminal'') of
         (JBool b, _) \<Rightarrow> [(''isTerminal'', JBool b)]
       | (_, JBool b) \<Rightarrow> [(''isTerminal'', JBool b)]
       | _ \<Rightarrow> []))"

definition normalize_guard :: "host \<Rightarrow> js \<Rightarrow> js" where
  "normalize_guard h g = JObj
     ([(''id'', JStr (text_of h g [''id'', ''guardId''] [])),
       (''description'', JStr (text_of h g [''description'', ''failureMessage'', ''id'', ''guardId''] ''Guard check'')),
       (''severity'', JStr (if js_get g ''severity'' = JStr ''soft'' then ''soft'' else ''hard'')),
       (''evaluatedBy'', (if js_get g ''evaluatedBy'' \<in> {JStr ''runtime'', JStr ''module'', JStr ''external''}
                         then js_get g ''evaluatedBy'' else JStr ''external''))] @
      (case js_get g ''failureMessage'' of JStr m \<Rightarrow> [(''failureMessage'', JStr m)] | _ \<Rightarrow> []) @
      (if typeof_object (js_get g ''parameters'') then [(''parameters'', js_get g ''parameters'')] else []))"

definition normalize_transition :: "host \<Rightarrow> js \<Rightarrow> js" where
  "normalize_transition h t =
     (let actors = array_or (js_get t ''actors'') (array_or (js_get t ''allowedActors'') []);
          transitionId = text_of h t [''id'', ''transitionId''] []
      in JObj
        ([(''id'', JStr transitionId), (''from'', JStr (text_of h t [''from''] [])), (''to'', JStr (text_of h t [''to''] [])),
          (''signal'', JStr (text_of h t [''signal'', ''on''] transitionId)),
          (''actors'', JArr (map (JStr \<circ> normalizeActorType) actors))] @
         (case js_get t ''guards'' of
            JArr gs \<Rightarrow> [(''guards'', JArr (map (normalize_guard h) gs))]
          | _ \<Rightarrow> [])))"

definition normalize_loop :: "host \<Rightarrow> js \<Rightarrow> js" where
  "normalize_loop h source =
     (let rawOutcome = js_get source ''outcome''
      in JObj
        ([(''id'', JStr (text_of h source [''id'', ''loopId''] [])),
          (''version'', JStr (text_of h source [''version''] ''1.0.0'')),
          (''name'', JStr (text_of h source [''name'', ''id'', ''loopId''] ''loop'')),
          (''description'', JStr (text_of h source [''description''] [])),
          (''states'', JArr (map (normalize_state h) (array_or (js_get source ''states'') []))),
          (''initialState'', JStr (text_of h source [''initialState''] [])),
          (''transitions'', JArr (map (normalize_transition h) (array_or (js_get source ''transitions'') [])))] @
         (if typeof_object rawOutcome
          then [(''outcome'', JObj
            [(''description'', JStr (text_of h rawOutcome [''description'', ''id''] ''Loop outcome'')),
             (''valueUnit'', JStr (text_of h rawOutcome [''valueUnit''] ''unit'')),
             (''businessMetrics'', JArr (array_or (js_get rawOutcome ''businessMetrics'') []))])]
          else [])))"

definition normalizeLoopDefinition :: "host \<Rightarrow> js \<Rightarrow> issue list + loop_definition" where
  "normalizeLoopDefinition h input = LoopDefinitionSchema [] (normalize_loop h input)"

section \<open>Checks\<close>

definition script_errors :: "loop_definition \<Rightarrow> string list" where
  "script_errors d =
     (let stateIds = set (map st_id (def_states d));
          terminalIds = set (map st_id (filter (\<lambda>s. st_isTerminal s = Some True) (def_states d)))
      in (if def_initialState d \<notin> stateIds
          then [''initialState '' @ def_initialState d @ '' missing from states''] else []) @
         (if terminalIds = {} then [''at least one terminal state is required''] else []) @
         (if \<not> list_ex (\<lambda>t. tr_to t \<in> terminalIds) (def_transitions d)
          then [''at least one transition must lead to a terminal state''] else []) @
         concat (map (\<lambda>t.
           (if tr_from t \<notin> stateIds
            then [''transition '' @ tr_id t @ '' from '' @ tr_from t @ '' not found in states''] else []) @
           (if tr_to t \<notin> stateIds
            then [''transition '' @ tr_id t @ '' to '' @ tr_to t @ '' not found in states''] else [])) (def_transitions d)))"

text \<open>
  The host: reading a file, the YAML parser, the text of a schema issue, the message of an
  \<open>Error\<close>. A parse error has its position in lines and columns from 0.
\<close>

record script_host =
  sp_read :: "string \<Rightarrow> js + string"
  sp_yaml :: "string \<Rightarrow> js + js"
  sp_issue :: "issue \<Rightarrow> string"
  sp_error :: "js \<Rightarrow> string option"
  sp_show :: host

definition position_text :: "host \<Rightarrow> js \<Rightarrow> string" where
  "position_text h e =
     (case (js_get e ''line'', js_get e ''column'') of
        (JNum l, JNum c) \<Rightarrow>
          '' (line '' @ num_text h (num_add l (Fin 1)) @ '', col '' @ num_text h (num_add c (Fin 1)) @ '')''
      | _ \<Rightarrow> [])"

definition thrown_text :: "script_host \<Rightarrow> js \<Rightarrow> string" where
  "thrown_text sp e =
     (if js_get e ''name'' = JStr ''YAMLParseError''
      then js_to_string (sp_show sp) (nullish (js_get e ''message'') (JStr ''YAML parse error'')) @
        position_text (sp_show sp) e
      else or_default (sp_error sp e) ''Unknown validation error'')"

definition formatSchemaErrorMessage :: "script_host \<Rightarrow> issue list \<Rightarrow> string" where
  "formatSchemaErrorMessage sp issues =
     ''Loop definition validation failed: '' @
     join ''; '' (map (\<lambda>i. formatPath (fst i) @ '': '' @ sp_issue sp i) issues)"

definition validateFile :: "script_host \<Rightarrow> string \<Rightarrow> string list" where
  "validateFile sp filePath =
     (case sp_read sp filePath of
        Inl e \<Rightarrow> [thrown_text sp e]
      | Inr content \<Rightarrow>
          (case sp_yaml sp content of
             Inl e \<Rightarrow> [thrown_text sp e]
           | Inr parsed \<Rightarrow>
               (case normalizeLoopDefinition (sp_show sp) parsed of
                  Inl issues \<Rightarrow> [formatSchemaErrorMessage sp issues]
                | Inr d \<Rightarrow> script_errors d)))"

text \<open>The loop files below a directory, given as a tree.\<close>

datatype dir_entry = Directory string "dir_entry list" | PlainFile string

primrec walkYamlFiles :: "(string \<Rightarrow> string \<Rightarrow> string) \<Rightarrow> dir_entry \<Rightarrow> string \<Rightarrow> string list" where
  "walkYamlFiles path_join (Directory name entries) dir =
     concat (map (\<lambda>f. f (path_join dir name)) (map (walkYamlFiles path_join) entries))"
| "walkYamlFiles path_join (PlainFile name) dir =
     (if ends_with ''.yaml'' name \<or> ends_with ''.yml'' name then [path_join dir name] else [])"

text \<open>The exit code and the errors with their files; \<open>files\<close> is sorted.\<close>

definition script_main :: "script_host \<Rightarrow> string list \<Rightarrow> nat \<times> (string \<times> string) list" where
  "script_main sp files =
     (let errors = concat (map (\<lambda>f. map (Pair f) (validateFile sp f)) files)
      in if files = [] then (1, []) else if errors \<noteq> [] then (1, errors) else (0, []))"

section \<open>The script and the validator\<close>

lemma script_errors_none:
  "script_errors d = [] \<longleftrightarrow>
     definition_wf d \<and> (\<exists>t \<in> set (def_transitions d). tr_to t \<in> findTerminalStates d)"
  by (auto simp: script_errors_def Let_def definition_wf_def declared_def findTerminalStates_def list_ex_iff
      split: if_splits)

text \<open>
  The script accepts every definition the validator accepts; it says nothing on whether a terminal
  state can be reached.
\<close>

theorem validated_passes_script: "vr_valid (validateLoopDefinition d) \<Longrightarrow> script_errors d = []"
  unfolding validateLoopDefinition_valid script_errors_none by (auto simp: definition_valid_def completable_def)

definition stuck_loop :: loop_definition where
  "stuck_loop =
     \<lparr>def_id = ''stuck'', def_version = ''1'', def_name = ''stuck'', def_description = [], def_domain = None,
      def_states = [\<lparr>st_id = ''a'', st_label = [], st_isTerminal = None, st_isError = None, st_description = None\<rparr>,
        \<lparr>st_id = ''b'', st_label = [], st_isTerminal = None, st_isError = None, st_description = None\<rparr>,
        \<lparr>st_id = ''c'', st_label = [], st_isTerminal = Some True, st_isError = None, st_description = None\<rparr>],
      def_initialState = ''a'',
      def_transitions = [\<lparr>tr_id = ''t'', tr_from = ''b'', tr_to = ''c'', tr_signal = ''t'', tr_actors = [Human],
        tr_guards = None, tr_description = None, tr_metadata = None\<rparr>],
      def_outcome = None, def_tags = None, def_metadata = None\<rparr>"

lemma script_accepts_stuck: "script_errors stuck_loop = [] \<and> \<not> vr_valid (validateLoopDefinition stuck_loop)"
  by code_simp

text \<open>A clean run: every file was read and has a definition without errors.\<close>

lemma script_main_ok:
  "fst (script_main sp files) = 0 \<longleftrightarrow> files \<noteq> [] \<and> (\<forall>f \<in> set files. \<exists>content parsed d.
     sp_read sp f = Inr content \<and> sp_yaml sp content = Inr parsed \<and>
     normalizeLoopDefinition (sp_show sp) parsed = Inr d \<and> script_errors d = [])"
proof -
  have "validateFile sp f = [] \<longleftrightarrow> (\<exists>content parsed d. sp_read sp f = Inr content \<and> sp_yaml sp content = Inr parsed \<and>
     normalizeLoopDefinition (sp_show sp) parsed = Inr d \<and> script_errors d = [])" for f
    by (auto simp: validateFile_def split: sum.splits)
  then show ?thesis by (auto simp: script_main_def Let_def)
qed

text \<open>An actor type nobody knows passes as a human one.\<close>

lemma unknown_actor_is_human: "normalizeActorType (JStr ''robot'') = ''human''"
  by (simp add: normalizeActorType_def)

end
