(* ===== verification/Dual_Surface.thy ===== *)
theory Dual_Surface
  imports Run_Reads Registry
begin

text \<open>
  What the run view shows of approvals in Slack and of Google documents and sheets:
  \<open>packages/studio-ui/src/dual-surface\<close> and the text functions of \<open>packages/studio-ui/src/utils.ts\<close>.
\<close>

definition CHANNEL_SLACK_CONNECTION_ID :: string where
  "CHANNEL_SLACK_CONNECTION_ID = ''channel.slack''"

definition INTEGRATION_GOOGLE_DOCS_CONNECTION_ID :: string where
  "INTEGRATION_GOOGLE_DOCS_CONNECTION_ID = ''integration.google_docs''"

definition INTEGRATION_GOOGLE_SHEETS_CONNECTION_ID :: string where
  "INTEGRATION_GOOGLE_SHEETS_CONNECTION_ID = ''integration.google_sheets''"

definition isDualSurfaceLoop :: "string \<Rightarrow> bool" where
  "isDualSurfaceLoop loopId \<longleftrightarrow> take 13 loopId = ''dual-surface.''"

definition slackWebClientPermalink :: "string \<Rightarrow> string \<Rightarrow> string \<Rightarrow> string" where
  "slackWebClientPermalink slackTeamId channelId messageTs =
     ''https://app.slack.com/client/'' @ slackTeamId @ ''/'' @ channelId @ ''/p'' @
     filter (\<lambda>c. c \<noteq> CHR ''.'') messageTs"

section \<open>Texts\<close>

text \<open>\<open>toLocaleString\<close> is an argument.\<close>

definition formatIsoTimestamp :: "host \<Rightarrow> (jsnum \<Rightarrow> string) \<Rightarrow> string \<Rightarrow> string" where
  "formatIsoTimestamp h toLocale stamp =
     (if parse_date h stamp = NaN then stamp else toLocale (parse_date h stamp))"

text \<open>\<open>Math.round\<close> takes halves up; \<open>none\<close> is the dash shown without a duration.\<close>

definition formatDurationMs :: "host \<Rightarrow> string \<Rightarrow> jsnum option \<Rightarrow> string" where
  "formatDurationMs h none d =
     (case d of
        Some (Fin ms) \<Rightarrow>
          if ms < 1000 then num_text h (Fin ms) @ ''ms''
          else (let sec = \<lfloor>ms / 1000 + 1 / 2\<rfloor>
                in if sec < 60 then num_text h (Fin (of_int sec)) @ ''s''
                   else num_text h (Fin (of_int (sec div 60))) @ ''m '' @
                     num_text h (Fin (of_int (sec mod 60))) @ ''s'')
      | _ \<Rightarrow> none)"

definition actorTypeLabel :: "string \<Rightarrow> string" where
  "actorTypeLabel type = map (\<lambda>c. if c = CHR ''_'' then CHR '' '' else c) type"

section \<open>Views\<close>

record surface_context =
  sf_sequence :: int
  sf_eventId :: string
  sf_transitionId :: "string option"
  sf_type :: trace_event_type
  sf_occurredAt :: string

record slack_view = surface_context +
  sl_channelConnectionId :: string
  sl_slackTeamId :: string
  sl_slackChannelId :: string
  sl_slackMessageTs :: string
  sl_slackUserId :: "string option"
  sl_slackActionId :: "string option"
  sl_decisionSignalId :: "string option"
  sl_slackThreadTs :: "string option"

record docs_view = surface_context +
  gd_integrationConnectionId :: string
  gd_googleConnectionId :: "string option"
  gd_googleDocumentId :: string
  gd_docContentSha256 :: "string option"
  gd_docSnapshotEvidenceId :: "string option"
  gd_documentUrl :: "string option"
  gd_revisionId :: "string option"
  gd_decisionSignalId :: "string option"

record sheets_view = surface_context +
  gs_integrationConnectionId :: string
  gs_googleConnectionId :: "string option"
  gs_spreadsheetId :: string
  gs_spreadsheetUrl :: "string option"
  gs_stagedEditId :: "string option"
  gs_sheetName :: "string option"
  gs_rangeA1 :: "string option"
  gs_proposedValue :: "string option"
  gs_priorValue :: "string option"
  gs_applyStatus :: "string option"
  gs_appliedRanges :: "jsnum option"
  gs_decisionSignalId :: "string option"

record surface_extract =
  sx_slackDecisions :: "slack_view list"
  sx_googleDocs :: "docs_view list"
  sx_googleSheets :: "sheets_view list"
  sx_latestSlack :: "slack_view option"
  sx_latestDocs :: "docs_view option"
  sx_latestSheets :: "sheets_view option"

definition readRecord :: "js \<Rightarrow> js option" where
  "readRecord v = (if is_plain_object v then Some v else None)"

definition readString :: "js \<Rightarrow> string \<Rightarrow> string option" where
  "readString ob k = (case js_get ob k of JStr s \<Rightarrow> if trim s \<noteq> [] then Some (trim s) else None | _ \<Rightarrow> None)"

definition readNumber :: "js \<Rightarrow> string \<Rightarrow> jsnum option" where
  "readNumber ob k = (case js_get ob k of JNum n \<Rightarrow> if is_finite n then Some n else None | _ \<Rightarrow> None)"

text \<open>\<open>a ?? b\<close> on optional texts.\<close>

fun or_else :: "'a option \<Rightarrow> 'a option \<Rightarrow> 'a option" where
  "or_else (Some a) _ = Some a"
| "or_else None b = b"

definition slack_view_of :: "evidence_item \<Rightarrow> slack_view option" where
  "slack_view_of item =
     (case readRecord (js_get (ei_evidence item) ''channel'') of
        None \<Rightarrow> None
      | Some channel \<Rightarrow>
          if or_default (readString channel ''channelConnectionId'') CHANNEL_SLACK_CONNECTION_ID
            \<noteq> CHANNEL_SLACK_CONNECTION_ID then None
          else (case (readString channel ''slackTeamId'',
              or_else (readString channel ''slackChannelId'') (readString channel ''channelId''),
              or_else (readString channel ''slackMessageTs'') (readString channel ''messageTs'')) of
            (Some slackTeamId, Some slackChannelId, Some slackMessageTs) \<Rightarrow> Some
              \<lparr>sf_sequence = ei_sequence item, sf_eventId = ei_eventId item,
               sf_transitionId = ei_transitionId item, sf_type = ei_type item, sf_occurredAt = ei_occurredAt item,
               sl_channelConnectionId = CHANNEL_SLACK_CONNECTION_ID, sl_slackTeamId = slackTeamId,
               sl_slackChannelId = slackChannelId, sl_slackMessageTs = slackMessageTs,
               sl_slackUserId = readString channel ''slackUserId'',
               sl_slackActionId = readString channel ''slackActionId'',
               sl_decisionSignalId = readString channel ''decisionSignalId'',
               sl_slackThreadTs = readString channel ''slackThreadTs''\<rparr>
          | _ \<Rightarrow> None))"

text \<open>The integration of an item with the connection \<open>c\<close>.\<close>

definition integration_of :: "string \<Rightarrow> evidence_item \<Rightarrow> js option" where
  "integration_of c item =
     (case readRecord (js_get (ei_evidence item) ''integration'') of
        Some integration \<Rightarrow>
          if readString integration ''integrationConnectionId'' = Some c then Some integration else None
      | None \<Rightarrow> None)"

definition docs_view_of :: "evidence_item \<Rightarrow> docs_view option" where
  "docs_view_of item =
     (case integration_of INTEGRATION_GOOGLE_DOCS_CONNECTION_ID item of
        None \<Rightarrow> None
      | Some i \<Rightarrow>
          (case or_else (readString i ''googleDocumentId'') (readString i ''documentId'') of
             None \<Rightarrow> None
           | Some googleDocumentId \<Rightarrow> Some
              \<lparr>sf_sequence = ei_sequence item, sf_eventId = ei_eventId item,
               sf_transitionId = ei_transitionId item, sf_type = ei_type item, sf_occurredAt = ei_occurredAt item,
               gd_integrationConnectionId = INTEGRATION_GOOGLE_DOCS_CONNECTION_ID,
               gd_googleConnectionId = readString i ''googleConnectionId'',
               gd_googleDocumentId = googleDocumentId,
               gd_docContentSha256 = readString i ''docContentSha256'',
               gd_docSnapshotEvidenceId = readString i ''docSnapshotEvidenceId'',
               gd_documentUrl = readString i ''documentUrl'', gd_revisionId = readString i ''revisionId'',
               gd_decisionSignalId = readString i ''decisionSignalId''\<rparr>))"

definition sheets_view_of :: "evidence_item \<Rightarrow> sheets_view option" where
  "sheets_view_of item =
     (case integration_of INTEGRATION_GOOGLE_SHEETS_CONNECTION_ID item of
        None \<Rightarrow> None
      | Some i \<Rightarrow>
          (case readString i ''spreadsheetId'' of
             None \<Rightarrow> None
           | Some spreadsheetId \<Rightarrow> Some
              \<lparr>sf_sequence = ei_sequence item, sf_eventId = ei_eventId item,
               sf_transitionId = ei_transitionId item, sf_type = ei_type item, sf_occurredAt = ei_occurredAt item,
               gs_integrationConnectionId = INTEGRATION_GOOGLE_SHEETS_CONNECTION_ID,
               gs_googleConnectionId = readString i ''googleConnectionId'',
               gs_spreadsheetId = spreadsheetId, gs_spreadsheetUrl = readString i ''spreadsheetUrl'',
               gs_stagedEditId = readString i ''stagedEditId'', gs_sheetName = readString i ''sheetName'',
               gs_rangeA1 = readString i ''rangeA1'', gs_proposedValue = readString i ''proposedValue'',
               gs_priorValue = readString i ''priorValue'', gs_applyStatus = readString i ''applyStatus'',
               gs_appliedRanges = readNumber i ''appliedRanges'',
               gs_decisionSignalId = readString i ''decisionSignalId''\<rparr>))"

fun opt_list :: "'a option \<Rightarrow> 'a list" where
  "opt_list None = []"
| "opt_list (Some a) = [a]"

definition last_opt :: "'a list \<Rightarrow> 'a option" where
  "last_opt xs = (if xs = [] then None else Some (last xs))"

text \<open>The loop: the three lists so far, and the item.\<close>

definition extract_step ::
    "slack_view list \<times> docs_view list \<times> sheets_view list \<Rightarrow> evidence_item \<Rightarrow>
     slack_view list \<times> docs_view list \<times> sheets_view list" where
  "extract_step acc item =
     (case acc of (slack, docs, sheets) \<Rightarrow>
        (slack @ opt_list (slack_view_of item), docs @ opt_list (docs_view_of item),
         sheets @ opt_list (sheets_view_of item)))"

definition extractDualSurfaceEvidence :: "evidence_item list \<Rightarrow> surface_extract" where
  "extractDualSurfaceEvidence items =
     (case foldl extract_step ([], [], []) items of (slack, docs, sheets) \<Rightarrow>
        \<lparr>sx_slackDecisions = slack, sx_googleDocs = docs, sx_googleSheets = sheets,
         sx_latestSlack = last_opt slack, sx_latestDocs = last_opt docs, sx_latestSheets = last_opt sheets\<rparr>)"

section \<open>What is extracted\<close>

lemma foldl_extract:
  "foldl extract_step (a, b, c) items =
     (a @ List.map_filter slack_view_of items, b @ List.map_filter docs_view_of items,
      c @ List.map_filter sheets_view_of items)"
proof (induction items arbitrary: a b c)
  case (Cons item items)
  have "opt_list v @ xs = (case v of None \<Rightarrow> xs | Some y \<Rightarrow> y # xs)" for v :: "'z option" and xs
    by (cases v) auto
  then show ?case using Cons.IH by (auto simp: extract_step_def List.map_filter_simps split: option.splits)
qed (simp add: List.map_filter_simps)

lemma extract_views:
  "sx_slackDecisions (extractDualSurfaceEvidence items) = List.map_filter slack_view_of items"
  "sx_googleDocs (extractDualSurfaceEvidence items) = List.map_filter docs_view_of items"
  "sx_googleSheets (extractDualSurfaceEvidence items) = List.map_filter sheets_view_of items"
  "sx_latestSlack (extractDualSurfaceEvidence items) = last_opt (List.map_filter slack_view_of items)"
  by (simp_all add: extractDualSurfaceEvidence_def foldl_extract)

lemma slack_view_sequence: "slack_view_of item = Some v \<Longrightarrow> sf_sequence v = ei_sequence item"
  by (auto simp: slack_view_of_def split: option.splits if_splits)

text \<open>An item is never shown both as a document and as a sheet.\<close>

lemma docs_or_sheets: "docs_view_of item = None \<or> sheets_view_of item = None"
  by (auto simp: docs_view_of_def sheets_view_of_def integration_of_def INTEGRATION_GOOGLE_DOCS_CONNECTION_ID_def
      INTEGRATION_GOOGLE_SHEETS_CONNECTION_ID_def split: option.splits)

lemma sorted_map_filter:
  assumes "\<And>a b. f a = Some b \<Longrightarrow> g b = (k a :: int)" "sorted (map k xs)"
  shows "sorted (map g (List.map_filter f xs))"
  using assms(2)
proof (induction xs)
  case (Cons x xs)
  have "k x \<le> g b" if "b \<in> set (List.map_filter f xs)" for b
  proof -
    from that obtain a where "a \<in> set xs" "f a = Some b"
      by (auto simp: List.map_filter_def)
    with assms(1) Cons.prems show ?thesis by auto
  qed
  with Cons show ?case by (auto simp: List.map_filter_simps assms(1) split: option.splits)
qed (simp add: List.map_filter_simps)

lemma sorted_le_last: "sorted xs \<Longrightarrow> x \<in> set xs \<Longrightarrow> (x :: int) \<le> last xs"
  by (induction xs) auto

text \<open>
  The latest decision the run view shows for the evidence of a run is the one with the highest
  number among the decisions of its trace.
\<close>

theorem latest_decision_of_run:
  assumes "sx_latestSlack (extractDualSurfaceEvidence (vr_items (buildRunEvidenceResponse toIso s trace))) = Some v"
    and "u \<in> set (sx_slackDecisions (extractDualSurfaceEvidence (vr_items (buildRunEvidenceResponse toIso s trace))))"
  shows "sf_sequence u \<le> sf_sequence v"
proof -
  let ?items = "traceToEvidenceItems toIso trace" and ?vs = "List.map_filter slack_view_of (traceToEvidenceItems toIso trace)"
  have "sorted (map sf_sequence ?vs)"
    by (rule sorted_map_filter[of slack_view_of sf_sequence ei_sequence, OF slack_view_sequence])
      (simp_all add: evidence_item_sequences)
  moreover from assms have "?vs \<noteq> []" "v = last ?vs" "u \<in> set ?vs"
    by (auto simp: extract_views last_opt_def buildRunEvidenceResponse_def split: if_splits)
  ultimately show ?thesis using sorted_le_last[of "map sf_sequence ?vs" "sf_sequence u"]
    by (simp add: last_map)
qed

end
