(* ===== verification/Self_Host.thy ===== *)
theory Self_Host
  imports Runtime_Db Dual_Surface
begin

text \<open>
  The scripts that prepare the database of a self-hosted runtime: \<open>scripts/self-host/seed-demo-run.ts\<close>,
  which puts in a key and a finished demo run, and \<open>scripts/self-host/rotate-api-key.ts\<close>, which adds a
  key. Environment variables, SHA-256, random bytes and the database client are arguments.
\<close>

section \<open>The demo run\<close>

definition DEMO_LOOP_ID :: string where
  "DEMO_LOOP_ID = ''dual-surface.spreadsheet-approval''"

definition DEMO_LOOP_RUN_ID :: string where
  "DEMO_LOOP_RUN_ID = ''self-host-demo-run-1''"

text \<open>The three instants, 2026-05-01 at 11:00, 11:05 and 11:08 UTC, in milliseconds.\<close>

definition STARTED_AT :: int where
  "STARTED_AT = 1777633200000"

definition SHEET_SUBMITTED_AT :: int where
  "SHEET_SUBMITTED_AT = 1777633500000"

definition SLACK_APPROVED_AT :: int where
  "SLACK_APPROVED_AT = 1777633680000"

record 'd seeder =
  se_tenant :: "string option"
  se_apiKey :: "string option"
  se_sha256 :: "string \<Rightarrow> string"
  se_keys :: "('d, key_row) table"
  se_instances :: "('d, instance_row) table"
  se_events :: "('d, event_row) table"
  se_client :: "'d trace_client"

definition seed_tenant :: "'d seeder \<Rightarrow> string" where
  "seed_tenant se = or_default (se_tenant se) ''self-host-tenant''"

definition seed_key :: "'d seeder \<Rightarrow> string" where
  "seed_key se = or_default (se_apiKey se) ''le_5e1f0057de51f057de51f057de51f001''"

text \<open>A key row as a script creates it; the database fills in the identifier.\<close>

definition new_key :: "string \<Rightarrow> string \<Rightarrow> string \<Rightarrow> string \<Rightarrow> key_row" where
  "new_key tenantId name plain keyHash =
     \<lparr>kr_id = [], kr_tenantId = tenantId, kr_name = Some name, kr_keyHash = keyHash,
      kr_keyPrefix = keyPrefixDisplay plain, kr_active = True, kr_graceKeyHash = None,
      kr_graceExpiresAt = None, kr_lastUsedAt = None\<rparr>"

text \<open>Create the row unless there is one of the condition.\<close>

definition ensure_row :: "('d, 'r) table \<Rightarrow> ('r \<Rightarrow> bool) \<Rightarrow> (js, 'd, unit) eop \<Rightarrow> (js, 'd, unit) eop" where
  "ensure_row tb P m =
     op_bind (t_find tb P) (\<lambda>existing. case existing of Some _ \<Rightarrow> op_return () | None \<Rightarrow> m)"

definition create_row :: "('d, 'r) table \<Rightarrow> 'r \<Rightarrow> (js, 'd, unit) eop" where
  "create_row tb r = op_bind (t_create tb r) (\<lambda>_. op_return ())"

definition ensureApiKey :: "'d seeder \<Rightarrow> (js, 'd, unit) eop" where
  "ensureApiKey se =
     (let keyHash = hashLoopApiKey (se_sha256 se) (seed_key se)
      in ensure_row (se_keys se) (\<lambda>r. kr_keyHash r = keyHash)
           (create_row (se_keys se) (new_key (seed_tenant se) ''self-host-demo'' (seed_key se) keyHash)))"

definition seeded_by :: js where
  "seeded_by = JObj [(''seededBy'', JStr ''scripts/self-host/seed-demo-run.ts'')]"

definition demo_instance :: "'d seeder \<Rightarrow> create_input" where
  "demo_instance se =
     \<lparr>ci_aggregateId = DEMO_LOOP_RUN_ID, ci_loopId = DEMO_LOOP_ID, ci_tenantId = seed_tenant se,
      ci_idempotencyKey = None, ci_currentState = ''CLOSED'', ci_status = ''COMPLETED'',
      ci_context = seeded_by\<rparr>"

definition ensureLoopInstance :: "'d seeder \<Rightarrow> (js, 'd, unit) eop" where
  "ensureLoopInstance se =
     ensure_row (se_instances se) (\<lambda>r. ir_aggregateId r = DEMO_LOOP_RUN_ID)
       (create_row (se_instances se) (new_row (demo_instance se)))"

definition demo_event :: "'d seeder \<Rightarrow> event_row" where
  "demo_event se =
     \<lparr>er_id = [], er_aggregateId = DEMO_LOOP_RUN_ID, er_tenantId = seed_tenant se,
      er_type = ''loop.started'', er_fromState = [], er_toState = ''OPEN'', er_actorId = ''system:seed'',
      er_actorType = ''system'', er_evidence = JObj [], er_occurredAt = STARTED_AT\<rparr>"

definition ensureLoopEvents :: "'d seeder \<Rightarrow> (js, 'd, unit) eop" where
  "ensureLoopEvents se =
     ensure_row (se_events se) (\<lambda>r. er_aggregateId r = DEMO_LOOP_RUN_ID)
       (create_row (se_events se) (demo_event se))"

definition SHEETS_EVIDENCE :: js where
  "SHEETS_EVIDENCE = JObj [(''integration'', JObj
     [(''provider'', JStr ''google''),
      (''integrationConnectionId'', JStr ''integration.google_sheets''),
      (''integrationKind'', JStr ''google_sheets''),
      (''spreadsheetId'', JStr ''demo-spreadsheet''),
      (''spreadsheetUrl'', JStr ''https://docs.google.com/spreadsheets/d/demo-spreadsheet/edit''),
      (''stagedEditId'', JStr ''demo-stage-1''), (''sheetName'', JStr ''Budget''),
      (''rangeA1'', JStr (CHR 0x27 # ''Budget'' @ CHR 0x27 # ''!D3'')), (''proposedValue'', JStr ''1200''),
      (''priorValue'', JStr ''900''), (''applyStatus'', JStr ''pending''),
      (''decisionSignalId'', JStr ''dual_surface.sheets.submitted_for_approval.v1'')])]"

definition SLACK_EVIDENCE :: js where
  "SLACK_EVIDENCE = JObj [(''note'', JStr ''LGTM''), (''channel'', JObj
     [(''channelConnectionId'', JStr ''channel.slack''), (''channelKind'', JStr ''slack''),
      (''slackTeamId'', JStr ''TDEMO''), (''slackChannelId'', JStr ''CDEMO''),
      (''slackMessageTs'', JStr ''1700000000.000100''), (''slackUserId'', JStr ''UDEMO''),
      (''decisionSignalId'', JStr ''dual_surface.slack.interactive.approve.v1'')])]"

record trace_seed =
  sd_id :: string
  sd_sequence :: int
  sd_timestamp :: int
  sd_fromState :: "string option"
  sd_toState :: "string option"
  sd_transitionId :: "string option"
  sd_actorType :: actor_type
  sd_actorId :: string
  sd_evidence :: js

text \<open>Their type is \<open>transition.completed\<close> for all three.\<close>

definition TRACE_SEEDS :: "trace_seed list" where
  "TRACE_SEEDS =
     [\<lparr>sd_id = ''tr_self-host-demo-run-1_0'', sd_sequence = 0, sd_timestamp = STARTED_AT,
       sd_fromState = None, sd_toState = Some ''OPEN'', sd_transitionId = Some ''loop.started'',
       sd_actorType = System, sd_actorId = ''system:seed'', sd_evidence = seeded_by\<rparr>,
      \<lparr>sd_id = ''tr_self-host-demo-run-1_1'', sd_sequence = 1, sd_timestamp = SHEET_SUBMITTED_AT,
       sd_fromState = Some ''OPEN'', sd_toState = Some ''PENDING_APPROVAL'',
       sd_transitionId = Some ''dual_surface.sheets.submitted_for_approval'', sd_actorType = Human,
       sd_actorId = ''user:demo'', sd_evidence = SHEETS_EVIDENCE\<rparr>,
      \<lparr>sd_id = ''tr_self-host-demo-run-1_2'', sd_sequence = 2, sd_timestamp = SLACK_APPROVED_AT,
       sd_fromState = Some ''PENDING_APPROVAL'', sd_toState = Some ''APPROVED'',
       sd_transitionId = Some ''dual_surface.slack.interactive.approve'', sd_actorType = Human,
       sd_actorId = ''user:demo-approver'', sd_evidence = SLACK_EVIDENCE\<rparr>]"

text \<open>The identifiers need no escapes, so this is the text \<open>JSON.stringify\<close> gives.\<close>

definition seed_row :: "'d seeder \<Rightarrow> trace_seed \<Rightarrow> trace_row" where
  "seed_row se t =
     \<lparr>pt_id = sd_id t, pt_loopRunId = DEMO_LOOP_RUN_ID, pt_loopId = DEMO_LOOP_ID,
      pt_tenantId = seed_tenant se, pt_sequence = sd_sequence t, pt_timestamp = sd_timestamp t,
      pt_type = TCompleted, pt_fromState = sd_fromState t, pt_toState = sd_toState t,
      pt_transitionId = sd_transitionId t, pt_actorType = sd_actorType t, pt_actorId = sd_actorId t,
      pt_inputHash = se_sha256 se (''{\"seed\":\"'' @ sd_id t @ ''\"}''), pt_input = JObj [],
      pt_output = JObj [], pt_guards = [], pt_evidence = sd_evidence t, pt_durationMs = 1,
      pt_blocked = False, pt_blockReason = None, pt_governed = True\<rparr>"

definition ensureLoopTraceRecords :: "'d seeder \<Rightarrow> (js, 'd, unit) eop" where
  "ensureLoopTraceRecords se =
     ensure_row (cl_traces (se_client se)) (of_run (seed_tenant se) DEMO_LOOP_RUN_ID)
       (op_each (\<lambda>t. t_create (cl_traces (se_client se)) (seed_row se t)) TRACE_SEEDS)"

definition demo_summary :: "'d seeder \<Rightarrow> summary_row" where
  "demo_summary se =
     \<lparr>ps_tenantId = seed_tenant se, ps_loopRunId = DEMO_LOOP_RUN_ID, ps_loopId = DEMO_LOOP_ID,
      ps_startedAt = STARTED_AT, ps_completedAt = Some SLACK_APPROVED_AT,
      ps_terminalState = Some ''APPROVED'', ps_stepCount = length TRACE_SEEDS, ps_blockedCount = 0,
      ps_governed = True, ps_updatedAt = 0\<rparr>"

text \<open>\<open>upsert\<close> of the client: update the row of the condition, or create one.\<close>

definition upsert_row_of ::
    "('d, 'r) table \<Rightarrow> ('r \<Rightarrow> bool) \<Rightarrow> ('r \<Rightarrow> 'r) \<Rightarrow> 'r \<Rightarrow> (js, 'd, 'r) eop" where
  "upsert_row_of tb P f new =
     op_bind (t_find tb P) (\<lambda>existing.
     case existing of Some _ \<Rightarrow> t_update tb P f | None \<Rightarrow> t_create tb new)"

definition ensureLoopRunSummary :: "'d seeder \<Rightarrow> (js, 'd, unit) eop" where
  "ensureLoopRunSummary se =
     op_bind (upsert_row_of (cl_summaries (se_client se)) (summary_of_run (seed_tenant se) DEMO_LOOP_RUN_ID)
       (\<lambda>s. s\<lparr>ps_completedAt := Some SLACK_APPROVED_AT, ps_terminalState := Some ''APPROVED'',
              ps_stepCount := length TRACE_SEEDS\<rparr>) (demo_summary se)) (\<lambda>_. op_return ())"

definition seed_main :: "'d seeder \<Rightarrow> (js, 'd, unit) eop" where
  "seed_main se =
     op_bind (ensureApiKey se) (\<lambda>_. op_bind (ensureLoopInstance se) (\<lambda>_.
     op_bind (ensureLoopEvents se) (\<lambda>_. op_bind (ensureLoopTraceRecords se) (\<lambda>_.
     ensureLoopRunSummary se))))"

section \<open>Another key\<close>

text \<open>
  The arguments: the tenant and the token so far, and the number of draws from the random source.
\<close>

fun parse_arguments ::
    "(nat \<Rightarrow> 8 word list) \<Rightarrow> nat \<Rightarrow> string list \<Rightarrow> string \<Rightarrow> string \<Rightarrow> string \<times> string" where
  "parse_arguments random n [] tenantId token = (tenantId, token)"
| "parse_arguments random n [arg] tenantId token =
     (if arg = ''--generate'' then (tenantId, generatePlainLoopApiKey (random n)) else (tenantId, token))"
| "parse_arguments random n (arg # v # rest) tenantId token =
     (if arg = ''--tenant'' \<and> v \<noteq> [] then parse_arguments random n rest v token
      else if arg = ''--token'' \<and> v \<noteq> [] then parse_arguments random n rest tenantId v
      else if arg = ''--generate''
      then parse_arguments random (Suc n) (v # rest) tenantId (generatePlainLoopApiKey (random n))
      else parse_arguments random n (v # rest) tenantId token)"

definition is_hex_lower :: "char \<Rightarrow> bool" where
  "is_hex_lower c \<longleftrightarrow> is_hex_ci c \<and> lower_char c = c"

definition well_formed_token :: "string \<Rightarrow> bool" where
  "well_formed_token token \<longleftrightarrow>
     take 3 token = ''le_'' \<and> length (drop 3 token) = 32 \<and> list_all is_hex_lower (drop 3 token)"

text \<open>The tenant and the token, or the exit code.\<close>

definition parseArgs :: "(nat \<Rightarrow> 8 word list) \<Rightarrow> string option \<Rightarrow> string list \<Rightarrow> nat + string \<times> string" where
  "parseArgs random env argv =
     (case parse_arguments random 0 argv (or_default env ''self-host-tenant'') [] of
        (tenantId, token) \<Rightarrow>
          if token = [] then Inl 2 else if \<not> well_formed_token token then Inl 2 else Inr (tenantId, token))"

definition store_key :: "('d, key_row) table \<Rightarrow> (string \<Rightarrow> string) \<Rightarrow> string \<Rightarrow> string \<Rightarrow> (js, 'd, key_row) eop" where
  "store_key tb sha256 tenantId token =
     (let hashed = hashLoopApiKey sha256 token
      in upsert_row_of tb (\<lambda>r. kr_keyHash r = hashed)
           (\<lambda>r. r\<lparr>kr_tenantId := tenantId, kr_active := True\<rparr>)
           (new_key tenantId ''self-host-rotated'' token hashed))"

definition rotate_main ::
    "('d, key_row) table \<Rightarrow> (string \<Rightarrow> string) \<Rightarrow> (nat \<Rightarrow> 8 word list) \<Rightarrow> string option \<Rightarrow> string list \<Rightarrow>
     'd \<Rightarrow> nat \<times> 'd" where
  "rotate_main tb sha256 random env argv d =
     (case parseArgs random env argv of
        Inl code \<Rightarrow> (code, d)
      | Inr (tenantId, token) \<Rightarrow>
          (case store_key tb sha256 tenantId token d of (Inl e, d') \<Rightarrow> (1, d') | (Inr r, d') \<Rightarrow> (0, d')))"

section \<open>What the scripts leave behind\<close>

text \<open>The scripts on the database of lists.\<close>

definition host_seeder :: "string option \<Rightarrow> string option \<Rightarrow> (string \<Rightarrow> string) \<Rightarrow> runtime_db seeder" where
  "host_seeder tenant key sha256 =
     \<lparr>se_tenant = tenant, se_apiKey = key, se_sha256 = sha256, se_keys = keys_table,
      se_instances = instances_table, se_events = events_table, se_client = db_client\<rparr>"

lemma list_find:
  "x \<in> set (get d) \<Longrightarrow> P x \<Longrightarrow> \<exists>y. t_find (list_table get put fill clash) P d = (Inr (Some y), d)"
  by (cases "List.find P (get d)") (auto simp: list_table_def find_None_iff)

lemma ensure_row_found:
  "x \<in> set (get d) \<Longrightarrow> P x \<Longrightarrow> ensure_row (list_table get put fill clash) P m d = (Inr (), d)"
  using list_find[of x get d P put fill clash] by (auto simp: ensure_row_def op_bind_def)

lemma create_row_new:
  assumes "create_row (list_table get put fill clash) r d = (Inr u, d')" "\<And>xs d. get (put xs d) = xs"
  shows "get d' = get d @ [fill d r]"
  using assms(1) by (auto simp: create_row_def list_table_def assms(2) split: list.splits elim!: op_bind_cases)

lemma ensure_row_cases:
  assumes "ensure_row (list_table get put fill clash) P m d = (Inr u, d')"
  obtains (found) x where "x \<in> set (get d)" "P x" "d' = d"
    | (made) "m d = (Inr u, d')" "\<forall>x \<in> set (get d). \<not> P x"
proof (cases "List.find P (get d)")
  case None
  with assms have "m d = (Inr u, d')" by (simp add: ensure_row_def list_table_def op_bind_def)
  with None show ?thesis by (intro made) (auto simp: find_None_iff)
next
  case (Some x)
  with assms have "d' = d" by (simp add: ensure_row_def list_table_def op_bind_def)
  moreover from Some have "x \<in> set (get d)" "P x" by (auto simp: find_Some_iff)
  ultimately show ?thesis by (intro found)
qed

text \<open>Which tables a step changes.\<close>

lemma list_table_keeps:
  assumes "\<And>xs d. g (put xs d) = g d"
  shows "op_keeps g (t_find (list_table get put fill clash) P)"
    "op_keeps g (t_create (list_table get put fill clash) x)"
    "op_keeps g (t_update (list_table get put fill clash) P f)"
  using assms by (auto simp: op_keeps_def list_table_def split: list.splits option.splits prod.splits)

lemma ensure_row_keeps:
  "op_keeps g (t_find tb P) \<Longrightarrow> op_keeps g m \<Longrightarrow> op_keeps g (ensure_row tb P m)"
  unfolding ensure_row_def by (auto intro!: keeps split: option.split)

lemma create_row_keeps: "op_keeps g (t_create tb x) \<Longrightarrow> op_keeps g (create_row tb x)"
  unfolding create_row_def by (auto intro!: keeps)

lemma upsert_keeps:
  "op_keeps g (t_find tb P) \<Longrightarrow> op_keeps g (t_create tb x) \<Longrightarrow> op_keeps g (t_update tb P f) \<Longrightarrow>
     op_keeps g (upsert_row_of tb P f x)"
  unfolding upsert_row_of_def by (auto intro!: keeps split: option.split)

lemmas step_keeps = ensure_row_keeps create_row_keeps upsert_keeps list_table_keeps keeps

lemmas seed_tables = host_seeder_def db_client_def keys_table_def instances_table_def events_table_def
  traces_table_def summaries_table_def

lemma seed_keeps:
  "op_keeps db_instances (ensureApiKey (host_seeder t k sh))"
  "op_keeps db_keys (ensureLoopInstance (host_seeder t k sh))"
  "op_keeps (\<lambda>d. (db_keys d, db_instances d)) (ensureLoopEvents (host_seeder t k sh))"
  "op_keeps (\<lambda>d. (db_keys d, db_instances d, db_events d)) (ensureLoopTraceRecords (host_seeder t k sh))"
  "op_keeps (\<lambda>d. (db_keys d, db_instances d, db_events d, db_traces d)) (ensureLoopRunSummary (host_seeder t k sh))"
  by (simp add: ensureApiKey_def Let_def seed_tables, intro step_keeps; simp)
    (simp add: ensureLoopInstance_def ensureLoopEvents_def ensureLoopTraceRecords_def ensureLoopRunSummary_def
      seed_tables, intro step_keeps; simp)+

text \<open>The rows a run of the seed script leaves, whatever was there.\<close>

definition seeded :: "runtime_db seeder \<Rightarrow> runtime_db \<Rightarrow> bool" where
  "seeded se d \<longleftrightarrow>
     (\<exists>r \<in> set (db_keys d). kr_keyHash r = hashLoopApiKey (se_sha256 se) (seed_key se)) \<and>
     (\<exists>r \<in> set (db_instances d). ir_aggregateId r = DEMO_LOOP_RUN_ID) \<and>
     (\<exists>r \<in> set (db_events d). er_aggregateId r = DEMO_LOOP_RUN_ID) \<and>
     (\<exists>r \<in> set (db_traces d). of_run (seed_tenant se) DEMO_LOOP_RUN_ID r)"

lemma seed_parts:
  assumes "seed_main (host_seeder t k sh) d = (Inr u, d')"
  obtains d1 d2 d3 d4 where "ensureApiKey (host_seeder t k sh) d = (Inr (), d1)"
    "ensureLoopInstance (host_seeder t k sh) d1 = (Inr (), d2)"
    "ensureLoopEvents (host_seeder t k sh) d2 = (Inr (), d3)"
    "ensureLoopTraceRecords (host_seeder t k sh) d3 = (Inr (), d4)"
    "ensureLoopRunSummary (host_seeder t k sh) d4 = (Inr u, d')"
  using assms unfolding seed_main_def by (auto elim!: op_bind_cases)

lemma keys_table_create:
  assumes "create_row keys_table r d = (Inr u, d')"
  shows "db_keys d' = db_keys d @ [r\<lparr>kr_id := ''key-'' @ show_nat (length (db_keys d))\<rparr>]"
  using create_row_new[OF assms[unfolded keys_table_def]] by simp

lemma keys_table_ensure:
  assumes "ensure_row keys_table P m d = (Inr u, d')"
  obtains (found) x where "x \<in> set (db_keys d)" "P x" "d' = d"
    | (made) "m d = (Inr u, d')" "\<forall>x \<in> set (db_keys d). \<not> P x"
  using ensure_row_cases[OF assms[unfolded keys_table_def]] by metis

text \<open>The key of the script, if it was not there already, is stored under its hash for the tenant.\<close>

lemma ensureApiKey_stores:
  assumes "ensureApiKey (host_seeder t k sh) d = (Inr u, d')"
  shows "\<exists>r \<in> set (db_keys d'). kr_keyHash r = sh (seed_key (host_seeder t k sh))"
    and "\<forall>r \<in> set (db_keys d). kr_keyHash r \<noteq> sh (seed_key (host_seeder t k sh)) \<Longrightarrow>
      \<exists>r \<in> set (db_keys d'). kr_keyHash r = sh (seed_key (host_seeder t k sh)) \<and> kr_active r \<and>
        kr_tenantId r = seed_tenant (host_seeder t k sh)"
proof -
  let ?se = "host_seeder t k sh"
  from assms have run: "ensure_row keys_table (\<lambda>r. kr_keyHash r = sh (seed_key ?se))
      (create_row keys_table (new_key (seed_tenant ?se) ''self-host-demo'' (seed_key ?se) (sh (seed_key ?se)))) d = (Inr u, d')"
    by (simp add: ensureApiKey_def Let_def hashLoopApiKey_def host_seeder_def)
  from run show "\<exists>r \<in> set (db_keys d'). kr_keyHash r = sh (seed_key ?se)"
    by (cases rule: keys_table_ensure) (auto simp: new_key_def dest: keys_table_create)
  from run show "\<forall>r \<in> set (db_keys d). kr_keyHash r \<noteq> sh (seed_key ?se) \<Longrightarrow>
      \<exists>r \<in> set (db_keys d'). kr_keyHash r = sh (seed_key ?se) \<and> kr_active r \<and> kr_tenantId r = seed_tenant ?se"
    by (cases rule: keys_table_ensure) (auto simp: new_key_def dest!: keys_table_create)
qed

lemma op_each_creates:
  assumes "op_each (\<lambda>t. t_create traces_table (f t)) ts d = (Inr u, d')"
  shows "db_traces d' = db_traces d @ map f ts"
  using assms
proof (induction ts arbitrary: d)
  case (Cons t ts)
  from Cons.prems obtain x d1 where d1: "t_create traces_table (f t) d = (Inr x, d1)"
    "op_each (\<lambda>t. t_create traces_table (f t)) ts d1 = (Inr u, d')" by (auto elim!: op_bind_cases)
  from d1(1) have "db_traces d1 = db_traces d @ [f t]"
    by (auto simp: traces_table_def list_table_def split: list.splits)
  with Cons.IH[OF d1(2)] show ?case by simp
qed simp

lemma instances_ensured:
  assumes "ensureLoopInstance (host_seeder t k sh) d = (Inr u, d')"
  shows "\<exists>r \<in> set (db_instances d'). ir_aggregateId r = DEMO_LOOP_RUN_ID"
proof -
  let ?i = "new_row (demo_instance (host_seeder t k sh))"
  from assms have "ensure_row instances_table (\<lambda>r. ir_aggregateId r = DEMO_LOOP_RUN_ID)
      (create_row instances_table ?i) d = (Inr u, d')"
    by (simp add: ensureLoopInstance_def host_seeder_def)
  then show ?thesis unfolding instances_table_def
    by (cases rule: ensure_row_cases)
      (auto simp: new_row_def demo_instance_def dest!: create_row_new)
qed

lemma events_ensured:
  assumes "ensureLoopEvents (host_seeder t k sh) d = (Inr u, d')"
  shows "\<exists>r \<in> set (db_events d'). er_aggregateId r = DEMO_LOOP_RUN_ID"
proof -
  from assms have "ensure_row events_table (\<lambda>r. er_aggregateId r = DEMO_LOOP_RUN_ID)
      (create_row events_table (demo_event (host_seeder t k sh))) d = (Inr u, d')"
    by (simp add: ensureLoopEvents_def host_seeder_def)
  then show ?thesis unfolding events_table_def
    by (cases rule: ensure_row_cases) (auto simp: demo_event_def dest!: create_row_new)
qed

lemma traces_ensured:
  assumes "ensureLoopTraceRecords (host_seeder t k sh) d = (Inr u, d')"
  shows "\<exists>r \<in> set (db_traces d'). of_run (seed_tenant (host_seeder t k sh)) DEMO_LOOP_RUN_ID r"
    and "\<forall>r \<in> set (db_traces d). \<not> of_run (seed_tenant (host_seeder t k sh)) DEMO_LOOP_RUN_ID r \<Longrightarrow>
      db_traces d' = db_traces d @ map (seed_row (host_seeder t k sh)) TRACE_SEEDS"
proof -
  let ?se = "host_seeder t k sh"
  have run: "ensure_row traces_table (of_run (seed_tenant ?se) DEMO_LOOP_RUN_ID)
      (op_each (\<lambda>t. t_create traces_table (seed_row ?se t)) TRACE_SEEDS) d = (Inr u, d')"
    using assms by (simp add: ensureLoopTraceRecords_def host_seeder_def db_client_def)
  have some: "seed_row ?se (hd TRACE_SEEDS) \<in> set (map (seed_row ?se) TRACE_SEEDS)" by (simp add: TRACE_SEEDS_def)
  have of: "of_run (seed_tenant ?se) DEMO_LOOP_RUN_ID (seed_row ?se x)" for x
    by (simp add: of_run_def seed_row_def)
  from run[unfolded traces_table_def] show "\<exists>r \<in> set (db_traces d'). of_run (seed_tenant ?se) DEMO_LOOP_RUN_ID r"
    by (cases rule: ensure_row_cases)
      (use some of op_each_creates[unfolded traces_table_def] in fastforce)+
  from run[unfolded traces_table_def] show "\<forall>r \<in> set (db_traces d). \<not> of_run (seed_tenant ?se) DEMO_LOOP_RUN_ID r \<Longrightarrow>
      db_traces d' = db_traces d @ map (seed_row ?se) TRACE_SEEDS"
    by (cases rule: ensure_row_cases) (use op_each_creates[unfolded traces_table_def] in fastforce)+
qed

lemma seed_main_leaves:
  assumes "seed_main (host_seeder t k sh) d = (Inr u, d')"
  shows "seeded (host_seeder t k sh) d'"
proof -
  let ?se = "host_seeder t k sh"
  from assms obtain d1 d2 d3 d4 where
    1: "ensureApiKey ?se d = (Inr (), d1)" and 2: "ensureLoopInstance ?se d1 = (Inr (), d2)" and
    3: "ensureLoopEvents ?se d2 = (Inr (), d3)" and 4: "ensureLoopTraceRecords ?se d3 = (Inr (), d4)" and
    5: "ensureLoopRunSummary ?se d4 = (Inr u, d')" by (rule seed_parts)
  have "db_keys d' = db_keys d1" "db_instances d' = db_instances d2" "db_events d' = db_events d3"
    "db_traces d' = db_traces d4"
    using op_keepsD[OF seed_keeps(5) 5] op_keepsD[OF seed_keeps(4) 4] op_keepsD[OF seed_keeps(3) 3]
      op_keepsD[OF seed_keeps(2) 2] by simp_all
  moreover have "se_sha256 ?se = sh" by (simp add: host_seeder_def)
  ultimately show ?thesis
    unfolding seeded_def hashLoopApiKey_def
    using ensureApiKey_stores(1)[OF 1] instances_ensured[OF 2] events_ensured[OF 3] traces_ensured(1)[OF 4]
    by metis
qed

lemma update_first_none: "update_first P f xs = None \<longleftrightarrow> (\<forall>x \<in> set xs. \<not> P x)"
  by (induction xs) auto

lemma summary_always: "\<exists>d'. ensureLoopRunSummary (host_seeder t k sh) d = (Inr (), d')"
proof -
  let ?P = "summary_of_run (seed_tenant (host_seeder t k sh)) DEMO_LOOP_RUN_ID"
  let ?new = "(demo_summary (host_seeder t k sh))\<lparr>ps_updatedAt := int (db_next d)\<rparr>"
  have run: "ps_tenantId ?new = seed_tenant (host_seeder t k sh)" "ps_loopRunId ?new = DEMO_LOOP_RUN_ID"
    by (simp_all add: demo_summary_def)
  show ?thesis
  proof (cases "List.find ?P (db_summaries d)")
    case None
    then have "List.map_filter (\<lambda>s. violated (?P s) [''tenantId'', ''loopRunId'']) (db_summaries d) = []"
      by (auto simp: map_filter_Nil_iff violated_def find_None_iff)
    with None run show ?thesis
      by (simp add: ensureLoopRunSummary_def upsert_row_of_def seed_tables list_table_def op_bind_def)
  next
    case (Some s)
    then have "\<exists>s \<in> set (db_summaries d). ?P s" by (auto simp: find_Some_iff)
    then obtain y ys where "update_first ?P (\<lambda>s. s\<lparr>ps_completedAt := Some SLACK_APPROVED_AT,
        ps_terminalState := Some ''APPROVED'', ps_stepCount := length TRACE_SEEDS\<rparr>) (db_summaries d) = Some (y, ys)"
      using update_first_none[of ?P _ "db_summaries d"] by (metis option.exhaust prod.exhaust)
    with Some show ?thesis
      by (simp add: ensureLoopRunSummary_def upsert_row_of_def seed_tables list_table_def op_bind_def)
  qed
qed

text \<open>The steps find their rows in a seeded database and leave it alone.\<close>

lemma seeded_steps:
  assumes "seeded (host_seeder t k sh) d"
  shows "ensureApiKey (host_seeder t k sh) d = (Inr (), d)"
    "ensureLoopInstance (host_seeder t k sh) d = (Inr (), d)"
    "ensureLoopEvents (host_seeder t k sh) d = (Inr (), d)"
    "ensureLoopTraceRecords (host_seeder t k sh) d = (Inr (), d)"
proof -
  let ?se = "host_seeder t k sh"
  have sh: "se_sha256 ?se = sh" by (simp add: host_seeder_def)
  from assms obtain a i e r where
    a: "a \<in> set (db_keys d)" "kr_keyHash a = hashLoopApiKey sh (seed_key ?se)" and
    i: "i \<in> set (db_instances d)" "ir_aggregateId i = DEMO_LOOP_RUN_ID" and
    e: "e \<in> set (db_events d)" "er_aggregateId e = DEMO_LOOP_RUN_ID" and
    r: "r \<in> set (db_traces d)" "of_run (seed_tenant ?se) DEMO_LOOP_RUN_ID r"
    unfolding seeded_def sh by blast
  have tables: "se_keys ?se = keys_table" "se_instances ?se = instances_table" "se_events ?se = events_table"
    "cl_traces (se_client ?se) = traces_table"
    by (simp_all add: host_seeder_def db_client_def)
  show "ensureApiKey ?se d = (Inr (), d)"
    unfolding ensureApiKey_def Let_def sh tables keys_table_def
    using a by (intro ensure_row_found[of a]) simp_all
  show "ensureLoopInstance ?se d = (Inr (), d)"
    unfolding ensureLoopInstance_def tables instances_table_def
    using i by (intro ensure_row_found[of i]) simp_all
  show "ensureLoopEvents ?se d = (Inr (), d)"
    unfolding ensureLoopEvents_def tables events_table_def
    using e by (intro ensure_row_found[of e]) simp_all
  show "ensureLoopTraceRecords ?se d = (Inr (), d)"
    unfolding ensureLoopTraceRecords_def tables traces_table_def
    using r by (intro ensure_row_found[of r]) simp_all
qed

text \<open>
  A second run succeeds and adds nothing: keys, instances, events and records stay as they are.
\<close>

theorem seed_twice:
  assumes "seed_main (host_seeder t k sh) d = (Inr u, d1)"
  shows "\<exists>d2. seed_main (host_seeder t k sh) d1 = (Inr (), d2) \<and> db_keys d2 = db_keys d1 \<and>
    db_instances d2 = db_instances d1 \<and> db_events d2 = db_events d1 \<and> db_traces d2 = db_traces d1"
proof -
  note steps = seeded_steps[OF seed_main_leaves[OF assms]]
  obtain d2 where d2: "ensureLoopRunSummary (host_seeder t k sh) d1 = (Inr (), d2)"
    using summary_always by blast
  then have "seed_main (host_seeder t k sh) d1 = (Inr (), d2)"
    by (simp add: seed_main_def op_bind_def steps)
  with op_keepsD[OF seed_keeps(5) d2] show ?thesis by auto
qed

text \<open>
  A key in the canonical form that is new to the database authenticates its tenant after the run.
\<close>

theorem seeded_key_authenticates:
  assumes "seed_main (host_seeder t k sh) d = (Inr u, d')"
    and "\<forall>r \<in> set (db_keys d). kr_keyHash r \<noteq> sh (seed_key (host_seeder t k sh))"
  shows "db_grants db_keys sh now d' (seed_key (host_seeder t k sh)) (seed_tenant (host_seeder t k sh))"
proof -
  let ?se = "host_seeder t k sh"
  from assms(1) obtain d1 d2 d3 d4 where
    1: "ensureApiKey ?se d = (Inr (), d1)" and 2: "ensureLoopInstance ?se d1 = (Inr (), d2)" and
    3: "ensureLoopEvents ?se d2 = (Inr (), d3)" and 4: "ensureLoopTraceRecords ?se d3 = (Inr (), d4)" and
    5: "ensureLoopRunSummary ?se d4 = (Inr u, d')" by (rule seed_parts)
  have "db_keys d' = db_keys d1"
    using op_keepsD[OF seed_keeps(5) 5] op_keepsD[OF seed_keeps(4) 4] op_keepsD[OF seed_keeps(3) 3]
      op_keepsD[OF seed_keeps(2) 2] by simp
  with ensureApiKey_stores(2)[OF 1 assms(2)] show ?thesis
    by (auto simp: db_grants_def primary_match_def)
qed

text \<open>
  The hash is that of the key as it is written, while requests are checked by the hash of the key in
  lower case: with a key in upper case the script reports success, and every request is refused.
\<close>

definition upper_key :: string where
  "upper_key = ''LE_5E1F0057DE51F057DE51F057DE51F001''"

lemma upper_key_refused:
  "fst (seed_main (host_seeder None (Some upper_key) (\<lambda>s. s)) db_empty) = Inr () \<and>
   isLoopEngineApiKeyToken upper_key \<and>
   fst (db_authenticate keys_table (\<lambda>s. s) 0 0 (Some (''Bearer '' @ upper_key))
     (snd (seed_main (host_seeder None (Some upper_key) (\<lambda>s. s)) db_empty))) =
     Inl (AuthenticationError ''Invalid or expired API key'')"
  by code_simp

text \<open>
  What the run view shows of the demo run: a valid sequence, the sheet and then the approval.
\<close>

definition demo_trace :: "trace_record list" where
  "demo_trace = map rowToTraceRecord (map (seed_row (host_seeder None None (\<lambda>s. s))) TRACE_SEEDS)"

lemma demo_run_shows:
  "validateTraceSequence demo_trace = (True, None)"
  "(let x = extractDualSurfaceEvidence (traceToEvidenceItems (\<lambda>_. ''iso'') demo_trace)
    in (map gs_spreadsheetId (sx_googleSheets x), length (sx_googleDocs x),
        map_option sl_slackMessageTs (sx_latestSlack x))) =
    ([''demo-spreadsheet''], 0, Some ''1700000000.000100'')"
  by code_simp+

section \<open>Rotation\<close>

lemma keys_table_upsert:
  assumes "upsert_row_of keys_table P f new d = (Inr r, d')"
  obtains (updated) k where "k < length (db_keys d)" "P (db_keys d ! k)" "r = f (db_keys d ! k)"
      "db_keys d' = (db_keys d)[k := r]"
    | (created) "\<forall>x \<in> set (db_keys d). \<not> P x" "key_made r = key_made new" "db_keys d' = db_keys d @ [r]"
proof -
  from assms obtain ex d1 where find: "t_find keys_table P d = (Inr ex, d1)" and
    step: "(case ex of Some _ \<Rightarrow> t_update keys_table P f | None \<Rightarrow> t_create keys_table new) d1 = (Inr r, d')"
    unfolding upsert_row_of_def by (auto elim!: op_bind_cases)
  show ?thesis
  proof (cases ex)
    case None
    with table_not_found[OF keys_table_ok find[unfolded None]] step
      table_create(2)[OF keys_table_ok, of new d1 "Inr r" d' r] show ?thesis
      by (intro created) auto
  next
    case (Some y)
    with table_found[OF keys_table_ok find[unfolded Some]] step
      table_update(2)[OF keys_table_ok, of P f d1 "Inr r" d' r] show ?thesis
      by (auto simp: replaces_def intro: updated)
  qed
qed

lemma token_canonical:
  assumes "well_formed_token token"
  shows "isLoopEngineApiKeyToken token \<and> normalizeLoopApiKeyToken token = token"
proof -
  define body where "body = drop 3 token"
  have token: "token = ''le_'' @ body" and body: "length body = 32"
      "\<forall>c \<in> set body. is_hex_ci c \<and> lower_char c = c"
    using assms append_take_drop_id[of 3 token]
    by (auto simp: well_formed_token_def is_hex_lower_def list_all_iff body_def)
  have "\<not> js_space c" if "is_hex_ci c" for c
    using that by (auto simp: is_hex_ci_def js_space_def Let_def)
  then have "\<forall>c \<in> set token. \<not> js_space c" using body(2) by (auto simp: token js_space_def)
  then have trim: "trim token = token" by (rule trim_none)
  have "\<forall>c \<in> set token. lower_char c = c" using body(2) by (auto simp: token lower_char_def)
  then have lower: "lower token = token" by (simp add: lower_def map_idI)
  have "lower ''le_'' = ''le_''" by code_simp
  then have "isLoopEngineApiKeyToken token"
    using trim body unfolding token by (simp add: isLoopEngineApiKeyToken_def Let_def list_all_iff)
  with trim lower show ?thesis by (simp add: normalizeLoopApiKeyToken_def)
qed

text \<open>
  A run that ends with code 0 had a well-formed key, which authenticates its tenant from then on; no
  other key was touched, so the old ones stay valid.
\<close>

theorem rotated_key_authenticates:
  assumes "rotate_main keys_table sh random env argv d = (0, d')"
  shows "\<exists>tenantId token. parseArgs random env argv = Inr (tenantId, token) \<and> isLoopEngineApiKeyToken token \<and>
    normalizeLoopApiKeyToken token = token \<and> db_grants db_keys sh now d' token tenantId \<and>
    (\<forall>r \<in> set (db_keys d). kr_keyHash r \<noteq> sh token \<longrightarrow> r \<in> set (db_keys d'))"
proof -
  from assms obtain tenantId token where args: "parseArgs random env argv = Inr (tenantId, token)"
    by (auto simp: rotate_main_def parseArgs_def split: sum.splits prod.splits if_splits)
  with assms obtain r where run: "store_key keys_table sh tenantId token d = (Inr r, d')"
    by (auto simp: rotate_main_def split: prod.splits sum.splits)
  have token: "well_formed_token token"
    using args by (auto simp: parseArgs_def split: prod.splits if_splits)
  have "r \<in> set (db_keys d') \<and> primary_match (sh token) r \<and> kr_tenantId r = tenantId \<and>
      (\<forall>x \<in> set (db_keys d). kr_keyHash x \<noteq> sh token \<longrightarrow> x \<in> set (db_keys d'))"
    using run unfolding store_key_def Let_def hashLoopApiKey_def
  proof (cases rule: keys_table_upsert)
    case (updated k)
    then have "x \<in> set (db_keys d')" if "x \<in> set (db_keys d)" "kr_keyHash x \<noteq> sh token" for x
      using that by (metis in_set_conv_nth length_list_update nth_list_update_neq)
    with updated show ?thesis by (auto simp: primary_match_def set_update_memI)
  next
    case created
    then show ?thesis by (auto simp: key_made_def new_key_def primary_match_def)
  qed
  then show ?thesis using args token_canonical[OF token] by (auto simp: db_grants_def)
qed

text \<open>A revoked key that is put in again is active again, and the tenant that puts it in has it.\<close>

lemma revoked_key_returns:
  assumes "store_key keys_table sh tenantId token d = (Inr r, d')"
  shows "kr_active r \<and> kr_tenantId r = tenantId \<and> r \<in> set (db_keys d')"
  using assms unfolding store_key_def Let_def
  by (cases rule: keys_table_upsert) (auto simp: key_made_def new_key_def set_update_memI)

end
