(* ===== verification/Adapter_Spec.thy ===== *)
theory Adapter_Spec
  imports Migrations Status_Client Perplexity Providers Event_Adapters Studio_Client Commerce Loop_Script
    Self_Host Samples
begin

text \<open>
  The properties of the packages that talk to services of their own: the PostgreSQL store and its
  migrations, the client of the loop status service, the Perplexity adapter, evidence providers.
\<close>

section \<open>The PostgreSQL store\<close>

text \<open>A small server: times are numbers in unary, JSON columns keep what they are given.\<close>

definition sample_values :: pg_values where
  "sample_values =
     \<lparr>pv_time = (\<lambda>v. case v of JStr t \<Rightarrow> JDate (Fin (of_nat (length t))) | _ \<Rightarrow> v), pv_json = (\<lambda>v. v),
      pv_instant = (\<lambda>v. case v of JDate (Fin r) \<Rightarrow> r | _ \<Rightarrow> 0), pv_collate = (\<lambda>_. 0),
      pv_creates = (\<lambda>sql. sql = ''CREATE'')\<rparr>"

definition sample_pg_host :: pg_host where
  "sample_pg_host =
     \<lparr>ph_parse = (\<lambda>t. Fin (of_nat (length t))),
      ph_iso = (\<lambda>t. case t of Fin r \<Rightarrow> replicate (nat \<lfloor>r\<rfloor>) (CHR ''i'') | _ \<Rightarrow> [])\<rparr>"

definition sample_row :: loop_instance where
  "sample_row = \<lparr>inst_loopId = ''doc.approval'', inst_aggregateId = ''d1'', inst_currentState = ''draft'',
     inst_status = Active, inst_startedAt = ''i'', inst_updatedAt = ''ii'', inst_correlationId = None,
     inst_completedAt = None, inst_metadata = Some [(''k'', JBool True)]\<rparr>"

definition sample_move_record :: transition_record where
  "sample_move_record = \<lparr>rec_aggregateId = ''d1'', rec_loopId = ''doc.approval'', rec_transitionId = ''submit'',
     rec_signal = ''doc.submit'', rec_fromState = ''draft'', rec_toState = ''review'',
     rec_actor = \<lparr>actor_id = ''u1'', actor_type = Human, actor_displayName = None, actor_metadata = None\<rparr>,
     rec_occurredAt = ''ii'', rec_evidence = None\<rparr>"

definition sample_server :: "fault list \<Rightarrow> pg_sim" where
  "sample_server fs = \<lparr>si_tables = \<lparr>pt_instances = [], pt_transitions = [], pt_migrations = None, pt_executed = []\<rparr>,
     si_session = Idle, si_faults = fs\<rparr>"

text \<open>An instance and a record, saved together.\<close>

definition save_both :: "loop_instance \<Rightarrow> transition_record \<Rightarrow> unit tx_program" where
  "save_both i r = Call (SaveInstance i) (case_sum Fail (\<lambda>_. Call (SaveRecord r) (case_sum Fail (\<lambda>_. Finish ()))))"

lemma save_both_rethrows: "rethrows (save_both i r)"
  by (simp add: save_both_def)

lemmas sample_pg_defs = sample_values_def sample_pg_host_def sample_row_def sample_move_record_def sample_server_def

text \<open>
  C13. Safety: a transaction of the PostgreSQL store is all or nothing. For every function of store
  calls that passes on what a call throws, and whatever fails (the connection, a statement, \<open>COMMIT\<close>,
  \<open>ROLLBACK\<close>): if \<open>withTransaction\<close> returns, the committed tables and the result are those of the
  calls run one after the other; if it throws, the tables are unchanged, or the connection was lost
  during \<open>COMMIT\<close> and all of the calls are done; in that case the error is a
  \<open>TransactionIntegrityError\<close> with the driver's error as its cause if that one has one of nine codes
  or one of three phrases in its message, and else the driver's error itself. Which errors the driver
  throws for a lost connection is left open.
\<close>

theorem transactions_all_or_nothing:
  assumes "pg_server q connect committed session sv lost" "rethrows p"
    and "withTransaction h connect q p d = (r, d')"
  shows "case r of
      Inr x \<Rightarrow> spec_run h sv p (committed d) = Some (Inr x, committed d')
    | Inl e \<Rightarrow> committed d' = committed d \<or>
        (\<exists>x cause. lost cause \<and> spec_run h sv p (committed d) = Some (Inr x, committed d') \<and>
          (if reports_lost_connection cause then \<exists>m. e = IntegrityError m cause else e = cause))"
  using pg_server.transaction_atomic[OF assms] .

theorem transactions_all_or_nothing_witness:
  "let w = sample_server [Works, Works, Works, Refuses (JStr ''disk full''), Works];
       run = withTransaction sample_pg_host sim_connect (sim_query sample_values) (save_both sample_row sample_move_record)
   in fst (run w) = Inl (DriverThrew (JStr ''disk full'')) \<and> si_tables (snd (run w)) = si_tables w \<and>
      fst (run (sample_server [])) = Inr () \<and>
      length (pt_transitions (si_tables (snd (run (sample_server []))))) = 1"
proof -
  let ?run = "withTransaction sample_pg_host sim_connect (sim_query sample_values) (save_both sample_row sample_move_record)"
  let ?w = "sample_server [Works, Works, Works, Refuses (JStr ''disk full''), Works]"
  have atomic: "case fst (?run w) of
      Inr x \<Rightarrow> spec_run sample_pg_host sample_values (save_both sample_row sample_move_record) (si_tables w) =
        Some (Inr x, si_tables (snd (?run w)))
    | Inl e \<Rightarrow> si_tables (snd (?run w)) = si_tables w \<or>
        (\<exists>cause code. cause = connection_lost code \<and> (e = cause \<or> (\<exists>m. e = IntegrityError m cause)))" for w
    using transactions_all_or_nothing[OF sim.pg_server_axioms save_both_rethrows, of sample_pg_host
      sample_values sample_row sample_move_record w "fst (?run w)" "snd (?run w)"] by (auto split: sum.splits if_splits)
  have "fst (?run ?w) = Inl (DriverThrew (JStr ''disk full''))" by code_simp
  moreover have "fst (?run (sample_server [])) = Inr ()" by code_simp
  moreover have "length (pt_transitions (si_tables (snd (?run (sample_server []))))) = 1"
  proof -
    have "\<exists>t. spec_run sample_pg_host sample_values (save_both sample_row sample_move_record) (si_tables (sample_server [])) =
        Some (Inr (), t) \<and> length (pt_transitions t) = 1"
      by (simp add: save_both_def spec_call_def sample_server_def)
    with atomic[of "sample_server []"] \<open>fst (?run (sample_server [])) = Inr ()\<close> show ?thesis by auto
  qed
  ultimately show ?thesis
    using atomic[of ?w] by (auto simp: Let_def connection_lost_def)
qed

text \<open>
  So a \<open>COMMIT\<close> whose connection broke with a code the test does not know, like that of a broken
  pipe, is done without a \<open>TransactionIntegrityError\<close>; with a reset connection there is one.
\<close>

lemma unrecognised_loss_not_wrapped:
  "let run = (\<lambda>code. withTransaction sample_pg_host sim_connect (sim_query sample_values) (save_both sample_row sample_move_record)
         (sample_server [Works, Works, Works, Works, LosesAfter code]))
   in fst (run ''EPIPE'') = Inl (connection_lost ''EPIPE'') \<and>
      length (pt_transitions (si_tables (snd (run ''EPIPE'')))) = 1 \<and>
      fst (run ''ECONNRESET'') = Inl (IntegrityError
        ''withTransaction: COMMIT failed due to connection issue; transaction state is indeterminate''
        (connection_lost ''ECONNRESET''))"
  by code_simp

text \<open>
  C15. Round trip: what \<open>saveInstance\<close> of the PostgreSQL store writes, \<open>getInstance\<close> reads back, as an
  object with the same properties, and what is read of every other aggregate is what was read before
  the write. The instance has canonical times, no empty correlation id and JSON the column keeps.
\<close>

theorem saved_instance_is_read_back:
  assumes "pg_server q connect committed session sv lost" "session d = Idle" "storable h sv i"
    and before: "pg_getInstance h q a d = (Inr found, d1)"
    and save: "pg_saveInstance q i d1 = (Inr u, d2)"
    and after: "pg_getInstance h q a d2 = (Inr found', d3)"
  shows "found' = (if a = inst_aggregateId i then Some (instance_js i) else found)"
proof -
  from pg_server.get_shows[OF assms(1,2) before] have 1: "session d1 = Idle"
    "found = pg_server.shown committed h d1 a"
    by (auto simp: pg_server.shown_def[OF assms(1)])
  from pg_server.save_shows[OF assms(1) 1(1) save assms(3)] have 2: "session d2 = Idle"
    "pg_server.shown committed h d2 = (pg_server.shown committed h d1)(inst_aggregateId i \<mapsto> instance_js i)" by auto
  from pg_server.get_shows[OF assms(1) 2(1) after] 1(2) 2(2) show ?thesis by simp
qed

lemma sample_row_storable: "storable sample_pg_host sample_values sample_row"
  by (simp add: storable_def canonical_time_def json_kept_def sample_pg_defs numeral_2_eq_2)

theorem saved_instance_is_read_back_witness:
  "let q = sim_query sample_values; d2 = snd (pg_saveInstance q sample_row (sample_server []))
   in fst (pg_getInstance sample_pg_host q ''d1'' d2) = Inr (Some (instance_js sample_row))"
proof -
  let ?q = "sim_query sample_values"
  let ?d = "sample_server []"
  have g: "pg_getInstance sample_pg_host ?q ''d1'' ?d = (Inr None, ?d)"
    and s: "fst (pg_saveInstance ?q sample_row ?d) = Inr ()"
    and found: "\<exists>f. fst (pg_getInstance sample_pg_host ?q ''d1'' (snd (pg_saveInstance ?q sample_row ?d))) = Inr f"
    by (simp_all add: pg_getInstance_def pg_saveInstance_def op_bind_def sim_query_simps is_statement_def
        sim_statement_def sample_server_def next_fault_def after_fault_def op_return_def)
  obtain d2 where d2: "pg_saveInstance ?q sample_row ?d = (Inr (), d2)" using s by (metis prod.collapse)
  with found obtain f d3 where f: "pg_getInstance sample_pg_host ?q ''d1'' d2 = (Inr f, d3)" by (metis prod.collapse snd_conv)
  have "si_session ?d = Idle" by (simp add: sample_server_def)
  from saved_instance_is_read_back[OF sim.pg_server_axioms this sample_row_storable g d2 f] f d2
  show ?thesis by (simp add: Let_def sample_row_def)
qed

section \<open>Migrations\<close>

text \<open>
  C16. Invariant: whatever fails during a run of the migrations, the recorded checksums are those of
  the texts that were executed, record by record, no migration is recorded twice, and what was
  executed and recorded in the run is a part of the new migrations from the start on, in the order of
  the files. If the run returns, all the new ones were, in full, and the others are recorded with
  the checksum they have now.
\<close>

theorem migrations_recorded_as_run:
  assumes "migrated_server q connect committed session sv lost fs"
    and "ledger_ok (pf_sha256 fs) (committed d)"
    and "loadMigrations fs dir d = (Inr ms, d0)" "runMigrations connect q fs dir d = (r, d')"
  shows "ledger_ok (pf_sha256 fs) (committed d') \<and>
    (\<exists>k. extends (take k (filter (is_new (committed d)) ms)) (committed d) (committed d')) \<and>
    (\<forall>applied skipped. r = Inr (applied, skipped) \<longrightarrow>
       extends (filter (is_new (committed d)) ms) (committed d) (committed d') \<and>
       applied = map mg_id (filter (is_new (committed d)) ms) \<and>
       (\<forall>m \<in> set ms. \<not> is_new (committed d) m \<longrightarrow> up_to_date (committed d) m \<and> mg_id m \<in> set skipped))"
  using migrated_server.runMigrations_outcome[OF assms] by (auto simp: outcome_ok_def list_all_iff)

definition sample_disk :: "(string \<times> string) list" where
  "sample_disk = [(''2.sql'', ''ALTER''), (''README'', ''text''), (''1.sql'', ''CREATE'')]"

abbreviation sample_migrate :: "fault list \<Rightarrow> (pg_thrown + string list \<times> string list) \<times> pg_sim" where
  "sample_migrate faults \<equiv>
     runMigrations sim_connect (sim_query sample_values) (sim_files rev sample_disk) None (sample_server faults)"

theorem migrations_recorded_as_run_witness:
  "fst (sample_migrate []) = Inr ([''1'', ''2''], []) \<and>
   recorded (si_tables (snd (sample_migrate []))) = [(''1'', ''ETAERC''), (''2'', ''RETLA'')]"
proof -
  let ?d = "sample_server []"
  let ?fs = "sim_files rev sample_disk"
  have r: "fst (sample_migrate []) = Inr ([''1'', ''2''], [])" by code_simp
  have "loadMigrations ?fs None ?d = (Inr [migration_of ?fs ''1.sql'' ''CREATE'', migration_of ?fs ''2.sql'' ''ALTER''], ?d)"
    by code_simp
  moreover have "ledger_ok (pf_sha256 ?fs) (si_tables ?d)"
    by (simp add: ledger_ok_def recorded_def sample_server_def or_default_def)
  ultimately have "extends [migration_of ?fs ''1.sql'' ''CREATE'', migration_of ?fs ''2.sql'' ''ALTER'']
      (si_tables ?d) (si_tables (snd (sample_migrate [])))"
    using migrations_recorded_as_run[OF files.migrated_server_axioms[of sample_values rev sample_disk], of ?d None _ ?d
      "fst (sample_migrate [])" "snd (sample_migrate [])"] r
    by (auto simp: is_new_def recorded_def sample_server_def or_default_def)
  with r show ?thesis
    by (simp add: extends_def recorded_def sample_server_def or_default_def entry_def migration_of_def sim_files_def)
qed

section \<open>The status client\<close>

text \<open>
  C29. Equivalence: the events a client of the loop status service sees do not depend on how the
  stream is cut into chunks, also when a line end or a frame is cut in two, provided that no carriage
  return is followed by another one; a broken stream ends with its error, after the frames before it.
\<close>

theorem stream_events_ignore_chunking:
  assumes "concat chunks = concat chunks'" "no_double_cr (concat chunks)"
  shows "iterateSseFrames chunks fin = iterateSseFrames chunks' fin \<and>
    snd (iterateSseFrames chunks fin) = (case fin of Ended \<Rightarrow> None | Broken e \<Rightarrow> Some e)"
proof -
  have "snd (iterateSseFrames chunks fin) = (case fin of Ended \<Rightarrow> None | Broken e \<Rightarrow> Some e)"
    by (simp add: iterateSseFrames_def split: prod.split stream_end.split)
  then show ?thesis using chunks_irrelevant[OF assms(2)] chunks_irrelevant[of chunks'] assms by simp
qed

theorem stream_events_ignore_chunking_witness:
  "iterateSseFrames [''event: ping'' @ [cr], [lf] @ ''data: 1'' @ [cr, lf, cr], [lf]] Ended =
   iterateSseFrames [''event: ping'' @ [cr, lf] @ ''data: 1'' @ [cr, lf, cr, lf]] Ended \<and>
   iterateSseFrames [''event: ping'' @ [cr, lf] @ ''data: 1'' @ [cr, lf, cr, lf]] Ended =
     ([\<lparr>fr_event = ''ping'', fr_data = ''1''\<rparr>], None)"
proof -
  have "iterateSseFrames [''event: ping'' @ [cr], [lf] @ ''data: 1'' @ [cr, lf, cr], [lf]] Ended =
   iterateSseFrames [''event: ping'' @ [cr, lf] @ ''data: 1'' @ [cr, lf, cr, lf]] Ended"
    by (rule stream_events_ignore_chunking[THEN conjunct1]; code_simp)
  moreover have "iterateSseFrames [''event: ping'' @ [cr, lf] @ ''data: 1'' @ [cr, lf, cr, lf]] Ended =
     ([\<lparr>fr_event = ''ping'', fr_data = ''1''\<rparr>], None)" by code_simp
  ultimately show ?thesis ..
qed

section \<open>The Perplexity adapter\<close>

text \<open>
  C31. Safety: no text of the payload \<open>guardEvidence\<close> of the Perplexity adapter returns, at any depth,
  has an API key in it (\<open>pplx-\<close> and a letter or a digit), whatever payload is given, also where
  several keys are in a text or the replaced text would join what is left and right of it.
\<close>

theorem no_perplexity_key_survives:
  assumes "s \<in> js_strings (perplexity_guardEvidence payload)"
  shows "s \<noteq> u @ ''pplx-'' @ x # v \<or> \<not> alphanumeric x"
proof -
  have "has_key (u @ ''pplx-'' @ x # v)" if "alphanumeric x"
    using that by (induction u) (auto simp: key_here_def)
  with guarded_strings_free[OF assms] show ?thesis by blast
qed

theorem no_perplexity_key_survives_witness:
  "let out = perplexity_guardEvidence (JObj [(''note'', JArr [JStr ''pppplx-abc1 plx-2''])])
   in out = JObj [(''note'', JArr [JStr ''pp[REDACTED] plx-2''])] \<and>
      ''pp[REDACTED] plx-2'' \<noteq> ''pp'' @ ''pplx-'' @ CHR ''a'' # ''bc1 plx-2''"
proof -
  let ?out = "perplexity_guardEvidence (JObj [(''note'', JArr [JStr ''pppplx-abc1 plx-2''])])"
  have out: "?out = JObj [(''note'', JArr [JStr ''pp[REDACTED] plx-2''])]" by code_simp
  then have "''pp[REDACTED] plx-2'' \<in> js_strings ?out" by simp
  from no_perplexity_key_survives[OF this, of "''pp''" "CHR ''a''" "''bc1 plx-2''"] out
  show ?thesis by (simp add: alphanumeric_def)
qed

section \<open>Evidence providers\<close>

text \<open>
  C34. Type safety across packages: every snapshot a JSON provider hands out, whatever is in its
  catalog and in the request, passes the validator of proposed snapshots and carries the canonical
  hash of its values, so the conformance checks run on it without an error and find at most a term of
  a provider in the values. A hash is assumed to have 64 hexadecimal digits.
\<close>

theorem json_provider_conforms:
  fixes provider :: "(provider_error, 'd) evidence_provider"
  assumes "createJsonEvidenceProvider h sha fs cf = Inr provider" "\<And>u. is_sha256_hex (sha u)"
    and "ep_snapshot provider input d = (Inr s, d')"
  shows "validateEvidenceSnapshotProposed s = [] \<and>
    (\<exists>hash. snapshotContentHash h sha (js_get s ''values'') = Inr hash \<and> js_get s ''contentSha256'' = JStr hash) \<and>
    (\<exists>report. runConformanceChecks h sha stringify s exemplarId = Inr report \<and>
      (cr_valid report \<longleftrightarrow> \<not> (\<exists>term \<in> set forbidden_in_values. contains_ci term (stringify (js_get s ''values'')))))"
  using proposing_provider.proposes[OF json_provider_proposes[OF assms(1)] assms(3)]
    proposing_provider.conforms[OF json_provider_proposes[OF assms(1)] assms(2,3), of stringify exemplarId]
  by (auto simp: carries_hash_def)

theorem json_provider_conforms_witness:
  "let h = sample_host; sha = (\<lambda>u. replicate 64 (CHR ''a''));
       input = \<lparr>sq_sourceRef = ''ref'', sq_capturedBy = ''u1'', sq_capturedAt = None, sq_snapshotKey = None\<rparr>
   in \<exists>s report. fst (ep_snapshot (json_provider h sha) input ()) = Inr s \<and>
     js_get s ''contentSha256'' = JStr (replicate 64 (CHR ''a'')) \<and>
     runConformanceChecks h sha (\<lambda>_. ''{}'') s None = Inr report \<and> cr_valid report"
proof -
  let ?sha = "\<lambda>u :: ustr. replicate 64 (CHR ''a'')"
  let ?input = "\<lparr>sq_sourceRef = ''ref'', sq_capturedBy = ''u1'', sq_capturedAt = None, sq_snapshotKey = None\<rparr>"
  let ?p = "json_provider sample_host ?sha :: (provider_error, unit) evidence_provider"
  have hex: "is_sha256_hex (?sha u)" for u by (simp add: is_sha256_hex_def list_all_iff is_lower_hex_def)
  have "(case fst (ep_snapshot ?p ?input ()) of Inl _ \<Rightarrow> False | Inr s \<Rightarrow> True)" by code_simp
  then obtain s where s: "ep_snapshot ?p ?input () = (Inr s, ())"
    by (cases "ep_snapshot ?p ?input ()") (auto split: sum.splits)
  have made: "createJsonEvidenceProvider sample_host ?sha no_files sample_provider_config = Inr ?p"
    by (simp add: json_provider_def createJsonEvidenceProvider_def loadCatalog_def sample_provider_config_def
      elements_def read_of_def nonempty_def or_default_def Let_def)
  have clean: "\<not> (\<exists>term \<in> set forbidden_in_values. contains_ci term ''{}'')" by code_simp
  from json_provider_conforms[OF made hex s, of "\<lambda>_. ''{}''" None] clean s show ?thesis
    by (auto simp: Let_def snapshotContentHash_def sha256CanonicalHex_Inr)
qed

section \<open>The OpenClaw bus\<close>

text \<open>
  C10. Invariant: whatever the network, the clock and the callers do, and in any order, the OpenClaw bus
  has at most one socket that is not closed or one reconnection that is due, never both; the socket it
  holds is the last one it made; every message it sent belongs to an event the options choose: of a
  listed type (the three default types when none are listed, every type for a star), and of a listed
  loop when loops are listed. In every such state a call of \<open>emit\<close> sends exactly one message, for its
  event, if the inner bus accepted the event, the options choose it and the held socket is open and
  connected, and else none.
\<close>

theorem openclaw_one_connection:
  assumes "openclaw_run o' inner (w, b)"
  shows "card {n. n < length (oc_sockets b) \<and> oc_sockets b ! n \<noteq> SocketClosed} + length (oc_timers b) \<le> 1 \<and>
    (\<forall>n. oc_ws b = Some n \<longrightarrow> Suc n = length (oc_sockets b)) \<and>
    (\<forall>(e, r) \<in> set (oc_sent b). chosen o' e \<and> (\<exists>i. r = formatEventMessage o' i e)) \<and>
    (\<forall>handlers i e. oc_sent (snd (snd (openclaw_emit o' inner handlers i e (w, b)))) = oc_sent b @
       (if (\<exists>w'. inner e w = (Inr (), w')) \<and> chosen o' e \<and> connected_socket b
        then [(e, formatEventMessage o' i e)] else []))"
  using openclaw_run_ok[OF assms] unfolding openclaw_ok_def live_sockets_def emit_sends by simp

definition sample_openclaw :: openclaw_options where
  "sample_openclaw = \<lparr>oo_channel = ''ops'', oo_target = ''me'', oo_accountId = None, oo_idempotencyKey = None,
     oo_events = None, oo_loopIds = None, oo_approvalStates = None, oo_autoReconnect = None\<rparr>"

definition quiet_bus :: "loop_event \<Rightarrow> (js_error, unit, unit) eop" where
  "quiet_bus e w = (Inr (), w)"

theorem openclaw_one_connection_witness:
  "let b = timer_fires 0 (on_close sample_openclaw 0 (on_open 0 openclaw_new))
   in openclaw_run sample_openclaw quiet_bus ((), b) \<and> oc_ws b = Some 1 \<and>
      oc_sockets b = [SocketClosed, Connecting] \<and> oc_timers b = [] \<and>
      card {n. n < length (oc_sockets b) \<and> oc_sockets b ! n \<noteq> SocketClosed} \<le> 1"
proof -
  let ?b1 = "on_open 0 openclaw_new"
  let ?b2 = "on_close sample_openclaw 0 ?b1"
  let ?step = "openclaw_step sample_openclaw quiet_bus"
  have s1: "?step ((), openclaw_new) ((), ?b1)"
    by (rule opens) (simp_all add: openclaw_new_def open_socket_def)
  have s2: "?step ((), ?b1) ((), ?b2)"
    by (rule closes) (simp_all add: openclaw_new_def open_socket_def on_open_def)
  have s3: "?step ((), ?b2) ((), timer_fires 0 ?b2)"
    by (rule fires) (simp add: on_close_def Let_def sample_openclaw_def or_default_def openclaw_new_def
        open_socket_def on_open_def)
  have run: "openclaw_run sample_openclaw quiet_bus ((), timer_fires 0 ?b2)"
    unfolding openclaw_run_def using s1 s2 s3 by (blast intro: converse_rtranclp_into_rtranclp)
  moreover have "oc_ws (timer_fires 0 ?b2) = Some 1" "oc_sockets (timer_fires 0 ?b2) = [SocketClosed, Connecting]"
    "oc_timers (timer_fires 0 ?b2) = []" by code_simp+
  ultimately show ?thesis
    using openclaw_one_connection[OF run] by (simp only: Let_def list.size) simp
qed

end
