(* ===== verification/Canon.thy ===== *)
theory Canon
  imports Evidence
begin

text \<open>
  \<open>packages/canon\<close>: the evaluation of a policy document against qualified snapshots
  (\<open>evaluate.ts\<close>) and the age of a value (\<open>freshness.ts\<close>), with the specification of a
  satisfied role on the orders of the rungs. Roles are looked up among the properties the
  caller's record itself has.
\<close>

section \<open>Policies and inputs\<close>

datatype freshness_requirement =
    FreshnessNotRequired
  | FreshnessWithin jsnum "binding_clock option" \<comment> \<open>\<open>maxAgeMs\<close>, \<open>bindingClock\<close>\<close>

record role_requirement =
  rr_role :: string
  rr_provenance :: "provenance_rung option"
  rr_definition :: "definition_rung option"
  rr_freshness :: "freshness_requirement option"
  rr_requiresConformantProvider :: "bool option"

record policy_document =
  pol_decisionSystem :: string
  pol_requiresEvidence :: "role_requirement list"

datatype axis = AxisProvenance | AxisDefinition | AxisFreshness | AxisConformance

record evaluation_failure =
  cf_code :: string
  cf_message :: string
  cf_role :: string
  cf_axis :: "axis option"

record role_input =
  ri_role :: string
  ri_qualification :: qualification_vector
  ri_providerId :: "string option"
  ri_conformanceSuiteVersion :: "string option"
  ri_providerConformant :: "bool option"
  ri_evaluatedAt :: "string option"

record role_result =
  rl_role :: string
  rl_satisfied :: bool
  rl_failures :: "evaluation_failure list"

record policy_result =
  pr_decisionSystem :: string
  pr_satisfied :: bool
  pr_roles :: "role_result list"

fun provenance_name :: "provenance_rung \<Rightarrow> string" where
  "provenance_name ProvUnknown = ''unknown''"
| "provenance_name SystemAttested = ''system-attested''"
| "provenance_name OriginAttested = ''origin-attested''"

fun definition_name :: "definition_rung \<Rightarrow> string" where
  "definition_name NotApplicable = ''not-applicable''"
| "definition_name Unreviewed = ''unreviewed''"
| "definition_name Certified = ''certified''"
| "definition_name Governed = ''governed''"

section \<open>The age of a value\<close>

definition freshnessBindingTimestamp :: "freshness_facts \<Rightarrow> binding_clock option \<Rightarrow> string" where
  "freshnessBindingTimestamp f bindingClock =
     (let clock = (case bindingClock of
            Some c \<Rightarrow> c
          | None \<Rightarrow> (case fr_bindingClock f of Some c \<Rightarrow> c | None \<Rightarrow> ValueAsOf))
      in case clock of
           SnapshotFrozenAt \<Rightarrow> fr_snapshotFrozenAt f
         | SourceDataFreshness \<Rightarrow>
             (case fr_sourceDataFreshness f of Some s \<Rightarrow> s | None \<Rightarrow> fr_valueAsOf f)
         | ValueAsOf \<Rightarrow> fr_valueAsOf f)"

definition freshnessAgeMs :: "host \<Rightarrow> freshness_facts \<Rightarrow> string \<Rightarrow> binding_clock option \<Rightarrow> jsnum" where
  "freshnessAgeMs h f evaluatedAt bindingClock =
     (let evaluated = parse_date h evaluatedAt;
          binding = parse_date h (freshnessBindingTimestamp f bindingClock)
      in if evaluated = NaN \<or> binding = NaN then PosInf
         else num_max0 (num_sub evaluated binding))"

section \<open>Evaluation\<close>

definition isConformantProvider :: "role_input \<Rightarrow> bool" where
  "isConformantProvider input =
     (case ri_providerConformant input of
        Some b \<Rightarrow> b
      | None \<Rightarrow> ri_providerId input \<notin> {None, Some []} \<and>
                ri_conformanceSuiteVersion input \<notin> {None, Some []})"

definition evaluateProvenance :: "role_requirement \<Rightarrow> role_input \<Rightarrow> evaluation_failure list" where
  "evaluateProvenance r input =
     (case rr_provenance r of
        None \<Rightarrow> []
      | Some required \<Rightarrow>
          let actual = q_provenance (ri_qualification input)
          in if provenanceMeetsMinimum actual required then []
             else [\<lparr>cf_code = ''provenance_below_minimum'',
                    cf_message = ''provenance '' @ provenance_name actual @
                      '' does not meet required '' @ provenance_name required,
                    cf_role = rr_role r, cf_axis = Some AxisProvenance\<rparr>])"

definition evaluateDefinition :: "role_requirement \<Rightarrow> role_input \<Rightarrow> evaluation_failure list" where
  "evaluateDefinition r input =
     (case rr_definition r of
        None \<Rightarrow> []
      | Some required \<Rightarrow>
          let actual = q_definition (ri_qualification input)
          in if definitionMeetsMinimum actual required then []
             else [\<lparr>cf_code = ''definition_below_minimum'',
                    cf_message = ''definition '' @ definition_name actual @
                      '' does not meet required '' @ definition_name required,
                    cf_role = rr_role r, cf_axis = Some AxisDefinition\<rparr>])"

definition evaluateFreshness :: "host \<Rightarrow> role_requirement \<Rightarrow> role_input \<Rightarrow> evaluation_failure list" where
  "evaluateFreshness h r input =
     (case rr_freshness r of
        None \<Rightarrow> []
      | Some FreshnessNotRequired \<Rightarrow> []
      | Some (FreshnessWithin maxAgeMs bindingClock) \<Rightarrow>
          (case q_freshness (ri_qualification input) of
             FreshnessNotApplicable \<Rightarrow>
               [\<lparr>cf_code = ''freshness_required'',
                 cf_message = ''freshness is required for this role but snapshot reports not-applicable'',
                 cf_role = rr_role r, cf_axis = Some AxisFreshness\<rparr>]
           | FreshnessApplicable actual \<Rightarrow>
               let evaluatedAt = (case ri_evaluatedAt input of
                     Some t \<Rightarrow> t | None \<Rightarrow> fr_snapshotFrozenAt actual);
                   ageMs = freshnessAgeMs h actual evaluatedAt bindingClock
               in if num_ge maxAgeMs ageMs then []
                  else [\<lparr>cf_code = ''freshness_stale'',
                         cf_message = ''freshness age '' @ num_text h ageMs @ ''ms exceeds max '' @
                           num_text h maxAgeMs @ ''ms'',
                         cf_role = rr_role r, cf_axis = Some AxisFreshness\<rparr>]))"

definition evaluateConformance :: "role_requirement \<Rightarrow> role_input \<Rightarrow> evaluation_failure list" where
  "evaluateConformance r input =
     (if rr_requiresConformantProvider r \<noteq> Some True then []
      else if isConformantProvider input then []
      else [\<lparr>cf_code = ''provider_not_conformant'',
             cf_message = ''role requires conformant provider metadata on snapshot'',
             cf_role = rr_role r, cf_axis = Some AxisConformance\<rparr>])"

definition evaluateRoleRequirement :: "host \<Rightarrow> role_requirement \<Rightarrow> role_input \<Rightarrow> role_result" where
  "evaluateRoleRequirement h r input =
     (let failures = evaluateProvenance r input @ evaluateDefinition r input @
            evaluateFreshness h r input @ evaluateConformance r input
      in \<lparr>rl_role = rr_role r, rl_satisfied = (failures = []), rl_failures = failures\<rparr>)"

definition evaluate_role ::
    "host \<Rightarrow> (string \<times> role_input) list \<Rightarrow> role_requirement \<Rightarrow> role_result" where
  "evaluate_role h snapshotsByRole r =
     (case map_of snapshotsByRole (rr_role r) of
        None \<Rightarrow>
          \<lparr>rl_role = rr_role r, rl_satisfied = False,
           rl_failures = [\<lparr>cf_code = ''role_snapshot_missing'',
             cf_message = ''no snapshot supplied for role '' @ rr_role r,
             cf_role = rr_role r, cf_axis = None\<rparr>]\<rparr>
      | Some input \<Rightarrow> evaluateRoleRequirement h r (input\<lparr>ri_role := rr_role r\<rparr>))"

definition evaluateCanonPolicy ::
    "host \<Rightarrow> policy_document \<Rightarrow> (string \<times> role_input) list \<Rightarrow> policy_result" where
  "evaluateCanonPolicy h policy snapshotsByRole =
     (let roles = map (evaluate_role h snapshotsByRole) (pol_requiresEvidence policy)
      in \<lparr>pr_decisionSystem = pol_decisionSystem policy,
          pr_satisfied = list_all rl_satisfied roles, pr_roles = roles\<rparr>)"

section \<open>What a satisfied role means\<close>

text \<open>The age bound, on instants: neither may be unreadable, and an instant after the
  evaluation counts as age zero.\<close>

definition within_age :: "host \<Rightarrow> freshness_facts \<Rightarrow> string \<Rightarrow> jsnum \<Rightarrow> binding_clock option \<Rightarrow> bool" where
  "within_age h f evaluatedAt maxAge clock \<longleftrightarrow>
     num_ge maxAge (freshnessAgeMs h f evaluatedAt clock)"

definition freshness_met ::
    "host \<Rightarrow> freshness_requirement option \<Rightarrow> freshness_qualification \<Rightarrow> string option \<Rightarrow> bool" where
  "freshness_met h required actual evaluatedAt =
     (case required of
        Some (FreshnessWithin maxAge clock) \<Rightarrow>
          (case actual of
             FreshnessNotApplicable \<Rightarrow> False
           | FreshnessApplicable f \<Rightarrow> within_age h f
               (case evaluatedAt of Some t \<Rightarrow> t | None \<Rightarrow> fr_snapshotFrozenAt f) maxAge clock)
      | _ \<Rightarrow> True)"

definition role_satisfied :: "host \<Rightarrow> role_requirement \<Rightarrow> role_input \<Rightarrow> bool" where
  "role_satisfied h r input \<longleftrightarrow>
     (\<forall>m. rr_provenance r = Some m \<longrightarrow> m \<le> q_provenance (ri_qualification input)) \<and>
     (\<forall>m. rr_definition r = Some m \<longrightarrow>
        m \<le> q_definition (ri_qualification input) \<or> q_definition (ri_qualification input) = NotApplicable) \<and>
     freshness_met h (rr_freshness r) (q_freshness (ri_qualification input)) (ri_evaluatedAt input) \<and>
     (rr_requiresConformantProvider r = Some True \<longrightarrow> isConformantProvider input)"

lemma NotApplicable_least [simp]: "NotApplicable \<le> r"
  by (simp add: less_eq_definition_rung_def)

lemma axis_failures_none:
  "evaluateProvenance r input = [] \<longleftrightarrow>
     (\<forall>m. rr_provenance r = Some m \<longrightarrow> m \<le> q_provenance (ri_qualification input))"
  "evaluateDefinition r input = [] \<longleftrightarrow>
     (\<forall>m. rr_definition r = Some m \<longrightarrow>
        m \<le> q_definition (ri_qualification input) \<or> q_definition (ri_qualification input) = NotApplicable)"
  "evaluateFreshness h r input = [] \<longleftrightarrow>
     freshness_met h (rr_freshness r) (q_freshness (ri_qualification input)) (ri_evaluatedAt input)"
  "evaluateConformance r input = [] \<longleftrightarrow>
     (rr_requiresConformantProvider r = Some True \<longrightarrow> isConformantProvider input)"
  by (auto simp: evaluateProvenance_def evaluateDefinition_def evaluateFreshness_def
      evaluateConformance_def freshness_met_def within_age_def Let_def
      provenanceMeetsMinimum_le definitionMeetsMinimum_le
      split: option.splits freshness_requirement.splits freshness_qualification.splits)

lemma evaluateRoleRequirement_satisfied:
  "rl_satisfied (evaluateRoleRequirement h r input) \<longleftrightarrow> role_satisfied h r input"
  by (simp add: evaluateRoleRequirement_def role_satisfied_def Let_def axis_failures_none)

lemma isConformantProvider_update [simp]:
  "isConformantProvider (input\<lparr>ri_role := x\<rparr>) = isConformantProvider input"
  "isConformantProvider (input\<lparr>ri_qualification := q\<rparr>) = isConformantProvider input"
  by (simp_all add: isConformantProvider_def cong: option.case_cong)

lemma role_satisfied_role [simp]: "role_satisfied h r (input\<lparr>ri_role := x\<rparr>) = role_satisfied h r input"
  by (simp add: role_satisfied_def)

lemma evaluate_role_satisfied:
  "rl_satisfied (evaluate_role h snaps r) \<longleftrightarrow>
     (\<exists>input. map_of snaps (rr_role r) = Some input \<and> role_satisfied h r input)"
  by (simp add: evaluate_role_def evaluateRoleRequirement_satisfied split: option.splits)

text \<open>A result lists a reason exactly when it is not satisfied, and every reason names its role.\<close>

lemma evaluate_role_failures:
  "rl_satisfied (evaluate_role h snaps r) \<longleftrightarrow> rl_failures (evaluate_role h snaps r) = []"
  by (simp add: evaluate_role_def evaluateRoleRequirement_def Let_def split: option.splits)

lemma axis_failures_name:
  "f \<in> set (evaluateProvenance r input) \<Longrightarrow> cf_role f = rr_role r"
  "f \<in> set (evaluateDefinition r input) \<Longrightarrow> cf_role f = rr_role r"
  "f \<in> set (evaluateFreshness h r input) \<Longrightarrow> cf_role f = rr_role r"
  "f \<in> set (evaluateConformance r input) \<Longrightarrow> cf_role f = rr_role r"
proof -
  show "f \<in> set (evaluateFreshness h r input) \<Longrightarrow> cf_role f = rr_role r"
    by (cases "q_freshness (ri_qualification input)")
      (auto simp: evaluateFreshness_def Let_def
        split: option.splits freshness_requirement.splits if_splits)
qed (auto simp: evaluateProvenance_def evaluateDefinition_def evaluateConformance_def Let_def
    split: option.splits if_splits)

lemma evaluate_role_names:
  "f \<in> set (rl_failures (evaluate_role h snaps r)) \<Longrightarrow> cf_role f = rr_role r"
  by (auto simp: evaluate_role_def evaluateRoleRequirement_def Let_def
      dest: axis_failures_name split: option.splits)

text \<open>An unreadable instant is infinitely old: only an unbounded age accepts it.\<close>

lemma freshnessAge_cases:
  "freshnessAgeMs h f t c = PosInf \<and>
     (parse_date h t = NaN \<or> parse_date h (freshnessBindingTimestamp f c) = NaN) \<or>
   num_ge (freshnessAgeMs h f t c) (Fin 0) \<or> freshnessAgeMs h f t c = NaN"
  by (auto simp: freshnessAgeMs_def Let_def intro: num_max0_nonneg)

text \<open>The better of two qualifications: higher rungs, with \<open>not-applicable\<close> comparable to itself only.\<close>

definition at_least :: "qualification_vector \<Rightarrow> qualification_vector \<Rightarrow> bool" where
  "at_least q q' \<longleftrightarrow>
     q_provenance q' \<le> q_provenance q \<and>
     (q_definition q = q_definition q' \<or> NotApplicable \<notin> {q_definition q, q_definition q'} \<and>
        q_definition q' \<le> q_definition q) \<and>
     q_freshness q = q_freshness q'"

lemma role_satisfied_mono:
  assumes "role_satisfied h r input" "at_least q (ri_qualification input)"
  shows "role_satisfied h r (input\<lparr>ri_qualification := q\<rparr>)"
  using assms by (auto simp: role_satisfied_def at_least_def intro: order_trans)

end
