(* ===== verification/Spec2Isabelle.thy ===== *)
theory Spec2Isabelle
  imports Runtime_Spec Integration_Spec Adapter_Spec Canon Canonical_Json
begin

text \<open>
  A model of Loop Engine (TypeScript, packages under \<open>src/packages\<close>): a runtime that
  drives governed business loops. A loop is a finite state machine, given as a definition of
  states, transitions, allowed actors and guards; the engine keeps one instance per aggregate and
  records every transition with its evidence. The self-hosted runtime puts a database, traces,
  authentication, rate limits and HTTP routes around it.

  Parts and theories, in the order the code builds on them:

    Prelude          JavaScript values, numbers as the code tests them, errors, stateful operations
                     as functions from a world to a result or error with the new world
    Core             core/src/schemas.ts, loopInstance.ts, toolAdapter.ts; the authoring defaults
    Actors           actors/src: authorization, evidence of AI actors
    Guards           guards/src: registry, the four built-in guards, evaluateGuards
    Events           events/src and signals/src: events, their schemas, factory, bus, learning signal
    Canonical_Json   canonical-json/src: the canonical text of a value, on UTF-16 code units
    Evidence         evidence/src: validation, qualification, the governed commit
    Canon            canon/src: role and policy evaluation
    Loop_Validator   loop-definition/src/validator.ts with its breadth-first search
    Loop_Definition  loop-definition/src: builder, schema decoders, parser, serializer
    Memory_Store     the interface LoopStore as locale loop_store, adapter-memory/src as its instance
    Engine           runtime/src/engine.ts: start, transition, cancelLoop, failLoop, queries
    Engine_Events    which events each operation hands to the bus, in order
    Lifecycle        the abstract state machine of instances and histories, stated on their fields
                     and on how a call ends; the engine refines it
    Progress         what a transition needs to be executed; validated loops can be completed
    Observability    observability/src: replay, timeline, residency, metrics
    Trace_Store      the interface TraceStore as locale trace_store, the in-memory store, run
                     comparison, timelines of recorded runs
    Database         what the code relies on of the generated database client: tables with find,
                     create, update and their documented laws; the errors of the runtime
    Access           auth-iface/src, runtime-core/src/db-auth-adapter.ts, entitlements-iface/src,
                     sdk/src/lib/redactPiiEvidence.ts; locale auth_adapter
    Durable_Rows     runtime-core/src/loop-instance-repository.ts; locale instance_repository
    Durable_Traces   runtime-core/src/trace-repository.ts and postgres-trace-store.ts
    Runtime_Db       a database of lists with the keys of runtime-db/prisma/schema.prisma, on which
                     the promises of the client hold
    Durable_Runs     runtime-core/src/loop-execution.ts and oss-traced-loop-system.ts
    Durable_Safety   what these operations keep and leave alone: tenants, engine, traces
    Run_Reads        runtime-core/src/build-run-responses.ts, observability/src/audit-read.ts
    Web, Resolver    URLs and responses; runtime-core/src/loop-definition-resolver.ts
    Connections      runtime-core/src/runtime-connections
    Routes           runtime-routes/src and runtime-core/src/errors.ts: middleware and handlers
    Registry         registry-client/src: types.ts, the v0 and flat HTTP clients, the preset; locale
                     checked_registry
    Local_Registry   registry-client/src/adapters/local.ts; locale loop_registry, the contract of a map
    SDK              sdk/src/index.ts: createLoopSystem
    AI_Adapters      adapter-openai, adapter-anthropic, adapter-gemini, adapter-grok, sdk/src/ai.ts;
                     locale governed_adapter, the contract of core/src/actorAdapter.ts
    Governed_Tool    adapter-vercel-ai/src: tools of a language model under an engine
    Postgres         adapters/postgres/src: errors.ts, index.ts; locale pg_server, what the documentation
                     of the server promises of a session; a server with faults as its instance
    Migrations       adapters/postgres/src/migrations/runner.ts, pool.ts; locale migrated_server
    Status_Client    loop-status-client/src: server-sent events and the client
    Perplexity       adapter-perplexity/src: a tool adapter of core/src/toolAdapter.ts
    Providers        provider-api/src, provider-json/src, provider-conformance/src, golden-exemplars/src,
                     presentation/src; locale proposing_provider, the contract of a provider
    Event_Adapters   adapters/http/src, adapters/kafka/src, adapter-openclaw/src, adapter-pagerduty/src
    Studio_Client    studio-client/src; locale run_provider, the interface StudioRunProvider
    Commerce         adapter-commerce-gateway/src: client, recommendations, evidence
    Loop_Script      src/scripts/validate-loops.ts: the check of loop files, against the validator
    Dual_Surface     studio-ui/src/dual-surface, utils.ts: Slack and Google evidence of a run
    Self_Host        src/scripts/self-host: the seed of the demo run, the rotation of a key
    Samples, Samples_Runtime   concrete loops, engines, databases and requests the witnesses run
    Runtime_Spec     the properties of the durable runtime
    Integration_Spec   the properties of registries, the assembled system, adapters and tools
    Adapter_Spec     the properties of the PostgreSQL store, its migrations, the status client, the
                     Perplexity adapter, providers and the OpenClaw bus
    Spec2Isabelle    this theory: the properties of the core

  State. A world has the store, the snapshot store, the events handed to the bus so far and a tick
  that numbers the reads of the clock and the identifiers drawn, so that every call of
  \<open>Date.now\<close>, \<open>toISOString\<close> or \<open>randomUUID\<close> may give a different value; these are functions of the
  tick in the record \<open>env\<close>. An operation returns \<open>Inl\<close> for every throw of the code and keeps the
  state reached by then, so a call that fails after a write is visible as such. The definition
  registry, the guard evaluators, the bus and the snapshot store are fields of the engine record,
  as they are constructor options of the class; they are arbitrary unless a property says otherwise.
  The durable runtime adds the database, the trace store and the counters of the process, the
  routes add the windows of the two rate limiters; its operations act on one part of this world
  through \<open>on_db\<close>, \<open>on_engine\<close>, \<open>on_trace\<close>, \<open>on_reads\<close> and \<open>on_writes\<close>.

  Parameters (record \<open>host\<close> and arguments): \<open>Date.parse\<close>, the number formats, the case mapping of
  non-ASCII letters, regular expression replacement, SHA-256, random bytes, the YAML and JSON text
  formats, the file system, the PostgreSQL server, the packages of the model providers, the payload schemas of signals, \<open>fetch\<close>, the environment variables and the database
  client. Nothing is assumed of them except where a theorem names it.

  Lemma groups. Memory_Store and Trace_Store prove the laws of the store interfaces once and
  discharge them for the in-memory stores. Engine characterises every branch of the operations
  (what a result implies, what a call may change), Engine_Events the exact events of every result.
  Lifecycle relates the functions of the engine to predicates on fields and lifts these to sequences of calls: a
  simulation of the engine by the abstract lifecycle, an invariant of reachable views and the
  replay of histories. Loop_Validator shows that the search ends, by a lexicographic measure on
  unvisited nodes and the queue, and equals reachability. Loop_Definition shows that every decoder
  reads back what the serializer wrote. Access proves both authentication adapters sound for what
  they grant and the sliding window bounded. Durable_Rows proves the contract of the instance
  repository from the laws of the tables, Durable_Safety and Routes prove isolation and
  idempotence inside that contract. Durable_Traces relates every summary to its records through
  retries and rollbacks. Registry proves that checked definitions only pass through clients and
  caches, Local_Registry the contract of a map, AI_Adapters that each adapter's submissions meet the
  contract of an actor, Governed_Tool where the instance of a tool is at each call, SDK that the
  engine of an assembled system has the registry the lifecycle needs. Postgres proves transactions
  atomic from the laws of a session, whichever errors the driver throws for a lost connection, and that
  rows decode to what was stored, Migrations that the
  table of migrations is a ledger of what was executed, Status_Client that buffering across chunks
  changes no frame, Perplexity that masking leaves no key and that retries are bounded, Providers that
  what a provider hands out conforms, Event_Adapters that the reachable states of the OpenClaw bus, under
  calls of emit and disconnect and what the network does, have one connection and chosen messages, Studio_Client that bundles have the contract version, Commerce that confidences are
  clamped, Loop_Script that what the validator accepts passes the script but not the other way round,
  Dual_Surface that the latest decision shown has the highest number, Self_Host that seeding twice is
  seeding once and that a rotated key authenticates and disturbs no other.

  Bounds. Each loop of the code is a structural recursion, or the search above with its
  termination proof, with two exceptions: the retries of \<open>persistTraceWithSummary\<close> and of
  \<open>fetchWithRetry\<close> (and of \<open>invoke\<close> of the Perplexity adapter) count down from the attempts of the code, and the pages of \<open>listRegistryLoops\<close> and of
  the v0 client follow cursors of a service, a partial function whose return is a property (under
  cursors that move forward). Numbers are
  rationals with NaN and the infinities, so rounding of doubles is not modelled; times of traces
  are integers of milliseconds.

  Not modelled: the React components, fixtures and demos of the user interface packages and apps, the
  examples, and the scripts that search the files of the repository for imports, licences and
  headings (check-boundary.ts, check-security-metadata.ts), which are regular expressions over
  texts; what scripts write to the console. The PostgreSQL server is one
  session on tables nobody else writes, and the text of a migration is a statement that does not
  end its transaction. A governed tool
  acts on the world outside only, not on the engine it runs under.
  Concurrency: each call runs to its end before the next; interleavings of two calls on one
  aggregate are outside the model, except that a database call may fail or lose a race in any way
  its documentation allows.
\<close>

section \<open>Runs of the engine over the in-memory store\<close>

text \<open>
  C1. Refinement: every sequence of calls of \<open>LoopEngine\<close> on the in-memory store, with any
  guards, bus, snapshot store and clock, is a run of the abstract lifecycle on the instances and
  histories the store shows, call by call with the way each ended (done, refused or thrown). The
  lifecycle is stated on the fields of instances and records: a start puts the aggregate into the
  initial state, active; a transition takes the first declared one the loop, the actor and the
  approvals permit, brings the instance into its target, completed exactly if that is final, and
  appends its record; cancelling and failing set the status. A call that is done changes the
  store so; nothing happens only in a call that throws or is refused, and only if the loop is not
  registered or is active (start), the aggregate has no instance (cancel, fail), or the transition
  is not permitted or did not get past guards, evidence or a throw.
\<close>

theorem engine_refines_lifecycle:
  assumes "eng_store eng = memory_ops"
  shows "lifecycle_run (eng_registry eng) (with_outcomes eng cs w) (view_of memory_ops (w_store w))
    (view_of memory_ops (w_store (run_calls eng cs w)))"
  using mem.run_calls_step[OF assms] by blast

lemma engine_refines_lifecycle_witness:
  "lifecycle_run sample_registry (with_outcomes sample_engine sample_calls sample_world) (view_of memory_ops ms_empty)
     (view_of memory_ops (w_store (run_calls sample_engine sample_calls sample_world)))"
  using engine_refines_lifecycle[of sample_engine sample_calls sample_world] by simp

text \<open>
  C2. Invariant: on the in-memory store, empty at first, and with a registry that files each
  definition under its own identifier and whose definitions name only states they declare, after
  any sequence of calls every stored instance is filed under its own aggregate, belongs to a registered definition and is in a state it declares; it is completed
  only in a terminal state, and \<open>completedAt\<close> is set exactly when it is not active.
\<close>

theorem stored_instances_ok:
  assumes "eng_store eng = memory_ops" "registry_wf (eng_registry eng)" "w_store w = ms_empty"
    and "getState eng (run_calls eng cs w) a = Some i"
  shows "inst_aggregateId i = a \<and> instance_ok (eng_registry eng) i"
proof -
  have "vw_inst (view_of memory_ops (w_store (run_calls eng cs w))) a = Some i"
    using assms(1,4) by (simp add: getState_def)
  with run_view_ok[OF assms(1-3)] show ?thesis by (blast elim: view_okD)
qed

lemma stored_instances_ok_witness:
  "\<exists>i. getState sample_engine (run_calls sample_engine sample_calls sample_world) ''d1'' = Some i \<and>
     inst_status i = Completed \<and> instance_ok sample_registry i"
proof -
  obtain i where i: "getState sample_engine (run_calls sample_engine sample_calls sample_world) ''d1'' = Some i"
    and "inst_status i = Completed"
    using sample_run by auto
  with stored_instances_ok[of sample_engine sample_world sample_calls "''d1''" i] sample_registry_wf
  show ?thesis by simp
qed

text \<open>
  C3. Safety across components: when every definition of the registry passes
  \<open>validateLoopDefinition\<close> under its own identifier, no sequence of calls brings an instance
  into a state that its definition does not declare.
\<close>

theorem validated_definitions_declare_states:
  assumes "eng_store eng = memory_ops" "w_store w = ms_empty"
    and registry: "\<forall>l d. eng_registry eng l = Some d \<longrightarrow>
      def_id d = l \<and> vr_valid (validateLoopDefinition d)"
    and "getState eng (run_calls eng cs w) a = Some i"
  shows "\<exists>d. eng_registry eng (inst_loopId i) = Some d \<and> declared d (inst_currentState i)"
proof -
  have wf: "registry_wf (eng_registry eng)"
    using registry by (auto simp: registry_wf_def validateLoopDefinition_valid definition_valid_def)
  have "vw_inst (view_of memory_ops (w_store (run_calls eng cs w))) a = Some i"
    using assms(1,4) by (simp add: getState_def)
  with run_view_ok[OF assms(1) wf assms(2)] have "instance_ok (eng_registry eng) i"
    by (blast elim: view_okD)
  then show ?thesis by (simp add: instance_ok_def split: option.splits)
qed

lemma sample_loop_valid: "vr_valid (validateLoopDefinition sample_loop)"
  by code_simp

lemma validated_definitions_declare_states_witness:
  "\<exists>i. getState sample_engine (run_calls sample_engine sample_calls sample_world) ''d1'' = Some i \<and>
     (\<exists>d. sample_registry (inst_loopId i) = Some d \<and> declared d (inst_currentState i))"
proof -
  obtain i where i: "getState sample_engine (run_calls sample_engine sample_calls sample_world) ''d1'' = Some i"
    using sample_run by auto
  have "\<forall>l d. sample_registry l = Some d \<longrightarrow> def_id d = l \<and> vr_valid (validateLoopDefinition d)"
    using sample_loop_valid by (auto simp: sample_registry_def sample_loop_def)
  with validated_definitions_declare_states[of sample_engine sample_world sample_calls "''d1''" i] i
  show ?thesis by simp
qed

lemma path_walk: "path d s rs s' \<Longrightarrow> walk d s rs"
  by (induction rs arbitrary: s) (auto simp: record_ok_def replay_matches_def list_ex_iff)

text \<open>
  C4. Replay: on the in-memory store, empty at first, with a registry that files each definition
  under its own identifier and whose definitions name only states they declare: as long as no
  aggregate is started twice, the history the engine recorded for an
  aggregate passes \<open>replayLoop\<close> of \<open>packages/observability\<close> for its definition, and the replay
  ends in the current state of the instance.
\<close>

theorem recorded_history_replays:
  assumes "eng_store eng = memory_ops" "registry_wf (eng_registry eng)" "w_store w = ms_empty"
    and "distinct (started_aggregates cs)"
    and "getState eng (run_calls eng cs w) a = Some i" "eng_registry eng (inst_loopId i) = Some d"
  shows "rp_valid (replayLoop d (getHistory eng (run_calls eng cs w) a)) \<and>
    (case rev (getHistory eng (run_calls eng cs w) a) of
       [] \<Rightarrow> inst_currentState i = def_initialState d
     | r # _ \<Rightarrow> inst_currentState i = rec_toState r)"
proof -
  let ?v = "view_of memory_ops (w_store (run_calls eng cs w))"
  let ?h = "getHistory eng (run_calls eng cs w) a"
  have "lifecycle_run (eng_registry eng) (with_outcomes eng cs w) view_empty ?v"
    using mem.run_calls_step[OF assms(1), of cs w] by (simp add: assms(3) mem.view_of_empty)
  from lifecycle_run_replayable[OF this assms(2), of a] assms(1,4-6)
  have path: "path d (def_initialState d) ?h (inst_currentState i)"
    by (auto simp: replayable_def getState_def getHistory_def)
  have "case rev ?h of [] \<Rightarrow> inst_currentState i = def_initialState d
     | r # _ \<Rightarrow> inst_currentState i = rec_toState r"
    using path by (cases ?h rule: rev_cases) (auto simp: path_snoc)
  with path show ?thesis by (simp add: replayLoop_valid path_walk)
qed

lemma recorded_history_replays_witness:
  "rp_valid (replayLoop sample_loop (getHistory sample_engine
     (run_calls sample_engine sample_calls sample_world) ''d1''))"
proof -
  obtain i where i: "getState sample_engine (run_calls sample_engine sample_calls sample_world) ''d1'' = Some i"
    and "inst_status i = Completed"
    using sample_run by auto
  then have "sample_registry (inst_loopId i) = Some sample_loop"
    using run_view_ok[of sample_engine sample_world sample_calls] sample_registry_wf
    by (auto simp: getState_def sample_registry_def elim!: view_okD split: if_splits)
  moreover have "distinct (started_aggregates sample_calls)"
    by (simp add: sample_calls_def)
  ultimately show ?thesis
    using recorded_history_replays[of sample_engine sample_world sample_calls "''d1''" i sample_loop]
      i sample_registry_wf by simp
qed

section \<open>Single calls\<close>

text \<open>
  C5. What an executed transition did: the loop was open and in no final state, the transition
  is the first of that identifier the definition declares from its state, for the type of the
  actor and not one an AI actor needs approval for; afterwards the stored instance is in the target
  state, completed exactly when that state is declared terminal and else with its old status, its
  other fields as before; and the history of the aggregate has one new record at its end, with the
  identifier and signal of the transition, its two states and the actor of the call.
\<close>

theorem executed_transition_effect:
  assumes "eng_store eng = memory_ops" "ms_wf (w_store w)"
    and "transition eng p w = (Inr res, w')" "res_status res = Executed"
  shows "\<exists>inst d t now inst' r.
    getState eng w (tp_aggregateId p) = Some inst \<and> eng_registry eng (inst_loopId inst) = Some d \<and>
    permits d inst p t \<and> t \<in> set (def_transitions d) \<and> res_toState res = Some (tr_to t) \<and>
    getState eng w' (tp_aggregateId p) = Some inst' \<and> instance_moved d t now inst inst' \<and>
    getHistory eng w' (tp_aggregateId p) = getHistory eng w (tp_aggregateId p) @ [r] \<and>
    move_recorded p t now inst r"
  using assms(3)
proof (cases rule: transition_effect)
  case unchanged
  with assms(4) show ?thesis by blast
next
  case (committed d inst t s now evidence)
  then have i: "getInstance memory_ops (w_store w) (tp_aggregateId p) = Some inst"
    and pre: "precheck d inst p = Inr t" and "eng_registry eng (inst_loopId inst) = Some d"
    and store: "w_store w' = saveTransitionRecord memory_ops (record_of inst t p now evidence)
       (saveInstance memory_ops (updated_instance d inst t now) (w_store w))"
    by (simp_all add: transition_commits_def assms(1))
  moreover have keyed: "inst_aggregateId inst = tp_aggregateId p"
    using mem.get_keyed[OF assms(2) i] .
  ultimately show ?thesis
    using precheck_InrD(1)[OF pre] pre committed(2)[OF refl] assms(1) updated_instance_moved[of d t now inst]
      record_of_recorded[OF pre, of now evidence]
    by (intro exI[of _ inst] exI[of _ d] exI[of _ t] exI[of _ now] exI[of _ "updated_instance d inst t now"]
        exI[of _ "record_of inst t p now evidence"])
      (simp add: getState_def getHistory_def precheck_permits ms_basic keyed)
qed

text \<open>A transition of the sample loop that is executed.\<close>

lemma sample_step:
  obtains res w' where
    "transition sample_engine (take_step ''d1'' ''submit'' AiAgent)
       (run_calls sample_engine [CallStart (start_doc ''d1'')] sample_world) = (Inr res, w')"
    "res_status res = Executed" "failure_count res = 1" "res_toState res = Some ''review''"
    "ms_wf (w_store (run_calls sample_engine [CallStart (start_doc ''d1'')] sample_world))"
proof -
  let ?w = "run_calls sample_engine [CallStart (start_doc ''d1'')] sample_world"
  let ?o = "transition sample_engine (take_step ''d1'' ''submit'' AiAgent) ?w"
  have "(case fst ?o of Inl _ \<Rightarrow> False | Inr res \<Rightarrow> res_status res = Executed \<and>
      failure_count res = 1 \<and> res_toState res = Some ''review'')"
    by code_simp
  moreover have "ms_wf (w_store ?w)"
    using mem.run_calls_step[of sample_engine "[CallStart (start_doc ''d1'')]" sample_world]
    by (simp add: ms_basic)
  ultimately show thesis
    using that by (cases ?o) (auto split: sum.splits)
qed

lemma executed_transition_effect_witness:
  "\<exists>w res w' inst' r. transition sample_engine (take_step ''d1'' ''submit'' AiAgent) w = (Inr res, w') \<and>
     res_status res = Executed \<and>
     getState sample_engine w' ''d1'' = Some inst' \<and> inst_currentState inst' = ''review'' \<and>
     getHistory sample_engine w' ''d1'' = getHistory sample_engine w ''d1'' @ [r] \<and> rec_toState r = ''review''"
proof -
  obtain res w' where run: "transition sample_engine (take_step ''d1'' ''submit'' AiAgent)
       (run_calls sample_engine [CallStart (start_doc ''d1'')] sample_world) = (Inr res, w')"
    "res_status res = Executed" "res_toState res = Some ''review''"
    "ms_wf (w_store (run_calls sample_engine [CallStart (start_doc ''d1'')] sample_world))"
    by (rule sample_step)
  have a: "tp_aggregateId (take_step ''d1'' ''submit'' AiAgent) = ''d1''" by (simp add: take_step_def)
  from executed_transition_effect[OF _ run(4,1,2)] obtain inst d t now inst' r where
    "res_toState res = Some (tr_to t)" "getState sample_engine w' ''d1'' = Some inst'"
    "instance_moved d t now inst inst'" "move_recorded (take_step ''d1'' ''submit'' AiAgent) t now inst r"
    "getHistory sample_engine w' ''d1'' =
       getHistory sample_engine (run_calls sample_engine [CallStart (start_doc ''d1'')] sample_world) ''d1'' @ [r]"
    unfolding a by auto
  with run show ?thesis
    by (intro exI[of _ "run_calls sample_engine [CallStart (start_doc ''d1'')] sample_world"]
        exI[of _ res] exI[of _ w'] exI[of _ inst'] exI[of _ r])
      (simp add: instance_moved_def move_recorded_def)
qed

text \<open>
  C6. Safety: a transition is executed only if every hard guard of it was registered, returned a
  result and passed, on the context of this transition and with the clock at the time of the
  check. The recorded evidence is the evidence of the call, property by property, except that
  \<open>_softGuardWarnings\<close> lists identifier and message of every guard that failed softly, in their
  order, when one did (and, where governed evidence is required, \<open>snapshotIds\<close> and \<open>versions\<close>).
\<close>

theorem executed_transition_guards:
  assumes "transition eng p w = (Inr res, w')" "res_status res = Executed"
  shows "\<exists>inst d t n inst' r ev soft.
    getState eng w (tp_aggregateId p) = Some inst \<and> eng_registry eng (inst_loopId inst) = Some d \<and>
    permits d inst p t \<and>
    (\<forall>g \<in> set (guards_of t). guard_severity g = Hard \<longrightarrow>
       guard_passes (eng_host eng) (date_now (eng_env eng) n) (engine_guards eng)
         (guard_context_of inst t p) g) \<and>
    w_store w' = saveTransitionRecord (eng_store eng) r (saveInstance (eng_store eng) inst' (w_store w)) \<and>
    rec_evidence r = Some ev \<and>
    soft = filter (failing (eng_host eng) (date_now (eng_env eng) n) (engine_guards eng)
      (guard_context_of inst t p) Soft) (guards_of t) \<and>
    (\<forall>k. \<not> (governed d t \<and> k \<in> {''snapshotIds'', ''versions''}) \<longrightarrow>
       obj_get ev k =
         (if k = ''_softGuardWarnings'' \<and> soft \<noteq> []
          then JArr (map (guard_warning (eng_host eng) (date_now (eng_env eng) n) (engine_guards eng)
            (guard_context_of inst t p)) soft)
          else opt_get (tp_evidence p) k))"
  using assms(1)
proof (cases rule: transition_effect)
  case unchanged
  with assms(2) show ?thesis by blast
next
  case (committed d inst t s now evidence)
  let ?run = "\<lambda>n. evaluateGuards (eng_host eng) (date_now (eng_env eng) n) (guards_of t)
      (guard_context_of inst t p) (engine_guards eng)"
  from committed(1) obtain n where n: "?run n = Inr s"
    by (auto simp: transition_commits_def guards_checked_def)
  from committed(1) have at: "getState eng w (tp_aggregateId p) = Some inst"
      "eng_registry eng (inst_loopId inst) = Some d" "permits d inst p t" "allPassed s"
    and store: "w_store w' = saveTransitionRecord (eng_store eng) (record_of inst t p now evidence)
      (saveInstance (eng_store eng) (updated_instance d inst t now) (w_store w))"
    and collected: "evidence_collected eng d inst t p s (w_snap w) evidence (w_snap w')"
    by (simp_all add: transition_commits_def getState_def precheck_permits)
  note hard = at(4)[unfolded evaluateGuards_allPassed[OF n]]
  have "rec_evidence (record_of inst t p now evidence) = Some evidence" by simp
  with at(1-3) hard store collected_evidence_get[OF collected n refl] show ?thesis by blast
qed

lemma executed_transition_guards_witness:
  "\<exists>w res w' inst' r ev. transition sample_engine (take_step ''d1'' ''submit'' AiAgent) w = (Inr res, w') \<and>
     w_store w' = saveTransitionRecord memory_ops r (saveInstance memory_ops inst' (w_store w)) \<and>
     rec_evidence r = Some ev \<and> obj_get ev ''note'' = JUndef"
proof -
  let ?w = "run_calls sample_engine [CallStart (start_doc ''d1'')] sample_world"
  obtain res w' where run: "transition sample_engine (take_step ''d1'' ''submit'' AiAgent) ?w = (Inr res, w')"
    "res_status res = Executed" by (rule sample_step)
  have e: "opt_get (tp_evidence (take_step ''d1'' ''submit'' AiAgent)) ''note'' = JUndef"
    by (simp add: take_step_def opt_get_def)
  from executed_transition_guards[OF run] obtain inst' r ev where
    "w_store w' = saveTransitionRecord (eng_store sample_engine) r
       (saveInstance (eng_store sample_engine) inst' (w_store ?w))"
    "rec_evidence r = Some ev" "obj_get ev ''note'' = JUndef"
    by (elim exE conjE) (use e in force)
  with run(1) show ?thesis unfolding sample_engine_sel by blast
qed



text \<open>
  C8. Order of events: with a bus connected, a call of \<open>transition\<close> that returns has handed it,
  in this order: the request, one event for each guard that failed softly and one for each that
  failed hard, with its identifier and severity and each exactly once, in the order of the guards;
  then the blocked event when one failed hard, and else the executed event, followed by the
  completed event exactly when the target is terminal. A call rejected for its governed evidence
  ends after the soft guard events; one whose transition was not permitted emits nothing.
\<close>

theorem transition_event_order:
  assumes "bus_on eng" "transition eng p w = (Inr res, w')"
  shows "\<exists>inst d es. getState eng w (tp_aggregateId p) = Some inst \<and>
    eng_registry eng (inst_loopId inst) = Some d \<and> w_emitted w' = w_emitted w @ es \<and>
    ((\<forall>t. \<not> permits d inst p t) \<and> res_status res \<notin> {Executed, GuardsFailed} \<and> es = [] \<or>
     (\<exists>t. permits d inst p t \<and> attempt_trace eng d inst t p res (map event_mark es)))"
proof -
  obtain inst d es where *: "getInstance (eng_store eng) (w_store w) (tp_aggregateId p) = Some inst"
    "eng_registry eng (inst_loopId inst) = Some d" "w_emitted w' = w_emitted w @ es"
    "case precheck d inst p of Inl res' \<Rightarrow> es = [] \<and> res' = res
     | Inr t \<Rightarrow> attempt_trace eng d inst t p res (map event_mark es)"
    by (rule transition_trace[OF assms])
  show ?thesis
  proof (cases "precheck d inst p")
    case (Inl res')
    with *(4) have "res_status res \<notin> {Executed, GuardsFailed}" "es = []"
      by (auto simp: precheck_def rejected_def Let_def split: if_splits option.splits)
    with * Inl show ?thesis by (auto simp: getState_def simp flip: precheck_permits)
  next
    case (Inr t)
    with * show ?thesis by (auto simp: getState_def precheck_permits)
  qed
qed

lemma transition_event_order_witness:
  "\<exists>w res w' d inst t es. transition sample_engine (take_step ''d1'' ''submit'' AiAgent) w = (Inr res, w') \<and>
     res_status res = Executed \<and> w_emitted w' = w_emitted w @ es \<and>
     attempt_trace sample_engine d inst t (take_step ''d1'' ''submit'' AiAgent) res (map event_mark es)"
proof -
  obtain res w' where run: "transition sample_engine (take_step ''d1'' ''submit'' AiAgent)
       (run_calls sample_engine [CallStart (start_doc ''d1'')] sample_world) = (Inr res, w')"
    "res_status res = Executed" by (rule sample_step)
  have "bus_on sample_engine" by simp
  from transition_event_order[OF this run(1)] run show ?thesis by blast
qed

text \<open>
  C9. Frame: a call about one aggregate leaves the instance and the history of every other
  aggregate as they were.
\<close>

theorem calls_leave_other_aggregates:
  assumes "eng_store eng = memory_ops" "ms_wf (w_store w)" "a \<noteq> call_aggregate c"
  shows "getState eng (engine_call eng c w) a = getState eng w a \<and>
    getHistory eng (engine_call eng c w) a = getHistory eng w a"
  using lifecycle_frame[OF mem.call_step(1)[OF assms(1), of c w] _ assms(3)]
    mem.get_keyed[OF assms(2)] assms(1)
  by (simp add: getState_def getHistory_def)

lemma calls_leave_other_aggregates_witness:
  "getState sample_engine (engine_call sample_engine (CallStart (start_doc ''d2''))
     sample_world) ''d1'' = getState sample_engine sample_world ''d1''"
proof -
  have "''d1'' \<noteq> call_aggregate (CallStart (start_doc ''d2''))" by (simp add: start_doc_def)
  with calls_leave_other_aggregates[of sample_engine sample_world "''d1''" "CallStart (start_doc ''d2'')"]
  show ?thesis by (simp add: ms_basic)
qed

text \<open>
  A completed instance is closed: every transition on it is rejected as \<open>loop_closed\<close>, and
  the call changes nothing and emits nothing.
\<close>

theorem completed_instance_rejects:
  assumes "getState eng w (tp_aggregateId p) = Some inst" "inst_status inst = Completed"
    "eng_registry eng (inst_loopId inst) = Some d"
  shows "transition eng p w = (Inr (rejected inst ''loop_closed''), w)"
  using assms by (simp add: transition_def getState_def precheck_def)

lemma completed_instance_rejects_witness:
  "\<exists>inst. transition sample_engine (take_step ''d1'' ''submit'' Human)
     (run_calls sample_engine sample_calls sample_world) =
     (Inr (rejected inst ''loop_closed''), run_calls sample_engine sample_calls sample_world)"
proof -
  let ?w = "run_calls sample_engine sample_calls sample_world"
  obtain i where i: "getState sample_engine ?w ''d1'' = Some i" "inst_status i = Completed"
    using sample_run by auto
  then have "sample_registry (inst_loopId i) = Some sample_loop"
    using run_view_ok[of sample_engine sample_world sample_calls] sample_registry_wf
    by (auto simp: getState_def sample_registry_def elim!: view_okD split: if_splits)
  moreover have a: "tp_aggregateId (take_step ''d1'' ''submit'' Human) = ''d1''" by (simp add: take_step_def)
  ultimately show ?thesis
    using completed_instance_rejects[of sample_engine ?w "take_step ''d1'' ''submit'' Human" i sample_loop] i
    by auto
qed

text \<open>
  C11. At most one active run: \<open>start\<close> for an aggregate whose instance is active throws and
  changes nothing; otherwise, for a registered loop, it stores exactly the initial instance,
  also when the started event then cannot be built or the bus rejects it.
\<close>

theorem start_requires_inactive:
  assumes "eng_store eng = memory_ops"
  shows "(case getState eng w (sp_aggregateId p) of
       Some i \<Rightarrow> inst_status i = Active \<longrightarrow> (\<exists>e. fst (start eng p w) = Inl e) \<and> snd (start eng p w) = w
     | None \<Rightarrow> True) \<and>
    (\<forall>d. eng_registry eng (sp_loopId p) = Some d \<longrightarrow>
       (\<forall>i. getState eng w (sp_aggregateId p) = Some i \<longrightarrow> inst_status i \<noteq> Active) \<longrightarrow>
       (\<exists>now. getState eng (snd (start eng p w)) (sp_aggregateId p) = Some (initial_instance d p now)))"
proof -
  have active: "(\<exists>e. fst (start eng p w) = Inl e) \<and> snd (start eng p w) = w"
    if "getState eng w (sp_aggregateId p) = Some i" "inst_status i = Active" for i
    using that assms by (auto simp: start_def getState_def split: option.splits)
  have "\<exists>now. getState eng (snd (start eng p w)) (sp_aggregateId p) = Some (initial_instance d p now)"
    if d: "eng_registry eng (sp_loopId p) = Some d"
      and free: "\<forall>i. getState eng w (sp_aggregateId p) = Some i \<longrightarrow> inst_status i \<noteq> Active" for d
  proof -
    obtain now where "w_store (snd (start eng p w)) = ms_saveInstance (initial_instance d p now) (w_store w)"
      using start_saves[OF d] free unfolding getState_def assms by auto
    then show ?thesis using assms by (auto simp: getState_def ms_basic)
  qed
  with active show ?thesis by (auto split: option.splits)
qed

lemma start_requires_inactive_witness:
  "\<exists>now. getState sample_engine (snd (start sample_engine (start_doc ''d1'') sample_world)) ''d1'' =
     Some (initial_instance sample_loop (start_doc ''d1'') now)"
proof -
  have "getState sample_engine sample_world (sp_aggregateId (start_doc ''d1'')) = None"
    by (simp add: getState_def ms_basic)
  with start_requires_inactive[where eng = sample_engine and w = sample_world and p = "start_doc ''d1''"]
  show ?thesis by (simp add: start_doc_def sample_registry_def)
qed

text \<open>
  C12. AI actors: a transition on the caller's approval list is never executed for an AI actor;
  the call returns \<open>pending_approval\<close> or a rejection, changes no state and emits nothing.
\<close>

theorem ai_actor_needs_approval:
  assumes "getState eng w (tp_aggregateId p) = Some inst" "eng_registry eng (inst_loopId inst) = Some d"
    "actor_type (tp_actor p) = AiAgent" "tp_transitionId p \<in> approval_list (tp_constraints p)"
  shows "\<exists>res. transition eng p w = (Inr res, w) \<and> res_status res \<in> {PendingApproval, Rejected}"
proof -
  have "\<exists>res. precheck d inst p = Inl res \<and> res_status res \<in> {PendingApproval, Rejected}"
  proof (cases "precheck d inst p")
    case (Inl res)
    then show ?thesis
      by (auto simp: precheck_def rejected_def Let_def split: if_splits option.splits)
  next
    case (Inr t)
    then have "tr_id t = tp_transitionId p" by (rule precheck_InrD)
    with Inr assms(3,4) show ?thesis by (simp add: precheck_Inr)
  qed
  with assms(1,2) show ?thesis by (auto simp: transition_def getState_def)
qed

lemma ai_actor_needs_approval_witness:
  "\<exists>w p res. transition sample_engine p w = (Inr res, w) \<and>
     res_status res \<in> {PendingApproval, Rejected} \<and> actor_type (tp_actor p) = AiAgent \<and>
     getState sample_engine w (tp_aggregateId p) \<noteq> None"
proof -
  let ?w = "run_calls sample_engine [CallStart (start_doc ''d1'')] sample_world"
  let ?p = "take_step ''d1'' ''submit'' AiAgent\<lparr>tp_constraints := Some \<lparr>requiresHumanApprovalFor = Some [''submit'']\<rparr>\<rparr>"
  have "map_option inst_loopId (getState sample_engine ?w ''d1'') = Some ''doc.approval''" by code_simp
  then obtain i where "getState sample_engine ?w ''d1'' = Some i" "inst_loopId i = ''doc.approval''" by auto
  then have "getState sample_engine ?w (tp_aggregateId ?p) = Some i"
    "eng_registry sample_engine (inst_loopId i) = Some sample_loop"
    "actor_type (tp_actor ?p) = AiAgent" "tp_transitionId ?p \<in> approval_list (tp_constraints ?p)"
    by (simp_all add: take_step_def sample_registry_def actor_def approval_list_def)
  with ai_actor_needs_approval[of sample_engine ?w ?p i sample_loop] show ?thesis by blast
qed

text \<open>
  A defect: cancelling does not close a loop. Of the instances with a closing status only
  completed ones are rejected, so the sample loop, cancelled in review, is then approved: the
  transition executes and the status goes from cancelled to completed.
\<close>

theorem cancelled_loop_completes:
  "let w = run_calls sample_engine
       [CallStart (start_doc ''d1''), CallTransition (take_step ''d1'' ''submit'' Human),
        CallCancel ''d1'' (actor ''ann'' Human) None] sample_world;
     w' = engine_call sample_engine (CallTransition (take_step ''d1'' ''approve'' Human)) w
   in map_option inst_status (getState sample_engine w ''d1'') = Some Cancelled \<and>
      map_option inst_status (getState sample_engine w' ''d1'') = Some Completed"
  unfolding Let_def by (rule conjI; code_simp)

section \<open>Governed evidence and guards\<close>

text \<open>
  C14. Governed transitions: when a governed transition is executed, the caller supplied a
  non-empty list of well-formed snapshots with different keys, the snapshot store inserted one
  row for each, with the hash of its canonical values (equal to the caller's hash if there was
  one), and the recorded evidence refers to the identifiers the store gave.
\<close>

theorem governed_transition_snapshots:
  assumes "transition eng p w = (Inr res, w')" "res_status res = Executed"
    and "getState eng w (tp_aggregateId p) = Some inst" "eng_registry eng (inst_loopId inst) = Some d"
    and "precheck d inst p = Inr t" "governed d t"
  shows "\<exists>ss ins rows ids n now ev.
    tp_evidenceSnapshots p = JArr ss \<and> ss \<noteq> [] \<and> (\<forall>s \<in> set ss. snapshot_well_formed (eng_host eng) s) \<and>
    distinct (map snapshot_key ss) \<and> eng_snapshotStore eng = Some ins \<and>
    ins (tenant_of (eng_host eng) inst p) (tp_aggregateId p) rows (w_snap w) = (Inr ids, w_snap w') \<and>
    length rows = length ss \<and>
    (\<forall>i < length ss. persisted_of (eng_host eng) (eng_sha256 eng) (ss ! i)
       (uuid (eng_env eng) (n + i)) (rows ! i)) \<and>
    w_store w' = saveTransitionRecord (eng_store eng) (record_of inst t p now ev)
      (saveInstance (eng_store eng) (updated_instance d inst t now) (w_store w)) \<and>
    obj_get ev ''snapshotIds'' = JArr (map JStr ids)"
  using assms(1)
proof (cases rule: transition_effect)
  case unchanged
  with assms(2) show ?thesis by blast
next
  case (committed d' inst' t' s now evidence)
  with assms(3-5) have same: "d' = d" "inst' = inst" "t' = t"
    by (auto simp: transition_commits_def getState_def)
  from committed(1) assms(6) obtain n ids rows where
    commit: "commitGovernedEvidenceSnapshots (eng_host eng) (eng_sha256 eng) (uuid (eng_env eng)) n
      (eng_snapshotStore eng) (tenant_of (eng_host eng) inst p) (tp_aggregateId p)
      (tp_evidenceSnapshots p) (w_snap w) = (Inr (CommitOk ids rows), w_snap w')"
    and ev: "obj_get evidence ''snapshotIds'' = JArr (map JStr ids)"
    by (auto simp: transition_commits_def evidence_collected_def same Let_def obj_simps)
  from commit obtain ss ins where ss: "tp_evidenceSnapshots p = JArr ss" "ss \<noteq> []"
    "\<forall>s \<in> set ss. snapshot_well_formed (eng_host eng) s" "distinct (map snapshot_key ss)"
    "eng_snapshotStore eng = Some ins"
    "ins (tenant_of (eng_host eng) inst p) (tp_aggregateId p) rows (w_snap w) = (Inr ids, w_snap w')"
    "hash_snapshots (eng_host eng) (eng_sha256 eng) (uuid (eng_env eng)) n ss = Inr rows"
    by (rule commit_ok)
  have "w_store w' = saveTransitionRecord (eng_store eng) (record_of inst t p now evidence)
      (saveInstance (eng_store eng) (updated_instance d inst t now) (w_store w))"
    using committed(1) by (simp add: transition_commits_def same)
  with ss ev hash_snapshots_Inr[OF ss(7)] show ?thesis by blast
qed

lemma governed_transition_snapshots_witness:
  "\<exists>ss. tp_evidenceSnapshots governed_step = JArr ss \<and> ss \<noteq> [] \<and> distinct (map snapshot_key ss)"
proof -
  let ?w = "run_calls governed_engine [CallStart (start_doc ''d1'')] sample_world"
  obtain res w' where run: "transition governed_engine governed_step ?w = (Inr res, w')"
    "res_status res = Executed"
    using governed_run by (cases "transition governed_engine governed_step ?w") (auto split: sum.splits)
  from run(1) obtain d inst t where c: "getState governed_engine ?w (tp_aggregateId governed_step) = Some inst"
    "eng_registry governed_engine (inst_loopId inst) = Some d" "precheck d inst governed_step = Inr t"
  proof (cases rule: transition_effect)
    case unchanged
    with run(2) show ?thesis by blast
  next
    case (committed d inst t s now evidence)
    with that show ?thesis by (auto simp: transition_commits_def getState_def)
  qed
  then have "governed d t"
    by (auto simp: governed_engine_def governed_def requiresGovernedEvidence_def opt_get_def split: if_splits)
  from governed_transition_snapshots[OF run c this] show ?thesis by blast
qed

text \<open>
  The snapshot store is written only with a validated batch: unless all snapshots are
  present, well formed, with different keys and canonical values matching any supplied hash,
  \<open>commitGovernedEvidenceSnapshots\<close> leaves the store as it was.
\<close>

theorem snapshot_store_written_only_if_valid:
  assumes "commitGovernedEvidenceSnapshots h sha newId n store tid aid v p = (r, p')" "p' \<noteq> p"
  shows "\<exists>ss rows ins. v = JArr ss \<and> ss \<noteq> [] \<and> (\<forall>s \<in> set ss. snapshot_well_formed h s) \<and>
    distinct (map snapshot_key ss) \<and> store = Some ins \<and> p' = snd (ins tid aid rows p) \<and>
    length rows = length ss \<and> (\<forall>i < length ss. persisted_of h sha (ss ! i) (newId (n + i)) (rows ! i))"
proof -
  from assms have present: "validateGovernedEvidencePresent v = []"
    and batch: "validateEvidenceSnapshotCommitBatch h v = []"
    by (auto simp: commitGovernedEvidenceSnapshots_def split: list.splits)
  from present obtain s ss where v: "v = JArr (s # ss)"
    by (auto simp: validateGovernedEvidencePresent_ok)
  from assms present batch obtain ins rows where
    "hash_snapshots h sha newId n (s # ss) = Inr rows" "store = Some ins" "p' = snd (ins tid aid rows p)"
    by (auto simp: commitGovernedEvidenceSnapshots_def v split: sum.splits option.splits prod.splits)
  with hash_snapshots_Inr[of h sha newId n "s # ss" rows] batch show ?thesis
    by (auto simp: validateEvidenceSnapshotCommitBatch_ok v)
qed

lemma snapshot_store_written_only_if_valid_witness:
  "\<exists>ss. JArr [sample_snapshot] = JArr ss \<and> (\<forall>s \<in> set ss. snapshot_well_formed sample_host s)"
proof -
  let ?c = "commitGovernedEvidenceSnapshots sample_host (\<lambda>_. ''hash'') (\<lambda>_. ''id'') 0
    (Some (\<lambda>tenant aggregate rows p. (Inr [], Suc p))) ''t'' ''a'' (JArr [sample_snapshot]) (0::nat)"
  have "snd ?c = 1" by code_simp
  moreover obtain r p' where c: "?c = (r, p')" by fastforce
  ultimately have "p' \<noteq> 0" by simp
  from snapshot_store_written_only_if_valid[OF c this] show ?thesis by blast
qed

text \<open>
  The guard pipeline: when \<open>evaluateGuards\<close> returns, every guard was registered and
  returned; the hard and the soft failures are the evaluations of exactly the failing guards of
  that severity, in order, and the verdict is that no hard guard failed.
\<close>

theorem guard_pipeline_summary:
  assumes "evaluateGuards h now gs ctx reg = Inr s"
  shows "(\<forall>g \<in> set gs. guard_outcome h now reg ctx g \<noteq> None) \<and>
    map ge_guardId (hardFailures s) = map guard_id (filter (failing h now reg ctx Hard) gs) \<and>
    map ge_guardId (softFailures s) = map guard_id (filter (failing h now reg ctx Soft) gs) \<and>
    (allPassed s \<longleftrightarrow> (\<forall>g \<in> set gs. guard_severity g = Hard \<longrightarrow> guard_passes h now reg ctx g))"
  using evaluateGuards_outcomes[OF assms]
  by (auto simp: evaluateGuards_hard[OF assms] evaluateGuards_soft[OF assms]
      evaluateGuards_allPassed[OF assms] guard_evaluation_of_def)

definition sample_context :: "actor_type \<Rightarrow> guard_context" where
  "sample_context ty =
     \<lparr>gc_actor = actor ''bob'' ty, gc_loopId = ''doc.approval'', gc_aggregateId = ''d1'',
      gc_fromState = ''draft'', gc_toState = ''review'', gc_signal = ''submit'',
      gc_evidence = None, gc_loopData = None\<rparr>"

lemma guard_pipeline_summary_witness:
  "\<exists>s. evaluateGuards sample_host 0 [sample_guard ''human-only'' Hard] (sample_context AiAgent)
       defaultRegistry = Inr s \<and> \<not> allPassed s \<and> map ge_guardId (hardFailures s) = [''human-only'']"
proof -
  let ?gs = "[sample_guard ''human-only'' Hard]" and ?ctx = "sample_context AiAgent"
  have fails: "failing sample_host 0 defaultRegistry ?ctx Hard (sample_guard ''human-only'' Hard)"
    by code_simp
  have "case evaluateGuards sample_host 0 ?gs ?ctx defaultRegistry of Inl _ \<Rightarrow> False | Inr _ \<Rightarrow> True"
    by code_simp
  then obtain s where s: "evaluateGuards sample_host 0 ?gs ?ctx defaultRegistry = Inr s"
    by (auto split: sum.splits)
  from guard_pipeline_summary[OF s] fails s show ?thesis
    by (auto simp: failing_def sample_guard_def)
qed

text \<open>
  A defect: a soft guard that fails without a message blocks the transition. The pipeline
  replaces the missing message by the empty string, which the schema of the guard event rejects,
  so \<open>transition\<close> throws instead of warning.
\<close>

theorem silent_soft_guard_throws:
  "let w = run_calls silent_engine [CallStart (start_doc ''d1'')] sample_world;
     o' = transition silent_engine (take_step ''d1'' ''submit'' Human) w
   in fst o' = Inl (ZodError ''loop.guard.failed'') \<and>
      map_option inst_currentState (getState silent_engine (snd o') ''d1'') = Some ''draft''"
  unfolding Let_def by (rule conjI; code_simp)

section \<open>Loop definitions\<close>

text \<open>
  C18. The validator accepts exactly the valid definitions: all states named are declared, the
  guards of each transition have different identifiers, a terminal state is reachable from the
  initial one and some transition enters one, no two transitions with one signal lead back and
  forth, and an outcome has metrics.
\<close>

theorem validator_accepts_valid:
  "vr_valid (validateLoopDefinition d) \<longleftrightarrow> definition_valid d"
  by (rule validateLoopDefinition_valid)

text \<open>
  C19. The breadth-first search terminates and answers whether a path of transitions leads from
  the initial state to one of the given states.
\<close>

theorem path_search_correct:
  "hasPathToTerminal d T \<longleftrightarrow> (\<exists>t \<in> T. (def_initialState d, t) \<in> (edges d)\<^sup>*)"
  by (rule hasPathToTerminal_iff)

text \<open>
  C20. \<open>LoopBuilder.build\<close> returns a definition exactly when it is the one the calls described,
  it is valid, every transition lists an actor and version and description are not empty; and it
  throws otherwise. Described means on every field: identifier, version, description, initial state,
  domain and tag, the given name or the one derived from the identifier, each state with its flags
  and its label, each transition with its states, actors and guards and its identifier as signal,
  the outcome, and nothing else.
\<close>

theorem builder_builds_valid:
  "build zodText b = Inr d \<longleftrightarrow>
     built_from b d \<and> definition_valid d \<and> (\<forall>t \<in> set (lb_transitions b). bt_actors t \<noteq> []) \<and>
     lb_version b \<noteq> Some [] \<and> lb_description b \<noteq> Some []"
  by (rule build_iff)

definition sample_builder :: loop_builder where
  "sample_builder =
     builder_transition \<lparr>bt_id = ''approve'', bt_from = ''draft'', bt_to = ''approved'',
         bt_actors = [Human], bt_guards = None\<rparr>
     (builder_initialState ''draft''
     (builder_state \<lparr>si_id = ''approved'', si_isTerminal = Some True, si_isError = None\<rparr>
     (builder_state \<lparr>si_id = ''draft'', si_isTerminal = None, si_isError = None\<rparr>
     (builder_description ''approval'' (builder_version ''1.0.0''
     (builder_create ''doc.approval-loop'' ''doc''))))))"

lemma sample_builder_builds: "case build (\<lambda>_. []) sample_builder of
    Inl _ \<Rightarrow> False | Inr d \<Rightarrow> def_name d = ''Approval Loop''"
  by code_simp

lemma builder_builds_valid_witness:
  "\<exists>d. build (\<lambda>_. []) sample_builder = Inr d \<and> definition_valid d \<and> built_from sample_builder d"
proof -
  obtain d where "build (\<lambda>_. []) sample_builder = Inr d"
    using sample_builder_builds by (auto split: sum.splits)
  with builder_builds_valid[of "\<lambda>_. []" sample_builder d] show ?thesis by blast
qed

text \<open>
  C21. Round trip: a definition whose transitions all list an actor, serialized and parsed again,
  comes back as it was, except that its \<open>metadata\<close> is lost (so \<open>governedEvidence\<close> is, too) and an
  empty domain becomes none. The hypothesis is that the text format reads back the object it
  wrote, without its undefined properties.
\<close>

theorem serialize_parse_roundtrip:
  assumes "\<forall>t \<in> set (def_transitions d). tr_actors t \<noteq> []"
    and "parse (stringify (JObj (buildCanonical d))) = Inr (JObj (defined_props (buildCanonical d)))"
  shows "parseLoopJson msg parse (serializeLoopJson stringify d) = Inr (as_authored (canonical_part d)) \<and>
    parseLoopYaml msg parse (serializeLoopYaml stringify d) = Inr (as_authored (canonical_part d)) \<and>
    parseLoopYamlSafe msg parse (serializeLoopYaml stringify d) = Inr (as_authored (canonical_part d))"
  using parse_loop_canonical[where parse = parse and stringify = stringify, OF assms]
  by (simp add: parseLoopJson_def parseLoopYaml_def parseLoopYamlSafe_def serializeLoopJson_def
      serializeLoopYaml_def)

lemma serialize_parse_roundtrip_witness:
  "\<exists>parse. parseLoopJson (\<lambda>_. []) parse (serializeLoopJson (\<lambda>_. ''text'')
     (sample_loop\<lparr>def_metadata := Some [(''governedEvidence'', JBool True)]\<rparr>)) =
     Inr (as_authored sample_loop)"
proof -
  let ?d = "sample_loop\<lparr>def_metadata := Some [(''governedEvidence'', JBool True)]\<rparr>"
  let ?parse = "\<lambda>_::string. Inr (JObj (defined_props (buildCanonical ?d))) :: string + js"
  have "\<forall>t \<in> set (def_transitions ?d). tr_actors t \<noteq> []"
    by (simp add: sample_loop_def submit_def approve_def)
  from serialize_parse_roundtrip[OF this, of ?parse "\<lambda>_. ''text''" "\<lambda>_. []"]
  have "parseLoopJson (\<lambda>_. []) ?parse (serializeLoopJson (\<lambda>_. ''text'') ?d) =
      Inr (as_authored (canonical_part ?d))" by simp
  moreover have "canonical_part ?d = sample_loop"
    by (simp add: canonical_part_def sample_loop_def)
  ultimately show ?thesis by auto
qed

text \<open>
  Authoring defaults: filling the missing signals is idempotent, changes exactly the
  definitions that lack one, and does not change what the schema makes of the definition.
\<close>

theorem authoring_defaults_idempotent:
  "applyAuthoringDefaults (applyAuthoringDefaults d) = applyAuthoringDefaults d \<and>
   (applyAuthoringDefaults d = d \<longleftrightarrow> list_all (\<lambda>t. tr_signal t \<noteq> None) (def_transitions d)) \<and>
   transform_definition (applyAuthoringDefaults d) = transform_definition d"
  by (simp only: applyAuthoringDefaults_unchanged)
    (simp add: applyAuthoringDefaults_alt default_signal_fills default_signal_idem
      transform_definition_def transform_default comp_def list_all_iff del: not_None_eq)

section \<open>Canonical JSON, redaction, snapshots\<close>

text \<open>
  \<open>canonicalize\<close> returns exactly for the values with a canonical form (well-formed strings,
  finite numbers, safe integers, nothing undefined) and throws for all others.
\<close>

theorem canonicalize_domain:
  "(\<exists>t. canonicalize h v = Inr t) \<longleftrightarrow> canonicalizable v"
  by (simp add: canonicalize_Inr_iff)

text \<open>
  C24. The canonical text, and with it the hash, does not depend on the order in which the
  properties of objects were written, at any depth.
\<close>

theorem canonicalize_ignores_property_order:
  assumes "obj_equiv v w" "canonicalizable v"
  shows "canonicalize h v = canonicalize h w \<and> sha256CanonicalHex h sha v = sha256CanonicalHex h sha w"
  using assms obj_equiv_canonicalizable[OF assms(1)] obj_equiv_serialize[OF assms(1), of h]
  by (simp add: canonicalize_eq sha256CanonicalHex_def)

lemma canonicalize_ignores_property_order_witness:
  "canonicalize sample_host (JObj [([97], JBool True), ([98], JNull)]) =
   canonicalize sample_host (JObj [([98], JNull), ([97], JBool True)])"
proof -
  have "obj_equiv (JObj [([97], JBool True), ([98], JNull)]) (JObj [([98], JNull), ([97], JBool True)] :: ujs)"
    by (rule obj_equiv.obj) (auto intro: obj_equiv.atom)
  from canonicalize_ignores_property_order[OF this] show ?thesis by simp
qed

text \<open>
  Redaction: after \<open>guardEvidence\<close> no property whose name is on the strip list (compared
  without case) is left at any depth, and every string left is a string of the payload after all
  mask patterns.
\<close>

theorem redaction_removes_fields:
  "js_keys (guardEvidence (Some opts) v) \<subseteq> {k \<in> js_keys v. normalizeKey k \<notin> strip_set opts} \<and>
   js_strings (guardEvidence (Some opts) v) \<subseteq>
     (\<lambda>s. fold (\<lambda>m t. m t) (maskPatterns opts) s) ` js_strings v \<and>
   guardEvidence None v = v"
  using guard_walk_keys[of opts v] guard_walk_strings[of opts v] guard_walk_no_options[of v]
  by (simp add: guardEvidence_def)

text \<open>
  A batch of snapshots passes validation exactly when it is a list of well-formed snapshots
  with pairwise different keys.
\<close>

theorem snapshot_batch_validation:
  "validateEvidenceSnapshotCommitBatch h v = [] \<longleftrightarrow>
     (\<exists>ss. v = JArr ss \<and> list_all (snapshot_well_formed h) ss \<and> distinct (map snapshot_key ss))"
  by (simp add: validateEvidenceSnapshotCommitBatch_ok list_all_iff)

section \<open>Canon policies\<close>

text \<open>
  C27. A policy is satisfied exactly when every role it requires has a snapshot whose provenance
  and definition reach the required rungs (a definition that is not applicable always does),
  whose age is within the bound and whose provider conforms where that is required; and a role
  lists failures, all about itself, exactly when it is not satisfied.
\<close>

theorem policy_satisfied_iff:
  "(pr_satisfied (evaluateCanonPolicy h policy snaps) \<longleftrightarrow>
     (\<forall>r \<in> set (pol_requiresEvidence policy).
        \<exists>input. map_of snaps (rr_role r) = Some input \<and> role_satisfied h r input)) \<and>
   (\<forall>rl \<in> set (pr_roles (evaluateCanonPolicy h policy snaps)).
      (rl_satisfied rl \<longleftrightarrow> rl_failures rl = []) \<and> (\<forall>f \<in> set (rl_failures rl). cf_role f = rl_role rl))"
proof -
  have "rl_role (evaluate_role h snaps r) = rr_role r" for r
    by (simp add: evaluate_role_def evaluateRoleRequirement_def Let_def split: option.splits)
  then show ?thesis
    by (auto simp: evaluateCanonPolicy_def Let_def list_all_iff evaluate_role_satisfied
        simp flip: evaluate_role_failures dest: evaluate_role_names)
qed

lemma policy_satisfied_iff_witness:
  "\<not> pr_satisfied (evaluateCanonPolicy sample_host
     \<lparr>pol_decisionSystem = ''ds'', pol_requiresEvidence =
       [\<lparr>rr_role = ''price'', rr_provenance = Some SystemAttested, rr_definition = None,
         rr_freshness = None, rr_requiresConformantProvider = None\<rparr>]\<rparr> [])"
  by (subst policy_satisfied_iff[THEN conjunct1]) simp

text \<open>
  Monotonicity: replacing the qualification of a snapshot by a better one (higher rungs, the
  same freshness, \<open>not-applicable\<close> not exchanged for a rung) keeps a satisfied role satisfied.
\<close>

theorem better_qualification_keeps_role:
  assumes "rl_satisfied (evaluateRoleRequirement h r input)"
    "at_least q (ri_qualification input)"
  shows "rl_satisfied (evaluateRoleRequirement h r (input\<lparr>ri_qualification := q\<rparr>))"
  using assms role_satisfied_mono by (simp add: evaluateRoleRequirement_satisfied)

definition sample_input :: "provenance_rung \<Rightarrow> role_input" where
  "sample_input prov =
     \<lparr>ri_role = ''price'', ri_qualification = \<lparr>q_provenance = prov, q_definition = Certified,
        q_freshness = FreshnessNotApplicable\<rparr>, ri_providerId = None,
      ri_conformanceSuiteVersion = None, ri_providerConformant = None, ri_evaluatedAt = None\<rparr>"

definition sample_requirement :: role_requirement where
  "sample_requirement =
     \<lparr>rr_role = ''price'', rr_provenance = Some SystemAttested, rr_definition = Some Unreviewed,
      rr_freshness = None, rr_requiresConformantProvider = None\<rparr>"

lemma better_qualification_keeps_role_witness:
  "rl_satisfied (evaluateRoleRequirement sample_host sample_requirement
     (sample_input SystemAttested\<lparr>ri_qualification := ri_qualification (sample_input OriginAttested)\<rparr>))"
  by (rule better_qualification_keeps_role) code_simp+

section \<open>Observability\<close>

text \<open>
  Metrics: the completion, AI and human rates lie between 0 and 1, the last two sum to at
  most 1; the median is at most the 95th percentile, and both are one of the positive durations
  when there is any.
\<close>

theorem metrics_bounds:
  "let m = computeMetrics h instances history;
       durations = List.map_filter (positive_duration h) instances
   in 0 \<le> mt_completionRate m \<and> mt_completionRate m \<le> 1 \<and>
      0 \<le> mt_aiActorRate m \<and> 0 \<le> mt_humanActorRate m \<and>
      mt_aiActorRate m + mt_humanActorRate m \<le> 1 \<and>
      mt_medianDurationMs m \<le> mt_p95DurationMs m \<and>
      (durations \<noteq> [] \<longrightarrow> mt_medianDurationMs m \<in> set durations \<and>
         mt_p95DurationMs m \<in> set durations \<and> 0 < mt_medianDurationMs m)"
proof -
  let ?ai = "count_if (\<lambda>r. actor_type (rec_actor r) = AiAgent) history"
  let ?hu = "count_if (\<lambda>r. actor_type (rec_actor r) = Human) history"
  have sum: "?ai + ?hu \<le> length history"
    by (rule count_disjoint) simp
  have rates: "ratio ?ai (length history) + ratio ?hu (length history) \<le> 1"
  proof (cases "history = []")
    case False
    then have "ratio ?ai (length history) + ratio ?hu (length history) =
        ratio (?ai + ?hu) (length history)"
      by (simp add: ratio_def add_divide_distrib)
    with ratio_bounds[OF sum] show ?thesis by simp
  qed (simp add: ratio_def)
  have positive: "0 < percentile (List.map_filter (positive_duration h) instances) 50"
    if "List.map_filter (positive_duration h) instances \<noteq> []"
    using percentile_member[OF that, of 50] positive_durations_pos by auto
  show ?thesis
    unfolding computeMetrics_def Let_def
    using rates ratio_bounds[OF count_le] ratio_bounds[OF le_add1] percentile_mono[of 50 95]
      percentile_member[of "List.map_filter (positive_duration h) instances"] positive
    by (simp add: ratio_bounds count_le)
qed

lemma metrics_bounds_witness:
  "mt_medianDurationMs (computeMetrics sample_host [] []) \<le> mt_p95DurationMs (computeMetrics sample_host [] [])"
  using metrics_bounds[of sample_host "[]" "[]"] by (simp add: Let_def)

text \<open>
  State residency of an instance: one entry more than transitions, without gaps. The first
  entry names the current state of the instance and the others the targets of the transitions, so
  it is only right when the instance has no history (a defect: the first stay was in the initial
  state).
\<close>

theorem residency_contiguous:
  "let tl' = buildTimeline h o' now i history in
   contiguous (getStateResidency h tl') \<and>
   map sr_stateId (getStateResidency h tl') =
     inst_currentState i # map rec_toState (tl_transitions tl')"
  by (simp add: getStateResidency_def residencies_contiguous residencies_states buildTimeline_def Let_def)

text \<open>
  The in-memory trace store keeps every record of a run, ordered by sequence number, and
  gives exactly the sorted records when the numbers differ; the summary of a run counts its
  records and its blocked records and is governed when one of them is.
\<close>

theorem trace_store_keeps_records:
  "mset (mt_getRunTrace (write_each mt_write mt_empty rs) run) =
     mset (filter (\<lambda>r. tc_loopRunId r = run) rs) \<and>
   sorted (map tc_sequence (mt_getRunTrace (write_each mt_write mt_empty rs) run)) \<and>
   (distinct (map tc_sequence (filter (\<lambda>r. tc_loopRunId r = run) rs)) \<longrightarrow>
      mt_getRunTrace (write_each mt_write mt_empty rs) run =
        sort_key tc_sequence (filter (\<lambda>r. tc_loopRunId r = run) rs)) \<and>
   summary_ok (write_each mt_write mt_empty rs) run"
  using mt.trace_write_all mt.trace_write_all_sorted mt.trace_write_all_order summary_ok_write_each
  by blast

lemma trace_store_keeps_records_witness:
  "mt_getRunTrace (write_each mt_write mt_empty []) ''run'' = []"
  using trace_store_keeps_records[of "[]" "''run''"] by simp

text \<open>
  Comparing two runs: the divergence point is the first sequence number at which the kind,
  the target state or the blocking differs, and none exactly when they agree everywhere; the
  comparison is symmetric.
\<close>

theorem compare_runs_divergence:
  assumes "mt_compareRuns t a b = Inr cmp"
  shows "(\<forall>sq. rc_divergencePoint cmp = Some sq \<longleftrightarrow>
      0 \<le> sq \<and> differs (mt_getRunTrace t a) (mt_getRunTrace t b) sq \<and>
      (\<forall>m. 0 \<le> m \<and> m < sq \<longrightarrow> \<not> differs (mt_getRunTrace t a) (mt_getRunTrace t b) m)) \<and>
    (rc_divergencePoint cmp = None \<longleftrightarrow>
      (\<forall>m. 0 \<le> m \<longrightarrow> \<not> differs (mt_getRunTrace t a) (mt_getRunTrace t b) m)) \<and>
    (\<exists>cmp'. mt_compareRuns t b a = Inr cmp' \<and> rc_divergencePoint cmp' = rc_divergencePoint cmp)"
  using mt_compareRuns_divergence[OF assms] mt_compareRuns_defined[OF assms]
    mt_compareRuns_sym[OF assms] by metis

definition sample_trace :: "string \<Rightarrow> int \<Rightarrow> string \<Rightarrow> string \<Rightarrow> trace_record" where
  "sample_trace run n from to =
     \<lparr>tc_id = ''tr'', tc_loopRunId = run, tc_loopId = ''doc.approval'', tc_sequence = n,
      tc_timestamp = n, tc_type = TCompleted, tc_fromState = Some from, tc_toState = Some to,
      tc_transitionId = Some ''t'', tc_actor = actor ''ann'' Human, tc_inputHash = [],
      tc_input = JUndef, tc_output = JUndef, tc_guards = [], tc_evidence = JUndef,
      tc_durationMs = 0, tc_blocked = False, tc_blockReason = None, tc_governed = False,
      tc_tenantId = ''t''\<rparr>"

lemma compare_runs_divergence_witness:
  "\<exists>cmp. mt_compareRuns (write_each mt_write mt_empty [sample_trace ''r1'' 0 ''a'' ''b'',
       sample_trace ''r2'' 0 ''a'' ''c'']) ''r1'' ''r2'' = Inr cmp \<and> rc_divergencePoint cmp = Some 0"
proof -
  let ?t = "write_each mt_write mt_empty [sample_trace ''r1'' 0 ''a'' ''b'', sample_trace ''r2'' 0 ''a'' ''c'']"
  have "case mt_compareRuns ?t ''r1'' ''r2'' of Inl _ \<Rightarrow> False | Inr _ \<Rightarrow> True" by code_simp
  then obtain cmp where cmp: "mt_compareRuns ?t ''r1'' ''r2'' = Inr cmp" by (auto split: sum.splits)
  have "differs (mt_getRunTrace ?t ''r1'') (mt_getRunTrace ?t ''r2'') 0" by code_simp
  with compare_runs_divergence[OF cmp] cmp show ?thesis by auto
qed

text \<open>
  The residency computed from a trace: for a run whose steps chain, with times that do not
  decrease, the stays are the first state and the targets in order, no stay is negative, and the
  closed stays add up to the time from entering the first state to the last step.
\<close>

theorem trace_residency_adds_up:
  assumes "s \<noteq> []" "steps_chain s since rs"
    and "tc_type st = TLoopStarted" "tc_toState st = Some s" "tc_timestamp st = since"
  shows "map ty_state (computeStateResidency toIso (st # rs)) = s # map (\<lambda>r. the (tc_toState r)) rs \<and>
    (\<forall>x \<in> set (computeStateResidency toIso (st # rs)). \<forall>n. ty_durationMs x = Some n \<longrightarrow> 0 \<le> n) \<and>
    sum_list (List.map_filter ty_durationMs (computeStateResidency toIso (st # rs))) =
      (if rs = [] then 0 else tc_timestamp (last rs) - since)"
  using residency_from_chain[OF assms(1,2), of toIso] assms
  by (simp add: computeStateResidency_def state_name_def)

lemma trace_residency_adds_up_witness:
  "sum_list (List.map_filter ty_durationMs (computeStateResidency (\<lambda>_. [])
     [(sample_trace ''r'' 0 ''a'' ''a'')\<lparr>tc_type := TLoopStarted\<rparr>, sample_trace ''r'' 5 ''a'' ''b'',
      sample_trace ''r'' 7 ''b'' ''c''])) = 7"
proof -
  have "steps_chain ''a'' 0 [sample_trace ''r'' 5 ''a'' ''b'', sample_trace ''r'' 7 ''b'' ''c'']"
    by (simp add: sample_trace_def is_step_def)
  from trace_residency_adds_up[OF _ this, of "(sample_trace ''r'' 0 ''a'' ''a'')\<lparr>tc_type := TLoopStarted\<rparr>"]
  show ?thesis by (simp add: sample_trace_def)
qed

text \<open>
  The learning signal counts the transitions by kind of actor: each kind occurs once in the
  summary, with the number of its transitions, and the counts add up to the transition count.
\<close>

theorem learning_signal_counts_actors:
  "let sig = extractLearningSignal b completed hist d predicted in
   distinct (map fst (lsig_actorSummary sig)) \<and>
   sum_list (map snd (lsig_actorSummary sig)) = lsig_transitionCount sig \<and>
   (case map_of (lsig_actorSummary sig) ty of None \<Rightarrow> 0 | Some n \<Rightarrow> n) =
     length (filter (\<lambda>t. actor_type (ex_actor t) = ty) hist)"
  using actor_summary_gen[of "[]" hist] actor_summary_counts_gen[of hist "[]" ty]
  by (simp add: extractLearningSignal_def Let_def actor_summary_def)

end
